(* ===== verification/Prelude.thy ===== *)
theory Prelude
  imports Main
begin

section \<open>Shared vocabulary of the development\<close>

text \<open>
  What every component theory shares: validators as chains of early returns, operations
  that thread a state and may return an error, and the Hoare-style triples that carry the
  component proofs.
  A Go validator \<open>if c1 { return e1 }; if c2 { return e2 }; ...; return nil\<close> is the
  expression \<open>first_err [check c1 e1, check c2 e2, ...]\<close>: the first guard that holds
  decides the result and \<open>None\<close> is the nil error.
\<close>

named_theorems guard_simps

type_synonym 'e outcome = "'e option"
type_synonym ('e, 'a) result = "'e + 'a"

subsection \<open>Validators\<close>

definition check :: "bool \<Rightarrow> 'e \<Rightarrow> 'e outcome" where
  "check c e = (if c then Some e else None)"

fun first_err :: "'e outcome list \<Rightarrow> 'e outcome" where
  "first_err [] = None"
| "first_err (None # rest) = first_err rest"
| "first_err (Some e # rest) = Some e"

lemma check_None [simp, guard_simps]: "check c e = None \<longleftrightarrow> \<not> c"
  by (simp add: check_def)

lemma check_Some [simp, guard_simps]: "check c e = Some e' \<longleftrightarrow> c \<and> e' = e"
  by (auto simp: check_def)

lemma Some_check [simp, guard_simps]: "Some e' = check c e \<longleftrightarrow> c \<and> e' = e"
  by (auto simp: check_def)

lemma check_True [simp]: "check True e = Some e"
  by (simp add: check_def)

lemma check_False [simp]: "check False e = None"
  by (simp add: check_def)

lemma first_err_Cons_None [simp, guard_simps]:
  "first_err (x # xs) = None \<longleftrightarrow> x = None \<and> first_err xs = None"
  by (cases x) auto

lemma first_err_Cons_Some [guard_simps]:
  "first_err (x # xs) = Some e \<longleftrightarrow> x = Some e \<or> (x = None \<and> first_err xs = Some e)"
  by (cases x) auto

lemma first_err_None_iff: "first_err xs = None \<longleftrightarrow> set xs \<subseteq> {None}"
  by (induction xs) auto

lemma first_err_in: "first_err xs = Some e \<Longrightarrow> Some e \<in> set xs"
  by (induction xs rule: first_err.induct) auto

text \<open>Every error of a chain satisfies what each guard's error satisfies.\<close>

lemma first_err_all:
  assumes "first_err xs = Some e" and "\<And>e'. Some e' \<in> set xs \<Longrightarrow> P e'"
  shows "P e"
  using assms(2)[OF first_err_in[OF assms(1)]] .

subsection \<open>Results\<close>

definition res_bind :: "('e, 'a) result \<Rightarrow> ('a \<Rightarrow> ('e, 'b) result) \<Rightarrow> ('e, 'b) result" where
  "res_bind r f = (case r of Inl e \<Rightarrow> Inl e | Inr a \<Rightarrow> f a)"

lemma res_bind_simps [simp]:
  "res_bind (Inl e) f = Inl e"
  "res_bind (Inr a) f = f a"
  by (simp_all add: res_bind_def)

lemma res_bind_Inr: "res_bind r f = Inr b \<longleftrightarrow> (\<exists>a. r = Inr a \<and> f a = Inr b)"
  by (auto simp: res_bind_def split: sum.splits)

lemma res_bind_Inl: "res_bind r f = Inl e \<longleftrightarrow> r = Inl e \<or> (\<exists>a. r = Inr a \<and> f a = Inl e)"
  by (auto simp: res_bind_def split: sum.splits)

text \<open>A loop that threads an accumulator and stops at the first error.\<close>

fun res_fold :: "('a \<Rightarrow> 'b \<Rightarrow> ('e, 'b) result) \<Rightarrow> 'a list \<Rightarrow> 'b \<Rightarrow> ('e, 'b) result" where
  "res_fold f [] b = Inr b"
| "res_fold f (x # xs) b = res_bind (f x b) (res_fold f xs)"

lemma res_fold_append: "res_fold f (xs @ ys) b = res_bind (res_fold f xs b) (res_fold f ys)"
  by (induction xs arbitrary: b) (auto simp: res_bind_def split: sum.splits)

lemma res_fold_map: "res_fold f (map g xs) b = res_fold (\<lambda>x. f (g x)) xs b"
  by (induction xs arbitrary: b) (auto simp: res_bind_def split: sum.splits)

text \<open>An invariant of such a loop, over the elements seen so far.\<close>

lemma res_fold_inv:
  assumes "res_fold f xs b = Inr c" and "P done b"
    and "\<And>x b c done. f x b = Inr c \<Longrightarrow> P done b \<Longrightarrow> P (done @ [x]) c"
  shows "P (done @ xs) c"
  using assms(1,2)
proof (induction xs arbitrary: b "done")
  case (Cons x xs)
  then obtain b' where b: "f x b = Inr b'" and r: "res_fold f xs b' = Inr c"
    by (auto simp: res_bind_Inr)
  from Cons.IH[OF r assms(3)[OF b Cons.prems(2)]] show ?case by simp
qed simp

definition of_outcome :: "'e outcome \<Rightarrow> 'a \<Rightarrow> ('e, 'a) result" where
  "of_outcome x a = (case x of None \<Rightarrow> Inr a | Some e \<Rightarrow> Inl e)"

lemma of_outcome_simps [simp]:
  "of_outcome None a = Inr a"
  "of_outcome (Some e) a = Inl e"
  by (simp_all add: of_outcome_def)

lemma of_outcome_Inr [simp]: "of_outcome x a = Inr b \<longleftrightarrow> x = None \<and> b = a"
  by (cases x) auto

definition err_of :: "('e, 'a) result \<Rightarrow> 'e outcome" where
  "err_of r = (case r of Inl e \<Rightarrow> Some e | Inr _ \<Rightarrow> None)"

lemma err_of_simps [simp]:
  "err_of (Inl e) = Some e"
  "err_of (Inr a) = None"
  by (simp_all add: err_of_def)

lemma err_of_None: "err_of r = None \<longleftrightarrow> (\<exists>a. r = Inr a)"
  by (cases r) auto

lemma err_of_Some: "err_of r = Some e \<longleftrightarrow> r = Inl e"
  by (cases r) auto

subsection \<open>Operations on a state that may fail\<close>

text \<open>
  An operation takes the state and returns a result and the new state: a failed operation
  may already have changed the state, as a Go method that returns an error after its first
  write has.
\<close>

type_synonym ('s, 'e, 'a) op = "'s \<Rightarrow> ('e, 'a) result \<times> 's"

definition ret :: "'a \<Rightarrow> ('s, 'e, 'a) op" where
  "ret a s = (Inr a, s)"

definition raise :: "'e \<Rightarrow> ('s, 'e, 'a) op" where
  "raise e s = (Inl e, s)"

definition andthen :: "('s, 'e, 'a) op \<Rightarrow> ('a \<Rightarrow> ('s, 'e, 'b) op) \<Rightarrow> ('s, 'e, 'b) op" where
  "andthen m f s = (case m s of (Inl e, t) \<Rightarrow> (Inl e, t) | (Inr a, t) \<Rightarrow> f a t)"

definition handle :: "('s, 'e, 'a) op \<Rightarrow> ('e \<Rightarrow> ('s, 'e, 'b) op) \<Rightarrow> ('a \<Rightarrow> ('s, 'e, 'b) op)
    \<Rightarrow> ('s, 'e, 'b) op" where
  "handle m h f s = (case m s of (Inl e, t) \<Rightarrow> h e t | (Inr a, t) \<Rightarrow> f a t)"

definition gets :: "('s \<Rightarrow> 'a) \<Rightarrow> ('s, 'e, 'a) op" where
  "gets f s = (Inr (f s), s)"

definition modify :: "('s \<Rightarrow> 's) \<Rightarrow> ('s, 'e, unit) op" where
  "modify f s = (Inr (), f s)"

definition lift_res :: "('e, 'a) result \<Rightarrow> ('s, 'e, 'a) op" where
  "lift_res r s = (r, s)"

definition lift_out :: "'e outcome \<Rightarrow> ('s, 'e, unit) op" where
  "lift_out x s = (of_outcome x (), s)"

text \<open>An operation chosen by the state it starts in.\<close>

definition reads :: "('s \<Rightarrow> ('s, 'e, 'a) op) \<Rightarrow> ('s, 'e, 'a) op" where
  "reads f s = f s s"

text \<open>A loop over a list that stops at the first error.\<close>

fun each :: "('a \<Rightarrow> ('s, 'e, unit) op) \<Rightarrow> 'a list \<Rightarrow> ('s, 'e, unit) op" where
  "each f [] = ret ()"
| "each f (x # xs) = andthen (f x) (\<lambda>_. each f xs)"

lemmas op_defs = reads_def ret_def raise_def andthen_def handle_def gets_def modify_def lift_res_def
  lift_out_def

lemma andthen_Inr:
  "andthen m f s = (Inr b, t) \<longleftrightarrow> (\<exists>a u. m s = (Inr a, u) \<and> f a u = (Inr b, t))"
  by (auto simp: andthen_def split: prod.splits sum.splits)

lemma andthen_Inl:
  "andthen m f s = (Inl e, t) \<longleftrightarrow>
   m s = (Inl e, t) \<or> (\<exists>a u. m s = (Inr a, u) \<and> f a u = (Inl e, t))"
  by (auto simp: andthen_def split: prod.splits sum.splits)

lemma handle_Inl:
  "handle m h f s = (Inl e, t) \<longleftrightarrow>
   (\<exists>a u. m s = (Inr a, u) \<and> f a u = (Inl e, t)) \<or> (\<exists>e' u. m s = (Inl e', u) \<and> h e' u = (Inl e, t))"
  by (auto simp: handle_def split: prod.splits sum.splits)

lemma handle_Inr:
  "handle m h f s = (Inr b, t) \<longleftrightarrow>
   (\<exists>a u. m s = (Inr a, u) \<and> f a u = (Inr b, t)) \<or> (\<exists>e u. m s = (Inl e, u) \<and> h e u = (Inr b, t))"
  by (auto simp: handle_def split: prod.splits sum.splits)

lemma lift_out_Inr [simp]: "lift_out x s = (Inr a, t) \<longleftrightarrow> x = None \<and> t = s"
  by (cases x) (auto simp: lift_out_def)

lemma lift_res_Inr [simp]: "lift_res r s = (Inr a, t) \<longleftrightarrow> r = Inr a \<and> t = s"
  by (auto simp: lift_res_def)

lemma ret_Inr [simp]: "ret a s = (Inr b, t) \<longleftrightarrow> b = a \<and> t = s"
  by (auto simp: ret_def)

lemma raise_Inr [simp]: "raise e s \<noteq> (Inr b, t)"
  by (simp add: raise_def)

subsection \<open>Triples\<close>

text \<open>
  \<open>triple P m Q E\<close>: from a state with \<open>P\<close>, a successful run of \<open>m\<close> ends in \<open>Q\<close> and a
  failed one in \<open>E\<close>. Operations are total functions, so a triple is a statement about every
  run.
\<close>

definition triple :: "('s \<Rightarrow> bool) \<Rightarrow> ('s, 'e, 'a) op \<Rightarrow> ('a \<Rightarrow> 's \<Rightarrow> bool)
    \<Rightarrow> ('e \<Rightarrow> 's \<Rightarrow> bool) \<Rightarrow> bool" where
  "triple P m Q E \<longleftrightarrow>
     (\<forall>s. P s \<longrightarrow> (case m s of (Inr a, t) \<Rightarrow> Q a t | (Inl e, t) \<Rightarrow> E e t))"

lemma tripleI:
  assumes "\<And>s a t. P s \<Longrightarrow> m s = (Inr a, t) \<Longrightarrow> Q a t"
    and "\<And>s e t. P s \<Longrightarrow> m s = (Inl e, t) \<Longrightarrow> E e t"
  shows "triple P m Q E"
  using assms by (fastforce simp: triple_def split: sum.splits prod.splits)

lemma triple_Inr: "triple P m Q E \<Longrightarrow> P s \<Longrightarrow> m s = (Inr a, t) \<Longrightarrow> Q a t"
  by (fastforce simp: triple_def)

lemma triple_Inl: "triple P m Q E \<Longrightarrow> P s \<Longrightarrow> m s = (Inl e, t) \<Longrightarrow> E e t"
  by (fastforce simp: triple_def)

lemma triple_conseq:
  assumes "triple P' m Q' E'" and "\<And>s. P s \<Longrightarrow> P' s"
    and "\<And>a s. Q' a s \<Longrightarrow> Q a s" and "\<And>e s. E' e s \<Longrightarrow> E e s"
  shows "triple P m Q E"
  using assms by (fastforce simp: triple_def split: sum.splits prod.splits)

lemma triple_ret: "(\<And>s. P s \<Longrightarrow> Q a s) \<Longrightarrow> triple P (ret a) Q E"
  by (simp add: triple_def ret_def)

lemma triple_raise: "(\<And>s. P s \<Longrightarrow> E e s) \<Longrightarrow> triple P (raise e) Q E"
  by (simp add: triple_def raise_def)

lemma triple_andthen:
  assumes "triple P m R E" and "\<And>a. triple (R a) (f a) Q E"
  shows "triple P (andthen m f) Q E"
  using assms by (fastforce simp: triple_def andthen_def split: sum.splits prod.splits)

lemma triple_handle:
  assumes "triple P m R F" and "\<And>a. triple (R a) (f a) Q E"
    and "\<And>e. triple (F e) (h e) Q E"
  shows "triple P (handle m h f) Q E"
  using assms by (fastforce simp: triple_def handle_def split: sum.splits prod.splits)

lemma triple_gets: "(\<And>s. P s \<Longrightarrow> Q (f s) s) \<Longrightarrow> triple P (gets f) Q E"
  by (simp add: triple_def gets_def)

lemma triple_modify: "(\<And>s. P s \<Longrightarrow> Q () (f s)) \<Longrightarrow> triple P (modify f) Q E"
  by (simp add: triple_def modify_def)

lemma triple_lift_res:
  assumes "\<And>s a. P s \<Longrightarrow> r = Inr a \<Longrightarrow> Q a s" and "\<And>s e. P s \<Longrightarrow> r = Inl e \<Longrightarrow> E e s"
  shows "triple P (lift_res r) Q E"
  using assms by (cases r) (auto simp: triple_def lift_res_def)

lemma triple_lift_out:
  assumes "\<And>s. P s \<Longrightarrow> x = None \<Longrightarrow> Q () s" and "\<And>s e. P s \<Longrightarrow> x = Some e \<Longrightarrow> E e s"
  shows "triple P (lift_out x) Q E"
  using assms by (cases x) (auto simp: triple_def lift_out_def)

lemma triple_if:
  assumes "c \<Longrightarrow> triple P m Q E" and "\<not> c \<Longrightarrow> triple P n Q E"
  shows "triple P (if c then m else n) Q E"
  using assms by simp

lemmas triple_intros = triple_ret triple_raise triple_gets triple_modify triple_lift_res
  triple_lift_out

text \<open>An invariant every run of an operation keeps, whatever its result.\<close>

definition keeps :: "('s \<Rightarrow> bool) \<Rightarrow> ('s, 'e, 'a) op \<Rightarrow> bool" where
  "keeps I m \<longleftrightarrow> (\<forall>s. I s \<longrightarrow> I (snd (m s)))"

lemma keeps_triple: "keeps I m \<longleftrightarrow> triple I m (\<lambda>_. I) (\<lambda>_. I)"
  unfolding keeps_def triple_def
  by (intro all_cong1 imp_cong refl) (simp split: prod.splits sum.splits)

lemma keepsD: "keeps I m \<Longrightarrow> I s \<Longrightarrow> I (snd (m s))"
  by (simp add: keeps_def)

lemma keeps_Inr: "keeps I m \<Longrightarrow> m s = (Inr a, t) \<Longrightarrow> I s \<Longrightarrow> I t"
  by (metis keepsD snd_conv)

lemma keeps_ret [simp, intro]: "keeps I (ret a)"
  by (simp add: keeps_def ret_def)

lemma keeps_raise [simp, intro]: "keeps I (raise e)"
  by (simp add: keeps_def raise_def)

lemma keeps_gets [simp, intro]: "keeps I (gets f)"
  by (simp add: keeps_def gets_def)

lemma keeps_lift_res [simp, intro]: "keeps I (lift_res r)"
  by (simp add: keeps_def lift_res_def)

lemma keeps_lift_out [simp, intro]: "keeps I (lift_out x)"
  by (simp add: keeps_def lift_out_def)

lemma keeps_andthen [intro]: "keeps I m \<Longrightarrow> (\<And>a. keeps I (f a)) \<Longrightarrow> keeps I (andthen m f)"
  by (fastforce simp: keeps_def andthen_def split: sum.splits prod.splits)

lemma keeps_handle [intro]:
  "keeps I m \<Longrightarrow> (\<And>a. keeps I (f a)) \<Longrightarrow> (\<And>e. keeps I (h e)) \<Longrightarrow> keeps I (handle m h f)"
  by (fastforce simp: keeps_def handle_def split: sum.splits prod.splits)

lemma keeps_if [intro]:
  "(c \<Longrightarrow> keeps I m) \<Longrightarrow> (\<not> c \<Longrightarrow> keeps I n) \<Longrightarrow> keeps I (if c then m else n)"
  by simp

lemma keeps_reads: "(\<And>s. keeps I (f s)) \<Longrightarrow> keeps I (reads f)"
  by (simp add: keeps_def reads_def)

lemma keeps_modify: "(\<And>s. I s \<Longrightarrow> I (f s)) \<Longrightarrow> keeps I (modify f)"
  by (simp add: keeps_def modify_def)

lemma keeps_case_option: "(x = None \<Longrightarrow> keeps I m) \<Longrightarrow> (\<And>a. x = Some a \<Longrightarrow> keeps I (f a))
    \<Longrightarrow> keeps I (case x of None \<Rightarrow> m | Some a \<Rightarrow> f a)"
  by (cases x) auto

lemma keeps_case_sum: "(\<And>e. x = Inl e \<Longrightarrow> keeps I (f e)) \<Longrightarrow> (\<And>a. x = Inr a \<Longrightarrow> keeps I (g a))
    \<Longrightarrow> keeps I (case x of Inl e \<Rightarrow> f e | Inr a \<Rightarrow> g a)"
  by (cases x) auto

lemma keeps_case_prod: "(\<And>a b. x = (a, b) \<Longrightarrow> keeps I (f a b)) \<Longrightarrow> keeps I (case x of (a, b) \<Rightarrow> f a b)"
  by (cases x) auto

lemma keeps_Let: "(\<And>x. x = v \<Longrightarrow> keeps I (f x)) \<Longrightarrow> keeps I (let x = v in f x)"
  by (simp add: Let_def)

lemma keeps_each: "(\<And>x. x \<in> set xs \<Longrightarrow> keeps I (f x)) \<Longrightarrow> keeps I (each f xs)"
  by (induction xs) auto

text \<open>The structural rules of \<open>keeps\<close>, for \<open>intro\<close>.\<close>

lemmas keeps_rules = keeps_ret keeps_raise keeps_gets keeps_lift_res keeps_lift_out keeps_if
  keeps_andthen keeps_handle keeps_reads keeps_case_option keeps_case_sum keeps_case_prod
  keeps_Let keeps_each allI impI

subsection \<open>Lists and maps\<close>

lemma map_of_filter_in:
  "P k \<Longrightarrow> map_of (filter (\<lambda>(k, v). P k) xs) k = map_of xs k"
  by (induction xs) auto

lemma drop_length_suffix: "length xs \<le> n + k \<Longrightarrow> length (drop k xs) \<le> n"
  by simp

end
