(* ===== verification/GoText.thy ===== *)
theory GoText
  imports Prelude
begin

section \<open>Go strings: bytes, UTF-8 and white space\<close>

text \<open>
  A Go string is a sequence of bytes, here a \<open>string\<close> (each \<open>char\<close> one byte). This theory
  models what the code uses of the standard packages \<^verbatim>\<open>unicode/utf8\<close>, \<^verbatim>\<open>strings\<close>
  and \<^verbatim>\<open>unicode\<close>: decoding a string into runes (with the replacement rune for an
  ill-formed byte), \<^verbatim>\<open>utf8.ValidString\<close>, \<^verbatim>\<open>utf8.RuneCountInString\<close>,
  \<^verbatim>\<open>unicode.IsSpace\<close>, \<^verbatim>\<open>strings.TrimSpace\<close>, \<^verbatim>\<open>strings.Map\<close> with a
  dropping function, \<^verbatim>\<open>strings.HasPrefix\<close>, \<^verbatim>\<open>strings.Cut\<close>.
  The table behind \<^verbatim>\<open>unicode.IsPrint\<close> is not in the repository: the definitions
  that use it take it as the argument \<open>pr\<close>, a predicate on runes.
\<close>

subsection \<open>Decoding\<close>

definition cont_byte :: "nat \<Rightarrow> bool" where
  "cont_byte b \<longleftrightarrow> 128 \<le> b \<and> b \<le> 191"

fun utf8_head :: "nat list \<Rightarrow> (nat \<times> nat) option" where
  "utf8_head [] = None"
| "utf8_head (a # bs) =
     (if a < 128 then Some (a, 1)
      else if a < 194 then None
      else if a < 224 then
        (case bs of
           b # _ \<Rightarrow> (if cont_byte b then Some ((a - 192) * 64 + (b - 128), 2) else None)
         | _ \<Rightarrow> None)
      else if a < 240 then
        (case bs of
           b # c # _ \<Rightarrow>
             (if (if a = 224 then 160 else 128) \<le> b \<and> b \<le> (if a = 237 then 159 else 191)
                 \<and> cont_byte c
              then Some ((a - 224) * 4096 + (b - 128) * 64 + (c - 128), 3) else None)
         | _ \<Rightarrow> None)
      else if a < 245 then
        (case bs of
           b # c # d # _ \<Rightarrow>
             (if (if a = 240 then 144 else 128) \<le> b \<and> b \<le> (if a = 244 then 143 else 191)
                 \<and> cont_byte c \<and> cont_byte d
              then Some ((a - 240) * 262144 + (b - 128) * 4096 + (c - 128) * 64 + (d - 128), 4)
              else None)
         | _ \<Rightarrow> None)
      else None)"

lemma utf8_head_width: "utf8_head bs = Some (r, w) \<Longrightarrow> 1 \<le> w \<and> w \<le> length bs \<and> w \<le> 4"
  by (cases bs) (auto split: if_splits list.splits)

lemma utf8_head_width_pos: "utf8_head bs = Some (r, w) \<Longrightarrow> 0 < w"
  using utf8_head_width by fastforce

declare utf8_head.simps [simp del]

definition decode_rune :: "string \<Rightarrow> (nat \<times> nat) option" where
  "decode_rune s = utf8_head (map of_char (take 4 s))"

lemma decode_rune_width: "decode_rune s = Some (r, w) \<Longrightarrow> 0 < w \<and> w \<le> length s"
  using utf8_head_width[of "map of_char (take 4 s)"] by (fastforce simp: decode_rune_def)

definition rune_error :: nat where
  "rune_error = 65533"

text \<open>
  The segments of a string: for each iteration of \<^verbatim>\<open>for _, r := range s\<close> the rune, the
  bytes it stands for and whether they are well formed.
\<close>

function segs :: "string \<Rightarrow> (nat \<times> string \<times> bool) list" where
  "segs s =
     (if s = [] then []
      else case decode_rune s of
        Some (r, w) \<Rightarrow> (r, take w s, True) # segs (drop w s)
      | None \<Rightarrow> (rune_error, take 1 s, False) # segs (drop 1 s))"
  by pat_completeness auto
termination
  by (relation "measure length") (auto dest: decode_rune_width)

declare segs.simps [simp del]

lemma segs_Nil [simp]: "segs [] = []"
  by (simp add: segs.simps)

lemma segs_Some:
  "decode_rune s = Some (r, w) \<Longrightarrow> segs s = (r, take w s, True) # segs (drop w s)"
  by (subst segs.simps) (auto dest: decode_rune_width)

lemma segs_None:
  "s \<noteq> [] \<Longrightarrow> decode_rune s = None \<Longrightarrow>
   segs s = (rune_error, take 1 s, False) # segs (drop 1 s)"
  by (subst segs.simps) simp

text \<open>Induction over the segments of a string.\<close>

lemma segs_induct [case_names Nil ok bad]:
  assumes "P []"
    and "\<And>s r w. decode_rune s = Some (r, w) \<Longrightarrow> s \<noteq> [] \<Longrightarrow> P (drop w s) \<Longrightarrow> P s"
    and "\<And>s. s \<noteq> [] \<Longrightarrow> decode_rune s = None \<Longrightarrow> P (drop 1 s) \<Longrightarrow> P s"
  shows "P s"
proof (induction s rule: length_induct)
  case (1 s)
  show ?case
  proof (cases "s = []")
    case False
    show ?thesis
    proof (cases "decode_rune s")
      case None
      then show ?thesis using False 1 assms(3)[of s] by simp
    next
      case (Some rw)
      obtain r w where rw: "rw = (r, w)" by (cases rw)
      with Some have "0 < w" "w \<le> length s" using decode_rune_width by auto
      then show ?thesis using False 1 Some rw assms(2)[of s r w] by simp
    qed
  qed (simp add: assms(1))
qed

definition go_runes :: "string \<Rightarrow> nat list" where
  "go_runes s = map fst (segs s)"

definition valid_utf8 :: "string \<Rightarrow> bool" where
  "valid_utf8 s \<longleftrightarrow> list_all (\<lambda>(r, b, ok). ok) (segs s)"

definition rune_count :: "string \<Rightarrow> nat" where
  "rune_count s = length (segs s)"

lemma rune_count_runes: "rune_count s = length (go_runes s)"
  by (simp add: rune_count_def go_runes_def)

lemma segs_concat: "concat (map (\<lambda>(r, b, ok). b) (segs s)) = s"
  by (induction s rule: segs_induct) (simp_all add: segs_Some segs_None)

lemma segs_nonempty: "(r, b, ok) \<in> set (segs s) \<Longrightarrow> b \<noteq> []"
proof (induction s rule: segs_induct)
  case (ok s r' w)
  then show ?case using decode_rune_width[OF ok(1)] by (fastforce simp: segs_Some)
next
  case (bad s)
  then show ?case by (cases s) (auto simp: segs_None)
qed simp

lemma rune_count_le_length: "rune_count s \<le> length s"
proof (induction s rule: segs_induct)
  case (ok s r w)
  then have "rune_count s = Suc (rune_count (drop w s))"
    by (simp add: rune_count_def segs_Some)
  moreover have "length (drop w s) < length s" using decode_rune_width[OF ok(1)] by auto
  ultimately show ?case using ok(3) by linarith
next
  case (bad s)
  then show ?case by (cases s) (simp_all add: rune_count_def segs_None)
qed (simp add: rune_count_def)

subsection \<open>Encoding\<close>

definition scalar :: "nat \<Rightarrow> bool" where
  "scalar r \<longleftrightarrow> r < 55296 \<or> (57344 \<le> r \<and> r < 1114112)"

definition utf8_bytes :: "nat \<Rightarrow> nat list" where
  "utf8_bytes r =
     (if r < 128 then [r]
      else if r < 2048 then [192 + r div 64, 128 + r mod 64]
      else if r < 65536 then [224 + r div 4096, 128 + (r div 64) mod 64, 128 + r mod 64]
      else [240 + r div 262144, 128 + (r div 4096) mod 64, 128 + (r div 64) mod 64,
            128 + r mod 64])"

definition utf8_encode :: "nat \<Rightarrow> string" where
  "utf8_encode r = map char_of (utf8_bytes (if scalar r then r else rune_error))"

lemma utf8_bytes_lt: "scalar r \<Longrightarrow> b \<in> set (utf8_bytes r) \<Longrightarrow> b < 256"
  by (auto simp: utf8_bytes_def scalar_def split: if_splits)

lemma of_char_encode: "scalar r \<Longrightarrow> map of_char (utf8_encode r) = utf8_bytes r"
  using utf8_bytes_lt[of r] by (auto simp: utf8_encode_def intro!: map_idI)

lemma utf8_bytes_length: "length (utf8_bytes r) \<le> 4" "utf8_bytes r \<noteq> []"
  by (auto simp: utf8_bytes_def)

lemma split_4096: "(r div 4096) * 4096 + (r div 64) mod 64 * 64 + r mod 64 = (r::nat)"
proof -
  have "r div 4096 = (r div 64) div 64" by (simp add: div_mult2_eq[symmetric])
  moreover have "r = 64 * (r div 64) + r mod 64" by simp
  moreover have "r div 64 = 64 * ((r div 64) div 64) + (r div 64) mod 64"
    by (simp only: mult_div_mod_eq)
  ultimately show ?thesis by linarith
qed

lemma split_262144:
  "(r div 262144) * 262144 + (r div 4096) mod 64 * 4096 + (r div 64) mod 64 * 64 + r mod 64
   = (r::nat)"
proof -
  have "r div 262144 = (r div 4096) div 64" by (simp add: div_mult2_eq[symmetric])
  moreover have "r div 4096 = 64 * ((r div 4096) div 64) + (r div 4096) mod 64"
    by (simp only: mult_div_mod_eq)
  ultimately show ?thesis using split_4096[of r] by linarith
qed

lemma cont_byte_mod: "cont_byte (128 + x mod 64)"
  using mod_less_divisor[of 64 x] by (simp add: cont_byte_def)

lemma utf8_head_bytes:
  assumes "scalar r"
  shows "utf8_head (utf8_bytes r @ bs) = Some (r, length (utf8_bytes r))"
proof -
  consider "r < 128" | "128 \<le> r" "r < 2048" | "2048 \<le> r" "r < 65536" | "65536 \<le> r" by linarith
  then show ?thesis
  proof cases
    case 1
    then show ?thesis by (simp add: utf8_bytes_def utf8_head.simps)
  next
    case 2
    then have "2 \<le> r div 64" "r div 64 < 32" by auto
    with 2 show ?thesis
      by (simp add: utf8_bytes_def utf8_head.simps cont_byte_mod)
  next
    case 3
    have q: "r div 64 = 64 * (r div 4096) + (r div 64) mod 64"
      using div_mult2_eq[of r 64 64] by simp
    have r: "r = 64 * (r div 64) + r mod 64" "r mod 64 < 64" by simp_all
    have lo: "32 \<le> (r div 64) mod 64" if "r div 4096 = 0" using that q r 3 by linarith
    have hi: "(r div 64) mod 64 \<le> 31" if "r div 4096 = 13"
      using that q r 3 assms unfolding scalar_def by linarith
    have "(r div 64) mod 64 < 64" by simp
    then have "(r div 64) mod 64 \<le> 63" by linarith
    moreover have "r div 4096 < 16" using 3 by auto
    ultimately show ?thesis using 3 lo hi split_4096[of r]
      by (simp add: utf8_bytes_def utf8_head.simps cont_byte_mod)
  next
    case 4
    have top: "r < 1114112" using 4 assms by (auto simp: scalar_def)
    have q: "r div 4096 = 64 * (r div 262144) + (r div 4096) mod 64"
      using div_mult2_eq[of r 4096 64] by simp
    have r: "r = 4096 * (r div 4096) + r mod 4096" "r mod 4096 < 4096" by simp_all
    have lo: "16 \<le> (r div 4096) mod 64" if "r div 262144 = 0" using that q r 4 by linarith
    have hi: "(r div 4096) mod 64 \<le> 15" if "r div 262144 = 4" using that q r top by linarith
    have "(r div 4096) mod 64 < 64" by simp
    then have "(r div 4096) mod 64 \<le> 63" by linarith
    moreover have "r div 262144 < 5" using top by auto
    ultimately show ?thesis using 4 lo hi split_262144[of r]
      by (simp add: utf8_bytes_def utf8_head.simps cont_byte_mod)
  qed
qed

lemma digits64_2: "y < 64 \<Longrightarrow> (x * 64 + y) div 64 = (x::nat) \<and> (x * 64 + y) mod 64 = y"
  by simp

lemma digits64_3:
  assumes "y < 64" and "z < (64::nat)"
  shows "(x * 4096 + y * 64 + z) div 4096 = x"
    and "(x * 4096 + y * 64 + z) div 64 mod 64 = y"
    and "(x * 4096 + y * 64 + z) mod 64 = z"
proof -
  have n: "x * 4096 + y * 64 + z = (x * 64 + y) * 64 + z" by simp
  have d: "(x * 4096 + y * 64 + z) div 64 = x * 64 + y"
    unfolding n using digits64_2[OF assms(2)] by blast
  then show "(x * 4096 + y * 64 + z) div 64 mod 64 = y" using digits64_2[OF assms(1)] by simp
  have "(x * 4096 + y * 64 + z) div 4096 = (x * 4096 + y * 64 + z) div 64 div 64"
    by (simp add: div_mult2_eq[symmetric])
  then show "(x * 4096 + y * 64 + z) div 4096 = x" using d digits64_2[OF assms(1)] by simp
  show "(x * 4096 + y * 64 + z) mod 64 = z"
    unfolding n using digits64_2[OF assms(2)] by blast
qed

lemma digits64_4:
  assumes "y < 64" and "z < 64" and "u < (64::nat)"
  shows "(x * 262144 + y * 4096 + z * 64 + u) div 262144 = x"
    and "(x * 262144 + y * 4096 + z * 64 + u) div 4096 mod 64 = y"
    and "(x * 262144 + y * 4096 + z * 64 + u) div 64 mod 64 = z"
    and "(x * 262144 + y * 4096 + z * 64 + u) mod 64 = u"
proof -
  have n: "x * 262144 + y * 4096 + z * 64 + u = (x * 64 + y) * 4096 + z * 64 + u" by simp
  have d: "(x * 262144 + y * 4096 + z * 64 + u) div 4096 = x * 64 + y"
    unfolding n by (rule digits64_3(1)[OF assms(2,3)])
  then show "(x * 262144 + y * 4096 + z * 64 + u) div 4096 mod 64 = y"
    using digits64_2[OF assms(1)] by simp
  have "(x * 262144 + y * 4096 + z * 64 + u) div 262144
      = (x * 262144 + y * 4096 + z * 64 + u) div 4096 div 64"
    by (simp add: div_mult2_eq[symmetric])
  then show "(x * 262144 + y * 4096 + z * 64 + u) div 262144 = x"
    using d digits64_2[OF assms(1)] by simp
  show "(x * 262144 + y * 4096 + z * 64 + u) div 64 mod 64 = z"
    unfolding n by (rule digits64_3(2)[OF assms(2,3)])
  show "(x * 262144 + y * 4096 + z * 64 + u) mod 64 = u"
    unfolding n by (rule digits64_3(3)[OF assms(2,3)])
qed

lemma cont_byteE:
  assumes "cont_byte b"
  obtains y where "y < 64" and "b = 128 + y"
proof
  show "b - 128 < 64" and "b = 128 + (b - 128)" using assms by (auto simp: cont_byte_def)
qed

lemma utf8_head_inv:
  assumes "utf8_head bs = Some (r, w)"
  shows "scalar r \<and> utf8_bytes r = take w bs"
proof -
  obtain a bs' where bs: "bs = a # bs'" using assms by (cases bs) (auto simp: utf8_head.simps)
  consider (one) "a < 128" | (two) "194 \<le> a" "a < 224" | (three) "224 \<le> a" "a < 240"
    | (four) "240 \<le> a" "a < 245"
    using assms unfolding bs utf8_head.simps by (auto split: if_splits)
  then show ?thesis
  proof cases
    case one
    then show ?thesis using assms by (auto simp: bs utf8_head.simps scalar_def utf8_bytes_def)
  next
    case two
    then obtain b bs'' where b: "bs' = b # bs''" and cb: "cont_byte b"
      and rw: "r = (a - 192) * 64 + (b - 128)" "w = 2"
      using assms unfolding bs utf8_head.simps by (auto split: if_splits list.splits)
    obtain y where y: "y < 64" "b = 128 + y" using cb by (rule cont_byteE)
    define x where "x = a - 192"
    have a: "a = 192 + x" "2 \<le> x" "x < 32" using two by (auto simp: x_def)
    have r: "r = x * 64 + y" using rw y a by simp
    have "128 \<le> r" "r < 2048" using r a y by linarith+
    then show ?thesis using digits64_2[OF y(1), of x] r a y rw b bs
      by (simp add: utf8_bytes_def scalar_def)
  next
    case three
    then obtain b c bs'' where b: "bs' = b # c # bs''" and cb: "cont_byte c"
      and rng: "(if a = 224 then 160 else 128) \<le> b" "b \<le> (if a = 237 then 159 else 191)"
      and rw: "r = (a - 224) * 4096 + (b - 128) * 64 + (c - 128)" "w = 3"
      using assms unfolding bs utf8_head.simps by (auto split: if_splits list.splits)
    obtain z where z: "z < 64" "c = 128 + z" using cb by (rule cont_byteE)
    have "cont_byte b" using rng by (auto simp: cont_byte_def split: if_splits)
    then obtain y where y: "y < 64" "b = 128 + y" by (rule cont_byteE)
    define x where "x = a - 224"
    have a: "a = 224 + x" "x < 16" using three by (auto simp: x_def)
    have r: "r = x * 4096 + y * 64 + z" using rw y z a by simp
    have lo: "x = 0 \<Longrightarrow> 32 \<le> y" and hi: "x = 13 \<Longrightarrow> y \<le> 31" using rng a y by auto
    have "2048 \<le> r" using r lo by (cases "x = 0") linarith+
    moreover have "r < 65536" using r a y z by linarith
    moreover have "scalar r"
    proof (cases "x \<le> 12")
      case True
      then have "r < 55296" using r y z by linarith
      then show ?thesis by (simp add: scalar_def)
    next
      case False
      show ?thesis
      proof (cases "x = 13")
        case True
        then have "r < 55296" using r hi z by linarith
        then show ?thesis by (simp add: scalar_def)
      next
        case no: False
        then have "57344 \<le> r" using False r by linarith
        then show ?thesis using \<open>r < 65536\<close> by (simp add: scalar_def)
      qed
    qed
    ultimately show ?thesis using digits64_3[OF y(1) z(1), of x] r a y z rw b bs
      by (simp add: utf8_bytes_def)
  next
    case four
    then obtain b c d bs'' where b: "bs' = b # c # d # bs''" and cb: "cont_byte c" "cont_byte d"
      and rng: "(if a = 240 then 144 else 128) \<le> b" "b \<le> (if a = 244 then 143 else 191)"
      and rw: "r = (a - 240) * 262144 + (b - 128) * 4096 + (c - 128) * 64 + (d - 128)" "w = 4"
      using assms unfolding bs utf8_head.simps by (auto split: if_splits list.splits)
    obtain z where z: "z < 64" "c = 128 + z" using cb(1) by (rule cont_byteE)
    obtain u where u: "u < 64" "d = 128 + u" using cb(2) by (rule cont_byteE)
    have "cont_byte b" using rng by (auto simp: cont_byte_def split: if_splits)
    then obtain y where y: "y < 64" "b = 128 + y" by (rule cont_byteE)
    define x where "x = a - 240"
    have a: "a = 240 + x" "x < 5" using four by (auto simp: x_def)
    have r: "r = x * 262144 + y * 4096 + z * 64 + u" using rw y z u a by simp
    have lo: "x = 0 \<Longrightarrow> 16 \<le> y" and hi: "x = 4 \<Longrightarrow> y \<le> 15" using rng a y by auto
    have "65536 \<le> r" using r lo by (cases "x = 0") linarith+
    moreover have "r < 1114112"
    proof (cases "x = 4")
      case True
      then show ?thesis using r hi z u by linarith
    next
      case False
      then show ?thesis using r a y z u by linarith
    qed
    ultimately show ?thesis using digits64_4[OF y(1) z(1) u(1), of x] r a y z u rw b bs
      by (simp add: utf8_bytes_def scalar_def)
  qed
qed

lemma decode_rune_inv:
  assumes "decode_rune s = Some (r, w)"
  shows "scalar r" and "utf8_encode r = take w s"
proof -
  have h: "utf8_head (map of_char (take 4 s)) = Some (r, w)"
    using assms by (simp add: decode_rune_def)
  have inv: "scalar r \<and> utf8_bytes r = take w (map of_char (take 4 s))"
    by (rule utf8_head_inv[OF h])
  have "w \<le> 4" using utf8_head_width[OF h] by blast
  then have "utf8_bytes r = map of_char (take w s)" using inv by (simp add: take_map min_def)
  then show "scalar r" and "utf8_encode r = take w s"
    using inv by (simp_all add: utf8_encode_def comp_def)
qed

lemma decode_rune_encode:
  assumes "scalar r"
  shows "decode_rune (utf8_encode r @ s) = Some (r, length (utf8_encode r))"
proof -
  have "map of_char (take 4 (utf8_encode r @ s))
      = utf8_bytes r @ map of_char (take (4 - length (utf8_bytes r)) s)"
    using utf8_bytes_length[of r] of_char_encode[OF assms] assms
    by (simp add: take_map[symmetric]) (simp add: utf8_encode_def)
  then show ?thesis using utf8_head_bytes[OF assms] assms
    by (simp add: decode_rune_def) (simp add: utf8_encode_def)
qed

lemma encode_nonempty [simp]: "utf8_encode r \<noteq> []"
  using utf8_bytes_length(2) by (auto simp: utf8_encode_def)

lemma segs_encode:
  assumes "scalar r"
  shows "segs (utf8_encode r @ s) = (r, utf8_encode r, True) # segs s"
  using segs_Some[OF decode_rune_encode[OF assms]] by simp

lemma decode_rune_ascii:
  assumes "(of_char c :: nat) < 128"
  shows "decode_rune (c # s) = Some (of_char c, 1)"
proof -
  have "scalar (of_char c)" "utf8_encode (of_char c) = [c]"
    using assms by (auto simp: scalar_def utf8_encode_def utf8_bytes_def)
  then show ?thesis using decode_rune_encode[of "of_char c" s] by simp
qed

lemma segs_ascii:
  "(of_char c :: nat) < 128 \<Longrightarrow> segs (c # s) = (of_char c, [c], True) # segs s"
  using segs_Some[OF decode_rune_ascii[of c s]] by simp

lemma go_runes_ascii:
  "list_all (\<lambda>c. (of_char c :: nat) < 128) s \<Longrightarrow> go_runes s = map of_char s"
  by (induction s) (simp_all add: go_runes_def segs_ascii)

lemma valid_utf8_ascii: "list_all (\<lambda>c. (of_char c :: nat) < 128) s \<Longrightarrow> valid_utf8 s"
  by (induction s) (simp_all add: valid_utf8_def segs_ascii)

definition go_string :: "nat list \<Rightarrow> string" where
  "go_string rs = concat (map utf8_encode rs)"

lemma segs_go_string:
  "list_all scalar rs \<Longrightarrow> segs (go_string rs) = map (\<lambda>r. (r, utf8_encode r, True)) rs"
  by (induction rs) (simp_all add: go_string_def segs_encode)

lemma go_runes_go_string: "list_all scalar rs \<Longrightarrow> go_runes (go_string rs) = rs"
  by (simp add: go_runes_def segs_go_string comp_def)

lemma valid_go_string: "list_all scalar rs \<Longrightarrow> valid_utf8 (go_string rs)"
  by (simp add: valid_utf8_def segs_go_string list_all_iff)

lemma rune_error_scalar [simp]: "scalar rune_error"
  by (simp add: scalar_def rune_error_def)

lemma go_runes_scalar: "list_all scalar (go_runes s)"
proof (induction s rule: segs_induct)
  case (ok s r w)
  then show ?case using decode_rune_inv(1)[OF ok(1)] by (simp add: go_runes_def segs_Some)
next
  case (bad s)
  then show ?case by (simp add: go_runes_def segs_None)
qed (simp add: go_runes_def)

text \<open>A well-formed string is the encoding of its runes.\<close>

lemma go_string_go_runes: "valid_utf8 s \<Longrightarrow> go_string (go_runes s) = s"
proof (induction s rule: segs_induct)
  case (ok s r w)
  have "valid_utf8 (drop w s)" using ok.prems ok(1) by (simp add: valid_utf8_def segs_Some)
  then have "go_string (go_runes (drop w s)) = drop w s" by (rule ok(3))
  then show ?case using decode_rune_inv(2)[OF ok(1)] ok(1)
    by (simp add: go_runes_def segs_Some go_string_def)
next
  case (bad s)
  then show ?case by (simp add: valid_utf8_def segs_None)
qed (simp add: go_runes_def go_string_def)

subsection \<open>White space and trimming\<close>

definition is_space :: "nat \<Rightarrow> bool" where
  "is_space r \<longleftrightarrow> r \<in> {9, 10, 11, 12, 13, 32, 133, 160, 5760, 8232, 8233, 8239, 8287, 12288}
     \<or> (8192 \<le> r \<and> r \<le> 8202)"

definition seg_space :: "nat \<times> string \<times> bool \<Rightarrow> bool" where
  "seg_space x = (case x of (r, b, ok) \<Rightarrow> is_space r)"

text \<open>
  \<^verbatim>\<open>strings.TrimSpace\<close>: the segments before the first and after the last one that is not
  white space are dropped. UTF-8 is self-synchronising, so cutting from the right decodes
  the same segments as the forward scan.
\<close>

definition trim_space :: "string \<Rightarrow> string" where
  "trim_space s =
     concat (map (\<lambda>(r, b, ok). b)
       (rev (dropWhile seg_space (rev (dropWhile seg_space (segs s))))))"

definition canonical_text :: "string \<Rightarrow> bool" where
  "canonical_text s \<longleftrightarrow> trim_space s = s"

lemma trim_space_Nil [simp]: "trim_space [] = []"
  by (simp add: trim_space_def)

lemma canonical_Nil [simp]: "canonical_text []"
  by (simp add: canonical_text_def)

definition has_prefix :: "string \<Rightarrow> string \<Rightarrow> bool" where
  "has_prefix s p \<longleftrightarrow> take (length p) s = p"

lemma has_prefix_append [simp]: "has_prefix (p @ s) p"
  by (simp add: has_prefix_def)

lemma has_prefix_iff: "has_prefix s p \<longleftrightarrow> (\<exists>t. s = p @ t)"
  by (auto simp: has_prefix_def) (metis append_take_drop_id)

text \<open>\<^verbatim>\<open>strings.CutPrefix\<close> and \<^verbatim>\<open>strings.Cut\<close> at one separator byte.\<close>

definition cut_prefix :: "string \<Rightarrow> string \<Rightarrow> string option" where
  "cut_prefix s p = (if has_prefix s p then Some (drop (length p) s) else None)"

lemma cut_prefix_append [simp]: "cut_prefix (p @ s) p = Some s"
  by (simp add: cut_prefix_def)

definition cut_at :: "char \<Rightarrow> string \<Rightarrow> string \<times> string" where
  "cut_at c s = (takeWhile (\<lambda>x. x \<noteq> c) s, drop 1 (dropWhile (\<lambda>x. x \<noteq> c) s))"

definition is_digit :: "char \<Rightarrow> bool" where
  "is_digit c \<longleftrightarrow> c \<in> set ''0123456789''"

definition contains_any :: "string \<Rightarrow> string \<Rightarrow> bool" where
  "contains_any s cs \<longleftrightarrow> list_ex (\<lambda>c. c \<in> set cs) s"

text \<open>The printable runes among ASCII, with which the witnesses instantiate the table.\<close>

definition ascii_print :: "nat \<Rightarrow> bool" where
  "ascii_print r \<longleftrightarrow> 32 \<le> r \<and> r \<le> 126"

end
