(* ===== verification/Base64Url.thy ===== *)
theory Base64Url
  imports GoText
begin

section \<open>Unpadded base64\<close>

text \<open>
  The part of the standard package \<^verbatim>\<open>encoding/base64\<close> the code uses: the unpadded URL
  alphabet, \<^verbatim>\<open>base64.RawURLEncoding\<close>. Decoding skips line breaks, refuses every other
  character outside the alphabet and a length of one modulo four, and drops the unused low
  bits of a final partial group.
\<close>

definition b64_alphabet :: string where
  "b64_alphabet = ''ABCDEFGHIJKLMNOPQRSTUVWXYZabcdefghijklmnopqrstuvwxyz0123456789-_''"

definition b64_char :: "nat \<Rightarrow> char" where
  "b64_char n = b64_alphabet ! n"

fun index_of :: "'a list \<Rightarrow> 'a \<Rightarrow> nat option" where
  "index_of [] x = None"
| "index_of (y # ys) x = (if x = y then Some 0 else map_option Suc (index_of ys x))"

definition b64_val :: "char \<Rightarrow> nat option" where
  "b64_val c = index_of b64_alphabet c"

fun sextets :: "nat list \<Rightarrow> nat list" where
  "sextets [] = []"
| "sextets [a] = [a div 4, (a mod 4) * 16]"
| "sextets [a, b] = [a div 4, (a mod 4) * 16 + b div 16, (b mod 16) * 4]"
| "sextets (a # b # c # rest) =
     a div 4 # ((a mod 4) * 16 + b div 16) # ((b mod 16) * 4 + c div 64) # (c mod 64)
       # sextets rest"

fun unsextets :: "nat list \<Rightarrow> nat list option" where
  "unsextets [] = Some []"
| "unsextets [p] = None"
| "unsextets [p, q] = Some [p * 4 + q div 16]"
| "unsextets [p, q, r] = Some [p * 4 + q div 16, (q mod 16) * 16 + r div 4]"
| "unsextets (p # q # r # s # rest) =
     map_option (\<lambda>bs. (p * 4 + q div 16) # ((q mod 16) * 16 + r div 4) # ((r mod 4) * 64 + s)
       # bs) (unsextets rest)"

definition b64_encode :: "string \<Rightarrow> string" where
  "b64_encode bs = map b64_char (sextets (map of_char bs))"

fun map_all :: "('a \<Rightarrow> 'b option) \<Rightarrow> 'a list \<Rightarrow> 'b list option" where
  "map_all f [] = Some []"
| "map_all f (x # xs) =
     (case f x of None \<Rightarrow> None | Some y \<Rightarrow> map_option ((#) y) (map_all f xs))"

definition b64_decode :: "string \<Rightarrow> string option" where
  "b64_decode s =
     (case map_all b64_val (filter (\<lambda>c. of_char c \<noteq> (10::nat) \<and> of_char c \<noteq> (13::nat)) s) of
        None \<Rightarrow> None
      | Some vs \<Rightarrow> map_option (map char_of) (unsextets vs))"

lemma length_b64_alphabet: "length b64_alphabet = 64"
  by (simp add: b64_alphabet_def)

lemma index_of_nth: "distinct xs \<Longrightarrow> n < length xs \<Longrightarrow> index_of xs (xs ! n) = Some n"
proof (induction xs arbitrary: n)
  case (Cons y ys)
  then show ?case by (cases n) auto
qed simp

lemma b64_val_char: "n < 64 \<Longrightarrow> b64_val (b64_char n) = Some n"
  unfolding b64_val_def b64_char_def
  by (rule index_of_nth) (simp_all add: b64_alphabet_def)

lemma b64_char_in: "n < 64 \<Longrightarrow> b64_char n \<in> set b64_alphabet"
  by (simp add: b64_char_def length_b64_alphabet)

lemma b64_alphabet_no_break:
  "c \<in> set b64_alphabet \<Longrightarrow> of_char c \<noteq> (10::nat) \<and> of_char c \<noteq> (13::nat)"
  by (auto simp: b64_alphabet_def)

lemma sextets_lt: "\<forall>b\<in>set bs. b < 256 \<Longrightarrow> \<forall>v\<in>set (sextets bs). v < 64"
  by (induction bs rule: sextets.induct) auto

lemma unsextets_sextets: "\<forall>b\<in>set bs. b < 256 \<Longrightarrow> unsextets (sextets bs) = Some bs"
proof (induction bs rule: sextets.induct)
  case (2 a)
  then show ?case by simp
next
  case (3 a b)
  have "((a mod 4) * 16 + b div 16) div 16 = a mod 4"
    and "((a mod 4) * 16 + b div 16) mod 16 = b div 16" using 3 by auto
  then show ?case by simp
next
  case (4 a b c rest)
  have "((a mod 4) * 16 + b div 16) div 16 = a mod 4"
    and "((a mod 4) * 16 + b div 16) mod 16 = b div 16"
    and "((b mod 16) * 4 + c div 64) div 4 = b mod 16"
    and "((b mod 16) * 4 + c div 64) mod 4 = c div 64" using 4 by auto
  then show ?case using 4 by simp
qed simp

lemma map_all_map: "(\<And>x. x \<in> set xs \<Longrightarrow> f (g x) = Some x) \<Longrightarrow> map_all f (map g xs) = Some xs"
  by (induction xs) auto

lemma b64_roundtrip: "b64_decode (b64_encode bs) = Some bs"
proof -
  define vs :: "nat list" where "vs = sextets (map of_char bs)"
  have lt: "\<forall>b\<in>set (map of_char bs). b < (256::nat)" by auto
  then have v: "\<forall>v\<in>set vs. v < 64" unfolding vs_def by (rule sextets_lt)
  have "filter (\<lambda>c. of_char c \<noteq> (10::nat) \<and> of_char c \<noteq> (13::nat)) (map b64_char vs)
      = map b64_char vs"
    using v by (intro filter_True ballI) (auto dest!: b64_char_in b64_alphabet_no_break)
  moreover have "map_all b64_val (map b64_char vs) = Some vs"
    using v by (intro map_all_map) (simp add: b64_val_char)
  moreover have "unsextets vs = Some (map of_char bs)"
    unfolding vs_def by (rule unsextets_sextets[OF lt])
  ultimately show ?thesis
    by (simp add: b64_decode_def b64_encode_def vs_def comp_def)
qed

lemma length_sextets: "length (sextets bs) = (length bs * 4 + 2) div 3"
  by (induction bs rule: sextets.induct) auto

lemma length_b64_encode: "length (b64_encode bs) = (length bs * 4 + 2) div 3"
  by (simp add: b64_encode_def length_sextets)

lemma b64_encode_inj: "b64_encode a = b64_encode b \<Longrightarrow> a = b"
  by (metis b64_roundtrip option.inject)

lemma b64_encode_alphabet: "set (b64_encode bs) \<subseteq> set b64_alphabet"
  using sextets_lt[of "map of_char bs"] by (auto simp: b64_encode_def intro!: b64_char_in)

end
