(* ===== verification/GoJson.thy ===== *)
theory GoJson
  imports GoText
begin

section \<open>JSON syntax\<close>

text \<open>
  \<^verbatim>\<open>json.Valid\<close> and the syntax check of \<^verbatim>\<open>json.Unmarshal\<close>: the byte scanner of the Go
  standard library, one state per step function, with the stack of open objects and arrays
  and its nesting bound.
\<close>

datatype jframe = ObjectKey | ObjectValue | ArrayValue

datatype jstate =
    BeginValue | BeginValueOrEmpty | BeginStringOrEmpty | BeginString
  | EndValue | EndTop | InString | InStringEsc | InStringEscU nat
  | Neg | Num1 | Num0 | NumDot | NumDot0 | NumE | NumESign | NumE0
  | InLiteral string | JError

type_synonym jscan = "jstate \<times> jframe list"

definition MaxNestingDepth :: nat where "MaxNestingDepth = 10000"

definition j_space :: "char \<Rightarrow> bool" where
  "j_space c \<longleftrightarrow> c = CHR '' '' \<or> c = CHR 0x09 \<or> c = CHR 0x0D \<or> c = CHR 0x0A"

definition j_hex :: "char \<Rightarrow> bool" where
  "j_hex c \<longleftrightarrow> (let n = (of_char c :: nat)
     in (48 \<le> n \<and> n \<le> 57) \<or> (97 \<le> n \<and> n \<le> 102) \<or> (65 \<le> n \<and> n \<le> 70))"

definition j_push :: "jframe \<Rightarrow> jstate \<Rightarrow> jframe list \<Rightarrow> jscan" where
  "j_push f next stack =
     (if length stack + 1 \<le> MaxNestingDepth then (next, f # stack) else (JError, f # stack))"

definition j_pop :: "jframe list \<Rightarrow> jscan" where
  "j_pop stack = (case stack of [] \<Rightarrow> (JError, []) | [f] \<Rightarrow> (EndTop, [])
     | _ # rest \<Rightarrow> (EndValue, rest))"

definition j_begin_value :: "char \<Rightarrow> jframe list \<Rightarrow> jscan" where
  "j_begin_value c stack =
     (if j_space c then (BeginValue, stack)
      else if c = CHR ''{'' then j_push ObjectKey BeginStringOrEmpty stack
      else if c = CHR ''['' then j_push ArrayValue BeginValueOrEmpty stack
      else if c = CHR 0x22 then (InString, stack)
      else if c = CHR ''-'' then (Neg, stack)
      else if c = CHR ''0'' then (Num0, stack)
      else if c = CHR ''t'' then (InLiteral ''rue'', stack)
      else if c = CHR ''f'' then (InLiteral ''alse'', stack)
      else if c = CHR ''n'' then (InLiteral ''ull'', stack)
      else if is_digit c then (Num1, stack)
      else (JError, stack))"

definition j_begin_string :: "char \<Rightarrow> jframe list \<Rightarrow> jscan" where
  "j_begin_string c stack =
     (if j_space c then (BeginString, stack)
      else if c = CHR 0x22 then (InString, stack) else (JError, stack))"

definition j_end_top :: "char \<Rightarrow> jframe list \<Rightarrow> jscan" where
  "j_end_top c stack = (if j_space c then (EndTop, stack) else (JError, stack))"

definition j_end_value :: "char \<Rightarrow> jframe list \<Rightarrow> jscan" where
  "j_end_value c stack =
     (case stack of
        [] \<Rightarrow> j_end_top c stack
      | f # rest \<Rightarrow>
          if j_space c then (EndValue, stack)
          else (case f of
              ObjectKey \<Rightarrow>
                if c = CHR '':'' then (BeginValue, ObjectValue # rest) else (JError, stack)
            | ObjectValue \<Rightarrow>
                if c = CHR '','' then (BeginString, ObjectKey # rest)
                else if c = CHR ''}'' then j_pop stack else (JError, stack)
            | ArrayValue \<Rightarrow>
                if c = CHR '','' then (BeginValue, stack)
                else if c = CHR '']'' then j_pop stack else (JError, stack)))"

definition j_num0 :: "char \<Rightarrow> jframe list \<Rightarrow> jscan" where
  "j_num0 c stack =
     (if c = CHR ''.'' then (NumDot, stack)
      else if c = CHR ''e'' \<or> c = CHR ''E'' then (NumE, stack)
      else j_end_value c stack)"

definition j_e_sign :: "char \<Rightarrow> jframe list \<Rightarrow> jscan" where
  "j_e_sign c stack = (if is_digit c then (NumE0, stack) else (JError, stack))"

fun j_step :: "jscan \<Rightarrow> char \<Rightarrow> jscan" where
  "j_step (BeginValue, stack) c = j_begin_value c stack"
| "j_step (BeginValueOrEmpty, stack) c =
     (if j_space c then (BeginValueOrEmpty, stack)
      else if c = CHR '']'' then j_end_value c stack else j_begin_value c stack)"
| "j_step (BeginStringOrEmpty, stack) c =
     (if j_space c then (BeginStringOrEmpty, stack)
      else if c = CHR ''}'' then j_end_value c (ObjectValue # tl stack)
      else j_begin_string c stack)"
| "j_step (BeginString, stack) c = j_begin_string c stack"
| "j_step (EndValue, stack) c = j_end_value c stack"
| "j_step (EndTop, stack) c = j_end_top c stack"
| "j_step (InString, stack) c =
     (if c = CHR 0x22 then (EndValue, stack)
      else if c = CHR 0x5C then (InStringEsc, stack)
      else if (of_char c :: nat) < 32 then (JError, stack) else (InString, stack))"
| "j_step (InStringEsc, stack) c =
     (if c \<in> set [CHR ''b'', CHR ''f'', CHR ''n'', CHR ''r'', CHR ''t'', CHR 0x5C, CHR ''/'', CHR 0x22]
      then (InString, stack)
      else if c = CHR ''u'' then (InStringEscU 4, stack) else (JError, stack))"
| "j_step (InStringEscU k, stack) c =
     (if j_hex c then (if k \<le> 1 then (InString, stack) else (InStringEscU (k - 1), stack))
      else (JError, stack))"
| "j_step (Neg, stack) c =
     (if c = CHR ''0'' then (Num0, stack)
      else if is_digit c then (Num1, stack) else (JError, stack))"
| "j_step (Num1, stack) c = (if is_digit c then (Num1, stack) else j_num0 c stack)"
| "j_step (Num0, stack) c = j_num0 c stack"
| "j_step (NumDot, stack) c = (if is_digit c then (NumDot0, stack) else (JError, stack))"
| "j_step (NumDot0, stack) c =
     (if is_digit c then (NumDot0, stack)
      else if c = CHR ''e'' \<or> c = CHR ''E'' then (NumE, stack) else j_end_value c stack)"
| "j_step (NumE, stack) c =
     (if c = CHR ''+'' \<or> c = CHR ''-'' then (NumESign, stack) else j_e_sign c stack)"
| "j_step (NumESign, stack) c = j_e_sign c stack"
| "j_step (NumE0, stack) c = (if is_digit c then (NumE0, stack) else j_end_value c stack)"
| "j_step (InLiteral w, stack) c =
     (case w of
        [] \<Rightarrow> (JError, stack)
      | x # rest \<Rightarrow>
          if c = x then (if rest = [] then (EndValue, stack) else (InLiteral rest, stack))
          else (JError, stack))"
| "j_step (JError, stack) c = (JError, stack)"

text \<open>At the end of the input the scanner takes one more blank.\<close>

definition j_accepts :: "jscan \<Rightarrow> bool" where
  "j_accepts sc \<longleftrightarrow>
     (case sc of (EndTop, _) \<Rightarrow> True | (JError, _) \<Rightarrow> False
      | (EndValue, []) \<Rightarrow> True
      | _ \<Rightarrow> (case j_step sc CHR '' '' of (EndTop, _) \<Rightarrow> True | _ \<Rightarrow> False))"

definition json_valid :: "string \<Rightarrow> bool" where
  "json_valid s = j_accepts (foldl j_step (BeginValue, []) s)"

text \<open>\<^verbatim>\<open>json.Unmarshal\<close> into a map succeeds with a non-nil map exactly on an object.\<close>

definition json_object :: "string \<Rightarrow> bool" where
  "json_object s \<longleftrightarrow>
     json_valid s \<and> (case dropWhile j_space s of c # _ \<Rightarrow> c = CHR ''{'' | [] \<Rightarrow> False)"

lemma j_error_stays: "foldl j_step (JError, st) s = (JError, st)"
  by (induction s) auto

lemma json_valid_nonempty: "json_valid s \<Longrightarrow> s \<noteq> []"
  by (rule notI) (simp add: json_valid_def j_accepts_def j_begin_value_def j_space_def)

lemma json_object_nonempty: "json_object s \<Longrightarrow> s \<noteq> []"
  by (auto simp: json_object_def)

lemma json_valid_examples:
  "json_valid ''{}''" "json_valid ''[1,-2.5e+3,null,true]''" "\<not> json_valid ''{1:2}''"
  "\<not> json_valid ''01''" "\<not> json_valid ''[1,]''" "json_object ''{}''" "\<not> json_object ''null''"
  by code_simp+

end
