(* ===== verification/GoErrors.thy ===== *)
theory GoErrors
  imports Prelude
begin

section \<open>Errors and their wrapping\<close>

text \<open>
  The errors of \<^verbatim>\<open>framework/domain/domain.go\<close> and the standard package
  \<^verbatim>\<open>errors\<close>. An error value is one of
  \<^item> a sentinel of the domain package (\<open>Sentinel\<close>) or a package-level error variable of
    another package (\<open>Named\<close>), compared by identity;
  \<^item> a wrapped error, \<^verbatim>\<open>fmt.Errorf("...: %w", e)\<close> (\<open>Wrap\<close>) or
    \<^verbatim>\<open>fmt.Errorf("%w: %w", a, b)\<close> (\<open>Wrap2\<close>);
  \<^item> an error without a cause (\<open>Text\<close>);
  \<^item> a structured error type of the domain package;
  \<^item> a post-commit failure of the node (\<open>InternalFailure\<close>), which is no domain sentinel;
  \<^item> a refusal with the wait until the next attempt (\<open>RetryAfterError\<close> of
    \<^verbatim>\<open>internal/access/service.go\<close>, in nanoseconds) or with one response header
    (\<^verbatim>\<open>httpapi.WithResponseHeader\<close>).
  Message texts are kept up to their interpolated values: a \<open>Wrap\<close> carries the constant
  text of the format.
\<close>

datatype sentinel =
    ErrNotFound | ErrAlreadyExists | ErrInvalid | ErrForbidden | ErrHostNotAllowed
  | ErrOriginNotAllowed | ErrUnsupportedMediaType | ErrLoosening | ErrUnauthorized
  | ErrInvalidPassword | ErrInvalidRecoveryCode | ErrCurrentPasswordInvalid | ErrWrongToken
  | ErrTooManyAttempts | ErrSetupRequired | ErrSetupComplete | ErrTooLarge | ErrConflict
  | ErrCurrencyValuedLimit | ErrExecutionReportRequired | ErrVenueOrderManaged
  | ErrApprovalRequired | ErrHasDependents | ErrAccountMissing | ErrAssetMissing
  | ErrAccountsNotManaged | ErrTerminalOrder | ErrNonReleaseArchive
  | ErrNonReleaseConfirmation | ErrTradingModeMismatch | ErrDestinationAmbiguous
  | ErrNoDestination | ErrFeeAccountRequired | ErrNoChange | ErrNotImplemented
  | ErrEngineRestarting | ErrUpstream

datatype go_error =
    Sentinel sentinel
  | Named string
  | Text string
  | Wrap string go_error
  | Wrap2 go_error go_error
  | Validation (val_message: string) (val_pointer: string) (val_constraint: string)
  | HasDependentsError "(string \<times> nat) list"
  | CurrencyChangeBlockedError string string go_error
  | AccountMissingError string
  | AssetMissingError string
  | InternalFailure go_error
  | RetryAfterError go_error int
  | ResponseHeaderError go_error string string

text \<open>\<open>errors.Is\<close> against a sentinel or a package-level error variable.\<close>

fun errors_is :: "go_error \<Rightarrow> go_error \<Rightarrow> bool" where
  "errors_is (Sentinel s) t = (t = Sentinel s)"
| "errors_is (Named n) t = (t = Named n)"
| "errors_is (Text m) t = False"
| "errors_is (Wrap m e) t = errors_is e t"
| "errors_is (Wrap2 a b) t = (errors_is a t \<or> errors_is b t)"
| "errors_is (Validation m p c) t = (t = Sentinel ErrInvalid)"
| "errors_is (HasDependentsError ds) t = (t = Sentinel ErrHasDependents)"
| "errors_is (CurrencyChangeBlockedError sc i e) t = errors_is e t"
| "errors_is (AccountMissingError a) t = (t = Sentinel ErrAccountMissing)"
| "errors_is (AssetMissingError a) t = (t = Sentinel ErrAssetMissing)"
| "errors_is (RetryAfterError e d) t = errors_is e t"
| "errors_is (ResponseHeaderError e n v) t = errors_is e t"
| "errors_is (InternalFailure e) t = (case t of Sentinel s \<Rightarrow> False | _ \<Rightarrow> errors_is e t)"

abbreviation wraps :: "go_error \<Rightarrow> sentinel \<Rightarrow> bool" where
  "wraps e s \<equiv> errors_is e (Sentinel s)"

text \<open>\<open>IsSentinel\<close> compares identity and does not look into wrapped causes.\<close>

fun IsSentinel :: "go_error \<Rightarrow> bool" where
  "IsSentinel (Sentinel s) = True"
| "IsSentinel _ = False"

fun err_text :: "go_error \<Rightarrow> string" where
  "err_text (Sentinel s) = ''''"
| "err_text (Named n) = n"
| "err_text (Text m) = m"
| "err_text (Wrap m e) = m"
| "err_text (Wrap2 a b) = err_text a @ err_text b"
| "err_text (Validation m p c) = m"
| "err_text (HasDependentsError ds) = ''''"
| "err_text (CurrencyChangeBlockedError sc i e) = err_text e"
| "err_text (AccountMissingError a) = ''account does not exist''"
| "err_text (AssetMissingError a) = ''asset does not exist''"
| "err_text (InternalFailure e) = err_text e"
| "err_text (RetryAfterError e d) = err_text e @ ''; retry after''"
| "err_text (ResponseHeaderError e n v) = err_text e"

text \<open>\<open>errors.As\<close> to a validation error: the first one of the chain.\<close>

fun as_validation :: "go_error \<Rightarrow> (string \<times> string \<times> string) option" where
  "as_validation (Validation m p c) = Some (m, p, c)"
| "as_validation (Wrap m e) = as_validation e"
| "as_validation (Wrap2 a b) =
     (case as_validation a of None \<Rightarrow> as_validation b | Some v \<Rightarrow> Some v)"
| "as_validation (CurrencyChangeBlockedError sc i e) = as_validation e"
| "as_validation (RetryAfterError e d) = as_validation e"
| "as_validation (ResponseHeaderError e n v) = as_validation e"
| "as_validation _ = None"

text \<open>
  \<^verbatim>\<open>framework/node/local.go\<close>: a failure after a committed mutation hides the domain
  sentinels of its cause.
\<close>

definition internalPostCommitNodeMutationError :: "go_error \<Rightarrow> go_error" where
  "internalPostCommitNodeMutationError e =
     (case e of InternalFailure _ \<Rightarrow> e | _ \<Rightarrow> InternalFailure e)"

definition NewValidationError :: "string \<Rightarrow> string \<Rightarrow> string \<Rightarrow> go_error" where
  "NewValidationError pointer constraint message = Validation message pointer constraint"

definition invalidField :: "string \<Rightarrow> string \<Rightarrow> go_error \<Rightarrow> go_error" where
  "invalidField pointer constraint cause = NewValidationError pointer constraint (err_text cause)"

definition WithValidationPointer :: "string \<Rightarrow> go_error \<Rightarrow> go_error" where
  "WithValidationPointer pointer err =
     (case as_validation err of
        None \<Rightarrow> err
      | Some (m, p, c) \<Rightarrow> Validation (err_text err) pointer c)"

definition invalidExecutionReport :: "string \<Rightarrow> go_error" where
  "invalidExecutionReport message = NewValidationError '''' ''execution_report'' message"

definition ValidationPointer :: "go_error \<Rightarrow> string" where
  "ValidationPointer err = (case as_validation err of None \<Rightarrow> '''' | Some (m, p, c) \<Rightarrow> p)"

definition ValidationConstraint :: "go_error \<Rightarrow> string" where
  "ValidationConstraint err = (case as_validation err of None \<Rightarrow> '''' | Some (m, p, c) \<Rightarrow> c)"

definition NewHasDependentsError :: "(string \<times> nat) list \<Rightarrow> go_error" where
  "NewHasDependentsError dependents = HasDependentsError dependents"

definition NewCurrencyChangeBlockedError :: "string \<Rightarrow> string \<Rightarrow> go_error \<Rightarrow> go_error" where
  "NewCurrencyChangeBlockedError scope target_id cause =
     CurrencyChangeBlockedError scope target_id cause"

lemma as_validation_invalid: "as_validation e = Some v \<Longrightarrow> wraps e ErrInvalid"
  by (induction e) (auto split: option.splits)

lemma internal_hides [simp]: "\<not> wraps (internalPostCommitNodeMutationError e) s"
  by (cases e) (simp_all add: internalPostCommitNodeMutationError_def)

lemma wraps_invalidField [simp]: "wraps (invalidField p c e) s \<longleftrightarrow> s = ErrInvalid"
  by (simp add: invalidField_def NewValidationError_def)

lemma wraps_NewValidationError [simp]: "wraps (NewValidationError p c m) s \<longleftrightarrow> s = ErrInvalid"
  by (simp add: NewValidationError_def)

lemma wraps_invalidExecutionReport [simp]: "wraps (invalidExecutionReport m) s \<longleftrightarrow> s = ErrInvalid"
  by (simp add: invalidExecutionReport_def)

lemma ValidationPointer_invalidField [simp]: "ValidationPointer (invalidField p c e) = p"
  by (simp add: ValidationPointer_def invalidField_def NewValidationError_def)

lemma ValidationConstraint_invalidField [simp]: "ValidationConstraint (invalidField p c e) = c"
  by (simp add: ValidationConstraint_def invalidField_def NewValidationError_def)

text \<open>
  Replacing the pointer of a refusal keeps its constraint and every sentinel that
  \<open>errors.Is\<close> finds in a plain validation error.
\<close>

lemma WithValidationPointer_pointer:
  "as_validation e \<noteq> None \<Longrightarrow> ValidationPointer (WithValidationPointer p e) = p"
  by (auto simp: WithValidationPointer_def ValidationPointer_def split: option.splits)

lemma WithValidationPointer_constraint:
  "ValidationConstraint (WithValidationPointer p e) = ValidationConstraint e"
  by (auto simp: WithValidationPointer_def ValidationConstraint_def split: option.splits)

lemma WithValidationPointer_invalid:
  "wraps e ErrInvalid \<Longrightarrow> wraps (WithValidationPointer p e) ErrInvalid"
  by (auto simp: WithValidationPointer_def split: option.splits)

end
