(* ===== verification/Identity.thy ===== *)
theory Identity
  imports GoErrors GoText Base64Url "HOL-Library.Word"
begin

section \<open>Codes, texts and identifiers\<close>

text \<open>
  The boundary checks of \<^verbatim>\<open>framework/domain\<close> on dictionary codes, display texts, reasons
  and identifiers (\<^verbatim>\<open>domain.go\<close>, \<^verbatim>\<open>entities.go\<close>, \<^verbatim>\<open>realm.go\<close>,
  \<^verbatim>\<open>engineid.go\<close>, \<^verbatim>\<open>externalid.go\<close>). Each validator is the chain of its early
  returns in the order of the code; \<open>pr\<close> is the table of printable runes.
\<close>

abbreviation err_invalid :: "string \<Rightarrow> go_error" where
  "err_invalid m \<equiv> Wrap m (Sentinel ErrInvalid)"

abbreviation printable :: "(nat \<Rightarrow> bool) \<Rightarrow> string \<Rightarrow> bool" where
  "printable pr s \<equiv> list_all pr (go_runes s)"

definition isPathDotSegment :: "string \<Rightarrow> bool" where
  "isPathDotSegment code \<longleftrightarrow> code = ''.'' \<or> code = ''..''"

definition ReservedGroupCode :: string where
  "ReservedGroupCode = ''-''"

definition ValidateAccountID :: "(nat \<Rightarrow> bool) \<Rightarrow> string \<Rightarrow> go_error option" where
  "ValidateAccountID pr s = first_err
     [check (s = []) (invalidField ''/account'' ''required'' (err_invalid ''account id is empty'')),
      check (\<not> valid_utf8 s)
        (invalidField ''/account'' ''format'' (err_invalid ''account id contains invalid UTF-8'')),
      check (isPathDotSegment s)
        (invalidField ''/account'' ''format''
          (err_invalid ''account id is a reserved path segment'')),
      check (rune_count s > 64)
        (invalidField ''/account'' ''max_length''
          (err_invalid ''account id exceeds 64 code points'')),
      check (trim_space s \<noteq> s)
        (invalidField ''/account'' ''format''
          (err_invalid ''account id has leading or trailing whitespace'')),
      check (\<not> printable pr s)
        (invalidField ''/account'' ''format''
          (err_invalid ''account id contains non-printable character''))]"

definition ValidateGroupID :: "(nat \<Rightarrow> bool) \<Rightarrow> string \<Rightarrow> go_error option" where
  "ValidateGroupID pr s = first_err
     [check (s = []) (invalidField ''/code'' ''required'' (err_invalid ''group id is empty'')),
      check (\<not> valid_utf8 s)
        (invalidField ''/code'' ''format'' (err_invalid ''group id contains invalid UTF-8'')),
      check (s = ReservedGroupCode)
        (invalidField ''/code'' ''format'' (err_invalid ''group id is reserved'')),
      check (isPathDotSegment s)
        (invalidField ''/code'' ''format'' (err_invalid ''group id is a reserved path segment'')),
      check (rune_count s > 64)
        (invalidField ''/code'' ''max_length'' (err_invalid ''group id exceeds 64 code points'')),
      check (trim_space s \<noteq> s)
        (invalidField ''/code'' ''format''
          (err_invalid ''group id has leading or trailing whitespace'')),
      check (\<not> printable pr s)
        (invalidField ''/code'' ''format''
          (err_invalid ''group id contains non-printable character''))]"

definition ValidateAssetClassID :: "(nat \<Rightarrow> bool) \<Rightarrow> string \<Rightarrow> go_error option" where
  "ValidateAssetClassID pr s = first_err
     [check (s = []) (invalidField ''/code'' ''required'' (err_invalid ''asset class id is empty'')),
      check (\<not> valid_utf8 s)
        (invalidField ''/code'' ''format'' (err_invalid ''asset class id contains invalid UTF-8'')),
      check (isPathDotSegment s)
        (invalidField ''/code'' ''format''
          (err_invalid ''asset class id is a reserved path segment'')),
      check (rune_count s > 64)
        (invalidField ''/code'' ''max_length''
          (err_invalid ''asset class id exceeds 64 code points'')),
      check (trim_space s \<noteq> s)
        (invalidField ''/code'' ''format''
          (err_invalid ''asset class id has leading or trailing whitespace'')),
      check (\<not> printable pr s)
        (invalidField ''/code'' ''format''
          (err_invalid ''asset class id contains non-printable character''))]"

definition ValidatePrincipalID :: "(nat \<Rightarrow> bool) \<Rightarrow> string \<Rightarrow> go_error option" where
  "ValidatePrincipalID pr s = first_err
     [check (s = []) (err_invalid ''principal id is empty''),
      check (\<not> valid_utf8 s) (err_invalid ''principal id contains invalid UTF-8''),
      check (rune_count s > 64) (err_invalid ''principal id exceeds 64 code points''),
      check (trim_space s \<noteq> s)
        (err_invalid ''principal id has leading or trailing whitespace''),
      check (\<not> printable pr s) (err_invalid ''principal id contains non-printable character'')]"

text \<open>The rune loop of \<open>validateAsset\<close> refuses at the first rune that is white space or not
  printable, with the message of the test that failed.\<close>

fun asset_runes :: "(nat \<Rightarrow> bool) \<Rightarrow> nat list \<Rightarrow> go_error option" where
  "asset_runes pr [] = None"
| "asset_runes pr (r # rs) =
     (if is_space r then Some (err_invalid ''asset contains whitespace'')
      else if \<not> pr r then Some (err_invalid ''asset contains non-printable character'')
      else asset_runes pr rs)"

definition validateAsset :: "(nat \<Rightarrow> bool) \<Rightarrow> string \<Rightarrow> go_error option" where
  "validateAsset pr s = first_err
     [check (s = []) (err_invalid ''asset is empty''),
      check (\<not> valid_utf8 s) (err_invalid ''asset contains invalid UTF-8''),
      check (isPathDotSegment s) (err_invalid ''asset is a reserved path segment''),
      check (length s > 32) (err_invalid ''asset exceeds 32 chars''),
      asset_runes pr (go_runes s)]"

definition ValidateAsset :: "(nat \<Rightarrow> bool) \<Rightarrow> string \<Rightarrow> go_error option" where
  "ValidateAsset pr asset = validateAsset pr asset"

definition ValidateRealmID :: "string \<Rightarrow> go_error option" where
  "ValidateRealmID s = first_err
     [check (s = []) (err_invalid ''realm id is empty''),
      check (rune_count s > 64) (err_invalid ''realm id exceeds 64 code points'')]"

definition MaxNotesRunes :: nat where
  "MaxNotesRunes = 4096"

definition ValidateNotes :: "string \<Rightarrow> go_error option" where
  "ValidateNotes notes = first_err
     [check (\<not> valid_utf8 notes)
        (invalidField ''/notes'' ''format'' (err_invalid ''notes contain invalid UTF-8'')),
      check (rune_count notes > MaxNotesRunes)
        (invalidField ''/notes'' ''max_length'' (err_invalid ''notes exceed code points''))]"

definition MaxReasonRunes :: nat where
  "MaxReasonRunes = 4096"

definition ValidateReason :: "(nat \<Rightarrow> bool) \<Rightarrow> string \<Rightarrow> go_error option" where
  "ValidateReason pr reason = first_err
     [check (\<not> valid_utf8 reason)
        (invalidField ''/reason'' ''format'' (err_invalid ''reason contains invalid UTF-8'')),
      check (rune_count reason > MaxReasonRunes)
        (invalidField ''/reason'' ''max_length'' (err_invalid ''reason exceeds code points'')),
      check (\<not> printable pr reason)
        (invalidField ''/reason'' ''format''
          (err_invalid ''reason contains non-printable character''))]"

text \<open>
  \<open>NormalizeReason\<close>: \<^verbatim>\<open>strings.Map\<close> writes every kept rune (a byte that is not well
  formed is the replacement rune), then the loop cuts before the rune that would exceed the
  bound.
\<close>

definition NormalizeReason :: "(nat \<Rightarrow> bool) \<Rightarrow> string \<Rightarrow> string" where
  "NormalizeReason pr reason =
     (let kept = go_string (filter pr (go_runes reason))
      in concat (map (\<lambda>(r, b, ok). b) (take MaxReasonRunes (segs kept))))"

definition ValidateBlockText :: "(nat \<Rightarrow> bool) \<Rightarrow> string \<Rightarrow> go_error option" where
  "ValidateBlockText pr text = ValidateReason pr text"

definition ValidateBlockReason :: "(nat \<Rightarrow> bool) \<Rightarrow> string \<Rightarrow> go_error option" where
  "ValidateBlockReason pr reason = map_option (Wrap ''block'') (ValidateBlockText pr reason)"

definition ValidateTitle :: "(nat \<Rightarrow> bool) \<Rightarrow> string \<Rightarrow> go_error option" where
  "ValidateTitle pr title = first_err
     [check (\<not> valid_utf8 title)
        (invalidField ''/title'' ''format'' (err_invalid ''title contains invalid UTF-8'')),
      check (rune_count title > 256)
        (invalidField ''/title'' ''max_length'' (err_invalid ''title exceeds 256 code points'')),
      check (\<not> printable pr title)
        (invalidField ''/title'' ''format''
          (err_invalid ''title contains non-printable character''))]"

subsection \<open>Engine and external identifiers\<close>

definition EngineAccountIDMin :: "64 word" where "EngineAccountIDMin = 1"
definition EngineAccountIDMax :: "64 word" where "EngineAccountIDMax = 2 ^ 63 - 1"
definition EngineAssetIDMin :: "64 word" where "EngineAssetIDMin = 1"
definition EngineAssetIDMax :: "64 word" where "EngineAssetIDMax = 2 ^ 63 - 1"
definition EngineGroupIDMin :: "32 word" where "EngineGroupIDMin = 1"
definition EngineGroupIDMax :: "32 word" where "EngineGroupIDMax = - 1"

definition ValidateEngineAccountID :: "64 word \<Rightarrow> go_error option" where
  "ValidateEngineAccountID v =
     check (v < EngineAccountIDMin \<or> v > EngineAccountIDMax)
       (err_invalid ''engine account id out of range'')"

definition ValidateEngineAssetID :: "64 word \<Rightarrow> go_error option" where
  "ValidateEngineAssetID v =
     check (v < EngineAssetIDMin \<or> v > EngineAssetIDMax)
       (err_invalid ''engine asset id out of range'')"

definition ValidateEngineGroupID :: "32 word \<Rightarrow> go_error option" where
  "ValidateEngineGroupID v =
     check (v < EngineGroupIDMin \<or> v > EngineGroupIDMax)
       (err_invalid ''engine group id out of range'')"

definition ExternalIDByteLen :: nat where "ExternalIDByteLen = 16"
definition ExternalIDStringLen :: nat where "ExternalIDStringLen = 22"

definition ExternalIDFromBytes :: "string \<Rightarrow> go_error + string" where
  "ExternalIDFromBytes b =
     (if length b = 0 then Inl (err_invalid ''external id must not be empty'') else Inr b)"

definition GeneratedExternalIDFromBytes :: "string \<Rightarrow> go_error + string" where
  "GeneratedExternalIDFromBytes b =
     (if length b \<noteq> ExternalIDByteLen
      then Inl (err_invalid ''generated external id needs random bytes'')
      else Inr (b64_encode b))"

text \<open>The random source may fail; it delivers the bytes otherwise.\<close>

definition NewExternalID :: "(go_error + string) \<Rightarrow> go_error + string" where
  "NewExternalID rand =
     (case rand of
        Inl e \<Rightarrow> Inl (Wrap ''generate external id'' e)
      | Inr raw \<Rightarrow> GeneratedExternalIDFromBytes raw)"

definition ParseExternalID :: "string \<Rightarrow> go_error + string" where
  "ParseExternalID s =
     (if s = [] then Inl (err_invalid ''external id must not be empty'') else Inr s)"

definition ValidateExternalID :: "string \<Rightarrow> go_error option" where
  "ValidateExternalID s = err_of (ParseExternalID s)"

subsection \<open>The shared code contract\<close>

text \<open>What an accepted dictionary code looks like; \<open>MaxCodeRunes\<close> is the bound 64 that the
  account, group, asset-class and principal checks share.\<close>

definition code_text :: "(nat \<Rightarrow> bool) \<Rightarrow> string \<Rightarrow> bool" where
  "code_text pr s \<longleftrightarrow>
     s \<noteq> [] \<and> valid_utf8 s \<and> rune_count s \<le> 64 \<and> canonical_text s \<and> printable pr s"

lemma ValidateAccountID_iff:
  "ValidateAccountID pr s = None \<longleftrightarrow> code_text pr s \<and> \<not> isPathDotSegment s"
  by (auto simp: ValidateAccountID_def code_text_def canonical_text_def not_less)

lemma ValidatePrincipalID_iff: "ValidatePrincipalID pr s = None \<longleftrightarrow> code_text pr s"
  by (auto simp: ValidatePrincipalID_def code_text_def canonical_text_def not_less)

lemma ValidateGroupID_iff:
  "ValidateGroupID pr s = None
   \<longleftrightarrow> code_text pr s \<and> \<not> isPathDotSegment s \<and> s \<noteq> ReservedGroupCode"
  by (auto simp: ValidateGroupID_def code_text_def canonical_text_def not_less)

lemma ValidateAssetClassID_iff:
  "ValidateAssetClassID pr s = None \<longleftrightarrow> code_text pr s \<and> \<not> isPathDotSegment s"
  by (auto simp: ValidateAssetClassID_def code_text_def canonical_text_def not_less)

lemma ValidateAccountID_invalid: "ValidateAccountID pr s = Some e \<Longrightarrow> wraps e ErrInvalid"
  unfolding ValidateAccountID_def by (erule first_err_all) auto

lemma ValidateGroupID_invalid: "ValidateGroupID pr s = Some e \<Longrightarrow> wraps e ErrInvalid"
  unfolding ValidateGroupID_def by (erule first_err_all) auto

lemma asset_runes_None:
  "asset_runes pr rs = None \<longleftrightarrow> list_all (\<lambda>r. pr r \<and> \<not> is_space r) rs"
  by (induction rs) auto

lemma asset_runes_invalid: "asset_runes pr rs = Some e \<Longrightarrow> wraps e ErrInvalid"
  by (induction rs) (auto split: if_splits)

lemma validateAsset_iff:
  "validateAsset pr s = None \<longleftrightarrow>
     s \<noteq> [] \<and> valid_utf8 s \<and> \<not> isPathDotSegment s \<and> length s \<le> 32
     \<and> list_all (\<lambda>r. pr r \<and> \<not> is_space r) (go_runes s)"
  by (auto simp: validateAsset_def asset_runes_None not_less)

lemma ValidateAsset_invalid: "ValidateAsset pr s = Some e \<Longrightarrow> wraps e ErrInvalid"
  unfolding ValidateAsset_def validateAsset_def
  by (erule first_err_all) (auto dest: asset_runes_invalid[OF sym])

text \<open>Dropping white space at both ends of a text without any drops nothing.\<close>

lemma no_space_canonical:
  assumes "list_all (\<lambda>r. \<not> is_space r) (go_runes s)"
  shows "canonical_text s"
proof -
  have n: "\<forall>x\<in>set (segs s). \<not> seg_space x"
    using assms by (auto simp: go_runes_def list_all_iff seg_space_def)
  then have "dropWhile seg_space (segs s) = segs s"
    by (cases "segs s") auto
  moreover have "dropWhile seg_space (rev (segs s)) = rev (segs s)"
  proof (cases "rev (segs s)")
    case (Cons x xs)
    then have "x \<in> set (segs s)" by (metis list.set_intros(1) set_rev)
    then show ?thesis using n Cons by simp
  qed simp
  ultimately show ?thesis by (simp add: canonical_text_def trim_space_def segs_concat)
qed

lemma validateAsset_canonical: "validateAsset pr s = None \<Longrightarrow> canonical_text s"
  by (rule no_space_canonical) (auto simp: validateAsset_iff list_all_iff)

text \<open>An accepted asset code satisfies the shared code contract, within 32 runes.\<close>

lemma validateAsset_code_text: "validateAsset pr s = None \<Longrightarrow> code_text pr s \<and> rune_count s \<le> 32"
  using validateAsset_canonical[of pr s] rune_count_le_length[of s]
  by (auto simp: validateAsset_iff code_text_def list_all_iff)

subsection \<open>Normalised reasons\<close>

lemma ValidateReason_iff:
  "ValidateReason pr s = None
   \<longleftrightarrow> valid_utf8 s \<and> rune_count s \<le> MaxReasonRunes \<and> printable pr s"
  by (auto simp: ValidateReason_def not_less)

lemma NormalizeReason_runes:
  "NormalizeReason pr s = go_string (take MaxReasonRunes (filter pr (go_runes s)))"
proof -
  have sc: "list_all scalar (filter pr (go_runes s))"
    using go_runes_scalar[of s] by (auto simp: list_all_iff)
  have "concat (map (\<lambda>(r, b, ok). b) (take n (map (\<lambda>r. (r, utf8_encode r, True)) rs)))
      = go_string (take n rs)" for n and rs :: "nat list"
    by (simp add: take_map go_string_def comp_def)
  then show ?thesis by (simp add: NormalizeReason_def Let_def segs_go_string[OF sc])
qed

lemma NormalizeReason_accepted: "ValidateReason pr (NormalizeReason pr s) = None"
proof -
  define rs where "rs = take MaxReasonRunes (filter pr (go_runes s))"
  have sc: "list_all scalar rs"
    using go_runes_scalar[of s] by (auto simp: rs_def list_all_iff dest!: in_set_takeD)
  have "list_all pr rs" by (auto simp: rs_def list_all_iff dest!: in_set_takeD)
  then show ?thesis
    by (simp add: NormalizeReason_runes rs_def[symmetric] ValidateReason_iff valid_go_string[OF sc]
        rune_count_runes go_runes_go_string[OF sc]) (simp add: rs_def)
qed

lemma NormalizeReason_id: "ValidateReason pr s = None \<Longrightarrow> NormalizeReason pr s = s"
  by (auto simp: NormalizeReason_runes ValidateReason_iff rune_count_runes go_string_go_runes
      list_all_iff intro!: filter_True)

end
