(* ===== verification/Accounts.thy ===== *)
theory Accounts
  imports Identity
begin

section \<open>Accounts, groups and callers\<close>

text \<open>
  The dictionary entities of \<^verbatim>\<open>framework/domain/domain.go\<close> and
  \<^verbatim>\<open>entities.go\<close>, the effective kill-switch state of an account
  (\<^verbatim>\<open>account_block.go\<close>), the currency cascade, the realm settings a generic writer may
  touch and the missing-account policies.
\<close>

type_synonym account_id = string

text \<open>A \<^verbatim>\<open>time.Time\<close> is a number of nanoseconds after the zero time.\<close>

type_synonym go_time = int

datatype source = SourcePanel | SourceAPI | SourceMCP | SourceSystem | OtherSource string

record caller =
  Caller_Source :: source
  Caller_Principal :: string
  Caller_Role :: string

definition TightenOnly :: "caller \<Rightarrow> bool" where
  "TightenOnly c \<longleftrightarrow> Caller_Source c = SourceMCP"

definition ValidateSource :: "source \<Rightarrow> go_error option" where
  "ValidateSource s = (case s of
       OtherSource t \<Rightarrow> Some (err_invalid ''unknown source'')
     | _ \<Rightarrow> None)"

datatype pnl_halt_reason =
    NoPnlHalt
  | PnlHaltReasonMissingFx | PnlHaltReasonMissingAccountCurrency
  | PnlHaltReasonMissingInitialPnl | PnlHaltReasonMissingCostBasis
  | PnlHaltReasonArithmeticOverflow
  | OtherPnlHaltReason string

definition ValidatePnlHaltReason :: "pnl_halt_reason \<Rightarrow> go_error option" where
  "ValidatePnlHaltReason r = (case r of
       OtherPnlHaltReason t \<Rightarrow> Some (err_invalid ''unknown pnl halt reason'')
     | _ \<Rightarrow> None)"

record account =
  Account_Code :: account_id
  Account_Title :: string
  Account_Pnl :: string
  Account_PnlHaltReason :: pnl_halt_reason
  Account_Currency :: string
  Account_EffectiveCurrency :: string
  Account_CurrencyOrigin :: string
  Account_GroupCurrency :: string
  Account_DefaultCurrency :: string
  Account_GroupCode :: string
  Account_Notes :: string
  Account_BlockReason :: string
  Account_BlockPolicy :: string
  Account_BlockCode :: string
  Account_BlockDetails :: string
  Account_EngineAccountID :: "64 word"
  Account_Blocked :: bool

text \<open>The account that an automatic creation inserts.\<close>

definition zero_account :: "account_id \<Rightarrow> account" where
  "zero_account code = \<lparr> Account_Code = code, Account_Title = [], Account_Pnl = [],
     Account_PnlHaltReason = NoPnlHalt, Account_Currency = [], Account_EffectiveCurrency = [],
     Account_CurrencyOrigin = [], Account_GroupCurrency = [], Account_DefaultCurrency = [],
     Account_GroupCode = [], Account_Notes = [], Account_BlockReason = [], Account_BlockPolicy = [],
     Account_BlockCode = [], Account_BlockDetails = [], Account_EngineAccountID = 0,
     Account_Blocked = False \<rparr>"

record account_group =
  Group_Code :: string
  Group_Title :: string
  Group_Currency :: string
  Group_Notes :: string
  Group_BlockReason :: string
  Group_EngineGroupID :: "32 word"
  Group_Blocked :: bool

record account_restriction =
  Restriction_Account :: account_id
  Restriction_IncludeUnowned :: bool

text \<open>The zero value of a group, which indexing a Go map returns for an absent key.\<close>

definition zero_group :: account_group where
  "zero_group = \<lparr> Group_Code = [], Group_Title = [], Group_Currency = [], Group_Notes = [],
     Group_BlockReason = [], Group_EngineGroupID = 0, Group_Blocked = False \<rparr>"

subsection \<open>The effective block\<close>

datatype block_source =
  AccountBlockSourceNone | AccountBlockSourceAccount | AccountBlockSourceGroup

record account_block =
  Blk_Account :: account_id
  Blk_Policy :: string
  Blk_Code :: string
  Blk_Reason :: string
  Blk_Details :: string

record account_block_state =
  Block_Reason :: string
  Block_AccountReason :: string
  Block_GroupReason :: string
  Block_Source :: block_source
  Block_Blocked :: bool
  Block_AccountBlocked :: bool
  Block_GroupBlocked :: bool

definition ResolveAccountBlock :: "account \<Rightarrow> account_group \<Rightarrow> account_block_state" where
  "ResolveAccountBlock a g =
     (let state = \<lparr> Block_Reason = [], Block_AccountReason = Account_BlockReason a,
            Block_GroupReason = [], Block_Source = AccountBlockSourceNone,
            Block_Blocked = False, Block_AccountBlocked = Account_Blocked a,
            Block_GroupBlocked = False \<rparr>;
          state = (if Group_Code g \<noteq> [] \<and> Group_Blocked g
            then state \<lparr> Block_GroupBlocked := True, Block_GroupReason := Group_BlockReason g \<rparr>
            else state)
      in if Block_AccountBlocked state
         then state \<lparr> Block_Blocked := True, Block_Source := AccountBlockSourceAccount,
                Block_Reason := Block_AccountReason state \<rparr>
         else if Block_GroupBlocked state
         then state \<lparr> Block_Blocked := True, Block_Source := AccountBlockSourceGroup,
                Block_Reason := Block_GroupReason state \<rparr>
         else state)"

type_synonym group_block_index = "string \<rightharpoonup> account_group"

fun index_groups :: "group_block_index \<Rightarrow> account_group list \<Rightarrow> group_block_index" where
  "index_groups index [] = index"
| "index_groups index (g # gs) =
     (if Group_Code g = [] then index_groups index gs
      else index_groups (index(Group_Code g \<mapsto> g)) gs)"

definition NewGroupBlockIndex :: "account_group list \<Rightarrow> group_block_index" where
  "NewGroupBlockIndex groups = index_groups Map.empty groups"

definition ResolveIndexed :: "group_block_index \<Rightarrow> account \<Rightarrow> account_block_state" where
  "ResolveIndexed index a =
     ResolveAccountBlock a (case index (Account_GroupCode a) of None \<Rightarrow> zero_group | Some g \<Rightarrow> g)"

text \<open>
  The specification: the engine refuses an account for its own block first and otherwise for
  the block of the stored group the account names. \<open>engine_refuses\<close> says whether and for
  which stored reason; groups carry pairwise distinct codes, and the empty code names none.
\<close>

definition member_group :: "account_group list \<Rightarrow> account \<Rightarrow> account_group option" where
  "member_group groups a =
     (if Account_GroupCode a = [] then None
      else List.find (\<lambda>g. Group_Code g = Account_GroupCode a) groups)"

definition engine_refuses :: "account_group list \<Rightarrow> account \<Rightarrow> string option" where
  "engine_refuses groups a =
     (if Account_Blocked a then Some (Account_BlockReason a)
      else case member_group groups a of
        None \<Rightarrow> None
      | Some g \<Rightarrow> if Group_Blocked g then Some (Group_BlockReason g) else None)"

definition shown_refusal :: "account_block_state \<Rightarrow> string option" where
  "shown_refusal st = (if Block_Blocked st then Some (Block_Reason st) else None)"

lemma index_groups_map:
  "index_groups index gs = index ++ map_of (rev (map (\<lambda>g. (Group_Code g, g))
     (filter (\<lambda>g. Group_Code g \<noteq> []) gs)))"
  by (induction gs arbitrary: index) (auto simp: map_add_assoc[symmetric])

lemma NewGroupBlockIndex_last:
  "NewGroupBlockIndex (gs @ [g]) =
     (if Group_Code g = [] then NewGroupBlockIndex gs
      else (NewGroupBlockIndex gs)(Group_Code g \<mapsto> g))"
  by (simp add: NewGroupBlockIndex_def index_groups_map)

lemma NewGroupBlockIndex_empty_code [simp]: "NewGroupBlockIndex gs [] = None"
proof (induction gs rule: rev_induct)
  case Nil
  then show ?case by (simp add: NewGroupBlockIndex_def)
qed (simp add: NewGroupBlockIndex_last)

lemma NewGroupBlockIndex_find:
  assumes "distinct (map Group_Code gs)" and "c \<noteq> []"
  shows "NewGroupBlockIndex gs c = List.find (\<lambda>g. Group_Code g = c) gs"
  using assms(1)
proof (induction gs rule: rev_induct)
  case Nil
  then show ?case by (simp add: NewGroupBlockIndex_def)
next
  case (snoc g gs)
  have app: "List.find P (xs @ [x]) = (case List.find P xs of None \<Rightarrow> if P x then Some x else None
    | Some y \<Rightarrow> Some y)" for P :: "account_group \<Rightarrow> bool" and xs x
    by (induction xs) auto
  have "List.find (\<lambda>h. Group_Code h = Group_Code g) gs = None"
    using snoc.prems by (simp add: find_None_iff) (metis image_eqI)
  with snoc assms(2) show ?case
    by (auto simp: NewGroupBlockIndex_last app split: option.splits)
qed

lemma resolve_member_group:
  "distinct (map Group_Code gs) \<Longrightarrow>
     ResolveIndexed (NewGroupBlockIndex gs) a =
       ResolveAccountBlock a (case member_group gs a of None \<Rightarrow> zero_group | Some g \<Rightarrow> g)"
  by (auto simp: ResolveIndexed_def member_group_def NewGroupBlockIndex_find)

lemma member_group_code: "member_group gs a = Some g \<Longrightarrow> Group_Code g \<noteq> []"
  by (auto simp: member_group_def find_Some_iff split: if_splits)

lemma shown_refusal_resolve:
  assumes "distinct (map Group_Code gs)"
  shows "shown_refusal (ResolveIndexed (NewGroupBlockIndex gs) a) = engine_refuses gs a"
  unfolding resolve_member_group[OF assms]
  using member_group_code[of gs a]
  by (cases "member_group gs a")
    (auto simp: shown_refusal_def ResolveAccountBlock_def engine_refuses_def zero_group_def Let_def)

text \<open>The two tiers are independent: unblocking one leaves the other in force.\<close>

lemma unblock_account_keeps_group:
  "Block_Blocked (ResolveAccountBlock (a \<lparr> Account_Blocked := False \<rparr>) g)
   \<longleftrightarrow> Group_Code g \<noteq> [] \<and> Group_Blocked g"
  by (simp add: ResolveAccountBlock_def Let_def)

lemma unblock_group_keeps_account:
  "Block_Blocked (ResolveAccountBlock a (g \<lparr> Group_Blocked := False \<rparr>)) \<longleftrightarrow> Account_Blocked a"
  by (simp add: ResolveAccountBlock_def Let_def)

lemma block_source_iff:
  "Block_Source (ResolveAccountBlock a g) = AccountBlockSourceNone
   \<longleftrightarrow> \<not> Block_Blocked (ResolveAccountBlock a g)"
  by (simp add: ResolveAccountBlock_def Let_def)

subsection \<open>The currency cascade\<close>

definition CurrencyOriginAccount :: string where "CurrencyOriginAccount = ''account''"
definition CurrencyOriginGroup :: string where "CurrencyOriginGroup = ''group''"
definition CurrencyOriginDefault :: string where "CurrencyOriginDefault = ''default''"

definition ResolveCurrencyCascade :: "string \<Rightarrow> string \<Rightarrow> string \<Rightarrow> string \<times> string" where
  "ResolveCurrencyCascade acc grp dflt =
     (if acc \<noteq> [] then (acc, CurrencyOriginAccount)
      else if grp \<noteq> [] then (grp, CurrencyOriginGroup)
      else if dflt \<noteq> [] then (dflt, CurrencyOriginDefault)
      else ([], []))"

lemma cascade_first:
  "fst (ResolveCurrencyCascade a g d) =
     (case filter (\<lambda>c. c \<noteq> []) [a, g, d] of [] \<Rightarrow> [] | c # _ \<Rightarrow> c)"
  by (simp add: ResolveCurrencyCascade_def)

lemma cascade_origin_empty:
  "snd (ResolveCurrencyCascade a g d) = [] \<longleftrightarrow> fst (ResolveCurrencyCascade a g d) = []"
  by (simp add: ResolveCurrencyCascade_def CurrencyOriginAccount_def CurrencyOriginGroup_def
      CurrencyOriginDefault_def)

subsection \<open>Realm settings\<close>

definition SettingKeyNoESign :: string where "SettingKeyNoESign = ''no_esign''"
definition SettingKeySpotFundsLimitMode :: string where
  "SettingKeySpotFundsLimitMode = ''spot_funds_limit_mode''"

definition ValidateSettingKey :: "string \<Rightarrow> go_error option" where
  "ValidateSettingKey key =
     check (key = []) (invalidField ''/key'' ''required'' (err_invalid ''setting key is empty''))"

definition ValidateSettingWriteKey :: "string \<Rightarrow> go_error option" where
  "ValidateSettingWriteKey key = first_err
     [ValidateSettingKey key,
      check (key = SettingKeyNoESign \<or> key = SettingKeySpotFundsLimitMode)
        (invalidField ''/key'' ''reserved''
          (err_invalid ''setting key is written only through its owner''))]"

lemma ValidateSettingWriteKey_iff:
  "ValidateSettingWriteKey key = None
   \<longleftrightarrow> key \<notin> {[], SettingKeyNoESign, SettingKeySpotFundsLimitMode}"
  by (simp add: ValidateSettingWriteKey_def ValidateSettingKey_def)

subsection \<open>The missing-account policy\<close>

datatype missing_account_policy =
    MissingAccountNone
  | MissingAccountCreate
  | MissingAccountReject
  | OtherMissingAccount string

text \<open>The typed reading of a wire value, a Go string conversion.\<close>

definition missing_account_of :: "string \<Rightarrow> missing_account_policy" where
  "missing_account_of v =
     (if v = [] then MissingAccountNone
      else if v = ''create'' then MissingAccountCreate
      else if v = ''reject'' then MissingAccountReject
      else OtherMissingAccount v)"

definition ValidateMissingAccountPolicy :: "missing_account_policy \<Rightarrow> go_error option" where
  "ValidateMissingAccountPolicy p = (case p of
       MissingAccountCreate \<Rightarrow> None
     | MissingAccountReject \<Rightarrow> None
     | MissingAccountNone \<Rightarrow> Some (invalidField ''/missingAccount'' ''required''
         (err_invalid ''missingAccount is required''))
     | OtherMissingAccount t \<Rightarrow> Some (invalidField ''/missingAccount'' ''unsupported_value''
         (err_invalid ''missingAccount must be create or reject'')))"

definition ParseMissingAccountPolicy :: "string \<Rightarrow> go_error + missing_account_policy" where
  "ParseMissingAccountPolicy v =
     (let p = missing_account_of v in of_outcome (ValidateMissingAccountPolicy p) p)"

definition ValidateDropCopyMissingAccountPolicy ::
  "missing_account_policy \<Rightarrow> go_error option" where
  "ValidateDropCopyMissingAccountPolicy p = first_err
     [ValidateMissingAccountPolicy p,
      check (p \<noteq> MissingAccountCreate)
        (invalidField ''/missingAccount'' ''unsupported_value''
          (err_invalid ''drop-copy cannot reject a missing account''))]"

lemma ParseMissingAccountPolicy_Inr:
  "ParseMissingAccountPolicy v = Inr p \<longleftrightarrow>
     (v = ''create'' \<and> p = MissingAccountCreate) \<or> (v = ''reject'' \<and> p = MissingAccountReject)"
  by (auto simp: ParseMissingAccountPolicy_def missing_account_of_def
      ValidateMissingAccountPolicy_def Let_def)

lemma ValidateDropCopy_iff:
  "ValidateDropCopyMissingAccountPolicy p = None \<longleftrightarrow> p = MissingAccountCreate"
  by (auto simp: ValidateDropCopyMissingAccountPolicy_def ValidateMissingAccountPolicy_def
      split: missing_account_policy.splits)

end
