(* ===== verification/DecimalPkg.thy ===== *)
theory DecimalPkg
  imports Complex_Main GoText
begin

section \<open>The decimal package\<close>

text \<open>
  The code computes with \<^verbatim>\<open>github.com/shopspring/decimal\<close>, which is not part of the
  repository. A \<open>decimal_pkg\<close> holds the functions of that package the code calls; every
  definition that uses them takes one as its argument \<open>D\<close>. \<open>dval\<close> is the number a decimal
  stands for, its coefficient times ten to its exponent. \<open>decimal_pkg_ok\<close> is the documented
  behaviour the theorems rely on: comparison is by value, \<^verbatim>\<open>NewFromBigInt\<close> keeps its
  arguments, sums and differences are exact.
\<close>

record 'd decimal_pkg =
  NewFromString :: "string \<Rightarrow> 'd option"
  Coefficient :: "'d \<Rightarrow> int"
  Exponent :: "'d \<Rightarrow> int"
  NewFromBigInt :: "int \<Rightarrow> int \<Rightarrow> 'd"
  AddDec :: "'d \<Rightarrow> 'd \<Rightarrow> 'd"
  SubDec :: "'d \<Rightarrow> 'd \<Rightarrow> 'd"
  CmpDec :: "'d \<Rightarrow> 'd \<Rightarrow> int"
  DecString :: "'d \<Rightarrow> string"
  ZeroDec :: 'd

definition dval :: "'d decimal_pkg \<Rightarrow> 'd \<Rightarrow> rat" where
  "dval D x = of_int (Coefficient D x) * 10 powi (Exponent D x)"

definition dec_lt :: "'d decimal_pkg \<Rightarrow> 'd \<Rightarrow> 'd \<Rightarrow> bool" where
  "dec_lt D a b \<longleftrightarrow> CmpDec D a b < 0"

definition dec_gt :: "'d decimal_pkg \<Rightarrow> 'd \<Rightarrow> 'd \<Rightarrow> bool" where
  "dec_gt D a b \<longleftrightarrow> CmpDec D a b > 0"

definition dec_le :: "'d decimal_pkg \<Rightarrow> 'd \<Rightarrow> 'd \<Rightarrow> bool" where
  "dec_le D a b \<longleftrightarrow> CmpDec D a b \<le> 0"

definition dec_eq :: "'d decimal_pkg \<Rightarrow> 'd \<Rightarrow> 'd \<Rightarrow> bool" where
  "dec_eq D a b \<longleftrightarrow> CmpDec D a b = 0"

definition dec_positive :: "'d decimal_pkg \<Rightarrow> 'd \<Rightarrow> bool" where
  "dec_positive D a \<longleftrightarrow> Coefficient D a > 0"

definition dec_negative :: "'d decimal_pkg \<Rightarrow> 'd \<Rightarrow> bool" where
  "dec_negative D a \<longleftrightarrow> Coefficient D a < 0"

definition dec_zero :: "'d decimal_pkg \<Rightarrow> 'd" where
  "dec_zero D = NewFromBigInt D 0 0"

definition decimal_pkg_ok :: "'d decimal_pkg \<Rightarrow> bool" where
  "decimal_pkg_ok D \<longleftrightarrow>
     (\<forall>a b. CmpDec D a b < 0 \<longleftrightarrow> dval D a < dval D b)
   \<and> (\<forall>a b. CmpDec D a b > 0 \<longleftrightarrow> dval D b < dval D a)
   \<and> (\<forall>m e. Coefficient D (NewFromBigInt D m e) = m \<and> Exponent D (NewFromBigInt D m e) = e)
   \<and> (\<forall>a b. dval D (AddDec D a b) = dval D a + dval D b)
   \<and> (\<forall>a b. dval D (SubDec D a b) = dval D a - dval D b)
   \<and> (\<exists>z. NewFromString D ''0'' = Some z \<and> Coefficient D z = 0 \<and> Exponent D z = 0)
   \<and> Coefficient D (ZeroDec D) = 0"

lemma decimal_okD:
  assumes "decimal_pkg_ok D"
  shows dec_lt_val: "dec_lt D a b \<longleftrightarrow> dval D a < dval D b"
    and dec_gt_val: "dec_gt D a b \<longleftrightarrow> dval D b < dval D a"
    and dec_le_val: "dec_le D a b \<longleftrightarrow> dval D a \<le> dval D b"
    and dec_eq_val: "dec_eq D a b \<longleftrightarrow> dval D a = dval D b"
    and Coefficient_New: "Coefficient D (NewFromBigInt D m e) = m"
    and Exponent_New: "Exponent D (NewFromBigInt D m e) = e"
    and dval_Add: "dval D (AddDec D a b) = dval D a + dval D b"
    and dval_Sub: "dval D (SubDec D a b) = dval D a - dval D b"
    and NewFromString_zero: "\<exists>z. NewFromString D ''0'' = Some z \<and> Coefficient D z = 0
      \<and> Exponent D z = 0"
proof -
  have lt: "CmpDec D a b < 0 \<longleftrightarrow> dval D a < dval D b"
    and gt: "CmpDec D a b > 0 \<longleftrightarrow> dval D b < dval D a" for a b
    using assms by (simp_all add: decimal_pkg_ok_def)
  show "dec_lt D a b \<longleftrightarrow> dval D a < dval D b" using lt by (simp add: dec_lt_def)
  show "dec_gt D a b \<longleftrightarrow> dval D b < dval D a" using gt by (simp add: dec_gt_def)
  show "dec_le D a b \<longleftrightarrow> dval D a \<le> dval D b"
    using gt[of a b] by (simp add: dec_le_def not_less[symmetric])
  show "dec_eq D a b \<longleftrightarrow> dval D a = dval D b"
    using lt[of a b] gt[of a b] unfolding dec_eq_def by linarith
qed (use assms in \<open>simp_all add: decimal_pkg_ok_def\<close>)

lemma dval_New: "decimal_pkg_ok D \<Longrightarrow> dval D (NewFromBigInt D m e) = of_int m * 10 powi e"
  by (simp add: dval_def Coefficient_New Exponent_New)

lemma dval_zero [simp]: "decimal_pkg_ok D \<Longrightarrow> dval D (dec_zero D) = 0"
  by (simp add: dec_zero_def dval_New)

lemma dval_ZeroDec [simp]: "decimal_pkg_ok D \<Longrightarrow> dval D (ZeroDec D) = 0"
  by (simp add: decimal_pkg_ok_def dval_def)

lemma powi_10_pos: "(0::rat) < 10 powi e"
  by simp

lemma dec_positive_val: "dec_positive D a \<longleftrightarrow> 0 < dval D a"
  unfolding dec_positive_def dval_def
  by (metis mult.commute of_int_0_less_iff powi_10_pos zero_less_mult_pos mult_pos_pos)

lemma dec_negative_val: "dec_negative D a \<longleftrightarrow> dval D a < 0"
  unfolding dec_negative_def dval_def
  by (metis mult_less_0_iff not_less_iff_gr_or_eq of_int_less_0_iff powi_10_pos)

subsection \<open>A concrete package for the witnesses\<close>

text \<open>
  Coefficient and exponent as a pair of integers, the notations the package documents:
  an optional sign, digits with at most one point, an optional decimal exponent.
\<close>

definition digits_value :: "string \<Rightarrow> int" where
  "digits_value ds = foldl (\<lambda>n c. 10 * n + (int (of_char c) - 48)) 0 ds"

definition parse_digits :: "string \<Rightarrow> int option" where
  "parse_digits ds = (if ds \<noteq> [] \<and> list_all is_digit ds then Some (digits_value ds) else None)"

fun parse_signed :: "string \<Rightarrow> int option" where
  "parse_signed (CHR ''-'' # ds) = map_option uminus (parse_digits ds)"
| "parse_signed (CHR ''+'' # ds) = parse_digits ds"
| "parse_signed ds = parse_digits ds"

definition parse_plain :: "string \<Rightarrow> (int \<times> int) option" where
  "parse_plain s =
     (let (whole, fraction) = cut_at CHR ''.'' s
      in map_option (\<lambda>c. (c, - int (length fraction))) (parse_signed (whole @ fraction)))"

definition is_exp_mark :: "char \<Rightarrow> bool" where
  "is_exp_mark c \<longleftrightarrow> c = CHR ''e'' \<or> c = CHR ''E''"

definition pair_parse :: "string \<Rightarrow> (int \<times> int) option" where
  "pair_parse s =
     (let m = takeWhile (\<lambda>c. \<not> is_exp_mark c) s;
          x = dropWhile (\<lambda>c. \<not> is_exp_mark c) s
      in case x of
           [] \<Rightarrow> parse_plain m
         | _ # e \<Rightarrow> (case (parse_plain m, parse_signed e) of
              (Some (c, k), Some j) \<Rightarrow> Some (c, k + j)
            | _ \<Rightarrow> None))"

definition pair_scale :: "int \<Rightarrow> int \<times> int \<Rightarrow> int" where
  "pair_scale m x = fst x * 10 ^ nat (snd x - m)"

definition pair_cmp :: "int \<times> int \<Rightarrow> int \<times> int \<Rightarrow> int" where
  "pair_cmp x y =
     (let m = min (snd x) (snd y) in sgn (pair_scale m x - pair_scale m y))"

definition pair_add :: "int \<times> int \<Rightarrow> int \<times> int \<Rightarrow> int \<times> int" where
  "pair_add x y =
     (let m = min (snd x) (snd y) in (pair_scale m x + pair_scale m y, m))"

fun nat_text :: "nat \<Rightarrow> nat \<Rightarrow> string" where
  "nat_text 0 n = []"
| "nat_text (Suc k) n =
     (if n < 10 then [char_of (48 + n)] else nat_text k (n div 10) @ [char_of (48 + n mod 10)])"

definition int_text :: "int \<Rightarrow> string" where
  "int_text i = (if i < 0 then ''-'' else []) @ nat_text (Suc (nat \<bar>i\<bar>)) (nat \<bar>i\<bar>)"

definition pair_text :: "int \<times> int \<Rightarrow> string" where
  "pair_text x = (if snd x = 0 then int_text (fst x)
     else int_text (fst x) @ ''e'' @ int_text (snd x))"

definition pair_pkg :: "(int \<times> int) decimal_pkg" where
  "pair_pkg = \<lparr> NewFromString = pair_parse, Coefficient = fst, Exponent = snd,
     NewFromBigInt = Pair, AddDec = pair_add,
     SubDec = (\<lambda>x y. pair_add x (- fst y, snd y)), CmpDec = pair_cmp,
     DecString = pair_text, ZeroDec = (0, 1) \<rparr>"

lemma pair_pkg_sel [simp]:
  "NewFromString pair_pkg = pair_parse" "Coefficient pair_pkg = fst" "Exponent pair_pkg = snd"
  "NewFromBigInt pair_pkg = Pair" "AddDec pair_pkg = pair_add"
  "SubDec pair_pkg = (\<lambda>x y. pair_add x (- fst y, snd y))" "CmpDec pair_pkg = pair_cmp"
  "DecString pair_pkg = pair_text" "ZeroDec pair_pkg = (0, 1)"
  by (simp_all add: pair_pkg_def)

lemma pair_scale_val:
  assumes "m \<le> snd x"
  shows "of_int (pair_scale m x) * 10 powi m = dval pair_pkg x"
proof -
  have "(10::rat) ^ nat (snd x - m) * 10 powi m = 10 powi (snd x)"
    using assms by (simp flip: power_int_of_nat add: power_int_add[symmetric])
  then show ?thesis by (simp add: pair_scale_def dval_def pair_pkg_def mult.assoc)
qed

lemma pair_cmp_val:
  "pair_cmp x y < 0 \<longleftrightarrow> dval pair_pkg x < dval pair_pkg y"
  "pair_cmp x y > 0 \<longleftrightarrow> dval pair_pkg y < dval pair_pkg x"
proof -
  define m where "m = min (snd x) (snd y)"
  have x: "dval pair_pkg x = of_int (pair_scale m x) * 10 powi m"
    and y: "dval pair_pkg y = of_int (pair_scale m y) * 10 powi m"
    by (rule pair_scale_val[symmetric]; simp add: m_def)+
  have p: "(0::rat) < 10 powi m" by simp
  show "pair_cmp x y < 0 \<longleftrightarrow> dval pair_pkg x < dval pair_pkg y"
    unfolding x y using p by (simp add: pair_cmp_def m_def[symmetric] Let_def sgn_if)
  show "pair_cmp x y > 0 \<longleftrightarrow> dval pair_pkg y < dval pair_pkg x"
    unfolding x y using p by (simp add: pair_cmp_def m_def[symmetric] Let_def sgn_if)
qed

lemma pair_add_val: "dval pair_pkg (pair_add x y) = dval pair_pkg x + dval pair_pkg y"
proof -
  define m where "m = min (snd x) (snd y)"
  have x: "dval pair_pkg x = of_int (pair_scale m x) * 10 powi m"
    and y: "dval pair_pkg y = of_int (pair_scale m y) * 10 powi m"
    by (rule pair_scale_val[symmetric]; simp add: m_def)+
  show ?thesis unfolding x y
    by (simp add: pair_add_def m_def[symmetric] Let_def dval_def pair_pkg_def distrib_right)
qed

lemma pair_pkg_ok: "decimal_pkg_ok pair_pkg"
proof -
  have "dval pair_pkg (pair_add x (- fst y, snd y)) = dval pair_pkg x - dval pair_pkg y" for x y
    by (simp add: pair_add_val) (simp add: dval_def)
  moreover have "pair_parse ''0'' = Some (0, 0)" by code_simp
  ultimately show ?thesis
    using pair_cmp_val pair_add_val unfolding decimal_pkg_ok_def pair_pkg_sel by simp
qed

end
