(* ===== verification/EngineDecimals.thy ===== *)
theory EngineDecimals
  imports DecimalPkg Identity GoJson "HOL-Library.Signed_Division"
begin

section \<open>Decimal texts\<close>

text \<open>
  The decimal checks of \<^verbatim>\<open>framework/domain/domain.go\<close>: the engine's decimal range, sums of
  decimal texts and the market-data price fields. \<open>D\<close> is the decimal package.
\<close>

definition ValidateDecimal :: "'d decimal_pkg \<Rightarrow> string \<Rightarrow> go_error option" where
  "ValidateDecimal D value =
     check (NewFromString D value = None) (err_invalid ''is not a valid decimal'')"

lemma ValidateDecimal_None: "ValidateDecimal D v = None \<longleftrightarrow> NewFromString D v \<noteq> None"
  by (simp add: ValidateDecimal_def)

lemma ValidateDecimal_invalid: "ValidateDecimal D v = Some e \<Longrightarrow> wraps e ErrInvalid"
  by (auto simp: ValidateDecimal_def)

subsection \<open>The engine's decimal range\<close>

definition engineDecimalMaxScale :: int where "engineDecimalMaxScale = 28"
definition engineDecimalMantissaBits :: nat where "engineDecimalMantissaBits = 96"
definition engineDecimalMaxLength :: nat where "engineDecimalMaxLength = 64"

text \<open>\<open>big.Int.BitLen\<close>: the length of the absolute value in bits.\<close>

fun bit_length_nat :: "nat \<Rightarrow> nat" where
  "bit_length_nat n = (if n = 0 then 0 else Suc (bit_length_nat (n div 2)))"

declare bit_length_nat.simps [simp del]

definition BitLen :: "int \<Rightarrow> nat" where
  "BitLen m = bit_length_nat (nat \<bar>m\<bar>)"

text \<open>The loop that drops trailing fractional zeros; \<open>QuoRem\<close> truncates towards zero.\<close>

function drop_zeros :: "int \<Rightarrow> int \<Rightarrow> int \<times> int" where
  "drop_zeros mantissa ex =
     (if ex < 0 then
        (if mantissa smod 10 \<noteq> 0 then (mantissa, ex)
         else drop_zeros (mantissa sdiv 10) (ex + 1))
      else (mantissa, ex))"
  by pat_completeness auto
termination by (relation "measure (\<lambda>(m, e). nat (- e))") auto

declare drop_zeros.simps [simp del]

definition ParseEngineDecimal :: "'d decimal_pkg \<Rightarrow> string \<Rightarrow> go_error + 'd" where
  "ParseEngineDecimal D value =
     (if rune_count value > engineDecimalMaxLength then Inl (err_invalid ''code points, at most'')
      else case NewFromString D value of
        None \<Rightarrow> Inl (err_invalid ''is not a valid decimal'')
      | Some parsed \<Rightarrow>
          (let outside = err_invalid ''is outside the engine decimal range'';
               mantissa = Coefficient D parsed; ex = Exponent D parsed
           in if mantissa = 0 then
                (let minExponent = - (engineDecimalMaxScale + int engineDecimalMaxLength)
                 in if ex < minExponent \<or> ex > engineDecimalMaxScale
                    then Inl (err_invalid ''has written exponent outside'')
                    else Inr (NewFromBigInt D 0 0))
              else if ex > engineDecimalMaxScale then Inl outside
              else (case drop_zeros mantissa ex of (mantissa, ex) \<Rightarrow>
                if ex < - engineDecimalMaxScale then Inl outside
                else (case (if ex > 0 then (mantissa * 10 ^ nat ex, 0) else (mantissa, ex)) of
                  (mantissa, ex) \<Rightarrow>
                    if BitLen mantissa > engineDecimalMantissaBits then Inl outside
                    else Inr (NewFromBigInt D mantissa ex)))))"

lemma bit_length_nat_le: "bit_length_nat n \<le> k \<longleftrightarrow> n < 2 ^ k"
proof (induction n arbitrary: k rule: bit_length_nat.induct)
  case (1 n)
  show ?case
  proof (cases "n = 0")
    case True
    then show ?thesis by (simp add: bit_length_nat.simps)
  next
    case False
    show ?thesis
    proof (cases k)
      case 0
      then show ?thesis using False by (subst bit_length_nat.simps) simp
    next
      case (Suc j)
      have "n div 2 < 2 ^ j \<longleftrightarrow> n < 2 ^ Suc j" by auto
      then show ?thesis using 1 False Suc by (subst bit_length_nat.simps) simp
    qed
  qed
qed

lemma BitLen_le: "BitLen m \<le> k \<longleftrightarrow> \<bar>m\<bar> < 2 ^ k"
proof -
  have "nat \<bar>m\<bar> < 2 ^ k \<longleftrightarrow> \<bar>m\<bar> < 2 ^ k" by (simp add: nat_less_iff)
  then show ?thesis by (simp add: BitLen_def bit_length_nat_le)
qed

lemma smod_10_0: "(m::int) smod 10 = 0 \<longleftrightarrow> 10 dvd m"
  by (auto simp: signed_modulo_int_def signed_divide_int_def sgn_if abs_if split: if_splits)

lemma sdiv_10: "10 dvd (m::int) \<Longrightarrow> m sdiv 10 = m div 10"
  by (auto simp: signed_divide_int_def sgn_if abs_if split: if_splits)

lemma drop_zeros_nonneg: "0 \<le> e \<Longrightarrow> drop_zeros m e = (m, e)"
  by (simp add: drop_zeros.simps)

lemma drop_zeros_spec:
  assumes "drop_zeros m e = (m', e')" and "m \<noteq> 0"
  shows "of_int m' * (10::rat) powi e' = of_int m * 10 powi e \<and> m' \<noteq> 0 \<and> e \<le> e'
    \<and> (e < 0 \<longrightarrow> e' \<le> 0 \<and> (e' = 0 \<or> \<not> 10 dvd m'))"
  using assms
proof (induction m e rule: drop_zeros.induct)
  case (1 m e)
  show ?case
  proof (cases "e < 0 \<and> 10 dvd m")
    case False
    with "1.prems" have "m' = m \<and> e' = e"
      by (subst (asm) drop_zeros.simps) (auto simp: smod_10_0 split: if_splits)
    with False "1.prems"(2) show ?thesis by auto
  next
    case True
    then obtain k where k: "m = 10 * k" by blast
    have step: "drop_zeros m e = drop_zeros k (e + 1)"
      using True k by (subst drop_zeros.simps) (simp add: smod_10_0 sdiv_10)
    have "k \<noteq> 0" using "1.prems"(2) k by simp
    moreover have "of_int k * (10::rat) powi (e + 1) = of_int m * 10 powi e"
      by (simp add: k power_int_add_1)
    moreover have "m sdiv 10 = k" using True k by (simp add: sdiv_10)
    ultimately have "of_int m' * (10::rat) powi e' = of_int m * 10 powi e \<and> m' \<noteq> 0 \<and> e + 1 \<le> e'
      \<and> (e + 1 < 0 \<longrightarrow> e' \<le> 0 \<and> (e' = 0 \<or> \<not> 10 dvd m'))"
      using "1.IH"[of] True "1.prems"(1) step by (simp add: smod_10_0)
    moreover have "e + 1 = 0 \<Longrightarrow> e' = 0"
      using "1.prems"(1) step by (simp add: drop_zeros_nonneg)
    ultimately show ?thesis using True by (cases "e + 1 < 0") auto
  qed
qed

text \<open>The numbers the engine can hold: 96 bits of mantissa at a scale of at most 28.\<close>

definition engine_decimal :: "rat \<Rightarrow> bool" where
  "engine_decimal v \<longleftrightarrow>
     (\<exists>m s. 0 \<le> s \<and> s \<le> 28 \<and> \<bar>m\<bar> < 2 ^ 96 \<and> v = of_int m * 10 powi (- s))"

text \<open>The value and the form of an accepted decimal.\<close>

lemma ParseEngineDecimal_sound:
  assumes ok: "decimal_pkg_ok D" and res: "ParseEngineDecimal D v = Inr d"
  shows "\<exists>x. NewFromString D v = Some x \<and> dval D d = dval D x \<and> rune_count v \<le> 64
    \<and> - 28 \<le> Exponent D d \<and> Exponent D d \<le> 0 \<and> \<bar>Coefficient D d\<bar> < 2 ^ 96"
proof -
  have len: "rune_count v \<le> 64"
    using res by (auto simp: ParseEngineDecimal_def engineDecimalMaxLength_def split: if_splits)
  then obtain x where x: "NewFromString D v = Some x"
    using res by (auto simp: ParseEngineDecimal_def split: if_splits option.splits)
  define m where "m = Coefficient D x"
  define e where "e = Exponent D x"
  obtain m1 e1 where dz: "drop_zeros m e = (m1, e1)" by (cases "drop_zeros m e")
  show ?thesis
  proof (cases "m = 0")
    case True
    then have "d = NewFromBigInt D 0 0"
      using res x len by (auto simp: ParseEngineDecimal_def m_def Let_def split: if_splits)
    then show ?thesis using x len True
      by (simp add: dval_def Coefficient_New[OF ok] Exponent_New[OF ok] m_def)
  next
    case False
    note spec = drop_zeros_spec[OF dz False]
    define f where "f = (if e1 > 0 then (m1 * 10 ^ nat e1, 0) else (m1, e1))"
    have d: "d = NewFromBigInt D (fst f) (snd f)" "- 28 \<le> e1" "BitLen (fst f) \<le> 96"
      using res x len False
      by (auto simp: ParseEngineDecimal_def m_def[symmetric] e_def[symmetric] Let_def dz f_def
          engineDecimalMaxScale_def engineDecimalMantissaBits_def split: if_splits)
    have "of_int (fst f) * (10::rat) powi (snd f) = of_int m1 * 10 powi e1"
      by (simp add: f_def power_int_def)
    moreover have "- 28 \<le> snd f" "snd f \<le> 0" using d(2) by (auto simp: f_def)
    ultimately show ?thesis using d spec x len
      by (simp add: dval_def Coefficient_New[OF ok] Exponent_New[OF ok] BitLen_le m_def e_def)
  qed
qed

text \<open>A number with a canonical mantissa has no smaller one at any other scale.\<close>

lemma canonical_mantissa:
  fixes a b :: int
  assumes eq: "of_int a * (10::rat) powi e = of_int b * 10 powi (- s)" and a: "a \<noteq> 0"
    and can: "e < 0 \<longrightarrow> \<not> 10 dvd a" and s: "0 \<le> s"
  shows "- s \<le> e \<and> \<bar>a * 10 ^ nat (if 0 < e then e else 0)\<bar> \<le> \<bar>b\<bar>"
proof -
  have e: "- s \<le> e"
  proof (rule ccontr)
    assume "\<not> - s \<le> e"
    then have lt: "e < - s" by simp
    have "of_int a = of_int b * (10::rat) powi (- s - e)"
      using arg_cong[OF eq, of "\<lambda>z. z * 10 powi (- e)"]
      by (simp add: mult.assoc power_int_add[symmetric])
    moreover have "(10::rat) powi (- s - e) = of_int (10 ^ nat (- s - e))"
      using lt by (simp add: power_int_def)
    ultimately have "a = b * 10 ^ nat (- s - e)"
      by (metis of_int_eq_iff of_int_mult)
    moreover have "nat (- s - e) = Suc (nat (- s - e - 1))" using lt by simp
    ultimately have "10 dvd a" by simp
    with can lt s show False by simp
  qed
  have "of_int b = of_int a * (10::rat) powi (e + s)"
    using arg_cong[OF eq, of "\<lambda>z. z * 10 powi s"]
    by (simp add: mult.assoc power_int_add[symmetric])
  moreover have "(10::rat) powi (e + s) = of_int (10 ^ nat (e + s))"
    using e by (simp add: power_int_def)
  ultimately have b: "b = a * 10 ^ nat (e + s)" by (metis of_int_eq_iff of_int_mult)
  have "nat (if 0 < e then e else 0) \<le> nat (e + s)" using e s by auto
  then have "(10::int) ^ nat (if 0 < e then e else 0) \<le> 10 ^ nat (e + s)"
    by (intro power_increasing) auto
  then show ?thesis using e by (simp add: b abs_mult mult_left_mono)
qed

lemma ParseEngineDecimal_complete:
  assumes ok: "decimal_pkg_ok D" and len: "rune_count v \<le> 64"
    and x: "NewFromString D v = Some x" and nz: "dval D x \<noteq> 0"
    and rep: "engine_decimal (dval D x)"
  shows "\<exists>d. ParseEngineDecimal D v = Inr d"
proof -
  define m where "m = Coefficient D x"
  define e where "e = Exponent D x"
  have m: "m \<noteq> 0" using nz by (auto simp: dval_def m_def)
  obtain m1 e1 where dz: "drop_zeros m e = (m1, e1)" by (cases "drop_zeros m e")
  note spec = drop_zeros_spec[OF dz m]
  obtain b s where b: "0 \<le> s" "s \<le> 28" "\<bar>b\<bar> < 2 ^ 96"
    "of_int m1 * (10::rat) powi e1 = of_int b * 10 powi (- s)"
    using rep spec unfolding engine_decimal_def dval_def m_def e_def by metis
  have "e1 < 0 \<longrightarrow> \<not> 10 dvd m1" using spec by auto
  from canonical_mantissa[OF b(4) _ this b(1)] spec
  have can: "- s \<le> e1" "\<bar>m1 * 10 ^ nat (if 0 < e1 then e1 else 0)\<bar> \<le> \<bar>b\<bar>" by auto
  have "e1 \<le> 28"
  proof (rule ccontr)
    assume "\<not> e1 \<le> 28"
    then have "29 \<le> nat (if 0 < e1 then e1 else 0)" by auto
    then have "(10::int) ^ 29 \<le> 10 ^ nat (if 0 < e1 then e1 else 0)"
      by (rule power_increasing) simp
    also have "\<dots> \<le> \<bar>m1\<bar> * 10 ^ nat (if 0 < e1 then e1 else 0)"
    proof -
      have "m1 \<noteq> 0" using spec by simp
      then have "1 \<le> \<bar>m1\<bar>" by arith
      then show ?thesis by (simp del: of_nat_power)
    qed
    also have "\<dots> = \<bar>m1 * 10 ^ nat (if 0 < e1 then e1 else 0)\<bar>"
      by (simp add: abs_mult)
    finally show False using can(2) b(3) by simp
  qed
  then have "e \<le> 28" using spec by linarith
  moreover have "- 28 \<le> e1" using can(1) b(2) by linarith
  moreover have "BitLen (m1 * 10 ^ nat (if 0 < e1 then e1 else 0)) \<le> 96"
    using can(2) b(3) unfolding BitLen_le by linarith
  ultimately show ?thesis using x m len
    by (auto simp: ParseEngineDecimal_def m_def[symmetric] e_def[symmetric] Let_def dz
        engineDecimalMaxScale_def engineDecimalMantissaBits_def engineDecimalMaxLength_def
        not_less split: if_splits)
qed

lemma ParseEngineDecimal_invalid: "ParseEngineDecimal D v = Inl e \<Longrightarrow> wraps e ErrInvalid"
  by (auto simp: ParseEngineDecimal_def Let_def split: if_splits option.splits prod.splits)

text \<open>The text \<open>0\<close>, which stands for a missing amount, is always accepted.\<close>

lemma ParseEngineDecimal_zero:
  assumes "decimal_pkg_ok D"
  shows "ParseEngineDecimal D ''0'' = Inr (NewFromBigInt D 0 0)"
proof -
  have "rune_count ''0'' \<le> 64" by code_simp
  with NewFromString_zero[OF assms] show ?thesis
    by (auto simp: ParseEngineDecimal_def engineDecimalMaxLength_def engineDecimalMaxScale_def Let_def)
qed

subsection \<open>Sums and positive decimals\<close>

definition AddDecimals :: "'d decimal_pkg \<Rightarrow> string \<Rightarrow> string \<Rightarrow> go_error + string" where
  "AddDecimals D base delta =
     res_bind
       (if base = [] then Inr (ZeroDec D)
        else case NewFromString D base of
          None \<Rightarrow> Inl (err_invalid ''base is not a valid decimal'') | Some b \<Rightarrow> Inr b)
       (\<lambda>b. res_bind
         (if delta = [] then Inr (ZeroDec D)
          else case NewFromString D delta of
            None \<Rightarrow> Inl (err_invalid ''delta is not a valid decimal'') | Some d \<Rightarrow> Inr d)
         (\<lambda>d. Inr (DecString D (AddDec D b d))))"

definition validatePositiveDecimal :: "'d decimal_pkg \<Rightarrow> string \<Rightarrow> go_error option" where
  "validatePositiveDecimal D s =
     (case NewFromString D s of
        None \<Rightarrow> Some (err_invalid ''is not a positive decimal'')
      | Some d \<Rightarrow> check (\<not> dec_positive D d) (err_invalid ''is not a positive decimal''))"

text \<open>The number a text names, an empty one being zero.\<close>

definition amount_of :: "'d decimal_pkg \<Rightarrow> string \<Rightarrow> rat option" where
  "amount_of D s = (if s = [] then Some 0 else map_option (dval D) (NewFromString D s))"

lemma AddDecimals_sum:
  assumes "decimal_pkg_ok D"
  shows "(\<exists>t. AddDecimals D a b = Inr t) \<longleftrightarrow> amount_of D a \<noteq> None \<and> amount_of D b \<noteq> None"
    and "AddDecimals D a b = Inr t \<Longrightarrow>
      \<exists>d. t = DecString D d \<and> dval D d = the (amount_of D a) + the (amount_of D b)"
  using assms
  by (auto simp: AddDecimals_def amount_of_def dval_Add split: if_splits option.splits)

lemma validatePositiveDecimal_None:
  "validatePositiveDecimal D s = None \<longleftrightarrow> (\<exists>d. NewFromString D s = Some d \<and> 0 < dval D d)"
  by (auto simp: validatePositiveDecimal_def dec_positive_val split: option.splits)

lemma validatePositiveDecimal_invalid:
  "validatePositiveDecimal D s = Some e \<Longrightarrow> wraps e ErrInvalid"
  by (auto simp: validatePositiveDecimal_def split: option.splits)

subsection \<open>Market-data entries\<close>

record market_data_instance =
  MDInst_ExternalID :: string
  MDInst_Provider :: string
  MDInst_Label :: string
  MDInst_Credentials :: string
  MDInst_Enabled :: bool

record market_data_instrument =
  MDInstr_Instance :: string
  MDInstr_ExternalSymbol :: string
  MDInstr_BaseAsset :: string
  MDInstr_QuoteAsset :: string
  MDInstr_BaseAssetID :: "64 word"
  MDInstr_QuoteAssetID :: "64 word"
  MDInstr_ManualPrice :: string
  MDInstr_Enabled :: bool

definition ValidateMarketDataInstance :: "market_data_instance \<Rightarrow> go_error option" where
  "ValidateMarketDataInstance i = first_err
     [check (MDInst_Label i \<noteq> trim_space (MDInst_Label i))
        (err_invalid ''market-data source label is not canonical''),
      check (MDInst_Provider i \<noteq> trim_space (MDInst_Provider i))
        (err_invalid ''market-data provider is not canonical''),
      check (MDInst_Credentials i \<noteq> trim_space (MDInst_Credentials i))
        (err_invalid ''market-data credentials are not canonical''),
      check (MDInst_Label i = []) (err_invalid ''market-data source label''),
      check (MDInst_Provider i = []) (err_invalid ''market-data provider''),
      check (MDInst_Credentials i \<noteq> [] \<and> \<not> json_valid (MDInst_Credentials i))
        (err_invalid ''market-data credentials'')]"

definition ValidateMarketDataMark :: "'d decimal_pkg \<Rightarrow> string \<Rightarrow> go_error option" where
  "ValidateMarketDataMark D mark =
     (if mark = [] then None else map_option (Wrap ''mark'') (ValidateDecimal D mark))"

definition ValidateMarketDataStrike :: "'d decimal_pkg \<Rightarrow> string \<Rightarrow> go_error option" where
  "ValidateMarketDataStrike D strike =
     (if strike = [] then None else map_option (Wrap ''strike'') (ValidateDecimal D strike))"

definition ValidateMarketDataInstrument ::
  "(nat \<Rightarrow> bool) \<Rightarrow> 'd decimal_pkg \<Rightarrow> market_data_instrument \<Rightarrow> go_error option" where
  "ValidateMarketDataInstrument pr D i = first_err
     [check (MDInstr_ExternalSymbol i \<noteq> trim_space (MDInstr_ExternalSymbol i))
        (err_invalid ''market-data external symbol is not canonical''),
      check (MDInstr_BaseAsset i \<noteq> trim_space (MDInstr_BaseAsset i))
        (err_invalid ''market-data base asset is not canonical''),
      check (MDInstr_QuoteAsset i \<noteq> trim_space (MDInstr_QuoteAsset i))
        (err_invalid ''market-data quote asset is not canonical''),
      check (MDInstr_ManualPrice i \<noteq> trim_space (MDInstr_ManualPrice i))
        (err_invalid ''market-data manual price is not canonical''),
      check (MDInstr_Instance i = [] \<or> MDInstr_ExternalSymbol i = [])
        (err_invalid ''market-data instrument''),
      ValidateAsset pr (MDInstr_BaseAsset i),
      ValidateAsset pr (MDInstr_QuoteAsset i),
      ValidateMarketDataMark D (MDInstr_ManualPrice i)]"

lemma ValidateMarketDataMark_invalid:
  "ValidateMarketDataMark D m = Some e \<Longrightarrow> wraps e ErrInvalid"
  by (auto simp: ValidateMarketDataMark_def ValidateDecimal_def split: if_splits)

lemma ValidateMarketDataInstrument_invalid:
  "ValidateMarketDataInstrument pr D i = Some e \<Longrightarrow> wraps e ErrInvalid"
  unfolding ValidateMarketDataInstrument_def
  by (erule first_err_all)
    (auto dest!: sym[of "Some _"] intro: ValidateAsset_invalid ValidateMarketDataMark_invalid)

text \<open>The canonical test of the asset codes is subsumed by the asset check.\<close>

lemma ValidateMarketDataInstrument_iff:
  "ValidateMarketDataInstrument pr D i = None \<longleftrightarrow>
     MDInstr_Instance i \<noteq> [] \<and> MDInstr_ExternalSymbol i \<noteq> []
     \<and> canonical_text (MDInstr_ExternalSymbol i) \<and> canonical_text (MDInstr_ManualPrice i)
     \<and> ValidateAsset pr (MDInstr_BaseAsset i) = None
     \<and> ValidateAsset pr (MDInstr_QuoteAsset i) = None
     \<and> amount_of D (MDInstr_ManualPrice i) \<noteq> None"
  using validateAsset_canonical[of pr "MDInstr_BaseAsset i"]
    validateAsset_canonical[of pr "MDInstr_QuoteAsset i"]
  by (auto simp: ValidateMarketDataInstrument_def canonical_text_def ValidateAsset_def
      ValidateMarketDataMark_def ValidateDecimal_def amount_of_def)

end
