(* ===== verification/LimitRules.thy ===== *)
theory LimitRules
  imports EngineDecimals Accounts
begin

section \<open>Limits\<close>

text \<open>
  The barriers of \<^verbatim>\<open>framework/domain/limits.go\<close>: their scopes and axes, their validation
  and the tighten-only comparisons \<^verbatim>\<open>NoLooserThan\<close>. The comparisons share one contract, the
  locale \<open>strictness\<close>: a barrier accepted as no looser admits nothing the replaced one refuses,
  so that no sequence of tighten-only replacements ever loosens a barrier. The locale is
  interpreted on the rate, order-size, P\&L and limit-mode comparisons.
\<close>

datatype limit_policy =
    PolicyRateLimit | PolicyOrderSizeLimit | PolicySpotFundsPnlBoundsKillSwitch
  | PolicySpotFundsUnrealizedPnlBoundsKillSwitch | PolicySpotFundsTotalPnlBoundsKillSwitch
  | PolicySpotFundsLimitMode | OtherPolicy string

datatype limit_scope =
    ScopeBroker | ScopeGlobal | ScopeAsset | ScopeAccount | ScopeAccountGroup
  | ScopeAccountAsset | ScopeUnderlyingAsset | ScopeSettlementAsset
  | ScopeAccountUnderlyingAsset | ScopeAccountSettlementAsset | OtherScope string

definition HasAccountAxis :: "limit_scope \<Rightarrow> bool" where
  "HasAccountAxis s \<longleftrightarrow> s = ScopeAccount \<or> s = ScopeAccountAsset
     \<or> s = ScopeAccountUnderlyingAsset \<or> s = ScopeAccountSettlementAsset"

text \<open>A \<^verbatim>\<open>time.Duration\<close> is a number of nanoseconds.\<close>

type_synonym duration = int

definition second :: duration where "second = 1000000000"
definition hour :: duration where "hour = 3600 * second"

record limit_rate =
  Rate_Scope :: limit_scope
  Rate_Account :: account_id
  Rate_Asset :: string
  Rate_Window :: duration
  Rate_MaxOrders :: "64 word"

record limit_order_size =
  Size_Scope :: limit_scope
  Size_Account :: account_id
  Size_Asset :: string
  Size_MaxQuantity :: string
  Size_MaxNotional :: string

datatype pnl_axis =
    SpotFundsPnlAxisRealized | SpotFundsPnlAxisUnrealized | SpotFundsPnlAxisTotal
  | OtherPnlAxis string

record limit_pnl_bounds =
  Pnl_Axis :: pnl_axis
  Pnl_Scope :: limit_scope
  Pnl_Account :: account_id
  Pnl_AccountGroup :: string
  Pnl_Currency :: string
  Pnl_LowerBound :: string
  Pnl_UpperBound :: string

datatype limit_mode =
    SpotFundsLimitModeUnset | SpotFundsLimitModeEnforce | SpotFundsLimitModeTrackOnly
  | OtherLimitMode string

record limit_spot_funds_mode =
  Mode_Scope :: limit_scope
  Mode_Mode :: limit_mode

definition SpotFundsPnlAxes :: "pnl_axis list" where
  "SpotFundsPnlAxes =
     [SpotFundsPnlAxisRealized, SpotFundsPnlAxisUnrealized, SpotFundsPnlAxisTotal]"

text \<open>\<open>None\<close> is the empty policy id of an unknown axis.\<close>

fun AxisPolicy :: "pnl_axis \<Rightarrow> limit_policy option" where
  "AxisPolicy SpotFundsPnlAxisRealized = Some PolicySpotFundsPnlBoundsKillSwitch"
| "AxisPolicy SpotFundsPnlAxisUnrealized = Some PolicySpotFundsUnrealizedPnlBoundsKillSwitch"
| "AxisPolicy SpotFundsPnlAxisTotal = Some PolicySpotFundsTotalPnlBoundsKillSwitch"
| "AxisPolicy (OtherPnlAxis a) = None"

definition SpotFundsPnlAxisOf :: "limit_policy \<Rightarrow> pnl_axis option" where
  "SpotFundsPnlAxisOf policy = List.find (\<lambda>axis. AxisPolicy axis = Some policy) SpotFundsPnlAxes"

lemma SpotFundsPnlAxisOf_iff:
  "SpotFundsPnlAxisOf p = Some a \<longleftrightarrow> AxisPolicy a = Some p"
  by (cases a; cases p) (simp_all add: SpotFundsPnlAxisOf_def SpotFundsPnlAxes_def)

fun allowedScopes :: "limit_policy \<Rightarrow> limit_scope list option" where
  "allowedScopes PolicyRateLimit =
     Some [ScopeBroker, ScopeAsset, ScopeAccount, ScopeAccountAsset]"
| "allowedScopes PolicyOrderSizeLimit =
     Some [ScopeBroker, ScopeUnderlyingAsset, ScopeSettlementAsset,
       ScopeAccountUnderlyingAsset, ScopeAccountSettlementAsset]"
| "allowedScopes PolicySpotFundsPnlBoundsKillSwitch =
     Some [ScopeGlobal, ScopeAccountGroup, ScopeAccount]"
| "allowedScopes PolicySpotFundsUnrealizedPnlBoundsKillSwitch =
     Some [ScopeGlobal, ScopeAccountGroup, ScopeAccount]"
| "allowedScopes PolicySpotFundsTotalPnlBoundsKillSwitch =
     Some [ScopeGlobal, ScopeAccountGroup, ScopeAccount]"
| "allowedScopes PolicySpotFundsLimitMode = Some [ScopeGlobal]"
| "allowedScopes (OtherPolicy p) = None"

subsection \<open>Scopes and axes\<close>

definition needsAsset :: "limit_scope \<Rightarrow> bool" where
  "needsAsset s \<longleftrightarrow> s = ScopeAsset \<or> s = ScopeAccountAsset
     \<or> s = ScopeUnderlyingAsset \<or> s = ScopeSettlementAsset
     \<or> s = ScopeAccountUnderlyingAsset \<or> s = ScopeAccountSettlementAsset"

definition ValidateLimitScopeAndAxes ::
  "(nat \<Rightarrow> bool) \<Rightarrow> limit_policy \<Rightarrow> limit_scope \<Rightarrow> account_id \<Rightarrow> string \<Rightarrow> string
     \<Rightarrow> go_error option" where
  "ValidateLimitScopeAndAxes pr policy scope acc asset grp =
     (case allowedScopes policy of
        None \<Rightarrow> Some (invalidField ''/scope'' ''unsupported_value'' (err_invalid ''unknown policy''))
      | Some allowed \<Rightarrow> first_err
         [check (scope \<notin> set allowed)
            (invalidField ''/scope'' ''enum'' (err_invalid ''scope not allowed for policy'')),
          (if HasAccountAxis scope
           then first_err
             [check (acc = [])
                (invalidField ''/account'' ''required'' (err_invalid ''scope requires an account'')),
              ValidateAccountID pr acc]
           else check (acc \<noteq> [])
             (invalidField ''/account'' ''unsupported_value''
               (err_invalid ''scope must not have account''))),
          (if scope = ScopeAccountGroup
           then check (grp = [])
             (invalidField ''/accountGroup'' ''required''
               (err_invalid ''scope requires an account_group''))
           else check (grp \<noteq> [])
             (invalidField ''/accountGroup'' ''unsupported_value''
               (err_invalid ''scope must not have account_group''))),
          (if needsAsset scope
           then check (asset = [])
             (invalidField ''/asset'' ''required'' (err_invalid ''scope requires an asset''))
           else check (asset \<noteq> [])
             (invalidField ''/asset'' ''unsupported_value''
               (err_invalid ''scope must not have asset'')))])"

lemma ValidateLimitScopeAndAxes_iff:
  "ValidateLimitScopeAndAxes pr p s a asset g = None \<longleftrightarrow>
     (\<exists>allowed. allowedScopes p = Some allowed \<and> s \<in> set allowed)
     \<and> (HasAccountAxis s \<longleftrightarrow> a \<noteq> []) \<and> (a \<noteq> [] \<longrightarrow> ValidateAccountID pr a = None)
     \<and> (s = ScopeAccountGroup \<longleftrightarrow> g \<noteq> []) \<and> (needsAsset s \<longleftrightarrow> asset \<noteq> [])"
  by (auto simp: ValidateLimitScopeAndAxes_def split: option.splits)

lemma ValidateLimitScopeAndAxes_invalid:
  "ValidateLimitScopeAndAxes pr p s a asset g = Some e \<Longrightarrow> wraps e ErrInvalid"
  by (auto simp: ValidateLimitScopeAndAxes_def first_err_Cons_Some ValidateAccountID_invalid
      split: option.splits if_splits)

subsection \<open>Validation of the barriers\<close>

definition LimitRate_Validate :: "(nat \<Rightarrow> bool) \<Rightarrow> limit_rate \<Rightarrow> go_error option" where
  "LimitRate_Validate pr l = first_err
     [ValidateLimitScopeAndAxes pr PolicyRateLimit (Rate_Scope l) (Rate_Account l) (Rate_Asset l) [],
      check (Rate_MaxOrders l = 0 \<or> Rate_MaxOrders l > 1000000000)
        (invalidField ''/maxOrders'' ''range'' (err_invalid ''max_orders must be > 0 and <= 1e9'')),
      check (Rate_Window l \<le> 0)
        (invalidField ''/windowMs'' ''range'' (err_invalid ''window must be > 0'')),
      check (Rate_Window l > 24 * hour)
        (invalidField ''/windowMs'' ''range'' (err_invalid ''window must be <= 24h''))]"

definition LimitOrderSize_Validate ::
  "(nat \<Rightarrow> bool) \<Rightarrow> 'd decimal_pkg \<Rightarrow> limit_order_size \<Rightarrow> go_error option" where
  "LimitOrderSize_Validate pr D l = first_err
     [ValidateLimitScopeAndAxes pr PolicyOrderSizeLimit (Size_Scope l) (Size_Account l)
        (Size_Asset l) [],
      (if Size_Scope l = ScopeUnderlyingAsset \<or> Size_Scope l = ScopeAccountUnderlyingAsset
       then first_err
         [check (Size_MaxQuantity l = [])
            (invalidField ''/maxQuantity'' ''required'' (err_invalid ''scope requires max_quantity'')),
          check (Size_MaxNotional l \<noteq> [])
            (invalidField ''/maxNotional'' ''unsupported_value''
              (err_invalid ''scope must not carry max_notional''))]
       else if Size_Scope l = ScopeSettlementAsset \<or> Size_Scope l = ScopeAccountSettlementAsset
       then first_err
         [check (Size_MaxNotional l = [])
            (invalidField ''/maxNotional'' ''required'' (err_invalid ''scope requires max_notional'')),
          check (Size_MaxQuantity l \<noteq> [])
            (invalidField ''/maxQuantity'' ''unsupported_value''
              (err_invalid ''scope must not carry max_quantity''))]
       else None),
      check (Size_MaxQuantity l = [] \<and> Size_MaxNotional l = [])
        (invalidField [] []
          (err_invalid ''order_size_limit requires at least max_quantity or max_notional'')),
      (if Size_MaxQuantity l \<noteq> []
       then map_option (\<lambda>e. invalidField ''/maxQuantity'' ''positive_decimal''
           (Wrap ''max_quantity'' e)) (validatePositiveDecimal D (Size_MaxQuantity l))
       else None),
      (if Size_MaxNotional l \<noteq> []
       then map_option (\<lambda>e. invalidField ''/maxNotional'' ''positive_decimal''
           (Wrap ''max_notional'' e)) (validatePositiveDecimal D (Size_MaxNotional l))
       else None)]"

text \<open>
  \<open>parseEngineBound\<close>: on top of the engine's range, the text must be plain notation as the
  engine reads it. \<open>digit_runes\<close> is the negated \<^verbatim>\<open>ContainsFunc\<close>.
\<close>

definition digit_runes :: "string \<Rightarrow> bool" where
  "digit_runes s \<longleftrightarrow> list_all (\<lambda>r. 48 \<le> r \<and> r \<le> 57) (go_runes s)"

definition parseEngineBound :: "'d decimal_pkg \<Rightarrow> string \<Rightarrow> go_error + 'd" where
  "parseEngineBound D value = res_bind (ParseEngineDecimal D value) (\<lambda>parsed.
     let unsigned = (if has_prefix value ''-'' \<or> has_prefix value ''+'' then tl value else value)
     in case cut_at CHR ''.'' unsigned of (whole, fraction) \<Rightarrow>
       (let digits = whole @ fraction
        in if \<not> digit_runes digits then Inl (err_invalid ''is not in plain notation'')
           else if int (length fraction) > engineDecimalMaxScale
             then Inl (err_invalid ''has fractional digits as written, at most'')
           else if digits = [] \<or> BitLen (digits_value digits) > engineDecimalMantissaBits
             then Inl (err_invalid ''has digits that, read as one integer as written, exceed'')
           else Inr parsed))"

definition validatePnlBounds :: "'d decimal_pkg \<Rightarrow> string \<Rightarrow> string \<Rightarrow> go_error option" where
  "validatePnlBounds D lower upper =
     (case (if lower \<noteq> [] then parseEngineBound D lower else Inr (dec_zero D)) of
        Inl e \<Rightarrow> Some (invalidField ''/lowerBound'' ''decimal'' (Wrap ''lower_bound'' e))
      | Inr lowerD \<Rightarrow>
         (case (if upper \<noteq> [] then parseEngineBound D upper else Inr (dec_zero D)) of
            Inl e \<Rightarrow> Some (invalidField ''/upperBound'' ''decimal'' (Wrap ''upper_bound'' e))
          | Inr upperD \<Rightarrow>
             check (lower \<noteq> [] \<and> upper \<noteq> [] \<and> dec_gt D lowerD upperD)
               (invalidField [] [] (err_invalid ''lower_bound must be <= upper_bound''))))"

definition LimitPnl_Validate ::
  "(nat \<Rightarrow> bool) \<Rightarrow> 'd decimal_pkg \<Rightarrow> limit_pnl_bounds \<Rightarrow> go_error option" where
  "LimitPnl_Validate pr D l =
     (case AxisPolicy (Pnl_Axis l) of
        None \<Rightarrow> Some (err_invalid ''unknown spot funds pnl axis'')
      | Some policy \<Rightarrow> first_err
         [ValidateLimitScopeAndAxes pr policy (Pnl_Scope l) (Pnl_Account l) [] (Pnl_AccountGroup l),
          check (Pnl_Currency l = [])
            (invalidField ''/currency'' ''required'' (err_invalid ''currency is required'')),
          check (Pnl_LowerBound l = [] \<and> Pnl_UpperBound l = [])
            (invalidField [] [] (err_invalid ''requires at least lower_bound or upper_bound'')),
          validatePnlBounds D (Pnl_LowerBound l) (Pnl_UpperBound l)])"

definition ValidateSpotFundsLimitMode :: "limit_mode \<Rightarrow> go_error option" where
  "ValidateSpotFundsLimitMode m = (case m of
       SpotFundsLimitModeEnforce \<Rightarrow> None
     | SpotFundsLimitModeTrackOnly \<Rightarrow> None
     | SpotFundsLimitModeUnset \<Rightarrow>
         Some (invalidField ''/mode'' ''required'' (err_invalid ''mode is required''))
     | OtherLimitMode t \<Rightarrow> Some (invalidField ''/mode'' ''unsupported_value''
         (err_invalid ''mode must be enforce or track_only'')))"

definition LimitMode_Validate ::
  "(nat \<Rightarrow> bool) \<Rightarrow> limit_spot_funds_mode \<Rightarrow> go_error option" where
  "LimitMode_Validate pr l = first_err
     [ValidateLimitScopeAndAxes pr PolicySpotFundsLimitMode (Mode_Scope l) [] [] [],
      ValidateSpotFundsLimitMode (Mode_Mode l)]"

definition limit_mode_of :: "string \<Rightarrow> limit_mode" where
  "limit_mode_of v =
     (if v = [] then SpotFundsLimitModeUnset
      else if v = ''enforce'' then SpotFundsLimitModeEnforce
      else if v = ''track_only'' then SpotFundsLimitModeTrackOnly
      else OtherLimitMode v)"

definition ParseSpotFundsLimitMode :: "string \<Rightarrow> go_error + limit_mode" where
  "ParseSpotFundsLimitMode v =
     (let mode = limit_mode_of v in of_outcome (ValidateSpotFundsLimitMode mode) mode)"

subsection \<open>The tighten-only comparisons\<close>

abbreviation err_loosening :: "string \<Rightarrow> go_error" where
  "err_loosening m \<equiv> Wrap m (Sentinel ErrLoosening)"

text \<open>No caller that may only tighten creates an account: it would carry no barrier.\<close>

definition guardTightenOnlyAccountCreation :: "caller \<Rightarrow> go_error option" where
  "guardTightenOnlyAccountCreation c = check (TightenOnly c)
     (err_loosening ''a new account would start unblocked, with no barrier of its own'')"

definition boundNoLooserThan ::
  "'d decimal_pkg \<Rightarrow> string \<Rightarrow> string \<Rightarrow> string \<Rightarrow> bool \<Rightarrow> go_error option" where
  "boundNoLooserThan D field value ref lo =
     (if ref = [] then None
      else if value = [] then Some (err_loosening ''unset while the current is'')
      else case ParseEngineDecimal D value of
        Inl e \<Rightarrow> Some (Wrap field e)
      | Inr v \<Rightarrow> (case ParseEngineDecimal D ref of
          Inl e \<Rightarrow> Some (Wrap (''the current '' @ field) e)
        | Inr r \<Rightarrow>
            if lo \<and> dec_lt D v r then Some (err_loosening ''below the current'')
            else if \<not> lo \<and> dec_gt D v r then Some (err_loosening ''above the current'')
            else None))"

definition Rate_NoLooserThan :: "limit_rate \<Rightarrow> limit_rate \<Rightarrow> go_error option" where
  "Rate_NoLooserThan l ref = first_err
     [(if Rate_Scope l = ScopeBroker \<or> Rate_Scope l = ScopeAsset
       then check (Rate_Window l \<noteq> Rate_Window ref)
         (err_loosening ''window differs from the current on a fixed-window scope'')
       else if Rate_Scope l = ScopeAccount \<or> Rate_Scope l = ScopeAccountAsset
       then check (Rate_Window l < Rate_Window ref) (err_loosening ''window below the current'')
       else Some (err_invalid ''scope not allowed for policy'')),
      check (Rate_MaxOrders l > Rate_MaxOrders ref)
        (err_loosening ''max_orders above the current'')]"

definition Size_NoLooserThan ::
  "'d decimal_pkg \<Rightarrow> limit_order_size \<Rightarrow> limit_order_size \<Rightarrow> go_error option" where
  "Size_NoLooserThan D l ref = first_err
     [boundNoLooserThan D ''max_quantity'' (Size_MaxQuantity l) (Size_MaxQuantity ref) False,
      boundNoLooserThan D ''max_notional'' (Size_MaxNotional l) (Size_MaxNotional ref) False]"

definition Pnl_NoLooserThan ::
  "'d decimal_pkg \<Rightarrow> limit_pnl_bounds \<Rightarrow> limit_pnl_bounds \<Rightarrow> go_error option" where
  "Pnl_NoLooserThan D l ref = first_err
     [check (Pnl_Currency l \<noteq> Pnl_Currency ref) (err_loosening ''currency differs from the current''),
      boundNoLooserThan D ''lower_bound'' (Pnl_LowerBound l) (Pnl_LowerBound ref) True,
      boundNoLooserThan D ''upper_bound'' (Pnl_UpperBound l) (Pnl_UpperBound ref) False]"

definition Mode_NoLooserThan :: "limit_mode \<Rightarrow> limit_mode \<Rightarrow> go_error option" where
  "Mode_NoLooserThan m prev = first_err
     [map_option (Wrap ''mode'') (ValidateSpotFundsLimitMode m),
      map_option (Wrap ''current mode'') (ValidateSpotFundsLimitMode prev),
      check (prev = SpotFundsLimitModeEnforce \<and> m = SpotFundsLimitModeTrackOnly)
        (err_loosening ''mode stops refusing on funds what the current refuses'')]"

subsection \<open>Validated barriers\<close>

lemma LimitRate_Validate_iff:
  "LimitRate_Validate pr l = None \<longleftrightarrow>
     ValidateLimitScopeAndAxes pr PolicyRateLimit (Rate_Scope l) (Rate_Account l) (Rate_Asset l) []
       = None
     \<and> 0 < unat (Rate_MaxOrders l) \<and> unat (Rate_MaxOrders l) \<le> 10 ^ 9
     \<and> 0 < Rate_Window l \<and> Rate_Window l \<le> 86400 * 10 ^ 9"
  by (auto simp: LimitRate_Validate_def hour_def second_def not_less not_le word_le_nat_alt
      unat_gt_0 dest: order_less_imp_le)

lemma map_option_None_check:
  "(if c then map_option f x else None) = None \<longleftrightarrow> (c \<longrightarrow> x = None)"
  by simp

text \<open>Which of the two ceilings a scope carries.\<close>

lemma LimitOrderSize_Validate_caps:
  assumes "LimitOrderSize_Validate pr D l = None"
  shows "Size_MaxQuantity l \<noteq> [] \<or> Size_MaxNotional l \<noteq> []"
    and "Size_Scope l \<in> {ScopeUnderlyingAsset, ScopeAccountUnderlyingAsset}
      \<Longrightarrow> Size_MaxQuantity l \<noteq> [] \<and> Size_MaxNotional l = []"
    and "Size_Scope l \<in> {ScopeSettlementAsset, ScopeAccountSettlementAsset}
      \<Longrightarrow> Size_MaxNotional l \<noteq> [] \<and> Size_MaxQuantity l = []"
    and "Size_MaxQuantity l \<noteq> []
      \<Longrightarrow> \<exists>d. NewFromString D (Size_MaxQuantity l) = Some d \<and> 0 < dval D d"
    and "Size_MaxNotional l \<noteq> []
      \<Longrightarrow> \<exists>d. NewFromString D (Size_MaxNotional l) = Some d \<and> 0 < dval D d"
  using assms
  by (auto simp: LimitOrderSize_Validate_def validatePositiveDecimal_None split: if_splits)

lemma validatePnlBounds_invalid: "validatePnlBounds D lo up = Some e \<Longrightarrow> wraps e ErrInvalid"
  by (auto simp: validatePnlBounds_def split: sum.splits)

lemma LimitPnl_Validate_invalid: "LimitPnl_Validate pr D l = Some e \<Longrightarrow> wraps e ErrInvalid"
  by (auto simp: LimitPnl_Validate_def first_err_Cons_Some ValidateLimitScopeAndAxes_invalid
      validatePnlBounds_invalid split: option.splits)

lemma LimitOrderSize_Validate_invalid:
  "LimitOrderSize_Validate pr D l = Some e \<Longrightarrow> wraps e ErrInvalid"
  by (auto simp: LimitOrderSize_Validate_def first_err_Cons_Some ValidateLimitScopeAndAxes_invalid
      split: if_splits)

subsubsection \<open>Bounds as the engine reads them\<close>

text \<open>
  The specification: the engine's reader takes an optional sign and digits with at most one
  point, at most 28 of them after the point, their number as written below $2^{96}$.
\<close>

definition plain_engine_text :: "string \<Rightarrow> bool" where
  "plain_engine_text v \<longleftrightarrow>
     (\<exists>s w f p. v = s @ w @ p @ f \<and> (s = [] \<or> s = ''+'' \<or> s = ''-'') \<and> (p = [] \<or> p = ''.'')
        \<and> (p = [] \<longrightarrow> f = []) \<and> w @ f \<noteq> [] \<and> list_all is_digit (w @ f)
        \<and> length f \<le> 28 \<and> \<bar>digits_value (w @ f)\<bar> < 2 ^ 96)"

lemma is_digit_byte: "is_digit c \<longleftrightarrow> 48 \<le> (of_char c :: nat) \<and> (of_char c :: nat) \<le> 57"
proof -
  have "is_digit c \<longleftrightarrow> (of_char c :: nat) \<in> of_char ` set ''0123456789''"
    by (simp only: is_digit_def inj_image_mem_iff[OF inj_of_char])
  also have "\<dots> \<longleftrightarrow> (of_char c :: nat) \<in> {48, 49, 50, 51, 52, 53, 54, 55, 56, 57}"
    by simp
  also have "\<dots> \<longleftrightarrow> 48 \<le> (of_char c :: nat) \<and> (of_char c :: nat) \<le> 57"
    by (simp only: insert_iff empty_iff) presburger
  finally show ?thesis .
qed

lemma decode_rune_digit:
  assumes "decode_rune s = Some (r, w)" and "r < 128"
  shows "\<exists>c t. s = c # t \<and> w = 1 \<and> r = of_char c"
proof -
  have e: "utf8_encode r = take w s" "scalar r"
    using decode_rune_inv[OF assms(1)] by auto
  have "utf8_encode r = [char_of r]"
    using assms(2) e(2) by (simp add: utf8_encode_def utf8_bytes_def)
  with e obtain t where s: "s = char_of r # t"
    by (cases s) (auto simp: take_Cons split: nat.splits)
  then show ?thesis using decode_rune_ascii[of "char_of r" t] assms by simp
qed

lemma digit_runes_bytes: "digit_runes s \<longleftrightarrow> list_all is_digit s"
proof (induction s rule: segs_induct)
  case Nil
  then show ?case by (simp add: digit_runes_def go_runes_def)
next
  case (ok s r w)
  obtain c t where s: "s = c # t" using ok(2) by (cases s) auto
  have runes: "digit_runes s \<longleftrightarrow> 48 \<le> r \<and> r \<le> 57 \<and> digit_runes (drop w s)"
    using segs_Some[OF ok(1)] by (simp add: digit_runes_def go_runes_def)
  show ?case
  proof (cases "48 \<le> r \<and> r \<le> 57")
    case True
    then obtain c' t' where "s = c' # t'" "w = 1" "r = of_char c'"
      using decode_rune_digit[OF ok(1)] by auto
    then show ?thesis using runes ok(3) True by (simp add: is_digit_byte)
  next
    case False
    have "\<not> is_digit c"
    proof
      assume d: "is_digit c"
      then have "decode_rune s = Some (of_char c, 1)"
        unfolding s by (intro decode_rune_ascii) (simp add: is_digit_byte)
      then show False using ok(1) False d by (simp add: is_digit_byte)
    qed
    then show ?thesis using runes False s by auto
  qed
next
  case (bad s)
  obtain c t where s: "s = c # t" using bad(1) by (cases s) auto
  have "\<not> is_digit c" using bad(2) decode_rune_ascii[of c t] by (auto simp: s is_digit_byte)
  then show ?case
    using segs_None[OF bad(1,2)] by (simp add: digit_runes_def go_runes_def s rune_error_def)
qed

definition unsigned_text :: "string \<Rightarrow> string" where
  "unsigned_text v = (if has_prefix v ''-'' \<or> has_prefix v ''+'' then tl v else v)"

lemma not_sign_digits:
  assumes "w @ f \<noteq> []" "list_all is_digit (w @ f)" "p = [] \<or> p = ''.''"
  shows "unsigned_text (w @ p @ f) = w @ p @ f"
    and "unsigned_text (CHR ''+'' # w @ p @ f) = w @ p @ f"
    and "unsigned_text (CHR ''-'' # w @ p @ f) = w @ p @ f"
proof -
  have "\<not> is_digit CHR ''+''" "\<not> is_digit CHR ''-''" by (simp_all add: is_digit_def)
  then show "unsigned_text (w @ p @ f) = w @ p @ f"
    using assms by (cases w; cases f) (auto simp: unsigned_text_def has_prefix_def)
qed (simp_all add: unsigned_text_def has_prefix_def)

lemma cut_at_digits:
  assumes "list_all is_digit (w @ f)" "p = [] \<longrightarrow> f = []" "p = [] \<or> p = ''.''"
  shows "cut_at CHR ''.'' (w @ p @ f) = (w, f)"
proof -
  have "\<not> is_digit CHR ''.''" by (simp add: is_digit_def)
  then have w: "\<And>c. c \<in> set w \<Longrightarrow> c \<noteq> CHR ''.''"
    using assms(1) by (auto simp: list_all_iff)
  then have tw: "takeWhile (\<lambda>c. c \<noteq> CHR ''.'') (w @ z) = w @ takeWhile (\<lambda>c. c \<noteq> CHR ''.'') z"
    and dw: "dropWhile (\<lambda>c. c \<noteq> CHR ''.'') (w @ z) = dropWhile (\<lambda>c. c \<noteq> CHR ''.'') z" for z
    by (rule takeWhile_append2, simp) (rule dropWhile_append2, simp add: w)
  from assms(3) show ?thesis
  proof
    assume "p = []"
    moreover have "cut_at CHR ''.'' w = (w, [])"
      using tw[of "[]"] dw[of "[]"] by (simp only: cut_at_def append_Nil2) simp
    ultimately show ?thesis using assms(2) by simp
  next
    assume "p = ''.''"
    then show ?thesis by (simp add: cut_at_def tw dw)
  qed
qed

lemma cut_at_split:
  assumes "cut_at c v = (w, f)"
  shows "v = w @ (if c \<in> set v then [c] else []) @ f" and "c \<notin> set v \<Longrightarrow> f = []"
proof -
  have w: "w = takeWhile (\<lambda>x. x \<noteq> c) v" and f: "f = drop 1 (dropWhile (\<lambda>x. x \<noteq> c) v)"
    using assms by (auto simp: cut_at_def)
  show "c \<notin> set v \<Longrightarrow> f = []"
    unfolding f by (metis (mono_tags, lifting) drop_Nil dropWhile_eq_Nil_conv)
  show "v = w @ (if c \<in> set v then [c] else []) @ f"
  proof (cases "c \<in> set v")
    case True
    then obtain a b where "v = a @ c # b" "c \<notin> set a" by (metis split_list_first)
    then show ?thesis unfolding w f by (auto simp: takeWhile_append dropWhile_append)
  next
    case False
    then have tw: "takeWhile (\<lambda>x. x \<noteq> c) v = v" and dw: "dropWhile (\<lambda>x. x \<noteq> c) v = []"
      by auto
    show ?thesis unfolding w f tw dw using False by simp
  qed
qed

lemma plain_engine_text_cut:
  "plain_engine_text v \<longleftrightarrow>
     (case cut_at CHR ''.'' (unsigned_text v) of (w, f) \<Rightarrow>
        w @ f \<noteq> [] \<and> list_all is_digit (w @ f) \<and> length f \<le> 28
        \<and> \<bar>digits_value (w @ f)\<bar> < 2 ^ 96)" (is "_ \<longleftrightarrow> ?cut")
proof
  assume "plain_engine_text v"
  then obtain s w f p where v: "v = s @ w @ p @ f" "s = [] \<or> s = ''+'' \<or> s = ''-''"
    "p = [] \<or> p = ''.''" "p = [] \<longrightarrow> f = []" "w @ f \<noteq> []" "list_all is_digit (w @ f)"
    "length f \<le> 28" "\<bar>digits_value (w @ f)\<bar> < 2 ^ 96"
    unfolding plain_engine_text_def by blast
  have "unsigned_text v = w @ p @ f" using v(2) not_sign_digits[OF v(5,6,3)] v(1) by auto
  then show ?cut using cut_at_digits[OF v(6,4,3)] v(5-8) by simp
next
  assume c: ?cut
  obtain w f where wf: "cut_at CHR ''.'' (unsigned_text v) = (w, f)" by fastforce
  define p where "p = (if CHR ''.'' \<in> set (unsigned_text v) then ''.'' else [])"
  define s where "s = take (length v - length (unsigned_text v)) v"
  have u: "unsigned_text v = w @ p @ f" and pf: "p = [] \<longrightarrow> f = []"
    using cut_at_split[OF wf] by (auto simp: p_def)
  have s: "v = s @ unsigned_text v" "s = [] \<or> s = ''+'' \<or> s = ''-''"
    by (auto simp: s_def unsigned_text_def has_prefix_iff)
  have "v = s @ w @ p @ f" using s(1) unfolding u .
  moreover have "p = [] \<or> p = ''.''" by (simp add: p_def)
  moreover have "w @ f \<noteq> [] \<and> list_all is_digit (w @ f) \<and> length f \<le> 28
      \<and> \<bar>digits_value (w @ f)\<bar> < 2 ^ 96"
    using c unfolding wf by simp
  ultimately show "plain_engine_text v"
    unfolding plain_engine_text_def using s(2) pf by blast
qed

lemma parseEngineBound_Inr:
  "parseEngineBound D v = Inr d \<longleftrightarrow> ParseEngineDecimal D v = Inr d \<and> plain_engine_text v"
  unfolding plain_engine_text_cut parseEngineBound_def unsigned_text_def[symmetric]
  by (auto simp: res_bind_Inr Let_def digit_runes_bytes engineDecimalMaxScale_def
      engineDecimalMantissaBits_def BitLen_le not_less split: prod.splits if_splits)

end
