(* ===== verification/Strictness.thy ===== *)
theory Strictness
  imports LimitRules
begin

section \<open>What no looser means\<close>

text \<open>
  The contract of the \<^verbatim>\<open>NoLooserThan\<close> comparisons and its consequence for callers that may
  only tighten. Each barrier denotes what it admits: for a rate barrier the attempt sequences
  whose last attempt passes, for an order-size barrier the pairs of quantity and notional, for a
  P\&L barrier the P\&L values, for the limit mode the pairs of available funds and hold.
\<close>

locale strictness =
  fixes valid :: "'a \<Rightarrow> bool"
    and same :: "'a \<Rightarrow> 'a \<Rightarrow> bool"
    and no_looser :: "'a \<Rightarrow> 'a \<Rightarrow> go_error option"
    and admits :: "'a \<Rightarrow> 'b set"
  assumes same_refl: "same a a"
    and same_trans: "same a b \<Longrightarrow> same b c \<Longrightarrow> same a c"
    and no_looser_refl: "valid a \<Longrightarrow> no_looser a a = None"
    and no_looser_trans: "valid a \<Longrightarrow> valid b \<Longrightarrow> valid c \<Longrightarrow> same a b \<Longrightarrow> same b c
      \<Longrightarrow> no_looser a b = None \<Longrightarrow> no_looser b c = None \<Longrightarrow> no_looser a c = None"
    and no_looser_sound: "valid a \<Longrightarrow> valid b \<Longrightarrow> same a b \<Longrightarrow> no_looser a b = None
      \<Longrightarrow> admits a \<subseteq> admits b"
begin

text \<open>A tighten-only replacement: the stored barrier changes only to one that is valid, has the
  same key and is no looser.\<close>

definition tighten :: "'a \<Rightarrow> 'a \<Rightarrow> 'a" where
  "tighten current req =
     (if valid req \<and> same req current \<and> no_looser req current = None then req else current)"

lemma tighten_valid: "valid c \<Longrightarrow> valid (tighten c r)"
  by (simp add: tighten_def)

lemma tighten_step:
  "valid c \<Longrightarrow> same (tighten c r) c \<and> no_looser (tighten c r) c = None"
  by (simp add: tighten_def same_refl no_looser_refl)

lemma tighten_all_valid: "valid c \<Longrightarrow> valid (foldl tighten c rs)"
  by (induction rs rule: rev_induct) (simp_all add: tighten_valid)

lemma tighten_all:
  "valid c \<Longrightarrow> same (foldl tighten c rs) c \<and> no_looser (foldl tighten c rs) c = None"
proof (induction rs rule: rev_induct)
  case Nil
  then show ?case by (simp add: same_refl no_looser_refl)
next
  case (snoc r rs)
  define m where "m = foldl tighten c rs"
  have m: "valid m" "same m c" "no_looser m c = None"
    using snoc tighten_all_valid by (simp_all add: m_def)
  have t: "same (tighten m r) m" "no_looser (tighten m r) m = None"
    using tighten_step[OF m(1)] by simp_all
  show ?case
    using same_trans[OF t(1) m(2)]
      no_looser_trans[OF tighten_valid[OF m(1)] m(1) snoc.prems t(1) m(2) t(2) m(3)]
    by (simp add: m_def)
qed

theorem tighten_all_admits:
  "valid c \<Longrightarrow> admits (foldl tighten c rs) \<subseteq> admits c"
  using no_looser_sound tighten_all tighten_all_valid by blast

end

subsection \<open>Decimal bounds\<close>

text \<open>The value of a bound text the comparison accepts; \<open>None\<close> is an unset bound.\<close>

definition engine_text :: "'d decimal_pkg \<Rightarrow> string \<Rightarrow> bool" where
  "engine_text D v \<longleftrightarrow> v = [] \<or> (\<exists>d. ParseEngineDecimal D v = Inr d)"

definition bound_value :: "'d decimal_pkg \<Rightarrow> string \<Rightarrow> rat" where
  "bound_value D v = (case ParseEngineDecimal D v of Inl _ \<Rightarrow> 0 | Inr d \<Rightarrow> dval D d)"

definition bound_range :: "'d decimal_pkg \<Rightarrow> string \<Rightarrow> bool \<Rightarrow> rat set" where
  "bound_range D v lo =
     {x. v \<noteq> [] \<longrightarrow> (if lo then bound_value D v \<le> x else x \<le> bound_value D v)}"

lemma boundNoLooserThan_iff:
  assumes "decimal_pkg_ok D" and "engine_text D v" and "engine_text D r"
  shows "boundNoLooserThan D f v r lo = None \<longleftrightarrow>
    (r = [] \<or> v \<noteq> [] \<and> (if lo then bound_value D r \<le> bound_value D v
                             else bound_value D v \<le> bound_value D r))"
  using assms(2,3) dec_lt_val[OF assms(1)] dec_gt_val[OF assms(1)]
  by (auto simp: boundNoLooserThan_def engine_text_def bound_value_def not_less split: sum.splits)

lemma boundNoLooserThan_range:
  assumes "decimal_pkg_ok D" and "engine_text D v" and "engine_text D r"
  shows "boundNoLooserThan D f v r lo = None \<longleftrightarrow> bound_range D v lo \<subseteq> bound_range D r lo"
proof -
  have gt: "\<not> UNIV \<subseteq> {x. x \<le> (y::rat)}" and lt: "\<not> UNIV \<subseteq> {x. (y::rat) \<le> x}" for y
    by (meson gt_ex lt_ex not_le mem_Collect_eq subsetD UNIV_I)+
  show ?thesis
    unfolding boundNoLooserThan_iff[OF assms] bound_range_def
    using gt[of "bound_value D r"] lt[of "bound_value D r"]
    by (cases "v = []"; cases "r = []"; cases lo) (auto intro: order_trans)
qed

text \<open>An accepted text never loosens silently: a refusal is an error of one of two kinds.\<close>

lemma boundNoLooserThan_errors:
  "boundNoLooserThan D f v r lo = Some e \<Longrightarrow> wraps e ErrLoosening \<or> wraps e ErrInvalid"
  by (auto simp: boundNoLooserThan_def dest: ParseEngineDecimal_invalid
      split: if_splits sum.splits)

lemma boundNoLooserThan_loosening:
  assumes "decimal_pkg_ok D" and "engine_text D v" and "engine_text D r"
    and "boundNoLooserThan D f v r lo = Some e"
  shows "wraps e ErrLoosening"
  using assms by (auto simp: boundNoLooserThan_def engine_text_def split: if_splits sum.splits)

subsection \<open>Order sizes\<close>

definition size_comparable :: "'d decimal_pkg \<Rightarrow> limit_order_size \<Rightarrow> bool" where
  "size_comparable D l \<longleftrightarrow> decimal_pkg_ok D
     \<and> engine_text D (Size_MaxQuantity l) \<and> engine_text D (Size_MaxNotional l)"

definition size_admits :: "'d decimal_pkg \<Rightarrow> limit_order_size \<Rightarrow> (rat \<times> rat) set" where
  "size_admits D l =
     bound_range D (Size_MaxQuantity l) False \<times> bound_range D (Size_MaxNotional l) False"

lemma cap_nonempty [simp]: "bound_range D v False \<noteq> {}" "{} \<noteq> bound_range D v False"
  by (cases "v = []") (auto simp: bound_range_def)

lemma Size_NoLooserThan_iff:
  assumes "size_comparable D l" and "size_comparable D r"
  shows "Size_NoLooserThan D l r = None \<longleftrightarrow> size_admits D l \<subseteq> size_admits D r"
  using assms
  by (simp add: Size_NoLooserThan_def size_admits_def size_comparable_def
      boundNoLooserThan_range times_subset_iff)

lemma Size_NoLooserThan_loosening:
  "size_comparable D l \<Longrightarrow> size_comparable D r \<Longrightarrow> Size_NoLooserThan D l r = Some e
    \<Longrightarrow> wraps e ErrLoosening"
  by (auto simp: Size_NoLooserThan_def first_err_Cons_Some size_comparable_def
      intro: boundNoLooserThan_loosening)

interpretation size_strict: strictness
  "size_comparable D" "\<lambda>l r. True" "Size_NoLooserThan D" "size_admits D" for D
  by unfold_locales (auto simp: Size_NoLooserThan_iff)

subsection \<open>Bounds on profit and loss\<close>

definition pnl_comparable :: "'d decimal_pkg \<Rightarrow> limit_pnl_bounds \<Rightarrow> bool" where
  "pnl_comparable D l \<longleftrightarrow> decimal_pkg_ok D
     \<and> engine_text D (Pnl_LowerBound l) \<and> engine_text D (Pnl_UpperBound l)"

definition pnl_admits :: "'d decimal_pkg \<Rightarrow> limit_pnl_bounds \<Rightarrow> rat set" where
  "pnl_admits D l = bound_range D (Pnl_LowerBound l) True \<inter> bound_range D (Pnl_UpperBound l) False"

lemma Pnl_NoLooserThan_sound:
  assumes "pnl_comparable D l" and "pnl_comparable D r" and "Pnl_NoLooserThan D l r = None"
  shows "Pnl_Currency l = Pnl_Currency r \<and> pnl_admits D l \<subseteq> pnl_admits D r"
  using assms
  by (auto simp: Pnl_NoLooserThan_def pnl_admits_def pnl_comparable_def boundNoLooserThan_range)

lemma Pnl_NoLooserThan_iff:
  assumes "pnl_comparable D l" and "pnl_comparable D r"
  shows "Pnl_NoLooserThan D l r = None \<longleftrightarrow>
    Pnl_Currency l = Pnl_Currency r
    \<and> bound_range D (Pnl_LowerBound l) True \<subseteq> bound_range D (Pnl_LowerBound r) True
    \<and> bound_range D (Pnl_UpperBound l) False \<subseteq> bound_range D (Pnl_UpperBound r) False"
  using assms by (simp add: Pnl_NoLooserThan_def pnl_comparable_def boundNoLooserThan_range)

interpretation pnl_strict: strictness
  "pnl_comparable D" "\<lambda>l r. True" "Pnl_NoLooserThan D" "pnl_admits D" for D
  by unfold_locales (auto simp: Pnl_NoLooserThan_iff pnl_admits_def)

subsection \<open>Rates\<close>

text \<open>
  How the engine counts attempts, admitted or not: the broker and asset scopes in a fixed window
  that opens at the first attempt after the previous one closed, the account scopes over a
  sliding window. \<open>window_count\<close> is the count the last attempt of a sequence is tested with.
\<close>

definition fixed_step :: "duration \<Rightarrow> (go_time \<times> nat) option \<Rightarrow> go_time \<Rightarrow> (go_time \<times> nat) option"
  where "fixed_step w st t = (case st of
       None \<Rightarrow> Some (t, 1)
     | Some (start, n) \<Rightarrow> if t - start \<ge> w then Some (t, 1) else Some (start, n + 1))"

definition fixed_count :: "duration \<Rightarrow> go_time list \<Rightarrow> nat" where
  "fixed_count w ts = (case foldl (fixed_step w) None ts of None \<Rightarrow> 0 | Some (s, n) \<Rightarrow> n)"

definition sliding_count :: "duration \<Rightarrow> go_time list \<Rightarrow> nat" where
  "sliding_count w ts = length (filter (\<lambda>t. last ts - t < w) ts)"

definition window_count :: "limit_rate \<Rightarrow> go_time list \<Rightarrow> nat" where
  "window_count l ts =
     (if HasAccountAxis (Rate_Scope l) then sliding_count (Rate_Window l) ts
      else fixed_count (Rate_Window l) ts)"

definition rate_admits :: "limit_rate \<Rightarrow> go_time list set" where
  "rate_admits l = {ts. window_count l ts \<le> unat (Rate_MaxOrders l)}"

definition rate_valid :: "limit_rate \<Rightarrow> bool" where
  "rate_valid l \<longleftrightarrow> Rate_Scope l \<in> {ScopeBroker, ScopeAsset, ScopeAccount, ScopeAccountAsset}"

definition rate_same :: "limit_rate \<Rightarrow> limit_rate \<Rightarrow> bool" where
  "rate_same l r \<longleftrightarrow> Rate_Scope l = Rate_Scope r"

lemma sliding_count_mono: "w \<le> w' \<Longrightarrow> sliding_count w ts \<le> sliding_count w' ts"
proof -
  assume "w \<le> w'"
  then have "filter (\<lambda>t. last ts - t < w) ts
      = filter (\<lambda>t. last ts - t < w) (filter (\<lambda>t. last ts - t < w') ts)"
    by (auto intro!: filter_cong)
  then show ?thesis unfolding sliding_count_def by (metis length_filter_le)
qed

lemma Rate_NoLooserThan_iff:
  assumes "rate_valid l"
  shows "Rate_NoLooserThan l r = None \<longleftrightarrow>
     (if HasAccountAxis (Rate_Scope l) then Rate_Window r \<le> Rate_Window l
      else Rate_Window l = Rate_Window r) \<and> Rate_MaxOrders l \<le> Rate_MaxOrders r"
  using assms by (auto simp: Rate_NoLooserThan_def rate_valid_def HasAccountAxis_def not_less)

lemma Rate_NoLooserThan_sound:
  assumes "rate_valid l" and "rate_same l r" and "Rate_NoLooserThan l r = None"
  shows "rate_admits l \<subseteq> rate_admits r"
proof
  fix ts
  assume "ts \<in> rate_admits l"
  then have c: "window_count l ts \<le> unat (Rate_MaxOrders l)" by (simp add: rate_admits_def)
  have "unat (Rate_MaxOrders l) \<le> unat (Rate_MaxOrders r)"
    using assms by (simp add: Rate_NoLooserThan_iff word_le_nat_alt)
  moreover have "window_count r ts \<le> window_count l ts"
    using assms sliding_count_mono[of "Rate_Window r" "Rate_Window l" ts]
    by (auto simp: Rate_NoLooserThan_iff window_count_def rate_same_def split: if_splits)
  ultimately show "ts \<in> rate_admits r" using c by (simp add: rate_admits_def)
qed

interpretation rate_strict: strictness rate_valid rate_same Rate_NoLooserThan rate_admits
proof unfold_locales
  fix a b :: limit_rate
  assume "rate_valid a" "rate_valid b" "rate_same a b" "Rate_NoLooserThan a b = None"
  then show "rate_admits a \<subseteq> rate_admits b" by (intro Rate_NoLooserThan_sound)
qed (auto simp: Rate_NoLooserThan_iff rate_same_def split: if_splits)

text \<open>Why a fixed window must keep its length: a longer one can admit an attempt that the
  shorter one refuses.\<close>

lemma longer_fixed_window_admits_more:
  "fixed_count 10 [0, 9, 10] = 1 \<and> fixed_count 9 [0, 9, 10] = 2"
  by (simp add: fixed_count_def fixed_step_def)

subsection \<open>The Spot Funds limit mode\<close>

definition mode_valid :: "limit_mode \<Rightarrow> bool" where
  "mode_valid m \<longleftrightarrow> ValidateSpotFundsLimitMode m = None"

text \<open>The orders the funds check accepts, as pairs of available funds and hold.\<close>

definition mode_admits :: "limit_mode \<Rightarrow> (rat \<times> rat) set" where
  "mode_admits m = {(available, hold). m = SpotFundsLimitModeEnforce \<longrightarrow> hold \<le> available}"

lemma mode_valid_iff:
  "mode_valid m \<longleftrightarrow> m = SpotFundsLimitModeEnforce \<or> m = SpotFundsLimitModeTrackOnly"
  by (cases m) (simp_all add: mode_valid_def ValidateSpotFundsLimitMode_def)

lemma Mode_NoLooserThan_iff:
  "Mode_NoLooserThan m p = None \<longleftrightarrow>
     mode_valid m \<and> mode_valid p \<and> mode_admits m \<subseteq> mode_admits p"
proof -
  have "(1, 0) \<in> mode_admits m \<and> (0, 1) \<in> mode_admits SpotFundsLimitModeTrackOnly
      \<and> (0, 1) \<notin> mode_admits SpotFundsLimitModeEnforce" for m
    by (simp add: mode_admits_def)
  then have "\<not> mode_admits SpotFundsLimitModeTrackOnly \<subseteq> mode_admits SpotFundsLimitModeEnforce"
    by blast
  moreover have "mode_admits m \<subseteq> mode_admits SpotFundsLimitModeTrackOnly" for m
    by (auto simp: mode_admits_def)
  ultimately show ?thesis
    by (auto simp: Mode_NoLooserThan_def mode_valid_def[symmetric] mode_valid_iff)
qed

interpretation mode_strict: strictness mode_valid "\<lambda>m p. True" Mode_NoLooserThan mode_admits
  by unfold_locales (auto simp: Mode_NoLooserThan_iff)

end
