(* ===== verification/Adjustments.thy ===== *)
theory Adjustments
  imports Strictness
begin

section \<open>Adjustments\<close>

text \<open>
  The adjustment request of \<^verbatim>\<open>framework/domain/entities.go\<close> and the checks a tighten-only
  caller's adjustment passes (\<^verbatim>\<open>framework/domain/limits.go\<close>): it adjusts the account's own
  existing currency, it only lowers money, it leaves the books alone and its id stays out of the
  namespace in which the trading runtime books venue fees.
\<close>

datatype amount_mode = AdjustmentModeAbsolute | AdjustmentModeDelta | OtherAmountMode string

record adjustment_amount =
  Amount_Mode :: amount_mode
  Amount_Value :: string

record adjustment_bounds =
  Bounds_Lower :: string
  Bounds_Upper :: string

datatype adjustment_type =
    AdjustmentTypeNone | AdjustmentTypeVenueFee | AdjustmentTypeDeposit
  | AdjustmentTypeWithdrawal | AdjustmentTypeCorrection | OtherAdjustmentType string

definition ValidateAdjustmentType :: "adjustment_type \<Rightarrow> go_error option" where
  "ValidateAdjustmentType t = (case t of
       AdjustmentTypeNone \<Rightarrow> Some (invalidField ''/type'' ''required''
         (err_invalid ''type is required''))
     | OtherAdjustmentType s \<Rightarrow> Some (invalidField ''/type'' ''unsupported_value''
         (err_invalid ''type must be one of''))
     | _ \<Rightarrow> None)"

record adjustment_request =
  Adj_Type :: adjustment_type
  Adj_Asset :: string
  Adj_AverageEntryPrice :: string
  Adj_RealizedPnl :: string
  Adj_RealizedPnlHaltReason :: pnl_halt_reason
  Adj_Balance :: "adjustment_amount option"
  Adj_BalanceBounds :: "adjustment_bounds option"
  Adj_Held :: "adjustment_amount option"
  Adj_HeldBounds :: "adjustment_bounds option"
  Adj_Incoming :: "adjustment_amount option"
  Adj_IncomingBounds :: "adjustment_bounds option"

record balance =
  Bal_UpdatedAt :: go_time
  Bal_Available :: string
  Bal_Held :: string
  Bal_Incoming :: string
  Bal_RealizedPnl :: string
  Bal_RealizedPnlHaltReason :: pnl_halt_reason
  Bal_AverageEntryPrice :: string
  Bal_AccountCurrency :: string
  Bal_Asset :: string
  Bal_Account :: account_id

definition agentMayAdjust :: "string \<Rightarrow> string" where
  "agentMayAdjust currency =
     ''an agent may only lower the balance, held or incoming of the account's ''
     @ (if currency \<noteq> [] then ''currency '' @ currency else ''own currency'')"

definition InAccountCurrency :: "adjustment_request \<Rightarrow> string \<Rightarrow> go_error option" where
  "InAccountCurrency r currency = first_err
     [check (currency = []) (err_loosening (agentMayAdjust currency @ ''; the account has none'')),
      check (Adj_Asset r \<noteq> currency)
        (err_loosening (agentMayAdjust currency @ ''; asset is not it''))]"

definition InExistingAccountCurrency ::
  "adjustment_request \<Rightarrow> string \<Rightarrow> bool \<Rightarrow> go_error option" where
  "InExistingAccountCurrency r currency exists = first_err
     [InAccountCurrency r currency,
      check (\<not> exists) (err_loosening (agentMayAdjust currency @ ''; no such asset exists''))]"

definition adjust_field ::
  "'d decimal_pkg \<Rightarrow> string \<Rightarrow> string \<times> adjustment_amount option \<times> string
     \<Rightarrow> go_error option" where
  "adjust_field D lowerOnly fld = (case fld of (name, amount, current) \<Rightarrow>
     (case amount of
        None \<Rightarrow> None
      | Some a \<Rightarrow>
         (case ParseEngineDecimal D (Amount_Value a) of
            Inl e \<Rightarrow> Some (Wrap name e)
          | Inr value \<Rightarrow>
             (case Amount_Mode a of
                AdjustmentModeDelta \<Rightarrow>
                  check (dec_positive D value) (err_loosening (lowerOnly @ ''; delta lies above zero''))
              | AdjustmentModeAbsolute \<Rightarrow>
                  (let now = (if current = [] then ''0'' else current)
                   in map_option (Wrap lowerOnly)
                        (boundNoLooserThan D name (Amount_Value a) now False))
              | OtherAmountMode m \<Rightarrow> Some (err_invalid ''mode is neither absolute nor delta'')))))"

definition books_field :: "'d decimal_pkg \<Rightarrow> string \<times> string \<times> string \<Rightarrow> go_error option" where
  "books_field D fld = (case fld of (name, value, current) \<Rightarrow>
     (let books = ''an agent may not change the average entry price or the realized P&L''
      in if value = [] then None
         else first_err
           [check (current = []) (err_loosening (books @ ''; given while the current is unset'')),
            map_option (Wrap books) (boundNoLooserThan D name value current False),
            map_option (Wrap books) (boundNoLooserThan D name value current True)]))"

definition Adjustment_NoLooserThan ::
  "'d decimal_pkg \<Rightarrow> adjustment_request \<Rightarrow> string \<Rightarrow> balance \<Rightarrow> go_error option" where
  "Adjustment_NoLooserThan D r currency current = first_err
     [InAccountCurrency r currency,
      first_err (map (adjust_field D (agentMayAdjust currency))
        [(''balance'', Adj_Balance r, Bal_Available current),
         (''held'', Adj_Held r, Bal_Held current),
         (''incoming'', Adj_Incoming r, Bal_Incoming current)]),
      check (Adj_RealizedPnlHaltReason r \<noteq> NoPnlHalt)
        (err_loosening ''an agent may not halt the position P&L calculation''),
      check (Adj_RealizedPnl r \<noteq> [] \<and> Bal_RealizedPnlHaltReason current \<noteq> NoPnlHalt)
        (err_loosening ''an agent may not set the realized P&L of a halted position''),
      first_err (map (books_field D)
        [(''average entry price'', Adj_AverageEntryPrice r, Bal_AverageEntryPrice current),
         (''realized P&L'', Adj_RealizedPnl r, Bal_RealizedPnl current)])]"

definition TradingRuntimeIDPrefix :: string where
  "TradingRuntimeIDPrefix = ''trading:''"

definition AdjustmentIDOutsideTradingRuntime :: "string \<Rightarrow> go_error option" where
  "AdjustmentIDOutsideTradingRuntime i =
     check (has_prefix i TradingRuntimeIDPrefix)
       (err_loosening ''adjustment id is reserved for the trading runtime'')"

subsection \<open>What an accepted adjustment does\<close>

text \<open>
  The specification: the value of a field after an adjustment, an absent amount changing
  nothing and an empty current value being zero.
\<close>

definition field_now :: "'d decimal_pkg \<Rightarrow> string \<Rightarrow> rat" where
  "field_now D current = bound_value D (if current = [] then ''0'' else current)"

definition field_after :: "'d decimal_pkg \<Rightarrow> adjustment_amount option \<Rightarrow> string \<Rightarrow> rat" where
  "field_after D amount current = (case amount of
       None \<Rightarrow> field_now D current
     | Some a \<Rightarrow> (if Amount_Mode a = AdjustmentModeDelta
         then field_now D current + bound_value D (Amount_Value a)
         else bound_value D (Amount_Value a)))"

text \<open>A text that is given names a number equal to the one it replaces.\<close>

definition same_number :: "'d decimal_pkg \<Rightarrow> string \<Rightarrow> string \<Rightarrow> bool" where
  "same_number D value current \<longleftrightarrow>
     value = [] \<or> (current \<noteq> [] \<and> bound_value D value = bound_value D current)"

lemma boundNoLooserThan_None:
  assumes "decimal_pkg_ok D" and "boundNoLooserThan D f v r lo = None" and "r \<noteq> []"
  shows "v \<noteq> [] \<and> engine_text D v \<and> engine_text D r
    \<and> (if lo then bound_value D r \<le> bound_value D v else bound_value D v \<le> bound_value D r)"
proof -
  have "engine_text D v" "engine_text D r"
    using assms(2,3) by (auto simp: boundNoLooserThan_def engine_text_def split: if_splits sum.splits)
  with assms show ?thesis by (simp add: boundNoLooserThan_iff)
qed

lemma adjust_field_lowers:
  assumes "decimal_pkg_ok D" and "adjust_field D t (n, amount, current) = None"
  shows "field_after D amount current \<le> field_now D current"
proof (cases amount)
  case None
  then show ?thesis by (simp add: field_after_def)
next
  case (Some a)
  show ?thesis
  proof (cases "Amount_Mode a")
    case AdjustmentModeDelta
    then show ?thesis using assms Some
      by (auto simp: adjust_field_def field_after_def bound_value_def dec_positive_val
          split: sum.splits)
  next
    case AdjustmentModeAbsolute
    define now where "now = (if current = [] then ''0'' else current)"
    have "boundNoLooserThan D n (Amount_Value a) now False = None" "now \<noteq> []"
      using assms Some AdjustmentModeAbsolute
      by (auto simp: adjust_field_def now_def Let_def split: sum.splits)
    from boundNoLooserThan_None[OF assms(1) this] show ?thesis
      using Some AdjustmentModeAbsolute by (simp add: field_after_def field_now_def now_def)
  next
    case (OtherAmountMode m)
    then show ?thesis using assms Some by (auto simp: adjust_field_def split: sum.splits)
  qed
qed

lemma books_field_same:
  assumes "decimal_pkg_ok D" and "books_field D (n, value, current) = None"
  shows "same_number D value current"
proof (cases "value = []")
  case False
  then have c: "current \<noteq> []" and
    "boundNoLooserThan D n value current False = None"
    "boundNoLooserThan D n value current True = None"
    using assms(2) by (auto simp: books_field_def Let_def)
  then have "bound_value D value \<le> bound_value D current" "bound_value D current \<le> bound_value D value"
    using boundNoLooserThan_None[OF assms(1) _ c] by fastforce+
  then show ?thesis using c by (simp add: same_number_def)
qed (simp add: same_number_def)

lemma Adjustment_NoLooserThan_lowers:
  assumes "decimal_pkg_ok D" and "Adjustment_NoLooserThan D r currency current = None"
  shows "currency \<noteq> [] \<and> Adj_Asset r = currency
    \<and> field_after D (Adj_Balance r) (Bal_Available current) \<le> field_now D (Bal_Available current)
    \<and> field_after D (Adj_Held r) (Bal_Held current) \<le> field_now D (Bal_Held current)
    \<and> field_after D (Adj_Incoming r) (Bal_Incoming current) \<le> field_now D (Bal_Incoming current)
    \<and> Adj_RealizedPnlHaltReason r = NoPnlHalt
    \<and> (Bal_RealizedPnlHaltReason current \<noteq> NoPnlHalt \<longrightarrow> Adj_RealizedPnl r = [])
    \<and> same_number D (Adj_AverageEntryPrice r) (Bal_AverageEntryPrice current)
    \<and> same_number D (Adj_RealizedPnl r) (Bal_RealizedPnl current)"
  using assms adjust_field_lowers[OF assms(1)] books_field_same[OF assms(1)]
  by (simp add: Adjustment_NoLooserThan_def InAccountCurrency_def) blast

text \<open>An adjustment that names no money and no books value passes in the account's currency.\<close>

lemma Adjustment_NoLooserThan_empty:
  "Adjustment_NoLooserThan D \<lparr> Adj_Type = t, Adj_Asset = c, Adj_AverageEntryPrice = [],
     Adj_RealizedPnl = [], Adj_RealizedPnlHaltReason = NoPnlHalt, Adj_Balance = None,
     Adj_BalanceBounds = b1, Adj_Held = None, Adj_HeldBounds = b2, Adj_Incoming = None,
     Adj_IncomingBounds = b3 \<rparr> c current = None \<longleftrightarrow> c \<noteq> []"
  by (auto simp: Adjustment_NoLooserThan_def InAccountCurrency_def adjust_field_def books_field_def
      Let_def)

lemma adjust_field_errors:
  "adjust_field D t x = Some e \<Longrightarrow> wraps e ErrLoosening \<or> wraps e ErrInvalid"
  by (auto simp: adjust_field_def Let_def dest!: boundNoLooserThan_errors ParseEngineDecimal_invalid
      split: option.splits sum.splits amount_mode.splits prod.splits if_splits)

lemma books_field_errors:
  "books_field D x = Some e \<Longrightarrow> wraps e ErrLoosening \<or> wraps e ErrInvalid"
  by (auto simp: books_field_def Let_def first_err_Cons_Some dest!: boundNoLooserThan_errors
      split: prod.splits if_splits)

lemma Adjustment_NoLooserThan_errors:
  assumes "Adjustment_NoLooserThan D r currency current = Some e"
  shows "wraps e ErrLoosening \<or> wraps e ErrInvalid"
proof -
  have f: "first_err (map f xs) = Some e' \<Longrightarrow> \<exists>x\<in>set xs. f x = Some e'"
    for f :: "'x \<Rightarrow> go_error option" and xs e'
    using first_err_in[of "map f xs" e'] by force
  show ?thesis
    using assms unfolding Adjustment_NoLooserThan_def InAccountCurrency_def
    by (simp only: first_err_Cons_Some check_Some check_None)
      (auto dest!: f adjust_field_errors books_field_errors simp: first_err_Cons_Some)
qed

end
