(* ===== verification/Orders.thy ===== *)
theory Orders
  imports EngineDecimals Accounts
begin

section \<open>Orders and execution reports\<close>

text \<open>
  The order types of \<^verbatim>\<open>framework/domain/entities.go\<close> and the routing decision on an
  execution report: which reports are well formed and which of them the engine settles. \<open>D\<close> is
  the decimal package.
\<close>

datatype order_side = OrderSideBuy | OrderSideSell | OtherSide string

datatype amount_kind = OrderAmountKindQuantity | OrderAmountKindVolume | OtherAmountKind string

datatype order_status =
    NoOrderStatus
  | OrderStatusSubmitted | OrderStatusAccepted | OrderStatusRejected | OrderStatusCommitted
  | OrderStatusRolledBack | OrderStatusFilled | OrderStatusPartiallyFilled
  | OrderStatusCancelled
  | OtherOrderStatus string

fun OrderStatusSupported :: "order_status \<Rightarrow> bool" where
  "OrderStatusSupported NoOrderStatus = False"
| "OrderStatusSupported (OtherOrderStatus s) = False"
| "OrderStatusSupported _ = True"

text \<open>The wire text of a status.\<close>

fun status_text :: "order_status \<Rightarrow> string" where
  "status_text NoOrderStatus = ''''"
| "status_text OrderStatusSubmitted = ''submitted''"
| "status_text OrderStatusAccepted = ''accepted''"
| "status_text OrderStatusRejected = ''rejected''"
| "status_text OrderStatusCommitted = ''committed''"
| "status_text OrderStatusRolledBack = ''rolled_back''"
| "status_text OrderStatusFilled = ''filled''"
| "status_text OrderStatusPartiallyFilled = ''partially_filled''"
| "status_text OrderStatusCancelled = ''cancelled''"
| "status_text (OtherOrderStatus s) = s"

definition OrderStatusesEligibleForFill :: "order_status list" where
  "OrderStatusesEligibleForFill =
     [OrderStatusSubmitted, OrderStatusAccepted, OrderStatusCommitted, OrderStatusPartiallyFilled]"

fun OrderStatusTerminal :: "order_status \<Rightarrow> bool" where
  "OrderStatusTerminal OrderStatusRejected = True"
| "OrderStatusTerminal OrderStatusRolledBack = True"
| "OrderStatusTerminal OrderStatusFilled = True"
| "OrderStatusTerminal OrderStatusCancelled = True"
| "OrderStatusTerminal _ = False"

definition RequireOrderModifiable :: "order_status \<Rightarrow> bool \<Rightarrow> go_error option" where
  "RequireOrderModifiable status force =
     check (\<not> force \<and> OrderStatusTerminal status) (Sentinel ErrTerminalOrder)"

datatype order_event_type =
    OrderEventSubmitted | OrderEventPreTradeAccepted | OrderEventPreTradeRejected
  | OrderEventCommitted | OrderEventRolledBack | OrderEventConfirmed | OrderEventFill
  | OrderEventCommission | OrderEventCancelled

fun ExecutionReportStatusChangeEvent :: "order_status \<Rightarrow> order_event_type option" where
  "ExecutionReportStatusChangeEvent OrderStatusSubmitted = Some OrderEventSubmitted"
| "ExecutionReportStatusChangeEvent OrderStatusAccepted = Some OrderEventPreTradeAccepted"
| "ExecutionReportStatusChangeEvent OrderStatusRejected = Some OrderEventPreTradeRejected"
| "ExecutionReportStatusChangeEvent OrderStatusCommitted = Some OrderEventCommitted"
| "ExecutionReportStatusChangeEvent OrderStatusRolledBack = Some OrderEventRolledBack"
| "ExecutionReportStatusChangeEvent OrderStatusCancelled = Some OrderEventCancelled"
| "ExecutionReportStatusChangeEvent _ = None"

record commission =
  Commission_Amount :: string
  Commission_Currency :: string

record order =
  Order_At :: go_time
  Order_ExternalID :: string
  Order_AmountValue :: string
  Order_Leaves :: string
  Order_ReservedQuantity :: string
  Order_Price :: string
  Order_Principal :: string
  Order_BaseAsset :: string
  Order_QuoteAsset :: string
  Order_Lock :: string
  Order_CommissionSubtotals :: "commission list"
  Order_Account :: account_id
  Order_Source :: source
  Order_DropCopy :: bool
  Order_Side :: order_side
  Order_AmountKind :: amount_kind
  Order_Status :: order_status

record event_attestation =
  Att_SignedEnvelope :: string
  Att_KeyID :: string
  Att_Alg :: string
  Att_RequestType :: string
  Att_Mode :: string
  Att_IssuedAt :: string

record order_reject =
  Reject_Code :: string
  Reject_Scope :: string
  Reject_Policy :: string
  Reject_Reason :: string
  Reject_Details :: string

record execution_report_request =
  Req_ExternalID :: string
  Req_BaseAsset :: string
  Req_QuoteAsset :: string
  Req_FillQuantity :: string
  Req_FillPrice :: string
  Req_LeavesQuantity :: string
  Req_LockPrice :: string
  Req_Commission :: "commission option"
  Req_Order :: string
  Req_Account :: account_id
  Req_Side :: order_side
  Req_OrderStatus :: order_status
  Req_Force :: bool

record order_event_payload =
  Payload_RejectCode :: string
  Payload_RejectScope :: string
  Payload_RejectPolicy :: string
  Payload_RejectReason :: string
  Payload_RejectDetails :: string
  Payload_Rejects :: "order_reject list"
  Payload_FillQuantity :: string
  Payload_FillPrice :: string
  Payload_FillLockPrice :: string
  Payload_LeavesQuantity :: string
  Payload_OrderStatus :: string
  Payload_Commission :: "commission option"
  Payload_ExecutionReport :: "execution_report_request option"

record order_event =
  Event_At :: go_time
  Event_ExternalID :: string
  Event_Order :: string
  Event_Attestation :: "event_attestation option"
  Event_Payload :: order_event_payload
  Event_Principal :: string
  Event_Source :: source
  Event_Type :: order_event_type

record trade =
  Trade_At :: go_time
  Trade_ExternalID :: string
  Trade_Order :: string
  Trade_Quantity :: string
  Trade_Price :: string
  Trade_LockPrice :: string
  Trade_Commission :: "commission option"
  Trade_Principal :: string
  Trade_BaseAsset :: string
  Trade_QuoteAsset :: string
  Trade_Account :: account_id
  Trade_Source :: source
  Trade_Side :: order_side

record execution_report_input =
  In_ExternalID :: string
  In_BaseAsset :: string
  In_QuoteAsset :: string
  In_FillQuantity :: string
  In_FillPrice :: string
  In_LeavesQuantity :: string
  In_LockPrice :: string
  In_Lock :: string
  In_Commission :: "commission option"
  In_Order :: string
  In_Account :: account_id
  In_Side :: order_side
  In_OrderStatus :: order_status
  In_Force :: bool

text \<open>An order is signed when one of its events carries an Ed25519 attestation.\<close>

fun Signed :: "order_event list \<Rightarrow> bool" where
  "Signed [] = False"
| "Signed (e # es) =
     (case Event_Attestation e of
        Some att \<Rightarrow> if Att_Alg att = ''ed25519'' then True else Signed es
      | None \<Rightarrow> Signed es)"

lemma Signed_iff:
  "Signed es \<longleftrightarrow> (\<exists>e\<in>set es. \<exists>a. Event_Attestation e = Some a \<and> Att_Alg a = ''ed25519'')"
  by (induction es) (auto split: option.splits)

definition ExecutionReportRequestFromInput ::
  "execution_report_input \<Rightarrow> execution_report_request" where
  "ExecutionReportRequestFromInput i =
     \<lparr> Req_ExternalID = In_ExternalID i, Req_BaseAsset = In_BaseAsset i,
       Req_QuoteAsset = In_QuoteAsset i, Req_FillQuantity = In_FillQuantity i,
       Req_FillPrice = In_FillPrice i, Req_LeavesQuantity = In_LeavesQuantity i,
       Req_LockPrice = In_LockPrice i, Req_Commission = In_Commission i,
       Req_Order = In_Order i, Req_Account = In_Account i, Req_Side = In_Side i,
       Req_OrderStatus = In_OrderStatus i, Req_Force = In_Force i \<rparr>"

subsection \<open>The routing decision\<close>

definition ParseOpenQuantity :: "'d decimal_pkg \<Rightarrow> string \<Rightarrow> go_error + 'd" where
  "ParseOpenQuantity D value =
     (if value \<noteq> trim_space value \<or> contains_any value ''eE''
      then Inl (Text ''is not a plain decimal'')
      else case NewFromString D value of
        None \<Rightarrow> Inl (Wrap '': '' (Text ''decimal''))
      | Some parsed \<Rightarrow>
          if dec_negative D parsed then Inl (Text ''must not be negative'') else Inr parsed)"

definition ValidateLeavesQuantity :: "'d decimal_pkg \<Rightarrow> string \<Rightarrow> go_error option" where
  "ValidateLeavesQuantity D value =
     (case ParseOpenQuantity D value of
        Inl e \<Rightarrow> Some (NewValidationError ''/leavesQuantity'' ''format''
          (''invalid leavesQuantity: '' @ err_text e))
      | Inr _ \<Rightarrow> None)"

definition validateExecutionReportLockPrice :: "'d decimal_pkg \<Rightarrow> string \<Rightarrow> go_error option" where
  "validateExecutionReportLockPrice D value = first_err
     [check (value \<noteq> trim_space value \<or> contains_any value ''eE'')
        (NewValidationError ''/lockPrice'' ''format'' ''invalid lockPrice: not a plain decimal''),
      check (NewFromString D value = None)
        (NewValidationError ''/lockPrice'' ''format'' ''invalid lockPrice'')]"

definition executionReportCarriesEnginePayload :: "execution_report_input \<Rightarrow> bool" where
  "executionReportCarriesEnginePayload i \<longleftrightarrow> In_FillQuantity i \<noteq> [] \<or> In_Commission i \<noteq> None"

definition is_fill_status :: "order_status \<Rightarrow> bool" where
  "is_fill_status s \<longleftrightarrow> s = OrderStatusFilled \<or> s = OrderStatusPartiallyFilled"

definition ExecutionReportRequiresEngine ::
  "'d decimal_pkg \<Rightarrow> execution_report_input \<Rightarrow> go_error + bool" where
  "ExecutionReportRequiresEngine D i =
     (let status = In_OrderStatus i;
          hasQuantity = (In_FillQuantity i \<noteq> []);
          hasPrice = (In_FillPrice i \<noteq> []);
          isFillStatus = is_fill_status status;
          requiresEngine = (OrderStatusTerminal status \<or> executionReportCarriesEnginePayload i)
      in of_outcome (first_err
        [check (status = NoOrderStatus)
           (NewValidationError ''/status'' ''required'' ''status is required''),
         check (\<not> OrderStatusSupported status)
           (NewValidationError ''/status'' ''format'' ''invalid status''),
         check (hasQuantity \<noteq> hasPrice)
           (invalidExecutionReport ''quantity and price must be provided together''),
         check (hasQuantity \<and> \<not> isFillStatus)
           (invalidExecutionReport ''quantity and price are only allowed for filled statuses''),
         check (\<not> hasQuantity \<and> isFillStatus)
           (NewValidationError ''/quantity'' ''required_for_status''
             ''quantity and price are required for filled statuses''),
         (if In_LeavesQuantity i \<noteq> [] then ValidateLeavesQuantity D (In_LeavesQuantity i)
          else None),
         (if In_LockPrice i \<noteq> [] then validateExecutionReportLockPrice D (In_LockPrice i)
          else None),
         (case In_Commission i of
            None \<Rightarrow> None
          | Some c \<Rightarrow> first_err
             [check ((Commission_Amount c \<noteq> []) \<noteq> (Commission_Currency c \<noteq> []))
                (NewValidationError ''/commission'' ''paired_fields''
                  ''commission amount and currency must be provided together''),
              check (Commission_Amount c = [])
                (NewValidationError ''/commission'' ''required''
                  ''commission amount and currency are required'')]),
         check (hasQuantity \<and> In_LeavesQuantity i = [])
           (NewValidationError ''/leavesQuantity'' ''required''
             ''leavesQuantity is required for reports with a fill''),
         check (ExecutionReportStatusChangeEvent status \<noteq> None \<and> \<not> OrderStatusTerminal status
             \<and> (In_LockPrice i \<noteq> [] \<or> length (In_Lock i) > 0))
           (invalidExecutionReport
             ''settlement lock fields are not allowed for workflow statuses'')])
        requiresEngine)"

subsection \<open>Statuses\<close>

text \<open>A supported status is either final or one a fill may advance from, never both.\<close>

lemma status_partition:
  "OrderStatusSupported s \<longleftrightarrow> (OrderStatusTerminal s \<noteq> (s \<in> set OrderStatusesEligibleForFill))"
  by (cases s) (simp_all add: OrderStatusesEligibleForFill_def)

lemma status_event_iff:
  "ExecutionReportStatusChangeEvent s = None \<longleftrightarrow> \<not> OrderStatusSupported s \<or> is_fill_status s"
  by (cases s) (simp_all add: is_fill_status_def)

subsection \<open>Well-formed reports\<close>

text \<open>An open quantity as the specification sees it: a plain decimal that is not negative.\<close>

definition open_quantity :: "'d decimal_pkg \<Rightarrow> string \<Rightarrow> rat option" where
  "open_quantity D v =
     (if canonical_text v \<and> CHR ''e'' \<notin> set v \<and> CHR ''E'' \<notin> set v
      then (case NewFromString D v of None \<Rightarrow> None
            | Some d \<Rightarrow> if 0 \<le> dval D d then Some (dval D d) else None)
      else None)"

lemma contains_eE: "contains_any v ''eE'' \<longleftrightarrow> CHR ''e'' \<in> set v \<or> CHR ''E'' \<in> set v"
  by (auto simp: contains_any_def list_ex_iff)

lemma ParseOpenQuantity_iff:
  "(\<exists>d. ParseOpenQuantity D v = Inr d \<and> dval D d = q) \<longleftrightarrow> open_quantity D v = Some q"
  by (auto simp: ParseOpenQuantity_def open_quantity_def contains_eE canonical_text_def
      dec_negative_val not_less split: option.splits)

lemma ValidateLeavesQuantity_None:
  "ValidateLeavesQuantity D v = None \<longleftrightarrow> open_quantity D v \<noteq> None"
proof -
  have "open_quantity D v \<noteq> None \<longleftrightarrow> (\<exists>d. ParseOpenQuantity D v = Inr d)"
    using ParseOpenQuantity_iff[of D v] by (metis not_None_eq)
  then show ?thesis by (auto simp: ValidateLeavesQuantity_def split: sum.splits)
qed

definition plain_price :: "'d decimal_pkg \<Rightarrow> string \<Rightarrow> bool" where
  "plain_price D v \<longleftrightarrow> canonical_text v \<and> CHR ''e'' \<notin> set v \<and> CHR ''E'' \<notin> set v
     \<and> NewFromString D v \<noteq> None"

lemma validateExecutionReportLockPrice_None:
  "validateExecutionReportLockPrice D v = None \<longleftrightarrow> plain_price D v"
  by (auto simp: validateExecutionReportLockPrice_def plain_price_def contains_eE canonical_text_def)

text \<open>
  What an accepted report looks like: a fill exactly at a fill status and then with its
  leaves, optional leaves and lock price well formed, a complete commission or none, and no lock
  on an open workflow status.
\<close>

definition report_wf :: "'d decimal_pkg \<Rightarrow> execution_report_input \<Rightarrow> bool" where
  "report_wf D i \<longleftrightarrow>
     OrderStatusSupported (In_OrderStatus i)
     \<and> (In_FillQuantity i \<noteq> [] \<longleftrightarrow> is_fill_status (In_OrderStatus i))
     \<and> (In_FillPrice i \<noteq> [] \<longleftrightarrow> is_fill_status (In_OrderStatus i))
     \<and> (In_LeavesQuantity i = [] \<longrightarrow> \<not> is_fill_status (In_OrderStatus i))
     \<and> (In_LeavesQuantity i \<noteq> [] \<longrightarrow> open_quantity D (In_LeavesQuantity i) \<noteq> None)
     \<and> (In_LockPrice i \<noteq> [] \<longrightarrow> plain_price D (In_LockPrice i))
     \<and> (\<forall>c. In_Commission i = Some c \<longrightarrow> Commission_Amount c \<noteq> [] \<and> Commission_Currency c \<noteq> [])
     \<and> (In_OrderStatus i \<in> {OrderStatusSubmitted, OrderStatusAccepted, OrderStatusCommitted}
        \<longrightarrow> In_LockPrice i = [] \<and> In_Lock i = [])"

lemma workflow_status:
  "ExecutionReportStatusChangeEvent s \<noteq> None \<and> \<not> OrderStatusTerminal s
   \<longleftrightarrow> s \<in> {OrderStatusSubmitted, OrderStatusAccepted, OrderStatusCommitted}"
  by (cases s) simp_all

lemma ExecutionReportRequiresEngine_wf:
  "ExecutionReportRequiresEngine D i = Inr b \<longleftrightarrow>
     report_wf D i
     \<and> (b \<longleftrightarrow> OrderStatusTerminal (In_OrderStatus i) \<or> executionReportCarriesEnginePayload i)"
proof -
  have s: "OrderStatusSupported s \<Longrightarrow> s \<noteq> NoOrderStatus" for s by auto
  show ?thesis
    unfolding ExecutionReportRequiresEngine_def Let_def of_outcome_Inr conj_assoc[symmetric]
      workflow_status
    by (cases "In_Commission i")
      (auto simp: report_wf_def workflow_status[unfolded conj_assoc] ValidateLeavesQuantity_None
        validateExecutionReportLockPrice_None dest: s)
qed

lemma ExecutionReportRequiresEngine_invalid:
  "ExecutionReportRequiresEngine D i = Inl e \<Longrightarrow> wraps e ErrInvalid"
  by (auto simp: ExecutionReportRequiresEngine_def Let_def of_outcome_def first_err_Cons_Some
      ValidateLeavesQuantity_def validateExecutionReportLockPrice_def
      split: option.splits if_splits sum.splits)

end
