(* ===== verification/TradingDomain.thy ===== *)
theory TradingDomain
  imports EngineDecimals Accounts
begin

section \<open>Trading connections, grants and venue links\<close>

text \<open>
  The trading configuration of \<^verbatim>\<open>framework/domain/trading.go\<close> and the checks it passes
  before it is stored: connections, instrument mappings, access grants, per-order destinations and
  the durable links between orders and the venue.
\<close>

datatype trading_mode = TradingModePaper | TradingModeLive | OtherTradingMode string

text \<open>The wire text of a mode.\<close>

fun mode_text :: "trading_mode \<Rightarrow> string" where
  "mode_text TradingModePaper = ''paper''"
| "mode_text TradingModeLive = ''live''"
| "mode_text (OtherTradingMode s) = s"

definition TradingModeSupported :: "trading_mode \<Rightarrow> bool" where
  "TradingModeSupported m \<longleftrightarrow> m = TradingModePaper \<or> m = TradingModeLive"

record trading_connection =
  Conn_ExternalID :: string
  Conn_Provider :: string
  Conn_Label :: string
  Conn_Mode :: trading_mode
  Conn_VenueIdentity :: string
  Conn_Credentials :: string
  Conn_Enabled :: bool
  Conn_FeeAccount :: account_id

record trading_instrument =
  TInstr_Connection :: string
  TInstr_ExternalSymbol :: string
  TInstr_BaseAsset :: string
  TInstr_QuoteAsset :: string
  TInstr_Enabled :: bool

record trading_access =
  Access_Account :: account_id
  Access_AccountGroup :: string
  Access_Connection :: string
  Access_VenueAccount :: string

record trading_destination =
  Dest_Connection :: string
  Dest_VenueAccount :: string
  Dest_Route :: string

record venue_order =
  VO_Order :: string
  VO_Connection :: string
  VO_VenueAccount :: string
  VO_Route :: string
  VO_ClientOrderID :: string
  VO_SendAttempted :: bool
  VO_VenueOrderID :: string
  VO_CreatedAt :: go_time

definition SameSubject :: "trading_access \<Rightarrow> trading_access \<Rightarrow> bool" where
  "SameSubject a b \<longleftrightarrow>
     Access_Account a = Access_Account b \<and> Access_AccountGroup a = Access_AccountGroup b"

definition SubjectLabel :: "trading_access \<Rightarrow> string" where
  "SubjectLabel a =
     (if Access_AccountGroup a \<noteq> [] then ''group:'' @ Access_AccountGroup a else Access_Account a)"

definition validateCanonicalTradingString :: "string \<Rightarrow> string \<Rightarrow> go_error option" where
  "validateCanonicalTradingString fld value =
     check (value \<noteq> trim_space value) (err_invalid (''trading '' @ fld @ '' is not canonical''))"

definition validateTradingJSONObject :: "string \<Rightarrow> go_error option" where
  "validateTradingJSONObject value = first_err
     [check (value = []) (Sentinel ErrInvalid),
      check (\<not> json_object value) (Sentinel ErrInvalid)]"

definition ValidateTradingConnectionSettings :: "string \<Rightarrow> string \<Rightarrow> go_error option" where
  "ValidateTradingConnectionSettings label credentials = first_err
     [validateCanonicalTradingString ''label'' label,
      check (label = []) (err_invalid ''trading connection label''),
      check (credentials \<noteq> trim_space credentials)
        (err_invalid ''trading connection credentials are not canonical''),
      check (validateTradingJSONObject credentials \<noteq> None)
        (err_invalid ''trading connection credentials'')]"

definition ValidateTradingConnection ::
  "(nat \<Rightarrow> bool) \<Rightarrow> trading_connection \<Rightarrow> go_error option" where
  "ValidateTradingConnection pr c = first_err
     [(if Conn_FeeAccount c \<noteq> []
       then map_option (Wrap ''trading connection fee account'')
         (ValidateAccountID pr (Conn_FeeAccount c))
       else None),
      validateCanonicalTradingString ''venue identity'' (Conn_VenueIdentity c),
      check (Conn_VenueIdentity c = []) (err_invalid ''trading connection venue identity''),
      validateCanonicalTradingString ''provider'' (Conn_Provider c),
      check (trim_space (mode_text (Conn_Mode c)) \<noteq> mode_text (Conn_Mode c))
        (err_invalid ''trading connection mode is not canonical''),
      check (Conn_Provider c = []) (err_invalid ''trading connection provider''),
      check (\<not> TradingModeSupported (Conn_Mode c)) (err_invalid ''trading connection mode''),
      ValidateTradingConnectionSettings (Conn_Label c) (Conn_Credentials c)]"

definition ValidateTradingInstrument ::
  "(nat \<Rightarrow> bool) \<Rightarrow> trading_instrument \<Rightarrow> go_error option" where
  "ValidateTradingInstrument pr i = first_err
     [validateCanonicalTradingString ''external symbol'' (TInstr_ExternalSymbol i),
      validateCanonicalTradingString ''base asset'' (TInstr_BaseAsset i),
      validateCanonicalTradingString ''quote asset'' (TInstr_QuoteAsset i),
      check (TInstr_Connection i = [] \<or> TInstr_ExternalSymbol i = [])
        (err_invalid ''trading instrument''),
      ValidateAsset pr (TInstr_BaseAsset i),
      ValidateAsset pr (TInstr_QuoteAsset i),
      check (TInstr_BaseAsset i = TInstr_QuoteAsset i)
        (err_invalid ''trading instrument assets must differ'')]"

definition ValidateTradingAccess :: "(nat \<Rightarrow> bool) \<Rightarrow> trading_access \<Rightarrow> go_error option" where
  "ValidateTradingAccess pr a = first_err
     [(if Access_Account a = [] \<and> Access_AccountGroup a = []
       then Some (invalidField ''/account'' ''required''
         (err_invalid ''trading access requires an account or an account group''))
       else if Access_Account a \<noteq> [] \<and> Access_AccountGroup a \<noteq> []
       then Some (invalidField ''/accountGroup'' ''unsupported_value''
         (err_invalid ''trading access must not have both an account and an account group''))
       else if Access_AccountGroup a \<noteq> []
       then map_option (WithValidationPointer ''/accountGroup'')
         (ValidateGroupID pr (Access_AccountGroup a))
       else ValidateAccountID pr (Access_Account a)),
      check (Access_Connection a = []) (err_invalid ''trading access connection''),
      validateCanonicalTradingString ''venue account'' (Access_VenueAccount a)]"

definition ValidateTradingAccessWithoutFeeAccount ::
  "trading_access \<Rightarrow> trading_access list \<Rightarrow> go_error option" where
  "ValidateTradingAccessWithoutFeeAccount a grants =
     (if Access_AccountGroup a \<noteq> [] then Some (Sentinel ErrFeeAccountRequired)
      else if list_ex (\<lambda>g. SameSubject g a) grants then None
      else if length grants > 0 then Some (Sentinel ErrFeeAccountRequired)
      else None)"

definition ValidateTradingRoute :: "string \<Rightarrow> go_error option" where
  "ValidateTradingRoute route = first_err
     [check (route \<noteq> trim_space route)
        (err_invalid ''trading destination route is not canonical''),
      check (validateTradingJSONObject route \<noteq> None) (err_invalid ''trading destination route'')]"

definition ValidateTradingDestination :: "trading_destination \<Rightarrow> go_error option" where
  "ValidateTradingDestination d = first_err
     [check (Dest_Connection d = []) (err_invalid ''trading destination connection''),
      validateCanonicalTradingString ''venue account'' (Dest_VenueAccount d),
      ValidateTradingRoute (Dest_Route d)]"

definition ValidateVenueOrder :: "venue_order \<Rightarrow> go_error option" where
  "ValidateVenueOrder v = first_err
     [check (VO_Order v = []) (err_invalid ''venue order order''),
      ValidateTradingDestination
        \<lparr> Dest_Connection = VO_Connection v, Dest_VenueAccount = VO_VenueAccount v,
          Dest_Route = VO_Route v \<rparr>,
      validateCanonicalTradingString ''client order id'' (VO_ClientOrderID v),
      validateCanonicalTradingString ''venue order id'' (VO_VenueOrderID v),
      check (VO_ClientOrderID v = []) (err_invalid ''venue order client order id''),
      check (VO_VenueOrderID v \<noteq> [] \<and> \<not> VO_SendAttempted v)
        (err_invalid ''venue order acknowledgement without send attempt'')]"

subsection \<open>Accepted configurations\<close>

lemma validateCanonicalTradingString_None [simp]:
  "validateCanonicalTradingString f v = None \<longleftrightarrow> canonical_text v"
  by (auto simp: validateCanonicalTradingString_def canonical_text_def)

lemma validateTradingJSONObject_None [simp]:
  "validateTradingJSONObject v = None \<longleftrightarrow> json_object v"
  by (auto simp: validateTradingJSONObject_def dest: json_object_nonempty)

lemma ValidateTradingDestination_iff:
  "ValidateTradingDestination d = None \<longleftrightarrow>
     Dest_Connection d \<noteq> [] \<and> canonical_text (Dest_VenueAccount d)
     \<and> canonical_text (Dest_Route d) \<and> json_object (Dest_Route d)"
  by (auto simp: ValidateTradingDestination_def ValidateTradingRoute_def canonical_text_def)

lemma ValidateVenueOrder_iff:
  "ValidateVenueOrder v = None \<longleftrightarrow>
     VO_Order v \<noteq> [] \<and> VO_Connection v \<noteq> [] \<and> canonical_text (VO_VenueAccount v)
     \<and> canonical_text (VO_Route v) \<and> json_object (VO_Route v)
     \<and> VO_ClientOrderID v \<noteq> [] \<and> canonical_text (VO_ClientOrderID v)
     \<and> canonical_text (VO_VenueOrderID v) \<and> (VO_VenueOrderID v \<noteq> [] \<longrightarrow> VO_SendAttempted v)"
  by (auto simp: ValidateVenueOrder_def ValidateTradingDestination_iff)

text \<open>A grant names exactly one subject, and never the default group.\<close>

lemma ValidateTradingAccess_iff:
  "ValidateTradingAccess pr a = None \<longleftrightarrow>
     (Access_AccountGroup a = [] \<and> ValidateAccountID pr (Access_Account a) = None
      \<or> Access_Account a = [] \<and> ValidateGroupID pr (Access_AccountGroup a) = None)
     \<and> Access_Connection a \<noteq> [] \<and> canonical_text (Access_VenueAccount a)"
  by (auto simp: ValidateTradingAccess_def ValidateAccountID_iff ValidateGroupID_iff code_text_def)

lemma canonical_mode: "TradingModeSupported m \<Longrightarrow> canonical_text (mode_text m)"
proof -
  have "canonical_text ''paper''" "canonical_text ''live''"
    by (rule no_space_canonical, simp add: go_runes_ascii is_space_def)+
  then show "TradingModeSupported m \<Longrightarrow> canonical_text (mode_text m)"
    unfolding TradingModeSupported_def by (elim disjE) simp_all
qed

lemma ValidateTradingConnection_iff:
  "ValidateTradingConnection pr c = None \<longleftrightarrow>
     (Conn_FeeAccount c \<noteq> [] \<longrightarrow> ValidateAccountID pr (Conn_FeeAccount c) = None)
     \<and> Conn_VenueIdentity c \<noteq> [] \<and> canonical_text (Conn_VenueIdentity c)
     \<and> Conn_Provider c \<noteq> [] \<and> canonical_text (Conn_Provider c)
     \<and> TradingModeSupported (Conn_Mode c)
     \<and> Conn_Label c \<noteq> [] \<and> canonical_text (Conn_Label c)
     \<and> canonical_text (Conn_Credentials c) \<and> json_object (Conn_Credentials c)"
  using canonical_mode[of "Conn_Mode c"]
  unfolding ValidateTradingConnection_def ValidateTradingConnectionSettings_def
  by (auto simp: canonical_text_def)

text \<open>
  On a connection without a fee account, a sequence of accepted grants keeps one subject: the
  account that receives unlinked fees stays unique.
\<close>

definition put_grant :: "trading_access list \<Rightarrow> trading_access \<Rightarrow> trading_access list" where
  "put_grant grants a = filter (\<lambda>g. \<not> SameSubject g a) grants @ [a]"

definition grant_without_fee ::
  "trading_access list \<Rightarrow> trading_access \<Rightarrow> trading_access list" where
  "grant_without_fee grants a =
     (if ValidateTradingAccessWithoutFeeAccount a grants = None then put_grant grants a
      else grants)"

definition one_account_subject :: "trading_access list \<Rightarrow> bool" where
  "one_account_subject grants \<longleftrightarrow>
     length grants \<le> 1 \<and> (\<forall>g\<in>set grants. Access_AccountGroup g = [])"

lemma grant_without_fee_one:
  "one_account_subject gs \<Longrightarrow> one_account_subject (grant_without_fee gs a)"
  by (cases gs)
    (auto simp: grant_without_fee_def ValidateTradingAccessWithoutFeeAccount_def put_grant_def
      one_account_subject_def split: if_splits)

lemma grants_without_fee_one:
  "one_account_subject (foldl grant_without_fee [] as)"
  by (induction as rule: rev_induct)
    (simp_all add: grant_without_fee_one, simp add: one_account_subject_def)

end
