(* ===== verification/VenueFills.thy ===== *)
theory VenueFills
  imports Orders TradingDomain
begin

section \<open>Venue fills and snapshots\<close>

text \<open>
  The venue's view of an order as a connector reports it
  (\<^verbatim>\<open>framework/trading/connector.go\<close>) and its checks in
  \<^verbatim>\<open>framework/trading/reconcile.go\<close>: plain decimals of bounded length, per-fill quantities,
  the cumulative quantity Officer has booked and the completeness of a snapshot.
\<close>

datatype commission_leg = NoLeg | CommissionLegBase | CommissionLegQuote | OtherLeg string

record fill =
  Fill_Quantity :: string
  Fill_Price :: string
  Fill_CumQuantity :: string
  Fill_LeavesQuantity :: string
  Fill_Final :: bool
  Fill_Commission :: "commission option"
  Fill_At :: go_time
  Fill_CommissionLeg :: commission_leg

datatype venue_status =
    VenueStatusOpen | VenueStatusFilled | VenueStatusCancelled | VenueStatusReplaced
  | OtherVenueStatus string

record snapshot =
  Snap_VenueOrderID :: string
  Snap_Status :: venue_status
  Snap_FilledQuantity :: string
  Snap_Fills :: "fill list"
  Snap_Reason :: string

definition maxVenueDecimalLength :: nat where "maxVenueDecimalLength = 40"

text \<open>
  The rune loop of \<open>parseVenueDecimal\<close>: \<open>i\<close> is the byte index of the rune, \<open>n\<close> the length of
  the text, \<open>start\<close> the index after an allowed sign; \<open>False\<close> is the refusal.
\<close>

fun venue_scan :: "nat \<Rightarrow> nat \<Rightarrow> nat \<Rightarrow> bool \<Rightarrow> (nat \<times> string \<times> bool) list \<Rightarrow> bool" where
  "venue_scan n start i point [] = True"
| "venue_scan n start i point ((digit, bytes, ok) # rest) =
     (if i < start then venue_scan n start (i + length bytes) point rest
      else if digit = 46 \<and> \<not> point \<and> start < i \<and> i < n - 1
      then venue_scan n start (i + length bytes) True rest
      else if digit < 48 \<or> 57 < digit then False
      else venue_scan n start (i + length bytes) point rest)"

definition parseVenueDecimal ::
  "'d decimal_pkg \<Rightarrow> string \<Rightarrow> string \<Rightarrow> bool \<Rightarrow> bool \<Rightarrow> go_error + 'd" where
  "parseVenueDecimal D value fld positive sgnd =
     (if length value = 0 \<or> length value > maxVenueDecimalLength
      then Inl (err_invalid (''trading: invalid length: '' @ fld))
      else
        (let start = (if sgnd \<and> hd value = CHR ''-'' then 1 else 0)
         in if \<not> venue_scan (length value) start 0 False (segs value)
            then Inl (err_invalid (''trading: must be a plain decimal: '' @ fld))
            else case NewFromString D value of
              None \<Rightarrow> Inl (err_invalid (''trading: invalid: '' @ fld))
            | Some d \<Rightarrow>
                if positive \<and> \<not> dec_positive D d
                then Inl (err_invalid (''trading: invalid: '' @ fld)) else Inr d))"

definition positiveDecimal :: "'d decimal_pkg \<Rightarrow> string \<Rightarrow> string \<Rightarrow> go_error + 'd" where
  "positiveDecimal D value fld =
     (case NewFromString D value of
        None \<Rightarrow> Inl (err_invalid (''trading: invalid: '' @ fld))
      | Some d \<Rightarrow> if \<not> dec_positive D d then Inl (err_invalid (''trading: invalid: '' @ fld))
          else Inr d)"

fun cumulative_from :: "'d decimal_pkg \<Rightarrow> 'd \<Rightarrow> trade list \<Rightarrow> go_error + 'd" where
  "cumulative_from D acc [] = Inr acc"
| "cumulative_from D acc (t # ts) =
     res_bind (positiveDecimal D (Trade_Quantity t) ''stored trade quantity'')
       (\<lambda>qty. cumulative_from D (AddDec D acc qty) ts)"

definition cumulative :: "'d decimal_pkg \<Rightarrow> trade list \<Rightarrow> go_error + 'd" where
  "cumulative D trades = cumulative_from D (ZeroDec D) trades"

definition fillQuantities :: "'d decimal_pkg \<Rightarrow> fill \<Rightarrow> go_error + 'd \<times> 'd" where
  "fillQuantities D f =
     res_bind (parseVenueDecimal D (Fill_Quantity f) ''fill quantity'' False False) (\<lambda>qty.
     res_bind (parseVenueDecimal D (Fill_CumQuantity f) ''cumulative fill quantity'' False False)
       (\<lambda>cum.
     res_bind (parseVenueDecimal D (Fill_Price f) ''fill price'' True False) (\<lambda>_.
     res_bind (parseVenueDecimal D (Fill_LeavesQuantity f) ''fill leaves quantity'' False False)
       (\<lambda>_.
     res_bind (of_outcome
       (if Fill_CommissionLeg f \<noteq> NoLeg
        then first_err
          [check (Fill_CommissionLeg f \<noteq> CommissionLegBase
              \<and> Fill_CommissionLeg f \<noteq> CommissionLegQuote)
             (err_invalid ''trading: fill CommissionLeg is invalid''),
           check (Fill_Commission f = None)
             (err_invalid ''trading: fill CommissionLeg requires Commission'')]
        else None) ()) (\<lambda>_.
     (case Fill_Commission f of
        None \<Rightarrow> Inr (qty, cum)
      | Some c \<Rightarrow>
          res_bind (parseVenueDecimal D (Commission_Amount c) ''fill commission amount'' False True)
            (\<lambda>_. if Commission_Currency c = []
              then Inl (err_invalid ''trading: fill commission currency is empty'')
              else Inr (qty, cum))))))))"

text \<open>The loop over the fills of a snapshot; \<open>last\<close> says whether the fill is the last one.\<close>

fun snapshot_fills ::
  "'d decimal_pkg \<Rightarrow> venue_status \<Rightarrow> 'd \<Rightarrow> fill list \<Rightarrow> go_error + 'd" where
  "snapshot_fills D status previous [] = Inr previous"
| "snapshot_fills D status previous (f # fs) =
     res_bind (fillQuantities D f) (\<lambda>(qty, cum).
       if \<not> dec_eq D cum (AddDec D previous qty)
       then Inl (Wrap ''trading: incomplete snapshot at fill'' (Sentinel ErrUpstream))
       else if Fill_Final f \<and> (fs \<noteq> [] \<or> status \<noteq> VenueStatusFilled)
       then Inl (Wrap ''trading: premature final fill in snapshot'' (Sentinel ErrUpstream))
       else snapshot_fills D status cum fs)"

definition validateSnapshot :: "'d decimal_pkg \<Rightarrow> snapshot \<Rightarrow> go_error + 'd" where
  "validateSnapshot D s =
     (if Snap_Status s \<notin> {VenueStatusOpen, VenueStatusFilled, VenueStatusCancelled,
          VenueStatusReplaced}
      then Inl (err_invalid ''trading: unknown snapshot status'')
      else
        res_bind (parseVenueDecimal D (Snap_FilledQuantity s) ''snapshot filled quantity'' False False)
          (\<lambda>filled. res_bind (snapshot_fills D (Snap_Status s) (ZeroDec D) (Snap_Fills s))
            (\<lambda>previous. if \<not> dec_eq D previous filled
              then Inl (Wrap ''trading: incomplete snapshot cumulative quantity''
                (Sentinel ErrUpstream))
              else Inr filled)))"

subsection \<open>Plain decimals\<close>

text \<open>What the scan accepts: digits with at most one point, which is neither first nor last.\<close>

lemma venue_scan_digits:
  assumes "venue_scan n start i p ss" and "start \<le> i"
  shows "list_all (\<lambda>(r, b, ok). (48 \<le> r \<and> r \<le> 57) \<or> (r = 46 \<and> \<not> p)) ss"
  using assms
proof (induction n start i p ss rule: venue_scan.induct)
  case (2 n start i p r b ok rest)
  show ?case
  proof (cases "r = 46 \<and> \<not> p \<and> start < i \<and> i < n - 1")
    case True
    then have "venue_scan n start (i + length b) True rest" using 2 by simp
    then have "list_all (\<lambda>(r, b, ok). (48 \<le> r \<and> r \<le> 57) \<or> (r = 46 \<and> \<not> True)) rest"
      using 2 True by simp
    then show ?thesis using True by (auto simp: list_all_iff)
  next
    case False
    then have d: "48 \<le> r \<and> r \<le> 57" "venue_scan n start (i + length b) p rest"
      using "2.prems" by (auto split: if_splits)
    then show ?thesis using 2 False by (auto simp: list_all_iff)
  qed
qed simp

lemma parseVenueDecimal_Inr:
  assumes "parseVenueDecimal D v fld positive False = Inr d"
  shows "NewFromString D v = Some d" and "positive \<Longrightarrow> 0 < dval D d"
    and "v \<noteq> []" and "length v \<le> 40"
    and "list_all (\<lambda>r. (48 \<le> r \<and> r \<le> 57) \<or> r = 46) (go_runes v)"
proof -
  have s: "venue_scan (length v) 0 0 False (segs v)"
    using assms by (auto simp: parseVenueDecimal_def Let_def split: if_splits)
  show "list_all (\<lambda>r. (48 \<le> r \<and> r \<le> 57) \<or> r = 46) (go_runes v)"
    using venue_scan_digits[OF s] by (auto simp: go_runes_def list_all_iff)
qed (use assms in \<open>auto simp: parseVenueDecimal_def Let_def maxVenueDecimalLength_def
      dec_positive_val not_less split: if_splits option.splits\<close>)

subsection \<open>Quantities\<close>

definition trade_qty :: "'d decimal_pkg \<Rightarrow> trade \<Rightarrow> rat" where
  "trade_qty D t = (case NewFromString D (Trade_Quantity t) of None \<Rightarrow> 0 | Some d \<Rightarrow> dval D d)"

text \<open>The quantity Officer has booked for an order.\<close>

definition booked :: "'d decimal_pkg \<Rightarrow> trade list \<Rightarrow> rat" where
  "booked D ts = sum_list (map (trade_qty D) ts)"

definition trades_ok :: "'d decimal_pkg \<Rightarrow> trade list \<Rightarrow> bool" where
  "trades_ok D ts \<longleftrightarrow>
     (\<forall>t\<in>set ts. \<exists>d. NewFromString D (Trade_Quantity t) = Some d \<and> 0 < dval D d)"

lemma cumulative_from_Inr:
  assumes "decimal_pkg_ok D"
  shows "cumulative_from D acc ts = Inr c \<Longrightarrow>
     trades_ok D ts \<and> dval D c = dval D acc + booked D ts"
  using assms
  by (induction D acc ts rule: cumulative_from.induct)
    (auto simp: res_bind_Inr positiveDecimal_def trades_ok_def booked_def trade_qty_def dval_Add
      dec_positive_val split: option.splits if_splits)

lemma cumulative_Inr:
  "decimal_pkg_ok D \<Longrightarrow> cumulative D ts = Inr c \<Longrightarrow> trades_ok D ts \<and> dval D c = booked D ts"
  using cumulative_from_Inr[of D "ZeroDec D" ts c] by (simp add: cumulative_def)

lemma cumulative_ok:
  assumes "trades_ok D ts"
  shows "\<exists>c. cumulative_from D acc ts = Inr c"
  using assms
  by (induction D acc ts rule: cumulative_from.induct)
    (auto simp: res_bind_Inr positiveDecimal_def trades_ok_def dec_positive_val)

definition fill_qty :: "'d decimal_pkg \<Rightarrow> fill \<Rightarrow> rat" where
  "fill_qty D f = (case NewFromString D (Fill_Quantity f) of None \<Rightarrow> 0 | Some d \<Rightarrow> dval D d)"

definition fill_cum :: "'d decimal_pkg \<Rightarrow> fill \<Rightarrow> rat" where
  "fill_cum D f = (case NewFromString D (Fill_CumQuantity f) of None \<Rightarrow> 0 | Some d \<Rightarrow> dval D d)"

lemma fillQuantities_Inr:
  assumes "fillQuantities D f = Inr (q, c)"
  shows "NewFromString D (Fill_Quantity f) = Some q" and "NewFromString D (Fill_CumQuantity f) = Some c"
    and "dval D q = fill_qty D f" and "dval D c = fill_cum D f"
    and "\<exists>p. NewFromString D (Fill_Price f) = Some p \<and> 0 < dval D p"
proof -
  have a: "parseVenueDecimal D (Fill_Quantity f) ''fill quantity'' False False = Inr q"
    "parseVenueDecimal D (Fill_CumQuantity f) ''cumulative fill quantity'' False False = Inr c"
    "\<exists>p. parseVenueDecimal D (Fill_Price f) ''fill price'' True False = Inr p"
    using assms
    by (auto simp: fillQuantities_def res_bind_Inr split: option.splits if_splits)
  show qc: "NewFromString D (Fill_Quantity f) = Some q" "NewFromString D (Fill_CumQuantity f) = Some c"
    using parseVenueDecimal_Inr(1)[OF a(1)] parseVenueDecimal_Inr(1)[OF a(2)] by simp_all
  show "dval D q = fill_qty D f" "dval D c = fill_cum D f"
    by (simp_all add: fill_qty_def fill_cum_def qc)
  show "\<exists>p. NewFromString D (Fill_Price f) = Some p \<and> 0 < dval D p"
    using a(3) parseVenueDecimal_Inr(1,2) by fastforce
qed

text \<open>
  A complete snapshot: each cumulative quantity is the sum of the quantities up to it, their
  total is the filled quantity and only the last fill of a filled order is final.
\<close>

definition snapshot_complete :: "'d decimal_pkg \<Rightarrow> snapshot \<Rightarrow> bool" where
  "snapshot_complete D s \<longleftrightarrow>
     (\<forall>i < length (Snap_Fills s).
        fill_cum D (Snap_Fills s ! i) = sum_list (map (fill_qty D) (take (Suc i) (Snap_Fills s)))
        \<and> (Fill_Final (Snap_Fills s ! i) \<longrightarrow>
             Suc i = length (Snap_Fills s) \<and> Snap_Status s = VenueStatusFilled))
     \<and> (\<exists>d. NewFromString D (Snap_FilledQuantity s) = Some d
          \<and> dval D d = sum_list (map (fill_qty D) (Snap_Fills s)))"

lemma snapshot_fills_Inr:
  assumes "decimal_pkg_ok D"
  shows "snapshot_fills D st prev fs = Inr prev_end \<Longrightarrow>
    dval D prev_end = dval D prev + sum_list (map (fill_qty D) fs)
    \<and> (\<forall>i < length fs. fill_cum D (fs ! i)
          = dval D prev + sum_list (map (fill_qty D) (take (Suc i) fs))
        \<and> (Fill_Final (fs ! i) \<longrightarrow> Suc i = length fs \<and> st = VenueStatusFilled))"
proof (induction fs arbitrary: prev)
  case (Cons f fs)
  obtain q c where qc: "fillQuantities D f = Inr (q, c)"
    and eq: "dec_eq D c (AddDec D prev q)"
    and fin: "Fill_Final f \<Longrightarrow> fs = [] \<and> st = VenueStatusFilled"
    and rest: "snapshot_fills D st c fs = Inr prev_end"
    using Cons.prems by (auto simp: res_bind_Inr split: if_splits)
  have c: "dval D c = dval D prev + fill_qty D f" "fill_cum D f = dval D prev + fill_qty D f"
    using eq fillQuantities_Inr(3,4)[OF qc] by (simp_all add: dec_eq_val[OF assms] dval_Add[OF assms])
  have "fill_cum D ((f # fs) ! i)
      = dval D prev + sum_list (map (fill_qty D) (take (Suc i) (f # fs)))
      \<and> (Fill_Final ((f # fs) ! i) \<longrightarrow> Suc i = length (f # fs) \<and> st = VenueStatusFilled)"
    if "i < length (f # fs)" for i
    using Cons.IH[OF rest] c fin that by (cases i) auto
  then show ?case using Cons.IH[OF rest] c by simp
qed simp

lemma validateSnapshot_complete:
  assumes "decimal_pkg_ok D" and "validateSnapshot D s = Inr filled"
  shows "snapshot_complete D s \<and> NewFromString D (Snap_FilledQuantity s) = Some filled"
proof -
  obtain prev_end where v: "parseVenueDecimal D (Snap_FilledQuantity s) ''snapshot filled quantity'' False
      False = Inr filled"
    and l: "snapshot_fills D (Snap_Status s) (ZeroDec D) (Snap_Fills s) = Inr prev_end"
    and e: "dec_eq D prev_end filled"
    using assms(2) by (auto simp: validateSnapshot_def res_bind_Inr split: if_splits)
  show ?thesis
    using snapshot_fills_Inr[OF assms(1) l] parseVenueDecimal_Inr(1)[OF v] e
    by (simp add: snapshot_complete_def dec_eq_val[OF assms(1)] dval_ZeroDec[OF assms(1)])
qed

end
