(* ===== verification/AuditTrail.thy ===== *)
theory AuditTrail
  imports Orders
begin

section \<open>The audit trail\<close>

text \<open>
  The audit actions of \<^verbatim>\<open>framework/domain/domain.go\<close>, their two categories, the action
  sets of a category query and the metadata contract of order-decision rows.
\<close>

datatype audit_action =
    AuditActionHydrate | AuditActionCreateAsset | AuditActionUpdateAsset |
    AuditActionDeleteAsset | AuditActionCreateAccount | AuditActionUpdateAccount |
    AuditActionDeleteAccount | AuditActionBlock | AuditActionUnblock | AuditActionSetLimit |
    AuditActionDeleteLimit | AuditActionSetGroupNotes | AuditActionBlockGroup |
    AuditActionUnblockGroup | AuditActionSetNotes | AuditActionSetGroup |
    AuditActionSetAccountCurrency | AuditActionSetGroupCurrency | AuditActionAdjustment |
    AuditActionCreateGroup | AuditActionUpdateGroup | AuditActionDeleteGroup |
    AuditActionCreateAssetClass | AuditActionUpdateAssetClass | AuditActionDeleteAssetClass |
    AuditActionSubmitOrder | AuditActionSubmitDropCopy | AuditActionExecutionReport |
    AuditActionSetMcpAccess | AuditActionSetSetting | AuditActionSetMarketData |
    AuditActionSetTrading | AuditActionVenueFeeSkipped | AuditActionExportBackup |
    AuditActionRestoreBackup | AuditActionExportBusinessCSV | AuditActionResetDatabase |
    AuditActionDownloadPreMigrationBackup | AuditActionDeletePreMigrationBackup |
    AuditActionRestartService | AuditActionStopService | AuditActionGenerateSigningKey |
    AuditActionImportSigningKey | AuditActionSetSigningConfig | AuditActionApprovalIssued |
    AuditActionApprovalFailed | AuditActionApprovalConfirmed | AuditActionApprovalCancelled |
    AuditActionSetAccessMode | AuditActionIssueAccessToken | AuditActionSetPanelPassword |
    AuditActionIssueRecoveryCode | AuditActionUseRecoveryCode
  | OtherAuditAction string

datatype audit_category = AuditCategoryControl | AuditCategoryTrading

definition Category :: "audit_action \<Rightarrow> audit_category" where
  "Category a =
     (if a = AuditActionSubmitOrder \<or> a = AuditActionSubmitDropCopy
         \<or> a = AuditActionExecutionReport
      then AuditCategoryTrading else AuditCategoryControl)"

definition AllAuditActions :: "audit_action list" where
  "AllAuditActions =
    [AuditActionHydrate, AuditActionCreateAsset, AuditActionUpdateAsset,
     AuditActionDeleteAsset, AuditActionCreateAccount, AuditActionUpdateAccount,
     AuditActionDeleteAccount, AuditActionBlock, AuditActionUnblock, AuditActionSetLimit,
     AuditActionDeleteLimit, AuditActionSetGroupNotes, AuditActionBlockGroup,
     AuditActionUnblockGroup, AuditActionSetNotes, AuditActionSetGroup,
     AuditActionSetAccountCurrency, AuditActionSetGroupCurrency, AuditActionAdjustment,
     AuditActionCreateGroup, AuditActionUpdateGroup, AuditActionDeleteGroup,
     AuditActionCreateAssetClass, AuditActionUpdateAssetClass, AuditActionDeleteAssetClass,
     AuditActionSetMcpAccess, AuditActionSetSetting, AuditActionSetMarketData,
     AuditActionSetTrading, AuditActionVenueFeeSkipped, AuditActionExportBackup,
     AuditActionRestoreBackup, AuditActionExportBusinessCSV, AuditActionResetDatabase,
     AuditActionDownloadPreMigrationBackup, AuditActionDeletePreMigrationBackup,
     AuditActionRestartService, AuditActionStopService, AuditActionGenerateSigningKey,
     AuditActionImportSigningKey, AuditActionSetSigningConfig, AuditActionApprovalIssued,
     AuditActionApprovalFailed, AuditActionApprovalConfirmed, AuditActionApprovalCancelled,
     AuditActionSetAccessMode, AuditActionIssueAccessToken, AuditActionSetPanelPassword,
     AuditActionIssueRecoveryCode, AuditActionUseRecoveryCode, AuditActionSubmitOrder,
     AuditActionSubmitDropCopy, AuditActionExecutionReport]"

definition ValidateAuditDecision ::
  "audit_action \<Rightarrow> string \<Rightarrow> string \<Rightarrow> string \<Rightarrow> go_error option" where
  "ValidateAuditDecision action orderID verdict rejectCode =
     (if \<not> (action = AuditActionSubmitOrder \<or> action = AuditActionSubmitDropCopy)
      then check (orderID \<noteq> [] \<or> verdict \<noteq> [] \<or> rejectCode \<noteq> [])
        (err_invalid ''store: audit action has decision metadata'')
      else first_err
        [check (orderID = [])
           (err_invalid ''store: audit action decision order id is required''),
         (if verdict = ''accept''
          then check (rejectCode \<noteq> [])
            (err_invalid ''store: audit action accept verdict has reject code'')
          else check (verdict \<noteq> ''reject'')
            (err_invalid ''store: audit action decision verdict is invalid''))])"

definition AuditActionsByCategory :: "audit_category \<Rightarrow> audit_action list" where
  "AuditActionsByCategory c = filter (\<lambda>a. Category a = c) AllAuditActions"

text \<open>The action set, \<open>None\<close> being the nil slice that filters nothing, and whether the query
  value is known.\<close>

definition AuditActionsForCategory :: "string \<Rightarrow> audit_action list option \<times> bool" where
  "AuditActionsForCategory category =
     (if category = [] \<or> category = ''control''
      then (Some (AuditActionsByCategory AuditCategoryControl), True)
      else if category = ''trading''
      then (Some (AuditActionsByCategory AuditCategoryTrading), True)
      else if category = ''all'' then (None, True)
      else (None, False))"

lemma AllAuditActions_complete: "a \<in> set AllAuditActions \<longleftrightarrow> (\<forall>s. a \<noteq> OtherAuditAction s)"
  by (cases a) (simp_all add: AllAuditActions_def)

lemma AllAuditActions_distinct: "distinct AllAuditActions"
  by (simp add: AllAuditActions_def)

text \<open>The two category queries split the catalogue: no action is in both, none is lost.\<close>

lemma category_partition:
  "set (AuditActionsByCategory AuditCategoryControl) \<inter> set (AuditActionsByCategory AuditCategoryTrading)
     = {}"
  "set (AuditActionsByCategory AuditCategoryControl) \<union> set (AuditActionsByCategory AuditCategoryTrading)
     = set AllAuditActions"
  by (auto simp: AuditActionsByCategory_def intro: audit_category.exhaust)

lemma trading_actions:
  "AuditActionsByCategory AuditCategoryTrading
   = [AuditActionSubmitOrder, AuditActionSubmitDropCopy, AuditActionExecutionReport]"
  by (simp add: AuditActionsByCategory_def AllAuditActions_def Category_def)

lemma ValidateAuditDecision_iff:
  "ValidateAuditDecision a oid v rc = None \<longleftrightarrow>
     (if a = AuditActionSubmitOrder \<or> a = AuditActionSubmitDropCopy
      then oid \<noteq> [] \<and> (v = ''accept'' \<and> rc = [] \<or> v = ''reject'')
      else oid = [] \<and> v = [] \<and> rc = [])"
  by (auto simp: ValidateAuditDecision_def)

end
