(* ===== verification/RealmStore.thy ===== *)
theory RealmStore
  imports VenueFills AuditTrail Adjustments
begin

section \<open>The realm store under the trading runtime\<close>

text \<open>
  The part of the SQLite realm store that the trading runtime works on
  (\<^verbatim>\<open>internal/store/sqlite/trading.go\<close>, \<^verbatim>\<open>orders.go\<close>): orders with their events and
  trades, the accounts with their blocks and P\&L, the balances by account and asset, the venue
  links, the execution-report ids and the trading configuration. Rows are found by their codes
  and external ids; the surrogate keys have no counterpart.

  A statement may fail. \<open>R_Faults\<close> schedules what the next statements do: run, fail without an
  effect or fail after their effect was made durable. Statements past the end of the schedule
  run. \<open>R_Fresh\<close> holds the ids the store generates next, \<open>R_Fatal\<close> is the fatal-shutdown hook of
  the node, \<open>R_Engine\<close> records the reports that the engine has settled and \<open>R_Reserved\<close> the orders
  whose pre-trade operation it has committed. A crash of the process between two statements leaves
  the durable state of a run in which every later statement fails without an effect, so the
  schedules cover crashes.
\<close>

datatype fault = NoFault | FailBefore go_error | FailAfter go_error

record order_detail =
  Det_Order :: order
  Det_Events :: "order_event list"
  Det_Trades :: "trade list"

record realm =
  R_Orders :: "string \<rightharpoonup> order_detail"
  R_Links :: "venue_order list"
  R_Reports :: "string list"
  R_Connections :: "trading_connection list"
  R_Access :: "account_id \<Rightarrow> trading_access list"
  R_Instruments :: "trading_instrument list"
  R_Accounts :: "account list"
  R_Assets :: "string list"
  R_Principals :: "string list"
  R_SigningKeys :: "string list"
  R_Balances :: "account_id \<times> string \<rightharpoonup> balance"
  R_Now :: go_time
  R_Audit :: "(audit_action \<times> account_id) list"
  R_Fresh :: "string list"
  R_Fatal :: bool
  R_Engine :: "execution_report_input list"
  R_Reserved :: "string list"
  R_Faults :: "fault list"

type_synonym ('z, 'a) rop = "('z realm_scheme, go_error, 'a) op"

definition store_call :: "('z, 'a) rop \<Rightarrow> ('z, 'a) rop" where
  "store_call m s = (case R_Faults s of
       [] \<Rightarrow> m s
     | NoFault # fs \<Rightarrow> m (s\<lparr>R_Faults := fs\<rparr>)
     | FailBefore e # fs \<Rightarrow> (Inl e, s\<lparr>R_Faults := fs\<rparr>)
     | FailAfter e # fs \<Rightarrow> (case m (s\<lparr>R_Faults := fs\<rparr>) of
           (Inl e', t) \<Rightarrow> (Inl e', t) | (Inr _, t) \<Rightarrow> (Inl e, t)))"

abbreviation err_not_found :: "string \<Rightarrow> go_error" where
  "err_not_found m \<equiv> Wrap m (Sentinel ErrNotFound)"

subsection \<open>Configuration and orders\<close>

definition GetTradingConnection :: "string \<Rightarrow> ('z, trading_connection option) rop" where
  "GetTradingConnection c =
     store_call (gets (\<lambda>s. List.find (\<lambda>t. Conn_ExternalID t = c) (R_Connections s)))"

definition resolveTradingConnectionID :: "string \<Rightarrow> ('z, unit) rop" where
  "resolveTradingConnectionID c = store_call (\<lambda>s.
     if \<exists>t\<in>set (R_Connections s). Conn_ExternalID t = c then (Inr (), s)
     else (Inl (err_not_found ''trading connection''), s))"

definition ListTradingAccess :: "account_id \<Rightarrow> ('z, trading_access list) rop" where
  "ListTradingAccess a = store_call (gets (\<lambda>s. R_Access s a))"

definition FindTradingInstrument ::
  "string \<Rightarrow> string \<Rightarrow> string \<Rightarrow> ('z, trading_instrument option) rop" where
  "FindTradingInstrument c base quote = store_call (gets (\<lambda>s.
     List.find (\<lambda>i. TInstr_Connection i = c \<and> TInstr_BaseAsset i = base
       \<and> TInstr_QuoteAsset i = quote) (R_Instruments s)))"

definition lookupOrderID :: "string \<Rightarrow> ('z, unit) rop" where
  "lookupOrderID i = store_call (\<lambda>s.
     case R_Orders s i of None \<Rightarrow> (Inl (err_not_found ''order''), s) | Some d \<Rightarrow> (Inr (), s))"

definition GetOrder :: "string \<Rightarrow> ('z, order_detail) rop" where
  "GetOrder i = store_call (\<lambda>s.
     case R_Orders s i of None \<Rightarrow> (Inl (err_not_found ''order''), s) | Some d \<Rightarrow> (Inr d, s))"

definition ExecutionReportExists :: "string \<Rightarrow> ('z, bool) rop" where
  "ExecutionReportExists i =
     (if i = [] then ret False else store_call (gets (\<lambda>s. i \<in> set (R_Reports s))))"

subsection \<open>Venue links\<close>

definition find_link :: "string \<Rightarrow> venue_order list \<Rightarrow> venue_order option" where
  "find_link oid links = List.find (\<lambda>l. VO_Order l = oid) links"

text \<open>\<open>INSERT INTO venue_order\<close> with its two uniqueness constraints.\<close>

definition insert_link :: "venue_order \<Rightarrow> ('z, venue_order) rop" where
  "insert_link v = (\<lambda>s.
     if \<exists>l\<in>set (R_Links s). VO_Order l = VO_Order v
         \<or> (VO_Connection l = VO_Connection v \<and> VO_ClientOrderID l = VO_ClientOrderID v)
     then (Inl (Wrap ''venue order link'' (Sentinel ErrAlreadyExists)), s)
     else (let v' = v\<lparr>VO_CreatedAt := R_Now s\<rparr>
           in (Inr v', s\<lparr>R_Links := R_Links s @ [v']\<rparr>)))"

definition CreateVenueOrder :: "venue_order \<Rightarrow> ('z, venue_order) rop" where
  "CreateVenueOrder v =
     andthen (lift_out (ValidateVenueOrder v)) (\<lambda>_.
     andthen (lift_out (check (VO_SendAttempted v \<or> VO_VenueOrderID v \<noteq> [])
       (err_invalid ''venue order must be unsent and unacknowledged at creation''))) (\<lambda>_.
     andthen (lookupOrderID (VO_Order v)) (\<lambda>_.
     andthen (resolveTradingConnectionID (VO_Connection v)) (\<lambda>_.
     store_call (insert_link v)))))"

definition GetVenueOrder :: "string \<Rightarrow> ('z, venue_order option) rop" where
  "GetVenueOrder oid = store_call (gets (\<lambda>s. find_link oid (R_Links s)))"

definition FindVenueOrderByClientID :: "string \<Rightarrow> string \<Rightarrow> ('z, venue_order option) rop" where
  "FindVenueOrderByClientID c coid = store_call (gets (\<lambda>s.
     List.find (\<lambda>l. VO_Connection l = c \<and> VO_ClientOrderID l = coid) (R_Links s)))"

text \<open>An \<open>UPDATE\<close> of the rows of one order that satisfy a condition; it returns their number.\<close>

definition update_links ::
  "string \<Rightarrow> (venue_order \<Rightarrow> bool) \<Rightarrow> (venue_order \<Rightarrow> venue_order) \<Rightarrow> ('z, nat) rop" where
  "update_links oid c f = (\<lambda>s.
     (Inr (length (filter (\<lambda>l. VO_Order l = oid \<and> c l) (R_Links s))),
      s\<lparr>R_Links := map (\<lambda>l. if VO_Order l = oid \<and> c l then f l else l) (R_Links s)\<rparr>))"

definition SetVenueOrderID :: "string \<Rightarrow> string \<Rightarrow> ('z, unit) rop" where
  "SetVenueOrderID oid venueOrderID =
     andthen (lift_out (check (venueOrderID = [] \<or> venueOrderID \<noteq> trim_space venueOrderID)
       (err_invalid ''venue order id''))) (\<lambda>_.
     andthen (store_call (update_links oid
         (\<lambda>l. VO_VenueOrderID l = [] \<or> VO_VenueOrderID l = venueOrderID)
         (\<lambda>l. l\<lparr>VO_VenueOrderID := venueOrderID, VO_SendAttempted := True\<rparr>))) (\<lambda>rows.
     if rows > 0 then ret ()
     else andthen (GetVenueOrder oid) (\<lambda>existing. case existing of
         None \<Rightarrow> raise (err_not_found ''venue order'')
       | Some l \<Rightarrow> if VO_VenueOrderID l = venueOrderID then ret ()
           else raise (Wrap ''venue order id already set'' (Sentinel ErrConflict)))))"

definition MarkVenueOrderSendAttempted :: "string \<Rightarrow> ('z, unit) rop" where
  "MarkVenueOrderSendAttempted oid =
     andthen (store_call (update_links oid (\<lambda>l. True) (\<lambda>l. l\<lparr>VO_SendAttempted := True\<rparr>)))
       (\<lambda>rows. if rows = 0 then raise (err_not_found ''venue order'') else ret ())"

definition delete_unsent :: "string \<Rightarrow> ('z, nat) rop" where
  "delete_unsent oid = (\<lambda>s.
     let del = (\<lambda>l. VO_Order l = oid \<and> \<not> VO_SendAttempted l \<and> VO_VenueOrderID l = [])
     in (Inr (length (filter del (R_Links s))),
         s\<lparr>R_Links := filter (\<lambda>l. \<not> del l) (R_Links s)\<rparr>))"

definition DeleteVenueOrder :: "string \<Rightarrow> ('z, unit) rop" where
  "DeleteVenueOrder oid =
     andthen (store_call (delete_unsent oid)) (\<lambda>rows.
     if rows > 0 then ret ()
     else andthen (GetVenueOrder oid) (\<lambda>existing. case existing of
         None \<Rightarrow> raise (err_not_found ''venue order'')
       | Some l \<Rightarrow> raise (Wrap ''send-attempted or acknowledged venue order cannot be deleted''
           (Sentinel ErrConflict))))"

text \<open>The open links of a connection; the order of the rows is that of their creation.\<close>

definition ListOpenVenueOrders :: "string \<Rightarrow> ('z, venue_order list) rop" where
  "ListOpenVenueOrders c = store_call (gets (\<lambda>s.
     sort_key VO_CreatedAt (filter (\<lambda>l. VO_Connection l = c
       \<and> (case R_Orders s (VO_Order l) of
            None \<Rightarrow> False
          | Some d \<Rightarrow> \<not> OrderStatusTerminal (Order_Status (Det_Order d)))) (R_Links s))))"

definition EarliestVenueOrderTime :: "string \<Rightarrow> ('z, go_time option) rop" where
  "EarliestVenueOrderTime c = store_call (gets (\<lambda>s.
     case sort (map VO_CreatedAt (filter (\<lambda>l. VO_Connection l = c) (R_Links s))) of
       [] \<Rightarrow> None | t # _ \<Rightarrow> Some t))"

definition requireNoVenueOrder :: "string \<Rightarrow> ('z, unit) rop" where
  "requireNoVenueOrder oid =
     handle (GetVenueOrder oid) (\<lambda>e. raise (Wrap ''get venue order'' e))
       (\<lambda>l. if l \<noteq> None then raise (Wrap ''order'' (Sentinel ErrVenueOrderManaged)) else ret ())"

subsection \<open>What statements keep\<close>

lemma snd_store_call:
  "\<exists>fs. set fs \<subseteq> set (R_Faults s)
     \<and> snd (store_call m s) \<in> {snd (m s), snd (m (s\<lparr>R_Faults := fs\<rparr>)), s\<lparr>R_Faults := fs\<rparr>}"
proof (cases "R_Faults s")
  case (Cons f fs)
  have "snd (case m t of (Inl e', u) \<Rightarrow> (Inl e', u) | (Inr _, u) \<Rightarrow> (Inl e, u)) = snd (m t)"
    for t and e :: go_error
    by (simp split: prod.splits sum.splits)
  with Cons show ?thesis
    by (cases f) (auto simp: store_call_def intro: exI[of _ fs])
qed (simp add: store_call_def)

lemma keeps_store_call:
  assumes "keeps I m"
    and "\<And>s fs. I s \<Longrightarrow> set fs \<subseteq> set (R_Faults s) \<Longrightarrow> I (s\<lparr>R_Faults := fs\<rparr>)"
  shows "keeps I (store_call m)"
  unfolding keeps_def
proof (intro allI impI)
  fix s assume "I s"
  then show "I (snd (store_call m s))"
    using snd_store_call[of s m] assms by (auto simp: keeps_def)
qed

text \<open>A statement that succeeds had its effect, on the state with its schedule consumed.\<close>

lemma store_call_Inr:
  "store_call m s = (Inr a, t) \<Longrightarrow> \<exists>fs. m (s\<lparr>R_Faults := fs\<rparr>) = (Inr a, t)"
proof (cases "R_Faults s")
  case Nil
  then have e: "s\<lparr>R_Faults := []\<rparr> = s" by (cases s) simp
  have "store_call m s = m s" using Nil by (simp add: store_call_def)
  with e show "store_call m s = (Inr a, t) \<Longrightarrow> ?thesis" by metis
next
  case (Cons f fs)
  then show "store_call m s = (Inr a, t) \<Longrightarrow> ?thesis"
    by (cases f) (auto simp: store_call_def split: sum.splits prod.splits)
qed

text \<open>A property of the links alone.\<close>

definition on_links :: "(venue_order list \<Rightarrow> bool) \<Rightarrow> 'z realm_scheme \<Rightarrow> bool" where
  "on_links P s \<longleftrightarrow> P (R_Links s)"

lemma keeps_links_call: "keeps (on_links P) m \<Longrightarrow> keeps (on_links P) (store_call m)"
  by (rule keeps_store_call) (auto simp: on_links_def)

lemma keeps_read_only: "(\<And>s. snd (m s) = s) \<Longrightarrow> keeps I m"
  by (simp add: keeps_def)

lemma keeps_links_insert:
  assumes "\<And>ls t. P ls \<Longrightarrow>
      (\<forall>l\<in>set ls. VO_Order l \<noteq> VO_Order v
        \<and> (VO_Connection l = VO_Connection v \<longrightarrow> VO_ClientOrderID l \<noteq> VO_ClientOrderID v))
      \<Longrightarrow> P (ls @ [v\<lparr>VO_CreatedAt := t\<rparr>])"
  shows "keeps (on_links P) (insert_link v)"
  using assms by (auto simp: keeps_def on_links_def insert_link_def Let_def)

lemma keeps_links_update:
  assumes "\<And>ls. P ls \<Longrightarrow> P (map (\<lambda>l. if VO_Order l = oid \<and> c l then f l else l) ls)"
  shows "keeps (on_links P) (update_links oid c f)"
  using assms by (auto simp: keeps_def on_links_def update_links_def)

lemma keeps_links_delete:
  assumes "\<And>ls. P ls \<Longrightarrow>
    P (filter (\<lambda>l. \<not> (VO_Order l = oid \<and> \<not> VO_SendAttempted l \<and> VO_VenueOrderID l = [])) ls)"
  shows "keeps (on_links P) (delete_unsent oid)"
  using assms by (auto simp: keeps_def on_links_def delete_unsent_def Let_def)

lemmas store_reads = GetTradingConnection_def resolveTradingConnectionID_def ListTradingAccess_def
  FindTradingInstrument_def lookupOrderID_def GetOrder_def ExecutionReportExists_def
  GetVenueOrder_def FindVenueOrderByClientID_def ListOpenVenueOrders_def
  EarliestVenueOrderTime_def requireNoVenueOrder_def

end
