(* ===== verification/Settlement.thy ===== *)
theory Settlement
  imports RealmStore
begin

section \<open>The settlement transaction\<close>

text \<open>
  \<^verbatim>\<open>recordOrderSettlementTx\<close> of \<^verbatim>\<open>internal/store/sqlite/orders.go\<close> with the statements it is
  made of: one transaction writes the report id, the account's P\&L, the balances, the account
  blocks, the trade, the events with their attestations and the order row. The attestor is an
  argument, as in the code: it signs an event, has no payload for it, or fails. The balance row
  of an account and an asset is an entry of \<open>R_Balances\<close>; a NULL P\&L is the empty text.
\<close>

record adjustment_outcome =
  Out_BalanceDelta :: string
  Out_BalanceResult :: string
  Out_HeldDelta :: string
  Out_HeldResult :: string
  Out_IncomingDelta :: string
  Out_IncomingResult :: string
  Out_RealizedPnlDelta :: string
  Out_RealizedPnlResult :: string
  Out_RealizedPnlHaltReason :: pnl_halt_reason
  Out_AverageEntryPrice :: string

record balance_settlement =
  BS_Asset :: string
  BS_Outcome :: adjustment_outcome

record settlement =
  Set_Trade :: "trade option"
  Set_ReportID :: "string option"
  Set_Account :: account_id
  Set_OrderStatus :: order_status
  Set_AccountPnl :: string
  Set_AccountPnlHaltReason :: pnl_halt_reason
  Set_Lock :: string
  Set_Leaves :: string
  Set_ReservedQuantity :: string
  Set_Order :: string
  Set_AllowedFrom :: "order_status list"
  Set_Balances :: "balance_settlement list"
  Set_Events :: "order_event list"
  Set_Blocks :: "account_block list"
  Set_SetLock :: bool

definition empty_settlement :: settlement where
  "empty_settlement = \<lparr> Set_Trade = None, Set_ReportID = None, Set_Account = [],
     Set_OrderStatus = NoOrderStatus, Set_AccountPnl = [], Set_AccountPnlHaltReason = NoPnlHalt,
     Set_Lock = [], Set_Leaves = [], Set_ReservedQuantity = [], Set_Order = [], Set_AllowedFrom = [],
     Set_Balances = [], Set_Events = [], Set_Blocks = [], Set_SetLock = False \<rparr>"

type_synonym attestor = "(order_event \<Rightarrow> go_error + event_attestation option) option"

subsection \<open>Dictionaries and ids\<close>

text \<open>A read that must find its row.\<close>

definition require :: "('z realm_scheme \<Rightarrow> bool) \<Rightarrow> go_error \<Rightarrow> ('z, unit) rop" where
  "require P e = reads (\<lambda>s. lift_out (check (\<not> P s) e))"

definition known :: "bool \<Rightarrow> ('z, unit) rop" where
  "known b = lift_out (check (\<not> b) (err_invalid ''unknown dictionary code''))"

fun source_known :: "source \<Rightarrow> bool" where
  "source_known (OtherSource t) = False"
| "source_known _ = True"

fun side_known :: "order_side \<Rightarrow> bool" where
  "side_known (OtherSide t) = False"
| "side_known _ = True"

fun amount_kind_known :: "amount_kind \<Rightarrow> bool" where
  "amount_kind_known (OtherAmountKind t) = False"
| "amount_kind_known _ = True"

definition requireSource :: "source \<Rightarrow> ('z, unit) rop" where
  "requireSource c = lift_out (check (c = OtherSource []) (err_invalid ''source is required''))"

definition resolveAccountTx :: "account_id \<Rightarrow> ('z, unit) rop" where
  "resolveAccountTx code = require (\<lambda>s. code \<in> Account_Code ` set (R_Accounts s)) (err_invalid ''unknown account'')"

definition resolveAssetTx :: "string \<Rightarrow> ('z, unit) rop" where
  "resolveAssetTx code = require (\<lambda>s. code \<in> set (R_Assets s)) (err_invalid ''unknown asset'')"

definition resolveOptionalPrincipalID :: "string \<Rightarrow> ('z, unit) rop" where
  "resolveOptionalPrincipalID code =
     (if code = [] then ret ()
      else require (\<lambda>s. code \<in> set (R_Principals s)) (err_invalid ''unknown principal''))"

definition resolveSigningKeyID :: "string \<Rightarrow> ('z, unit) rop" where
  "resolveSigningKeyID key = require (\<lambda>s. key \<in> set (R_SigningKeys s)) (err_invalid ''signing key'')"

definition newExternalID :: "('z, string) rop" where
  "newExternalID = (\<lambda>s. case R_Fresh s of
       [] \<Rightarrow> (Inl (Text ''generate external id''), s)
     | i # is \<Rightarrow> (Inr i, s\<lparr>R_Fresh := is\<rparr>))"

definition externalIDForInsert :: "string \<Rightarrow> ('z, string) rop" where
  "externalIDForInsert x = (if x \<noteq> [] then ret x else newExternalID)"

definition modify_order :: "string \<Rightarrow> (order_detail \<Rightarrow> order_detail) \<Rightarrow> ('z, unit) rop" where
  "modify_order oid f = modify (\<lambda>s. s\<lparr>R_Orders := (R_Orders s)(oid := map_option f (R_Orders s oid))\<rparr>)"

definition modify_account :: "account_id \<Rightarrow> (account \<Rightarrow> account) \<Rightarrow> ('z, unit) rop" where
  "modify_account code f = modify (\<lambda>s. s\<lparr>R_Accounts :=
     map (\<lambda>a. if Account_Code a = code then f a else a) (R_Accounts s)\<rparr>)"

subsection \<open>Reports\<close>

definition insertExecutionReportTx :: "string option \<Rightarrow> ('z, string) rop" where
  "insertExecutionReportTx report = (case report of
       None \<Rightarrow> ret []
     | Some x \<Rightarrow> andthen (externalIDForInsert x) (\<lambda>xid s.
         if xid \<in> set (R_Reports s)
         then (Inl (Wrap ''execution report'' (Sentinel ErrAlreadyExists)), s)
         else (Inr xid, s\<lparr>R_Reports := R_Reports s @ [xid]\<rparr>)))"

definition stamp_report_id :: "string \<Rightarrow> order_event \<Rightarrow> order_event" where
  "stamp_report_id xid e = (case Payload_ExecutionReport (Event_Payload e) of
       None \<Rightarrow> e
     | Some r \<Rightarrow> if xid = [] then e
         else e\<lparr>Event_Payload := (Event_Payload e)
           \<lparr>Payload_ExecutionReport := Some (r\<lparr>Req_ExternalID := xid\<rparr>)\<rparr>\<rparr>)"

subsection \<open>Balances\<close>

definition settlementResultOrPrevious :: "string \<Rightarrow> string \<Rightarrow> string" where
  "settlementResultOrPrevious next_result prev = (if next_result \<noteq> [] then next_result else prev)"

definition settleOrZero :: "string \<Rightarrow> string" where
  "settleOrZero t = (if t = [] then ''0'' else t)"

definition nullablePnl :: "string \<Rightarrow> pnl_halt_reason \<Rightarrow> string" where
  "nullablePnl pnl halt = (if pnl = [] \<or> halt \<noteq> NoPnlHalt then [] else pnl)"

definition settlementPnlHaltReason :: "pnl_halt_reason \<Rightarrow> pnl_halt_reason \<Rightarrow> bool \<Rightarrow> pnl_halt_reason" where
  "settlementPnlHaltReason next_halt prev successful =
     (if next_halt \<noteq> NoPnlHalt then next_halt else if successful then NoPnlHalt else prev)"

definition decimalZeroOrEmpty :: "'d decimal_pkg \<Rightarrow> string \<Rightarrow> bool" where
  "decimalZeroOrEmpty D value =
     (if value = [] then True
      else case NewFromString D value of None \<Rightarrow> False | Some d \<Rightarrow> Coefficient D d = 0)"

definition balanceAmountsEmpty :: "'d decimal_pkg \<Rightarrow> balance \<Rightarrow> bool" where
  "balanceAmountsEmpty D b \<longleftrightarrow> decimalZeroOrEmpty D (Bal_Available b) \<and> decimalZeroOrEmpty D (Bal_Held b)
     \<and> decimalZeroOrEmpty D (Bal_Incoming b) \<and> decimalZeroOrEmpty D (Bal_RealizedPnl b)
     \<and> Bal_RealizedPnlHaltReason b = NoPnlHalt \<and> decimalZeroOrEmpty D (Bal_AverageEntryPrice b)"

definition empty_balance :: balance where
  "empty_balance = \<lparr> Bal_UpdatedAt = 0, Bal_Available = [], Bal_Held = [], Bal_Incoming = [],
     Bal_RealizedPnl = [], Bal_RealizedPnlHaltReason = NoPnlHalt, Bal_AverageEntryPrice = [],
     Bal_AccountCurrency = [], Bal_Asset = [], Bal_Account = [] \<rparr>"

definition settled_balance ::
  "'d decimal_pkg \<Rightarrow> account_id \<Rightarrow> go_time \<Rightarrow> balance_settlement \<Rightarrow> balance option \<Rightarrow> balance" where
  "settled_balance D acc now bal row =
     (let prev = (case row of None \<Rightarrow> empty_balance | Some b \<Rightarrow> b);
          res = BS_Outcome bal;
          available = settleOrZero (settlementResultOrPrevious (Out_BalanceResult res) (Bal_Available prev));
          held = settleOrZero (settlementResultOrPrevious (Out_HeldResult res) (Bal_Held prev));
          incoming = settleOrZero (settlementResultOrPrevious (Out_IncomingResult res) (Bal_Incoming prev));
          halt = settlementPnlHaltReason (Out_RealizedPnlHaltReason res)
            (Bal_RealizedPnlHaltReason prev) (Out_RealizedPnlResult res \<noteq> []);
          realized = (if halt \<noteq> NoPnlHalt then []
            else settlementResultOrPrevious (Out_RealizedPnlResult res) (Bal_RealizedPnl prev));
          closed = (decimalZeroOrEmpty D available \<and> decimalZeroOrEmpty D held
            \<and> decimalZeroOrEmpty D incoming);
          price = (if closed then []
            else settlementResultOrPrevious (Out_AverageEntryPrice res) (Bal_AverageEntryPrice prev))
      in \<lparr> Bal_UpdatedAt = now, Bal_Available = available, Bal_Held = held, Bal_Incoming = incoming,
           Bal_RealizedPnl = nullablePnl realized halt, Bal_RealizedPnlHaltReason = halt,
           Bal_AverageEntryPrice = price, Bal_AccountCurrency = [], Bal_Asset = BS_Asset bal,
           Bal_Account = acc \<rparr>)"

text \<open>The row after the write and the prune of an empty one.\<close>

definition settled_row ::
  "'d decimal_pkg \<Rightarrow> account_id \<Rightarrow> go_time \<Rightarrow> balance_settlement \<Rightarrow> balance option \<Rightarrow> balance option" where
  "settled_row D acc now bal row =
     (let b = settled_balance D acc now bal row in if balanceAmountsEmpty D b then None else Some b)"

definition settleBalanceTx :: "'d decimal_pkg \<Rightarrow> account_id \<Rightarrow> balance_settlement \<Rightarrow> ('z, unit) rop" where
  "settleBalanceTx D acc bal = andthen (resolveAssetTx (BS_Asset bal)) (\<lambda>_.
     modify (\<lambda>s. s\<lparr>R_Balances := (R_Balances s)((acc, BS_Asset bal) :=
       settled_row D acc (R_Now s) bal (R_Balances s (acc, BS_Asset bal)))\<rparr>))"

subsection \<open>Blocks, P\&L and trades\<close>

definition mirrored_block :: "(nat \<Rightarrow> bool) \<Rightarrow> account_block \<Rightarrow> account \<Rightarrow> account" where
  "mirrored_block pr b a =
     (if Account_Blocked a then a
      else a\<lparr>Account_Blocked := True, Account_BlockReason := NormalizeReason pr (Blk_Reason b),
        Account_BlockPolicy := NormalizeReason pr (Blk_Policy b), Account_BlockCode := Blk_Code b,
        Account_BlockDetails := NormalizeReason pr (Blk_Details b)\<rparr>)"

definition mirrorBlockTx :: "(nat \<Rightarrow> bool) \<Rightarrow> account_block \<Rightarrow> ('z, unit) rop" where
  "mirrorBlockTx pr b = andthen (resolveAccountTx (Blk_Account b)) (\<lambda>_.
     modify_account (Blk_Account b) (mirrored_block pr b))"

definition settleAccountPnlTx :: "account_id \<Rightarrow> string \<Rightarrow> pnl_halt_reason \<Rightarrow> ('z, unit) rop" where
  "settleAccountPnlTx acc pnl halt =
     (if halt \<noteq> NoPnlHalt \<or> pnl \<noteq> []
      then modify_account acc (\<lambda>a. a\<lparr>Account_Pnl := (if halt = NoPnlHalt then pnl else []),
        Account_PnlHaltReason := halt\<rparr>)
      else ret ())"

definition commissionAmount :: "commission option \<Rightarrow> string" where
  "commissionAmount c = (case c of None \<Rightarrow> [] | Some x \<Rightarrow> Commission_Amount x)"

definition commissionCurrency :: "commission option \<Rightarrow> string" where
  "commissionCurrency c = (case c of None \<Rightarrow> [] | Some x \<Rightarrow> Commission_Currency x)"

definition validateCommission :: "'d decimal_pkg \<Rightarrow> commission option \<Rightarrow> go_error option" where
  "validateCommission D c = first_err
     [check ((commissionAmount c = []) \<noteq> (commissionCurrency c = []))
        (err_invalid ''store: commission requires both amount and currency''),
      check (commissionAmount c \<noteq> [] \<and> NewFromString D (commissionAmount c) = None)
        (err_invalid ''store: commission amount is not a valid decimal'')]"

text \<open>The order row of a transaction, which the pool's only connection holds.\<close>

definition lookupOrderTx :: "string \<Rightarrow> ('z, unit) rop" where
  "lookupOrderTx oid = require (\<lambda>s. R_Orders s oid \<noteq> None) (err_not_found ''order'')"

definition insertTrade :: "'d decimal_pkg \<Rightarrow> trade \<Rightarrow> ('z, unit) rop" where
  "insertTrade D t =
     andthen (requireSource (Trade_Source t)) (\<lambda>_.
     andthen (lift_out (validateCommission D (Trade_Commission t))) (\<lambda>_.
     andthen (lookupOrderTx (Trade_Order t)) (\<lambda>_.
     andthen (resolveAccountTx (Trade_Account t)) (\<lambda>_.
     andthen (resolveAssetTx (Trade_BaseAsset t)) (\<lambda>_.
     andthen (resolveAssetTx (Trade_QuoteAsset t)) (\<lambda>_.
     andthen (resolveOptionalPrincipalID (Trade_Principal t)) (\<lambda>_.
     andthen (known (source_known (Trade_Source t))) (\<lambda>_.
     andthen (known (side_known (Trade_Side t))) (\<lambda>_.
     andthen newExternalID (\<lambda>xid.
     andthen (gets R_Now) (\<lambda>now.
     modify_order (Trade_Order t) (\<lambda>d. d\<lparr>Det_Trades := Det_Trades d
       @ [t\<lparr>Trade_ExternalID := xid, Trade_At := now\<rparr>]\<rparr>))))))))))))"

subsection \<open>Events and attestations\<close>

definition stored_event :: "string \<Rightarrow> string \<Rightarrow> go_time \<Rightarrow> order_event \<Rightarrow> order_event" where
  "stored_event oid xid now ev = ev\<lparr>Event_ExternalID := xid, Event_At := now, Event_Order := oid,
     Event_Attestation := None\<rparr>"

definition appendOrderEventReturningTx :: "string \<Rightarrow> order_event \<Rightarrow> ('z, order_event) rop" where
  "appendOrderEventReturningTx oid ev =
     andthen (requireSource (Event_Source ev)) (\<lambda>_.
     andthen (resolveOptionalPrincipalID (Event_Principal ev)) (\<lambda>_.
     andthen (known (source_known (Event_Source ev))) (\<lambda>_.
     andthen newExternalID (\<lambda>xid.
     andthen (gets R_Now) (\<lambda>now.
     andthen (modify_order oid (\<lambda>d. d\<lparr>Det_Events := Det_Events d @ [stored_event oid xid now ev]\<rparr>)) (\<lambda>_.
     ret (ev\<lparr>Event_ExternalID := xid, Event_At := now\<rparr>)))))))"

definition attest_event :: "string \<Rightarrow> event_attestation \<Rightarrow> order_event \<Rightarrow> order_event" where
  "attest_event xid att ev = (if Event_ExternalID ev = xid \<and> Event_Attestation ev = None
     then ev\<lparr>Event_Attestation := Some att\<rparr> else ev)"

text \<open>The event is looked up among the events of its order; the insert ignores a conflict, so the
  first attestation stays.\<close>

definition putEventAttestationTx :: "string \<Rightarrow> string \<Rightarrow> event_attestation \<Rightarrow> ('z, unit) rop" where
  "putEventAttestationTx oid xid att =
     andthen (require (\<lambda>s. case R_Orders s oid of None \<Rightarrow> False
        | Some d \<Rightarrow> xid \<in> Event_ExternalID ` set (Det_Events d)) (err_not_found ''order event'')) (\<lambda>_.
     andthen (if Att_KeyID att \<noteq> [] then resolveSigningKeyID (Att_KeyID att) else ret ()) (\<lambda>_.
     andthen (known (Att_Alg att \<in> {''ed25519'', ''none''})) (\<lambda>_.
     andthen (known (Att_RequestType att \<in> {''submit'', ''execution_report'', ''confirm'', ''cancel''})) (\<lambda>_.
     andthen (known (Att_Mode att \<in> {''immediate'', ''hold''})) (\<lambda>_.
     modify_order oid (\<lambda>d. d\<lparr>Det_Events := map (attest_event xid att) (Det_Events d)\<rparr>))))))"

definition attestOrderEventTx :: "string \<Rightarrow> attestor \<Rightarrow> order_event \<Rightarrow> ('z, unit) rop" where
  "attestOrderEventTx oid attest ev = (case attest of
       None \<Rightarrow> ret ()
     | Some sign \<Rightarrow> andthen (lift_res (sign ev)) (\<lambda>answer. case answer of
         None \<Rightarrow> raise (err_invalid ''store: event has no attestation payload'')
       | Some att \<Rightarrow> putEventAttestationTx oid (Event_ExternalID ev) att))"

definition recordEventTx :: "string \<Rightarrow> attestor \<Rightarrow> string \<Rightarrow> order_event \<Rightarrow> ('z, unit) rop" where
  "recordEventTx oid attest xid ev =
     andthen (appendOrderEventReturningTx oid (stamp_report_id xid ev)) (\<lambda>recorded.
     attestOrderEventTx oid attest recorded)"

subsection \<open>The transaction\<close>

definition guardedOrderStatus ::
  "string \<Rightarrow> order_status \<Rightarrow> order_status list \<Rightarrow> ('z, unit) rop" where
  "guardedOrderStatus oid status allowedFrom =
     andthen (known (OrderStatusSupported status)) (\<lambda>_.
     andthen (known (list_all OrderStatusSupported allowedFrom)) (\<lambda>_ s.
     case R_Orders s oid of
       None \<Rightarrow> (Inl (err_not_found ''order''), s)
     | Some d \<Rightarrow>
         if allowedFrom \<noteq> [] \<and> Order_Status (Det_Order d) \<notin> set allowedFrom
         then (Inl (Wrap ''store: resolve order status'' (Sentinel ErrConflict)), s)
         else modify_order oid (\<lambda>d. d\<lparr>Det_Order := (Det_Order d)\<lparr>Order_Status := status\<rparr>\<rparr>) s))"

text \<open>The lock, the leaves and the reservation of the order row.\<close>

definition settleOrderRowTx :: "'d decimal_pkg \<Rightarrow> settlement \<Rightarrow> ('z, unit) rop" where
  "settleOrderRowTx D st =
     andthen (if Set_SetLock st then modify_order (Set_Order st)
         (\<lambda>d. d\<lparr>Det_Order := (Det_Order d)\<lparr>Order_Lock := Set_Lock st\<rparr>\<rparr>) else ret ()) (\<lambda>_.
     andthen (if Set_Leaves st \<noteq> [] then modify_order (Set_Order st)
         (\<lambda>d. d\<lparr>Det_Order := (Det_Order d)\<lparr>Order_Leaves := Set_Leaves st\<rparr>\<rparr>) else ret ()) (\<lambda>_.
     if Set_ReservedQuantity st \<noteq> []
     then andthen (lift_out (map_option (Wrap ''store: settlement reservation'')
         (err_of (ParseOpenQuantity D (Set_ReservedQuantity st))))) (\<lambda>_.
       modify_order (Set_Order st)
         (\<lambda>d. d\<lparr>Det_Order := (Det_Order d)\<lparr>Order_ReservedQuantity := Set_ReservedQuantity st\<rparr>\<rparr>))
     else ret ()))"

definition recordOrderSettlementTx ::
  "'d decimal_pkg \<Rightarrow> (nat \<Rightarrow> bool) \<Rightarrow> attestor \<Rightarrow> settlement \<Rightarrow> ('z, string) rop" where
  "recordOrderSettlementTx D pr attest st =
     andthen (lift_out (check (Set_Order st = []) (err_invalid ''store: settlement order is required'')))
       (\<lambda>_.
     andthen (resolveAccountTx (Set_Account st)) (\<lambda>_.
     andthen (lookupOrderTx (Set_Order st)) (\<lambda>_.
     andthen (lift_out (first_err
       [check (attest \<noteq> None \<and> Set_Events st = [])
          (err_invalid ''store: settlement has no event to attest''),
        check (Set_ReportID st \<noteq> None \<and> Set_Events st = [])
          (err_invalid ''store: execution report has no events''),
        if Set_AccountPnl st \<noteq> [] then map_option (Wrap ''store: settlement account pnl'')
          (err_of (AddDecimals D [] (Set_AccountPnl st))) else None])) (\<lambda>_.
     andthen (insertExecutionReportTx (Set_ReportID st)) (\<lambda>xid.
     andthen (settleAccountPnlTx (Set_Account st) (Set_AccountPnl st) (Set_AccountPnlHaltReason st)) (\<lambda>_.
     andthen (each (settleBalanceTx D (Set_Account st)) (Set_Balances st)) (\<lambda>_.
     andthen (each (mirrorBlockTx pr) (Set_Blocks st)) (\<lambda>_.
     andthen (case Set_Trade st of None \<Rightarrow> ret () | Some t \<Rightarrow> insertTrade D t) (\<lambda>_.
     andthen (each (recordEventTx (Set_Order st) attest xid) (Set_Events st)) (\<lambda>_.
     andthen (settleOrderRowTx D st) (\<lambda>_.
     andthen (guardedOrderStatus (Set_Order st) (Set_OrderStatus st) (Set_AllowedFrom st)) (\<lambda>_.
     ret xid))))))))))))"

text \<open>A transaction that fails leaves the state it found.\<close>

definition atomic :: "('z, 'a) rop \<Rightarrow> ('z, 'a) rop" where
  "atomic m s = (case m s of (Inl e, t) \<Rightarrow> (Inl e, s) | (Inr a, t) \<Rightarrow> (Inr a, t))"

definition RecordOrderSettlement ::
  "'d decimal_pkg \<Rightarrow> (nat \<Rightarrow> bool) \<Rightarrow> attestor \<Rightarrow> settlement \<Rightarrow> ('z, string) rop" where
  "RecordOrderSettlement D pr attest st = store_call (atomic (recordOrderSettlementTx D pr attest st))"

end
