(* ===== verification/OrderStore.thy ===== *)
theory OrderStore
  imports Settlement
begin

section \<open>Writing orders\<close>

text \<open>
  The order statements of \<^verbatim>\<open>internal/store/sqlite/orders.go\<close> beside the settlement: an order and
  its first event, the submission transaction that creates an order and settles the engine's
  answer to it, and the single writes of a status, a lock, an event and a trade.
\<close>

text \<open>The row keeps no commission subtotals: a read derives them.\<close>

definition stored_order :: "string \<Rightarrow> go_time \<Rightarrow> order \<Rightarrow> order" where
  "stored_order xid now oi = oi\<lparr>Order_ExternalID := xid, Order_At := now, Order_CommissionSubtotals := []\<rparr>"

definition insert_order :: "string \<Rightarrow> order \<Rightarrow> ('z, order) rop" where
  "insert_order xid oi s =
     (if R_Orders s xid \<noteq> None then (Inl (Wrap ''order'' (Sentinel ErrAlreadyExists)), s)
      else (Inr (oi\<lparr>Order_ExternalID := xid, Order_At := R_Now s\<rparr>),
        s\<lparr>R_Orders := (R_Orders s)(xid \<mapsto> \<lparr> Det_Order = stored_order xid (R_Now s) oi,
          Det_Events = [], Det_Trades = [] \<rparr>)\<rparr>))"

definition createOrderTx :: "order \<Rightarrow> ('z, order) rop" where
  "createOrderTx oi =
     andthen (requireSource (Order_Source oi)) (\<lambda>_.
     andthen (resolveAccountTx (Order_Account oi)) (\<lambda>_.
     andthen (resolveAssetTx (Order_BaseAsset oi)) (\<lambda>_.
     andthen (resolveAssetTx (Order_QuoteAsset oi)) (\<lambda>_.
     andthen (resolveOptionalPrincipalID (Order_Principal oi)) (\<lambda>_.
     andthen (known (source_known (Order_Source oi))) (\<lambda>_.
     andthen (known (side_known (Order_Side oi))) (\<lambda>_.
     andthen (known (amount_kind_known (Order_AmountKind oi))) (\<lambda>_.
     andthen (known (OrderStatusSupported (Order_Status oi))) (\<lambda>_.
     andthen (externalIDForInsert (Order_ExternalID oi)) (\<lambda>xid.
     insert_order xid oi))))))))))"

definition CreateOrder :: "order \<Rightarrow> ('z, order) rop" where
  "CreateOrder oi = store_call (atomic (createOrderTx oi))"

subsection \<open>The submission transaction\<close>

text \<open>The draft and its submitted event, as the transaction writes them before it asks for the
  settlement.\<close>

definition open_submission :: "order \<Rightarrow> order_event \<Rightarrow> ('z, order \<times> order_event) rop" where
  "open_submission draft submitted =
     andthen (createOrderTx draft) (\<lambda>oi.
     andthen (lookupOrderTx (Order_ExternalID oi)) (\<lambda>_.
     andthen (appendOrderEventReturningTx (Order_ExternalID oi)
       (if Event_Order submitted = [] then submitted\<lparr>Event_Order := Order_ExternalID oi\<rparr> else submitted))
       (\<lambda>recorded. ret (oi, recorded))))"

definition submission_settlement :: "order \<Rightarrow> settlement \<Rightarrow> settlement" where
  "submission_settlement oi st = st
     \<lparr> Set_Order := (if Set_Order st = [] then Order_ExternalID oi else Set_Order st),
       Set_Account := (if Set_Account st = [] then Order_Account oi else Set_Account st) \<rparr>"

text \<open>The order that the transaction returns, with the values of the settlement.\<close>

definition submitted_order :: "settlement \<Rightarrow> order \<Rightarrow> order" where
  "submitted_order st oi = oi
     \<lparr> Order_Status := Set_OrderStatus st, Order_Lock := Set_Lock st,
       Order_Leaves := (if Set_Leaves st \<noteq> [] then Set_Leaves st else Order_Leaves oi),
       Order_ReservedQuantity := (if Set_ReservedQuantity st \<noteq> [] then Set_ReservedQuantity st
         else Order_ReservedQuantity oi) \<rparr>"

definition recordOrderSubmissionTx ::
  "'d decimal_pkg \<Rightarrow> (nat \<Rightarrow> bool) \<Rightarrow> attestor \<Rightarrow> order \<Rightarrow> order_event
     \<Rightarrow> (order \<Rightarrow> go_error + settlement) \<Rightarrow> ('z, order \<times> string) rop" where
  "recordOrderSubmissionTx D pr attest draft submitted apply_settlement =
     andthen (open_submission draft submitted) (\<lambda>(oi, recorded).
     andthen (lift_res (apply_settlement oi)) (\<lambda>answer.
     andthen (attestOrderEventTx (Order_ExternalID oi) attest recorded) (\<lambda>_.
     (let st = submission_settlement oi answer
      in andthen (recordOrderSettlementTx D pr attest st) (\<lambda>reportID.
         ret (submitted_order st oi, reportID))))))"

definition RecordOrderSubmission ::
  "'d decimal_pkg \<Rightarrow> (nat \<Rightarrow> bool) \<Rightarrow> attestor \<Rightarrow> order \<Rightarrow> order_event
     \<Rightarrow> (order \<Rightarrow> go_error + settlement) \<Rightarrow> ('z, order \<times> string) rop" where
  "RecordOrderSubmission D pr attest draft submitted apply_settlement =
     store_call (atomic (recordOrderSubmissionTx D pr attest draft submitted apply_settlement))"

subsection \<open>Single writes\<close>

definition require_order :: "string \<Rightarrow> ('z, unit) rop \<Rightarrow> ('z, unit) rop" where
  "require_order oid m = andthen (lookupOrderTx oid) (\<lambda>_. m)"

definition UpdateOrderStatus :: "string \<Rightarrow> order_status \<Rightarrow> ('z, unit) rop" where
  "UpdateOrderStatus oid status = store_call
     (andthen (known (OrderStatusSupported status)) (\<lambda>_.
      require_order oid (modify_order oid (\<lambda>d. d\<lparr>Det_Order := (Det_Order d)\<lparr>Order_Status := status\<rparr>\<rparr>))))"

definition SetOrderLock :: "string \<Rightarrow> string \<Rightarrow> ('z, unit) rop" where
  "SetOrderLock oid lock = store_call
     (require_order oid (modify_order oid (\<lambda>d. d\<lparr>Det_Order := (Det_Order d)\<lparr>Order_Lock := lock\<rparr>\<rparr>)))"

definition AppendOrderEvent :: "order_event \<Rightarrow> ('z, order_event) rop" where
  "AppendOrderEvent ev = store_call (atomic
     (andthen (requireSource (Event_Source ev)) (\<lambda>_.
      andthen (lookupOrderTx (Event_Order ev)) (\<lambda>_.
      andthen (known (source_known (Event_Source ev))) (\<lambda>_.
      andthen (resolveOptionalPrincipalID (Event_Principal ev)) (\<lambda>_.
      andthen newExternalID (\<lambda>xid.
      andthen (gets R_Now) (\<lambda>now.
      andthen (modify_order (Event_Order ev) (\<lambda>d. d\<lparr>Det_Events := Det_Events d
        @ [stored_event (Event_Order ev) xid now ev]\<rparr>)) (\<lambda>_.
      ret (ev\<lparr>Event_ExternalID := xid, Event_At := now\<rparr>))))))))))"

definition ListOrderEvents :: "string \<Rightarrow> ('z, order_event list) rop" where
  "ListOrderEvents oid = store_call (gets (\<lambda>s.
     case R_Orders s oid of None \<Rightarrow> [] | Some d \<Rightarrow> Det_Events d))"

definition CreateTrade :: "'d decimal_pkg \<Rightarrow> trade \<Rightarrow> ('z, unit) rop" where
  "CreateTrade D t = store_call (atomic (insertTrade D t))"

end
