(* ===== verification/ReportPipeline.thy ===== *)
theory ReportPipeline
  imports Settlement
begin

section \<open>Execution reports\<close>

text \<open>
  How an execution report reaches the store: \<^verbatim>\<open>framework/node/local_execution.go\<close> with the
  event and trade assembly of \<^verbatim>\<open>engine/mapping.go\<close>. An account chain runs its steps in order and
  ends at the first error; the engine's part of it is a parameter. Publishing a new account or
  asset to the engine, entering the account's lane and resolving its engine id are statements
  without an effect, which may fail.
\<close>

text \<open>
  What the engine made of a report: the movements of balances, the account's P\&L and the account
  blocks, with assets and accounts named by their codes. An answer that does not translate back
  is an error after the fact.
\<close>

record report_outcome =
  Ro_Balances :: "balance_settlement list"
  Ro_Blocks :: "account_block list"
  Ro_AccountPnl :: string
  Ro_AccountPnlHaltReason :: pnl_halt_reason

text \<open>What lies outside the realm store: the engine, the attestor that the service layer gives a
  report, and the table of printable characters.\<close>

record engine_settle =
  E_Report :: "execution_report_input \<Rightarrow> string \<Rightarrow> go_error + (go_error + report_outcome)"
  E_Attest :: "caller \<Rightarrow> execution_report_input \<Rightarrow> attestor"
  E_Print :: "nat \<Rightarrow> bool"

record persistence =
  Per_Trade :: "trade option"
  Per_Commission :: "commission option"
  Per_OrderStatus :: order_status
  Per_AccountPnl :: string
  Per_AccountPnlHaltReason :: pnl_halt_reason
  Per_Leaves :: string
  Per_Balances :: "balance_settlement list"
  Per_Events :: "order_event list"
  Per_Blocks :: "account_block list"

subsection \<open>Events and trade of a settled report\<close>

definition empty_payload :: order_event_payload where
  "empty_payload = \<lparr> Payload_RejectCode = [], Payload_RejectScope = [], Payload_RejectPolicy = [],
     Payload_RejectReason = [], Payload_RejectDetails = [], Payload_Rejects = [],
     Payload_FillQuantity = [], Payload_FillPrice = [], Payload_FillLockPrice = [],
     Payload_LeavesQuantity = [], Payload_OrderStatus = [], Payload_Commission = None,
     Payload_ExecutionReport = None \<rparr>"

definition new_event :: "string \<Rightarrow> order_event_type \<Rightarrow> order_event_payload \<Rightarrow> order_event" where
  "new_event oid ty p = \<lparr> Event_At = 0, Event_ExternalID = [], Event_Order = oid,
     Event_Attestation = None, Event_Payload = p, Event_Principal = [],
     Event_Source = OtherSource [], Event_Type = ty \<rparr>"

definition executionReportPersistenceFrom ::
  "execution_report_input \<Rightarrow> report_outcome \<Rightarrow> persistence" where
  "executionReportPersistenceFrom i outcome =
     (let payload = empty_payload
            \<lparr> Payload_FillQuantity := In_FillQuantity i, Payload_FillPrice := In_FillPrice i,
              Payload_FillLockPrice := In_LockPrice i,
              Payload_LeavesQuantity := In_LeavesQuantity i,
              Payload_OrderStatus := status_text (In_OrderStatus i),
              Payload_Commission := In_Commission i \<rparr>;
          hasFill = (In_FillQuantity i \<noteq> [] \<and> In_FillPrice i \<noteq> []);
          first = (if hasFill then [new_event (In_Order i) OrderEventFill payload]
                   else if In_Commission i \<noteq> None
                   then [new_event (In_Order i) OrderEventCommission payload] else []);
          status = (case ExecutionReportStatusChangeEvent (In_OrderStatus i) of
              None \<Rightarrow> [] | Some ty \<Rightarrow> [new_event (In_Order i) ty payload]);
          trade = (if hasFill
            then Some \<lparr> Trade_At = 0, Trade_ExternalID = [], Trade_Order = In_Order i,
              Trade_Quantity = In_FillQuantity i, Trade_Price = In_FillPrice i,
              Trade_LockPrice = In_LockPrice i, Trade_Commission = In_Commission i,
              Trade_Principal = [], Trade_BaseAsset = In_BaseAsset i,
              Trade_QuoteAsset = In_QuoteAsset i, Trade_Account = In_Account i,
              Trade_Source = OtherSource [], Trade_Side = In_Side i \<rparr>
            else None)
      in \<lparr> Per_Trade = trade, Per_Commission = In_Commission i, Per_OrderStatus = In_OrderStatus i,
           Per_AccountPnl = Ro_AccountPnl outcome,
           Per_AccountPnlHaltReason = Ro_AccountPnlHaltReason outcome,
           Per_Leaves = In_LeavesQuantity i, Per_Balances = Ro_Balances outcome,
           Per_Events = first @ status, Per_Blocks = Ro_Blocks outcome \<rparr>)"

text \<open>The report with every field at its zero value.\<close>

definition empty_report :: execution_report_input where
  "empty_report = \<lparr> In_ExternalID = [], In_BaseAsset = [], In_QuoteAsset = [], In_FillQuantity = [],
     In_FillPrice = [], In_LeavesQuantity = [], In_LockPrice = [], In_Lock = [],
     In_Commission = None, In_Order = [], In_Account = [], In_Side = OtherSide [],
     In_OrderStatus = NoOrderStatus, In_Force = False \<rparr>"

definition stamp_event ::
  "caller \<Rightarrow> execution_report_request \<Rightarrow> order_event \<Rightarrow> order_event" where
  "stamp_event c r e = e \<lparr> Event_Source := Caller_Source c, Event_Principal := Caller_Principal c,
     Event_Payload := (Event_Payload e)
       \<lparr> Payload_ExecutionReport := Some r, Payload_FillQuantity := Req_FillQuantity r,
         Payload_FillPrice := Req_FillPrice r, Payload_FillLockPrice := Req_LockPrice r,
         Payload_LeavesQuantity := Req_LeavesQuantity r,
         Payload_OrderStatus := status_text (Req_OrderStatus r),
         Payload_Commission := Req_Commission r \<rparr> \<rparr>"

definition stampExecutionReportPersistence ::
  "persistence \<Rightarrow> caller \<Rightarrow> execution_report_request \<Rightarrow> persistence" where
  "stampExecutionReportPersistence p c r = p
     \<lparr> Per_Commission := Req_Commission r, Per_Events := map (stamp_event c r) (Per_Events p),
       Per_Trade := map_option
         (\<lambda>t. t \<lparr> Trade_Source := Caller_Source c, Trade_Principal := Caller_Principal c \<rparr>)
         (Per_Trade p) \<rparr>"

subsection \<open>The reservation of an order\<close>

definition executionReservedQuantity ::
  "'d decimal_pkg \<Rightarrow> execution_report_input \<Rightarrow> order_detail \<Rightarrow> go_error + string" where
  "executionReservedQuantity D i detail =
     (case ParseOpenQuantity D (Order_ReservedQuantity (Det_Order detail)) of
        Inl e \<Rightarrow> Inl (Wrap ''stored order reservation'' e)
      | Inr reserved \<Rightarrow>
          if In_FillQuantity i \<noteq> [] \<and> In_FillPrice i \<noteq> [] then
            (case ParseOpenQuantity D (In_FillQuantity i) of
               Inl e \<Rightarrow> Inl (Wrap2 (Wrap ''execution report fill quantity'' e) (Sentinel ErrInvalid))
             | Inr filled \<Rightarrow>
                 (let rest = SubDec D reserved filled
                  in if dec_negative D rest then Inr ''0'' else Inr (DecString D rest)))
          else Inr (DecString D reserved))"

fun reservation_deltas ::
  "'d decimal_pkg \<Rightarrow> order \<Rightarrow> 'd \<Rightarrow> balance_settlement list \<Rightarrow> go_error + 'd" where
  "reservation_deltas D oi reserved [] = Inr reserved"
| "reservation_deltas D oi reserved (b # bs) =
     (if BS_Asset b \<noteq> Order_BaseAsset oi then reservation_deltas D oi reserved bs
      else
        res_bind (case Order_Side oi of
            OrderSideBuy \<Rightarrow> Inr (Out_IncomingDelta (BS_Outcome b))
          | OrderSideSell \<Rightarrow> Inr (Out_HeldDelta (BS_Outcome b))
          | OtherSide s \<Rightarrow> Inl (Text ''order has unsupported side''))
          (\<lambda>value. if value = [] then reservation_deltas D oi reserved bs
            else (case NewFromString D value of
                None \<Rightarrow> Inl (Wrap ''order reservation delta'' (Text ''decimal''))
              | Some delta \<Rightarrow> reservation_deltas D oi (AddDec D reserved delta) bs)))"

definition reservationAfterOutcomes ::
  "'d decimal_pkg \<Rightarrow> order \<Rightarrow> balance_settlement list \<Rightarrow> go_error + string" where
  "reservationAfterOutcomes D oi balances =
     (case ParseOpenQuantity D (Order_ReservedQuantity oi) of
        Inl e \<Rightarrow> Inl (Wrap ''stored order reservation'' e)
      | Inr reserved \<Rightarrow> res_bind (reservation_deltas D oi reserved balances)
          (\<lambda>rest. if dec_negative D rest then Inr ''0'' else Inr (DecString D rest)))"

definition executionReportOverFilled ::
  "'d decimal_pkg \<Rightarrow> execution_report_input \<Rightarrow> order_detail \<Rightarrow> bool" where
  "executionReportOverFilled D i detail =
     (if In_FillQuantity i = [] \<or> Order_ReservedQuantity (Det_Order detail) = [] then False
      else case ParseOpenQuantity D (In_FillQuantity i) of
        Inl e \<Rightarrow> False
      | Inr filled \<Rightarrow>
          (case ParseOpenQuantity D (Order_ReservedQuantity (Det_Order detail)) of
             Inl e \<Rightarrow> False
           | Inr recorded \<Rightarrow> dec_gt D filled recorded))"

subsection \<open>The node's report operation\<close>

definition auditNode :: "audit_action \<Rightarrow> account_id \<Rightarrow> ('z, unit) rop" where
  "auditNode action a = store_call (modify (\<lambda>s. s\<lparr>R_Audit := R_Audit s @ [(action, a)]\<rparr>))"

abbreviation auditReport :: "account_id \<Rightarrow> ('z, unit) rop" where
  "auditReport \<equiv> auditNode AuditActionExecutionReport"

definition mirrorEngineBlocksAudit :: "account_block list \<Rightarrow> ('z, unit) rop" where
  "mirrorEngineBlocksAudit = each (\<lambda>b. auditNode AuditActionBlock (Blk_Account b))"

definition fatalPost :: "go_error \<Rightarrow> ('z, 'a) rop" where
  "fatalPost e = andthen (modify (\<lambda>s. s\<lparr>R_Fatal := True\<rparr>))
     (\<lambda>_. raise (internalPostCommitNodeMutationError e))"

definition requireExecutionReportIDAvailable :: "string \<Rightarrow> ('z, unit) rop" where
  "requireExecutionReportIDAvailable x =
     (if x = [] then ret ()
      else handle (ExecutionReportExists x) (\<lambda>e. raise (Wrap ''check execution report id'' e))
        (\<lambda>exists. if exists then raise (Wrap ''execution report'' (Sentinel ErrAlreadyExists))
          else ret ()))"

text \<open>A step outside the modelled state, such as publishing an id to the engine: it may fail.\<close>

definition outside :: "('z, unit) rop" where
  "outside = store_call (ret ())"

subsection \<open>Missing accounts and assets\<close>

definition read_account :: "account_id \<Rightarrow> ('z, account option) rop" where
  "read_account code = store_call (gets (\<lambda>s. List.find (\<lambda>a. Account_Code a = code) (R_Accounts s)))"

definition read_asset :: "string \<Rightarrow> ('z, bool) rop" where
  "read_asset code = store_call (gets (\<lambda>s. code \<in> set (R_Assets s)))"

definition insert_account :: "account \<Rightarrow> ('z, unit) rop" where
  "insert_account a = store_call (\<lambda>s.
     if Account_Code a \<in> Account_Code ` set (R_Accounts s)
     then (Inl (Wrap ''account'' (Sentinel ErrAlreadyExists)), s)
     else (Inr (), s\<lparr>R_Accounts := R_Accounts s @ [a]\<rparr>))"

definition insert_asset :: "string \<Rightarrow> ('z, unit) rop" where
  "insert_asset code = store_call (\<lambda>s.
     if code \<in> set (R_Assets s) then (Inl (Wrap ''asset'' (Sentinel ErrAlreadyExists)), s)
     else (Inr (), s\<lparr>R_Assets := R_Assets s @ [code]\<rparr>))"

text \<open>A publication that failed is rolled back, or the engine is rebuilt and the node stops.\<close>

definition rollback_creation :: "('z, unit) rop \<Rightarrow> go_error \<Rightarrow> ('z, unit) rop" where
  "rollback_creation delete cause = handle delete
     (\<lambda>e. handle outside (\<lambda>e'. fatalPost (Wrap2 cause (Wrap2 (Wrap ''rollback auto-created'' e) e')))
        (\<lambda>_. fatalPost (Wrap2 cause (Wrap ''rollback auto-created'' e))))
     (\<lambda>_. raise (internalPostCommitNodeMutationError cause))"

definition registerAccount :: "(nat \<Rightarrow> bool) \<Rightarrow> caller \<Rightarrow> account_id \<Rightarrow> ('z, unit) rop" where
  "registerAccount pr c code =
     handle (read_account code) (\<lambda>e. raise (Wrap ''read account'' e)) (\<lambda>found.
     if found \<noteq> None then ret ()
     else andthen (lift_out (ValidateAccountID pr code)) (\<lambda>_.
       andthen (lift_out (guardTightenOnlyAccountCreation c)) (\<lambda>_.
       handle (insert_account (zero_account code))
         (\<lambda>e. if wraps e ErrAlreadyExists then ret () else raise (Wrap ''create account'' e))
         (\<lambda>_. handle outside
            (\<lambda>e. rollback_creation (store_call (modify (\<lambda>s. s\<lparr>R_Accounts :=
                filter (\<lambda>a. Account_Code a \<noteq> code) (R_Accounts s)\<rparr>)))
              (Wrap ''publish auto-created account'' e))
            (\<lambda>_. handle (auditNode AuditActionCreateAccount code)
               (\<lambda>e. fatalPost (Wrap ''audit create account'' e)) ret)))))"

definition registerAsset :: "(nat \<Rightarrow> bool) \<Rightarrow> string \<Rightarrow> ('z, unit) rop" where
  "registerAsset pr code =
     handle (read_asset code) (\<lambda>e. raise (Wrap ''read asset'' e)) (\<lambda>found.
     if found then ret ()
     else andthen (lift_out (ValidateAsset pr code)) (\<lambda>_.
       andthen (handle outside (\<lambda>e. if wraps e ErrAlreadyExists then ret ()
           else raise (Wrap ''create auto-created asset class'' e)) ret) (\<lambda>_.
       handle (insert_asset code)
         (\<lambda>e. if wraps e ErrAlreadyExists then ret () else raise (Wrap ''create auto-created asset'' e))
         (\<lambda>_. handle outside
            (\<lambda>e. rollback_creation (store_call (modify (\<lambda>s. s\<lparr>R_Assets :=
                filter (\<lambda>a. a \<noteq> code) (R_Assets s)\<rparr>)))
              (Wrap ''publish auto-created asset'' e))
            (\<lambda>_. handle (auditNode AuditActionCreateAsset [])
               (\<lambda>e. fatalPost (Wrap ''audit auto-created asset'' e)) ret)))))"

definition ensureAccountRegistered ::
  "(nat \<Rightarrow> bool) \<Rightarrow> caller \<Rightarrow> missing_account_policy \<Rightarrow> account_id \<Rightarrow> ('z, unit) rop" where
  "ensureAccountRegistered pr c missing code =
     andthen (lift_out (ValidateAccountID pr code)) (\<lambda>_. case missing of
       MissingAccountCreate \<Rightarrow> registerAccount pr c code
     | MissingAccountReject \<Rightarrow>
         handle (read_account code) (\<lambda>e. raise (Wrap ''read account'' e))
           (\<lambda>found. if found = None then raise (AccountMissingError code) else ret ())
     | _ \<Rightarrow> lift_out (ValidateMissingAccountPolicy missing))"

text \<open>The codes a registration has to look at, and whether one of them is missing.\<close>

fun missing_asset :: "string list \<Rightarrow> ('z, bool) rop" where
  "missing_asset [] = ret False"
| "missing_asset (code # codes) =
     (if code = [] then missing_asset codes
      else handle (read_asset code) (\<lambda>e. raise (Wrap ''read asset for auto-create check'' e))
        (\<lambda>found. andthen (missing_asset codes) (\<lambda>rest. ret (\<not> found \<or> rest))))"

definition ensureAccountAndAssetsRegisteredExclusive ::
  "(nat \<Rightarrow> bool) \<Rightarrow> caller \<Rightarrow> missing_account_policy \<Rightarrow> account_id \<Rightarrow> string list \<Rightarrow> ('z, unit) rop" where
  "ensureAccountAndAssetsRegisteredExclusive pr c missing code assets =
     andthen (lift_out (ValidateMissingAccountPolicy missing)) (\<lambda>_.
     andthen (lift_out (ValidateAccountID pr code)) (\<lambda>_.
     handle (read_account code) (\<lambda>e. raise (Wrap ''read account for auto-create check'' e)) (\<lambda>found.
     if found = None \<and> missing = MissingAccountReject then raise (AccountMissingError code)
     else andthen (missing_asset assets) (\<lambda>absent.
       if found \<noteq> None \<and> \<not> absent then ret ()
       else andthen outside (\<lambda>_.
         andthen (ensureAccountRegistered pr c missing code) (\<lambda>_.
         each (\<lambda>a. if a = [] then ret () else registerAsset pr a) assets))))))"

subsection \<open>The report operation\<close>

definition requireUnmanaged :: "caller \<Rightarrow> string \<Rightarrow> ('z, unit) rop" where
  "requireUnmanaged c oid =
     (if Caller_Source c \<noteq> SourceSystem then requireNoVenueOrder oid else ret ())"

definition recordWorkflowExecutionReport ::
  "'d decimal_pkg \<Rightarrow> engine_settle \<Rightarrow> caller \<Rightarrow> execution_report_input \<Rightarrow> ('z, unit) rop" where
  "recordWorkflowExecutionReport D E c i =
     handle (GetOrder (In_Order i)) (\<lambda>e. raise (Wrap ''get execution report order'' e)) (\<lambda>route.
     andthen (ensureAccountAndAssetsRegisteredExclusive (E_Print E) c MissingAccountCreate
       (Order_Account (Det_Order route)) []) (\<lambda>_.
     andthen outside (\<lambda>_.
     andthen (requireExecutionReportIDAvailable (In_ExternalID i)) (\<lambda>_.
     andthen (requireUnmanaged c (In_Order i)) (\<lambda>_.
     handle (GetOrder (In_Order i)) (\<lambda>e. raise (Wrap ''get execution report order'' e)) (\<lambda>detail.
     andthen (lift_out (RequireOrderModifiable (Order_Status (Det_Order detail)) (In_Force i))) (\<lambda>_.
     case ExecutionReportStatusChangeEvent (In_OrderStatus i) of
       None \<Rightarrow> raise (err_invalid ''execution report status is not workflow-only'')
     | Some ty \<Rightarrow>
         (let request = ExecutionReportRequestFromInput i;
              event = (new_event (In_Order i) ty (empty_payload
                \<lparr> Payload_LeavesQuantity := Req_LeavesQuantity request,
                  Payload_OrderStatus := status_text (Req_OrderStatus request),
                  Payload_ExecutionReport := Some request \<rparr>))
                \<lparr> Event_Source := Caller_Source c, Event_Principal := Caller_Principal c \<rparr>
          in handle (RecordOrderSettlement D (E_Print E) (E_Attest E c i) (empty_settlement
              \<lparr> Set_ReportID := Some (In_ExternalID i),
                Set_Account := Order_Account (Det_Order detail),
                Set_OrderStatus := In_OrderStatus i, Set_Leaves := In_LeavesQuantity i,
                Set_Order := In_Order i,
                Set_AllowedFrom := [Order_Status (Det_Order detail)], Set_Events := [event] \<rparr>))
            (\<lambda>e. raise (Wrap ''record workflow execution report'' e))
            (\<lambda>_. handle (auditReport (Order_Account (Det_Order detail)))
              (\<lambda>e. fatalPost (Wrap ''audit workflow execution report'' e)) ret)))))))))"

text \<open>The call into the engine: it refuses, or it has settled the report.\<close>

definition engine_call ::
  "engine_settle \<Rightarrow> execution_report_input \<Rightarrow> string \<Rightarrow> ('z, go_error + report_outcome) rop" where
  "engine_call E j remainder s = (case E_Report E j remainder of
       Inl e \<Rightarrow> (Inl e, s) | Inr answer \<Rightarrow> (Inr answer, s\<lparr>R_Engine := R_Engine s @ [j]\<rparr>))"

definition enrich_report :: "order \<Rightarrow> execution_report_input \<Rightarrow> execution_report_input" where
  "enrich_report oi i = i
     \<lparr> In_Account := Order_Account oi, In_BaseAsset := Order_BaseAsset oi,
       In_QuoteAsset := Order_QuoteAsset oi, In_Side := Order_Side oi,
       In_Lock := (if In_Lock i = [] \<and> Order_Lock oi \<noteq> [] then Order_Lock oi else In_Lock i) \<rparr>"

definition report_assets :: "order \<Rightarrow> execution_report_input \<Rightarrow> string list" where
  "report_assets oi i = [Order_BaseAsset oi, Order_QuoteAsset oi]
     @ (case In_Commission i of None \<Rightarrow> [] | Some c \<Rightarrow> [Commission_Currency c])"

text \<open>The settlement that the engine's answer to a report asks for.\<close>

definition report_settlement ::
  "execution_report_input \<Rightarrow> string \<Rightarrow> persistence \<Rightarrow> settlement" where
  "report_settlement j reserved p = empty_settlement
     \<lparr> Set_ReservedQuantity := reserved, Set_Account := In_Account j, Set_Order := In_Order j,
       Set_ReportID := Some (In_ExternalID j), Set_OrderStatus := Per_OrderStatus p,
       Set_AccountPnl := Per_AccountPnl p, Set_AccountPnlHaltReason := Per_AccountPnlHaltReason p,
       Set_Leaves := Per_Leaves p, Set_Balances := Per_Balances p, Set_Events := Per_Events p,
       Set_Trade := Per_Trade p, Set_Blocks := Per_Blocks p \<rparr>"

definition persist_report ::
  "'d decimal_pkg \<Rightarrow> engine_settle \<Rightarrow> caller \<Rightarrow> execution_report_input \<Rightarrow> execution_report_input
     \<Rightarrow> order \<Rightarrow> report_outcome \<Rightarrow> ('z, unit) rop" where
  "persist_report D E c i j oi outcome =
     (let p = stampExecutionReportPersistence (executionReportPersistenceFrom j outcome) c
            (ExecutionReportRequestFromInput i)
      in case reservationAfterOutcomes D oi (Per_Balances p) of
          Inl e \<Rightarrow> fatalPost e
        | Inr reserved \<Rightarrow>
            handle (RecordOrderSettlement D (E_Print E) (E_Attest E c i) (report_settlement j reserved p))
              (\<lambda>e. fatalPost (Wrap ''record execution report'' e))
              (\<lambda>_. handle (mirrorEngineBlocksAudit (Ro_Blocks outcome)) fatalPost
                (\<lambda>_. handle (auditReport (In_Account j))
                  (\<lambda>e. fatalPost (Wrap ''audit execution report'' e)) ret)))"

definition settleExecutionReport ::
  "'d decimal_pkg \<Rightarrow> engine_settle \<Rightarrow> caller \<Rightarrow> execution_report_input \<Rightarrow> ('z, unit) rop" where
  "settleExecutionReport D E c i =
     handle (GetOrder (In_Order i)) (\<lambda>e. raise (Wrap ''get execution report order'' e)) (\<lambda>route.
     andthen (ensureAccountAndAssetsRegisteredExclusive (E_Print E) c MissingAccountCreate
       (Order_Account (Det_Order route)) (report_assets (Det_Order route) i)) (\<lambda>_.
     andthen outside (\<lambda>_.
     andthen (requireExecutionReportIDAvailable (In_ExternalID i)) (\<lambda>_.
     andthen (requireUnmanaged c (In_Order i)) (\<lambda>_.
     handle (GetOrder (In_Order i)) (\<lambda>e. raise (Wrap ''get execution report order'' e)) (\<lambda>detail.
     andthen (lift_out (RequireOrderModifiable (Order_Status (Det_Order detail)) (In_Force i))) (\<lambda>_.
     (let j = enrich_report (Det_Order detail) i
      in andthen (lift_res (executionReservedQuantity D j detail)) (\<lambda>remainder.
         andthen (engine_call E j remainder) (\<lambda>answer. case answer of
           Inl e \<Rightarrow> fatalPost (Wrap ''apply execution report'' e)
         | Inr outcome \<Rightarrow> persist_report D E c i j (Det_Order detail) outcome))))))))))"

definition applyExecutionReport ::
  "'d decimal_pkg \<Rightarrow> engine_settle \<Rightarrow> caller \<Rightarrow> execution_report_input \<Rightarrow> ('z, unit) rop" where
  "applyExecutionReport D E c i =
     andthen (lift_res (ExecutionReportRequiresEngine D i)) (\<lambda>requiresEngine.
       if requiresEngine then settleExecutionReport D E c i
       else recordWorkflowExecutionReport D E c i)"

end
