(* ===== verification/EngineOutcomes.thy ===== *)
theory EngineOutcomes
  imports ReportPipeline
begin

section \<open>Engine outcomes of an order\<close>

text \<open>
  What \<^verbatim>\<open>engine/mapping.go\<close>, \<^verbatim>\<open>engine/reservation.go\<close> and \<^verbatim>\<open>framework/node/local_orders.go\<close>
  derive from the engine's answer to an order: the merged balance outcomes of its phases, the
  quantity an immediate order fills, the opening leaves, the block a rejection latched and the
  account P\&L. The SDK's values appear as the texts the code reads from them.
\<close>

record balance_outcome =
  BO_Asset :: string
  BO_Outcome :: adjustment_outcome

subsection \<open>Merging the phases\<close>

definition mergeOutcomeDelta :: "'d decimal_pkg \<Rightarrow> string \<Rightarrow> string \<Rightarrow> go_error + string" where
  "mergeOutcomeDelta D current next_delta =
     (if current = [] then Inr next_delta
      else if next_delta = [] then Inr current
      else AddDecimals D current next_delta)"

definition mergeAcceptedOutcomes ::
  "'d decimal_pkg \<Rightarrow> adjustment_outcome \<Rightarrow> adjustment_outcome \<Rightarrow> go_error + adjustment_outcome" where
  "mergeAcceptedOutcomes D cur nxt =
     res_bind (mergeOutcomeDelta D (Out_BalanceDelta cur) (Out_BalanceDelta nxt)) (\<lambda>balance.
     res_bind (mergeOutcomeDelta D (Out_HeldDelta cur) (Out_HeldDelta nxt)) (\<lambda>held.
     res_bind (mergeOutcomeDelta D (Out_IncomingDelta cur) (Out_IncomingDelta nxt)) (\<lambda>incoming.
     res_bind (mergeOutcomeDelta D (Out_RealizedPnlDelta cur) (Out_RealizedPnlDelta nxt)) (\<lambda>pnl.
     Inr \<lparr> Out_BalanceDelta = balance,
       Out_BalanceResult = settlementResultOrPrevious (Out_BalanceResult nxt) (Out_BalanceResult cur),
       Out_HeldDelta = held,
       Out_HeldResult = settlementResultOrPrevious (Out_HeldResult nxt) (Out_HeldResult cur),
       Out_IncomingDelta = incoming,
       Out_IncomingResult = settlementResultOrPrevious (Out_IncomingResult nxt) (Out_IncomingResult cur),
       Out_RealizedPnlDelta = pnl,
       Out_RealizedPnlResult = (if Out_RealizedPnlHaltReason nxt \<noteq> NoPnlHalt then []
         else settlementResultOrPrevious (Out_RealizedPnlResult nxt) (Out_RealizedPnlResult cur)),
       Out_RealizedPnlHaltReason = (if Out_RealizedPnlHaltReason nxt \<noteq> NoPnlHalt
         then Out_RealizedPnlHaltReason nxt
         else if Out_RealizedPnlResult nxt \<noteq> [] then NoPnlHalt else Out_RealizedPnlHaltReason cur),
       Out_AverageEntryPrice =
         settlementResultOrPrevious (Out_AverageEntryPrice nxt) (Out_AverageEntryPrice cur) \<rparr>))))"

text \<open>The entry of an asset among the merged ones; the code keeps its index in a map.\<close>

fun merge_into ::
  "'d decimal_pkg \<Rightarrow> balance_outcome \<Rightarrow> balance_outcome list \<Rightarrow> go_error + balance_outcome list" where
  "merge_into D o1 [] = Inr [o1]"
| "merge_into D o1 (m # ms) =
     (if BO_Asset m = BO_Asset o1
      then (case mergeAcceptedOutcomes D (BO_Outcome m) (BO_Outcome o1) of
          Inl e \<Rightarrow> Inl (Wrap ''engine: merge balance outcome'' e)
        | Inr combined \<Rightarrow> Inr (m\<lparr>BO_Outcome := combined\<rparr> # ms))
      else res_bind (merge_into D o1 ms) (\<lambda>ms. Inr (m # ms)))"

definition merge_outcome ::
  "'d decimal_pkg \<Rightarrow> balance_outcome \<Rightarrow> balance_outcome list \<Rightarrow> go_error + balance_outcome list" where
  "merge_outcome D o1 merged =
     (if BO_Asset o1 = [] then Inl (Text ''engine: merge balance outcome without asset'')
      else merge_into D o1 merged)"

definition mergeBalanceOutcomes ::
  "'d decimal_pkg \<Rightarrow> balance_outcome list list \<Rightarrow> go_error + balance_outcome list" where
  "mergeBalanceOutcomes D phases = res_fold (merge_outcome D) (concat phases) []"

subsection \<open>Quantities of an order\<close>

text \<open>The base-asset delta of an outcome on the side of the order.\<close>

definition side_delta :: "order \<Rightarrow> go_error \<Rightarrow> adjustment_outcome \<Rightarrow> go_error + string" where
  "side_delta oi unsupported x = (case Order_Side oi of
       OrderSideBuy \<Rightarrow> Inr (Out_IncomingDelta x)
     | OrderSideSell \<Rightarrow> Inr (Out_HeldDelta x)
     | OtherSide t \<Rightarrow> Inl unsupported)"

text \<open>The loop over the outcomes that both functions run: the one delta of the base asset, or none.\<close>

fun base_delta ::
  "order \<Rightarrow> go_error \<Rightarrow> go_error \<Rightarrow> string \<Rightarrow> balance_outcome list \<Rightarrow> go_error + string" where
  "base_delta oi unsupported several found [] = Inr found"
| "base_delta oi unsupported several found (x # xs) =
     (if BO_Asset x \<noteq> Order_BaseAsset oi then base_delta oi unsupported several found xs
      else res_bind (side_delta oi unsupported (BO_Outcome x)) (\<lambda>candidate.
        if candidate = [] then base_delta oi unsupported several found xs
        else if found \<noteq> [] then Inl several
        else base_delta oi unsupported several candidate xs))"

definition openingLeavesFromOutcomes :: "order \<Rightarrow> balance_outcome list \<Rightarrow> go_error + string" where
  "openingLeavesFromOutcomes oi outcomes =
     res_bind (base_delta oi (Text ''engine accepted order with unsupported side'')
       (Text ''engine accepted order with several base-asset deltas'') [] outcomes)
       (\<lambda>openingLeaves. Inr (if openingLeaves = [] then ''0'' else openingLeaves))"

definition immediateFillQuantity :: "order \<Rightarrow> balance_outcome list \<Rightarrow> go_error + string" where
  "immediateFillQuantity oi outcomes = (case Order_AmountKind oi of
       OrderAmountKindQuantity \<Rightarrow> Inr (Order_AmountValue oi)
     | OrderAmountKindVolume \<Rightarrow>
         res_bind (base_delta oi (err_invalid ''engine: volume immediate order has unsupported side'')
           (Text ''engine: volume immediate order has several base-asset deltas'') [] outcomes)
           (\<lambda>fillQuantity. if fillQuantity = []
             then Inl (Text ''engine: volume immediate order has no base-asset delta'')
             else Inr fillQuantity)
     | OtherAmountKind t \<Rightarrow> Inl (err_invalid ''engine: unsupported immediate order amount kind''))"

definition immediateTradePrice :: "order \<Rightarrow> go_error + string" where
  "immediateTradePrice oi = (if Order_Price oi = []
     then Inl (err_invalid ''engine: immediate order has no price to settle at'')
     else Inr (Order_Price oi))"

definition settlementPrice :: "string list \<Rightarrow> string" where
  "settlementPrice lockPrices = (if lockPrices = [] then [] else last lockPrices)"

definition executionBalanceSettlementsFrom :: "balance_outcome list \<Rightarrow> balance_settlement list" where
  "executionBalanceSettlementsFrom outcomes =
     map (\<lambda>x. \<lparr> BS_Asset = BO_Asset x, BS_Outcome = BO_Outcome x \<rparr>) outcomes"

subsection \<open>The block a rejection latched\<close>

definition EngineRejectPolicy :: string where
  "EngineRejectPolicy = ''Engine''"

definition RejectCodeAccountBlocked :: string where
  "RejectCodeAccountBlocked = ''account_blocked''"

fun first_account_reject :: "order_reject list \<Rightarrow> order_reject option" where
  "first_account_reject [] = None"
| "first_account_reject (r # rs) =
     (if Reject_Scope r \<noteq> ''account'' then first_account_reject rs else Some r)"

definition preTradeLatchedBlocks :: "order \<Rightarrow> bool \<Rightarrow> order_reject list \<Rightarrow> account_block list" where
  "preTradeLatchedBlocks oi accountBlocked rejects =
     (if Order_DropCopy oi \<or> accountBlocked then []
      else case first_account_reject rejects of
          None \<Rightarrow> []
        | Some r \<Rightarrow> if Reject_Code r = RejectCodeAccountBlocked \<or> Reject_Policy r = EngineRejectPolicy
            then []
            else [\<lparr> Blk_Account = Order_Account oi, Blk_Policy = Reject_Policy r,
                    Blk_Code = Reject_Code r, Blk_Reason = Reject_Reason r,
                    Blk_Details = Reject_Details r \<rparr>])"

subsection \<open>The account P\&L of a settlement\<close>

text \<open>One outcome of the engine: the account, the computed amount (whether its delta is zero, and
  the absolute), or the halt, with the reason already translated or unknown.\<close>

record 'acc account_pnl_outcome =
  Apo_Account :: 'acc
  Apo_Amount :: "(bool \<times> string) option"
  Apo_Halt :: "(go_error + pnl_halt_reason) option"

fun spotFundsAccountPnl ::
  "'acc \<Rightarrow> bool \<Rightarrow> string \<Rightarrow> string \<Rightarrow> pnl_halt_reason \<Rightarrow> 'acc account_pnl_outcome list
     \<Rightarrow> go_error + string \<times> pnl_halt_reason" where
  "spotFundsAccountPnl acc selected pnl unchanged halt [] =
     Inr (if selected then (pnl, halt) else (unchanged, NoPnlHalt))"
| "spotFundsAccountPnl acc selected pnl unchanged halt (x # xs) =
     (if Apo_Account x \<noteq> acc then spotFundsAccountPnl acc selected pnl unchanged halt xs
      else case Apo_Amount x of
          Some (True, absolute) \<Rightarrow> spotFundsAccountPnl acc selected pnl
            (if unchanged = [] then absolute else unchanged) halt xs
        | amount \<Rightarrow>
            if selected then spotFundsAccountPnl acc selected pnl unchanged halt xs
            else (case Apo_Halt x of
                Some reason \<Rightarrow> (case reason of
                    Inl e \<Rightarrow> Inl (Wrap ''engine: account pnl outcome'' e)
                  | Inr h \<Rightarrow> spotFundsAccountPnl acc True pnl unchanged h xs)
              | None \<Rightarrow> spotFundsAccountPnl acc True
                  (case amount of Some (_, absolute) \<Rightarrow> absolute | None \<Rightarrow> pnl) unchanged halt xs))"

definition spotFundsAccountPnlFromList ::
  "'acc \<Rightarrow> 'acc account_pnl_outcome list \<Rightarrow> go_error + string \<times> pnl_halt_reason" where
  "spotFundsAccountPnlFromList acc = spotFundsAccountPnl acc False [] [] NoPnlHalt"

end
