(* ===== verification/OrderDesk.thy ===== *)
theory OrderDesk
  imports OrderStore EngineOutcomes
begin

section \<open>Orders of the node\<close>

text \<open>
  \<^verbatim>\<open>framework/node/local_orders.go\<close>: submission with a hold, immediate submission, confirmation
  and cancellation. An account chain begins, asks the engine for the pre-trade decision, lets a
  hook decide whether the engine commits, runs its steps and ends with the abort of a transaction
  that is still open. The submission transaction holds the store's only connection from the draft
  to the settlement, so nothing else can change the store in between: the model opens it by
  computing the draft it will create (\<open>peek\<close>) and runs it when the settlement is there. The
  engine is a parameter: it fails, rejects, or reserves and then commits or fails to commit; a
  failed chain holds no reservation.
\<close>

record reservation =
  Rsv_Lock :: string
  Rsv_Prices :: "string list"
  Rsv_Outcomes :: "balance_outcome list"
  Rsv_Blocks :: "account_block list"

text \<open>The engine's answer to an order; an answer that does not translate is an error, and a
  reservation comes with the failure of its commit, if any.\<close>

datatype pre_trade =
    PreTradeFailed go_error
  | PreTradeRejected "go_error + order_reject list"
  | PreTradeReserved "go_error + reservation" "go_error option"

record post_trade =
  Pt_Outcomes :: "balance_outcome list"
  Pt_Blocks :: "account_block list"
  Pt_AccountPnl :: string
  Pt_AccountPnlHaltReason :: pnl_halt_reason

record order_engine =
  OE_OrderModel :: "order \<Rightarrow> go_error option"
  OE_PreTrade :: "order \<Rightarrow> pre_trade"
  OE_ReportModel :: "execution_report_input \<Rightarrow> string \<Rightarrow> go_error option"
  OE_PostTrade :: "order \<Rightarrow> execution_report_input \<Rightarrow> go_error + (go_error + post_trade)"
  OE_Print :: "nat \<Rightarrow> bool"

record order_result =
  OR_Lock :: string
  OR_Blocks :: "account_block list"
  OR_Rejects :: "order_reject list"
  OR_Outcomes :: "balance_outcome list"
  OR_SettlementLockPrice :: string
  OR_Accepted :: bool

type_synonym 'r attest_for = "(order \<Rightarrow> 'r \<Rightarrow> attestor) option"

subsection \<open>Drafts, events and settlements\<close>

definition fillSettlementEvent ::
  "string \<Rightarrow> order_event_type \<Rightarrow> caller \<Rightarrow> order_event_payload \<Rightarrow> order_event" where
  "fillSettlementEvent oid ty c payload = (new_event oid ty payload)
     \<lparr> Event_Source := Caller_Source c, Event_Principal := Caller_Principal c \<rparr>"

definition submittedOrderDraft :: "order \<Rightarrow> caller \<Rightarrow> order" where
  "submittedOrderDraft oi c = oi
     \<lparr> Order_Source := Caller_Source c, Order_Principal := Caller_Principal c,
       Order_Status := OrderStatusSubmitted, Order_ReservedQuantity := ''0'' \<rparr>"

definition submittedOrderEvent :: "caller \<Rightarrow> order_event" where
  "submittedOrderEvent c = fillSettlementEvent [] OrderEventSubmitted c empty_payload"

definition orderAcceptedSettlement ::
  "account_id \<Rightarrow> order \<Rightarrow> order_result \<Rightarrow> caller \<Rightarrow> go_error + settlement" where
  "orderAcceptedSettlement acc oi result c =
     res_bind (openingLeavesFromOutcomes oi (OR_Outcomes result)) (\<lambda>openingLeaves.
     Inr (empty_settlement
       \<lparr> Set_Account := acc, Set_Order := Order_ExternalID oi,
         Set_OrderStatus := OrderStatusCommitted, Set_Leaves := openingLeaves,
         Set_ReservedQuantity := openingLeaves,
         Set_Balances := executionBalanceSettlementsFrom (OR_Outcomes result),
         Set_Blocks := OR_Blocks result,
         Set_Events := [fillSettlementEvent (Order_ExternalID oi) OrderEventPreTradeAccepted c empty_payload,
           fillSettlementEvent (Order_ExternalID oi) OrderEventCommitted c empty_payload],
         Set_Lock := OR_Lock result, Set_SetLock := True \<rparr>))"

definition reject_payload :: "order_reject list \<Rightarrow> order_event_payload" where
  "reject_payload rejects = (case rejects of
       [] \<Rightarrow> empty_payload
     | r # _ \<Rightarrow> empty_payload
         \<lparr> Payload_Rejects := rejects, Payload_RejectCode := Reject_Code r,
           Payload_RejectScope := Reject_Scope r, Payload_RejectPolicy := Reject_Policy r,
           Payload_RejectReason := Reject_Reason r, Payload_RejectDetails := Reject_Details r \<rparr>)"

definition orderRejectedSettlement ::
  "account_id \<Rightarrow> order \<Rightarrow> order_reject list \<Rightarrow> account_block list \<Rightarrow> caller \<Rightarrow> settlement" where
  "orderRejectedSettlement acc oi rejects blocks c = empty_settlement
     \<lparr> Set_Account := acc, Set_Order := Order_ExternalID oi,
       Set_OrderStatus := OrderStatusRejected, Set_Leaves := ''0'', Set_ReservedQuantity := ''0'',
       Set_Blocks := blocks,
       Set_Events := [fillSettlementEvent (Order_ExternalID oi) OrderEventPreTradeRejected c
         (reject_payload rejects)] \<rparr>"

definition validatePersistedOrderChainInput :: "order \<Rightarrow> order \<Rightarrow> go_error option" where
  "validatePersistedOrderChainInput draft persisted =
     check (\<not> (Order_Account persisted = Order_Account draft
         \<and> Order_BaseAsset persisted = Order_BaseAsset draft
         \<and> Order_QuoteAsset persisted = Order_QuoteAsset draft
         \<and> Order_Side persisted = Order_Side draft
         \<and> Order_AmountKind persisted = Order_AmountKind draft
         \<and> Order_AmountValue persisted = Order_AmountValue draft
         \<and> Order_Price persisted = Order_Price draft
         \<and> Order_DropCopy persisted = Order_DropCopy draft))
       (err_invalid ''store: persisted order does not match chain input'')"

subsection \<open>The chain of a submission\<close>

definition peek :: "('z, 'a) rop \<Rightarrow> ('z, 'a) rop" where
  "peek m s = (fst (m s), s)"

definition beginOrderSubmission :: "order \<Rightarrow> order_event \<Rightarrow> ('z, bool \<times> order) rop" where
  "beginOrderSubmission draft submitted =
     andthen (if Order_DropCopy draft then ret False
       else handle (read_account (Order_Account draft))
         (\<lambda>e. raise (Wrap ''read account block state'' e))
         (\<lambda>found. case found of
             None \<Rightarrow> raise (Wrap ''read account block state'' (Sentinel ErrNotFound))
           | Some a \<Rightarrow> ret (Account_Blocked a))) (\<lambda>accountBlocked.
     andthen (store_call (peek (open_submission draft submitted))) (\<lambda>(persisted, _).
     ret (accountBlocked, persisted)))"

text \<open>The attestor of a submission signs with what the hook chose, and has nothing before.\<close>

definition submission_attestor :: "'r attest_for \<Rightarrow> order \<Rightarrow> 'r \<Rightarrow> attestor" where
  "submission_attestor attestFor oi result = (case attestFor of
       None \<Rightarrow> None
     | Some attestOf \<Rightarrow> Some (case attestOf oi result of None \<Rightarrow> (\<lambda>_. Inr None) | Some sign \<Rightarrow> sign))"

definition auditOrderDecision :: "account_id \<Rightarrow> order \<Rightarrow> bool \<Rightarrow> order_reject list \<Rightarrow> ('z, unit) rop" where
  "auditOrderDecision acc oi accepted rejects =
     (if \<not> accepted \<and> rejects = []
      then fatalPost (Text ''audit submit order: engine rejection has no reject reason'')
      else handle (auditNode (if Order_DropCopy oi then AuditActionSubmitDropCopy
          else AuditActionSubmitOrder) acc)
        (\<lambda>e. fatalPost (Wrap ''audit submit order'' e)) ret)"

definition auditSubmittedOrder ::
  "account_id \<Rightarrow> order \<Rightarrow> account_block list \<Rightarrow> bool \<Rightarrow> order_reject list \<Rightarrow> ('z, unit) rop" where
  "auditSubmittedOrder acc oi blocks accepted rejects =
     handle (mirrorEngineBlocksAudit blocks) fatalPost
       (\<lambda>_. auditOrderDecision acc oi accepted rejects)"

text \<open>The end of a chain that has a settlement: the transaction, and then the audit.\<close>

definition completeSubmission ::
  "'d decimal_pkg \<Rightarrow> order_engine \<Rightarrow> attestor \<Rightarrow> order \<Rightarrow> order_event \<Rightarrow> go_error + settlement
     \<Rightarrow> (order \<Rightarrow> string \<Rightarrow> ('z, 'a) rop) \<Rightarrow> ('z, 'a) rop" where
  "completeSubmission D G attest draft submitted answer next_steps =
     handle (RecordOrderSubmission D (OE_Print G) attest draft submitted (\<lambda>_. answer))
       fatalPost (\<lambda>(stored, reportID). next_steps stored reportID)"

definition rejectSubmission ::
  "'d decimal_pkg \<Rightarrow> order_engine \<Rightarrow> string \<Rightarrow> 'r attest_for \<Rightarrow> (account_block list \<Rightarrow> order_reject list \<Rightarrow> 'r)
     \<Rightarrow> order \<Rightarrow> order_event \<Rightarrow> bool \<Rightarrow> order \<Rightarrow> go_error + order_reject list \<Rightarrow> caller
     \<Rightarrow> ('z, order \<times> 'r) rop" where
  "rejectSubmission D G operation attestFor result draft submitted accountBlocked persisted answer c =
     (case answer of
        Inl e \<Rightarrow> raise (Wrap operation e)
      | Inr rejects \<Rightarrow>
          if rejects = [] then raise (Text (operation @ '': engine rejection has no reject reason''))
          else
            (let blocks = preTradeLatchedBlocks persisted accountBlocked rejects;
                 rejected = result blocks rejects
             in completeSubmission D G (submission_attestor attestFor persisted rejected) draft submitted
               (Inr (orderRejectedSettlement (Order_Account draft) persisted rejects blocks c))
               (\<lambda>stored _. andthen (auditSubmittedOrder (Order_Account draft) stored blocks False rejects)
                  (\<lambda>_. ret (stored, rejected)))))"

text \<open>The engine commits what it reserved, or the chain fails.\<close>

definition engine_commit :: "string \<Rightarrow> order \<Rightarrow> go_error option \<Rightarrow> ('z, unit) rop" where
  "engine_commit operation oi failure = (case failure of
       Some e \<Rightarrow> raise (Wrap operation e)
     | None \<Rightarrow> modify (\<lambda>s. s\<lparr>R_Reserved := R_Reserved s @ [Order_ExternalID oi]\<rparr>))"

definition rejected_result :: "account_block list \<Rightarrow> order_reject list \<Rightarrow> order_result" where
  "rejected_result blocks rejects = \<lparr> OR_Lock = [], OR_Blocks = blocks, OR_Rejects = rejects,
     OR_Outcomes = [], OR_SettlementLockPrice = [], OR_Accepted = False \<rparr>"

definition reserved_result :: "order \<Rightarrow> reservation \<Rightarrow> order_result" where
  "reserved_result oi rsv = \<lparr> OR_Lock = Rsv_Lock rsv,
     OR_Blocks = (if Order_DropCopy oi then Rsv_Blocks rsv else []), OR_Rejects = [],
     OR_Outcomes = Rsv_Outcomes rsv, OR_SettlementLockPrice = settlementPrice (Rsv_Prices rsv),
     OR_Accepted = True \<rparr>"

definition acceptSubmission ::
  "'d decimal_pkg \<Rightarrow> order_engine \<Rightarrow> order_result attest_for \<Rightarrow> order \<Rightarrow> order_event \<Rightarrow> order
     \<Rightarrow> go_error + reservation \<Rightarrow> go_error option \<Rightarrow> caller \<Rightarrow> ('z, order \<times> order_result) rop" where
  "acceptSubmission D G attestFor draft submitted persisted answer failure c =
     (case answer of
        Inl e \<Rightarrow> raise (Wrap ''submit order'' e)
      | Inr rsv \<Rightarrow>
          (let result = reserved_result persisted rsv
           in case orderAcceptedSettlement (Order_Account draft) persisted result c of
               Inl e \<Rightarrow> raise (Wrap ''submit order: materialize settlement'' e)
             | Inr st \<Rightarrow>
                 andthen (engine_commit ''submit order'' persisted failure) (\<lambda>_.
                 completeSubmission D G (submission_attestor attestFor persisted result) draft
                   submitted (Inr st)
                   (\<lambda>stored _. andthen (auditSubmittedOrder (Order_Account draft) stored (OR_Blocks result) True [])
                      (\<lambda>_. ret (stored, result))))))"

text \<open>What both kinds of submission do before they ask the engine.\<close>

definition prepareSubmission ::
  "order_engine \<Rightarrow> string \<Rightarrow> order \<Rightarrow> missing_account_policy \<Rightarrow> caller \<Rightarrow> ('z, bool \<times> order) rop" where
  "prepareSubmission G operation oi missing c =
     andthen (ensureAccountAndAssetsRegisteredExclusive (OE_Print G) c missing (Order_Account oi)
       [Order_BaseAsset oi, Order_QuoteAsset oi]) (\<lambda>_.
     andthen outside (\<lambda>_.
     (let draft = submittedOrderDraft oi c
      in andthen (lift_out (map_option (Wrap operation) (OE_OrderModel G draft))) (\<lambda>_.
         andthen outside (\<lambda>_.
         andthen (beginOrderSubmission draft (submittedOrderEvent c)) (\<lambda>(accountBlocked, persisted).
         andthen (lift_out (map_option (Wrap operation)
           (validatePersistedOrderChainInput draft persisted))) (\<lambda>_.
         ret (accountBlocked, persisted))))))))"

definition submitOrder ::
  "'d decimal_pkg \<Rightarrow> order_engine \<Rightarrow> order_result attest_for \<Rightarrow> order \<Rightarrow> missing_account_policy \<Rightarrow> caller
     \<Rightarrow> ('z, order \<times> order_result) rop" where
  "submitOrder D G attestFor oi missing c =
     andthen (prepareSubmission G ''submit order'' oi missing c) (\<lambda>(accountBlocked, persisted).
     (let draft = submittedOrderDraft oi c; submitted = submittedOrderEvent c
      in case OE_PreTrade G persisted of
          PreTradeFailed e \<Rightarrow> raise (Wrap ''submit order'' e)
        | PreTradeRejected answer \<Rightarrow>
            rejectSubmission D G ''submit order'' attestFor rejected_result draft submitted accountBlocked
              persisted answer c
        | PreTradeReserved answer failure \<Rightarrow>
            acceptSubmission D G attestFor draft submitted persisted answer failure c))"

subsection \<open>Immediate submission\<close>

record immediate_result =
  IR_Persistence :: "persistence option"
  IR_ExecutionReport :: "execution_report_request option"
  IR_Lock :: string
  IR_Blocks :: "account_block list"
  IR_Rejects :: "order_reject list"
  IR_Outcomes :: "balance_outcome list"
  IR_AccountPnl :: string
  IR_AccountPnlHaltReason :: pnl_halt_reason
  IR_SettlementLockPrice :: string
  IR_FillQuantity :: string
  IR_TradePrice :: string
  IR_Accepted :: bool

record immediate_preparation =
  Prep_ReportInput :: execution_report_input
  Prep_Outcomes :: "balance_outcome list"
  Prep_Blocks :: "account_block list"
  Prep_ReconciliationState :: string

definition rejected_immediate :: "account_block list \<Rightarrow> order_reject list \<Rightarrow> immediate_result" where
  "rejected_immediate blocks rejects = \<lparr> IR_Persistence = None, IR_ExecutionReport = None,
     IR_Lock = [], IR_Blocks = blocks, IR_Rejects = rejects, IR_Outcomes = [], IR_AccountPnl = [],
     IR_AccountPnlHaltReason = NoPnlHalt, IR_SettlementLockPrice = [], IR_FillQuantity = [],
     IR_TradePrice = [], IR_Accepted = False \<rparr>"

text \<open>The cause is rendered into the text, not wrapped.\<close>

definition immediateReconciliationError :: "string \<Rightarrow> string \<Rightarrow> go_error" where
  "immediateReconciliationError reconciliation_state action =
     Text (reconciliation_state @ '', but '' @ action @ ''; engine state needs manual reconciliation'')"

definition prepareImmediate ::
  "order_engine \<Rightarrow> order \<Rightarrow> reservation \<Rightarrow> go_error + immediate_preparation" where
  "prepareImmediate G oi rsv =
     res_bind (immediateTradePrice oi) (\<lambda>tradePrice.
     res_bind (immediateFillQuantity oi (Rsv_Outcomes rsv)) (\<lambda>fillQuantity.
     (let reportInput = empty_report
            \<lparr> In_BaseAsset := Order_BaseAsset oi, In_QuoteAsset := Order_QuoteAsset oi,
              In_FillQuantity := fillQuantity, In_FillPrice := tradePrice,
              In_LeavesQuantity := ''0'', In_LockPrice := settlementPrice (Rsv_Prices rsv),
              In_Lock := Rsv_Lock rsv, In_Account := Order_Account oi, In_Side := Order_Side oi,
              In_Order := Order_ExternalID oi, In_OrderStatus := OrderStatusFilled \<rparr>
      in res_bind (of_outcome (OE_ReportModel G reportInput ''0'') ()) (\<lambda>_.
         Inr \<lparr> Prep_ReportInput = reportInput, Prep_Outcomes = Rsv_Outcomes rsv,
           Prep_Blocks = (if Order_DropCopy oi then Rsv_Blocks rsv else []),
           Prep_ReconciliationState = (if Order_DropCopy oi then ''drop-copy committed''
             else ''reservation committed'') \<rparr>))))"

definition SettleImmediate ::
  "'d decimal_pkg \<Rightarrow> immediate_preparation \<Rightarrow> go_error + post_trade \<Rightarrow> go_error + immediate_result" where
  "SettleImmediate D prep answer = (case answer of
       Inl e \<Rightarrow> Inl (immediateReconciliationError (Prep_ReconciliationState prep)
         ''the settled outcome is unmappable'')
     | Inr pt \<Rightarrow> (case mergeBalanceOutcomes D [Prep_Outcomes prep, Pt_Outcomes pt] of
           Inl e \<Rightarrow> Inl (immediateReconciliationError (Prep_ReconciliationState prep)
             ''the ordered outcomes cannot be combined'')
         | Inr finalOutcomes \<Rightarrow>
             (let input = Prep_ReportInput prep; blocks = Prep_Blocks prep @ Pt_Blocks pt;
                  persistence = executionReportPersistenceFrom input
                    \<lparr> Ro_Balances = executionBalanceSettlementsFrom finalOutcomes, Ro_Blocks = blocks,
                      Ro_AccountPnl = Pt_AccountPnl pt,
                      Ro_AccountPnlHaltReason = Pt_AccountPnlHaltReason pt \<rparr>
              in Inr \<lparr> IR_Persistence = Some persistence,
                   IR_ExecutionReport = Some (ExecutionReportRequestFromInput input),
                   IR_Lock = In_Lock input, IR_Blocks = blocks, IR_Rejects = [],
                   IR_Outcomes = finalOutcomes, IR_AccountPnl = Pt_AccountPnl pt,
                   IR_AccountPnlHaltReason = Pt_AccountPnlHaltReason pt,
                   IR_SettlementLockPrice = In_LockPrice input,
                   IR_FillQuantity = In_FillQuantity input, IR_TradePrice = In_FillPrice input,
                   IR_Accepted = True \<rparr>)))"

definition immediateAcceptedSettlement ::
  "'d decimal_pkg \<Rightarrow> account_id \<Rightarrow> order \<Rightarrow> immediate_result \<Rightarrow> caller \<Rightarrow> go_error + settlement" where
  "immediateAcceptedSettlement D acc oi result c =
     (case (IR_Persistence result, IR_ExecutionReport result) of
        (Some per, Some report) \<Rightarrow>
          (let p = stampExecutionReportPersistence per c report
           in res_bind (reservationAfterOutcomes D oi (Per_Balances p)) (\<lambda>reservedQuantity.
              Inr (empty_settlement
                \<lparr> Set_ReservedQuantity := reservedQuantity, Set_Account := acc,
                  Set_Order := Order_ExternalID oi, Set_ReportID := Some (Req_ExternalID report),
                  Set_OrderStatus := Per_OrderStatus p, Set_Leaves := Per_Leaves p,
                  Set_AccountPnl := Per_AccountPnl p,
                  Set_AccountPnlHaltReason := Per_AccountPnlHaltReason p,
                  Set_AllowedFrom := OrderStatusesEligibleForFill, Set_Balances := Per_Balances p,
                  Set_Events := [fillSettlementEvent (Order_ExternalID oi) OrderEventPreTradeAccepted c empty_payload,
                    fillSettlementEvent (Order_ExternalID oi) OrderEventCommitted c empty_payload]
                    @ Per_Events p,
                  Set_Trade := Per_Trade p, Set_Blocks := Per_Blocks p, Set_Lock := IR_Lock result,
                  Set_SetLock := True \<rparr>)))
      | _ \<Rightarrow> Inl (Text ''immediate execution report persistence is incomplete''))"

definition auditImmediateSubmission :: "account_id \<Rightarrow> order \<Rightarrow> immediate_result \<Rightarrow> ('z, unit) rop" where
  "auditImmediateSubmission acc oi result =
     handle (mirrorEngineBlocksAudit (IR_Blocks result)) fatalPost (\<lambda>_.
     if IR_ExecutionReport result = None then fatalPost (Text ''immediate execution report missing'')
     else handle (auditReport acc) (\<lambda>e. fatalPost (Wrap ''audit immediate execution report'' e)) (\<lambda>_.
       auditOrderDecision acc oi (IR_Accepted result) (IR_Rejects result)))"

text \<open>The report of the fill goes to the engine in the same chain.\<close>

definition engine_fill ::
  "order_engine \<Rightarrow> order \<Rightarrow> execution_report_input \<Rightarrow> ('z, go_error + post_trade) rop" where
  "engine_fill G oi input s = (case OE_PostTrade G oi input of
       Inl e \<Rightarrow> (Inl e, s)
     | Inr answer \<Rightarrow> (Inr answer, s\<lparr>R_Engine := R_Engine s @ [input]\<rparr>))"

definition acceptImmediate ::
  "'d decimal_pkg \<Rightarrow> order_engine \<Rightarrow> immediate_result attest_for \<Rightarrow> order \<Rightarrow> order_event \<Rightarrow> order
     \<Rightarrow> go_error + reservation \<Rightarrow> go_error option \<Rightarrow> caller \<Rightarrow> ('z, order \<times> immediate_result) rop" where
  "acceptImmediate D G attestFor draft submitted persisted answer failure c =
     (case res_bind answer (prepareImmediate G persisted) of
        Inl e \<Rightarrow> raise (Wrap ''submit immediate'' e)
      | Inr prep \<Rightarrow>
          andthen (engine_commit ''submit immediate'' persisted failure) (\<lambda>_.
          handle (engine_fill G persisted (Prep_ReportInput prep))
            (\<lambda>e. raise (immediateReconciliationError (Prep_ReconciliationState prep)
               ''the execution report failed and the fill is unsettled''))
            (\<lambda>settled_answer. case SettleImmediate D prep settled_answer of
                Inl e \<Rightarrow> raise e
              | Inr result \<Rightarrow> (case immediateAcceptedSettlement D (Order_Account draft) persisted result c of
                  Inl e \<Rightarrow> fatalPost e
                | Inr st \<Rightarrow>
                    completeSubmission D G (submission_attestor attestFor persisted result) draft
                      submitted (Inr st)
                      (\<lambda>stored _. andthen (auditImmediateSubmission (Order_Account draft) stored result)
                         (\<lambda>_. ret (stored, result)))))))"

definition submitImmediate ::
  "'d decimal_pkg \<Rightarrow> order_engine \<Rightarrow> immediate_result attest_for \<Rightarrow> order \<Rightarrow> missing_account_policy
     \<Rightarrow> caller \<Rightarrow> ('z, order \<times> immediate_result) rop" where
  "submitImmediate D G attestFor oi missing c =
     andthen (lift_out (check (Order_Price oi = []) (NewValidationError ''/price'' ''required''
       ''submit immediate: price is required''))) (\<lambda>_.
     andthen (prepareSubmission G ''submit immediate'' oi missing c) (\<lambda>(accountBlocked, persisted).
     (let draft = submittedOrderDraft oi c; submitted = submittedOrderEvent c
      in case OE_PreTrade G persisted of
          PreTradeFailed e \<Rightarrow> raise (Wrap ''submit immediate'' e)
        | PreTradeRejected answer \<Rightarrow>
            rejectSubmission D G ''submit immediate'' attestFor rejected_immediate draft submitted
              accountBlocked persisted answer c
        | PreTradeReserved answer failure \<Rightarrow>
            acceptImmediate D G attestFor draft submitted persisted answer failure c)))"

subsection \<open>Confirmation and cancellation\<close>

definition requireNoExecutionReportActivity :: "order_event list \<Rightarrow> go_error option" where
  "requireNoExecutionReportActivity events =
     check (list_ex (\<lambda>e. Payload_ExecutionReport (Event_Payload e) \<noteq> None) events)
       (Wrap ''order'' (Sentinel ErrExecutionReportRequired))"

definition orderEventExists :: "order_event list \<Rightarrow> order_event_type \<Rightarrow> bool" where
  "orderEventExists events ty = list_ex (\<lambda>e. Event_Type e = ty) events"

definition confirm_settlement :: "string \<Rightarrow> order \<Rightarrow> caller \<Rightarrow> settlement" where
  "confirm_settlement oid oi c = empty_settlement
     \<lparr> Set_Account := Order_Account oi, Set_Order := oid, Set_OrderStatus := Order_Status oi,
       Set_AllowedFrom := [Order_Status oi],
       Set_Events := [fillSettlementEvent oid OrderEventConfirmed c empty_payload] \<rparr>"

text \<open>The account row of the order, as the chain reads it before and when it begins.\<close>

definition read_order_account :: "account_id \<Rightarrow> ('z, unit) rop" where
  "read_order_account acc =
     handle (read_account acc) (\<lambda>e. raise (Wrap ''read account for confirmation'' e))
       (\<lambda>found. if found = None then raise (err_not_found ''account'') else ret ())"

text \<open>An untouched order: nothing of the venue and no report has reached it.\<close>

definition read_untouched :: "string \<Rightarrow> ('z, order_detail \<times> order_event list) rop" where
  "read_untouched oid =
     andthen (requireNoVenueOrder oid) (\<lambda>_.
     handle (GetOrder oid) (\<lambda>e. raise (Wrap ''get order'' e)) (\<lambda>detail.
     andthen (lift_out (RequireOrderModifiable (Order_Status (Det_Order detail)) False)) (\<lambda>_.
     handle (ListOrderEvents oid) (\<lambda>e. raise (Wrap ''list order events'' e)) (\<lambda>events.
     andthen (lift_out (requireNoExecutionReportActivity events)) (\<lambda>_.
     ret (detail, events))))))"

text \<open>
  A confirmation in two parts: what it reads and checks, and what it writes on the strength of
  that. The store may move between the two.
\<close>

definition confirm_read :: "string \<Rightarrow> ('z, order_detail \<times> order_event list) rop" where
  "confirm_read oid =
     handle (GetOrder oid) (\<lambda>e. raise (Wrap ''get order'' e)) (\<lambda>route.
     andthen outside (\<lambda>_.
     andthen (read_order_account (Order_Account (Det_Order route))) (\<lambda>_.
     andthen outside (\<lambda>_.
     andthen (read_order_account (Order_Account (Det_Order route))) (\<lambda>_.
     andthen (requireNoVenueOrder oid) (\<lambda>_.
     handle (GetOrder oid) (\<lambda>e. raise (Wrap ''get order'' e)) (\<lambda>detail.
     andthen (lift_out (check (Order_Account (Det_Order detail) \<noteq> Order_Account (Det_Order route))
       (err_invalid ''order account changed''))) (\<lambda>_.
     andthen (lift_out (RequireOrderModifiable (Order_Status (Det_Order detail)) False)) (\<lambda>_.
     handle (ListOrderEvents oid) (\<lambda>e. raise (Wrap ''list order events'' e)) (\<lambda>events.
     andthen (lift_out (requireNoExecutionReportActivity events)) (\<lambda>_.
     ret (detail, events))))))))))))"

definition confirm_write ::
  "'d decimal_pkg \<Rightarrow> (nat \<Rightarrow> bool) \<Rightarrow> attestor \<Rightarrow> string \<Rightarrow> caller \<Rightarrow> order_detail
     \<Rightarrow> order_event list \<Rightarrow> ('z, order) rop" where
  "confirm_write D pr attest oid c detail events =
     (if orderEventExists events OrderEventConfirmed then ret (Det_Order detail)
      else handle (RecordOrderSettlement D pr attest (confirm_settlement oid (Det_Order detail) c))
        (\<lambda>e. raise (Wrap ''record order confirmation'' e))
        (\<lambda>_. ret (Det_Order detail)))"

definition confirmOrder ::
  "'d decimal_pkg \<Rightarrow> (nat \<Rightarrow> bool) \<Rightarrow> attestor \<Rightarrow> string \<Rightarrow> caller \<Rightarrow> ('z, order) rop" where
  "confirmOrder D pr attest oid c =
     andthen (confirm_read oid) (\<lambda>(detail, events). confirm_write D pr attest oid c detail events)"

definition cancel_input :: "order_detail \<Rightarrow> string \<Rightarrow> string \<Rightarrow> execution_report_input" where
  "cancel_input detail oid leavesQuantity = empty_report
     \<lparr> In_Order := oid, In_Account := Order_Account (Det_Order detail),
       In_BaseAsset := Order_BaseAsset (Det_Order detail),
       In_QuoteAsset := Order_QuoteAsset (Det_Order detail), In_Side := Order_Side (Det_Order detail),
       In_LeavesQuantity := leavesQuantity, In_Lock := Order_Lock (Det_Order detail),
       In_OrderStatus := OrderStatusCancelled \<rparr>"

text \<open>The settlement of a cancellation: no report id and no account P\&L.\<close>

definition cancel_settlement :: "execution_report_input \<Rightarrow> string \<Rightarrow> persistence \<Rightarrow> settlement" where
  "cancel_settlement j reserved p = empty_settlement
     \<lparr> Set_ReservedQuantity := reserved, Set_Account := In_Account j, Set_Order := In_Order j,
       Set_OrderStatus := Per_OrderStatus p, Set_Leaves := Per_Leaves p,
       Set_Balances := Per_Balances p, Set_Events := Per_Events p, Set_Trade := Per_Trade p,
       Set_Blocks := Per_Blocks p \<rparr>"

definition persist_cancel ::
  "'d decimal_pkg \<Rightarrow> engine_settle \<Rightarrow> attestor \<Rightarrow> caller \<Rightarrow> execution_report_input \<Rightarrow> order
     \<Rightarrow> report_outcome \<Rightarrow> ('z, order \<times> report_outcome) rop" where
  "persist_cancel D E attest c j oi outcome =
     (let p = stampExecutionReportPersistence (executionReportPersistenceFrom j outcome) c
            (ExecutionReportRequestFromInput j)
      in case reservationAfterOutcomes D oi (Per_Balances p) of
          Inl e \<Rightarrow> fatalPost e
        | Inr reserved \<Rightarrow>
            handle (RecordOrderSettlement D (E_Print E) attest (cancel_settlement j reserved p))
              (\<lambda>e. fatalPost (Wrap ''record cancellation execution report'' e))
              (\<lambda>_. handle (mirrorEngineBlocksAudit (Ro_Blocks outcome)) fatalPost
                (\<lambda>_. handle (auditReport (In_Account j))
                  (\<lambda>e. fatalPost (Wrap ''audit cancellation execution report'' e))
                  (\<lambda>_. ret (oi\<lparr>Order_Status := Per_OrderStatus p, Order_ReservedQuantity := reserved,
                     Order_Leaves := (if Per_Leaves p \<noteq> [] then Per_Leaves p else Order_Leaves oi)\<rparr>,
                     outcome)))))"

definition cancelWorkflowOrder ::
  "'d decimal_pkg \<Rightarrow> engine_settle \<Rightarrow> attestor \<Rightarrow> string \<Rightarrow> string \<Rightarrow> caller
     \<Rightarrow> ('z, order \<times> report_outcome) rop" where
  "cancelWorkflowOrder D E attest oid leavesQuantity c =
     handle (GetOrder oid) (\<lambda>e. raise (Wrap ''get order'' e)) (\<lambda>route.
     andthen outside (\<lambda>_.
     andthen (read_untouched oid) (\<lambda>(detail, _).
     (let j = cancel_input detail oid leavesQuantity
      in andthen (handle (lift_res (ExecutionReportRequiresEngine D j))
           (\<lambda>e. raise (Wrap ''build cancellation execution report'' e)) (\<lambda>_. ret ())) (\<lambda>_.
         handle (lift_res (executionReservedQuantity D j detail))
           (\<lambda>e. raise (Wrap ''build cancellation reservation remainder'' e)) (\<lambda>remainder.
         andthen (engine_call E j remainder) (\<lambda>answer. case answer of
             Inl e \<Rightarrow> fatalPost (Wrap ''apply cancellation execution report'' e)
           | Inr outcome \<Rightarrow> persist_cancel D E attest c j (Det_Order detail) outcome)))))))"

end
