(* ===== verification/SettlementFrame.thy ===== *)
theory SettlementFrame
  imports ReportPipeline
begin

section \<open>What reports and settlements leave alone\<close>

text \<open>
  An invariant that does not look at what an operation writes survives it. \<open>row_blind\<close> is the
  interface of the invariants that ignore the dictionaries, balances and audit, and
  \<open>settlement_blind\<close> of those that ignore orders and report ids as well: the first kind survives
  every guard and registration, the second every settlement and report.
\<close>

locale row_blind =
  fixes I :: "'z realm_scheme \<Rightarrow> bool"
  assumes faults: "I s \<Longrightarrow> set fs \<subseteq> set (R_Faults s) \<Longrightarrow> I (s\<lparr>R_Faults := fs\<rparr>)"
    and audit: "I s \<Longrightarrow> I (s\<lparr>R_Audit := a\<rparr>)"
    and fatal: "I s \<Longrightarrow> I (s\<lparr>R_Fatal := f\<rparr>)"
    and fresh: "I s \<Longrightarrow> I (s\<lparr>R_Fresh := is\<rparr>)"
    and accounts: "I s \<Longrightarrow> I (s\<lparr>R_Accounts := accs\<rparr>)"
    and assets: "I s \<Longrightarrow> I (s\<lparr>R_Assets := codes\<rparr>)"
    and balances: "I s \<Longrightarrow> I (s\<lparr>R_Balances := bals\<rparr>)"
begin

lemma call: "keeps I m \<Longrightarrow> keeps I (store_call m)"
  by (rule keeps_store_call) (auto intro: faults)

lemma reading: "(\<And>s. snd (m s) = s) \<Longrightarrow> keeps I m"
  by (simp add: keeps_def)

lemma store_read: "(\<And>s. snd (m s) = s) \<Longrightarrow> keeps I (store_call m)"
  by (intro call reading)

lemma tx_reads:
  "keeps I (require P e)"
  "keeps I (known b)"
  "keeps I (requireSource c)"
  "keeps I (resolveAccountTx acc)"
  "keeps I (resolveAssetTx x)"
  "keeps I (resolveOptionalPrincipalID p)"
  "keeps I (resolveSigningKeyID k)"
  "keeps I (lookupOrderTx oid)"
  unfolding require_def known_def requireSource_def resolveAccountTx_def resolveAssetTx_def
    resolveOptionalPrincipalID_def resolveSigningKeyID_def lookupOrderTx_def
  by (intro keeps_rules)+

lemma ids: "keeps I newExternalID" "keeps I (externalIDForInsert x)"
proof -
  show "keeps I newExternalID" by (auto simp: keeps_def newExternalID_def fresh split: list.splits)
  then show "keeps I (externalIDForInsert x)" unfolding externalIDForInsert_def by (intro keeps_rules)
qed

lemma rows:
  "keeps I (modify_account acc f)"
  "keeps I (settleBalanceTx D acc b)"
  "keeps I (mirrorBlockTx pr blk)"
  "keeps I (settleAccountPnlTx acc p h)"
  unfolding settleBalanceTx_def mirrorBlockTx_def settleAccountPnlTx_def modify_account_def
  by (intro keeps_rules keeps_modify tx_reads accounts balances; assumption)+

lemma order_reads:
  "keeps I (GetOrder oid)"
  "keeps I (ExecutionReportExists i)"
  "keeps I (GetVenueOrder oid)"
  "keeps I (requireNoVenueOrder oid)"
  "keeps I (requireUnmanaged c oid)"
  "keeps I (requireExecutionReportIDAvailable i)"
  unfolding store_reads requireUnmanaged_def requireExecutionReportIDAvailable_def
  by (intro keeps_rules store_read; simp add: gets_def split: option.splits)+

lemma node_steps:
  "keeps I outside"
  "keeps I (auditNode action acc)"
  "keeps I (fatalPost e)"
  "keeps I (mirrorEngineBlocksAudit bs)"
  unfolding outside_def auditNode_def fatalPost_def mirrorEngineBlocksAudit_def
  by (intro keeps_rules call keeps_modify audit fatal; assumption)+

lemma dictionary_rows:
  "keeps I (read_account acc)"
  "keeps I (read_asset x)"
  "keeps I (insert_account a)"
  "keeps I (insert_asset x)"
  "keeps I (store_call (modify (\<lambda>s. s\<lparr>R_Accounts := g s\<rparr>)))"
  "keeps I (store_call (modify (\<lambda>s. s\<lparr>R_Assets := h s\<rparr>)))"
  unfolding read_account_def read_asset_def insert_account_def insert_asset_def
  by (intro keeps_rules call keeps_modify accounts assets; simp add: keeps_def accounts assets)+

lemma missing: "keeps I (missing_asset codes)"
  by (induction codes) (auto intro!: keeps_rules dictionary_rows)

lemma registered:
  "keeps I (registerAccount pr c code)"
  "keeps I (registerAsset pr code)"
  "keeps I (ensureAccountAndAssetsRegisteredExclusive pr c policy code codes)"
proof -
  show a: "keeps I (registerAccount pr c code)" and b: "keeps I (registerAsset pr code)" for code
    unfolding registerAccount_def registerAsset_def rollback_creation_def
    by (intro keeps_rules dictionary_rows node_steps)+
  have "keeps I (ensureAccountRegistered pr c policy code)"
    unfolding ensureAccountRegistered_def
    by (cases policy) (auto intro!: keeps_rules dictionary_rows a)
  then show "keeps I (ensureAccountAndAssetsRegisteredExclusive pr c policy code codes)"
    unfolding ensureAccountAndAssetsRegisteredExclusive_def
    by (intro keeps_rules dictionary_rows node_steps missing b)
qed

lemmas row_rules = tx_reads ids rows order_reads node_steps registered(3)

end

locale settlement_blind = row_blind +
  assumes orders: "I s \<Longrightarrow> I (s\<lparr>R_Orders := os\<rparr>)"
    and reports: "I s \<Longrightarrow> I (s\<lparr>R_Reports := ids\<rparr>)"
    and engine: "I s \<Longrightarrow> I (s\<lparr>R_Engine := es\<rparr>)"
begin

lemma order_row: "keeps I (modify_order oid f)"
  unfolding modify_order_def by (rule keeps_modify) (rule orders)

lemma events: "keeps I (recordEventTx oid attest xid ev)"
proof -
  have "keeps I (putEventAttestationTx oid xid att)" for xid att
    unfolding putEventAttestationTx_def by (intro keeps_rules tx_reads order_row)
  then show ?thesis
    unfolding recordEventTx_def appendOrderEventReturningTx_def attestOrderEventTx_def
    by (intro keeps_rules tx_reads ids order_row)
qed

lemma settlement_tx: "keeps I (recordOrderSettlementTx D pr attest st)"
proof -
  have r: "keeps I (insertExecutionReportTx x)" for x
    unfolding insertExecutionReportTx_def
    by (intro keeps_rules ids) (auto simp: keeps_def reports)
  have g: "keeps I (guardedOrderStatus oid status from_statuses)" for oid status from_statuses
  proof -
    have "keeps I (\<lambda>s. case R_Orders s oid of None \<Rightarrow> (Inl e, s)
       | Some d \<Rightarrow> if c d then (Inl e', s) else modify_order oid f s)" for e e' c f
      using order_row by (auto simp: keeps_def split: option.splits)
    then show ?thesis unfolding guardedOrderStatus_def by (intro keeps_rules tx_reads)
  qed
  have t: "keeps I (insertTrade D tr)" for tr
    unfolding insertTrade_def by (intro keeps_rules tx_reads ids order_row)
  have o: "keeps I (settleOrderRowTx D st)"
    unfolding settleOrderRowTx_def by (intro keeps_rules order_row)
  show ?thesis
    unfolding recordOrderSettlementTx_def by (intro keeps_rules tx_reads rows events r g t o)
qed

lemma in_transaction: "keeps I m \<Longrightarrow> keeps I (atomic m)"
  by (fastforce simp: keeps_def atomic_def split: prod.splits sum.splits)

lemma settlement: "keeps I (RecordOrderSettlement D pr attest st)"
  unfolding RecordOrderSettlement_def by (intro call in_transaction settlement_tx)

lemma engine_run: "keeps I (engine_call E j remainder)"
  by (auto simp: keeps_def engine_call_def engine split: sum.splits)

lemma report: "keeps I (applyExecutionReport D E c i)"
  unfolding applyExecutionReport_def settleExecutionReport_def recordWorkflowExecutionReport_def
    persist_report_def
  by (intro keeps_rules row_rules settlement engine_run)

end

end
