(* ===== verification/SettlementSafety.thy ===== *)
theory SettlementSafety
  imports SettlementFrame
begin

section \<open>What a settlement does to the store\<close>

text \<open>
  The effect of the settlement transaction on the orders: one order gets the trade, the events and
  the new row values, a report id that was free is taken, and links and other orders stay. A
  transaction that fails has no effect.
\<close>

subsection \<open>Operations that leave orders and report ids alone\<close>

definition books ::
  "(string \<rightharpoonup> order_detail) \<Rightarrow> string list \<Rightarrow> venue_order list \<Rightarrow> execution_report_input list
     \<Rightarrow> string list \<Rightarrow> 'z realm_scheme \<Rightarrow> bool" where
  "books os rs ls es vs s \<longleftrightarrow> R_Orders s = os \<and> R_Reports s = rs \<and> R_Links s = ls \<and> R_Engine s = es
     \<and> R_Reserved s = vs"

abbreviation books_of :: "'z realm_scheme \<Rightarrow> 'z realm_scheme \<Rightarrow> bool" where
  "books_of s \<equiv> books (R_Orders s) (R_Reports s) (R_Links s) (R_Engine s) (R_Reserved s)"

lemma books_simps [simp]:
  "books os rs ls es vs (s\<lparr>R_Faults := a1\<rparr>) = books os rs ls es vs s"
  "books os rs ls es vs (s\<lparr>R_Audit := a2\<rparr>) = books os rs ls es vs s"
  "books os rs ls es vs (s\<lparr>R_Fatal := a3\<rparr>) = books os rs ls es vs s"
  "books os rs ls es vs (s\<lparr>R_Fresh := a4\<rparr>) = books os rs ls es vs s"
  "books os rs ls es vs (s\<lparr>R_Accounts := a5\<rparr>) = books os rs ls es vs s"
  "books os rs ls es vs (s\<lparr>R_Assets := a6\<rparr>) = books os rs ls es vs s"
  "books os rs ls es vs (s\<lparr>R_Balances := a7\<rparr>) = books os rs ls es vs s"
  by (simp_all add: books_def)

lemma books_refl [simp]: "books_of s s"
  by (simp add: books_def)

lemma books_trans: "books_of s u \<Longrightarrow> books_of u t \<Longrightarrow> books_of s t"
  by (simp add: books_def)

lemma books_keeps: "(\<And>os rs ls es vs. keeps (books os rs ls es vs) m) \<Longrightarrow> m s = (r, t) \<Longrightarrow> books_of s t"
  by (metis books_refl keepsD snd_conv)

interpretation books_frame: row_blind "books os rs ls es vs" for os rs ls es vs
  by unfold_locales simp_all

named_theorems books_rules

lemmas books_kept [books_rules] = books_frame.row_rules

text \<open>A read that must find its row finds it and changes nothing.\<close>

lemma require_Inr [simp]: "require P e s = (Inr x, t) \<longleftrightarrow> P s \<and> t = s"
  by (auto simp: require_def reads_def)

lemma known_Inr [simp]: "known b s = (Inr x, t) \<longleftrightarrow> b \<and> t = s"
  by (auto simp: known_def)

lemma requireSource_Inr [simp]: "requireSource c s = (Inr x, t) \<longleftrightarrow> c \<noteq> OtherSource [] \<and> t = s"
  by (auto simp: requireSource_def)

lemma known_same: "known b s = (Inr x, t) \<Longrightarrow> t = s"
  by simp

lemma modify_order_run: "modify_order oid f s = (Inr (), s\<lparr>R_Orders := (R_Orders s)(oid := map_option f (R_Orders s oid))\<rparr>)"
  by (simp add: modify_order_def modify_def)

subsection \<open>Steps on one order\<close>

text \<open>A step that changes the row of one order in the way \<open>C\<close> allows, and nothing else of the books.\<close>

definition changes ::
  "string \<Rightarrow> (order_detail \<Rightarrow> order_detail \<Rightarrow> bool) \<Rightarrow> 'z realm_scheme \<Rightarrow> 'z realm_scheme \<Rightarrow> bool" where
  "changes oid C s t \<longleftrightarrow> (\<exists>d d'. R_Orders s oid = Some d \<and> C d d'
     \<and> books ((R_Orders s)(oid \<mapsto> d')) (R_Reports s) (R_Links s) (R_Engine s) (R_Reserved s) t)"

lemma changesI:
  "R_Orders s oid = Some d \<Longrightarrow> C d d' \<Longrightarrow>
   books ((R_Orders s)(oid \<mapsto> d')) (R_Reports s) (R_Links s) (R_Engine s) (R_Reserved s) t \<Longrightarrow> changes oid C s t"
  unfolding changes_def by blast

lemma changes_books_before: "books_of s u \<Longrightarrow> changes oid C u t \<Longrightarrow> changes oid C s t"
  by (auto simp: changes_def books_def)

lemma changes_books_after: "changes oid C s u \<Longrightarrow> books_of u t \<Longrightarrow> changes oid C s t"
  by (auto simp: changes_def books_def)

lemma changes_trans:
  assumes "changes oid C s u" and "changes oid C' u t" and "\<And>d e f. C d e \<Longrightarrow> C' e f \<Longrightarrow> C'' d f"
  shows "changes oid C'' s t"
proof -
  obtain d e where d: "R_Orders s oid = Some d" "C d e"
      "books ((R_Orders s)(oid \<mapsto> e)) (R_Reports s) (R_Links s) (R_Engine s) (R_Reserved s) u"
    using assms(1) unfolding changes_def by blast
  obtain e' f where f: "R_Orders u oid = Some e'" "C' e' f"
      "books ((R_Orders u)(oid \<mapsto> f)) (R_Reports u) (R_Links u) (R_Engine u) (R_Reserved u) t"
    using assms(2) unfolding changes_def by blast
  have "e' = e" using d(3) f(1) by (simp add: books_def)
  then show ?thesis using d f assms(3) unfolding changes_def by (auto simp: books_def)
qed

lemma changes_mono: "changes oid C s t \<Longrightarrow> (\<And>d e. C d e \<Longrightarrow> C' d e) \<Longrightarrow> changes oid C' s t"
  unfolding changes_def by blast

lemma changes_modify:
  "modify_order oid f s = (Inr x, t) \<Longrightarrow> R_Orders s oid = Some d \<Longrightarrow> changes oid (\<lambda>d e. e = f d) s t"
  by (auto simp: modify_order_run changes_def books_def)

lemma changes_keep: "R_Orders s oid = Some d \<Longrightarrow> changes oid (=) s s"
  by (auto simp: changes_def books_def fun_upd_idem)

lemma changes_some: "changes oid C s t \<Longrightarrow> \<exists>d. R_Orders t oid = Some d"
  by (auto simp: changes_def books_def)

text \<open>What one event leaves behind, and what a settled order looks like.\<close>

definition records :: "string \<Rightarrow> string \<Rightarrow> order_event \<Rightarrow> order_event \<Rightarrow> bool" where
  "records oid xid ev stored \<longleftrightarrow> (\<exists>i now att. stored = (stored_event oid i now (stamp_report_id xid ev))
     \<lparr>Event_Attestation := att\<rparr>)"

definition books_trade :: "trade option \<Rightarrow> order_detail \<Rightarrow> order_detail \<Rightarrow> bool" where
  "books_trade trade d e \<longleftrightarrow> (\<exists>i now. e = d\<lparr>Det_Trades := Det_Trades d
     @ (case trade of None \<Rightarrow> [] | Some t \<Rightarrow> [t\<lparr>Trade_ExternalID := i, Trade_At := now\<rparr>])\<rparr>)"

text \<open>The events so far may be attested, and the new ones are appended.\<close>

definition reattested :: "order_event \<Rightarrow> order_event \<Rightarrow> bool" where
  "reattested x y \<longleftrightarrow> (\<exists>a. y = x\<lparr>Event_Attestation := a\<rparr>)"

definition appends :: "string \<Rightarrow> string \<Rightarrow> order_event list \<Rightarrow> order_detail \<Rightarrow> order_detail \<Rightarrow> bool" where
  "appends oid xid evs d e \<longleftrightarrow> Det_Trades e = Det_Trades d \<and> Det_Order e = Det_Order d
     \<and> (\<exists>old new. Det_Events e = old @ new \<and> list_all2 reattested (Det_Events d) old
          \<and> list_all2 (records oid xid) evs new)"

lemma reattested_refl [simp]: "reattested x x"
  unfolding reattested_def by (rule exI[of _ "Event_Attestation x"]) simp

lemma reattested_trans: "reattested x y \<Longrightarrow> reattested y z \<Longrightarrow> reattested x z"
  by (auto simp: reattested_def)

lemma reattested_attest: "reattested x (attest_event xid att x)"
  unfolding attest_event_def by (auto simp: reattested_def intro: reattested_refl[unfolded reattested_def])

lemma records_reattested: "records oid xid ev y \<Longrightarrow> reattested y z \<Longrightarrow> records oid xid ev z"
proof -
  assume "records oid xid ev y" "reattested y z"
  then obtain i now att a where "z = (stored_event oid i now (stamp_report_id xid ev))
      \<lparr>Event_Attestation := att\<rparr>\<lparr>Event_Attestation := a\<rparr>"
    by (auto simp: records_def reattested_def)
  then have "z = (stored_event oid i now (stamp_report_id xid ev))\<lparr>Event_Attestation := a\<rparr>" by simp
  then show ?thesis unfolding records_def by blast
qed

lemma records_new: "records oid xid ev (stored_event oid i now (stamp_report_id xid ev))"
  unfolding records_def by (intro exI[of _ i] exI[of _ now] exI[of _ None]) (simp add: stored_event_def)

lemma all_reattested_refl: "list_all2 reattested xs xs"
  by (simp add: list.rel_refl)

lemma all_reattested_trans: "list_all2 reattested xs ys \<Longrightarrow> list_all2 reattested ys zs \<Longrightarrow> list_all2 reattested xs zs"
  by (rule list_all2_trans[where ?P1.0 = reattested and ?P2.0 = reattested]) (auto intro: reattested_trans)

lemma all_records_reattested:
  "list_all2 (records oid xid) evs ys \<Longrightarrow> list_all2 reattested ys zs \<Longrightarrow> list_all2 (records oid xid) evs zs"
  by (rule list_all2_trans[where ?P1.0 = "records oid xid" and ?P2.0 = reattested]) (auto intro: records_reattested)

lemma appends_trans:
  assumes "appends oid xid evs d e" and "appends oid xid evs' e f"
  shows "appends oid xid (evs @ evs') d f"
proof -
  obtain old new where e: "Det_Events e = old @ new" "list_all2 reattested (Det_Events d) old"
      "list_all2 (records oid xid) evs new"
    using assms(1) by (auto simp: appends_def)
  obtain old' new' where f: "Det_Events f = old' @ new'" "list_all2 reattested (old @ new) old'"
      "list_all2 (records oid xid) evs' new'"
    using assms(2) e(1) by (auto simp: appends_def)
  obtain o1 o2 where o: "old' = o1 @ o2" "list_all2 reattested old o1" "list_all2 reattested new o2"
    using f(2) by (auto simp: list_all2_append1)
  have "list_all2 (records oid xid) (evs @ evs') (o2 @ new')"
    by (rule list_all2_appendI[OF all_records_reattested[OF e(3) o(3)] f(3)])
  then show ?thesis
    using assms f(1) o(1) all_reattested_trans[OF e(2) o(2)] unfolding appends_def
    by (intro conjI exI[of _ o1] exI[of _ "o2 @ new'"]) auto
qed

lemma putEventAttestationTx_changes:
  assumes "putEventAttestationTx oid xid' att s = (Inr x, t)"
  shows "changes oid (appends oid xid []) s t"
proof -
  obtain d where d: "R_Orders s oid = Some d"
    and m: "modify_order oid (\<lambda>d. d\<lparr>Det_Events := map (attest_event xid' att) (Det_Events d)\<rparr>) s = (Inr x, t)"
    using assms unfolding putEventAttestationTx_def resolveSigningKeyID_def
    by (auto simp: andthen_Inr simp del: known_Inr dest!: known_same split: option.splits if_splits)
  from changes_modify[OF m d] show ?thesis
    by (rule changes_mono) (auto simp: appends_def list_all2_map2 reattested_attest intro: list.rel_refl_strong)
qed

lemma attestOrderEventTx_changes:
  assumes "attestOrderEventTx oid attest ev s = (Inr x, t)" and "R_Orders s oid = Some d"
  shows "changes oid (appends oid xid []) s t"
proof (cases attest)
  case None
  then have "t = s" using assms(1) by (simp add: attestOrderEventTx_def)
  then show ?thesis using changes_keep[OF assms(2)] all_reattested_refl
    by (auto simp: appends_def intro: changes_mono)
next
  case (Some sign)
  then obtain att where "putEventAttestationTx oid (Event_ExternalID ev) att s = (Inr x, t)"
    using assms(1) by (auto simp: attestOrderEventTx_def andthen_Inr split: option.splits)
  then show ?thesis by (rule putEventAttestationTx_changes)
qed

lemma appendOrderEventReturningTx_changes:
  assumes "appendOrderEventReturningTx oid (stamp_report_id xid ev) s = (Inr r, t)" and "R_Orders s oid = Some d"
  shows "changes oid (appends oid xid [ev]) s t"
proof -
  obtain i now u v where u: "books_of s u" "R_Orders u oid = Some d"
    and m: "modify_order oid (\<lambda>d. d\<lparr>Det_Events := Det_Events d
      @ [stored_event oid i now (stamp_report_id xid ev)]\<rparr>) u = (Inr (), t)"
  proof -
    obtain u0 i u where "resolveOptionalPrincipalID (Event_Principal (stamp_report_id xid ev)) s = (Inr (), u0)"
      and "newExternalID u0 = (Inr i, u)"
      and "modify_order oid (\<lambda>d. d\<lparr>Det_Events := Det_Events d
        @ [stored_event oid i (R_Now u) (stamp_report_id xid ev)]\<rparr>) u = (Inr (), t)"
      using assms(1) unfolding appendOrderEventReturningTx_def by (auto simp: andthen_Inr gets_def)
    moreover from this(1,2) have "books_of s u0" "books_of u0 u"
      by (auto intro: books_keeps[rotated] books_rules)
    ultimately show thesis using that assms(2) by (auto simp: books_def)
  qed
  from changes_modify[OF m u(2)] have "changes oid (appends oid xid [ev]) u t"
    by (rule changes_mono)
       (simp add: appends_def, intro exI conjI, rule refl, rule all_reattested_refl, simp add: records_new)
  then show ?thesis by (rule changes_books_before[OF u(1)])
qed

lemma recordEventTx_changes:
  assumes "recordEventTx oid attest xid ev s = (Inr x, t)" and "R_Orders s oid = Some d"
  shows "changes oid (appends oid xid [ev]) s t"
proof -
  obtain r u where r: "appendOrderEventReturningTx oid (stamp_report_id xid ev) s = (Inr r, u)"
    and a: "attestOrderEventTx oid attest r u = (Inr x, t)"
    using assms(1) unfolding recordEventTx_def by (auto simp: andthen_Inr)
  note first = appendOrderEventReturningTx_changes[OF r assms(2)]
  obtain e where "R_Orders u oid = Some e" using changes_some[OF first] by blast
  from changes_trans[OF first attestOrderEventTx_changes[OF a this, of xid]] show ?thesis
    using appends_trans[of oid xid "[ev]" _ _ "[]"] by simp
qed

lemma recordEvents_changes:
  assumes "each (recordEventTx oid attest xid) evs s = (Inr x, t)" and "R_Orders s oid = Some d"
  shows "changes oid (appends oid xid evs) s t"
  using assms
proof (induction evs arbitrary: s d)
  case Nil
  then show ?case using changes_keep[OF Nil.prems(2)] all_reattested_refl
    by (auto simp: appends_def intro: changes_mono)
next
  case (Cons ev evs)
  obtain y u where h: "recordEventTx oid attest xid ev s = (Inr y, u)"
    and r: "each (recordEventTx oid attest xid) evs u = (Inr x, t)"
    using Cons.prems(1) by (auto simp: andthen_Inr)
  note first = recordEventTx_changes[OF h Cons.prems(2)]
  obtain e where "R_Orders u oid = Some e" using changes_some[OF first] by blast
  from changes_trans[OF first Cons.IH[OF r this]] show ?case
    using appends_trans[of oid xid "[ev]" _ _ evs] by simp
qed

subsection \<open>The whole transaction\<close>

text \<open>The values a settlement writes to the order row.\<close>

definition settled_order :: "settlement \<Rightarrow> order \<Rightarrow> order" where
  "settled_order st oi = oi
     \<lparr> Order_Lock := (if Set_SetLock st then Set_Lock st else Order_Lock oi),
       Order_Leaves := (if Set_Leaves st \<noteq> [] then Set_Leaves st else Order_Leaves oi),
       Order_ReservedQuantity := (if Set_ReservedQuantity st \<noteq> [] then Set_ReservedQuantity st
         else Order_ReservedQuantity oi),
       Order_Status := Set_OrderStatus st \<rparr>"

definition settles_detail :: "settlement \<Rightarrow> string \<Rightarrow> order_detail \<Rightarrow> order_detail \<Rightarrow> bool" where
  "settles_detail st xid d e \<longleftrightarrow> Det_Order e = settled_order st (Det_Order d)
     \<and> (\<exists>i now. Det_Trades e = Det_Trades d
          @ (case Set_Trade st of None \<Rightarrow> [] | Some t \<Rightarrow> [t\<lparr>Trade_ExternalID := i, Trade_At := now\<rparr>]))
     \<and> (\<exists>old new. Det_Events e = old @ new \<and> list_all2 reattested (Det_Events d) old
          \<and> list_all2 (records (Set_Order st) xid) (Set_Events st) new)"

definition settled :: "settlement \<Rightarrow> string \<Rightarrow> 'z realm_scheme \<Rightarrow> 'z realm_scheme \<Rightarrow> bool" where
  "settled st xid s t \<longleftrightarrow>
     (\<exists>d e. R_Orders s (Set_Order st) = Some d \<and> settles_detail st xid d e
        \<and> R_Orders t = (R_Orders s)(Set_Order st \<mapsto> e)
        \<and> (Set_AllowedFrom st \<noteq> [] \<longrightarrow> Order_Status (Det_Order d) \<in> set (Set_AllowedFrom st)))
     \<and> (case Set_ReportID st of
          None \<Rightarrow> R_Reports t = R_Reports s
        | Some x \<Rightarrow> xid \<notin> set (R_Reports s) \<and> R_Reports t = R_Reports s @ [xid]
            \<and> (x \<noteq> [] \<longrightarrow> xid = x))
     \<and> R_Links t = R_Links s \<and> R_Engine t = R_Engine s \<and> R_Reserved t = R_Reserved s"

text \<open>The trade of a settlement belongs to its order.\<close>

definition own_trade :: "settlement \<Rightarrow> bool" where
  "own_trade st \<longleftrightarrow> (case Set_Trade st of None \<Rightarrow> True | Some t \<Rightarrow> Trade_Order t = Set_Order st)"

lemma insertExecutionReportTx_Inr:
  "insertExecutionReportTx rid s = (Inr xid, t) \<Longrightarrow>
    R_Orders t = R_Orders s \<and> R_Links t = R_Links s \<and> R_Engine t = R_Engine s \<and> R_Reserved t = R_Reserved s \<and>
    (case rid of None \<Rightarrow> R_Reports t = R_Reports s
      | Some x \<Rightarrow> xid \<notin> set (R_Reports s) \<and> R_Reports t = R_Reports s @ [xid]
          \<and> (x \<noteq> [] \<longrightarrow> xid = x))"
  by (cases rid)
    (auto simp: insertExecutionReportTx_def andthen_Inr externalIDForInsert_def newExternalID_def
      split: if_splits list.splits)

lemma insertTrade_changes:
  assumes "insertTrade D tr s = (Inr x, t)"
  shows "changes (Trade_Order tr) (books_trade (Some tr)) s t"
proof -
  obtain d i now u where d: "R_Orders s (Trade_Order tr) = Some d" and u: "books_of s u"
    and m: "modify_order (Trade_Order tr) (\<lambda>d. d\<lparr>Det_Trades := Det_Trades d
       @ [tr\<lparr>Trade_ExternalID := i, Trade_At := now\<rparr>]\<rparr>) u = (Inr x, t)"
  proof -
    obtain d u0 i u where "R_Orders s (Trade_Order tr) = Some d"
      and "resolveOptionalPrincipalID (Trade_Principal tr) s = (Inr (), u0)"
      and "newExternalID u0 = (Inr i, u)"
      and "modify_order (Trade_Order tr) (\<lambda>d. d\<lparr>Det_Trades := Det_Trades d
         @ [tr\<lparr>Trade_ExternalID := i, Trade_At := R_Now u\<rparr>]\<rparr>) u = (Inr x, t)"
      using assms unfolding insertTrade_def resolveAccountTx_def resolveAssetTx_def lookupOrderTx_def
      by (auto simp: andthen_Inr gets_def simp del: known_Inr dest!: known_same)
    moreover from this(2,3) have "books_of s u0" "books_of u0 u"
      by (auto intro: books_keeps[rotated] books_rules)
    ultimately show thesis using that books_trans by blast
  qed
  have "R_Orders u (Trade_Order tr) = Some d" using d u by (simp add: books_def)
  from changes_modify[OF m this] have "changes (Trade_Order tr) (books_trade (Some tr)) u t"
    by (rule changes_mono) (auto simp: books_trade_def)
  then show ?thesis by (rule changes_books_before[OF u])
qed

lemma trade_step_changes:
  assumes "(case Set_Trade st of None \<Rightarrow> ret () | Some t \<Rightarrow> insertTrade D t) s = (Inr x, t)"
    and "own_trade st" and "R_Orders s (Set_Order st) = Some d"
  shows "changes (Set_Order st) (books_trade (Set_Trade st)) s t"
proof (cases "Set_Trade st")
  case None
  then have "t = s" using assms(1) by simp
  then show ?thesis using changes_keep[OF assms(3)] None by (auto simp: books_trade_def intro: changes_mono)
next
  case (Some tr)
  then show ?thesis using insertTrade_changes assms(1,2) by (fastforce simp: own_trade_def)
qed

lemma option_step_changes:
  assumes "(if c then modify_order oid f else ret ()) s = (Inr x, t)" and "R_Orders s oid = Some d"
  shows "changes oid (\<lambda>d e. e = (if c then f d else d)) s t"
  using assms changes_modify[of oid f s x t d] changes_keep[OF assms(2)]
  by (cases c) (auto intro: changes_mono)

lemma settleOrderRowTx_changes:
  assumes "settleOrderRowTx D st s = (Inr x, t)" and "R_Orders s (Set_Order st) = Some d"
  shows "changes (Set_Order st) (\<lambda>d e. e = d\<lparr>Det_Order := (settled_order st (Det_Order d))
     \<lparr>Order_Status := Order_Status (Det_Order d)\<rparr>\<rparr>) s t"
proof -
  let ?lock = "\<lambda>d. d\<lparr>Det_Order := (Det_Order d)\<lparr>Order_Lock := Set_Lock st\<rparr>\<rparr>"
    and ?leaves = "\<lambda>d. d\<lparr>Det_Order := (Det_Order d)\<lparr>Order_Leaves := Set_Leaves st\<rparr>\<rparr>"
    and ?res = "\<lambda>d. d\<lparr>Det_Order := (Det_Order d)\<lparr>Order_ReservedQuantity := Set_ReservedQuantity st\<rparr>\<rparr>"
  obtain u v where u: "(if Set_SetLock st then modify_order (Set_Order st) ?lock else ret ()) s = (Inr (), u)"
    and v: "(if Set_Leaves st \<noteq> [] then modify_order (Set_Order st) ?leaves else ret ()) u = (Inr (), v)"
    and t: "(if Set_ReservedQuantity st \<noteq> [] then modify_order (Set_Order st) ?res else ret ()) v = (Inr x, t)"
    using assms(1) unfolding settleOrderRowTx_def by (auto simp: andthen_Inr split: if_splits)
  note 1 = option_step_changes[OF u assms(2)]
  obtain d1 where "R_Orders u (Set_Order st) = Some d1" using changes_some[OF 1] by blast
  note 2 = changes_trans[OF 1 option_step_changes[OF v this]]
  have 2: "changes (Set_Order st) (\<lambda>d e. e = (if Set_Leaves st \<noteq> [] then ?leaves (if Set_SetLock st then ?lock d else d)
     else if Set_SetLock st then ?lock d else d)) s v" by (rule 2) simp
  obtain d2 where "R_Orders v (Set_Order st) = Some d2" using changes_some[OF 2] by blast
  from changes_trans[OF 2 option_step_changes[OF t this]] show ?thesis
    by (auto simp: settled_order_def)
qed

lemma guardedOrderStatus_changes:
  assumes "guardedOrderStatus oid st al s = (Inr x, t)"
  shows "changes oid (\<lambda>d e. e = d\<lparr>Det_Order := (Det_Order d)\<lparr>Order_Status := st\<rparr>\<rparr>
     \<and> (al \<noteq> [] \<longrightarrow> Order_Status (Det_Order d) \<in> set al)) s t"
proof -
  obtain d where d: "R_Orders s oid = Some d" "al \<noteq> [] \<longrightarrow> Order_Status (Det_Order d) \<in> set al"
    and m: "modify_order oid (\<lambda>d. d\<lparr>Det_Order := (Det_Order d)\<lparr>Order_Status := st\<rparr>\<rparr>) s = (Inr x, t)"
    using assms unfolding guardedOrderStatus_def
    by (auto simp: andthen_Inr split: option.splits if_splits)
  then show ?thesis by (auto simp: modify_order_run changes_def books_def)
qed

lemma settled_order_again:
  "(settled_order st oi)\<lparr>Order_Status := Order_Status oi\<rparr>\<lparr>Order_Status := Set_OrderStatus st\<rparr> = settled_order st oi"
  by (simp add: settled_order_def)

lemma settles_assembled:
  assumes "books_trade (Set_Trade st) d d1" and "appends (Set_Order st) xid (Set_Events st) d1 d2"
    and "Det_Trades e = Det_Trades d2" and "Det_Events e = Det_Events d2"
    and "Det_Order e = settled_order st (Det_Order d2)"
  shows "settles_detail st xid d e"
proof -
  obtain i now where 1: "d1 = d\<lparr>Det_Trades := Det_Trades d
     @ (case Set_Trade st of None \<Rightarrow> [] | Some t \<Rightarrow> [t\<lparr>Trade_ExternalID := i, Trade_At := now\<rparr>])\<rparr>"
    using assms(1) by (auto simp: books_trade_def)
  have o: "Det_Order d2 = Det_Order d" using assms(2) 1 by (simp add: appends_def)
  have "Det_Trades e = Det_Trades d
     @ (case Set_Trade st of None \<Rightarrow> [] | Some t \<Rightarrow> [t\<lparr>Trade_ExternalID := i, Trade_At := now\<rparr>])"
    using assms(2,3) 1 by (simp add: appends_def)
  moreover have "\<exists>old new. Det_Events e = old @ new \<and> list_all2 reattested (Det_Events d) old
          \<and> list_all2 (records (Set_Order st) xid) (Set_Events st) new"
    using assms(2,4) 1 by (simp add: appends_def)
  ultimately show ?thesis using assms(5) o unfolding settles_detail_def by metis
qed

lemma assembled_order:
  "books_trade trade d d1 \<Longrightarrow> appends oid xid evs d1 d2 \<Longrightarrow> Det_Order d2 = Det_Order d"
  by (auto simp: books_trade_def appends_def)

lemma recordOrderSettlementTx_Inr:
  assumes "recordOrderSettlementTx D pr sg st s = (Inr xid, t)" and "own_trade st"
  shows "settled st xid s t"
proof -
  let ?oid = "Set_Order st"
  obtain d u1 u2 u3 u4 u5 u6 u7 where d: "R_Orders s ?oid = Some d"
    and 1: "insertExecutionReportTx (Set_ReportID st) s = (Inr xid, u1)"
    and 2: "settleAccountPnlTx (Set_Account st) (Set_AccountPnl st) (Set_AccountPnlHaltReason st) u1 = (Inr (), u2)"
    and 3: "each (settleBalanceTx D (Set_Account st)) (Set_Balances st) u2 = (Inr (), u3)"
    and 4: "each (mirrorBlockTx pr) (Set_Blocks st) u3 = (Inr (), u4)"
    and 5: "(case Set_Trade st of None \<Rightarrow> ret () | Some t \<Rightarrow> insertTrade D t) u4 = (Inr (), u5)"
    and 6: "each (recordEventTx ?oid sg xid) (Set_Events st) u5 = (Inr (), u6)"
    and 7: "settleOrderRowTx D st u6 = (Inr (), u7)"
    and 8: "guardedOrderStatus ?oid (Set_OrderStatus st) (Set_AllowedFrom st) u7 = (Inr (), t)"
    using assms(1) unfolding recordOrderSettlementTx_def resolveAccountTx_def lookupOrderTx_def
    by (auto simp: andthen_Inr)
  note r = insertExecutionReportTx_Inr[OF 1]
  have b: "books_of u1 u4"
  proof -
    have "books_of u1 u2" using 2 by (rule books_keeps[rotated]) (rule books_rules)
    moreover have "books_of u2 u3" using 3 by (rule books_keeps[rotated]) (intro keeps_rules books_rules)
    moreover have "books_of u3 u4" using 4 by (rule books_keeps[rotated]) (intro keeps_rules books_rules)
    ultimately show ?thesis by (simp add: books_def)
  qed
  have d4: "R_Orders u4 ?oid = Some d" using d r b by (simp add: books_def)
  note c5 = trade_step_changes[OF 5 assms(2) d4]
  obtain d5 where d5: "R_Orders u5 ?oid = Some d5" using changes_some[OF c5] by blast
  note c6 = recordEvents_changes[OF 6 d5]
  obtain d6 where d6: "R_Orders u6 ?oid = Some d6" using changes_some[OF c6] by blast
  note c7 = settleOrderRowTx_changes[OF 7 d6]
  have c67: "changes ?oid (\<lambda>d e. \<exists>d5 d6. books_trade (Set_Trade st) d d5 \<and> appends ?oid xid (Set_Events st) d5 d6
      \<and> e = d6\<lparr>Det_Order := (settled_order st (Det_Order d6))\<lparr>Order_Status := Order_Status (Det_Order d6)\<rparr>\<rparr>) u4 u7"
  proof (rule changes_trans[OF c5])
    show "changes ?oid (\<lambda>d e. \<exists>d6. appends ?oid xid (Set_Events st) d d6
        \<and> e = d6\<lparr>Det_Order := (settled_order st (Det_Order d6))\<lparr>Order_Status := Order_Status (Det_Order d6)\<rparr>\<rparr>) u5 u7"
      by (rule changes_trans[OF c6 c7]) blast
  qed blast
  have "changes ?oid (\<lambda>d e. settles_detail st xid d e
      \<and> (Set_AllowedFrom st \<noteq> [] \<longrightarrow> Order_Status (Det_Order d) \<in> set (Set_AllowedFrom st))) u4 t"
  proof (rule changes_trans[OF c67 guardedOrderStatus_changes[OF 8]], elim exE conjE)
    fix d e f d5 d6
    assume p: "books_trade (Set_Trade st) d d5" "appends ?oid xid (Set_Events st) d5 d6"
      and e: "e = d6\<lparr>Det_Order := (settled_order st (Det_Order d6))\<lparr>Order_Status := Order_Status (Det_Order d6)\<rparr>\<rparr>"
      and f: "f = e\<lparr>Det_Order := (Det_Order e)\<lparr>Order_Status := Set_OrderStatus st\<rparr>\<rparr>"
      and al: "Set_AllowedFrom st \<noteq> [] \<longrightarrow> Order_Status (Det_Order e) \<in> set (Set_AllowedFrom st)"
    have "Det_Order d6 = Det_Order d" by (rule assembled_order[OF p])
    moreover have "settles_detail st xid d f"
      by (rule settles_assembled[OF p]) (simp_all add: f e settled_order_again)
    ultimately show "settles_detail st xid d f
        \<and> (Set_AllowedFrom st \<noteq> [] \<longrightarrow> Order_Status (Det_Order d) \<in> set (Set_AllowedFrom st))"
      using al e by simp
  qed
  then have "changes ?oid (\<lambda>d e. settles_detail st xid d e
      \<and> (Set_AllowedFrom st \<noteq> [] \<longrightarrow> Order_Status (Det_Order d) \<in> set (Set_AllowedFrom st))) u1 t"
    by (rule changes_books_before[OF b])
  then show ?thesis
    using r unfolding settled_def changes_def books_def by (auto split: option.splits)
qed

lemma settled_faults: "settled st xid (s\<lparr>R_Faults := fs\<rparr>) t = settled st xid s t"
  by (cases "Set_ReportID st") (simp_all add: settled_def)

lemma RecordOrderSettlement_Inr:
  assumes "RecordOrderSettlement D pr sg st s = (Inr xid, t)" and "own_trade st"
  shows "settled st xid s t"
proof -
  obtain fs where "recordOrderSettlementTx D pr sg st (s\<lparr>R_Faults := fs\<rparr>) = (Inr xid, t)"
    using assms(1) unfolding RecordOrderSettlement_def
    by (auto simp: atomic_def split: sum.splits prod.splits dest!: store_call_Inr)
  from recordOrderSettlementTx_Inr[OF this assms(2)] show ?thesis by (simp add: settled_faults)
qed

lemma atomic_cases:
  "atomic m s = (r, t) \<Longrightarrow> t = s \<or> (\<exists>a. m s = (Inr a, t))"
  by (auto simp: atomic_def split: sum.splits prod.splits)

text \<open>The transaction happened or it did not, whatever the caller is told.\<close>

lemma RecordOrderSettlement_cases:
  assumes "RecordOrderSettlement D pr sg st s = (r, t)" and "own_trade st"
  shows "books_of s t \<or> (\<exists>xid. settled st xid s t)"
proof -
  let ?m = "atomic (recordOrderSettlementTx D pr sg st)"
  obtain fs where "t \<in> {snd (?m s), snd (?m (s\<lparr>R_Faults := fs\<rparr>)), s\<lparr>R_Faults := fs\<rparr>}"
    using snd_store_call[of s ?m] assms(1) unfolding RecordOrderSettlement_def by auto
  moreover have "books_of s (snd (?m u)) \<or> (\<exists>xid. settled st xid s (snd (?m u)))"
    if "u = s \<or> u = s\<lparr>R_Faults := fs\<rparr>" for u
    using that atomic_cases[of "recordOrderSettlementTx D pr sg st" u]
      recordOrderSettlementTx_Inr[of D pr sg st u, OF _ assms(2)]
    by (cases "?m u") (auto simp: settled_faults)
  ultimately show ?thesis by auto
qed

lemma settled_books: "books_of s u \<Longrightarrow> settled st xid u t \<Longrightarrow> settled st xid s t"
  by (cases "Set_ReportID st") (simp_all add: settled_def books_def)

end
