(* ===== verification/ReportSafety.thy ===== *)
theory ReportSafety
  imports SettlementSafety
begin

section \<open>What a report does to the store\<close>

text \<open>
  The effect of one execution report: a report that succeeds settles exactly its order, under
  an id that was free; a report that fails leaves the orders and the report ids alone, or was
  settled and then stopped the node.
\<close>

subsection \<open>The report operation\<close>

lemma GetOrder_Inr: "GetOrder oid s = (Inr d, t) \<Longrightarrow> R_Orders s oid = Some d \<and> books_of s t"
  unfolding GetOrder_def by (auto simp: books_def split: option.splits dest!: store_call_Inr)

lemma fatalPost_result: "fatalPost e s = (r, t) \<Longrightarrow> R_Fatal t \<and> (\<exists>x. r = Inl x)"
  by (auto simp: fatalPost_def andthen_def modify_def raise_def)

text \<open>The settlement that a report asks for.\<close>

definition has_fill :: "execution_report_input \<Rightarrow> bool" where
  "has_fill i \<longleftrightarrow> In_FillQuantity i \<noteq> [] \<and> In_FillPrice i \<noteq> []"

text \<open>The events of a report: the trade or the fee without one, and the change of status.\<close>

definition report_event_types :: "execution_report_input \<Rightarrow> order_event_type list" where
  "report_event_types i =
     (if has_fill i then [OrderEventFill] else if In_Commission i \<noteq> None then [OrderEventCommission] else [])
     @ (case ExecutionReportStatusChangeEvent (In_OrderStatus i) of None \<Rightarrow> [] | Some ty \<Rightarrow> [ty])"

definition event_report :: "order_event \<Rightarrow> order_event_type \<times> execution_report_request option" where
  "event_report e = (Event_Type e, Payload_ExecutionReport (Event_Payload e))"

definition settles :: "caller \<Rightarrow> execution_report_input \<Rightarrow> settlement \<Rightarrow> bool" where
  "settles c i st \<longleftrightarrow> Set_Order st = In_Order i \<and> Set_ReportID st = Some (In_ExternalID i)
     \<and> Set_OrderStatus st = In_OrderStatus i \<and> Set_Leaves st = In_LeavesQuantity i
     \<and> (\<forall>e\<in>set (Set_Events st). Event_Source e = Caller_Source c
          \<and> Event_Principal e = Caller_Principal c)
     \<and> map event_report (Set_Events st)
         = map (\<lambda>ty. (ty, Some (ExecutionReportRequestFromInput i))) (report_event_types i)
     \<and> (case Set_Trade st of
          None \<Rightarrow> \<not> has_fill i
        | Some t \<Rightarrow> has_fill i \<and> Trade_Quantity t = In_FillQuantity i
            \<and> Trade_Price t = In_FillPrice i \<and> Trade_Commission t = In_Commission i
            \<and> Trade_Order t = In_Order i \<and> Trade_Source t = Caller_Source c \<and> Trade_Principal t = Caller_Principal c)"

lemma settles_report:
  "settles c i (report_settlement (enrich_report oi i) q (stampExecutionReportPersistence
     (executionReportPersistenceFrom (enrich_report oi i) outcome) c (ExecutionReportRequestFromInput i)))"
  by (auto simp: settles_def report_settlement_def empty_settlement_def stampExecutionReportPersistence_def
      executionReportPersistenceFrom_def has_fill_def enrich_report_def Let_def stamp_event_def
      report_event_types_def event_report_def new_event_def split: option.splits)

lemma settles_own: "settles c i st \<Longrightarrow> own_trade st"
  by (auto simp: settles_def own_trade_def split: option.splits)

text \<open>
  The three ways a report ends: without an effect, settled with success, or settled although the
  caller sees an error.
\<close>

definition report_effect ::
  "caller \<Rightarrow> execution_report_input \<Rightarrow> 'z realm_scheme \<Rightarrow> 'z realm_scheme \<Rightarrow> bool" where
  "report_effect c i s t \<longleftrightarrow> (\<exists>st xid. settles c i st \<and> settled st xid s t)"

lemma report_effect_books:
  "report_effect c i u t \<Longrightarrow> books_of s u \<Longrightarrow> books_of t v \<Longrightarrow> report_effect c i s v"
  unfolding report_effect_def settled_def books_def by (fastforce split: option.splits)

lemma report_effect_engine: "report_effect c i s t \<Longrightarrow> R_Engine t = R_Engine s"
  by (auto simp: report_effect_def settled_def)

lemma RequireOrderModifiable_None:
  "RequireOrderModifiable st f = None \<longleftrightarrow> \<not> OrderStatusTerminal st \<or> f"
  by (auto simp: RequireOrderModifiable_def check_def)

lemma requireUnmanaged_Inr:
  assumes "requireUnmanaged c oid s = (Inr x, t)"
  shows "(Caller_Source c = SourceSystem \<or> find_link oid (R_Links s) = None) \<and> books_of s t"
  using assms
  by (auto simp: requireUnmanaged_def requireNoVenueOrder_def GetVenueOrder_def handle_Inr gets_def
      books_def split: if_splits dest!: store_call_Inr)

definition engine_ran :: "execution_report_input \<Rightarrow> 'z realm_scheme \<Rightarrow> 'z realm_scheme" where
  "engine_ran j s = s\<lparr>R_Engine := R_Engine s @ [j]\<rparr>"

lemma books_engine_ran: "books_of s u \<Longrightarrow> books_of (engine_ran j s) (engine_ran j u)"
  by (simp add: books_def engine_ran_def)

text \<open>
  After the engine has settled a report: stored with success, or an error that stops the node.
\<close>

definition stored ::
  "caller \<Rightarrow> execution_report_input \<Rightarrow> 'z realm_scheme \<Rightarrow> (go_error + unit) \<Rightarrow> 'z realm_scheme \<Rightarrow> bool"
where
  "stored c i s r t \<longleftrightarrow>
     r = Inr () \<and> report_effect c i s t
   \<or> (\<exists>e. r = Inl e) \<and> R_Fatal t \<and> (books_of s t \<or> report_effect c i s t)"

text \<open>How the settlement of a report through the engine ends.\<close>

definition settle_result ::
  "caller \<Rightarrow> execution_report_input \<Rightarrow> 'z realm_scheme \<Rightarrow> (go_error + unit) \<Rightarrow> 'z realm_scheme \<Rightarrow> bool"
where
  "settle_result c i s r t \<longleftrightarrow>
     (\<exists>e. r = Inl e) \<and> books_of s t
   \<or> (\<exists>j. In_ExternalID j = In_ExternalID i \<and> In_Order j = In_Order i
        \<and> stored c i (engine_ran j s) r t)"

text \<open>How a report that does not need the engine ends.\<close>

definition workflow_result ::
  "caller \<Rightarrow> execution_report_input \<Rightarrow> 'z realm_scheme \<Rightarrow> (go_error + unit) \<Rightarrow> 'z realm_scheme \<Rightarrow> bool"
where
  "workflow_result c i s r t \<longleftrightarrow>
     (\<exists>e. r = Inl e) \<and> books_of s t \<or> report_effect c i s t"

definition runs ::
  "('z realm_scheme \<Rightarrow> (go_error + 'a) \<Rightarrow> 'z realm_scheme \<Rightarrow> bool) \<Rightarrow> ('z, 'a) rop \<Rightarrow> bool" where
  "runs R m \<longleftrightarrow> (\<forall>s. R s (fst (m s)) (snd (m s)))"

lemma runsI: "(\<And>s r t. m s = (r, t) \<Longrightarrow> R s r t) \<Longrightarrow> runs R m"
  unfolding runs_def by (simp add: prod.collapse)

lemma runsD: "runs R m \<Longrightarrow> m s = (r, t) \<Longrightarrow> R s r t"
  by (metis fst_conv runs_def snd_conv)

text \<open>An operation that leaves the books alone can come first.\<close>

definition prefixable ::
  "('z realm_scheme \<Rightarrow> (go_error + 'a) \<Rightarrow> 'z realm_scheme \<Rightarrow> bool) \<Rightarrow> bool" where
  "prefixable R \<longleftrightarrow> (\<forall>s u r t. books_of s u \<longrightarrow> R u r t \<longrightarrow> R s r t)
     \<and> (\<forall>s e t. books_of s t \<longrightarrow> R s (Inl e) t)"

lemma prefixableI:
  "(\<And>s u r t. books_of s u \<Longrightarrow> R u r t \<Longrightarrow> R s r t) \<Longrightarrow>
   (\<And>s e t. books_of s t \<Longrightarrow> R s (Inl e) t) \<Longrightarrow> prefixable R"
  unfolding prefixable_def by blast

lemma prefixable_results: "prefixable (settle_result c i)" "prefixable (workflow_result c i)"
proof -
  have "stored c i s r t" if b: "books_of s u" and r: "stored c i u r t" for s u r t
    using r unfolding stored_def
    using books_trans[OF b] report_effect_books[OF _ b books_refl] by metis
  then have "settle_result c i s r t" if b: "books_of s u" and r: "settle_result c i u r t"
    for s u r t
    using r books_trans[OF b] books_engine_ran[OF b] unfolding settle_result_def by blast
  then show "prefixable (settle_result c i)"
    by (rule prefixableI) (auto simp: settle_result_def)
  have "workflow_result c i s r t" if b: "books_of s u" and r: "workflow_result c i u r t" for s u r t
    using r unfolding workflow_result_def
    using books_trans[OF b] report_effect_books[OF _ b books_refl] by metis
  then show "prefixable (workflow_result c i)"
    by (rule prefixableI) (auto simp: workflow_result_def)
qed

lemma runs_andthen:
  assumes "prefixable R" and "\<And>os rs ls es vs. keeps (books os rs ls es vs) m" and "\<And>a. runs R (f a)"
  shows "runs R (andthen m f)"
  unfolding runs_def
proof
  fix s
  obtain q u where m: "m s = (q, u)" by fastforce
  then have "books_of s u" by (rule books_keeps[OF assms(2)])
  then show "R s (fst (andthen m f s)) (snd (andthen m f s))"
    using m assms(1,3) by (cases q) (auto simp: andthen_def prefixable_def runs_def)
qed

lemma runs_raise: "prefixable R \<Longrightarrow> runs R (raise e)"
  by (simp add: runs_def raise_def prefixable_def)

lemma runs_handle:
  assumes "prefixable R" and "\<And>os rs ls es vs. keeps (books os rs ls es vs) m" and "\<And>a. runs R (f a)"
    and "\<And>e. runs R (h e)"
  shows "runs R (handle m h f)"
  unfolding runs_def
proof
  fix s
  obtain q u where m: "m s = (q, u)" by fastforce
  then have "books_of s u" by (rule books_keeps[OF assms(2)])
  then show "R s (fst (handle m h f s)) (snd (handle m h f s))"
    using m assms(1,3,4) by (cases q) (auto simp: handle_def prefixable_def runs_def)
qed

lemma runs_if: "runs R m \<Longrightarrow> runs R n \<Longrightarrow> runs R (if c then m else n)"
  by simp

subsection \<open>The end of a settlement\<close>

text \<open>Steps that leave the books alone and succeed or stop the node.\<close>

definition fatal_tail :: "('z, unit) rop \<Rightarrow> bool" where
  "fatal_tail m \<longleftrightarrow> (\<forall>s r t. m s = (r, t) \<longrightarrow> books_of s t \<and> (r = Inr () \<or> (\<exists>e. r = Inl e) \<and> R_Fatal t))"

lemma fatal_tailD: "fatal_tail m \<Longrightarrow> m s = (r, t) \<Longrightarrow> books_of s t \<and> (r = Inr () \<or> (\<exists>e. r = Inl e) \<and> R_Fatal t)"
  unfolding fatal_tail_def by blast

lemma fatal_ret: "fatal_tail (ret a)"
  by (simp add: fatal_tail_def ret_def)

lemma fatal_post: "fatal_tail (fatalPost e)"
proof -
  have "books_of s t" if "fatalPost e s = (r, t)" for s r t
    using that by (rule books_keeps[rotated]) (rule books_rules)
  then show ?thesis unfolding fatal_tail_def by (auto dest: fatalPost_result)
qed

lemma fatal_handle:
  assumes "\<And>os rs ls es vs. keeps (books os rs ls es vs) m" and "\<And>a. fatal_tail (f a)"
  shows "fatal_tail (handle m (\<lambda>e. fatalPost (g e)) f)"
  unfolding fatal_tail_def
proof (intro allI impI)
  fix s r t assume h: "handle m (\<lambda>e. fatalPost (g e)) f s = (r, t)"
  obtain q u where m: "m s = (q, u)" by fastforce
  have "books_of s u" by (rule books_keeps[OF assms(1) m])
  then show "books_of s t \<and> (r = Inr () \<or> (\<exists>e. r = Inl e) \<and> R_Fatal t)"
    using h m fatal_tailD[OF assms(2)] fatal_tailD[OF fatal_post] books_trans[of s u t]
    by (cases q) (fastforce simp: handle_def dest: fatalPost_result)+
qed

lemma record_then_fatal:
  assumes "handle (RecordOrderSettlement D pr sg st) (\<lambda>e. fatalPost (f e)) (\<lambda>_. tail) s = (r, t)"
    and "settles c i st" and "fatal_tail tail"
  shows "stored c i s r t"
proof -
  note own = settles_own[OF assms(2)]
  obtain q u where q: "RecordOrderSettlement D pr sg st s = (q, u)" by fastforce
  show ?thesis
  proof (cases q)
    case (Inr x)
    then have e: "report_effect c i s u"
      using RecordOrderSettlement_Inr[OF _ own] q assms(2) unfolding report_effect_def by blast
    have "tail u = (r, t)" using assms(1) q Inr by (simp add: handle_def)
    from fatal_tailD[OF assms(3) this] show ?thesis
      using report_effect_books[OF e books_refl, of t] unfolding stored_def by blast
  next
    case (Inl x)
    then have f: "fatalPost (f x) u = (r, t)" using assms(1) q by (simp add: handle_def)
    have "books_of s u \<or> report_effect c i s u"
      using RecordOrderSettlement_cases[OF q own] assms(2) unfolding report_effect_def by blast
    then show ?thesis
      using fatalPost_result[OF f] fatal_tailD[OF fatal_post f] books_trans[of s u t] report_effect_books[OF _ books_refl]
      unfolding stored_def by blast
  qed
qed

lemma runs_prefix:
  "prefixable R \<Longrightarrow> (\<And>s. snd (m s) = s) \<Longrightarrow> (\<And>a. runs R (f a)) \<Longrightarrow> runs R (andthen m f)"
  by (rule runs_andthen) (auto intro: keeps_read_only)

lemma engine_call_cases:
  "andthen (engine_call E j q) f s =
     (case E_Report E j q of Inl e \<Rightarrow> (Inl e, s) | Inr b \<Rightarrow> f b (engine_ran j s))"
  by (simp add: andthen_def engine_call_def engine_ran_def split: sum.split)

lemma runs_fatal: "runs (stored c i) (fatalPost e)"
proof -
  have "stored c i s r t" if "fatalPost e s = (r, t)" for s r t
    using fatal_tailD[OF fatal_post that] fatalPost_result[OF that] by (auto simp: stored_def)
  then show ?thesis by (rule runsI)
qed

lemma persist_runs: "runs (stored c i) (persist_report D E c i (enrich_report oi i) od outcome)"
proof -
  let ?p = "stampExecutionReportPersistence (executionReportPersistenceFrom (enrich_report oi i) outcome) c
      (ExecutionReportRequestFromInput i)"
  show ?thesis
  proof (cases "reservationAfterOutcomes D od (Per_Balances ?p)")
    case (Inl e)
    then show ?thesis using runs_fatal by (simp add: persist_report_def Let_def)
  next
    case (Inr q)
    have tail: "fatal_tail (handle (mirrorEngineBlocksAudit bs) fatalPost
        (\<lambda>_. handle (auditReport a) (\<lambda>e. fatalPost (g e)) ret))" for bs a g
      by (rule fatal_handle[where g = "\<lambda>e. e"], rule books_rules, intro fatal_handle fatal_ret books_rules)
    then show ?thesis
      unfolding persist_report_def Let_def Inr sum.case
      by (intro runsI) (erule record_then_fatal[OF _ settles_report tail])
  qed
qed

text \<open>
  A report that goes through the engine: refused without an effect, or the engine ran and then
  the settlement is stored with success or the node stops.
\<close>

lemma runs_engine_call:
  assumes "\<And>b. runs (stored c i) (f b)"
    and "In_ExternalID j = In_ExternalID i" and "In_Order j = In_Order i"
  shows "runs (settle_result c i) (andthen (engine_call E j q) f)"
  using assms unfolding runs_def engine_call_cases settle_result_def
  by (auto split: sum.split)

lemma runs_answer:
  "runs (stored c i) (case answer of Inl e \<Rightarrow> fatalPost (Wrap m e)
     | Inr outcome \<Rightarrow> persist_report D E c i (enrich_report oi i) od outcome)"
  by (cases answer) (simp_all add: runs_fatal persist_runs)

lemma settleExecutionReport_runs:
  "runs (settle_result c i) (settleExecutionReport D E c i)"
proof -
  note p = prefixable_results(1)[of c i]
  have e: "In_ExternalID (enrich_report oi i) = In_ExternalID i"
    "In_Order (enrich_report oi i) = In_Order i" for oi
    by (simp_all add: enrich_report_def)
  show ?thesis
    unfolding settleExecutionReport_def Let_def
    by (intro runs_handle runs_andthen runs_prefix runs_engine_call runs_answer p runs_raise
        books_rules e) (auto simp: lift_out_def lift_res_def)
qed

lemma settles_workflow:
  "Event_Source e = Caller_Source c \<Longrightarrow> Event_Principal e = Caller_Principal c \<Longrightarrow> \<not> has_fill i \<Longrightarrow>
   In_Commission i = None \<Longrightarrow> ExecutionReportStatusChangeEvent (In_OrderStatus i) = Some (Event_Type e) \<Longrightarrow>
   Payload_ExecutionReport (Event_Payload e) = Some (ExecutionReportRequestFromInput i) \<Longrightarrow>
   settles c i (empty_settlement \<lparr> Set_ReportID := Some (In_ExternalID i), Set_Account := a,
     Set_OrderStatus := In_OrderStatus i, Set_Leaves := In_LeavesQuantity i,
     Set_Order := In_Order i, Set_AllowedFrom := al, Set_Events := [e] \<rparr>)"
  by (simp add: settles_def empty_settlement_def report_event_types_def event_report_def)

lemma runs_record:
  assumes "settles c i st"
  shows "runs (workflow_result c i) (handle (RecordOrderSettlement D pr sg st) (\<lambda>e. raise (f e))
     (\<lambda>_. handle (auditReport a) (\<lambda>e. fatalPost (g e)) ret))"
proof -
  note own = settles_own[OF assms]
  have tail: "fatal_tail (handle (auditReport a) (\<lambda>e. fatalPost (g e)) ret)"
    by (intro fatal_handle fatal_ret books_rules)
  have "workflow_result c i s r t"
    if m: "handle (RecordOrderSettlement D pr sg st) (\<lambda>e. raise (f e))
     (\<lambda>_. handle (auditReport a) (\<lambda>e. fatalPost (g e)) ret) s = (r, t)" for s r t
  proof (cases "RecordOrderSettlement D pr sg st s")
    case (Pair q u)
    show ?thesis
    proof (cases q)
      case (Inr x)
      then have e: "report_effect c i s u"
        using RecordOrderSettlement_Inr[OF _ own] Pair assms unfolding report_effect_def by blast
      have "handle (auditReport a) (\<lambda>e. fatalPost (g e)) ret u = (r, t)"
        using m Pair Inr by (simp add: handle_def)
      from fatal_tailD[OF tail this] show ?thesis
        using report_effect_books[OF e books_refl, of t] unfolding workflow_result_def by blast
    next
      case (Inl x)
      then have "t = u" "r = Inl (f x)" using m Pair by (simp_all add: handle_def raise_def)
      then show ?thesis
        using RecordOrderSettlement_cases[OF Pair own] assms
        unfolding workflow_result_def report_effect_def by blast
    qed
  qed
  then show ?thesis by (rule runsI)
qed

lemma recordWorkflowExecutionReport_runs:
  assumes "\<not> executionReportCarriesEnginePayload i"
  shows "runs (workflow_result c i) (recordWorkflowExecutionReport D E c i)"
proof -
  note p = prefixable_results(2)[of c i]
  have n: "\<not> has_fill i" "In_Commission i = None"
    using assms by (auto simp: has_fill_def executionReportCarriesEnginePayload_def)
  show ?thesis
    unfolding recordWorkflowExecutionReport_def Let_def
    by (cases "ExecutionReportStatusChangeEvent (In_OrderStatus i)"; simp only: option.case)
      (intro runs_handle runs_andthen runs_prefix p runs_raise runs_record settles_workflow
        books_rules n; simp add: lift_out_def new_event_def)+
qed

text \<open>A successful report has the effect it asks for, with or without the engine.\<close>

lemma applyExecutionReport_effect:
  assumes "applyExecutionReport D E c i s = (Inr (), t)"
  shows "\<exists>u. report_effect c i u t \<and> (u = s \<or> (\<exists>j. u = engine_ran j s))"
proof -
  obtain b where b: "ExecutionReportRequiresEngine D i = Inr b"
    and m: "(if b then settleExecutionReport D E c i else recordWorkflowExecutionReport D E c i) s
      = (Inr (), t)"
    using assms unfolding applyExecutionReport_def by (auto simp: andthen_Inr)
  show ?thesis
  proof (cases b)
    case True
    then have "settle_result c i s (Inr ()) t"
      using m runsD[OF settleExecutionReport_runs] by simp
    then show ?thesis by (auto simp: settle_result_def stored_def)
  next
    case False
    then have "\<not> executionReportCarriesEnginePayload i"
      using b unfolding ExecutionReportRequiresEngine_wf by blast
    then have "workflow_result c i s (Inr ()) t"
      using m False runsD[OF recordWorkflowExecutionReport_runs] by simp
    then show ?thesis by (auto simp: workflow_result_def)
  qed
qed

text \<open>Whatever the caller is told, a report is settled once or not at all.\<close>

lemma applyExecutionReport_cases:
  assumes "applyExecutionReport D E c i s = (r, t)"
  shows "\<exists>u. (u = s \<or> (\<exists>j. u = engine_ran j s)) \<and> (books_of u t \<or> report_effect c i u t)"
proof (cases "ExecutionReportRequiresEngine D i")
  case (Inl e)
  then have "t = s" using assms by (simp add: applyExecutionReport_def andthen_def lift_res_def)
  then show ?thesis using books_refl by blast
next
  case (Inr b)
  then have m: "(if b then settleExecutionReport D E c i else recordWorkflowExecutionReport D E c i) s
      = (r, t)"
    using assms by (simp add: applyExecutionReport_def andthen_def lift_res_def)
  show ?thesis
  proof (cases b)
    case True
    then have "settle_result c i s r t" using m runsD[OF settleExecutionReport_runs] by simp
    then show ?thesis unfolding settle_result_def stored_def by blast
  next
    case False
    then have "\<not> executionReportCarriesEnginePayload i"
      using Inr unfolding ExecutionReportRequiresEngine_wf by blast
    then have "workflow_result c i s r t"
      using m False runsD[OF recordWorkflowExecutionReport_runs] by simp
    then show ?thesis unfolding workflow_result_def by blast
  qed
qed

lemma engine_ran_fields [simp]:
  "R_Orders (engine_ran j s) = R_Orders s" "R_Reports (engine_ran j s) = R_Reports s"
  "R_Links (engine_ran j s) = R_Links s" "R_Engine (engine_ran j s) = R_Engine s @ [j]"
  "R_Reserved (engine_ran j s) = R_Reserved s"
  by (simp_all add: engine_ran_def)

lemma report_effect_reports:
  "report_effect c i s t \<Longrightarrow>
   \<exists>xid. xid \<notin> set (R_Reports s) \<and> R_Reports t = R_Reports s @ [xid]
     \<and> (In_ExternalID i \<noteq> [] \<longrightarrow> xid = In_ExternalID i)"
  by (auto simp: report_effect_def settled_def settles_def)

text \<open>No report id is stored twice.\<close>

lemma reports_once: "keeps (\<lambda>s. distinct (R_Reports s)) (applyExecutionReport D E c i)"
  unfolding keeps_def
proof (intro allI impI)
  fix s assume "distinct (R_Reports s)"
  then show "distinct (R_Reports (snd (applyExecutionReport D E c i s)))"
    using applyExecutionReport_cases[OF surjective_pairing[of "applyExecutionReport D E c i s"]] report_effect_reports
    by (fastforce simp: books_def)
qed

text \<open>The trades of orders change only by the fill of the report.\<close>

definition trades_of :: "'z realm_scheme \<Rightarrow> string \<Rightarrow> trade list option" where
  "trades_of s oid = map_option Det_Trades (R_Orders s oid)"

lemma report_effect_trades:
  assumes "report_effect c i s t"
  shows "(if has_fill i
     then \<exists>ts tr. trades_of s (In_Order i) = Some ts
        \<and> trades_of t = (trades_of s)(In_Order i \<mapsto> ts @ [tr])
        \<and> Trade_Quantity tr = In_FillQuantity i \<and> Trade_Price tr = In_FillPrice i
     else trades_of t = trades_of s)"
proof -
  obtain st xid where st: "settles c i st" and e: "settled st xid s t"
    using assms unfolding report_effect_def by blast
  have oid: "Set_Order st = In_Order i" using st by (simp add: settles_def)
  obtain d e where d: "R_Orders s (In_Order i) = Some d"
    and t: "R_Orders t = (R_Orders s)(In_Order i \<mapsto> e)" and se: "settles_detail st xid d e"
    using e unfolding settled_def oid by blast
  show ?thesis
  proof (cases "Set_Trade st")
    case None
    then have "\<not> has_fill i" using st by (simp add: settles_def)
    then show ?thesis using None d t se by (auto simp: trades_of_def settles_detail_def)
  next
    case (Some tr)
    then have f: "has_fill i" "Trade_Quantity tr = In_FillQuantity i"
      "Trade_Price tr = In_FillPrice i" using st by (simp_all add: settles_def)
    obtain k now where "Det_Trades e = Det_Trades d @ [tr\<lparr>Trade_ExternalID := k, Trade_At := now\<rparr>]"
      using Some se by (auto simp: settles_detail_def)
    then have "trades_of s (In_Order i) = Some (Det_Trades d)"
      "trades_of t = (trades_of s)(In_Order i \<mapsto> Det_Trades d @ [tr\<lparr>Trade_ExternalID := k, Trade_At := now\<rparr>])"
      using d t by (auto simp: trades_of_def)
    with f show ?thesis by auto
  qed
qed

lemma keeps_trades_no_fill:
  assumes "\<not> has_fill i"
  shows "keeps (\<lambda>s. trades_of s = T) (applyExecutionReport D E c i)"
  unfolding keeps_def
proof (intro allI impI)
  fix s assume "trades_of s = T"
  moreover have "trades_of u = trades_of s" if "books_of s u" for u
    using that by (simp add: books_def trades_of_def fun_eq_iff)
  moreover have "trades_of (engine_ran j s) = trades_of s" for j
    by (simp add: trades_of_def fun_eq_iff)
  ultimately show "trades_of (snd (applyExecutionReport D E c i s)) = T"
    using applyExecutionReport_cases[OF surjective_pairing[of "applyExecutionReport D E c i s"]] report_effect_trades assms
    by (fastforce simp: books_def trades_of_def fun_eq_iff)
qed

text \<open>Success needs an order that may change and, unless the system reports, has no venue link.\<close>

definition may_report :: "caller \<Rightarrow> execution_report_input \<Rightarrow> 'z realm_scheme \<Rightarrow> bool" where
  "may_report c i s \<longleftrightarrow> (\<exists>d. R_Orders s (In_Order i) = Some d
     \<and> (\<not> OrderStatusTerminal (Order_Status (Det_Order d)) \<or> In_Force i))
     \<and> (Caller_Source c = SourceSystem \<or> find_link (In_Order i) (R_Links s) = None)"

text \<open>The guards that both report operations pass before they do anything.\<close>

lemma report_prefix:
  assumes "handle (GetOrder (In_Order i)) (\<lambda>e. raise (f e)) (\<lambda>route.
     andthen (ensureAccountAndAssetsRegisteredExclusive pr c missing (a route) (as route)) (\<lambda>_.
     andthen outside (\<lambda>_.
     andthen (requireExecutionReportIDAvailable (In_ExternalID i)) (\<lambda>_.
     andthen (requireUnmanaged c (In_Order i)) (\<lambda>_.
     handle (GetOrder (In_Order i)) (\<lambda>e. raise (g e)) (\<lambda>detail.
     andthen (lift_out (RequireOrderModifiable (Order_Status (Det_Order detail)) (In_Force i)))
       (rest detail))))))) s = (Inr x, t)"
  shows "may_report c i s"
proof -
  obtain d0 s0 y0 s0' y1 s1 y2 s2 y3 s3 d s4 where
      "GetOrder (In_Order i) s = (Inr d0, s0)"
    and o0: "ensureAccountAndAssetsRegisteredExclusive pr c missing (a d0) (as d0) s0 = (Inr y0, s0')"
    and o1: "outside s0' = (Inr y1, s1)"
    and o2: "requireExecutionReportIDAvailable (In_ExternalID i) s1 = (Inr y2, s2)"
    and o3: "requireUnmanaged c (In_Order i) s2 = (Inr y3, s3)"
    and o4: "GetOrder (In_Order i) s3 = (Inr d, s4)"
    and m: "RequireOrderModifiable (Order_Status (Det_Order d)) (In_Force i) = None"
    using assms by (simp add: handle_Inr andthen_Inr) blast
  have "books_of s s0" using GetOrder_Inr \<open>GetOrder (In_Order i) s = _\<close> by blast
  moreover have "books_of s0 s0'" using o0 by (rule books_keeps[rotated]) (rule books_rules)
  moreover have "books_of s0' s1" using o1 by (rule books_keeps[rotated]) (rule books_rules)
  moreover have "books_of s1 s2" using o2 by (rule books_keeps[rotated]) (rule books_rules)
  ultimately have b: "books_of s s2" by (simp add: books_def)
  note u = requireUnmanaged_Inr[OF o3]
  note g = GetOrder_Inr[OF o4]
  show ?thesis
    using b u g m by (auto simp: may_report_def books_def RequireOrderModifiable_None)
qed

lemma applyExecutionReport_guards:
  assumes "applyExecutionReport D E c i s = (Inr (), t)"
  shows "may_report c i s"
proof -
  obtain b where "(if b then settleExecutionReport D E c i else recordWorkflowExecutionReport D E c i) s
      = (Inr (), t)"
    using assms unfolding applyExecutionReport_def by (auto simp: andthen_Inr)
  then show ?thesis
    unfolding settleExecutionReport_def recordWorkflowExecutionReport_def
    by (cases b) (auto intro: report_prefix)
qed

end
