(* ===== verification/OrderSafety.thy ===== *)
theory OrderSafety
  imports OrderDesk ReportSafety
begin

section \<open>What a submission does to the store and the engine\<close>

text \<open>
  The effect of the submission transaction, and the ways a submission ends: refused without an
  effect, or answered by the engine and then stored with success or followed by the fatal hook.
\<close>

subsection \<open>The open transaction\<close>

text \<open>
  The draft is computed when the transaction is opened and written when it ends. Between the two
  only the schedule of faults and the engine's side change, and the draft does not depend on them.
\<close>

definition engine_side ::
  "fault list \<Rightarrow> string list \<Rightarrow> execution_report_input list \<Rightarrow> 'z realm_scheme \<Rightarrow> 'z realm_scheme" where
  "engine_side fs vs es s = s\<lparr>R_Faults := fs, R_Reserved := vs, R_Engine := es\<rparr>"

definition sideless :: "('z, 'a) rop \<Rightarrow> bool" where
  "sideless m \<longleftrightarrow> (\<forall>s fs vs es. m (engine_side fs vs es s) = (fst (m s), engine_side fs vs es (snd (m s))))"

lemma sideless_basic: "sideless (ret a)" "sideless (raise e)" "sideless (lift_out x)" "sideless (lift_res r)"
  by (simp_all add: sideless_def ret_def raise_def lift_out_def lift_res_def)

lemma sideless_andthen:
  assumes "sideless m" and "\<And>a. sideless (f a)"
  shows "sideless (andthen m f)"
  unfolding sideless_def
proof (intro allI)
  fix s fs vs es
  obtain q u where m: "m s = (q, u)" by fastforce
  then have "m (engine_side fs vs es s) = (q, engine_side fs vs es u)"
    using assms(1) by (simp add: sideless_def)
  then show "andthen m f (engine_side fs vs es s)
      = (fst (andthen m f s), engine_side fs vs es (snd (andthen m f s)))"
    using m assms(2) by (cases q) (simp_all add: andthen_def sideless_def)
qed

lemma sideless_if: "sideless m \<Longrightarrow> sideless n \<Longrightarrow> sideless (if c then m else n)"
  by simp

lemma sideless_case_prod: "(\<And>a b. sideless (f a b)) \<Longrightarrow> sideless (case x of (a, b) \<Rightarrow> f a b)"
  by (cases x) simp

lemma sideless_require:
  "(\<And>s fs vs es. P (engine_side fs vs es s) = P s) \<Longrightarrow> sideless (require P e)"
  by (simp add: sideless_def require_def reads_def lift_out_def)

lemma sideless_tx:
  "sideless (known b)" "sideless (requireSource x)" "sideless (resolveAccountTx acc)"
  "sideless (resolveAssetTx a)" "sideless (resolveOptionalPrincipalID p)" "sideless (lookupOrderTx oid)"
  "sideless (gets R_Now)" "sideless newExternalID" "sideless (insert_order xid oi)" "sideless (modify_order oid f)"
  unfolding known_def requireSource_def resolveAccountTx_def resolveAssetTx_def
    resolveOptionalPrincipalID_def lookupOrderTx_def
  by (intro sideless_basic sideless_if sideless_require; simp add: engine_side_def)+
    (auto simp: sideless_def gets_def newExternalID_def insert_order_def modify_order_def modify_def
      engine_side_def split: list.splits)

lemma sideless_open: "sideless (open_submission draft ev)"
  unfolding open_submission_def createOrderTx_def appendOrderEventReturningTx_def externalIDForInsert_def
  by (intro sideless_andthen sideless_tx sideless_basic sideless_if)

lemma open_submission_side:
  "fst (open_submission draft ev (engine_side fs vs es s)) = fst (open_submission draft ev s)"
  by (simp add: sideless_open[unfolded sideless_def, rule_format])

subsection \<open>The submission transaction\<close>

text \<open>A new order with the values of the settlement and the submitted event in front.\<close>

definition submitted_as ::
  "order \<Rightarrow> order_event \<Rightarrow> settlement \<Rightarrow> string \<Rightarrow> string \<Rightarrow> 'z realm_scheme \<Rightarrow> 'z realm_scheme \<Rightarrow> bool" where
  "submitted_as draft ev st xid oid s t \<longleftrightarrow> R_Orders s oid = None
     \<and> (\<exists>now e. R_Orders t = (R_Orders s)(oid \<mapsto> e)
          \<and> Det_Order e = settled_order st (stored_order oid now draft)
          \<and> (\<exists>i k. Det_Trades e = (case Set_Trade st of
               None \<Rightarrow> [] | Some tr \<Rightarrow> [tr\<lparr>Trade_ExternalID := i, Trade_At := k\<rparr>]))
          \<and> (\<exists>first_event rest. Det_Events e = first_event # rest
               \<and> records oid [] (ev\<lparr>Event_Order := oid\<rparr>) first_event
               \<and> list_all2 (records oid xid) (Set_Events st) rest))
     \<and> (case Set_ReportID st of
          None \<Rightarrow> R_Reports t = R_Reports s
        | Some x \<Rightarrow> xid \<notin> set (R_Reports s) \<and> R_Reports t = R_Reports s @ [xid]
            \<and> (x \<noteq> [] \<longrightarrow> xid = x))
     \<and> R_Links t = R_Links s \<and> R_Engine t = R_Engine s \<and> R_Reserved t = R_Reserved s"

lemma createOrderTx_Inr:
  assumes "createOrderTx draft s = (Inr oi, t)"
  shows "\<exists>now. oi = draft\<lparr>Order_ExternalID := Order_ExternalID oi, Order_At := now\<rparr>
    \<and> R_Orders s (Order_ExternalID oi) = None
    \<and> books ((R_Orders s)(Order_ExternalID oi \<mapsto> \<lparr> Det_Order = stored_order (Order_ExternalID oi) now draft,
        Det_Events = [], Det_Trades = [] \<rparr>)) (R_Reports s) (R_Links s) (R_Engine s) (R_Reserved s) t"
proof -
  obtain u0 xid u where p: "resolveOptionalPrincipalID (Order_Principal draft) s = (Inr (), u0)"
    and x: "externalIDForInsert (Order_ExternalID draft) u0 = (Inr xid, u)"
    and i: "insert_order xid draft u = (Inr oi, t)"
    using assms unfolding createOrderTx_def resolveAccountTx_def resolveAssetTx_def
    by (auto simp: andthen_Inr)
  have "books_of s u0" using p by (rule books_keeps[rotated]) (rule books_rules)
  moreover have "books_of u0 u" using x by (rule books_keeps[rotated]) (rule books_rules)
  ultimately have b: "books_of s u" by (simp add: books_def)
  then show ?thesis using i
    by (auto simp: insert_order_def books_def split: if_splits intro!: exI[of _ "R_Now u"])
qed

lemma append_event_changes:
  assumes "appendOrderEventReturningTx oid ev s = (Inr r, t)" and "R_Orders s oid = Some d"
  shows "changes oid (appends oid [] [ev]) s t"
  using appendOrderEventReturningTx_changes[of oid "[]" ev s r t d] assms
  by (simp add: stamp_report_id_def split: option.splits)

lemma open_submission_Inr:
  assumes "open_submission draft ev s = (Inr (oi, recorded), t)" and "Event_Order ev = []"
  shows "\<exists>now d. oi = draft\<lparr>Order_ExternalID := Order_ExternalID oi, Order_At := now\<rparr>
    \<and> R_Orders s (Order_ExternalID oi) = None
    \<and> books ((R_Orders s)(Order_ExternalID oi \<mapsto> d)) (R_Reports s) (R_Links s) (R_Engine s) (R_Reserved s) t
    \<and> Det_Order d = stored_order (Order_ExternalID oi) now draft \<and> Det_Trades d = []
    \<and> (\<exists>y. Det_Events d = [y]
        \<and> records (Order_ExternalID oi) [] (ev\<lparr>Event_Order := Order_ExternalID oi\<rparr>) y)"
proof -
  let ?oid = "Order_ExternalID oi"
  obtain u where u: "createOrderTx draft s = (Inr oi, u)"
    and a: "appendOrderEventReturningTx ?oid (ev\<lparr>Event_Order := ?oid\<rparr>) u = (Inr recorded, t)"
    using assms unfolding open_submission_def lookupOrderTx_def by (auto simp: andthen_Inr)
  obtain now where c: "oi = draft\<lparr>Order_ExternalID := ?oid, Order_At := now\<rparr>" "R_Orders s ?oid = None"
    "books ((R_Orders s)(?oid \<mapsto> \<lparr> Det_Order = stored_order ?oid now draft, Det_Events = [],
      Det_Trades = [] \<rparr>)) (R_Reports s) (R_Links s) (R_Engine s) (R_Reserved s) u"
    using createOrderTx_Inr[OF u] by blast
  then have "R_Orders u ?oid = Some \<lparr> Det_Order = stored_order ?oid now draft, Det_Events = [], Det_Trades = [] \<rparr>"
    by (simp add: books_def)
  from append_event_changes[OF a this] show ?thesis
    using c by (fastforce simp: changes_def books_def appends_def list_all2_Cons1)
qed

lemma settled_account:
  "settled (st\<lparr>Set_Account := a\<rparr>) xid s t \<longleftrightarrow> settled st xid s t"
  "own_trade (st\<lparr>Set_Account := a\<rparr>) = own_trade st"
proof -
  have o: "settled_order (st\<lparr>Set_Account := a\<rparr>) = settled_order st"
    by (simp add: settled_order_def fun_eq_iff)
  show "settled (st\<lparr>Set_Account := a\<rparr>) xid s t \<longleftrightarrow> settled st xid s t"
    unfolding settled_def settles_detail_def o by simp
  show "own_trade (st\<lparr>Set_Account := a\<rparr>) = own_trade st"
    by (simp add: own_trade_def split: option.split)
qed

lemma records_any_report: "Payload_ExecutionReport (Event_Payload ev) = None \<Longrightarrow>
    records oid xid ev y \<Longrightarrow> records oid xid' ev y"
  by (simp add: records_def stamp_report_id_def)

lemma submitted_assembled:
  assumes o: "R_Orders s oid = None"
    and u: "books ((R_Orders s)(oid \<mapsto> d)) (R_Reports s) (R_Links s) (R_Engine s) (R_Reserved s) u"
    and d: "Det_Order d = stored_order oid now draft" "Det_Trades d = []" "Det_Events d = [y]"
    and y: "records oid [] (ev\<lparr>Event_Order := oid\<rparr>) y"
    and c: "changes oid (appends oid xid []) u v" and st: "settled st xid v t" "Set_Order st = oid"
  shows "submitted_as draft ev st xid oid s t"
proof -
  obtain d' where d': "R_Orders v oid = Some d'" "appends oid xid [] d d'"
    and v: "R_Orders v = (R_Orders s)(oid \<mapsto> d')" "R_Reports v = R_Reports s" "R_Links v = R_Links s"
      "R_Engine v = R_Engine s" "R_Reserved v = R_Reserved s"
    using c u unfolding changes_def by (auto simp: books_def)
  obtain y' where y': "Det_Events d' = [y']" "reattested y y'"
    using d'(2) d(3) by (auto simp: appends_def list_all2_Cons1)
  have r: "records oid [] (ev\<lparr>Event_Order := oid\<rparr>) y'" by (rule records_reattested[OF y y'(2)])
  obtain e where e: "settles_detail st xid d' e" "R_Orders t = (R_Orders s)(oid \<mapsto> e)"
    using st d'(1) v(1) unfolding settled_def by auto
  have "Det_Order e = settled_order st (stored_order oid now draft)"
    using e(1) d'(2) d(1) by (simp add: settles_detail_def appends_def)
  moreover have "\<exists>i k. Det_Trades e = (case Set_Trade st of
       None \<Rightarrow> [] | Some tr \<Rightarrow> [tr\<lparr>Trade_ExternalID := i, Trade_At := k\<rparr>])"
    using e(1) d'(2) d(2) by (simp add: settles_detail_def appends_def)
  moreover have "\<exists>first_event rest. Det_Events e = first_event # rest
      \<and> records oid [] (ev\<lparr>Event_Order := oid\<rparr>) first_event \<and> list_all2 (records oid xid) (Set_Events st) rest"
  proof -
    obtain old new where "Det_Events e = old @ new" "list_all2 reattested [y'] old"
        "list_all2 (records oid xid) (Set_Events st) new"
      using e(1) y'(1) st(2) unfolding settles_detail_def by auto
    then show ?thesis using records_reattested[OF r] by (auto simp: list_all2_Cons1)
  qed
  ultimately have "\<exists>now e. R_Orders t = (R_Orders s)(oid \<mapsto> e)
      \<and> Det_Order e = settled_order st (stored_order oid now draft)
      \<and> (\<exists>i k. Det_Trades e = (case Set_Trade st of
           None \<Rightarrow> [] | Some tr \<Rightarrow> [tr\<lparr>Trade_ExternalID := i, Trade_At := k\<rparr>]))
      \<and> (\<exists>first_event rest. Det_Events e = first_event # rest
           \<and> records oid [] (ev\<lparr>Event_Order := oid\<rparr>) first_event
           \<and> list_all2 (records oid xid) (Set_Events st) rest)"
    using e(2) by blast
  moreover have "(case Set_ReportID st of
          None \<Rightarrow> R_Reports t = R_Reports s
        | Some x \<Rightarrow> xid \<notin> set (R_Reports s) \<and> R_Reports t = R_Reports s @ [xid]
            \<and> (x \<noteq> [] \<longrightarrow> xid = x))
     \<and> R_Links t = R_Links s \<and> R_Engine t = R_Engine s \<and> R_Reserved t = R_Reserved s"
    using st(1) v unfolding settled_def by (cases "Set_ReportID st") auto
  ultimately show ?thesis unfolding submitted_as_def using o by blast
qed

text \<open>The settlement is made for the order that the opened transaction returned.\<close>

definition draft_of :: "order \<Rightarrow> order_event \<Rightarrow> order \<Rightarrow> 'z realm_scheme \<Rightarrow> bool" where
  "draft_of draft ev persisted s \<longleftrightarrow> (\<exists>recorded. fst (open_submission draft ev s) = Inr (persisted, recorded))"

lemma recordOrderSubmissionTx_Inr:
  assumes "recordOrderSubmissionTx D pr attest draft ev (\<lambda>_. Inr st) s = (Inr (placed, xid), t)"
    and "Event_Order ev = []" and "draft_of draft ev persisted s"
    and "Set_Order st = Order_ExternalID persisted" and "own_trade st"
  shows "submitted_as draft ev st xid (Order_ExternalID persisted) s t \<and> placed = submitted_order st persisted"
proof -
  obtain recorded u v where op: "open_submission draft ev s = (Inr (persisted, recorded), u)"
    and a: "attestOrderEventTx (Order_ExternalID persisted) attest recorded u = (Inr (), v)"
    and r: "recordOrderSettlementTx D pr attest (submission_settlement persisted st) v = (Inr xid, t)"
    and placed: "placed = submitted_order (submission_settlement persisted st) persisted"
    using assms(1,3) unfolding recordOrderSubmissionTx_def draft_of_def
    by (auto simp: andthen_Inr Let_def)
  have st': "submission_settlement persisted st = st\<lparr>Set_Account := (if Set_Account st = [] then
      Order_Account persisted else Set_Account st)\<rparr>"
    using assms(4) by (simp add: submission_settlement_def)
  have "settled st xid v t"
    using recordOrderSettlementTx_Inr[OF r] assms(5) unfolding st' by (simp add: settled_account)
  moreover obtain now d y where
      d: "R_Orders s (Order_ExternalID persisted) = None"
        "books ((R_Orders s)(Order_ExternalID persisted \<mapsto> d)) (R_Reports s) (R_Links s) (R_Engine s) (R_Reserved s) u"
        "Det_Order d = stored_order (Order_ExternalID persisted) now draft" "Det_Trades d = []"
        "Det_Events d = [y]" "records (Order_ExternalID persisted) [] (ev\<lparr>Event_Order := Order_ExternalID persisted\<rparr>) y"
    using open_submission_Inr[OF op assms(2)] by blast
  moreover have "R_Orders u (Order_ExternalID persisted) = Some d" using d(2) by (simp add: books_def)
  ultimately have "submitted_as draft ev st xid (Order_ExternalID persisted) s t"
    using submitted_assembled[OF d(1-6) attestOrderEventTx_changes[OF a]] assms(4) by blast
  moreover have "placed = submitted_order st persisted"
    unfolding placed st' by (simp add: submitted_order_def)
  ultimately show ?thesis by blast
qed

lemma submitted_as_faults [simp]:
  "submitted_as draft ev st xid oid (s\<lparr>R_Faults := fs\<rparr>) t = submitted_as draft ev st xid oid s t"
  by (simp add: submitted_as_def split: option.split)

lemma draft_of_faults [simp]: "draft_of draft ev persisted (s\<lparr>R_Faults := fs\<rparr>) = draft_of draft ev persisted s"
proof -
  have "s\<lparr>R_Faults := fs\<rparr> = engine_side fs (R_Reserved s) (R_Engine s) s"
    by (simp add: engine_side_def)
  then show ?thesis unfolding draft_of_def by (metis open_submission_side)
qed

lemma draft_of_engine: "draft_of draft ev persisted (s\<lparr>R_Engine := es, R_Reserved := vs\<rparr>) = draft_of draft ev persisted s"
proof -
  have "s\<lparr>R_Engine := es, R_Reserved := vs\<rparr> = engine_side (R_Faults s) vs es s"
    by (simp add: engine_side_def)
  then show ?thesis unfolding draft_of_def by (metis open_submission_side)
qed

lemma RecordOrderSubmission_Inr:
  assumes "RecordOrderSubmission D pr attest draft ev (\<lambda>_. Inr st) s = (Inr (placed, xid), t)"
    and "Event_Order ev = []" and "draft_of draft ev persisted s"
    and "Set_Order st = Order_ExternalID persisted" and "own_trade st"
  shows "submitted_as draft ev st xid (Order_ExternalID persisted) s t \<and> placed = submitted_order st persisted"
proof -
  obtain fs where "atomic (recordOrderSubmissionTx D pr attest draft ev (\<lambda>_. Inr st)) (s\<lparr>R_Faults := fs\<rparr>)
      = (Inr (placed, xid), t)"
    using store_call_Inr[OF assms(1)[unfolded RecordOrderSubmission_def]] by blast
  then have "recordOrderSubmissionTx D pr attest draft ev (\<lambda>_. Inr st) (s\<lparr>R_Faults := fs\<rparr>)
      = (Inr (placed, xid), t)"
    by (auto simp: atomic_def split: prod.splits sum.splits)
  from recordOrderSubmissionTx_Inr[OF this assms(2) _ assms(4,5)] assms(3) show ?thesis by simp
qed

lemma RecordOrderSubmission_cases:
  assumes "RecordOrderSubmission D pr attest draft ev (\<lambda>_. Inr st) s = (r, t)"
    and "Event_Order ev = []" and "draft_of draft ev persisted s"
    and "Set_Order st = Order_ExternalID persisted" and "own_trade st"
  shows "books_of s t \<or> (\<exists>xid. submitted_as draft ev st xid (Order_ExternalID persisted) s t)"
proof -
  let ?m = "atomic (recordOrderSubmissionTx D pr attest draft ev (\<lambda>_. Inr st))"
  obtain fs where "t \<in> {snd (?m s), snd (?m (s\<lparr>R_Faults := fs\<rparr>)), s\<lparr>R_Faults := fs\<rparr>}"
    using snd_store_call[of s ?m] assms(1) unfolding RecordOrderSubmission_def by auto
  moreover have "books_of s (snd (?m u)) \<or> (\<exists>xid. submitted_as draft ev st xid (Order_ExternalID persisted) s (snd (?m u)))"
    if "u = s \<or> u = s\<lparr>R_Faults := fs\<rparr>" for u
  proof (cases "recordOrderSubmissionTx D pr attest draft ev (\<lambda>_. Inr st) u")
    case (Pair q v)
    show ?thesis
    proof (cases q)
      case (Inl e)
      then show ?thesis using Pair that by (auto simp: atomic_def books_def)
    next
      case (Inr a)
      obtain placed xid where "a = (placed, xid)" by fastforce
      then show ?thesis
        using recordOrderSubmissionTx_Inr[of D pr attest draft ev st u placed xid v, OF _ assms(2) _ assms(4,5)]
          Pair Inr that assms(3) by (auto simp: atomic_def)
    qed
  qed
  ultimately show ?thesis by auto
qed

subsection \<open>The end of a chain\<close>

text \<open>A chain that has a settlement stores the order with success, or an error stops the node.\<close>

definition completed ::
  "order \<Rightarrow> order_event \<Rightarrow> settlement \<Rightarrow> order \<Rightarrow> 'b \<Rightarrow> 'z realm_scheme
     \<Rightarrow> (go_error + order \<times> 'b) \<Rightarrow> 'z realm_scheme \<Rightarrow> bool" where
  "completed draft ev st persisted v s r t \<longleftrightarrow>
     r = Inr (submitted_order st persisted, v)
       \<and> (\<exists>xid. submitted_as draft ev st xid (Order_ExternalID persisted) s t)
   \<or> (\<exists>e. r = Inl e) \<and> R_Fatal t
       \<and> (books_of s t \<or> (\<exists>xid. submitted_as draft ev st xid (Order_ExternalID persisted) s t))"

lemma submitted_as_books:
  "submitted_as draft ev st xid oid u t \<Longrightarrow> books_of s u \<Longrightarrow> books_of t v \<Longrightarrow>
   submitted_as draft ev st xid oid s v"
  unfolding submitted_as_def by (cases "Set_ReportID st") (auto simp: books_def)

lemma completed_books:
  assumes "completed draft ev st persisted v u r t" and b: "books_of s u"
  shows "completed draft ev st persisted v s r t"
  using assms(1) submitted_as_books[OF _ b books_refl] books_trans[OF b]
  unfolding completed_def by blast

lemma fatalPost_books: "fatalPost e s = (r, t) \<Longrightarrow> books_of s t"
  by (auto simp: fatalPost_def andthen_def modify_def raise_def books_def)

lemma completeSubmission_completed:
  assumes "completeSubmission D G attest draft ev (Inr st)
      (\<lambda>placed _. andthen (tail placed) (\<lambda>_. ret (placed, v))) s = (r, t)"
    and "Event_Order ev = []" and "draft_of draft ev persisted s"
    and "Set_Order st = Order_ExternalID persisted" and "own_trade st"
    and tail: "\<And>placed. fatal_tail (tail placed)"
  shows "completed draft ev st persisted v s r t"
proof -
  obtain q u where q: "RecordOrderSubmission D (OE_Print G) attest draft ev (\<lambda>_. Inr st) s = (q, u)"
    by fastforce
  show ?thesis
  proof (cases q)
    case (Inl e)
    then have f: "fatalPost e u = (r, t)" using assms(1) q by (simp add: completeSubmission_def handle_def)
    have "books_of s t \<or> (\<exists>xid. submitted_as draft ev st xid (Order_ExternalID persisted) s t)"
      using RecordOrderSubmission_cases[OF q assms(2-5)] books_trans[of s u t] fatalPost_books[OF f]
        submitted_as_books[OF _ books_refl, of _ _ _ _ _ s u t] by blast
    then show ?thesis using fatalPost_result[OF f] unfolding completed_def by blast
  next
    case (Inr p)
    obtain placed xid where p: "p = (placed, xid)" by fastforce
    have e: "submitted_as draft ev st xid (Order_ExternalID persisted) s u" "placed = submitted_order st persisted"
      using RecordOrderSubmission_Inr[OF q[unfolded Inr p] assms(2-5)] by simp_all
    obtain q' u' where w: "tail placed u = (q', u')" by fastforce
    have "andthen (tail placed) (\<lambda>_. ret (placed, v)) u = (r, t)"
      using assms(1) q Inr p by (simp add: completeSubmission_def handle_def)
    then have "t = u'" "r = (case q' of Inl x \<Rightarrow> Inl x | Inr _ \<Rightarrow> Inr (placed, v))"
      using w by (cases q'; simp add: andthen_def ret_def)+
    with fatal_tailD[OF tail w] e submitted_as_books[OF e(1) books_refl, of t]
    show ?thesis unfolding completed_def by auto
  qed
qed

lemma audits_fatal:
  "fatal_tail (auditSubmittedOrder acc oi blocks accepted rejects)"
  "fatal_tail (auditImmediateSubmission acc oi result)"
proof -
  have d: "fatal_tail (auditOrderDecision acc oi accepted rejects)" for oi accepted rejects
    unfolding auditOrderDecision_def by (auto intro: fatal_handle fatal_post fatal_ret books_rules)
  have m: "fatal_tail (handle (mirrorEngineBlocksAudit bs) fatalPost f)"
    if "\<And>a. fatal_tail (f a)" for bs f
    by (rule fatal_handle[where g = "\<lambda>e. e"]) (rule books_rules that)+
  show "fatal_tail (auditSubmittedOrder acc oi blocks accepted rejects)"
    unfolding auditSubmittedOrder_def by (intro m d)
  have "fatal_tail (if IR_ExecutionReport result = None then fatalPost e1
      else handle (auditReport acc) (\<lambda>e. fatalPost (e2 e))
        (\<lambda>_. auditOrderDecision acc oi (IR_Accepted result) (IR_Rejects result)))" for e1 e2
    by (auto intro: fatal_handle fatal_post d books_rules)
  then show "fatal_tail (auditImmediateSubmission acc oi result)"
    unfolding auditImmediateSubmission_def by (intro m)
qed

subsection \<open>The chain before the engine answers\<close>

lemma peek_books: "keeps (books os rs ls es vs) (peek m)"
  by (simp add: keeps_def peek_def)

lemma prepareSubmission_books:
  "keeps (books os rs ls es vs) (beginOrderSubmission draft ev)"
  "keeps (books os rs ls es vs) (prepareSubmission G operation oi missing c)"
proof -
  show b: "keeps (books os rs ls es vs) (beginOrderSubmission draft ev)" for draft ev
    unfolding beginOrderSubmission_def
    by (intro keeps_rules books_frame.dictionary_rows books_frame.call peek_books)
  show "keeps (books os rs ls es vs) (prepareSubmission G operation oi missing c)"
    unfolding prepareSubmission_def Let_def by (intro keeps_rules books_rules b)
qed

lemma beginOrderSubmission_Inr:
  assumes "beginOrderSubmission draft ev s = (Inr (blocked, persisted), t)"
  shows "draft_of draft ev persisted t"
proof -
  obtain recorded u where p: "store_call (peek (open_submission draft ev)) u = (Inr (persisted, recorded), t)"
    using assms unfolding beginOrderSubmission_def by (auto simp: andthen_Inr)
  then obtain fs where "peek (open_submission draft ev) (u\<lparr>R_Faults := fs\<rparr>) = (Inr (persisted, recorded), t)"
    using store_call_Inr[OF p] by blast
  then show ?thesis by (auto simp: peek_def draft_of_def)
qed

lemma prepareSubmission_Inr:
  assumes "prepareSubmission G operation oi missing c s = (Inr (blocked, persisted), t)"
  shows "books_of s t" and "draft_of (submittedOrderDraft oi c) (submittedOrderEvent c) persisted t"
    and "validatePersistedOrderChainInput (submittedOrderDraft oi c) persisted = None"
proof -
  show "books_of s t" using assms by (rule books_keeps[rotated]) (rule prepareSubmission_books)
  obtain u where "beginOrderSubmission (submittedOrderDraft oi c) (submittedOrderEvent c) u
      = (Inr (blocked, persisted), t)"
    and v: "validatePersistedOrderChainInput (submittedOrderDraft oi c) persisted = None"
    using assms unfolding prepareSubmission_def Let_def by (auto simp: andthen_Inr)
  then show "draft_of (submittedOrderDraft oi c) (submittedOrderEvent c) persisted t"
    by (auto dest: beginOrderSubmission_Inr)
  show "validatePersistedOrderChainInput (submittedOrderDraft oi c) persisted = None" by (rule v)
qed

lemma submittedOrderEvent_unbound [simp]: "Event_Order (submittedOrderEvent c) = []"
  by (simp add: submittedOrderEvent_def fillSettlementEvent_def new_event_def)

end
