(* ===== verification/OrderSubmission.thy ===== *)
theory OrderSubmission
  imports OrderSafety
begin

section \<open>How a submission ends\<close>

text \<open>
  A submission follows the engine: what the store keeps of an order is what the engine answered,
  and a hold that the engine committed has its order in the store, or the node has stopped, or
  the caller is told that the engine needs a reconciliation by hand.
\<close>

definition engine_reserved :: "string \<Rightarrow> 'z realm_scheme \<Rightarrow> 'z realm_scheme" where
  "engine_reserved oid s = s\<lparr>R_Reserved := R_Reserved s @ [oid]\<rparr>"

lemma engine_reserved_fields [simp]:
  "R_Orders (engine_reserved oid s) = R_Orders s" "R_Reports (engine_reserved oid s) = R_Reports s"
  "R_Links (engine_reserved oid s) = R_Links s" "R_Engine (engine_reserved oid s) = R_Engine s"
  "R_Reserved (engine_reserved oid s) = R_Reserved s @ [oid]"
  by (simp_all add: engine_reserved_def)

lemma books_engine_reserved: "books_of s u \<Longrightarrow> books_of (engine_reserved oid s) (engine_reserved oid u)"
  by (simp add: books_def)

lemma draft_of_side:
  "draft_of draft ev persisted (engine_reserved oid s) = draft_of draft ev persisted s"
  "draft_of draft ev persisted (engine_ran j s) = draft_of draft ev persisted s"
proof -
  have "engine_reserved oid s = s\<lparr>R_Engine := R_Engine s, R_Reserved := R_Reserved s @ [oid]\<rparr>"
    "engine_ran j s = s\<lparr>R_Engine := R_Engine s @ [j], R_Reserved := R_Reserved s\<rparr>"
    by (simp_all add: engine_reserved_def engine_ran_def)
  then show "draft_of draft ev persisted (engine_reserved oid s) = draft_of draft ev persisted s"
    "draft_of draft ev persisted (engine_ran j s) = draft_of draft ev persisted s"
    using draft_of_engine by metis+
qed

subsection \<open>Settlements of an answer\<close>

lemma rejected_settlement:
  "Set_Order (orderRejectedSettlement acc oi rejects blocks c) = Order_ExternalID oi"
  "own_trade (orderRejectedSettlement acc oi rejects blocks c)"
  by (simp_all add: orderRejectedSettlement_def own_trade_def empty_settlement_def)

lemma accepted_settlement:
  "orderAcceptedSettlement acc oi result c = Inr st \<Longrightarrow> Set_Order st = Order_ExternalID oi \<and> own_trade st"
  by (auto simp: orderAcceptedSettlement_def own_trade_def empty_settlement_def res_bind_Inr)

lemma immediate_settlement:
  assumes "immediateAcceptedSettlement D acc oi result c = Inr st"
    and "SettleImmediate D prep answer = Inr result" and "In_Order (Prep_ReportInput prep) = Order_ExternalID oi"
  shows "Set_Order st = Order_ExternalID oi" and "own_trade st"
proof -
  obtain outcome where r: "IR_Persistence result = Some (executionReportPersistenceFrom (Prep_ReportInput prep) outcome)"
    "IR_ExecutionReport result = Some (ExecutionReportRequestFromInput (Prep_ReportInput prep))"
    using assms(2) by (auto simp: SettleImmediate_def Let_def split: sum.splits)
  then show "Set_Order st = Order_ExternalID oi" "own_trade st"
    using assms(1,3) by (auto simp: immediateAcceptedSettlement_def Let_def res_bind_Inr own_trade_def
        empty_settlement_def stampExecutionReportPersistence_def executionReportPersistenceFrom_def)
qed

subsection \<open>Submission with a hold\<close>

text \<open>The settlement and the result that belong to the engine's answer.\<close>

definition answers_order ::
  "order_engine \<Rightarrow> account_id \<Rightarrow> caller \<Rightarrow> order \<Rightarrow> settlement \<Rightarrow> order_result \<Rightarrow> bool" where
  "answers_order G acc c persisted st result \<longleftrightarrow> (case OE_PreTrade G persisted of
       PreTradeRejected (Inr rejects) \<Rightarrow> rejects \<noteq> [] \<and> \<not> OR_Accepted result \<and> OR_Rejects result = rejects
         \<and> st = orderRejectedSettlement acc persisted rejects (OR_Blocks result) c
     | PreTradeReserved (Inr rsv) None \<Rightarrow> result = reserved_result persisted rsv
         \<and> orderAcceptedSettlement acc persisted result c = Inr st
     | _ \<Rightarrow> False)"

text \<open>The three ways: an error without an effect, or an answer of the engine that is settled.\<close>

definition submission_result ::
  "order_engine \<Rightarrow> order \<Rightarrow> caller \<Rightarrow> 'z realm_scheme \<Rightarrow> (go_error + order \<times> order_result)
     \<Rightarrow> 'z realm_scheme \<Rightarrow> bool" where
  "submission_result G oi c s r t \<longleftrightarrow> (\<exists>e. r = Inl e) \<and> books_of s t
   \<or> (\<exists>persisted st result.
        validatePersistedOrderChainInput (submittedOrderDraft oi c) persisted = None
        \<and> answers_order G (Order_Account oi) c persisted st result
        \<and> completed (submittedOrderDraft oi c) (submittedOrderEvent c) st persisted result
            (if OR_Accepted result then engine_reserved (Order_ExternalID persisted) s else s) r t)"

lemma rejectSubmission_cases:
  assumes "rejectSubmission D G operation attestFor mk (submittedOrderDraft oi c) (submittedOrderEvent c)
      blocked persisted answer c s = (r, t)"
    and "draft_of (submittedOrderDraft oi c) (submittedOrderEvent c) persisted s"
  shows "(\<exists>e. r = Inl e) \<and> t = s \<or> (\<exists>rejects blocks. answer = Inr rejects \<and> rejects \<noteq> []
      \<and> completed (submittedOrderDraft oi c) (submittedOrderEvent c)
          (orderRejectedSettlement (Order_Account oi) persisted rejects blocks c) persisted
          (mk blocks rejects) s r t)"
proof (cases answer)
  case (Inl e)
  then show ?thesis using assms(1) by (auto simp: rejectSubmission_def raise_def)
next
  case (Inr rejects)
  show ?thesis
  proof (cases "rejects = []")
    case True
    then show ?thesis using assms(1) Inr by (auto simp: rejectSubmission_def raise_def)
  next
    case False
    let ?blocks = "preTradeLatchedBlocks persisted blocked rejects"
    have a: "Order_Account (submittedOrderDraft oi c) = Order_Account oi"
      by (simp add: submittedOrderDraft_def)
    have "completed (submittedOrderDraft oi c) (submittedOrderEvent c)
        (orderRejectedSettlement (Order_Account oi) persisted rejects ?blocks c) persisted
        (mk ?blocks rejects) s r t"
      by (rule completeSubmission_completed[OF assms(1)[unfolded rejectSubmission_def Inr sum.case
            if_not_P[OF False] Let_def a] _ assms(2) _ _ audits_fatal(1)])
        (simp_all add: rejected_settlement)
    then show ?thesis using Inr False by blast
  qed
qed

lemma acceptSubmission_cases:
  assumes "acceptSubmission D G attestFor (submittedOrderDraft oi c) (submittedOrderEvent c) persisted
      answer failure c s = (r, t)"
    and d: "draft_of (submittedOrderDraft oi c) (submittedOrderEvent c) persisted s"
  shows "(\<exists>e. r = Inl e) \<and> t = s \<or> (\<exists>rsv st. answer = Inr rsv \<and> failure = None
      \<and> orderAcceptedSettlement (Order_Account oi) persisted (reserved_result persisted rsv) c = Inr st
      \<and> completed (submittedOrderDraft oi c) (submittedOrderEvent c) st persisted
          (reserved_result persisted rsv) (engine_reserved (Order_ExternalID persisted) s) r t)"
proof (cases answer)
  case (Inl e)
  then show ?thesis using assms(1) by (auto simp: acceptSubmission_def raise_def)
next
  case (Inr rsv)
  let ?result = "reserved_result persisted rsv"
  have a: "Order_Account (submittedOrderDraft oi c) = Order_Account oi"
    by (simp add: submittedOrderDraft_def)
  show ?thesis
  proof (cases "orderAcceptedSettlement (Order_Account oi) persisted ?result c")
    case (Inl e)
    then show ?thesis using assms(1) Inr a by (auto simp: acceptSubmission_def raise_def)
  next
    case st: (Inr st)
    show ?thesis
    proof (cases failure)
      case (Some e)
      then show ?thesis using assms(1) Inr st a
        by (auto simp: acceptSubmission_def Let_def raise_def engine_commit_def andthen_def)
    next
      case None
      let ?tail = "\<lambda>placed. auditSubmittedOrder (Order_Account oi) placed (OR_Blocks ?result) True []"
      have run: "completeSubmission D G (submission_attestor attestFor persisted ?result)
          (submittedOrderDraft oi c) (submittedOrderEvent c) (Inr st)
          (\<lambda>placed _. andthen (?tail placed) (\<lambda>_. ret (placed, ?result)))
          (engine_reserved (Order_ExternalID persisted) s) = (r, t)"
        using assms(1) Inr st a None
        by (simp add: acceptSubmission_def engine_commit_def andthen_def modify_def engine_reserved_def Let_def)
      have "completed (submittedOrderDraft oi c) (submittedOrderEvent c) st persisted
          ?result (engine_reserved (Order_ExternalID persisted) s) r t"
        by (rule completeSubmission_completed[OF run _ _ _ _ audits_fatal(1)])
          (use d accepted_settlement[OF st] in \<open>simp_all add: draft_of_side\<close>)
      then show ?thesis using Inr None st by blast
    qed
  qed
qed

lemma submitOrder_result:
  assumes "submitOrder D G attestFor oi missing c s = (r, t)"
  shows "submission_result G oi c s r t"
proof -
  obtain q u where q: "prepareSubmission G ''submit order'' oi missing c s = (q, u)" by fastforce
  have b: "books_of s u" using q by (rule books_keeps[rotated]) (rule prepareSubmission_books)
  show ?thesis
  proof (cases q)
    case (Inl e)
    then show ?thesis using assms q b by (auto simp: submitOrder_def andthen_def submission_result_def)
  next
    case (Inr p)
    obtain blocked persisted where p: "p = (blocked, persisted)" by fastforce
    note pre = prepareSubmission_Inr[OF q[unfolded Inr p]]
    note rest = assms[unfolded submitOrder_def andthen_def q Inr p prod.case sum.case Let_def]
    show ?thesis
    proof (cases "OE_PreTrade G persisted")
      case (PreTradeFailed e)
      then show ?thesis using rest b by (auto simp: raise_def submission_result_def)
    next
      case (PreTradeRejected answer)
      note run = rest[unfolded PreTradeRejected pre_trade.case]
      consider "\<exists>e. r = Inl e" "t = u"
        | rejects blocks where "answer = Inr rejects" "rejects \<noteq> []"
          "completed (submittedOrderDraft oi c) (submittedOrderEvent c)
             (orderRejectedSettlement (Order_Account oi) persisted rejects blocks c) persisted
             (rejected_result blocks rejects) u r t"
        using rejectSubmission_cases[OF run pre(2)] by blast
      then show ?thesis
      proof cases
        case 1
        then show ?thesis using b by (simp add: submission_result_def)
      next
        case 2
        have "answers_order G (Order_Account oi) c persisted
            (orderRejectedSettlement (Order_Account oi) persisted rejects blocks c) (rejected_result blocks rejects)"
          using 2 PreTradeRejected by (simp add: answers_order_def rejected_result_def)
        moreover have "\<not> OR_Accepted (rejected_result blocks rejects)" by (simp add: rejected_result_def)
        ultimately show ?thesis
          using pre(3) completed_books[OF 2(3) b] unfolding submission_result_def by auto
      qed
    next
      case (PreTradeReserved answer failure)
      note run = rest[unfolded PreTradeReserved pre_trade.case]
      consider "\<exists>e. r = Inl e" "t = u"
        | rsv st where "answer = Inr rsv" "failure = None"
          "orderAcceptedSettlement (Order_Account oi) persisted (reserved_result persisted rsv) c = Inr st"
          "completed (submittedOrderDraft oi c) (submittedOrderEvent c) st persisted
             (reserved_result persisted rsv) (engine_reserved (Order_ExternalID persisted) u) r t"
        using acceptSubmission_cases[OF run pre(2)] by blast
      then show ?thesis
      proof cases
        case 1
        then show ?thesis using b by (simp add: submission_result_def)
      next
        case 2
        have "answers_order G (Order_Account oi) c persisted st (reserved_result persisted rsv)"
          using 2 PreTradeReserved by (simp add: answers_order_def)
        moreover have "OR_Accepted (reserved_result persisted rsv)" by (simp add: reserved_result_def)
        ultimately show ?thesis
          using pre(3) completed_books[OF 2(4) books_engine_reserved[OF b]]
          unfolding submission_result_def by auto
      qed
    qed
  qed
qed

subsection \<open>Immediate submission\<close>

text \<open>
  The engine's hold, its fill and the settlement of both belong together; a chain that fails
  between them tells its caller that the engine needs a reconciliation by hand.
\<close>

definition answers_immediate ::
  "'d decimal_pkg \<Rightarrow> order_engine \<Rightarrow> account_id \<Rightarrow> caller \<Rightarrow> order \<Rightarrow> execution_report_input
     \<Rightarrow> settlement \<Rightarrow> immediate_result \<Rightarrow> bool" where
  "answers_immediate D G acc c persisted fill st result \<longleftrightarrow>
     (\<exists>rsv prep answer. OE_PreTrade G persisted = PreTradeReserved (Inr rsv) None
        \<and> prepareImmediate G persisted rsv = Inr prep \<and> fill = Prep_ReportInput prep
        \<and> OE_PostTrade G persisted fill = Inr answer \<and> SettleImmediate D prep answer = Inr result
        \<and> immediateAcceptedSettlement D acc persisted result c = Inr st)"

inductive immediate_outcome ::
  "'d decimal_pkg \<Rightarrow> order_engine \<Rightarrow> order \<Rightarrow> caller \<Rightarrow> order \<Rightarrow> 'z realm_scheme
     \<Rightarrow> (go_error + order \<times> immediate_result) \<Rightarrow> 'z realm_scheme \<Rightarrow> bool"
  for D G oi c persisted s where
  io_rejected: "OE_PreTrade G persisted = PreTradeRejected (Inr rejects) \<Longrightarrow> rejects \<noteq> [] \<Longrightarrow>
    completed (submittedOrderDraft oi c) (submittedOrderEvent c)
      (orderRejectedSettlement (Order_Account oi) persisted rejects blocks c) persisted
      (rejected_immediate blocks rejects) s r t \<Longrightarrow> immediate_outcome D G oi c persisted s r t"
| io_settled: "answers_immediate D G (Order_Account oi) c persisted fill st result \<Longrightarrow>
    completed (submittedOrderDraft oi c) (submittedOrderEvent c) st persisted result
      (engine_ran fill (engine_reserved (Order_ExternalID persisted) s)) r t \<Longrightarrow>
    immediate_outcome D G oi c persisted s r t"
| io_unfilled: "books_of (engine_reserved (Order_ExternalID persisted) s) t \<Longrightarrow>
    immediate_outcome D G oi c persisted s (Inl (immediateReconciliationError hold action)) t"
| io_unsettled: "books_of (engine_ran fill (engine_reserved (Order_ExternalID persisted) s)) t \<Longrightarrow>
    immediate_outcome D G oi c persisted s (Inl (immediateReconciliationError hold action)) t"
| io_stopped: "R_Fatal t \<Longrightarrow> books_of (engine_ran fill (engine_reserved (Order_ExternalID persisted) s)) t \<Longrightarrow>
    immediate_outcome D G oi c persisted s (Inl e) t"

lemma immediate_outcome_books:
  assumes "immediate_outcome D G oi c persisted u r t" and b: "books_of s u"
  shows "immediate_outcome D G oi c persisted s r t"
  using assms(1)
proof cases
  case (io_rejected rejects blocks)
  show ?thesis
    by (rule immediate_outcome.io_rejected[OF io_rejected(1,2) completed_books[OF io_rejected(3) b]])
next
  case (io_settled fill st result)
  show ?thesis
    by (rule immediate_outcome.io_settled[OF io_settled(1)
        completed_books[OF io_settled(2) books_engine_ran[OF books_engine_reserved[OF b]]]])
next
  case (io_unfilled hold action)
  show ?thesis unfolding io_unfilled(1)
    by (rule immediate_outcome.io_unfilled[OF books_trans[OF books_engine_reserved[OF b] io_unfilled(2)]])
next
  case (io_unsettled fill hold action)
  show ?thesis unfolding io_unsettled(1)
    by (rule immediate_outcome.io_unsettled[OF
        books_trans[OF books_engine_ran[OF books_engine_reserved[OF b]] io_unsettled(2)]])
next
  case (io_stopped fill e)
  show ?thesis unfolding io_stopped(1)
    by (rule immediate_outcome.io_stopped[OF io_stopped(2)
        books_trans[OF books_engine_ran[OF books_engine_reserved[OF b]] io_stopped(3)]])
qed

lemma prepareImmediate_order:
  "prepareImmediate G oi rsv = Inr prep \<Longrightarrow> In_Order (Prep_ReportInput prep) = Order_ExternalID oi"
  by (auto simp: prepareImmediate_def Let_def res_bind_Inr empty_report_def)

lemma acceptImmediate_cases:
  assumes "acceptImmediate D G attestFor (submittedOrderDraft oi c) (submittedOrderEvent c) persisted
      answer failure c s = (r, t)"
    and g: "OE_PreTrade G persisted = PreTradeReserved answer failure"
    and d: "draft_of (submittedOrderDraft oi c) (submittedOrderEvent c) persisted s"
  shows "(\<exists>e. r = Inl e) \<and> t = s \<or> immediate_outcome D G oi c persisted s r t"
proof (cases "res_bind answer (prepareImmediate G persisted)")
  case (Inl e)
  then show ?thesis using assms(1) by (auto simp: acceptImmediate_def raise_def)
next
  case (Inr prep)
  let ?fill = "Prep_ReportInput prep"
  let ?s1 = "engine_reserved (Order_ExternalID persisted) s"
  obtain rsv where rsv: "answer = Inr rsv" "prepareImmediate G persisted rsv = Inr prep"
    using Inr by (auto simp: res_bind_Inr)
  note run = assms(1)[unfolded acceptImmediate_def Inr sum.case]
  show ?thesis
  proof (cases failure)
    case (Some e)
    then show ?thesis using run by (auto simp: raise_def engine_commit_def andthen_def)
  next
    case None
    have c: "engine_commit ''submit immediate'' persisted failure s = (Inr (), ?s1)"
      using None by (simp add: engine_commit_def modify_def engine_reserved_def)
    note run = run[unfolded andthen_def[of "engine_commit ''submit immediate'' persisted failure" _ s] c
        prod.case sum.case]
    have "immediate_outcome D G oi c persisted s r t"
    proof (cases "OE_PostTrade G persisted ?fill")
      case (Inl e)
      then have "r = Inl (immediateReconciliationError (Prep_ReconciliationState prep)
          ''the execution report failed and the fill is unsettled'')" and "t = ?s1"
        using run by (simp_all add: handle_def engine_fill_def raise_def)
      then show ?thesis using io_unfilled[OF books_refl] by metis
    next
      case post: (Inr post)
      note run = run[unfolded handle_def engine_fill_def post sum.case prod.case,
          folded engine_ran_def[of ?fill ?s1]]
      show ?thesis
      proof (cases "SettleImmediate D prep post")
        case (Inl e)
        have "\<exists>hold action. e = immediateReconciliationError hold action"
          using Inl by (auto simp: SettleImmediate_def Let_def split: sum.splits)
        moreover have "r = Inl e" "t = engine_ran ?fill ?s1"
          using run Inl by (simp_all add: raise_def)
        ultimately show ?thesis using io_unsettled[OF books_refl] by metis
      next
        case result: (Inr result)
        have a: "Order_Account (submittedOrderDraft oi c) = Order_Account oi"
          by (simp add: submittedOrderDraft_def)
        note run = run[unfolded result sum.case a]
        show ?thesis
        proof (cases "immediateAcceptedSettlement D (Order_Account oi) persisted result c")
          case (Inl e)
          then have "fatalPost e (engine_ran ?fill ?s1) = (r, t)" using run by simp
          from fatalPost_result[OF this] fatalPost_books[OF this] show ?thesis
            using io_stopped by metis
        next
          case st: (Inr st)
          note run = run[unfolded st sum.case]
          have "completed (submittedOrderDraft oi c) (submittedOrderEvent c) st persisted result
              (engine_ran ?fill ?s1) r t"
            by (rule completeSubmission_completed[OF run _ _ _ _ audits_fatal(2)])
              (use d immediate_settlement[OF st result prepareImmediate_order[OF rsv(2)]]
                in \<open>simp_all add: draft_of_side\<close>)
          moreover have "answers_immediate D G (Order_Account oi) c persisted ?fill st result"
            unfolding answers_immediate_def using g rsv post result st None by auto
          ultimately show ?thesis by (rule io_settled[rotated])
        qed
      qed
    qed
    then show ?thesis by blast
  qed
qed

lemma submitImmediate_result:
  assumes "submitImmediate D G attestFor oi missing c s = (r, t)"
  shows "(\<exists>e. r = Inl e) \<and> books_of s t
    \<or> (\<exists>persisted. validatePersistedOrderChainInput (submittedOrderDraft oi c) persisted = None
        \<and> immediate_outcome D G oi c persisted s r t)"
proof -
  obtain q u where q: "prepareSubmission G ''submit immediate'' oi missing c s = (q, u)" by fastforce
  have b: "books_of s u" using q by (rule books_keeps[rotated]) (rule prepareSubmission_books)
  show ?thesis
  proof (cases "Order_Price oi = []")
    case True
    then show ?thesis using assms by (auto simp: submitImmediate_def andthen_def lift_out_def check_def)
  next
    case price: False
    note run = assms[unfolded submitImmediate_def andthen_def lift_out_def check_def if_not_P[OF price]
        of_outcome_def option.case prod.case sum.case q]
    show ?thesis
    proof (cases q)
      case (Inl e)
      then show ?thesis using run b by auto
    next
      case (Inr p)
      obtain blocked persisted where p: "p = (blocked, persisted)" by fastforce
      note pre = prepareSubmission_Inr[OF q[unfolded Inr p]]
      note rest = run[unfolded Inr p prod.case sum.case Let_def]
      have "(\<exists>e. r = Inl e) \<and> t = u \<or> immediate_outcome D G oi c persisted u r t"
      proof (cases "OE_PreTrade G persisted")
        case (PreTradeFailed e)
        then show ?thesis using rest by (auto simp: raise_def)
      next
        case (PreTradeRejected answer)
        from rejectSubmission_cases[OF rest[unfolded PreTradeRejected pre_trade.case] pre(2)]
        show ?thesis using PreTradeRejected io_rejected by metis
      next
        case (PreTradeReserved answer failure)
        from acceptImmediate_cases[OF rest[unfolded PreTradeReserved pre_trade.case] PreTradeReserved pre(2)]
        show ?thesis .
      qed
      then show ?thesis using b pre(3) immediate_outcome_books[OF _ b] by metis
    qed
  qed
qed

subsection \<open>What a caller may rely on\<close>

text \<open>The row of a new order, its events by type, and its trades.\<close>

definition placed_as ::
  "string \<Rightarrow> order_status \<Rightarrow> string \<Rightarrow> string \<Rightarrow> order_event_type list \<Rightarrow> order_detail \<Rightarrow> bool" where
  "placed_as oid status leaves reserved types d \<longleftrightarrow> Order_ExternalID (Det_Order d) = oid
     \<and> Order_Status (Det_Order d) = status \<and> Order_Leaves (Det_Order d) = leaves
     \<and> Order_ReservedQuantity (Det_Order d) = reserved \<and> map Event_Type (Det_Events d) = types"

lemma records_type: "records oid xid ev y \<Longrightarrow> Event_Type y = Event_Type ev"
  by (auto simp: records_def stored_event_def stamp_report_id_def split: option.splits)

lemma records_types: "list_all2 (records oid xid) evs new \<Longrightarrow> map Event_Type new = map Event_Type evs"
  by (induction rule: list_all2_induct) (auto simp: records_type)

lemma submitted_as_placed:
  assumes "submitted_as draft (submittedOrderEvent c) st xid oid s t"
    and "Set_Leaves st \<noteq> []" and "Set_ReservedQuantity st \<noteq> []"
  shows "R_Orders s oid = None \<and> (\<exists>d. R_Orders t = (R_Orders s)(oid \<mapsto> d)
    \<and> placed_as oid (Set_OrderStatus st) (Set_Leaves st) (Set_ReservedQuantity st)
        (OrderEventSubmitted # map Event_Type (Set_Events st)) d
    \<and> (Set_SetLock st \<longrightarrow> Order_Lock (Det_Order d) = Set_Lock st)
    \<and> length (Det_Trades d) = (if Set_Trade st = None then 0 else 1))"
proof -
  obtain now d y ys i k where d: "R_Orders s oid = None" "R_Orders t = (R_Orders s)(oid \<mapsto> d)"
    "Det_Order d = settled_order st (stored_order oid now draft)"
    "Det_Trades d = (case Set_Trade st of None \<Rightarrow> [] | Some tr \<Rightarrow> [tr\<lparr>Trade_ExternalID := i, Trade_At := k\<rparr>])"
    "Det_Events d = y # ys" "records oid [] ((submittedOrderEvent c)\<lparr>Event_Order := oid\<rparr>) y"
    "list_all2 (records oid xid) (Set_Events st) ys"
    using assms(1) unfolding submitted_as_def by blast
  have "Event_Type y = OrderEventSubmitted"
    using records_type[OF d(6)] by (simp add: submittedOrderEvent_def fillSettlementEvent_def new_event_def)
  with d records_types[OF d(7)] assms(2,3) show ?thesis
    by (auto simp: placed_as_def settled_order_def stored_order_def split: option.splits)
qed

lemma openingLeaves_shown: "openingLeavesFromOutcomes oi xs = Inr q \<Longrightarrow> q \<noteq> []"
  by (auto simp: openingLeavesFromOutcomes_def res_bind_Inr split: if_splits)

text \<open>
  The order a successful submission leaves behind: a new one, open with exactly the leaves and
  the hold of the engine's answer when the engine committed, closed otherwise.
\<close>

definition submission_stored ::
  "order_engine \<Rightarrow> order \<Rightarrow> order \<Rightarrow> order_result \<Rightarrow> 'z realm_scheme \<Rightarrow> 'z realm_scheme \<Rightarrow> bool" where
  "submission_stored G oi placed result s t \<longleftrightarrow>
     (let oid = Order_ExternalID placed in
       R_Orders s oid = None \<and> R_Links t = R_Links s \<and> R_Reports t = R_Reports s \<and> R_Engine t = R_Engine s
     \<and> (\<exists>d. R_Orders t = (R_Orders s)(oid \<mapsto> d) \<and> Det_Trades d = []
        \<and> (if OR_Accepted result
           then (\<exists>persisted rsv q. OE_PreTrade G persisted = PreTradeReserved (Inr rsv) None
               \<and> Order_ExternalID persisted = oid \<and> Order_Account persisted = Order_Account oi
               \<and> OR_Outcomes result = Rsv_Outcomes rsv
               \<and> openingLeavesFromOutcomes persisted (Rsv_Outcomes rsv) = Inr q
               \<and> placed_as oid OrderStatusCommitted q q
                   [OrderEventSubmitted, OrderEventPreTradeAccepted, OrderEventCommitted] d
               \<and> Order_Lock (Det_Order d) = Rsv_Lock rsv)
             \<and> R_Reserved t = R_Reserved s @ [oid]
           else (\<exists>persisted. OE_PreTrade G persisted = PreTradeRejected (Inr (OR_Rejects result))
               \<and> Order_ExternalID persisted = oid \<and> OR_Rejects result \<noteq> []
               \<and> placed_as oid OrderStatusRejected ''0'' ''0''
                   [OrderEventSubmitted, OrderEventPreTradeRejected] d)
             \<and> R_Reserved t = R_Reserved s)))"

lemma completed_Inr [simp]: "completed draft ev st persisted v s (Inr x) t \<longleftrightarrow>
    x = (submitted_order st persisted, v) \<and> (\<exists>xid. submitted_as draft ev st xid (Order_ExternalID persisted) s t)"
  by (auto simp: completed_def)

lemma submitted_order_id [simp]: "Order_ExternalID (submitted_order st oi) = Order_ExternalID oi"
  by (simp add: submitted_order_def)

lemma submitOrder_stored:
  assumes "submitOrder D G attestFor oi missing c s = (Inr (placed, result), t)"
  shows "submission_stored G oi placed result s t"
proof -
  obtain persisted st where v: "validatePersistedOrderChainInput (submittedOrderDraft oi c) persisted = None"
    and a: "answers_order G (Order_Account oi) c persisted st result"
    and p: "placed = submitted_order st persisted"
    and e: "\<exists>xid. submitted_as (submittedOrderDraft oi c) (submittedOrderEvent c) st xid
      (Order_ExternalID persisted)
      (if OR_Accepted result then engine_reserved (Order_ExternalID persisted) s else s) t"
    using submitOrder_result[OF assms] unfolding submission_result_def by auto
  let ?oid = "Order_ExternalID persisted"
  obtain xid where e: "submitted_as (submittedOrderDraft oi c) (submittedOrderEvent c) st xid ?oid
      (if OR_Accepted result then engine_reserved ?oid s else s) t"
    using e by blast
  have acc: "Order_Account persisted = Order_Account oi"
    using v by (auto simp: validatePersistedOrderChainInput_def check_def submittedOrderDraft_def split: if_splits)
  show ?thesis
  proof (cases "OE_PreTrade G persisted")
    case (PreTradeFailed x)
    then show ?thesis using a by (simp add: answers_order_def)
  next
    case (PreTradeRejected answer)
    then have r: "answer = Inr (OR_Rejects result)" "OR_Rejects result \<noteq> []" "\<not> OR_Accepted result"
      "st = orderRejectedSettlement (Order_Account oi) persisted (OR_Rejects result) (OR_Blocks result) c"
      using a by (auto simp: answers_order_def split: sum.splits)
    then have f: "Set_Leaves st = ''0''" "Set_ReservedQuantity st = ''0''" "Set_OrderStatus st = OrderStatusRejected"
      "map Event_Type (Set_Events st) = [OrderEventPreTradeRejected]" "Set_Trade st = None" "Set_ReportID st = None"
      by (simp_all add: orderRejectedSettlement_def empty_settlement_def fillSettlementEvent_def new_event_def)
    have "R_Links t = R_Links s \<and> R_Reports t = R_Reports s \<and> R_Engine t = R_Engine s \<and> R_Reserved t = R_Reserved s"
      using e r f by (simp add: submitted_as_def)
    with submitted_as_placed[OF e] r f PreTradeRejected p show ?thesis
      by (auto simp: submission_stored_def Let_def)
  next
    case (PreTradeReserved answer failure)
    then obtain rsv where r: "answer = Inr rsv" "failure = None" "result = reserved_result persisted rsv"
      "orderAcceptedSettlement (Order_Account oi) persisted result c = Inr st"
      using a by (auto simp: answers_order_def split: sum.splits option.splits)
    then have acc': "OR_Accepted result" by (simp add: reserved_result_def)
    obtain q where q: "openingLeavesFromOutcomes persisted (Rsv_Outcomes rsv) = Inr q"
      "Set_Leaves st = q" "Set_ReservedQuantity st = q" "Set_OrderStatus st = OrderStatusCommitted"
      "map Event_Type (Set_Events st) = [OrderEventPreTradeAccepted, OrderEventCommitted]"
      "Set_Trade st = None" "Set_ReportID st = None" "Set_SetLock st" "Set_Lock st = Rsv_Lock rsv"
      using r by (auto simp: orderAcceptedSettlement_def res_bind_Inr reserved_result_def empty_settlement_def
          fillSettlementEvent_def new_event_def)
    have "R_Links t = R_Links s \<and> R_Reports t = R_Reports s \<and> R_Engine t = R_Engine s
        \<and> R_Reserved t = R_Reserved s @ [?oid]"
      using e acc' q by (simp add: submitted_as_def)
    moreover have "OR_Outcomes result = Rsv_Outcomes rsv" using r by (simp add: reserved_result_def)
    ultimately show ?thesis
      using submitted_as_placed[OF e] openingLeaves_shown[OF q(1)] q r acc' acc PreTradeReserved p
      unfolding submission_stored_def Let_def by auto
  qed
qed

text \<open>An error leaves no hold without its order, unless the node has stopped.\<close>

lemma submitOrder_error:
  "submitOrder D G attestFor oi missing c s = (Inl e, t) \<Longrightarrow> R_Fatal t \<or> books_of s t"
  using submitOrder_result[of D G attestFor oi missing c s "Inl e" t]
  by (auto simp: submission_result_def completed_def)

subsection \<open>What a caller of an immediate order may rely on\<close>

lemma persistence_values:
  fixes i outcome c r
  defines "p \<equiv> stampExecutionReportPersistence (executionReportPersistenceFrom i outcome) c r"
  shows "Per_OrderStatus p = In_OrderStatus i" and "Per_Leaves p = In_LeavesQuantity i"
    and "map Event_Type (Per_Events p) = report_event_types i"
    and "case Per_Trade p of None \<Rightarrow> \<not> has_fill i
      | Some tr \<Rightarrow> has_fill i \<and> Trade_Quantity tr = In_FillQuantity i \<and> Trade_Price tr = In_FillPrice i"
  unfolding p_def
  by (auto simp: stampExecutionReportPersistence_def executionReportPersistenceFrom_def has_fill_def Let_def
      report_event_types_def stamp_event_def new_event_def split: option.splits)

lemma immediate_values:
  assumes "answers_immediate D G acc c persisted fill st result"
  shows "IR_Accepted result" and "IR_FillQuantity result = In_FillQuantity fill"
    and "In_Order fill = Order_ExternalID persisted" and "In_FillPrice fill = Order_Price persisted"
    and "Set_Leaves st = ''0''" and "Set_OrderStatus st = OrderStatusFilled" and "Set_ReportID st = Some []"
    and "map Event_Type (Set_Events st)
      = [OrderEventPreTradeAccepted, OrderEventCommitted] @ report_event_types fill"
    and "case Set_Trade st of None \<Rightarrow> \<not> has_fill fill
      | Some tr \<Rightarrow> has_fill fill \<and> Trade_Quantity tr = In_FillQuantity fill \<and> Trade_Price tr = In_FillPrice fill"
proof -
  obtain rsv prep answer where p: "prepareImmediate G persisted rsv = Inr prep" "fill = Prep_ReportInput prep"
    and r: "SettleImmediate D prep answer = Inr result"
    and st: "immediateAcceptedSettlement D acc persisted result c = Inr st"
    using assms unfolding answers_immediate_def by blast
  obtain outcome where o: "IR_Persistence result = Some (executionReportPersistenceFrom fill outcome)"
    "IR_ExecutionReport result = Some (ExecutionReportRequestFromInput fill)"
    "IR_Accepted result" "IR_FillQuantity result = In_FillQuantity fill"
    using r p by (auto simp: SettleImmediate_def Let_def split: sum.splits)
  then show "IR_Accepted result" "IR_FillQuantity result = In_FillQuantity fill" by simp_all
  have f: "In_Order fill = Order_ExternalID persisted" "In_FillPrice fill = Order_Price persisted"
    "In_LeavesQuantity fill = ''0''" "In_OrderStatus fill = OrderStatusFilled" "In_ExternalID fill = []"
    using p by (auto simp: prepareImmediate_def Let_def res_bind_Inr empty_report_def immediateTradePrice_def
        split: if_splits)
  then show "In_Order fill = Order_ExternalID persisted" "In_FillPrice fill = Order_Price persisted"
    by simp_all
  show "Set_Leaves st = ''0''" "Set_OrderStatus st = OrderStatusFilled" "Set_ReportID st = Some []"
    "map Event_Type (Set_Events st)
      = [OrderEventPreTradeAccepted, OrderEventCommitted] @ report_event_types fill"
    "case Set_Trade st of None \<Rightarrow> \<not> has_fill fill
      | Some tr \<Rightarrow> has_fill fill \<and> Trade_Quantity tr = In_FillQuantity fill \<and> Trade_Price tr = In_FillPrice fill"
    using st o f persistence_values[of fill outcome c "ExecutionReportRequestFromInput fill"]
    by (auto simp: immediateAcceptedSettlement_def Let_def res_bind_Inr empty_settlement_def
        ExecutionReportRequestFromInput_def fillSettlementEvent_def new_event_def)
qed

text \<open>The fills that the trades of an order book.\<close>

definition fills_of :: "trade list \<Rightarrow> (string \<times> string) list" where
  "fills_of = map (\<lambda>tr. (Trade_Quantity tr, Trade_Price tr))"

lemma submitted_as_filled:
  assumes "submitted_as (submittedOrderDraft oi c) (submittedOrderEvent c) st xid oid s t"
    and "Set_Leaves st \<noteq> []"
  shows "R_Orders s oid = None \<and> (\<exists>d q. R_Orders t = (R_Orders s)(oid \<mapsto> d)
    \<and> placed_as oid (Set_OrderStatus st) (Set_Leaves st) q
        (OrderEventSubmitted # map Event_Type (Set_Events st)) d
    \<and> fills_of (Det_Trades d) = (case Set_Trade st of None \<Rightarrow> []
        | Some tr \<Rightarrow> [(Trade_Quantity tr, Trade_Price tr)]))"
proof -
  obtain now d y ys i k where d: "R_Orders s oid = None" "R_Orders t = (R_Orders s)(oid \<mapsto> d)"
    "Det_Order d = settled_order st (stored_order oid now (submittedOrderDraft oi c))"
    "Det_Trades d = (case Set_Trade st of None \<Rightarrow> [] | Some tr \<Rightarrow> [tr\<lparr>Trade_ExternalID := i, Trade_At := k\<rparr>])"
    "Det_Events d = y # ys" "records oid [] ((submittedOrderEvent c)\<lparr>Event_Order := oid\<rparr>) y"
    "list_all2 (records oid xid) (Set_Events st) ys"
    using assms(1) unfolding submitted_as_def by blast
  have "Event_Type y = OrderEventSubmitted"
    using records_type[OF d(6)] by (simp add: submittedOrderEvent_def fillSettlementEvent_def new_event_def)
  moreover have "fills_of (Det_Trades d) = (case Set_Trade st of None \<Rightarrow> []
        | Some tr \<Rightarrow> [(Trade_Quantity tr, Trade_Price tr)])"
    unfolding d(4) fills_of_def by (simp split: option.split)
  ultimately show ?thesis using d records_types[OF d(7)] assms(2)
    by (auto simp: placed_as_def settled_order_def stored_order_def)
qed

text \<open>
  The order a successful immediate submission leaves behind: a new one, filled by the one report
  that the engine was given, at the order's price.
\<close>

definition immediate_stored ::
  "order \<Rightarrow> order \<Rightarrow> immediate_result \<Rightarrow> 'z realm_scheme \<Rightarrow> 'z realm_scheme \<Rightarrow> bool" where
  "immediate_stored oi placed result s t \<longleftrightarrow>
     (let oid = Order_ExternalID placed in
       R_Orders s oid = None \<and> R_Links t = R_Links s
     \<and> (\<exists>d. R_Orders t = (R_Orders s)(oid \<mapsto> d)
        \<and> (if IR_Accepted result
           then (\<exists>fill xid q. In_Order fill = oid \<and> In_FillPrice fill = Order_Price oi
               \<and> In_FillQuantity fill = IR_FillQuantity result
               \<and> placed_as oid OrderStatusFilled ''0'' q ([OrderEventSubmitted,
                   OrderEventPreTradeAccepted, OrderEventCommitted] @ report_event_types fill) d
               \<and> fills_of (Det_Trades d) = (if has_fill fill
                   then [(In_FillQuantity fill, In_FillPrice fill)] else [])
               \<and> R_Engine t = R_Engine s @ [fill]
               \<and> xid \<notin> set (R_Reports s) \<and> R_Reports t = R_Reports s @ [xid])
             \<and> R_Reserved t = R_Reserved s @ [oid]
           else IR_Rejects result \<noteq> [] \<and> Det_Trades d = []
             \<and> placed_as oid OrderStatusRejected ''0'' ''0'' [OrderEventSubmitted, OrderEventPreTradeRejected] d
             \<and> R_Engine t = R_Engine s \<and> R_Reserved t = R_Reserved s \<and> R_Reports t = R_Reports s)))"

lemma submitImmediate_stored:
  assumes "submitImmediate D G attestFor oi missing c s = (Inr (placed, result), t)"
  shows "immediate_stored oi placed result s t"
proof -
  obtain persisted where v: "validatePersistedOrderChainInput (submittedOrderDraft oi c) persisted = None"
    and o: "immediate_outcome D G oi c persisted s (Inr (placed, result)) t"
    using submitImmediate_result[OF assms] by blast
  let ?oid = "Order_ExternalID persisted"
  have price: "Order_Price persisted = Order_Price oi"
    using v by (auto simp: validatePersistedOrderChainInput_def check_def submittedOrderDraft_def split: if_splits)
  from o show ?thesis
  proof cases
    case (io_rejected rejects blocks)
    let ?st = "orderRejectedSettlement (Order_Account oi) persisted rejects blocks c"
    obtain xid where p: "placed = submitted_order ?st persisted" "result = rejected_immediate blocks rejects"
      and e: "submitted_as (submittedOrderDraft oi c) (submittedOrderEvent c) ?st xid ?oid s t"
      using io_rejected(3) by auto
    have f: "Set_Leaves ?st = ''0''" "Set_ReservedQuantity ?st = ''0''" "Set_OrderStatus ?st = OrderStatusRejected"
      "map Event_Type (Set_Events ?st) = [OrderEventPreTradeRejected]" "Set_Trade ?st = None" "Set_ReportID ?st = None"
      by (simp_all add: orderRejectedSettlement_def empty_settlement_def fillSettlementEvent_def new_event_def)
    have "R_Links t = R_Links s \<and> R_Reports t = R_Reports s \<and> R_Engine t = R_Engine s \<and> R_Reserved t = R_Reserved s"
      using e f by (simp add: submitted_as_def)
    with submitted_as_placed[OF e] f p io_rejected(2) show ?thesis
      by (auto simp: immediate_stored_def Let_def rejected_immediate_def)
  next
    case (io_settled fill st r)
    obtain xid where p: "placed = submitted_order st persisted" "result = r"
      and e: "submitted_as (submittedOrderDraft oi c) (submittedOrderEvent c) st xid ?oid
        (engine_ran fill (engine_reserved ?oid s)) t"
      using io_settled(2) by auto
    note val = immediate_values[OF io_settled(1)]
    obtain d q where d: "R_Orders s ?oid = None" "R_Orders t = (R_Orders s)(?oid \<mapsto> d)"
      "placed_as ?oid OrderStatusFilled ''0'' q
        (OrderEventSubmitted # map Event_Type (Set_Events st)) d"
      "fills_of (Det_Trades d) = (case Set_Trade st of None \<Rightarrow> []
        | Some tr \<Rightarrow> [(Trade_Quantity tr, Trade_Price tr)])"
      using submitted_as_filled[OF e] val(5,6) by auto
    have "R_Links t = R_Links s" "R_Engine t = R_Engine s @ [fill]" "R_Reserved t = R_Reserved s @ [?oid]"
      "xid \<notin> set (R_Reports s)" "R_Reports t = R_Reports s @ [xid]"
      using e val(7) by (simp_all add: submitted_as_def)
    moreover have "fills_of (Det_Trades d) = (if has_fill fill
        then [(In_FillQuantity fill, In_FillPrice fill)] else [])"
      using d(4) val(9) by (simp split: option.splits)
    moreover have "placed_as ?oid OrderStatusFilled ''0'' q ([OrderEventSubmitted,
        OrderEventPreTradeAccepted, OrderEventCommitted] @ report_event_types fill) d"
      using d(3) val(8) by simp
    ultimately show ?thesis
      using d(1,2) val(1-4) p price unfolding immediate_stored_def Let_def by auto
  qed
qed

lemma submitImmediate_error:
  assumes "submitImmediate D G attestFor oi missing c s = (Inl e, t)"
  shows "R_Fatal t \<or> books_of s t \<or> (\<exists>hold action. e = immediateReconciliationError hold action)
    \<and> R_Orders t = R_Orders s \<and> R_Reports t = R_Reports s \<and> R_Links t = R_Links s"
proof -
  consider "books_of s t" | persisted where "immediate_outcome D G oi c persisted s (Inl e) t"
    using submitImmediate_result[OF assms] by blast
  then show ?thesis
  proof cases
    case 2
    then show ?thesis by cases (auto simp: completed_def books_def)
  qed simp
qed

end
