(* ===== verification/OrderChanges.thy ===== *)
theory OrderChanges
  imports OrderSubmission
begin

section \<open>Confirmation and cancellation of an order\<close>

text \<open>
  Both work on an order that nothing of a venue and no execution report has touched. A
  confirmation leaves every value of the order as it is and adds at most one event; a cancellation
  goes through the engine once, books no trade and stores no report id.
\<close>

subsection \<open>An untouched order\<close>

definition untouched :: "string \<Rightarrow> 'z realm_scheme \<Rightarrow> order_detail \<Rightarrow> bool" where
  "untouched oid s d \<longleftrightarrow> R_Orders s oid = Some d \<and> find_link oid (R_Links s) = None
     \<and> \<not> OrderStatusTerminal (Order_Status (Det_Order d))
     \<and> list_all (\<lambda>e. Payload_ExecutionReport (Event_Payload e) = None) (Det_Events d)"

lemma untouched_books: "untouched oid u d \<Longrightarrow> books_of s u \<Longrightarrow> untouched oid s d"
  by (simp add: untouched_def books_def)

lemma ListOrderEvents_Inr:
  "ListOrderEvents oid s = (Inr evs, t) \<Longrightarrow> books_of s t
     \<and> evs = (case R_Orders s oid of None \<Rightarrow> [] | Some d \<Rightarrow> Det_Events d)"
  unfolding ListOrderEvents_def by (auto simp: books_def gets_def dest!: store_call_Inr)

lemma requireNoVenueOrder_Inr:
  "requireNoVenueOrder oid s = (Inr x, t) \<Longrightarrow> find_link oid (R_Links s) = None \<and> books_of s t"
  by (auto simp: requireNoVenueOrder_def GetVenueOrder_def handle_Inr gets_def books_def
      split: if_splits dest!: store_call_Inr)

lemma requireNoExecutionReportActivity_None:
  "requireNoExecutionReportActivity evs = None
     \<longleftrightarrow> list_all (\<lambda>e. Payload_ExecutionReport (Event_Payload e) = None) evs"
  by (auto simp: requireNoExecutionReportActivity_def check_def list_ex_iff list_all_iff)

lemma untouchedI:
  assumes "requireNoVenueOrder oid s = (Inr x, s1)" and "GetOrder oid s1 = (Inr d, s2)"
    and "RequireOrderModifiable (Order_Status (Det_Order d)) False = None"
    and "ListOrderEvents oid s2 = (Inr evs, t)" and "requireNoExecutionReportActivity evs = None"
  shows "untouched oid s d \<and> evs = Det_Events d \<and> books_of s t"
  using requireNoVenueOrder_Inr[OF assms(1)] GetOrder_Inr[OF assms(2)] ListOrderEvents_Inr[OF assms(4)]
    assms(3,5)
  by (auto simp: untouched_def requireNoExecutionReportActivity_None RequireOrderModifiable_None books_def)

lemma read_untouched_Inr:
  "read_untouched oid s = (Inr (d, evs), t) \<Longrightarrow> untouched oid s d \<and> evs = Det_Events d \<and> books_of s t"
  unfolding read_untouched_def by (auto simp: handle_Inr andthen_Inr dest: untouchedI)

lemma read_books:
  "keeps (books os rs ls es vs) (ListOrderEvents oid)"
  "keeps (books os rs ls es vs) (read_order_account acc)"
  "keeps (books os rs ls es vs) (read_untouched oid)"
proof -
  show e: "keeps (books os rs ls es vs) (ListOrderEvents oid)"
    unfolding ListOrderEvents_def by (rule books_frame.store_read) (simp add: gets_def)
  show "keeps (books os rs ls es vs) (read_order_account acc)"
    unfolding read_order_account_def by (intro keeps_rules books_frame.dictionary_rows)
  show "keeps (books os rs ls es vs) (read_untouched oid)"
    unfolding read_untouched_def by (intro keeps_rules books_rules e)
qed

lemma recorded_books:
  "settled st xid u t \<Longrightarrow> books_of s u \<Longrightarrow> books_of t v \<Longrightarrow> settled st xid s v"
  unfolding settled_def by (cases "Set_ReportID st") (auto simp: books_def)

lemma reattested_type: "reattested x y \<Longrightarrow> Event_Type y = Event_Type x"
  by (auto simp: reattested_def)

lemma reattested_types: "list_all2 reattested xs ys \<Longrightarrow> map Event_Type ys = map Event_Type xs"
  by (induction rule: list_all2_induct) (auto simp: reattested_type)

lemma settles_detail_types:
  "settles_detail st xid d e \<Longrightarrow>
   map Event_Type (Det_Events e) = map Event_Type (Det_Events d) @ map Event_Type (Set_Events st)"
  by (auto simp: settles_detail_def dest!: reattested_types records_types)

subsection \<open>Confirmation\<close>

text \<open>The values of every order, its trades, the links, the reports and the engine stay.\<close>

definition confirmed :: "string \<Rightarrow> order_detail \<Rightarrow> 'z realm_scheme \<Rightarrow> 'z realm_scheme \<Rightarrow> bool" where
  "confirmed oid d s t \<longleftrightarrow> untouched oid s d
     \<and> (\<exists>e. R_Orders t = (R_Orders s)(oid \<mapsto> e) \<and> Det_Order e = Det_Order d \<and> Det_Trades e = Det_Trades d
        \<and> map Event_Type (Det_Events e) = map Event_Type (Det_Events d)
            @ (if orderEventExists (Det_Events d) OrderEventConfirmed then [] else [OrderEventConfirmed]))
     \<and> R_Links t = R_Links s \<and> R_Reports t = R_Reports s \<and> R_Engine t = R_Engine s
     \<and> R_Reserved t = R_Reserved s"

lemma confirmed_books: "confirmed oid d u t \<Longrightarrow> books_of s u \<Longrightarrow> confirmed oid d s t"
  by (simp add: confirmed_def untouched_def books_def)

lemma confirm_settled:
  assumes "settled (confirm_settlement oid (Det_Order d) c) xid s t" and "untouched oid s d"
    and "\<not> orderEventExists (Det_Events d) OrderEventConfirmed"
  shows "confirmed oid d s t"
proof -
  let ?st = "confirm_settlement oid (Det_Order d) c"
  have f: "Set_Order ?st = oid" "Set_Trade ?st = None" "Set_ReportID ?st = None"
    "map Event_Type (Set_Events ?st) = [OrderEventConfirmed]"
    "settled_order ?st (Det_Order d) = Det_Order d"
    by (simp_all add: confirm_settlement_def empty_settlement_def settled_order_def fillSettlementEvent_def new_event_def)
  obtain e where "settles_detail ?st xid d e" "R_Orders t = (R_Orders s)(oid \<mapsto> e)"
    using assms(1,2) f(1) by (auto simp: settled_def untouched_def)
  with settles_detail_types[OF this(1)] f assms show ?thesis
    by (auto simp: confirmed_def settled_def settles_detail_def)
qed

lemma confirmed_again:
  "untouched oid s d \<Longrightarrow> orderEventExists (Det_Events d) OrderEventConfirmed \<Longrightarrow> books_of s t \<Longrightarrow>
   confirmed oid d s t"
  unfolding confirmed_def by (auto simp: books_def untouched_def fun_upd_idem intro!: exI[of _ d])

lemma confirm_own: "own_trade (confirm_settlement oid oi c)"
  by (simp add: own_trade_def confirm_settlement_def empty_settlement_def)

lemma confirm_read_Inr:
  assumes "confirm_read oid s = (Inr (d, evs), t)"
  shows "untouched oid s d \<and> evs = Det_Events d \<and> books_of s t"
proof -
  obtain route s1 s2 s3 s4 s5 where
      "GetOrder oid s = (Inr route, s1)" "outside s1 = (Inr (), s2)"
      "read_order_account (Order_Account (Det_Order route)) s2 = (Inr (), s3)" "outside s3 = (Inr (), s4)"
      "read_order_account (Order_Account (Det_Order route)) s4 = (Inr (), s5)"
    and rest: "\<exists>s6 s7. requireNoVenueOrder oid s5 = (Inr (), s6) \<and> GetOrder oid s6 = (Inr d, s7)
      \<and> RequireOrderModifiable (Order_Status (Det_Order d)) False = None
      \<and> ListOrderEvents oid s7 = (Inr evs, t) \<and> requireNoExecutionReportActivity evs = None"
    using assms unfolding confirm_read_def by (auto simp: handle_Inr andthen_Inr)
  then have "books_of s s1" "books_of s1 s2" "books_of s2 s3" "books_of s3 s4" "books_of s4 s5"
    using GetOrder_Inr by (blast intro: books_keeps[rotated] books_rules read_books)+
  then have b: "books_of s s5" by (simp add: books_def)
  have "untouched oid s5 d \<and> evs = Det_Events d \<and> books_of s5 t"
    using rest untouchedI by blast
  then show ?thesis using b untouched_books books_trans by blast
qed

lemma confirmOrder_stored:
  assumes "confirmOrder D pr attest oid c s = (Inr oi, t)"
  shows "\<exists>d. confirmed oid d s t \<and> oi = Det_Order d"
proof -
  obtain d evs u where "confirm_read oid s = (Inr (d, evs), u)"
    and run: "confirm_write D pr attest oid c d evs u = (Inr oi, t)"
    using assms unfolding confirmOrder_def by (auto simp: andthen_Inr)
  then have u: "untouched oid s d" "evs = Det_Events d" and b: "books_of s u"
    using confirm_read_Inr by blast+
  have u': "untouched oid u d" using u(1) b by (simp add: untouched_def books_def)
  show ?thesis
  proof (cases "orderEventExists (Det_Events d) OrderEventConfirmed")
    case True
    then have "oi = Det_Order d" "t = u" using run u(2) by (simp_all add: confirm_write_def ret_def)
    then show ?thesis using confirmed_again[OF u(1) True b] by blast
  next
    case False
    then obtain xid where "RecordOrderSettlement D pr attest (confirm_settlement oid (Det_Order d) c) u = (Inr xid, t)"
      "oi = Det_Order d"
      using run u(2) by (auto simp: confirm_write_def handle_Inr)
    then show ?thesis
      using confirm_settled[OF RecordOrderSettlement_Inr[OF _ confirm_own] u' False]
        confirmed_books[OF _ b] by blast
  qed
qed

text \<open>
  Success or error, whatever the caller read before: a confirmation never changes the values of
  an order or its trades. The settlement's guard on the status is what makes it so.
\<close>

definition values_of :: "'z realm_scheme \<Rightarrow> string \<Rightarrow> (order \<times> trade list) option" where
  "values_of s oid = map_option (\<lambda>d. (Det_Order d, Det_Trades d)) (R_Orders s oid)"

interpretation values_frame: row_blind "\<lambda>s. values_of s = V" for V
  by unfold_locales (simp_all add: values_of_def fun_eq_iff)

lemma confirm_settled_values:
  assumes "settled (confirm_settlement oid oi c) xid s t"
  shows "values_of t = values_of s"
proof -
  let ?st = "confirm_settlement oid oi c"
  have f: "Set_Order ?st = oid" "Set_Trade ?st = None" "Set_AllowedFrom ?st = [Order_Status oi]"
    by (simp_all add: confirm_settlement_def empty_settlement_def)
  obtain d e where d: "R_Orders s oid = Some d" "settles_detail ?st xid d e"
    "R_Orders t = (R_Orders s)(oid \<mapsto> e)" "Order_Status (Det_Order d) = Order_Status oi"
    using assms f by (auto simp: settled_def)
  then have "Det_Order e = Det_Order d" "Det_Trades e = Det_Trades d"
    using f(2) by (simp_all add: settles_detail_def settled_order_def confirm_settlement_def empty_settlement_def)
  then show ?thesis using d by (auto simp: values_of_def fun_eq_iff)
qed

lemma confirm_write_values:
  "keeps (\<lambda>s. values_of s = V) (confirm_write D pr attest oid c d evs)"
proof -
  have r: "keeps (\<lambda>s. values_of s = V) (RecordOrderSettlement D pr attest (confirm_settlement oid oi c))" for oi
    unfolding keeps_def
  proof (intro allI impI)
    fix s assume "values_of s = V"
    moreover have "values_of u = values_of s" if "books_of s u" for u
      using that by (simp add: books_def values_of_def fun_eq_iff)
    ultimately show "values_of (snd (RecordOrderSettlement D pr attest (confirm_settlement oid oi c) s)) = V"
      using RecordOrderSettlement_cases[OF surjective_pairing confirm_own] confirm_settled_values by metis
  qed
  show ?thesis unfolding confirm_write_def by (intro keeps_rules values_frame.row_rules r)
qed

text \<open>A write that succeeds found the status it had read, and adds one confirmation event.\<close>

lemma confirm_write_stored:
  assumes "confirm_write D pr attest oid c d evs v = (Inr oi, t)"
    and "\<not> orderEventExists evs OrderEventConfirmed"
  shows "oi = Det_Order d \<and> (\<exists>e e'. R_Orders v oid = Some e \<and> R_Orders t = (R_Orders v)(oid \<mapsto> e')
     \<and> Order_Status (Det_Order e) = Order_Status (Det_Order d)
     \<and> map Event_Type (Det_Events e') = map Event_Type (Det_Events e) @ [OrderEventConfirmed])"
proof -
  let ?st = "confirm_settlement oid (Det_Order d) c"
  obtain xid where "RecordOrderSettlement D pr attest ?st v = (Inr xid, t)" and oi: "oi = Det_Order d"
    using assms by (auto simp: confirm_write_def handle_Inr)
  then have "settled ?st xid v t" using RecordOrderSettlement_Inr[OF _ confirm_own] by blast
  moreover have f: "Set_Order ?st = oid" "map Event_Type (Set_Events ?st) = [OrderEventConfirmed]"
    "Set_AllowedFrom ?st = [Order_Status (Det_Order d)]"
    by (simp_all add: confirm_settlement_def empty_settlement_def fillSettlementEvent_def new_event_def)
  ultimately obtain e e' where "R_Orders v oid = Some e" "settles_detail ?st xid e e'"
    "R_Orders t = (R_Orders v)(oid \<mapsto> e')" "Order_Status (Det_Order e) = Order_Status (Det_Order d)"
    by (auto simp: settled_def)
  with settles_detail_types[OF this(2)] f(2) oi show ?thesis by auto
qed

subsection \<open>Cancellation\<close>

text \<open>The engine ran once on the cancellation, and the order is closed.\<close>

definition cancelled ::
  "string \<Rightarrow> string \<Rightarrow> order_detail \<Rightarrow> 'z realm_scheme \<Rightarrow> 'z realm_scheme \<Rightarrow> bool" where
  "cancelled oid leaves d s t \<longleftrightarrow> untouched oid s d
     \<and> (\<exists>e. R_Orders t = (R_Orders s)(oid \<mapsto> e) \<and> Order_Status (Det_Order e) = OrderStatusCancelled
        \<and> (leaves \<noteq> [] \<longrightarrow> Order_Leaves (Det_Order e) = leaves) \<and> Det_Trades e = Det_Trades d
        \<and> map Event_Type (Det_Events e) = map Event_Type (Det_Events d) @ [OrderEventCancelled])
     \<and> R_Engine t = R_Engine s @ [cancel_input d oid leaves] \<and> R_Links t = R_Links s
     \<and> R_Reports t = R_Reports s \<and> R_Reserved t = R_Reserved s"

definition stops_or_keeps :: "'z realm_scheme \<Rightarrow> (go_error + 'a) \<Rightarrow> 'z realm_scheme \<Rightarrow> bool" where
  "stops_or_keeps s r t \<longleftrightarrow> (\<exists>e. r = Inl e) \<longrightarrow> books_of s t \<or> R_Fatal t"

definition stops :: "'z realm_scheme \<Rightarrow> (go_error + 'a) \<Rightarrow> 'z realm_scheme \<Rightarrow> bool" where
  "stops s r t \<longleftrightarrow> (\<exists>e. r = Inl e) \<longrightarrow> R_Fatal t"

lemma stops_prefixable: "prefixable stops_or_keeps"
  by (rule prefixableI) (auto simp: stops_or_keeps_def intro: books_trans)

lemma runs_stops:
  "runs stops (fatalPost e)" "runs stops (ret a)"
  "(\<And>a. runs stops (f a)) \<Longrightarrow> runs stops (handle m (\<lambda>e. fatalPost (g e)) f)"
proof -
  show "runs stops (fatalPost e)" by (rule runsI) (auto simp: stops_def dest: fatalPost_result)
  show "runs stops (ret a)" by (rule runsI) (simp add: stops_def ret_def)
  assume f: "\<And>a. runs stops (f a)"
  show "runs stops (handle m (\<lambda>e. fatalPost (g e)) f)"
  proof (rule runsI)
    fix s r t assume h: "handle m (\<lambda>e. fatalPost (g e)) f s = (r, t)"
    obtain q u where "m s = (q, u)" by fastforce
    with h show "stops s r t"
      using runsD[OF f, of _ u r t]
      by (cases q) (auto simp: handle_def stops_def dest: fatalPost_result)
  qed
qed

lemma runs_engine_stops:
  assumes "\<And>b. runs stops (f b)"
  shows "runs stops_or_keeps (andthen (engine_call E j q) f)"
  using assms unfolding runs_def engine_call_cases stops_or_keeps_def stops_def by (auto split: sum.split)

lemma cancel_runs: "runs stops_or_keeps (cancelWorkflowOrder D E attest oid leaves c)"
proof -
  have p: "runs stops (persist_cancel D E attest c j oi outcome)" for j oi outcome
    unfolding persist_cancel_def Let_def
    by (cases "reservationAfterOutcomes D oi (Per_Balances (stampExecutionReportPersistence
      (executionReportPersistenceFrom j outcome) c (ExecutionReportRequestFromInput j)))"; simp only: sum.case)
      (intro runs_stops runs_stops(3)[where g = "\<lambda>e. e"])+
  have a: "runs stops (case answer of Inl e \<Rightarrow> fatalPost (Wrap m e)
      | Inr outcome \<Rightarrow> persist_cancel D E attest c j oi outcome)" for answer m j oi
    by (cases answer) (simp_all add: runs_stops p)
  show ?thesis
    unfolding cancelWorkflowOrder_def Let_def split_def
    by (intro runs_handle runs_engine_stops a runs_andthen runs_raise stops_prefixable books_rules read_books keeps_rules)
qed

lemma cancelWorkflowOrder_error:
  "cancelWorkflowOrder D E attest oid leaves c s = (Inl e, t) \<Longrightarrow> books_of s t \<or> R_Fatal t"
  using runsD[OF cancel_runs] unfolding stops_or_keeps_def by blast

lemma cancel_settled:
  assumes "settled (cancel_settlement (cancel_input d oid leaves) reserved
      (stampExecutionReportPersistence (executionReportPersistenceFrom (cancel_input d oid leaves) outcome) c r)) xid
      (engine_ran (cancel_input d oid leaves) s) t" and "untouched oid s d"
  shows "cancelled oid leaves d s t"
proof -
  let ?j = "cancel_input d oid leaves"
  let ?p = "stampExecutionReportPersistence (executionReportPersistenceFrom ?j outcome) c r"
  let ?st = "cancel_settlement ?j reserved ?p"
  have j: "In_Order ?j = oid" "In_LeavesQuantity ?j = leaves" "In_OrderStatus ?j = OrderStatusCancelled"
    "\<not> has_fill ?j" "report_event_types ?j = [OrderEventCancelled]"
    by (simp_all add: cancel_input_def empty_report_def has_fill_def report_event_types_def)
  then have f: "Set_Order ?st = oid" "Set_Trade ?st = None" "Set_ReportID ?st = None"
    "Set_OrderStatus ?st = OrderStatusCancelled" "Set_Leaves ?st = leaves"
    "map Event_Type (Set_Events ?st) = [OrderEventCancelled]"
    using persistence_values[of ?j outcome c r]
    by (auto simp: cancel_settlement_def empty_settlement_def split: option.splits)
  obtain e where "settles_detail ?st xid d e" "R_Orders t = (R_Orders s)(oid \<mapsto> e)"
    using assms f(1) by (auto simp: settled_def untouched_def)
  with settles_detail_types[OF this(1)] f assms show ?thesis
    by (auto simp: cancelled_def settled_def settles_detail_def settled_order_def)
qed

lemma engine_call_Inr:
  "engine_call E j q s = (Inr answer, t) \<longleftrightarrow> E_Report E j q = Inr answer \<and> t = engine_ran j s"
  by (auto simp: engine_call_def engine_ran_def split: sum.splits)

lemma persist_cancel_Inr:
  assumes "persist_cancel D E attest c j oi outcome s = (Inr x, t)"
  shows "\<exists>reserved xid. settled (cancel_settlement j reserved (stampExecutionReportPersistence
    (executionReportPersistenceFrom j outcome) c (ExecutionReportRequestFromInput j))) xid s t"
proof -
  let ?p = "stampExecutionReportPersistence (executionReportPersistenceFrom j outcome) c
    (ExecutionReportRequestFromInput j)"
  obtain reserved xid u u' where r: "RecordOrderSettlement D (E_Print E) attest (cancel_settlement j reserved ?p) s
      = (Inr xid, u)"
    and "mirrorEngineBlocksAudit (Ro_Blocks outcome) u = (Inr (), u')" "auditReport (In_Account j) u' = (Inr (), t)"
    using assms unfolding persist_cancel_def Let_def
    by (auto simp: handle_Inr dest: fatalPost_result split: sum.splits)
  then have "books_of u u'" "books_of u' t" by (blast intro: books_keeps[rotated] books_rules)+
  then have b: "books_of u t" by (rule books_trans)
  have own: "own_trade (cancel_settlement j reserved ?p)"
    by (auto simp: own_trade_def cancel_settlement_def stampExecutionReportPersistence_def
        executionReportPersistenceFrom_def Let_def)
  show ?thesis using recorded_books[OF RecordOrderSettlement_Inr[OF r own] books_refl b] by blast
qed

lemma cancelWorkflowOrder_stored:
  assumes "cancelWorkflowOrder D E attest oid leaves c s = (Inr x, t)"
  shows "\<exists>d. cancelled oid leaves d s t"
proof -
  obtain route s1 s2 d evs s3 where r: "GetOrder oid s = (Inr route, s1)" "outside s1 = (Inr (), s2)"
    and u: "read_untouched oid s2 = (Inr (d, evs), s3)"
    and rest: "\<exists>y z q answer s4. lift_res y s3 = (Inr z, s4) \<and> (case answer of
        Inl e \<Rightarrow> fatalPost (Wrap ''apply cancellation execution report'' e)
      | Inr outcome \<Rightarrow> persist_cancel D E attest c (cancel_input d oid leaves) (Det_Order d) outcome)
      (engine_ran (cancel_input d oid leaves) s3) = (Inr x, t)"
    using assms unfolding cancelWorkflowOrder_def Let_def
    by (fastforce simp: handle_Inr andthen_Inr engine_call_Inr)
  obtain answer where run: "(case answer of
        Inl e \<Rightarrow> fatalPost (Wrap ''apply cancellation execution report'' e)
      | Inr outcome \<Rightarrow> persist_cancel D E attest c (cancel_input d oid leaves) (Det_Order d) outcome)
      (engine_ran (cancel_input d oid leaves) s3) = (Inr x, t)"
    using rest by blast
  then obtain outcome where "persist_cancel D E attest c (cancel_input d oid leaves) (Det_Order d) outcome
      (engine_ran (cancel_input d oid leaves) s3) = (Inr x, t)"
    by (cases answer) (auto dest: fatalPost_result)
  from persist_cancel_Inr[OF this] obtain reserved xid where st: "settled (cancel_settlement
      (cancel_input d oid leaves) reserved (stampExecutionReportPersistence (executionReportPersistenceFrom
        (cancel_input d oid leaves) outcome) c (ExecutionReportRequestFromInput (cancel_input d oid leaves)))) xid
      (engine_ran (cancel_input d oid leaves) s3) t" by blast
  have "books_of s s1" "books_of s1 s2" using r GetOrder_Inr by (blast intro: books_keeps[rotated] books_rules)+
  moreover have d: "untouched oid s2 d" "books_of s2 s3" using read_untouched_Inr[OF u] by simp_all
  ultimately have b: "books_of s s3" "untouched oid s d" by (simp_all add: books_def untouched_def)
  then show ?thesis
    using cancel_settled[OF recorded_books[OF st books_engine_ran[OF b(1)] books_refl]] by blast
qed

end
