(* ===== verification/WorkerState.thy ===== *)
theory WorkerState
  imports ReportPipeline Adjustments
begin

section \<open>A worker and its venue\<close>

text \<open>
  The state of one worker of the trading runtime (\<^verbatim>\<open>framework/trading/runtime.go\<close>) on top of
  the realm store, and the venue behind its connector. The connector is not Officer's: what it
  answers is taken from lists of results, one entry per call, and every call past the end times
  out. \<open>V_Requests\<close> records the orders that were handed to the venue.
\<close>

record venue_request =
  VR_ClientOrderID :: string
  VR_Symbol :: string
  VR_BaseAsset :: string
  VR_QuoteAsset :: string
  VR_Side :: order_side
  VR_AmountKind :: amount_kind
  VR_Quantity :: string
  VR_LimitPrice :: string
  VR_VenueAccount :: string
  VR_Route :: string

record order_ref =
  Ref_ClientOrderID :: string
  Ref_VenueOrderID :: string
  Ref_Symbol :: string
  Ref_Side :: order_side

datatype fee_status = FeeExecuted | FeeNotApplicable | OtherFeeStatus string

record fee =
  Fee_ID :: string
  Fee_Asset :: string
  Fee_Amount :: string
  Fee_Status :: fee_status
  Fee_Detail :: string
  Fee_At :: go_time

text \<open>A page of fees: the rows, the next cursor and the read error, if any.\<close>

type_synonym fee_page = "fee list \<times> string \<times> go_error option"

record adjustment_row =
  AdjRow_ExternalID :: string
  AdjRow_Accepted :: bool
  AdjRow_Account :: account_id
  AdjRow_Request :: adjustment_request

record world = realm +
  W_Connection :: trading_connection
  W_Pending :: "string list"
  W_ReconcileAllPending :: bool
  W_Unavailable :: "string option"
  W_Stopped :: bool
  W_Providers :: "string \<rightharpoonup> bool"
  W_Random :: "(go_error + string) list"
  W_FeeCursor :: string
  W_FeeSkips :: "(string \<times> string) list"
  W_FeeSkipped :: "(string \<times> string \<times> string) list"
  R_Adjustments :: "adjustment_row list"
  R_FeeAccounts :: "string \<rightharpoonup> account_id \<times> account_id list"
  V_Requests :: "(string \<times> venue_request) list"
  V_SendResults :: "(go_error + string) list"
  V_LookupResults :: "(go_error + snapshot option) list"
  V_PreCheck :: "(venue_request \<Rightarrow> go_error option) option"
  V_FeePages :: "fee_page list option"
  V_InstrumentAssets :: "string \<Rightarrow> go_error + string \<times> string"
  V_AdjustResults :: "go_error option list"

type_synonym 'a wop = "(world, go_error, 'a) op"

definition err_timeout :: go_error where
  "err_timeout = Named ''context deadline exceeded''"

definition err_canceled :: go_error where
  "err_canceled = Named ''context canceled''"

definition ErrNotSent :: go_error where "ErrNotSent = Named ''trading: order not sent''"
definition ErrRejected :: go_error where "ErrRejected = Named ''trading: venue rejected order''"
definition ErrUnsupported :: go_error where "ErrUnsupported = Named ''trading: unsupported''"

text \<open>The call of the connector that hands an order to the venue.\<close>

definition venue_send :: "string \<Rightarrow> venue_request \<Rightarrow> string wop" where
  "venue_send oid r s =
     (let s = s\<lparr>V_Requests := V_Requests s @ [(oid, r)]\<rparr>
      in case V_SendResults s of
          [] \<Rightarrow> (Inl err_timeout, s)
        | x # xs \<Rightarrow> (x, s\<lparr>V_SendResults := xs\<rparr>))"

definition venue_lookup :: "order_ref \<Rightarrow> snapshot option wop" where
  "venue_lookup ref s =
     (case V_LookupResults s of
        [] \<Rightarrow> (Inl err_timeout, s)
      | x # xs \<Rightarrow> (x, s\<lparr>V_LookupResults := xs\<rparr>))"

definition random_id :: "string wop" where
  "random_id s =
     (case W_Random s of
        [] \<Rightarrow> (NewExternalID (Inl (Text ''rand'')), s)
      | x # xs \<Rightarrow> (NewExternalID x, s\<lparr>W_Random := xs\<rparr>))"

definition pend :: "string \<Rightarrow> unit wop" where
  "pend coid = modify (\<lambda>s. s\<lparr>W_Pending := List.insert coid (W_Pending s)\<rparr>)"

definition unpend :: "string \<Rightarrow> unit wop" where
  "unpend coid = modify (\<lambda>s. s\<lparr>W_Pending := removeAll coid (W_Pending s)\<rparr>)"

end
