(* ===== verification/VenueFees.thy ===== *)
theory VenueFees
  imports WorkerState
begin

section \<open>Venue fees\<close>

text \<open>
  The intake of unlinked venue fees (\<^verbatim>\<open>framework/trading/fees.go\<close>). A fee is booked as an
  adjustment under an id of the trading namespace; the adjustment sink belongs to the control
  plane. Its answer is scheduled: it books the adjustment, books a rejected record and says so,
  or fails without an effect.
\<close>

definition ErrAdjustmentRejected :: go_error where
  "ErrAdjustmentRejected = Named ''trading: adjustment rejected''"

definition fee_adjustment_id :: "string \<Rightarrow> string \<Rightarrow> string" where
  "fee_adjustment_id connection fid = TradingRuntimeIDPrefix @ connection @ '':fee:'' @ fid"

definition fee_request :: "string \<Rightarrow> string \<Rightarrow> adjustment_request" where
  "fee_request asset amount =
     \<lparr> Adj_Type = AdjustmentTypeVenueFee, Adj_Asset = asset, Adj_AverageEntryPrice = [],
       Adj_RealizedPnl = [], Adj_RealizedPnlHaltReason = NoPnlHalt,
       Adj_Balance = Some \<lparr> Amount_Mode = AdjustmentModeDelta, Amount_Value = amount \<rparr>,
       Adj_BalanceBounds = None, Adj_Held = None, Adj_HeldBounds = None, Adj_Incoming = None,
       Adj_IncomingBounds = None \<rparr>"

text \<open>
  The sink's contract (\<^verbatim>\<open>AdjustmentSink\<close> in \<^verbatim>\<open>runtime.go\<close>): an id already stored is
  \<open>ErrAlreadyExists\<close>; a core rejection may persist the rejected record.
\<close>

definition adjust_sink :: "account_id \<Rightarrow> string \<Rightarrow> adjustment_request \<Rightarrow> unit wop" where
  "adjust_sink a i r s =
     (if \<exists>x\<in>set (R_Adjustments s). AdjRow_ExternalID x = i
      then (Inl (Wrap ''adjustment'' (Sentinel ErrAlreadyExists)), s)
      else
        (let row = (\<lambda>acc. \<lparr> AdjRow_ExternalID = i, AdjRow_Accepted = acc, AdjRow_Account = a,
               AdjRow_Request = r \<rparr>)
         in case V_AdjustResults s of
             [] \<Rightarrow> (Inr (), s\<lparr>R_Adjustments := R_Adjustments s @ [row True]\<rparr>)
           | None # xs \<Rightarrow>
               (Inr (), s\<lparr>R_Adjustments := R_Adjustments s @ [row True], V_AdjustResults := xs\<rparr>)
           | Some e # xs \<Rightarrow>
               (Inl e, if errors_is e ErrAdjustmentRejected
                 then s\<lparr>R_Adjustments := R_Adjustments s @ [row False], V_AdjustResults := xs\<rparr>
                 else s\<lparr>V_AdjustResults := xs\<rparr>)))"

definition GetTradingFeeAccounts :: "string \<Rightarrow> (account_id \<times> account_id list) wop" where
  "GetTradingFeeAccounts c = store_call (\<lambda>s.
     case R_FeeAccounts s c of None \<Rightarrow> (Inl (Sentinel ErrNotFound), s) | Some x \<Rightarrow> (Inr x, s))"

definition find_adjustment :: "string \<Rightarrow> adjustment_row option wop" where
  "find_adjustment i =
     store_call (gets (\<lambda>s. List.find (\<lambda>x. AdjRow_ExternalID x = i) (R_Adjustments s)))"

definition fee_skip_sink :: "string \<Rightarrow> string \<Rightarrow> string \<Rightarrow> unit wop" where
  "fee_skip_sink c fid reason = store_call
     (modify (\<lambda>s. s\<lparr>W_FeeSkipped := W_FeeSkipped s @ [(c, fid, reason)]\<rparr>))"

definition reportFeeSkip :: "fee \<Rightarrow> string \<Rightarrow> bool wop" where
  "reportFeeSkip f reason = reads (\<lambda>s.
     let c = Conn_ExternalID (W_Connection s)
     in if (c, Fee_ID f) \<in> set (W_FeeSkips s) then ret True
        else handle (fee_skip_sink c (Fee_ID f) reason) (\<lambda>e. ret False)
          (\<lambda>_. andthen (modify (\<lambda>s. s\<lparr>W_FeeSkips := W_FeeSkips s @ [(c, Fee_ID f)]\<rparr>))
            (\<lambda>_. ret True)))"

text \<open>The Officer assets that the venue's code names through the instrument mappings.\<close>

fun fee_assets ::
  "(string \<Rightarrow> go_error + string \<times> string) \<Rightarrow> string \<Rightarrow> string list \<Rightarrow> trading_instrument list
     \<Rightarrow> go_error + string list" where
  "fee_assets ia venueAsset assets [] = Inr assets"
| "fee_assets ia venueAsset assets (i # is) =
     (case ia (TInstr_ExternalSymbol i) of
        Inl e \<Rightarrow> Inl (Wrap ''instrument'' e)
      | Inr (base, quote) \<Rightarrow>
          (let assets = (if base = venueAsset then List.insert (TInstr_BaseAsset i) assets
                else assets);
               assets = (if quote = venueAsset then List.insert (TInstr_QuoteAsset i) assets
                else assets)
           in fee_assets ia venueAsset assets is))"

text \<open>The result is the asset or the error with the flag that says whether it is final.\<close>

definition feeAsset :: "string \<Rightarrow> ((go_error \<times> bool) + string) wop" where
  "feeAsset venueAsset = reads (\<lambda>s.
     handle (store_call (gets (\<lambda>s. filter
         (\<lambda>i. TInstr_Connection i = Conn_ExternalID (W_Connection s)) (R_Instruments s))))
       (\<lambda>e. ret (Inl (e, False)))
       (\<lambda>instruments. ret (case fee_assets (V_InstrumentAssets s) venueAsset [] instruments of
           Inl e \<Rightarrow> Inl (e, True)
         | Inr [a] \<Rightarrow> Inr a
         | Inr _ \<Rightarrow> Inl (Text ''venue asset maps to several or no Officer assets'', True))))"

definition stopped :: "bool wop" where
  "stopped = gets W_Stopped"

definition intakeFee :: "fee \<Rightarrow> account_id \<Rightarrow> string \<Rightarrow> bool wop" where
  "intakeFee f account accountReason =
     (if Fee_Status f = FeeNotApplicable then reportFeeSkip f (Fee_Detail f)
      else if Fee_Status f \<noteq> FeeExecuted then reportFeeSkip f ''invalid fee status''
      else
        andthen (gets (\<lambda>s. fee_adjustment_id (Conn_ExternalID (W_Connection s)) (Fee_ID f))) (\<lambda>i.
        handle (find_adjustment i) (\<lambda>e. ret False) (\<lambda>existing. case existing of
          Some row \<Rightarrow> if AdjRow_Accepted row then ret True else reportFeeSkip f ''rejected by the core''
        | None \<Rightarrow>
            if account = [] then reportFeeSkip f accountReason
            else
              andthen (feeAsset (Fee_Asset f)) (\<lambda>r. case r of
                Inl (e, final) \<Rightarrow>
                  if final then reportFeeSkip f (''resolve fee asset: '' @ err_text e) else ret final
              | Inr asset \<Rightarrow>
                  andthen stopped (\<lambda>st. if st then ret False
                    else handle (adjust_sink account i (fee_request asset (Fee_Amount f)))
                      (\<lambda>e. if errors_is e ErrAdjustmentRejected
                        then reportFeeSkip f ''rejected by the core''
                        else if wraps e ErrAlreadyExists then ret True else ret False)
                      (\<lambda>_. ret True))))))"

text \<open>The rows of one page; the result says whether the intake goes on.\<close>

fun intake_page :: "account_id \<Rightarrow> string \<Rightarrow> fee list \<Rightarrow> bool wop" where
  "intake_page account reason [] = ret True"
| "intake_page account reason (f # fs) =
     andthen stopped (\<lambda>st. if st then ret False
     else if Fee_ID f = [] then andthen (reportFeeSkip f ''missing fee id'') (\<lambda>_. ret False)
     else andthen (intakeFee f account reason) (\<lambda>go.
       if \<not> go then ret False
       else andthen (modify (\<lambda>s. s\<lparr>W_FeeCursor := Fee_ID f\<rparr>)) (\<lambda>_. intake_page account reason fs)))"

text \<open>The pages the reader delivers; a reader that delivers no more has failed.\<close>

fun intake_pages :: "account_id \<Rightarrow> string \<Rightarrow> fee_page list \<Rightarrow> unit wop" where
  "intake_pages account reason [] = ret ()"
| "intake_pages account reason ((fees, next, readErr) # pages) =
     andthen stopped (\<lambda>st. if st then ret ()
     else andthen (modify (\<lambda>s. s\<lparr>V_FeePages := Some pages\<rparr>)) (\<lambda>_.
       andthen (intake_page account reason fees) (\<lambda>go.
       if \<not> go then ret ()
       else if readErr \<noteq> None then ret ()
       else if next = [] then ret ()
       else andthen (gets W_FeeCursor) (\<lambda>cursor.
         if fees = [] \<or> next \<noteq> cursor then ret ()
         else intake_pages account reason pages))))"

definition intakeFees :: "unit wop" where
  "intakeFees = reads (\<lambda>s. case V_FeePages s of
       None \<Rightarrow> ret ()
     | Some pages \<Rightarrow>
        (let c = Conn_ExternalID (W_Connection s)
         in handle (EarliestVenueOrderTime c) (\<lambda>e. ret ()) (\<lambda>since. case since of
             None \<Rightarrow> ret ()
           | Some t \<Rightarrow>
              handle (GetTradingFeeAccounts c) (\<lambda>e. ret ()) (\<lambda>(account, accounts).
                 if account \<noteq> [] then intake_pages account [] pages
                 else (case accounts of
                     [a] \<Rightarrow> intake_pages a [] pages
                   | _ \<Rightarrow> intake_pages []
                       ''connection is used by several accounts and has no fee account'' pages)))))"

subsection \<open>A fee is booked once\<close>

text \<open>Every adjustment the intake adds has an id of its own, so no fee is debited twice.\<close>

definition adjustments_once :: "world \<Rightarrow> bool" where
  "adjustments_once s \<longleftrightarrow> distinct (map AdjRow_ExternalID (R_Adjustments s))"

lemma adjustments_once_simps [simp]:
  "adjustments_once (s\<lparr>R_Faults := a\<rparr>) = adjustments_once s"
  "adjustments_once (s\<lparr>W_FeeSkips := b\<rparr>) = adjustments_once s"
  "adjustments_once (s\<lparr>W_FeeSkipped := c\<rparr>) = adjustments_once s"
  "adjustments_once (s\<lparr>W_FeeCursor := d\<rparr>) = adjustments_once s"
  "adjustments_once (s\<lparr>V_FeePages := e\<rparr>) = adjustments_once s"
  by (simp_all add: adjustments_once_def)

lemma keeps_fee_call: "keeps adjustments_once m \<Longrightarrow> keeps adjustments_once (store_call m)"
  by (rule keeps_store_call) simp_all

lemma keeps_adjust_sink: "keeps adjustments_once (adjust_sink a i r)"
  by (auto simp: keeps_def adjustments_once_def adjust_sink_def Let_def split: list.splits option.splits)

lemma keeps_reportFeeSkip: "keeps adjustments_once (reportFeeSkip f reason)"
  unfolding reportFeeSkip_def fee_skip_sink_def
  by (intro keeps_rules keeps_fee_call keeps_modify) simp_all

lemma keeps_feeAsset: "keeps adjustments_once (feeAsset a)"
  unfolding feeAsset_def by (intro keeps_rules keeps_fee_call)

lemma keeps_intakeFee: "keeps adjustments_once (intakeFee f a r)"
  unfolding intakeFee_def find_adjustment_def stopped_def
  by (intro keeps_rules keeps_fee_call keeps_reportFeeSkip keeps_feeAsset keeps_adjust_sink)

lemma keeps_intake_page: "keeps adjustments_once (intake_page a r fs)"
  by (induction a r fs rule: intake_page.induct)
    (simp_all add: stopped_def keeps_rules keeps_intakeFee keeps_reportFeeSkip keeps_modify)

lemma keeps_intake_pages: "keeps adjustments_once (intake_pages a r ps)"
  by (induction a r ps rule: intake_pages.induct)
    (auto simp: stopped_def intro!: keeps_rules keeps_intake_page keeps_modify)

lemma keeps_intakeFees: "keeps adjustments_once intakeFees"
proof -
  have "keeps adjustments_once (\<lambda>s. case R_FeeAccounts s c of
      None \<Rightarrow> (Inl (Sentinel ErrNotFound), s) | Some x \<Rightarrow> (Inr x, s))" for c
    by (auto simp: keeps_def split: option.splits)
  then show ?thesis
    unfolding intakeFees_def EarliestVenueOrderTime_def GetTradingFeeAccounts_def
    by (auto intro!: keeps_rules keeps_fee_call keeps_intake_pages split: list.splits)
qed

end
