(* ===== verification/TradingRuntime.thy ===== *)
theory TradingRuntime
  imports VenueFees
begin

section \<open>The trading worker\<close>

text \<open>
  One serial worker of \<^verbatim>\<open>framework/trading/runtime.go\<close> and \<^verbatim>\<open>reconcile.go\<close>: the durable
  sequence that sends a held order to the venue, the events of the venue and the
  reconciliation that settles what a crash, a lost answer or a missed event left open. \<open>D\<close> is the
  decimal package and \<open>E\<close> the engine's settlement; the report sink is the node's report
  operation for the system caller.
\<close>

definition missingOrderGrace :: duration where "missingOrderGrace = 120 * second"

definition system_caller :: caller where
  "system_caller = \<lparr> Caller_Source = SourceSystem, Caller_Principal = ''system'', Caller_Role = [] \<rparr>"

definition sink :: "'d decimal_pkg \<Rightarrow> engine_settle \<Rightarrow> execution_report_input \<Rightarrow> unit wop" where
  "sink D E i = applyExecutionReport D E system_caller i"

definition reportID :: "string \<Rightarrow> string \<Rightarrow> string" where
  "reportID coid suffix = TradingRuntimeIDPrefix @ coid @ '':'' @ suffix"

subsection \<open>Eligibility and destination\<close>

fun eligible_events :: "string \<Rightarrow> bool \<Rightarrow> order_event list \<Rightarrow> go_error option" where
  "eligible_events claim accepted [] = check (\<not> accepted)
     (Wrap ''trading: order has no pre-trade acceptance'' (Sentinel ErrConflict))"
| "eligible_events claim accepted (e # es) =
     (if (case Payload_ExecutionReport (Event_Payload e) of
            None \<Rightarrow> False | Some r \<Rightarrow> claim = [] \<or> Req_ExternalID r \<noteq> claim)
      then Some (Wrap ''trading: order has execution-report activity'' (Sentinel ErrConflict))
      else if Event_Type e = OrderEventConfirmed
      then Some (Wrap ''trading: order is confirmed'' (Sentinel ErrConflict))
      else eligible_events claim (accepted \<or> Event_Type e = OrderEventPreTradeAccepted) es)"

definition eligible :: "order_detail \<Rightarrow> string \<Rightarrow> go_error option" where
  "eligible d claim = first_err
     [check (Order_Status (Det_Order d) \<noteq> OrderStatusCommitted)
        (Wrap ''trading: order is not committed'' (Sentinel ErrConflict)),
      check (Order_DropCopy (Det_Order d)) (Wrap ''trading: drop-copy order'' (Sentinel ErrConflict)),
      check (length (Det_Trades d) \<noteq> 0) (Wrap ''trading: order has trades'' (Sentinel ErrConflict)),
      eligible_events claim False (Det_Events d)]"

definition checkDestination :: "order \<Rightarrow> trading_destination \<Rightarrow> venue_request wop" where
  "checkDestination oi dest =
     andthen (lift_out (ValidateTradingDestination dest)) (\<lambda>_.
     andthen (GetTradingConnection (Dest_Connection dest)) (\<lambda>found. case found of
       None \<Rightarrow> raise (err_not_found ''trading: connection'')
     | Some c \<Rightarrow>
         if \<not> Conn_Enabled c
         then raise (Wrap ''trading: connection disabled'' (Sentinel ErrConflict))
         else reads (\<lambda>s. case W_Providers s (Conn_Provider c) of
           None \<Rightarrow> raise (err_invalid ''trading: unknown provider'')
         | Some venueAccounts \<Rightarrow>
             if W_Unavailable s \<noteq> None
             then raise (Wrap ''trading: connection unavailable'' (Sentinel ErrUpstream))
             else if venueAccounts \<noteq> (Dest_VenueAccount dest \<noteq> [])
             then raise (err_invalid ''trading: provider venue-account rule'')
             else
               andthen (ListTradingAccess (Order_Account oi)) (\<lambda>access.
               if \<not> list_ex (\<lambda>g. Access_Connection g = Dest_Connection dest
                   \<and> Access_VenueAccount g = Dest_VenueAccount dest) access
               then raise (Wrap ''trading: account has no access to connection''
                 (Sentinel ErrForbidden))
               else
                 andthen (FindTradingInstrument (Dest_Connection dest) (Order_BaseAsset oi)
                   (Order_QuoteAsset oi)) (\<lambda>instr. case instr of
                   None \<Rightarrow> raise (err_not_found ''trading: instrument'')
                 | Some i \<Rightarrow>
                     if \<not> TInstr_Enabled i
                     then raise (Wrap ''trading: instrument disabled'' (Sentinel ErrConflict))
                     else
                       (let mapped = \<lparr> VR_ClientOrderID = [], VR_Symbol = TInstr_ExternalSymbol i,
                              VR_BaseAsset = TInstr_BaseAsset i, VR_QuoteAsset = TInstr_QuoteAsset i,
                              VR_Side = Order_Side oi, VR_AmountKind = Order_AmountKind oi,
                              VR_Quantity = Order_AmountValue oi, VR_LimitPrice = Order_Price oi,
                              VR_VenueAccount = Dest_VenueAccount dest, VR_Route = Dest_Route dest \<rparr>
                        in case V_PreCheck s of
                            None \<Rightarrow> ret mapped
                          | Some pc \<Rightarrow> (case pc mapped of
                              None \<Rightarrow> ret mapped
                            | Some e \<Rightarrow> raise (Wrap ''trading: venue pre-check'' e))))))))"

subsection \<open>Sending an order\<close>

definition not_sent_error :: "go_error \<Rightarrow> go_error" where
  "not_sent_error e = Wrap2 ErrNotSent e"

definition cancelOrder ::
  "'d decimal_pkg \<Rightarrow> engine_settle \<Rightarrow> venue_order \<Rightarrow> unit wop" where
  "cancelOrder D E link =
     handle (sink D E (empty_report
         \<lparr> In_ExternalID := reportID (VO_ClientOrderID link) ''done'',
           In_Order := VO_Order link, In_OrderStatus := OrderStatusCancelled,
           In_LeavesQuantity := ''0'' \<rparr>))
       (\<lambda>e. if wraps e ErrAlreadyExists then ret () else raise e) ret"

text \<open>The part of \<open>send\<close> before the link exists: its failures are \<open>ErrNotSent\<close>.\<close>

definition send_link ::
  "string \<Rightarrow> trading_destination \<Rightarrow> (venue_request \<times> venue_order) wop" where
  "send_link oid dest =
     andthen (GetOrder oid) (\<lambda>detail.
     andthen (handle (checkDestination (Det_Order detail) dest)
       (\<lambda>e. reads (\<lambda>s. if W_Stopped s \<and> errors_is e err_canceled
         then raise (Wrap2 (Wrap ''trading: runtime stopped'' e) (Sentinel ErrConflict))
         else raise e)) ret) (\<lambda>mapped.
     andthen (GetOrder oid) (\<lambda>detail.
     andthen (lift_out (eligible detail [])) (\<lambda>_.
     andthen random_id (\<lambda>coid.
     andthen (handle (CreateVenueOrder \<lparr> VO_Order = oid, VO_Connection = Dest_Connection dest,
           VO_VenueAccount = Dest_VenueAccount dest, VO_Route = Dest_Route dest,
           VO_ClientOrderID = coid, VO_SendAttempted = False, VO_VenueOrderID = [],
           VO_CreatedAt = 0 \<rparr>)
       (\<lambda>e. raise (Wrap ''trading: create venue link'' e)) ret) (\<lambda>link.
     ret (mapped\<lparr>VR_ClientOrderID := coid\<rparr>, link)))))))"

text \<open>Removing the link of an order that did not get to the venue.\<close>

definition drop_claim :: "string \<Rightarrow> venue_order \<Rightarrow> go_error \<Rightarrow> 'a wop" where
  "drop_claim oid link e =
     handle (DeleteVenueOrder oid)
       (\<lambda>d. andthen (pend (VO_ClientOrderID link)) (\<lambda>_. raise e))
       (\<lambda>_. raise (not_sent_error e))"

definition send_claim ::
  "'d decimal_pkg \<Rightarrow> engine_settle \<Rightarrow> string \<Rightarrow> venue_order \<Rightarrow> unit wop" where
  "send_claim D E oid link =
     handle (sink D E (empty_report
         \<lparr> In_ExternalID := reportID (VO_ClientOrderID link) ''claim'', In_Order := oid,
           In_OrderStatus := OrderStatusCommitted \<rparr>))
       (\<lambda>e. drop_claim oid link e)
       (\<lambda>_. handle (GetOrder oid)
         (\<lambda>e. andthen (pend (VO_ClientOrderID link)) (\<lambda>_. raise e))
         (\<lambda>detail. case eligible detail (reportID (VO_ClientOrderID link) ''claim'') of
             Some e \<Rightarrow> drop_claim oid link e
           | None \<Rightarrow> ret ()))"

text \<open>The answer of the venue: an acknowledgement, a definitive refusal or an open outcome.\<close>

definition send_outcome ::
  "'d decimal_pkg \<Rightarrow> engine_settle \<Rightarrow> venue_order \<Rightarrow> go_error \<Rightarrow> venue_order wop" where
  "send_outcome D E link e =
     (if errors_is e ErrRejected \<or> errors_is e ErrUnsupported
      then andthen (handle (cancelOrder D E link) (\<lambda>d. ret ()) (\<lambda>_. unpend (VO_ClientOrderID link)))
        (\<lambda>_. raise (Wrap ''trading: venue send refusal'' e))
      else raise (Wrap2 (Wrap ''trading: send outcome unknown'' e) (Sentinel ErrUpstream)))"

definition send_venue ::
  "'d decimal_pkg \<Rightarrow> engine_settle \<Rightarrow> string \<Rightarrow> venue_request \<Rightarrow> venue_order \<Rightarrow> venue_order wop" where
  "send_venue D E oid mapped link =
     andthen (pend (VO_ClientOrderID link)) (\<lambda>_.
     andthen (MarkVenueOrderSendAttempted oid) (\<lambda>_.
     handle (venue_send oid mapped) (send_outcome D E (link\<lparr>VO_SendAttempted := True\<rparr>))
       (\<lambda>ack. if ack = []
         then send_outcome D E (link\<lparr>VO_SendAttempted := True\<rparr>)
           (Text ''trading: Send acknowledged without a venue order id'')
         else andthen (SetVenueOrderID oid ack) (\<lambda>_.
           andthen (unpend (VO_ClientOrderID link)) (\<lambda>_.
           ret (link\<lparr>VO_SendAttempted := True, VO_VenueOrderID := ack\<rparr>))))))"

definition send ::
  "'d decimal_pkg \<Rightarrow> engine_settle \<Rightarrow> string \<Rightarrow> trading_destination \<Rightarrow> venue_order wop" where
  "send D E oid dest =
     andthen (handle (send_link oid dest) (\<lambda>e. raise (not_sent_error e)) ret) (\<lambda>(mapped, link).
     andthen (send_claim D E oid link) (\<lambda>_.
     send_venue D E oid mapped link))"

subsection \<open>Booking fills\<close>

definition applyFill ::
  "'d decimal_pkg \<Rightarrow> engine_settle \<Rightarrow> venue_order \<Rightarrow> order \<Rightarrow> fill \<Rightarrow> unit wop" where
  "applyFill D E link oi f =
     andthen (lift_res (fillQuantities D f)) (\<lambda>(qty, cum).
       (let com = (case Fill_Commission f of
              None \<Rightarrow> None
            | Some c \<Rightarrow> Some (case Fill_CommissionLeg f of
                CommissionLegBase \<Rightarrow> c\<lparr>Commission_Currency := Order_BaseAsset oi\<rparr>
              | CommissionLegQuote \<Rightarrow> c\<lparr>Commission_Currency := Order_QuoteAsset oi\<rparr>
              | _ \<Rightarrow> c));
            status = (if Fill_Final f then OrderStatusFilled else OrderStatusPartiallyFilled)
        in handle (sink D E (empty_report
             \<lparr> In_ExternalID := reportID (VO_ClientOrderID link) (''fill:'' @ DecString D cum),
               In_Order := VO_Order link, In_OrderStatus := status,
               In_FillQuantity := Fill_Quantity f, In_FillPrice := Fill_Price f,
               In_LeavesQuantity := Fill_LeavesQuantity f, In_Commission := com \<rparr>))
           (\<lambda>e. if wraps e ErrAlreadyExists then ret () else raise e) ret))"

subsection \<open>Reconciliation\<close>

text \<open>The loop over the fills of a snapshot; the result is what Officer has booked after it.\<close>

fun reconcile_fills ::
  "'d decimal_pkg \<Rightarrow> engine_settle \<Rightarrow> venue_order \<Rightarrow> order_detail \<Rightarrow> 'd \<Rightarrow> fill list \<Rightarrow> 'd wop" where
  "reconcile_fills D E link detail officerCum [] = ret officerCum"
| "reconcile_fills D E link detail officerCum (f # fs) =
     andthen (lift_res (fillQuantities D f)) (\<lambda>(qty, cum).
       if dec_le D cum officerCum then reconcile_fills D E link detail officerCum fs
       else if \<not> dec_eq D (SubDec D cum qty) officerCum
       then raise (Wrap ''trading: Officer cumulative does not match next venue fill''
         (Sentinel ErrUpstream))
       else
         andthen (applyFill D E link (Det_Order detail) f) (\<lambda>_.
         andthen (GetOrder (VO_Order link)) (\<lambda>detail.
         andthen (lift_res (cumulative D (Det_Trades detail))) (\<lambda>officerCum.
         if \<not> dec_eq D officerCum cum
         then raise (Wrap ''trading: fill report did not advance Officer cumulative''
           (Sentinel ErrUpstream))
         else reconcile_fills D E link detail officerCum fs))))"

definition reconcile_snapshot ::
  "'d decimal_pkg \<Rightarrow> engine_settle \<Rightarrow> venue_order \<Rightarrow> order_detail \<Rightarrow> snapshot \<Rightarrow> unit wop" where
  "reconcile_snapshot D E link detail s =
     (if Snap_VenueOrderID s = []
      then raise (Wrap ''trading: snapshot has no venue order id'' (Sentinel ErrUpstream))
      else
        andthen (if VO_VenueOrderID link = []
          then SetVenueOrderID (VO_Order link) (Snap_VenueOrderID s)
          else lift_out (check (VO_VenueOrderID link \<noteq> Snap_VenueOrderID s)
            (Wrap ''trading: snapshot venue order id changed'' (Sentinel ErrUpstream)))) (\<lambda>_.
        let link = (if VO_VenueOrderID link = []
              then link\<lparr>VO_VenueOrderID := Snap_VenueOrderID s\<rparr> else link)
        in andthen (lift_res (validateSnapshot D s)) (\<lambda>venueCum.
           andthen (lift_res (cumulative D (Det_Trades detail))) (\<lambda>officerCum.
           andthen (reconcile_fills D E link detail officerCum (Snap_Fills s)) (\<lambda>officerCum.
           if \<not> dec_eq D officerCum venueCum
           then raise (Wrap ''trading: terminal barrier cumulative mismatch'' (Sentinel ErrUpstream))
           else if Snap_Status s = VenueStatusCancelled then cancelOrder D E link
           else if Snap_Status s = VenueStatusFilled then
             andthen (GetOrder (VO_Order link)) (\<lambda>detail.
               if \<not> OrderStatusTerminal (Order_Status (Det_Order detail))
               then raise (Wrap ''trading: venue filled but Officer order is still open''
                 (Sentinel ErrUpstream))
               else ret ())
           else ret ())))))"

definition reconcile ::
  "'d decimal_pkg \<Rightarrow> engine_settle \<Rightarrow> venue_order \<Rightarrow> unit wop" where
  "reconcile D E link =
     andthen (GetOrder (VO_Order link)) (\<lambda>detail.
     if \<not> VO_SendAttempted link then
       andthen (ExecutionReportExists (reportID (VO_ClientOrderID link) ''claim'')) (\<lambda>claimed.
         if \<not> claimed then DeleteVenueOrder (VO_Order link)
         else case eligible detail (reportID (VO_ClientOrderID link) ''claim'') of
             Some e \<Rightarrow> DeleteVenueOrder (VO_Order link)
           | None \<Rightarrow> cancelOrder D E link)
     else if OrderStatusTerminal (Order_Status (Det_Order detail)) then ret ()
     else
       reads (\<lambda>w. andthen (FindTradingInstrument (Conn_ExternalID (W_Connection w))
           (Order_BaseAsset (Det_Order detail)) (Order_QuoteAsset (Det_Order detail))) (\<lambda>instr.
         handle (venue_lookup
             \<lparr> Ref_ClientOrderID = VO_ClientOrderID link, Ref_VenueOrderID = VO_VenueOrderID link,
               Ref_Symbol = (case instr of None \<Rightarrow> [] | Some i \<Rightarrow> TInstr_ExternalSymbol i),
               Ref_Side = Order_Side (Det_Order detail) \<rparr>)
           (\<lambda>e. raise (Wrap ''trading: venue lookup'' e))
           (\<lambda>found. case found of
               Some snap \<Rightarrow> reconcile_snapshot D E link detail snap
             | None \<Rightarrow>
                 if VO_VenueOrderID link \<noteq> []
                 then raise (Wrap ''trading: acknowledged order missing at venue''
                   (Sentinel ErrUpstream))
                 else andthen (gets R_Now) (\<lambda>now.
                   if now - VO_CreatedAt link \<le> missingOrderGrace
                   then raise (Wrap ''trading: unacknowledged order missing within send grace''
                     (Sentinel ErrUpstream))
                   else cancelOrder D E link)))))"

definition finishAttempt :: "string \<Rightarrow> unit wop \<Rightarrow> unit wop" where
  "finishAttempt coid m =
     handle m (\<lambda>e. if wraps e ErrTerminalOrder then unpend coid else pend coid)
       (\<lambda>_. unpend coid)"

definition trackReconcile ::
  "'d decimal_pkg \<Rightarrow> engine_settle \<Rightarrow> venue_order \<Rightarrow> unit wop" where
  "trackReconcile D E link = finishAttempt (VO_ClientOrderID link) (reconcile D E link)"

fun reconcile_links ::
  "'d decimal_pkg \<Rightarrow> engine_settle \<Rightarrow> venue_order list \<Rightarrow> unit wop" where
  "reconcile_links D E [] = ret ()"
| "reconcile_links D E (l # ls) =
     andthen stopped (\<lambda>st. if st then ret ()
       else andthen (trackReconcile D E l) (\<lambda>_. reconcile_links D E ls))"

definition reconcileAll :: "'d decimal_pkg \<Rightarrow> engine_settle \<Rightarrow> unit wop" where
  "reconcileAll D E = reads (\<lambda>s.
     handle (ListOpenVenueOrders (Conn_ExternalID (W_Connection s)))
       (\<lambda>e. modify (\<lambda>s. s\<lparr>W_ReconcileAllPending := True\<rparr>))
       (\<lambda>links. andthen (modify (\<lambda>s. s\<lparr>W_ReconcileAllPending := False\<rparr>))
         (\<lambda>_. reconcile_links D E links)))"

definition reconcileClientID ::
  "'d decimal_pkg \<Rightarrow> engine_settle \<Rightarrow> string \<Rightarrow> unit wop" where
  "reconcileClientID D E coid = reads (\<lambda>s.
     handle (FindVenueOrderByClientID (Conn_ExternalID (W_Connection s)) coid) (\<lambda>e. ret ())
       (\<lambda>found. case found of None \<Rightarrow> unpend coid | Some link \<Rightarrow> trackReconcile D E link))"

subsection \<open>Venue events and the retry tick\<close>

definition handleFill ::
  "'d decimal_pkg \<Rightarrow> engine_settle \<Rightarrow> venue_order \<Rightarrow> fill \<Rightarrow> unit wop" where
  "handleFill D E link f =
     andthen (GetOrder (VO_Order link)) (\<lambda>detail.
     andthen (lift_res (cumulative D (Det_Trades detail))) (\<lambda>officerCum.
     andthen (lift_res (fillQuantities D f)) (\<lambda>(qty, venueCum).
       if dec_le D venueCum officerCum then ret ()
       else if OrderStatusTerminal (Order_Status (Det_Order detail))
       then raise (Wrap ''trading: venue cumulative qty exceeds Officer cumulative qty''
         (Sentinel ErrTerminalOrder))
       else if \<not> dec_eq D (SubDec D venueCum qty) officerCum then trackReconcile D E link
       else applyFill D E link (Det_Order detail) f)))"

datatype event_kind = EventConnected | EventFill | EventOrder | OtherEvent string

record venue_event =
  VE_Kind :: event_kind
  VE_Ref :: order_ref
  VE_Fill :: fill

definition handleEvent ::
  "'d decimal_pkg \<Rightarrow> engine_settle \<Rightarrow> venue_event \<Rightarrow> unit wop" where
  "handleEvent D E ev =
     (if VE_Kind ev = EventConnected then andthen (reconcileAll D E) (\<lambda>_. intakeFees)
      else if VE_Kind ev \<noteq> EventFill \<and> VE_Kind ev \<noteq> EventOrder then ret ()
      else (let coid = Ref_ClientOrderID (VE_Ref ev)
        in if coid = [] then ret ()
           else reads (\<lambda>s.
             handle (FindVenueOrderByClientID (Conn_ExternalID (W_Connection s)) coid)
               (\<lambda>e. pend coid)
               (\<lambda>found. case found of
                   None \<Rightarrow> ret ()
                 | Some link \<Rightarrow>
                     if VE_Kind ev = EventOrder then trackReconcile D E link
                     else handle (handleFill D E link (VE_Fill ev))
                       (\<lambda>e. finishAttempt (VO_ClientOrderID link) (raise e)) ret))))"

fun reconcile_pending ::
  "'d decimal_pkg \<Rightarrow> engine_settle \<Rightarrow> string list \<Rightarrow> unit wop" where
  "reconcile_pending D E [] = ret ()"
| "reconcile_pending D E (c # cs) =
     andthen stopped (\<lambda>st. if st then ret ()
       else andthen (reconcileClientID D E c) (\<lambda>_. reconcile_pending D E cs))"

definition retry_tick :: "'d decimal_pkg \<Rightarrow> engine_settle \<Rightarrow> unit wop" where
  "retry_tick D E =
     andthen (reads (\<lambda>s. if W_ReconcileAllPending s then reconcileAll D E else ret ())) (\<lambda>_.
     andthen (gets W_Pending) (\<lambda>cs. reconcile_pending D E cs))"

definition stream_closed :: "unit wop" where
  "stream_closed = reads (\<lambda>s. if W_Stopped s then ret ()
     else modify (\<lambda>s. s\<lparr>W_Unavailable := Some ''trading: venue event stream closed''\<rparr>))"

end
