(* ===== verification/RuntimeSafety.thy ===== *)
theory RuntimeSafety
  imports TradingRuntime SettlementFrame
begin

section \<open>Every order reaches the venue at most once\<close>

text \<open>
  The worker and everything else that acts on the realm as a step relation, and the invariant
  that the durable send mark guards the venue: an order that was handed to the venue has a link
  that is marked, a marked link is never removed and no order has two links.
\<close>

subsection \<open>What leaves the links and the venue alone\<close>

definition same_links ::
  "venue_order list \<Rightarrow> (string \<times> venue_request) list \<Rightarrow> (go_error + string) list \<Rightarrow> fault set
    \<Rightarrow> world \<Rightarrow> bool" where
  "same_links ls rs vs F s \<longleftrightarrow> R_Links s = ls \<and> V_Requests s = rs \<and> V_SendResults s = vs
     \<and> set (R_Faults s) \<subseteq> F"

lemma same_links_simps [simp]:
  "same_links ls rs vs F (s\<lparr>R_Orders := a0\<rparr>) = same_links ls rs vs F s"
  "same_links ls rs vs F (s\<lparr>R_Engine := e1\<rparr>) = same_links ls rs vs F s"
  "same_links ls rs vs F (s\<lparr>R_Reports := a1\<rparr>) = same_links ls rs vs F s"
  "same_links ls rs vs F (s\<lparr>R_Audit := a2\<rparr>) = same_links ls rs vs F s"
  "same_links ls rs vs F (s\<lparr>R_Fatal := a3\<rparr>) = same_links ls rs vs F s"
  "same_links ls rs vs F (s\<lparr>R_Fresh := a4\<rparr>) = same_links ls rs vs F s"
  "same_links ls rs vs F (s\<lparr>W_Pending := a5\<rparr>) = same_links ls rs vs F s"
  "same_links ls rs vs F (s\<lparr>W_ReconcileAllPending := a6\<rparr>) = same_links ls rs vs F s"
  "same_links ls rs vs F (s\<lparr>W_Unavailable := a7\<rparr>) = same_links ls rs vs F s"
  "same_links ls rs vs F (s\<lparr>W_Random := a8\<rparr>) = same_links ls rs vs F s"
  "same_links ls rs vs F (s\<lparr>W_FeeCursor := a9\<rparr>) = same_links ls rs vs F s"
  "same_links ls rs vs F (s\<lparr>W_FeeSkips := a10\<rparr>) = same_links ls rs vs F s"
  "same_links ls rs vs F (s\<lparr>W_FeeSkipped := a11\<rparr>) = same_links ls rs vs F s"
  "same_links ls rs vs F (s\<lparr>R_Adjustments := a12\<rparr>) = same_links ls rs vs F s"
  "same_links ls rs vs F (s\<lparr>V_LookupResults := a13\<rparr>) = same_links ls rs vs F s"
  "same_links ls rs vs F (s\<lparr>V_FeePages := a14\<rparr>) = same_links ls rs vs F s"
  "same_links ls rs vs F (s\<lparr>V_AdjustResults := a15\<rparr>) = same_links ls rs vs F s"
  "same_links ls rs vs F (s\<lparr>R_Accounts := a16\<rparr>) = same_links ls rs vs F s"
  "same_links ls rs vs F (s\<lparr>R_Assets := a17\<rparr>) = same_links ls rs vs F s"
  "same_links ls rs vs F (s\<lparr>R_Balances := a18\<rparr>) = same_links ls rs vs F s"
  by (simp_all add: same_links_def)

interpretation links_blind: settlement_blind "same_links ls rs vs F" for ls rs vs F
  by unfold_locales (auto simp: same_links_def)

lemmas same_call = links_blind.call

lemma same_read: "(\<And>s. snd (m s) = s) \<Longrightarrow> keeps (same_links ls rs vs F) m"
  by (rule links_blind.reading)

named_theorems same_rules

lemma same_reads [same_rules]:
  "keeps (same_links ls rs vs F) (GetTradingConnection c)"
  "keeps (same_links ls rs vs F) (ListTradingAccess a)"
  "keeps (same_links ls rs vs F) (FindTradingInstrument c b q)"
  "keeps (same_links ls rs vs F) (ExecutionReportExists i)"
  "keeps (same_links ls rs vs F) (GetVenueOrder oid)"
  "keeps (same_links ls rs vs F) (FindVenueOrderByClientID c x)"
  "keeps (same_links ls rs vs F) (ListOpenVenueOrders c)"
  "keeps (same_links ls rs vs F) (EarliestVenueOrderTime c)"
  "keeps (same_links ls rs vs F) (GetOrder oid)"
  "keeps (same_links ls rs vs F) (lookupOrderID oid)"
  "keeps (same_links ls rs vs F) (resolveTradingConnectionID c)"
  "keeps (same_links ls rs vs F) (requireNoVenueOrder oid)"
  "keeps (same_links ls rs vs F) (GetTradingFeeAccounts c)"
  unfolding store_reads GetTradingFeeAccounts_def
  by (intro keeps_rules same_call same_read; simp split: option.splits)+

lemmas same_pipeline [same_rules] =
  links_blind.settlement links_blind.node_steps links_blind.report

lemma same_sink [same_rules]: "keeps (same_links ls rs vs F) (sink D E i)"
  unfolding sink_def by (rule same_rules)

lemma same_worker [same_rules]:
  "keeps (same_links ls rs vs F) (pend c)"
  "keeps (same_links ls rs vs F) (unpend c)"
  "keeps (same_links ls rs vs F) stopped"
  "keeps (same_links ls rs vs F) stream_closed"
  unfolding pend_def unpend_def stopped_def stream_closed_def
  by (intro keeps_rules keeps_modify; simp)+

lemma same_answers [same_rules]:
  "keeps (same_links ls rs vs F) (venue_lookup r)"
  "keeps (same_links ls rs vs F) random_id"
  by (auto simp: keeps_def venue_lookup_def random_id_def split: list.splits)

lemma same_runtime [same_rules]:
  "keeps (same_links ls rs vs F) (cancelOrder D E l)"
  "keeps (same_links ls rs vs F) (applyFill D E l oi f)"
  "keeps (same_links ls rs vs F) (checkDestination oi dest)"
  "keeps (same_links ls rs vs F) (send_outcome D E l e)"
  unfolding cancelOrder_def applyFill_def checkDestination_def send_outcome_def
  by (intro keeps_rules same_rules)+

lemma same_fees [same_rules]: "keeps (same_links ls rs vs F) intakeFees"
proof -
  have a: "keeps (same_links ls rs vs F) (adjust_sink x i r)" for x i r
    by (auto simp: keeps_def adjust_sink_def Let_def same_links_def split: list.splits option.splits)
  have s: "keeps (same_links ls rs vs F) (reportFeeSkip f r)" for f r
    unfolding reportFeeSkip_def fee_skip_sink_def
    by (intro keeps_rules same_call keeps_modify) simp_all
  have f: "keeps (same_links ls rs vs F) (intakeFee f x r)" for f x r
    unfolding intakeFee_def find_adjustment_def feeAsset_def
    by (intro keeps_rules same_call a s same_rules)
  have p: "keeps (same_links ls rs vs F) (intake_page x r fs)" for x r fs
    by (induction x r fs rule: intake_page.induct)
      (auto intro!: keeps_rules s f same_rules keeps_modify)
  have q: "keeps (same_links ls rs vs F) (intake_pages x r ps)" for x r ps
    by (induction x r ps rule: intake_pages.induct)
      (auto intro!: keeps_rules p same_rules keeps_modify)
  show ?thesis
    unfolding intakeFees_def
    by (auto intro!: keeps_rules same_rules q split: list.splits)
qed

subsection \<open>The guard\<close>

definition attempted :: "venue_order list \<Rightarrow> string set" where
  "attempted ls = {VO_Order l |l. l \<in> set ls \<and> VO_SendAttempted l}"

text \<open>\<open>guarded rs s\<close>: the venue was handed exactly \<open>rs\<close>, each order of it at most once and
  with a marked link, and links have distinct orders.\<close>

definition guarded :: "(string \<times> venue_request) list \<Rightarrow> world \<Rightarrow> bool" where
  "guarded rs s \<longleftrightarrow> V_Requests s = rs \<and> distinct (map fst rs)
     \<and> set (map fst rs) \<subseteq> attempted (R_Links s) \<and> distinct (map VO_Order (R_Links s))"

lemma same_guarded:
  assumes "\<And>ls vs F. keeps (same_links ls rs vs F) m"
  shows "keeps (guarded rs) m"
  unfolding keeps_def
proof (intro allI impI)
  fix s assume g: "guarded rs s"
  then have "same_links (R_Links s) rs (V_SendResults s) (set (R_Faults s)) s" by (simp add: same_links_def guarded_def)
  then have "same_links (R_Links s) rs (V_SendResults s) (set (R_Faults s)) (snd (m s))" by (rule keepsD[OF assms])
  then have e: "R_Links (snd (m s)) = R_Links s" "V_Requests (snd (m s)) = rs"
    unfolding same_links_def by blast+
  show "guarded rs (snd (m s))"
    using g unfolding guarded_def e by blast
qed

lemma guarded_faults [simp]: "guarded rs (s\<lparr>R_Faults := f\<rparr>) = guarded rs s"
  by (simp add: guarded_def)

lemma guarded_call: "keeps (guarded rs) m \<Longrightarrow> keeps (guarded rs) (store_call m)"
  by (rule keeps_store_call) simp_all

lemma guarded_insert: "keeps (guarded rs) (insert_link v)"
  by (auto simp: keeps_def guarded_def insert_link_def Let_def attempted_def)

lemma attempted_update:
  assumes "\<And>l. VO_Order (f l) = VO_Order l" and "\<And>l. VO_SendAttempted (f l)"
  shows "attempted ls \<subseteq> attempted (map (\<lambda>l. if c l then f l else l) ls)"
proof
  fix x assume "x \<in> attempted ls"
  then obtain l where l: "l \<in> set ls" "VO_SendAttempted l" "x = VO_Order l"
    by (auto simp: attempted_def)
  let ?g = "\<lambda>l. if c l then f l else l"
  have "?g l \<in> set (map ?g ls)" using l(1) by auto
  moreover have "VO_SendAttempted (?g l)" "VO_Order (?g l) = x" using l assms by auto
  ultimately show "x \<in> attempted (map ?g ls)" unfolding attempted_def by blast
qed

lemma map_order_update:
  "(\<And>l. VO_Order (f l) = VO_Order l) \<Longrightarrow>
   map VO_Order (map (\<lambda>l. if c l then f l else l) ls) = map VO_Order ls"
  by (induction ls) auto

lemma guarded_update:
  assumes "\<And>l. VO_Order (f l) = VO_Order l" and "\<And>l. VO_SendAttempted (f l)"
  shows "keeps (guarded rs) (update_links oid c f)"
  unfolding keeps_def
proof (intro allI impI)
  fix s assume g: "guarded rs s"
  let ?ls = "map (\<lambda>l. if VO_Order l = oid \<and> c l then f l else l) (R_Links s)"
  have "map VO_Order ?ls = map VO_Order (R_Links s)" "attempted (R_Links s) \<subseteq> attempted ?ls"
    by (rule map_order_update[OF assms(1)], rule attempted_update[OF assms])
  moreover have "R_Links (snd (update_links oid c f s)) = ?ls"
    "V_Requests (snd (update_links oid c f s)) = V_Requests s"
    by (simp_all add: update_links_def)
  ultimately show "guarded rs (snd (update_links oid c f s))"
    using g unfolding guarded_def by (simp del: map_map) blast
qed

lemma distinct_map_filter_keep: "distinct (map f xs) \<Longrightarrow> distinct (map f (filter P xs))"
  by (induction xs) auto

lemma guarded_delete: "keeps (guarded rs) (delete_unsent oid)"
proof -
  have "attempted (filter (\<lambda>l. \<not> (VO_Order l = oid \<and> \<not> VO_SendAttempted l \<and> VO_VenueOrderID l = [])) ls)
      = attempted ls" for ls
    by (auto simp: attempted_def)
  then show ?thesis
    by (auto simp: keeps_def guarded_def delete_unsent_def Let_def distinct_map_filter_keep)
qed

lemma guarded_links:
  "keeps (guarded rs) (CreateVenueOrder v)"
  "keeps (guarded rs) (SetVenueOrderID oid x)"
  "keeps (guarded rs) (MarkVenueOrderSendAttempted oid)"
  "keeps (guarded rs) (DeleteVenueOrder oid)"
  unfolding CreateVenueOrder_def SetVenueOrderID_def MarkVenueOrderSendAttempted_def
    DeleteVenueOrder_def
  by (intro keeps_rules guarded_call guarded_insert guarded_update guarded_delete
      same_rules[THEN same_guarded]; simp)+

lemmas guarded_rules = guarded_links same_rules[THEN same_guarded]

lemma guarded_reconcile_fills: "keeps (guarded rs) (reconcile_fills D E l d c fs)"
  by (induction D E l d c fs rule: reconcile_fills.induct)
    (auto intro!: keeps_rules guarded_rules)

lemma guarded_reconcile [intro]: "keeps (guarded rs) (reconcile D E l)"
  unfolding reconcile_def reconcile_snapshot_def
  by (intro keeps_rules guarded_rules guarded_reconcile_fills)

lemma guarded_track: "keeps (guarded rs) (trackReconcile D E l)"
  unfolding trackReconcile_def finishAttempt_def
  by (intro keeps_rules guarded_rules guarded_reconcile)

lemma guarded_modify_pending:
  "keeps (guarded rs) (modify (\<lambda>s. s\<lparr>W_ReconcileAllPending := b\<rparr>))"
  by (rule keeps_modify) (simp add: guarded_def)

lemma guarded_reconcile_links: "keeps (guarded rs) (reconcile_links D E ls)"
  by (induction ls) (auto intro!: keeps_rules guarded_rules guarded_track)

lemma guarded_reconcileAll: "keeps (guarded rs) (reconcileAll D E)"
  unfolding reconcileAll_def
  by (intro keeps_rules guarded_rules guarded_modify_pending guarded_reconcile_links)

lemma guarded_reconcileClientID: "keeps (guarded rs) (reconcileClientID D E c)"
  unfolding reconcileClientID_def by (intro keeps_rules guarded_rules guarded_track)

lemma guarded_handleFill: "keeps (guarded rs) (handleFill D E l f)"
  unfolding handleFill_def by (intro keeps_rules guarded_rules guarded_track)

lemma guarded_handleEvent: "keeps (guarded rs) (handleEvent D E ev)"
  unfolding handleEvent_def finishAttempt_def
  by (intro keeps_rules guarded_rules guarded_track guarded_reconcileAll guarded_handleFill)

lemma guarded_retry_tick: "keeps (guarded rs) (retry_tick D E)"
proof -
  have "keeps (guarded rs) (reconcile_pending D E cs)" for cs
    by (induction cs) (auto intro!: keeps_rules guarded_rules guarded_reconcileClientID)
  then show ?thesis
    unfolding retry_tick_def by (intro keeps_rules guarded_reconcileAll)
qed

subsection \<open>Sending\<close>

text \<open>After its link was created an order was not handed to the venue yet.\<close>

lemma CreateVenueOrder_fresh:
  assumes "CreateVenueOrder v s = (Inr l, t)" and "guarded rs s"
  shows "guarded rs t \<and> VO_Order v \<notin> set (map fst rs)"
proof -
  have g: "guarded rs t" using keepsD[OF guarded_links(1) assms(2)] assms(1) by (metis snd_conv)
  obtain a b u1 u2 s1 where l: "lookupOrderID (VO_Order v) u1 = (Inr a, u2)"
    and r: "resolveTradingConnectionID (VO_Connection v) u2 = (Inr b, s1)"
    and c: "store_call (insert_link v) s1 = (Inr l, t)" and "u1 = s"
    using assms(1) unfolding CreateVenueOrder_def by (auto simp: andthen_Inr)
  have s1: "guarded rs s1"
    using keeps_Inr[OF same_rules(11)[THEN same_guarded] r] keeps_Inr[OF same_rules(10)[THEN same_guarded] l]
      assms(2) \<open>u1 = s\<close> by blast
  obtain fs where i: "insert_link v (s1\<lparr>R_Faults := fs\<rparr>) = (Inr l, t)"
    using store_call_Inr[OF c] by blast
  have "VO_Order v \<notin> VO_Order ` set (R_Links s1)"
    using i by (auto simp: insert_link_def split: if_splits)
  then have "VO_Order v \<notin> attempted (R_Links s1)" by (auto simp: attempted_def)
  then show ?thesis using g s1 by (auto simp: guarded_def)
qed

end
