(* ===== verification/SendSafety.thy ===== *)
theory SendSafety
  imports RuntimeSafety
begin

section \<open>The send path and the reachable worlds\<close>

text \<open>
  What one call of \<open>send\<close> does to the venue, and the worlds that the worker, other callers and
  the environment reach together. An order reaches the venue at most once in all of them, and a
  refusal that is reported as \<open>ErrNotSent\<close> left the venue alone.
\<close>

subsection \<open>One call of send\<close>

lemma not_sent_refl [simp]: "errors_is (not_sent_error e) ErrNotSent"
  by (simp add: not_sent_error_def ErrNotSent_def)

lemma guarded_requests: "guarded rs s \<Longrightarrow> V_Requests s = rs"
  by (simp add: guarded_def)

definition fresh_at :: "(string \<times> venue_request) list \<Rightarrow> string \<Rightarrow> world \<Rightarrow> bool" where
  "fresh_at rs oid s \<longleftrightarrow> guarded rs s \<and> oid \<notin> set (map fst rs)"

lemma keeps_fresh: "keeps (guarded rs) m \<Longrightarrow> keeps (fresh_at rs oid) m"
  by (simp add: keeps_def fresh_at_def)

lemma send_link_prefix:
  "keeps (guarded rs) (checkDestination oi dest)"
  "keeps (guarded rs) (GetOrder oid)"
  "keeps (guarded rs) random_id"
  by (rule guarded_rules)+

lemma send_link_keeps: "keeps (guarded rs) (send_link oid dest)"
  unfolding send_link_def by (intro keeps_rules guarded_rules)

text \<open>A link was made: the order had not been handed over, and the request carries its id.\<close>

lemma send_link_Inr:
  assumes "send_link oid dest s = (Inr (m, l), t)" and "guarded rs s"
  shows "fresh_at rs oid t \<and> VR_ClientOrderID m = VO_ClientOrderID l \<and> VO_Order l = oid"
proof -
  obtain d1 s1 m0 s2 d2 s3 c s4 where st:
      "GetOrder oid s = (Inr d1, s1)"
      "handle (checkDestination (Det_Order d1) dest)
         (\<lambda>e. reads (\<lambda>s. if W_Stopped s \<and> errors_is e err_canceled
           then raise (Wrap2 (Wrap ''trading: runtime stopped'' e) (Sentinel ErrConflict))
           else raise e)) ret s1 = (Inr m0, s2)"
      "GetOrder oid s2 = (Inr d2, s3)" "random_id s3 = (Inr c, s4)"
    and create: "CreateVenueOrder \<lparr> VO_Order = oid, VO_Connection = Dest_Connection dest,
           VO_VenueAccount = Dest_VenueAccount dest, VO_Route = Dest_Route dest,
           VO_ClientOrderID = c, VO_SendAttempted = False, VO_VenueOrderID = [],
           VO_CreatedAt = 0 \<rparr> s4 = (Inr l, t)"
    and m: "m = m0\<lparr>VR_ClientOrderID := c\<rparr>"
    using assms(1) unfolding send_link_def by (auto simp: andthen_Inr handle_Inr)
  have dest: "keeps (guarded rs) (handle (checkDestination (Det_Order d1) dest)
         (\<lambda>e. reads (\<lambda>s. if W_Stopped s \<and> errors_is e err_canceled
           then raise (Wrap2 (Wrap ''trading: runtime stopped'' e) (Sentinel ErrConflict))
           else raise e)) ret)"
    by (intro keeps_rules send_link_prefix)
  have "guarded rs s4"
    using keeps_Inr[OF send_link_prefix(3) st(4) keeps_Inr[OF send_link_prefix(2) st(3)
        keeps_Inr[OF dest st(2) keeps_Inr[OF send_link_prefix(2) st(1) assms(2)]]]] .
  from CreateVenueOrder_fresh[OF create this] have "fresh_at rs oid t"
    by (simp add: fresh_at_def)
  moreover have "VO_ClientOrderID l = c \<and> VO_Order l = oid"
    using create unfolding CreateVenueOrder_def
    by (auto simp: andthen_Inr insert_link_def Let_def split: if_splits dest!: store_call_Inr)
  ultimately show ?thesis using m by simp
qed

lemma drop_claim_keeps: "keeps (guarded rs) (drop_claim oid l e)"
  unfolding drop_claim_def by (intro keeps_rules guarded_rules)

lemma send_claim_keeps: "keeps (guarded rs) (send_claim D E oid l)"
  unfolding send_claim_def by (intro keeps_rules guarded_rules drop_claim_keeps)

text \<open>The mark is durable before the connector is called.\<close>

lemma Mark_attempted:
  assumes "MarkVenueOrderSendAttempted oid s = (Inr x, t)"
  shows "oid \<in> attempted (R_Links t)"
proof -
  obtain fs where "R_Links t = map (\<lambda>l. if VO_Order l = oid then l\<lparr>VO_SendAttempted := True\<rparr> else l)
      (R_Links (s\<lparr>R_Faults := fs\<rparr>))"
    and "\<exists>l\<in>set (R_Links (s\<lparr>R_Faults := fs\<rparr>)). VO_Order l = oid"
    using assms unfolding MarkVenueOrderSendAttempted_def
    by (fastforce simp: andthen_Inr update_links_def filter_empty_conv split: if_splits
        dest!: store_call_Inr)
  then obtain l where "l \<in> set (R_Links (s\<lparr>R_Faults := fs\<rparr>))" "VO_Order l = oid" by blast
  then have "l\<lparr>VO_SendAttempted := True\<rparr> \<in> set (R_Links t)"
    using \<open>R_Links t = _\<close> by (auto simp: image_iff)
  with \<open>VO_Order l = oid\<close> show ?thesis
    by (auto simp: attempted_def intro!: exI[of _ "l\<lparr>VO_SendAttempted := True\<rparr>"])
qed

lemma venue_send_guarded:
  assumes "fresh_at rs oid s" and "oid \<in> attempted (R_Links s)"
  shows "guarded (rs @ [(oid, m)]) (snd (venue_send oid m s))"
  using assms by (auto simp: venue_send_def Let_def guarded_def fresh_at_def split: list.splits)

lemma send_venue_tail:
  "keeps (guarded rs) (send_outcome D E l e)"
  "keeps (guarded rs) (andthen (SetVenueOrderID oid ack) (\<lambda>_.
     andthen (unpend c) (\<lambda>_. ret v)))"
  by (intro keeps_rules guarded_rules)+

text \<open>What the venue was handed when the part of \<open>send\<close> after the claim ends.\<close>

definition handed_over ::
  "(string \<times> venue_request) list \<Rightarrow> string \<Rightarrow> venue_request \<Rightarrow> world \<Rightarrow> bool" where
  "handed_over rs oid m t \<longleftrightarrow> guarded (rs @ [(oid, m)]) t"

lemma send_venue_guarded:
  assumes "fresh_at rs oid s"
  shows "guarded rs (snd (send_venue D E oid m l s))
       \<or> handed_over rs oid m (snd (send_venue D E oid m l s))"
proof -
  obtain s1 where p: "pend (VO_ClientOrderID l) s = (Inr (), s1)" and f1: "fresh_at rs oid s1"
    using assms keepsD[OF keeps_fresh[OF same_worker(1)[THEN same_guarded]], of rs oid s "VO_ClientOrderID l"]
    by (cases "pend (VO_ClientOrderID l) s") (auto simp: pend_def modify_def)
  have g1: "keeps (fresh_at rs oid) (MarkVenueOrderSendAttempted oid)"
    by (rule keeps_fresh[OF guarded_links(3)])
  show ?thesis
  proof (cases "MarkVenueOrderSendAttempted oid s1")
    case (Pair r s2)
    have f2: "fresh_at rs oid s2" using keepsD[OF g1 f1] Pair by simp
    show ?thesis
    proof (cases r)
      case (Inl e)
      then show ?thesis using p Pair f2 by (simp add: send_venue_def andthen_def fresh_at_def)
    next
      case (Inr x)
      let ?m = "handle (venue_send oid m) (send_outcome D E (l\<lparr>VO_SendAttempted := True\<rparr>))
       (\<lambda>ack. if ack = []
         then send_outcome D E (l\<lparr>VO_SendAttempted := True\<rparr>)
           (Text ''trading: Send acknowledged without a venue order id'')
         else andthen (SetVenueOrderID oid ack) (\<lambda>_.
           andthen (unpend (VO_ClientOrderID l)) (\<lambda>_.
           ret (l\<lparr>VO_SendAttempted := True, VO_VenueOrderID := ack\<rparr>))))"
      have eq: "send_venue D E oid m l s = ?m s2"
        using p Pair Inr by (simp add: send_venue_def andthen_def)
      obtain q s3 where vs: "venue_send oid m s2 = (q, s3)" by fastforce
      have "guarded (rs @ [(oid, m)]) s3"
        using venue_send_guarded[OF f2 Mark_attempted] Pair Inr vs by (metis snd_conv)
      then have "guarded (rs @ [(oid, m)]) (snd (?m s2))"
        using vs by (cases q)
          (simp_all add: handle_def keepsD[OF send_venue_tail(1)] keepsD[OF send_venue_tail(2)])
      then show ?thesis using eq by (simp add: handed_over_def)
    qed
  qed
qed

lemma send_unfold:
  "send D E oid dest s = (case send_link oid dest s of
     (Inl e, t) \<Rightarrow> (Inl (not_sent_error e), t)
   | (Inr (m, l), t) \<Rightarrow> (case send_claim D E oid l t of
        (Inl e, u) \<Rightarrow> (Inl e, u)
      | (Inr _, u) \<Rightarrow> send_venue D E oid m l u))"
  unfolding send_def
  by (simp add: andthen_def handle_def raise_def ret_def split: prod.split sum.split)

text \<open>A call hands the order over at most once, and only an order that was not handed over.\<close>

lemma send_guarded:
  assumes "guarded rs s"
  shows "guarded rs (snd (send D E oid dest s))
       \<or> (\<exists>m. oid \<notin> set (map fst rs) \<and> handed_over rs oid m (snd (send D E oid dest s)))"
proof (cases "send_link oid dest s")
  case (Pair r t)
  show ?thesis
  proof (cases r)
    case (Inl e)
    then show ?thesis using Pair keepsD[OF send_link_keeps assms, of oid dest]
      by (simp add: send_unfold)
  next
    case (Inr ml)
    obtain m l where ml: "ml = (m, l)" by fastforce
    have f: "fresh_at rs oid t" using send_link_Inr[of oid dest s m l t] assms Pair Inr ml by simp
    have c: "fresh_at rs oid (snd (send_claim D E oid l t))"
      by (rule keepsD[OF keeps_fresh[OF send_claim_keeps] f])
    show ?thesis
    proof (cases "send_claim D E oid l t")
      case cl: (Pair q u)
      then show ?thesis
        using Pair Inr ml c send_venue_guarded[of rs oid u D E m l]
        by (cases q) (auto simp: send_unfold fresh_at_def)
    qed
  qed
qed

subsection \<open>The reachable worlds\<close>

text \<open>
  One step of the system: an operation of the worker runs to its end, or to the point where the
  process stops; a caller books a report; or the environment changes anything except the links
  and the venue. Restarts, other workers' bookkeeping, new orders, configuration, clock and
  faults are environment steps.
\<close>

inductive wstep :: "'d decimal_pkg \<Rightarrow> engine_settle \<Rightarrow> world \<Rightarrow> world \<Rightarrow> bool"
  for D :: "'d decimal_pkg" and E :: engine_settle where
  step_send: "wstep D E s (snd (send D E oid dest s))"
| step_event: "wstep D E s (snd (handleEvent D E ev s))"
| step_retry: "wstep D E s (snd (retry_tick D E s))"
| step_fees: "wstep D E s (snd (intakeFees s))"
| step_precheck: "wstep D E s (snd (checkDestination oi dest s))"
| step_start: "wstep D E s (snd (reconcileAll D E s))"
| step_closed: "wstep D E s (snd (stream_closed s))"
| step_report: "wstep D E s (snd (applyExecutionReport D E c i s))"
| step_environment: "R_Links t = R_Links s \<Longrightarrow> V_Requests t = V_Requests s \<Longrightarrow> wstep D E s t"

inductive reached :: "'d decimal_pkg \<Rightarrow> engine_settle \<Rightarrow> world \<Rightarrow> bool"
  for D :: "'d decimal_pkg" and E :: engine_settle where
  reached_init: "R_Links s = [] \<Longrightarrow> V_Requests s = [] \<Longrightarrow> reached D E s"
| reached_step: "reached D E s \<Longrightarrow> wstep D E s t \<Longrightarrow> reached D E t"

lemma keeps_guarded_step:
  "keeps (guarded (V_Requests s)) m \<Longrightarrow> guarded (V_Requests s) s
    \<Longrightarrow> guarded (V_Requests (snd (m s))) (snd (m s))"
  using keepsD guarded_requests by metis

lemma wstep_guarded:
  assumes "wstep D E s t" and "guarded (V_Requests s) s"
  shows "guarded (V_Requests t) t"
  using assms
proof (cases rule: wstep.cases)
  case (step_send oid dest)
  then show ?thesis
    using send_guarded[OF assms(2), of D E oid dest] guarded_requests
    by (auto simp: handed_over_def)
next
  case (step_environment)
  then show ?thesis using assms(2) by (simp add: guarded_def)
qed (use assms(2) in \<open>simp_all add: keeps_guarded_step guarded_handleEvent guarded_retry_tick
    guarded_reconcileAll same_worker[THEN same_guarded] links_blind.report[THEN same_guarded]
    same_fees[THEN same_guarded] same_runtime[THEN same_guarded]\<close>)

lemma reached_guarded: "reached D E s \<Longrightarrow> guarded (V_Requests s) s"
proof (induction rule: reached.induct)
  case (reached_init s)
  then show ?case by (simp add: guarded_def)
next
  case (reached_step s t)
  then show ?case using wstep_guarded by blast
qed

subsection \<open>What a refusal says\<close>

text \<open>
  \<open>honest s\<close>: neither the faults of the store nor the answers of the connector pretend to be the
  runtime's own \<open>ErrNotSent\<close>.
\<close>

fun honest_fault :: "fault \<Rightarrow> bool" where
  "honest_fault NoFault = True"
| "honest_fault (FailBefore e) = (\<not> errors_is e ErrNotSent)"
| "honest_fault (FailAfter e) = (\<not> errors_is e ErrNotSent)"

fun honest_answer :: "go_error + string \<Rightarrow> bool" where
  "honest_answer (Inl e) = (\<not> errors_is e ErrNotSent)"
| "honest_answer (Inr v) = True"

definition honest :: "world \<Rightarrow> bool" where
  "honest s \<longleftrightarrow> (\<forall>f\<in>set (R_Faults s). honest_fault f) \<and> (\<forall>x\<in>set (V_SendResults s). honest_answer x)"

lemma same_honest:
  assumes "\<And>ls rs vs F. keeps (same_links ls rs vs F) m"
  shows "keeps honest m"
  unfolding keeps_def
proof (intro allI impI)
  fix s assume h: "honest s"
  have "same_links (R_Links s) (V_Requests s) (V_SendResults s) (set (R_Faults s)) s"
    by (simp add: same_links_def)
  then have "same_links (R_Links s) (V_Requests s) (V_SendResults s) (set (R_Faults s)) (snd (m s))"
    by (rule keepsD[OF assms])
  with h show "honest (snd (m s))" by (auto simp: honest_def same_links_def)
qed

definition candid :: "'a wop \<Rightarrow> bool" where
  "candid m = triple honest m (\<lambda>_. honest) (\<lambda>e s. honest s \<and> \<not> errors_is e ErrNotSent)"

lemma candid_handle:
  "keeps honest m \<Longrightarrow> (\<And>a. candid (f a)) \<Longrightarrow> (\<And>e. candid (h e)) \<Longrightarrow> candid (handle m h f)"
  unfolding candid_def keeps_triple by (rule triple_handle)

lemma candid_andthen: "candid m \<Longrightarrow> (\<And>a. candid (f a)) \<Longrightarrow> candid (andthen m f)"
  unfolding candid_def by (rule triple_andthen)

lemma candid_basic:
  "candid (ret a)" "candid (modify f) \<longleftrightarrow> (\<forall>s. honest s \<longrightarrow> honest (f s))"
  "\<not> errors_is e ErrNotSent \<Longrightarrow> candid (raise e)"
  by (auto simp: candid_def triple_def ret_def modify_def raise_def)

lemma candid_if: "candid m \<Longrightarrow> candid n \<Longrightarrow> candid (if c then m else n)"
  by simp

lemma candid_call:
  assumes "\<And>s. honest s \<Longrightarrow> honest (snd (m s)) \<and> (\<forall>e. fst (m s) = Inl e \<longrightarrow> \<not> errors_is e ErrNotSent)"
  shows "candid (store_call m)"
proof -
  let ?ok = "\<lambda>r. case r of (Inr a, t) \<Rightarrow> honest t | (Inl e, t) \<Rightarrow> honest t \<and> \<not> errors_is e ErrNotSent"
  have run: "?ok (m s)" if "honest s" for s
    using assms[OF that] by (cases "m s"; cases "fst (m s)") auto
  have "?ok (store_call m s)" if h: "honest s" for s
  proof (cases "R_Faults s")
    case Nil
    then show ?thesis using run[OF h] by (simp add: store_call_def)
  next
    case (Cons f fs)
    have h': "honest (s\<lparr>R_Faults := fs\<rparr>)" and f: "honest_fault f"
      using h Cons by (simp_all add: honest_def)
    obtain r u where m: "m (s\<lparr>R_Faults := fs\<rparr>) = (r, u)" by fastforce
    show ?thesis
      using run[OF h'] f h' m Cons by (cases f; cases r) (simp_all add: store_call_def)
  qed
  then show ?thesis unfolding candid_def triple_def by blast
qed

lemma candid_pend: "candid (pend c)" "candid (unpend c)"
  by (auto simp: pend_def unpend_def candid_basic honest_def)

lemma candid_mark: "candid (MarkVenueOrderSendAttempted oid)"
  unfolding MarkVenueOrderSendAttempted_def
  by (intro candid_andthen candid_call candid_if candid_basic)
    (auto simp: update_links_def honest_def ErrNotSent_def)

lemma candid_read: "(\<And>s. snd (m s) = s) \<Longrightarrow> (\<And>s e. fst (m s) \<noteq> Inl e) \<Longrightarrow> candid (store_call m)"
  by (rule candid_call) auto

lemma candid_set: "candid (SetVenueOrderID oid x)"
proof -
  have "candid (lift_out (check c (err_invalid m)))" for c m
    by (auto simp: candid_def triple_def lift_out_def check_def ErrNotSent_def)
  moreover have "candid (store_call (update_links oid c f))" for c f
    by (rule candid_call) (auto simp: update_links_def honest_def)
  moreover have "candid (GetVenueOrder oid)"
    unfolding GetVenueOrder_def by (rule candid_read) (simp_all add: gets_def)
  ultimately show ?thesis
    unfolding SetVenueOrderID_def
    by (auto intro!: candid_andthen candid_if candid_basic simp: ErrNotSent_def split: option.split)
qed

lemma candid_outcome:
  assumes "\<not> errors_is e ErrNotSent"
  shows "candid (send_outcome D E l e)"
proof -
  have "keeps honest (cancelOrder D E l)" by (rule same_honest, rule same_rules)
  then show ?thesis
    unfolding send_outcome_def using assms
    by (auto intro!: candid_if candid_andthen candid_handle candid_pend candid_basic
        simp: ErrNotSent_def)
qed

lemma candid_send_venue: "candid (send_venue D E oid m l)"
proof -
  let ?l = "l\<lparr>VO_SendAttempted := True\<rparr>"
  have "candid (handle (venue_send oid m) (send_outcome D E ?l)
     (\<lambda>ack. if ack = [] then send_outcome D E ?l (Text x)
        else andthen (SetVenueOrderID oid ack) (\<lambda>_. andthen (unpend c) (\<lambda>_. ret (f ack)))))" for x c f
    unfolding candid_def
  proof (rule triple_handle)
    show "triple honest (venue_send oid m) (\<lambda>_. honest) (\<lambda>e s. honest s \<and> \<not> errors_is e ErrNotSent)"
      by (rule tripleI) (auto simp: venue_send_def honest_def Let_def err_timeout_def ErrNotSent_def
          split: list.splits)
  next
    fix e show "triple (\<lambda>s. honest s \<and> \<not> errors_is e ErrNotSent) (send_outcome D E ?l e)
        (\<lambda>_. honest) (\<lambda>e s. honest s \<and> \<not> errors_is e ErrNotSent)"
      using candid_outcome[of e D E ?l] by (auto simp: candid_def triple_def)
  next
    fix ack
    have "candid (if ack = [] then send_outcome D E ?l (Text x)
        else andthen (SetVenueOrderID oid ack) (\<lambda>_. andthen (unpend c) (\<lambda>_. ret (f ack))))"
      by (intro candid_if candid_outcome candid_andthen candid_set candid_pend candid_basic) simp
    then show "triple honest (if ack = [] then send_outcome D E ?l (Text x)
        else andthen (SetVenueOrderID oid ack) (\<lambda>_. andthen (unpend c) (\<lambda>_. ret (f ack))))
        (\<lambda>_. honest) (\<lambda>e s. honest s \<and> \<not> errors_is e ErrNotSent)"
      by (simp only: candid_def)
  qed
  then show ?thesis
    unfolding send_venue_def by (intro candid_andthen candid_pend candid_mark)
qed

lemma honest_links:
  "keeps honest (CreateVenueOrder v)"
  "keeps honest (DeleteVenueOrder oid)"
proof -
  have d: "keeps honest (delete_unsent oid)" and i: "keeps honest (insert_link v)" for v oid
    by (auto simp: keeps_def honest_def delete_unsent_def insert_link_def Let_def)
  show "keeps honest (CreateVenueOrder v)" "keeps honest (DeleteVenueOrder oid)"
    unfolding CreateVenueOrder_def DeleteVenueOrder_def
    by (intro keeps_rules keeps_store_call[OF d] keeps_store_call[OF i] same_rules[THEN same_honest];
        simp add: honest_def; blast)+
qed

lemma honest_send_link: "keeps honest (send_link oid dest)"
  unfolding send_link_def by (intro keeps_rules honest_links same_rules[THEN same_honest])

lemma honest_send_claim: "keeps honest (send_claim D E oid l)"
  unfolding send_claim_def drop_claim_def
  by (intro keeps_rules honest_links same_rules[THEN same_honest])

text \<open>A refusal with \<open>ErrNotSent\<close> means that the venue was not called.\<close>

lemma not_sent_untouched:
  assumes "guarded rs s" and "honest s"
    and "send D E oid dest s = (Inl e, t)" and "errors_is e ErrNotSent"
  shows "guarded rs t"
proof (cases "send_link oid dest s")
  case (Pair r u)
  show ?thesis
  proof (cases r)
    case (Inl e')
    then show ?thesis using Pair keepsD[OF send_link_keeps assms(1), of oid dest] assms(3)
      by (simp add: send_unfold)
  next
    case (Inr ml)
    obtain m l where ml: "ml = (m, l)" by fastforce
    have g: "guarded rs u" using send_link_Inr[of oid dest s m l u] assms(1) Pair Inr ml
      by (simp add: fresh_at_def)
    have h: "honest u" using keepsD[OF honest_send_link assms(2), of oid dest] Pair by simp
    show ?thesis
    proof (cases "send_claim D E oid l u")
      case cl: (Pair q v)
      have g': "guarded rs v" and h': "honest v"
        using keepsD[OF send_claim_keeps g, of D E oid l] keepsD[OF honest_send_claim h, of D E oid l] cl
        by simp_all
      show ?thesis
        using g' h' assms(3,4) Pair Inr ml cl
          triple_Inl[OF candid_send_venue[unfolded candid_def] h', of D E oid m l e t]
        by (cases q) (auto simp: send_unfold)
    qed
  qed
qed

end
