(* ===== verification/OrderWorld.thy ===== *)
theory OrderWorld
  imports OrderChanges SendSafety
begin

section \<open>The order desk and the venue together\<close>

text \<open>
  The worker, the reports and the order desk on one world. What the desk does leaves links and
  venue alone, and what the worker does leaves the engine's holds alone: so the venue is handed
  only orders whose pre-trade operation the engine committed, each at most once.
\<close>

subsection \<open>What the desk leaves alone\<close>

locale desk_blind = settlement_blind +
  assumes reserved: "I s \<Longrightarrow> I (s\<lparr>R_Reserved := vs\<rparr>)"
begin

lemma desk_reads:
  "keeps I (ListOrderEvents oid)"
  "keeps I (read_order_account acc)"
  "keeps I (read_untouched oid)"
proof -
  show e: "keeps I (ListOrderEvents oid)"
    unfolding ListOrderEvents_def by (rule store_read) (simp add: gets_def)
  show "keeps I (read_order_account acc)"
    unfolding read_order_account_def by (intro keeps_rules dictionary_rows)
  show "keeps I (read_untouched oid)"
    unfolding read_untouched_def by (intro keeps_rules row_rules e)
qed

lemma submission_tx: "keeps I (RecordOrderSubmission D pr attest draft ev answer)"
proof -
  have i: "keeps I (insert_order xid oi)" for xid oi
    by (auto simp: keeps_def insert_order_def orders)
  have g: "keeps I (gets f)" for f by (rule keeps_gets)
  have p: "keeps I (putEventAttestationTx oid xid att)" for oid xid att
    unfolding putEventAttestationTx_def by (intro keeps_rules tx_reads order_row)
  have o: "keeps I (open_submission draft ev)"
    unfolding open_submission_def createOrderTx_def appendOrderEventReturningTx_def
    by (intro keeps_rules tx_reads ids i order_row)
  show ?thesis
    unfolding RecordOrderSubmission_def recordOrderSubmissionTx_def attestOrderEventTx_def
    by (intro call in_transaction keeps_rules o settlement_tx tx_reads p)
qed

lemma submission_end:
  "keeps I (auditSubmittedOrder acc oi blocks accepted rejects)"
  "keeps I (auditImmediateSubmission acc oi result)"
  "keeps I (engine_commit operation oi failure)"
  "keeps I (engine_fill G oi input)"
proof -
  have d: "keeps I (auditOrderDecision acc oi accepted rejects)" for oi accepted rejects
    unfolding auditOrderDecision_def by (intro keeps_rules node_steps)
  show "keeps I (auditSubmittedOrder acc oi blocks accepted rejects)"
    "keeps I (auditImmediateSubmission acc oi result)"
    unfolding auditSubmittedOrder_def auditImmediateSubmission_def by (intro keeps_rules node_steps d)+
  show "keeps I (engine_commit operation oi failure)"
    unfolding engine_commit_def by (intro keeps_rules keeps_modify reserved)
  show "keeps I (engine_fill G oi input)"
    by (auto simp: keeps_def engine_fill_def engine split: sum.splits)
qed

lemma submissions:
  "keeps I (prepareSubmission G operation oi missing c)"
  "keeps I (submitOrder D G attestFor oi missing c)"
  "keeps I (submitImmediate D G attestForImmediate oi missing c)"
proof -
  have p: "keeps I (peek m)" for m :: "('a realm_scheme, go_error, 'x) op"
    by (simp add: keeps_def peek_def)
  have b: "keeps I (prepareSubmission G operation oi missing c)" for operation
    unfolding prepareSubmission_def beginOrderSubmission_def
    by (intro keeps_rules row_rules dictionary_rows call p)
  then show "keeps I (prepareSubmission G operation oi missing c)" .
  have c: "keeps I (completeSubmission D G attest draft ev answer steps)"
    if "\<And>o1 x. keeps I (steps o1 x)" for attest draft ev answer and steps :: "order \<Rightarrow> string \<Rightarrow> ('a, 'y) rop"
    unfolding completeSubmission_def by (intro keeps_rules node_steps submission_tx that)
  have r: "keeps I (rejectSubmission D G operation attestOf mk draft ev blocked persisted answer c)"
    for operation mk draft ev blocked persisted answer and attestOf :: "'r attest_for"
    unfolding rejectSubmission_def by (intro keeps_rules c submission_end)
  have a: "keeps I (acceptSubmission D G attestFor draft ev persisted answer failure c)"
    for draft ev persisted answer failure
    unfolding acceptSubmission_def by (intro keeps_rules c submission_end)
  have m: "keeps I (acceptImmediate D G attestForImmediate draft ev persisted answer failure c)"
    for draft ev persisted answer failure
    unfolding acceptImmediate_def by (intro keeps_rules c node_steps submission_end)
  show "keeps I (submitOrder D G attestFor oi missing c)"
    unfolding submitOrder_def by (intro keeps_rules b) (auto split: pre_trade.split intro!: keeps_rules r a)
  show "keeps I (submitImmediate D G attestForImmediate oi missing c)"
    unfolding submitImmediate_def by (intro keeps_rules b) (auto split: pre_trade.split intro!: keeps_rules r m)
qed

lemma changes_of_orders:
  "keeps I (confirmOrder D pr attest oid c)"
  "keeps I (cancelWorkflowOrder D E attest oid leaves c)"
  unfolding confirmOrder_def confirm_read_def confirm_write_def cancelWorkflowOrder_def persist_cancel_def
  by (intro keeps_rules row_rules desk_reads settlement engine_run)+

end

lemma same_links_reserved [simp]:
  "same_links ls rs vs F (s\<lparr>R_Reserved := a\<rparr>) = same_links ls rs vs F s"
  by (simp add: same_links_def)

interpretation desk_links: desk_blind "same_links ls rs vs F" for ls rs vs F
  by unfold_locales simp

subsection \<open>What the worker leaves alone\<close>

text \<open>
  The interface of the invariants that look at the orders and the engine's holds only: the worker
  changes both through reports alone, which it never forces, so an invariant that a report without
  force keeps survives it.
\<close>

locale order_facts =
  fixes I :: "world \<Rightarrow> bool" and D :: "'d decimal_pkg" and E :: engine_settle
  assumes looks: "I s \<Longrightarrow> R_Orders t = R_Orders s \<Longrightarrow> R_Reserved t = R_Reserved s \<Longrightarrow> I t"
    and report: "\<not> In_Force i \<Longrightarrow> keeps I (applyExecutionReport D E c i)"
begin

lemma aside:
  "(\<And>s. R_Orders (snd (m s)) = R_Orders s \<and> R_Reserved (snd (m s)) = R_Reserved s) \<Longrightarrow> keeps I m"
  unfolding keeps_def using looks by blast

lemma call: "keeps I m \<Longrightarrow> keeps I (store_call m)"
  by (rule keeps_store_call) (auto intro: looks)

lemma statements:
  "keeps I (insert_link v)"
  "keeps I (update_links oid b f)"
  "keeps I (delete_unsent oid)"
  by (rule aside; simp add: insert_link_def update_links_def delete_unsent_def Let_def)+

lemma worker_reads:
  "keeps I (GetTradingConnection x)"
  "keeps I (ListTradingAccess x)"
  "keeps I (FindTradingInstrument x b q)"
  "keeps I (ExecutionReportExists x)"
  "keeps I (GetVenueOrder x)"
  "keeps I (FindVenueOrderByClientID x y)"
  "keeps I (ListOpenVenueOrders x)"
  "keeps I (EarliestVenueOrderTime x)"
  "keeps I (GetOrder x)"
  "keeps I (lookupOrderID x)"
  "keeps I (resolveTradingConnectionID x)"
  "keeps I (GetTradingFeeAccounts x)"
  unfolding store_reads GetTradingFeeAccounts_def
  by (intro keeps_rules call aside; simp add: gets_def split: option.splits)+

lemma memory:
  "keeps I (pend x)"
  "keeps I (unpend x)"
  "keeps I stopped"
  "keeps I stream_closed"
  "keeps I (venue_lookup r)"
  "keeps I (venue_send x m)"
  "keeps I random_id"
  "keeps I (adjust_sink a i r')"
  by (rule aside; auto simp: pend_def unpend_def stopped_def stream_closed_def modify_def gets_def reads_def
      ret_def venue_lookup_def venue_send_def random_id_def adjust_sink_def Let_def split: list.splits option.splits)+

lemma links:
  "keeps I (CreateVenueOrder v)"
  "keeps I (SetVenueOrderID x y)"
  "keeps I (MarkVenueOrderSendAttempted x)"
  "keeps I (DeleteVenueOrder x)"
  unfolding CreateVenueOrder_def SetVenueOrderID_def MarkVenueOrderSendAttempted_def DeleteVenueOrder_def
  by (intro keeps_rules call statements worker_reads)+

lemma reporting:
  "keeps I (cancelOrder D E l)"
  "keeps I (applyFill D E l oi f)"
  "keeps I (checkDestination oi dest)"
  "keeps I (send_outcome D E l e)"
  "\<not> In_Force i \<Longrightarrow> keeps I (sink D E i)"
  unfolding cancelOrder_def applyFill_def checkDestination_def send_outcome_def sink_def
  by (intro keeps_rules worker_reads memory report; simp add: empty_report_def)+

lemma sending:
  "keeps I (send_link oid dest)"
  "keeps I (send_claim D E oid l)"
  "keeps I (send_venue D E oid m l)"
  "keeps I (send D E oid dest)"
  unfolding send_def send_link_def send_claim_def drop_claim_def send_venue_def
  by (intro keeps_rules worker_reads memory links reporting; simp add: empty_report_def)+

lemma reconciling:
  "keeps I (reconcile D E l)"
  "keeps I (trackReconcile D E l)"
  "keeps I (reconcileAll D E)"
  "keeps I (reconcileClientID D E x)"
proof -
  have f: "keeps I (reconcile_fills D E l d q fs)" for l d q fs
    by (induction fs arbitrary: d q) (auto intro!: keeps_rules worker_reads reporting)
  show r: "keeps I (reconcile D E l)" for l
    unfolding reconcile_def reconcile_snapshot_def
    by (intro keeps_rules worker_reads memory links reporting f)
  show t: "keeps I (trackReconcile D E l)" for l
    unfolding trackReconcile_def finishAttempt_def by (intro keeps_rules memory r)
  have p: "keeps I (modify (\<lambda>s. s\<lparr>W_ReconcileAllPending := b\<rparr>))" for b
    by (rule aside) (simp add: modify_def)
  have l: "keeps I (reconcile_links D E ls)" for ls
    by (induction ls) (auto intro!: keeps_rules memory t)
  show "keeps I (reconcileAll D E)"
    unfolding reconcileAll_def by (intro keeps_rules worker_reads p l)
  show "keeps I (reconcileClientID D E x)"
    unfolding reconcileClientID_def by (intro keeps_rules worker_reads memory t)
qed

lemma fee_intake: "keeps I intakeFees"
proof -
  have s: "keeps I (reportFeeSkip f r)" for f r
    unfolding reportFeeSkip_def fee_skip_sink_def
    by (intro keeps_rules call aside; simp add: modify_def)
  have f: "keeps I (intakeFee f x r)" for f x r
    unfolding intakeFee_def find_adjustment_def feeAsset_def
    by (intro keeps_rules call memory s)
  have m: "keeps I (modify g)" if "\<And>s. R_Orders (g s) = R_Orders s \<and> R_Reserved (g s) = R_Reserved s" for g
    by (rule aside) (use that in \<open>simp add: modify_def\<close>)
  have p: "keeps I (intake_page x r fs)" for x r fs
    by (induction x r fs rule: intake_page.induct) (auto intro!: keeps_rules s f memory m)
  have q: "keeps I (intake_pages x r ps)" for x r ps
    by (induction x r ps rule: intake_pages.induct) (auto intro!: keeps_rules p memory m)
  show ?thesis
    unfolding intakeFees_def by (auto intro!: keeps_rules worker_reads memory q split: list.splits)
qed

lemma events_of_venue: "keeps I (handleEvent D E ev)" "keeps I (retry_tick D E)"
proof -
  have h: "keeps I (handleFill D E l f)" for l f
    unfolding handleFill_def by (intro keeps_rules worker_reads reporting reconciling)
  show "keeps I (handleEvent D E ev)"
    unfolding handleEvent_def finishAttempt_def
    by (intro keeps_rules worker_reads memory reconciling h fee_intake)
  have "keeps I (reconcile_pending D E cs)" for cs
    by (induction cs) (auto intro!: keeps_rules memory reconciling)
  then show "keeps I (retry_tick D E)"
    unfolding retry_tick_def by (intro keeps_rules reconciling)
qed

end

end
