(* ===== verification/HeldSafety.thy ===== *)
theory HeldSafety
  imports OrderWorld
begin

section \<open>Only held orders reach the venue\<close>

text \<open>
  An order that carries the pre-trade acceptance is one whose pre-trade operation the engine
  committed. Every operation keeps this, whatever the store answers, and the worker hands over
  only orders that carry the acceptance.
\<close>

subsection \<open>Acceptances and holds\<close>

text \<open>The type of an event, and whether it came with an execution report: a report may set the
  status to accepted, and its event then has the type of the acceptance.\<close>

definition event_mark :: "order_event \<Rightarrow> order_event_type \<times> bool" where
  "event_mark e = (Event_Type e, Payload_ExecutionReport (Event_Payload e) \<noteq> None)"

definition acceptance :: "order_event_type \<times> bool" where
  "acceptance = (OrderEventPreTradeAccepted, False)"

definition accepted_order :: "order_detail \<Rightarrow> bool" where
  "accepted_order d \<longleftrightarrow> acceptance \<in> set (map event_mark (Det_Events d))"

definition held :: "string list \<Rightarrow> 'z realm_scheme \<Rightarrow> bool" where
  "held vs s \<longleftrightarrow> R_Reserved s = vs
     \<and> (\<forall>oid d. R_Orders s oid = Some d \<longrightarrow> accepted_order d \<longrightarrow> oid \<in> set vs)"

abbreviation all_held :: "'z realm_scheme \<Rightarrow> bool" where
  "all_held s \<equiv> held (R_Reserved s) s"

lemma held_books: "books_of s t \<Longrightarrow> held vs t \<longleftrightarrow> held vs s"
  by (simp add: held_def books_def)

lemma held_reserved: "held vs s \<Longrightarrow> R_Reserved s = vs"
  by (simp add: held_def)

lemma held_engine_ran [simp]: "held vs (engine_ran j s) = held vs s"
  by (simp add: held_def)

lemma records_mark: "records oid xid ev y \<Longrightarrow> event_mark y = event_mark ev"
  by (auto simp: records_def stored_event_def stamp_report_id_def event_mark_def split: option.splits)

lemma records_marks: "list_all2 (records oid xid) evs new \<Longrightarrow> map event_mark new = map event_mark evs"
  by (induction rule: list_all2_induct) (auto simp: records_mark)

lemma reattested_mark: "reattested x y \<Longrightarrow> event_mark y = event_mark x"
  by (auto simp: reattested_def event_mark_def)

lemma reattested_marks: "list_all2 reattested xs ys \<Longrightarrow> map event_mark ys = map event_mark xs"
  by (induction rule: list_all2_induct) (auto simp: reattested_mark)

lemma settles_detail_marks:
  "settles_detail st xid d e \<Longrightarrow>
   map event_mark (Det_Events e) = map event_mark (Det_Events d) @ map event_mark (Set_Events st)"
  by (auto simp: settles_detail_def dest!: reattested_marks records_marks)

lemma no_acceptance:
  "OrderEventPreTradeAccepted \<notin> set (map Event_Type evs) \<Longrightarrow> acceptance \<notin> set (map event_mark evs)"
  "(\<And>e. e \<in> set evs \<Longrightarrow> Payload_ExecutionReport (Event_Payload e) \<noteq> None) \<Longrightarrow>
   acceptance \<notin> set (map event_mark evs)"
  by (auto simp: acceptance_def event_mark_def)

lemma settled_held:
  assumes "settled st xid s t" and "acceptance \<notin> set (map event_mark (Set_Events st))"
    and "held vs s"
  shows "held vs t"
proof -
  obtain d e where d: "R_Orders s (Set_Order st) = Some d" "settles_detail st xid d e"
    "R_Orders t = (R_Orders s)(Set_Order st \<mapsto> e)" "R_Reserved t = R_Reserved s"
    using assms(1) by (auto simp: settled_def)
  have "accepted_order e = accepted_order d"
    using assms(2) unfolding accepted_order_def settles_detail_marks[OF d(2)] by simp
  then show ?thesis using d assms(3) by (auto simp: held_def)
qed

lemma report_effect_held:
  assumes "report_effect c i s t" and "held vs s"
  shows "held vs t"
proof -
  obtain st xid where st: "settles c i st" "settled st xid s t"
    using assms(1) unfolding report_effect_def by blast
  have "Payload_ExecutionReport (Event_Payload e) \<noteq> None" if "e \<in> set (Set_Events st)" for e
  proof -
    have "event_report e \<in> set (map (\<lambda>ty. (ty, Some (ExecutionReportRequestFromInput i))) (report_event_types i))"
      using st(1) that unfolding settles_def by (metis image_eqI list.set_map)
    then show ?thesis by (auto simp: event_report_def)
  qed
  then have "acceptance \<notin> set (map event_mark (Set_Events st))" by (rule no_acceptance(2))
  then show ?thesis by (rule settled_held[OF st(2) _ assms(2)])
qed

lemma held_report: "keeps (held vs) (applyExecutionReport D E c i)"
  unfolding keeps_def
proof (intro allI impI)
  fix s assume h: "held vs s"
  obtain u where u: "u = s \<or> (\<exists>j. u = engine_ran j s)"
    "books_of u (snd (applyExecutionReport D E c i s)) \<or> report_effect c i u (snd (applyExecutionReport D E c i s))"
    using applyExecutionReport_cases[OF surjective_pairing[of "applyExecutionReport D E c i s"]] by blast
  then have "held vs u" using h by auto
  with u(2) show "held vs (snd (applyExecutionReport D E c i s))"
    using report_effect_held held_books by blast
qed

interpretation held_facts: order_facts "held vs" D E for vs D E
  by unfold_locales (auto simp: held_def held_report)

interpretation held_rows: row_blind "held vs" for vs
  by unfold_locales (simp_all add: held_def)

subsection \<open>The order desk\<close>

lemma held_settlement:
  assumes "own_trade st" and "acceptance \<notin> set (map event_mark (Set_Events st))"
  shows "keeps (held vs) (RecordOrderSettlement D pr attest st)"
  unfolding keeps_def
proof (intro allI impI)
  fix s assume "held vs s"
  then show "held vs (snd (RecordOrderSettlement D pr attest st s))"
    using RecordOrderSettlement_cases[OF surjective_pairing assms(1)] settled_held[OF _ assms(2)] held_books
    by metis
qed

lemma held_confirm: "keeps (held vs) (confirmOrder D pr attest oid c)"
proof -
  have r: "keeps (held vs) (RecordOrderSettlement D pr attest (confirm_settlement oid oi c))" for oi
    by (rule held_settlement[OF confirm_own], rule no_acceptance(1))
      (simp add: confirm_settlement_def empty_settlement_def fillSettlementEvent_def new_event_def)
  have e: "keeps (held vs) (ListOrderEvents oid)" "keeps (held vs) (read_order_account a)" for a
    unfolding ListOrderEvents_def read_order_account_def
    by (intro held_rows.store_read keeps_rules held_rows.dictionary_rows; simp add: gets_def)+
  show ?thesis
    unfolding confirmOrder_def confirm_read_def confirm_write_def
    by (intro keeps_rules held_rows.row_rules e r)
qed

lemma held_cancel: "keeps (held vs) (cancelWorkflowOrder D E attest oid leaves c)"
proof -
  have r: "keeps (held vs) (RecordOrderSettlement D pr attest (cancel_settlement j reserved
      (stampExecutionReportPersistence (executionReportPersistenceFrom j outcome) c q)))" for pr j reserved outcome q
  proof (rule held_settlement)
    show "own_trade (cancel_settlement j reserved
        (stampExecutionReportPersistence (executionReportPersistenceFrom j outcome) c q))"
      by (auto simp: own_trade_def cancel_settlement_def stampExecutionReportPersistence_def
          executionReportPersistenceFrom_def Let_def)
    show "acceptance \<notin> set (map event_mark (Set_Events (cancel_settlement j reserved
        (stampExecutionReportPersistence (executionReportPersistenceFrom j outcome) c q))))"
      by (rule no_acceptance(2)) (auto simp: cancel_settlement_def stampExecutionReportPersistence_def stamp_event_def)
  qed
  have e: "keeps (held vs) (ListOrderEvents oid)"
    unfolding ListOrderEvents_def by (rule held_rows.store_read) (simp add: gets_def)
  have g: "keeps (held vs) (engine_call E j q)" for j q
    by (auto simp: keeps_def engine_call_def held_def split: sum.splits)
  show ?thesis
    unfolding cancelWorkflowOrder_def persist_cancel_def read_untouched_def
    by (intro keeps_rules held_rows.row_rules e g) (simp only: r)
qed

text \<open>What a submission adds, it adds to the holds first.\<close>

definition holds_grow :: "'z realm_scheme \<Rightarrow> 'z realm_scheme \<Rightarrow> bool" where
  "holds_grow s t \<longleftrightarrow> all_held t \<and> set (R_Reserved s) \<subseteq> set (R_Reserved t)"

lemma holds_grow_books: "all_held s \<Longrightarrow> books_of s t \<Longrightarrow> holds_grow s t"
  by (auto simp: holds_grow_def held_def books_def)

lemma holds_grow_trans: "holds_grow s u \<Longrightarrow> holds_grow u t \<Longrightarrow> holds_grow s t"
  by (auto simp: holds_grow_def)

lemma holds_grow_engine:
  "all_held s \<Longrightarrow> holds_grow s (engine_reserved oid s)"
  "all_held s \<Longrightarrow> holds_grow s (engine_ran j s)"
  by (auto simp: holds_grow_def held_def)

lemma submitted_as_held:
  assumes "submitted_as draft (submittedOrderEvent c) st xid oid s t" and "all_held s"
    and "acceptance \<in> set (map event_mark (Set_Events st)) \<longrightarrow> oid \<in> set (R_Reserved s)"
  shows "holds_grow s t"
proof -
  obtain d y ys where d: "R_Orders t = (R_Orders s)(oid \<mapsto> d)" "Det_Events d = y # ys"
    "records oid [] ((submittedOrderEvent c)\<lparr>Event_Order := oid\<rparr>) y"
    "list_all2 (records oid xid) (Set_Events st) ys" "R_Reserved t = R_Reserved s"
    using assms(1) unfolding submitted_as_def by blast
  have "event_mark y \<noteq> acceptance"
    using records_mark[OF d(3)]
    by (simp add: submittedOrderEvent_def fillSettlementEvent_def new_event_def event_mark_def acceptance_def)
  then have "accepted_order d \<longrightarrow> oid \<in> set (R_Reserved s)"
    using assms(3) records_marks[OF d(4)] d(2) by (auto simp: accepted_order_def simp flip: set_map)
  then show ?thesis using assms(2) d(1,5) by (auto simp: holds_grow_def held_def)
qed

lemma completed_held:
  assumes "completed draft (submittedOrderEvent c) st persisted v s r t" and "all_held s"
    and "acceptance \<in> set (map event_mark (Set_Events st))
      \<longrightarrow> Order_ExternalID persisted \<in> set (R_Reserved s)"
  shows "holds_grow s t"
  using assms submitted_as_held[OF _ assms(2,3)] holds_grow_books[OF assms(2)]
  unfolding completed_def by blast

lemma rejected_held:
  assumes "completed draft (submittedOrderEvent c) (orderRejectedSettlement acc oi rejects blocks c) persisted v s r t"
    and "all_held s"
  shows "holds_grow s t"
proof -
  have "acceptance \<notin> set (map event_mark (Set_Events (orderRejectedSettlement acc oi rejects blocks c)))"
    by (rule no_acceptance(1))
      (simp add: orderRejectedSettlement_def fillSettlementEvent_def new_event_def empty_settlement_def)
  then show ?thesis using completed_held[OF assms] by blast
qed

lemma submitOrder_held:
  assumes "all_held s"
  shows "holds_grow s (snd (submitOrder D G attestFor oi missing c s))"
proof -
  obtain r t where run: "submitOrder D G attestFor oi missing c s = (r, t)" by fastforce
  have "holds_grow s t"
    using submitOrder_result[OF run] unfolding submission_result_def
  proof (elim disjE exE conjE)
    fix persisted st result
    assume a: "answers_order G (Order_Account oi) c persisted st result"
      and e: "completed (submittedOrderDraft oi c) (submittedOrderEvent c) st persisted result
        (if OR_Accepted result then engine_reserved (Order_ExternalID persisted) s else s) r t"
    show "holds_grow s t"
    proof (cases "OR_Accepted result")
      case True
      then have e': "completed (submittedOrderDraft oi c) (submittedOrderEvent c) st persisted result
        (engine_reserved (Order_ExternalID persisted) s) r t" using e by simp
      have h: "holds_grow s (engine_reserved (Order_ExternalID persisted) s)"
        by (rule holds_grow_engine[OF assms])
      show ?thesis
        by (rule holds_grow_trans[OF h completed_held[OF e']]) (use h in \<open>simp_all add: holds_grow_def\<close>)
    next
      case False
      then have "\<exists>rejects. st = orderRejectedSettlement (Order_Account oi) persisted rejects (OR_Blocks result) c"
        using a by (auto simp: answers_order_def reserved_result_def
            split: pre_trade.splits sum.splits option.splits)
      then show ?thesis using rejected_held e False assms by auto
    qed
  qed (auto intro: holds_grow_books[OF assms])
  then show ?thesis using run by simp
qed

lemma submitImmediate_held:
  assumes "all_held s"
  shows "holds_grow s (snd (submitImmediate D G attestFor oi missing c s))"
proof -
  obtain r t where run: "submitImmediate D G attestFor oi missing c s = (r, t)" by fastforce
  have h1: "holds_grow s (engine_reserved oid s)" for oid by (rule holds_grow_engine[OF assms])
  have h2: "holds_grow s (engine_ran fill (engine_reserved oid s))" for fill oid
    using h1[of oid] holds_grow_engine(2)[of "engine_reserved oid s" fill] holds_grow_trans
    by (metis holds_grow_def)
  consider "books_of s t" | persisted where "immediate_outcome D G oi c persisted s r t"
    using submitImmediate_result[OF run] by blast
  then have "holds_grow s t"
  proof cases
    case 1
    then show ?thesis by (rule holds_grow_books[OF assms])
  next
    case 2
    let ?filled = "\<lambda>fill. engine_ran fill (engine_reserved (Order_ExternalID persisted) s)"
    have f: "all_held (?filled fill)" for fill using h2 by (simp add: holds_grow_def)
    from 2 show ?thesis
    proof cases
      case (io_rejected rejects blocks)
      show ?thesis by (rule rejected_held[OF io_rejected(3) assms])
    next
      case (io_settled fill st result)
      show ?thesis
        by (rule holds_grow_trans[OF h2 completed_held[OF io_settled(2) f]]) simp
    next
      case (io_unfilled hold action)
      show ?thesis
        by (rule holds_grow_trans[OF h1 holds_grow_books[OF _ io_unfilled(2)]]) (use h1 in \<open>simp add: holds_grow_def\<close>)
    next
      case (io_unsettled fill hold action)
      show ?thesis by (rule holds_grow_trans[OF h2 holds_grow_books[OF f io_unsettled(2)]])
    next
      case (io_stopped fill e)
      show ?thesis by (rule holds_grow_trans[OF h2 holds_grow_books[OF f io_stopped(3)]])
    qed
  qed
  then show ?thesis using run by simp
qed

subsection \<open>The worker hands over what is held\<close>

lemma eligible_events_accepted:
  "eligible_events [] accepted evs = None \<Longrightarrow> accepted \<or> acceptance \<in> set (map event_mark evs)"
proof (induction evs arbitrary: accepted)
  case Nil
  then show ?case by (simp add: check_def split: if_splits)
next
  case (Cons e es)
  then have r: "Payload_ExecutionReport (Event_Payload e) = None"
    and "eligible_events [] (accepted \<or> Event_Type e = OrderEventPreTradeAccepted) es = None"
    by (auto split: if_splits option.splits)
  from Cons.IH[OF this(2)] r show ?case by (auto simp: acceptance_def event_mark_def)
qed

lemma eligible_accepted: "eligible d [] = None \<Longrightarrow> accepted_order d"
  using eligible_events_accepted[of False "Det_Events d"]
  by (auto simp: eligible_def accepted_order_def check_def split: if_splits)

lemma send_link_held:
  assumes "send_link oid dest s = (Inr ml, t)" and "held vs s"
  shows "oid \<in> set vs"
proof -
  obtain d1 s1 m0 s2 d2 s3 where st:
      "GetOrder oid s = (Inr d1, s1)"
      "handle (checkDestination (Det_Order d1) dest)
         (\<lambda>e. reads (\<lambda>s. if W_Stopped s \<and> errors_is e err_canceled
           then raise (Wrap2 (Wrap ''trading: runtime stopped'' e) (Sentinel ErrConflict))
           else raise e)) ret s1 = (Inr m0, s2)"
      "GetOrder oid s2 = (Inr d2, s3)" and e: "eligible d2 [] = None"
    using assms(1) unfolding send_link_def by (auto simp: andthen_Inr)
  have k: "keeps (held vs) (handle (checkDestination (Det_Order d1) dest)
         (\<lambda>e. reads (\<lambda>s. if W_Stopped s \<and> errors_is e err_canceled
           then raise (Wrap2 (Wrap ''trading: runtime stopped'' e) (Sentinel ErrConflict))
           else raise e)) ret)"
    by (intro keeps_rules held_facts.reporting)
  have "held vs s2" by (rule keeps_Inr[OF k st(2) keeps_Inr[OF held_facts.worker_reads(9) st(1) assms(2)]])
  moreover have "R_Orders s2 oid = Some d2" using GetOrder_Inr[OF st(3)] by blast
  ultimately show ?thesis using eligible_accepted[OF e] by (auto simp: held_def)
qed

text \<open>A send that reaches the venue is a send of a held order.\<close>

lemma send_hands_over_held:
  assumes "guarded (V_Requests s) s" and "held vs s"
  shows "V_Requests (snd (send D E oid dest s)) = V_Requests s
    \<or> (\<exists>m. V_Requests (snd (send D E oid dest s)) = V_Requests s @ [(oid, m)] \<and> oid \<in> set vs)"
proof (cases "send_link oid dest s")
  case (Pair r t)
  show ?thesis
  proof (cases r)
    case (Inl e)
    then have "V_Requests (snd (send D E oid dest s)) = V_Requests s"
      using keepsD[OF send_link_keeps assms(1), of oid dest] Pair guarded_requests
      by (simp add: send_unfold)
    then show ?thesis by blast
  next
    case (Inr ml)
    then have "oid \<in> set vs" using send_link_held Pair assms(2) by blast
    then show ?thesis
      using send_guarded[OF assms(1), of D E oid dest] guarded_requests unfolding handed_over_def by blast
  qed
qed

subsection \<open>The desk, the worker and the reports in any order\<close>

text \<open>
  One step: an operation of the worker, a report of any caller, an operation of the order desk, or
  a change of everything but orders, holds, links and venue.
\<close>

inductive desk_step :: "'d decimal_pkg \<Rightarrow> engine_settle \<Rightarrow> order_engine \<Rightarrow> world \<Rightarrow> world \<Rightarrow> bool"
  for D :: "'d decimal_pkg" and E :: engine_settle and G :: order_engine where
  desk_send: "desk_step D E G s (snd (send D E oid dest s))"
| desk_event: "desk_step D E G s (snd (handleEvent D E ev s))"
| desk_retry: "desk_step D E G s (snd (retry_tick D E s))"
| desk_start: "desk_step D E G s (snd (reconcileAll D E s))"
| desk_report: "desk_step D E G s (snd (applyExecutionReport D E c i s))"
| desk_submit: "desk_step D E G s (snd (submitOrder D G attest_order oi missing c s))"
| desk_immediate: "desk_step D E G s (snd (submitImmediate D G attest_immediate oi missing c s))"
| desk_confirm: "desk_step D E G s (snd (confirmOrder D pr attest oid c s))"
| desk_cancel: "desk_step D E G s (snd (cancelWorkflowOrder D E attest oid leaves c s))"
| desk_environment: "R_Orders t = R_Orders s \<Longrightarrow> R_Reserved t = R_Reserved s \<Longrightarrow> R_Links t = R_Links s \<Longrightarrow>
    V_Requests t = V_Requests s \<Longrightarrow> desk_step D E G s t"

lemma same_venue:
  assumes "\<And>ls rs vs F. keeps (same_links ls rs vs F) m"
  shows "R_Links (snd (m s)) = R_Links s \<and> V_Requests (snd (m s)) = V_Requests s"
  using keepsD[OF assms, of "R_Links s" "V_Requests s" "V_SendResults s" "set (R_Faults s)" s]
  by (simp add: same_links_def)

lemma desk_step_wstep: "desk_step D E G s t \<Longrightarrow> wstep D E s t"
  by (induction rule: desk_step.induct)
    (auto intro: wstep.intros step_environment same_venue[THEN conjunct1] same_venue[THEN conjunct2]
      desk_links.submissions desk_links.changes_of_orders)

lemma facts_step: "keeps (held (R_Reserved s)) m \<Longrightarrow> all_held s \<Longrightarrow> holds_grow s (snd (m s))"
  using keepsD[of "held (R_Reserved s)" m s] held_reserved[of "R_Reserved s" "snd (m s)"]
  by (simp add: holds_grow_def)

lemma desk_step_holds:
  assumes "desk_step D E G s t" and "all_held s"
  shows "holds_grow s t"
  using assms
proof (induction rule: desk_step.induct)
  case (desk_environment t s)
  then show ?case by (simp add: holds_grow_def held_def)
qed (simp_all add: facts_step held_facts.sending held_facts.events_of_venue held_facts.reconciling held_report
    submitOrder_held submitImmediate_held held_confirm held_cancel)

text \<open>The venue was handed held orders only.\<close>

definition venue_held :: "world \<Rightarrow> bool" where
  "venue_held s \<longleftrightarrow> all_held s \<and> guarded (V_Requests s) s \<and> set (map fst (V_Requests s)) \<subseteq> set (R_Reserved s)"

lemma quiet_venue:
  assumes "keeps (guarded (V_Requests s)) m" and "guarded (V_Requests s) s"
  shows "V_Requests (snd (m s)) = V_Requests s"
  using keepsD[OF assms] guarded_requests by blast

lemma desk_step_requests:
  assumes "desk_step D E G s t" and "venue_held s"
  shows "set (map fst (V_Requests t)) \<subseteq> set (R_Reserved s)"
  using assms(1)
proof (cases rule: desk_step.cases)
  case (desk_send oid dest)
  then show ?thesis
    using send_hands_over_held[of s "R_Reserved s" D E oid dest] assms(2)
    by (auto simp: venue_held_def image_subset_iff split_beta)
qed (use assms(2) in \<open>simp_all add: venue_held_def quiet_venue guarded_handleEvent guarded_retry_tick
    guarded_reconcileAll links_blind.report[THEN same_guarded] desk_links.submissions[THEN same_guarded]
    desk_links.changes_of_orders[THEN same_guarded]\<close>)

lemma desk_step_venue_held:
  assumes "desk_step D E G s t" and "venue_held s"
  shows "venue_held t"
proof -
  have "holds_grow s t" using desk_step_holds[OF assms(1)] assms(2) by (simp add: venue_held_def)
  moreover have "guarded (V_Requests t) t"
    using wstep_guarded[OF desk_step_wstep[OF assms(1)]] assms(2) by (simp add: venue_held_def)
  ultimately show ?thesis
    using desk_step_requests[OF assms] by (auto simp: venue_held_def holds_grow_def)
qed

lemma desk_steps_venue_held: "(desk_step D E G)\<^sup>*\<^sup>* s t \<Longrightarrow> venue_held s \<Longrightarrow> venue_held t"
  by (induction rule: rtranclp_induct) (auto intro: desk_step_venue_held)

end
