(* ===== verification/ClosedOrders.thy ===== *)
theory ClosedOrders
  imports HeldSafety
begin

section \<open>A closed order is final\<close>

text \<open>
  An order in a terminal status keeps its row, its history and its trades: every operation of the
  desk and of the worker and every report that is not forced looks at the status before it does
  anything, and an operation on another order does not reach it. This holds for errors as well:
  the status is checked before the engine is called.
\<close>

definition closed_order :: "string \<Rightarrow> order_detail \<Rightarrow> 'z realm_scheme \<Rightarrow> bool" where
  "closed_order oid d s \<longleftrightarrow> R_Orders s oid = Some d \<and> OrderStatusTerminal (Order_Status (Det_Order d))"

lemma closed_books: "books_of s t \<Longrightarrow> closed_order oid d t \<longleftrightarrow> closed_order oid d s"
  by (simp add: closed_order_def books_def)

lemma closed_engine [simp]:
  "closed_order oid d (engine_ran j s) = closed_order oid d s"
  "closed_order oid d (engine_reserved x s) = closed_order oid d s"
  by (simp_all add: closed_order_def)

lemma closed_elsewhere:
  "settled st xid s t \<Longrightarrow> Set_Order st \<noteq> oid \<Longrightarrow> closed_order oid d s \<Longrightarrow> closed_order oid d t"
  by (auto simp: settled_def closed_order_def)

interpretation closed_rows: row_blind "closed_order oid d" for oid d
  by unfold_locales (simp_all add: closed_order_def)

subsection \<open>Reports\<close>

text \<open>What an operation on a closed order may do: refuse.\<close>

definition refused :: "string \<Rightarrow> 'z realm_scheme \<Rightarrow> (go_error + 'a) \<Rightarrow> 'z realm_scheme \<Rightarrow> bool" where
  "refused oid s r t \<longleftrightarrow> (\<forall>d. closed_order oid d s \<longrightarrow> (\<exists>e. r = Inl e) \<and> books_of s t)"

lemma refused_prefixable:
  "prefixable (refused oid :: 'z realm_scheme \<Rightarrow> (go_error + 'a) \<Rightarrow> 'z realm_scheme \<Rightarrow> bool)"
proof (rule prefixableI)
  fix s u t :: "'z realm_scheme" and r :: "go_error + 'a"
  assume b: "books_of s u" and q: "refused oid u r t"
  show "refused oid s r t"
    unfolding refused_def
  proof (intro allI impI)
    fix d assume "closed_order oid d s"
    then have "closed_order oid d u" using closed_books[OF b] by simp
    then have "(\<exists>e. r = Inl e) \<and> books_of u t" using q unfolding refused_def by blast
    then show "(\<exists>e. r = Inl e) \<and> books_of s t" using books_trans[OF b] by simp
  qed
next
  show "refused oid s (Inl e :: go_error + 'a) t" if "books_of s t" for s t :: "'z realm_scheme" and e
    using that by (simp add: refused_def)
qed

lemma refused_at_gate:
  assumes "\<not> f"
  shows "runs (refused oid) (handle (GetOrder oid) (\<lambda>e. raise (Wrap w e))
    (\<lambda>detail. andthen (lift_out (RequireOrderModifiable (Order_Status (Det_Order detail)) f)) (rest detail)))"
proof (rule runsI)
  fix s r t
  assume m: "handle (GetOrder oid) (\<lambda>e. raise (Wrap w e))
    (\<lambda>detail. andthen (lift_out (RequireOrderModifiable (Order_Status (Det_Order detail)) f)) (rest detail)) s = (r, t)"
  obtain q u where g: "GetOrder oid s = (q, u)" by fastforce
  have b: "books_of s u" using g by (rule books_keeps[rotated]) (rule books_rules)
  show "refused oid s r t"
  proof (cases q)
    case (Inl e)
    then show ?thesis using m g b by (auto simp: refused_def handle_def raise_def)
  next
    case (Inr x)
    then have "R_Orders s oid = Some x" using GetOrder_Inr g by blast
    then show ?thesis
      using m g b Inr assms
      by (auto simp: refused_def closed_order_def handle_def andthen_def lift_out_def
          RequireOrderModifiable_def check_def)
  qed
qed

lemma refused_report:
  assumes "\<not> In_Force i"
  shows "runs (refused (In_Order i)) (settleExecutionReport D E c i)"
    and "runs (refused (In_Order i)) (recordWorkflowExecutionReport D E c i)"
  unfolding settleExecutionReport_def recordWorkflowExecutionReport_def
  by (intro refused_at_gate[OF assms] runs_handle runs_andthen runs_raise refused_prefixable books_rules)+

lemma closed_report:
  assumes "\<not> In_Force i"
  shows "keeps (closed_order oid d) (applyExecutionReport D E c i)"
  unfolding keeps_def
proof (intro allI impI)
  fix s assume c: "closed_order oid d s"
  obtain r t where m: "applyExecutionReport D E c i s = (r, t)" by fastforce
  have "closed_order oid d t"
  proof (cases "In_Order i = oid")
    case True
    show ?thesis
    proof (cases "ExecutionReportRequiresEngine D i")
      case (Inl e)
      then show ?thesis using m c by (simp add: applyExecutionReport_def andthen_def lift_res_def)
    next
      case (Inr b)
      then have "(if b then settleExecutionReport D E c i else recordWorkflowExecutionReport D E c i) s = (r, t)"
        using m by (simp add: applyExecutionReport_def andthen_def lift_res_def)
      then have "refused (In_Order i) s r t"
        using runsD[OF refused_report(1)[OF assms]] runsD[OF refused_report(2)[OF assms]]
        by (simp split: if_splits)
      then have "books_of s t" using c True unfolding refused_def by blast
      then show ?thesis using closed_books[of s t oid d] c by simp
    qed
  next
    case False
    obtain u where u: "u = s \<or> (\<exists>j. u = engine_ran j s)" and e: "books_of u t \<or> report_effect c i u t"
      using applyExecutionReport_cases[OF m] by blast
    have cu: "closed_order oid d u" using u c by auto
    show ?thesis
    proof (cases "books_of u t")
      case True
      then show ?thesis using cu closed_books[of u t oid d] by simp
    next
      case False
      then obtain st xid where "settles c i st" and st: "settled st xid u t"
        using e unfolding report_effect_def by blast
      then have "Set_Order st \<noteq> oid" using \<open>In_Order i \<noteq> oid\<close> by (simp add: settles_def)
      then show ?thesis by (rule closed_elsewhere[OF st _ cu])
    qed
  qed
  then show "closed_order oid d (snd (applyExecutionReport D E c i s))" using m by simp
qed

interpretation closed_facts: order_facts "closed_order oid d" D E for oid d D E
  by unfold_locales (simp_all add: closed_report, simp add: closed_order_def)

subsection \<open>The order desk\<close>

lemma closed_settlement:
  assumes "own_trade st" and "Set_Order st \<noteq> oid"
  shows "keeps (closed_order oid d) (RecordOrderSettlement D pr attest st)"
  unfolding keeps_def
proof (intro allI impI)
  fix s assume c: "closed_order oid d s"
  obtain r t where m: "RecordOrderSettlement D pr attest st s = (r, t)" by fastforce
  have "closed_order oid d t"
    using RecordOrderSettlement_cases[OF m assms(1)] closed_books[of s t oid d]
      closed_elsewhere[OF _ assms(2) c] c by blast
  then show "closed_order oid d (snd (RecordOrderSettlement D pr attest st s))" using m by simp
qed

lemma closed_reads:
  "keeps (closed_order oid d) (ListOrderEvents x)" "keeps (closed_order oid d) (read_order_account a)"
  unfolding ListOrderEvents_def read_order_account_def
  by (intro closed_rows.store_read keeps_rules closed_rows.dictionary_rows; simp add: gets_def)+

lemma closed_confirm: "keeps (closed_order oid d) (confirmOrder D pr attest x c)"
  unfolding keeps_def
proof (intro allI impI)
  fix s assume c: "closed_order oid d s"
  have read: "keeps (closed_order oid d) (confirm_read x)"
    unfolding confirm_read_def by (intro keeps_rules closed_rows.row_rules closed_reads)
  obtain q u where r: "confirm_read x s = (q, u)" by fastforce
  have u: "closed_order oid d u" using keepsD[OF read c] r by simp
  show "closed_order oid d (snd (confirmOrder D pr attest x c s))"
  proof (cases q)
    case (Inl e)
    then show ?thesis using r u by (simp add: confirmOrder_def andthen_def)
  next
    case (Inr de)
    obtain d' evs where de: "de = (d', evs)" by (cases de)
    have "untouched x s d'" using confirm_read_Inr r Inr de by blast
    then have "x \<noteq> oid" using c by (auto simp: untouched_def closed_order_def)
    then have "keeps (closed_order oid d) (RecordOrderSettlement D pr attest (confirm_settlement x oi c))" for oi
      by (intro closed_settlement confirm_own) (simp add: confirm_settlement_def empty_settlement_def)
    then have "keeps (closed_order oid d) (confirm_write D pr attest x c d' evs)"
      unfolding confirm_write_def by (intro keeps_rules)
    from keepsD[OF this u] show ?thesis using r Inr de by (simp add: confirmOrder_def andthen_def)
  qed
qed

lemma refused_cancel: "runs (refused oid) (andthen (read_untouched oid) f)"
proof (rule runsI)
  fix s r t assume m: "andthen (read_untouched oid) f s = (r, t)"
  obtain q u where g: "read_untouched oid s = (q, u)" by fastforce
  have b: "books_of s u" using g
  proof (rule books_keeps[rotated])
    have "keeps (books os rs ls es vs) (ListOrderEvents oid)" for os rs ls es vs
      unfolding ListOrderEvents_def by (rule books_frame.store_read) (simp add: gets_def)
    then show "keeps (books os rs ls es vs) (read_untouched oid)" for os rs ls es vs
      unfolding read_untouched_def by (intro keeps_rules books_rules)
  qed
  show "refused oid s r t"
  proof (cases q)
    case (Inl e)
    then show ?thesis using m g b by (auto simp: refused_def andthen_def)
  next
    case (Inr x)
    then obtain a b where "read_untouched oid s = (Inr (a, b), u)" using g by (cases x) auto
    then have "untouched oid s a" using read_untouched_Inr by blast
    then show ?thesis by (auto simp: refused_def untouched_def closed_order_def)
  qed
qed

lemma closed_cancel: "keeps (closed_order oid d) (cancelWorkflowOrder D E attest x leaves c)"
proof (cases "x = oid")
  case True
  have "runs (refused oid) (cancelWorkflowOrder D E attest oid leaves c)"
    unfolding cancelWorkflowOrder_def
    by (intro runs_handle refused_prefixable books_rules runs_raise) (intro runs_andthen refused_prefixable books_rules refused_cancel)
  then show ?thesis
    unfolding keeps_def True
    using closed_books runsD[OF _ surjective_pairing] unfolding refused_def by blast
next
  case False
  have r: "keeps (closed_order oid d) (RecordOrderSettlement D pr attest (cancel_settlement j reserved
      (stampExecutionReportPersistence (executionReportPersistenceFrom j outcome) c q)))"
    if "In_Order j = x" for pr j reserved outcome q
    using that False
    by (intro closed_settlement)
      (auto simp: own_trade_def cancel_settlement_def empty_settlement_def
        stampExecutionReportPersistence_def executionReportPersistenceFrom_def Let_def)
  have g: "keeps (closed_order oid d) (engine_call E j q)" for j q
    by (auto simp: keeps_def engine_call_def closed_order_def split: sum.splits)
  have p: "keeps (closed_order oid d) (persist_cancel D E attest c (cancel_input dd x leaves) oi outcome)"
    for dd oi outcome
  proof -
    have o: "In_Order (cancel_input dd x leaves) = x" by (simp add: cancel_input_def)
    show ?thesis
      unfolding persist_cancel_def
      by (intro keeps_rules closed_rows.row_rules) (simp only: r[OF o])
  qed
  show ?thesis
    unfolding cancelWorkflowOrder_def read_untouched_def
    by (intro keeps_rules closed_rows.row_rules closed_reads g) (simp only: p)
qed

text \<open>A submission works on an order that did not exist.\<close>

lemma closed_submitted:
  assumes "completed draft ev st persisted v s r t" and "closed_order oid d s"
  shows "closed_order oid d t"
proof -
  have b: "closed_order oid d t" if "books_of s t" using that closed_books assms(2) by blast
  have "closed_order oid d t" if "submitted_as draft ev st xid (Order_ExternalID persisted) s t" for xid
    using that assms(2) by (auto simp: submitted_as_def closed_order_def)
  then show ?thesis using assms(1) b unfolding completed_def by blast
qed

lemma closed_submit: "keeps (closed_order oid d) (submitOrder D G attestFor oi missing c)"
  unfolding keeps_def
proof (intro allI impI)
  fix s assume c: "closed_order oid d s"
  obtain r t where run: "submitOrder D G attestFor oi missing c s = (r, t)" by fastforce
  have "closed_order oid d t"
    using submitOrder_result[OF run] unfolding submission_result_def
  proof (elim disjE exE conjE)
    fix persisted st result
    assume e: "completed (submittedOrderDraft oi c) (submittedOrderEvent c) st persisted result
        (if OR_Accepted result then engine_reserved (Order_ExternalID persisted) s else s) r t"
    show "closed_order oid d t" by (rule closed_submitted[OF e]) (use c in simp)
  qed (use closed_books c in blast)
  then show "closed_order oid d (snd (submitOrder D G attestFor oi missing c s))" using run by simp
qed

lemma closed_immediate: "keeps (closed_order oid d) (submitImmediate D G attestFor oi missing c)"
  unfolding keeps_def
proof (intro allI impI)
  fix s assume c: "closed_order oid d s"
  obtain r t where run: "submitImmediate D G attestFor oi missing c s = (r, t)" by fastforce
  have "closed_order oid d t" if i: "immediate_outcome D G oi c' persisted s r t" for persisted c'
    using i
  proof cases
    case (io_rejected rejects blocks)
    show ?thesis by (rule closed_submitted[OF io_rejected(3) c])
  next
    case (io_settled fill st result)
    show ?thesis by (rule closed_submitted[OF io_settled(2)]) (use c in simp)
  qed (use c in \<open>auto simp: closed_order_def books_def\<close>)
  then have "closed_order oid d t" using submitImmediate_result[OF run] closed_books[of s t oid d] c by blast
  then show "closed_order oid d (snd (submitImmediate D G attestFor oi missing c s))" using run by simp
qed

subsection \<open>Any steps without force\<close>

text \<open>
  One step: an operation of the worker, a report of any caller that is not forced, an operation of
  the order desk, or a change of everything but the orders.
\<close>

inductive unforced_step :: "'d decimal_pkg \<Rightarrow> engine_settle \<Rightarrow> order_engine \<Rightarrow> world \<Rightarrow> world \<Rightarrow> bool"
  for D :: "'d decimal_pkg" and E :: engine_settle and G :: order_engine where
  unforced_send: "unforced_step D E G s (snd (send D E oid dest s))"
| unforced_event: "unforced_step D E G s (snd (handleEvent D E ev s))"
| unforced_retry: "unforced_step D E G s (snd (retry_tick D E s))"
| unforced_start: "unforced_step D E G s (snd (reconcileAll D E s))"
| unforced_report: "\<not> In_Force i \<Longrightarrow> unforced_step D E G s (snd (applyExecutionReport D E c i s))"
| unforced_submit: "unforced_step D E G s (snd (submitOrder D G attest_order oi missing c s))"
| unforced_immediate: "unforced_step D E G s (snd (submitImmediate D G attest_immediate oi missing c s))"
| unforced_confirm: "unforced_step D E G s (snd (confirmOrder D pr attest oid c s))"
| unforced_cancel: "unforced_step D E G s (snd (cancelWorkflowOrder D E attest oid leaves c s))"
| unforced_environment: "R_Orders t = R_Orders s \<Longrightarrow> unforced_step D E G s t"

lemma unforced_closed:
  assumes "unforced_step D E G s t" and "closed_order oid d s"
  shows "closed_order oid d t"
  using assms
proof (induction rule: unforced_step.induct)
  case (unforced_environment t s)
  then show ?case by (simp add: closed_order_def)
qed (simp_all add: keepsD closed_facts.sending closed_facts.events_of_venue closed_facts.reconciling
    closed_report closed_submit closed_immediate closed_confirm closed_cancel)

lemma unforced_steps_closed:
  "(unforced_step D E G)\<^sup>*\<^sup>* s t \<Longrightarrow> closed_order oid d s \<Longrightarrow> closed_order oid d t"
  by (induction rule: rtranclp_induct) (auto intro: unforced_closed)

end
