(* ===== verification/OutcomeRules.thy ===== *)
theory OutcomeRules
  imports EngineOutcomes
begin

section \<open>Merged outcomes and the account P\&L\<close>

text \<open>
  The loops over the engine's outcomes against what they are for: one merged outcome per asset, in
  the order in which assets first appear; the opening leaves of a volume order as the quantity it
  fills; and the account P\&L as the first changed outcome of the account.
\<close>

subsection \<open>One outcome per asset\<close>

text \<open>The outcomes of one asset, merged one after the other.\<close>

definition asset_outcomes :: "string \<Rightarrow> balance_outcome list \<Rightarrow> adjustment_outcome list" where
  "asset_outcomes a xs = map BO_Outcome (filter (\<lambda>x. BO_Asset x = a) xs)"

fun merged_asset :: "'d decimal_pkg \<Rightarrow> adjustment_outcome list \<Rightarrow> go_error + adjustment_outcome" where
  "merged_asset D [] = Inl (Sentinel ErrNotFound)"
| "merged_asset D (x # xs) = res_fold (\<lambda>nxt cur. mergeAcceptedOutcomes D cur nxt) xs x"

text \<open>The assets in the order of their first outcome.\<close>

definition seen_assets :: "balance_outcome list \<Rightarrow> string list" where
  "seen_assets xs = rev (remdups (rev (map BO_Asset xs)))"

lemma seen_assets_snoc:
  "seen_assets (xs @ [x]) = (if BO_Asset x \<in> BO_Asset ` set xs then seen_assets xs else seen_assets xs @ [BO_Asset x])"
  by (simp add: seen_assets_def)

definition merges :: "'d decimal_pkg \<Rightarrow> balance_outcome list \<Rightarrow> balance_outcome list \<Rightarrow> bool" where
  "merges D xs ms \<longleftrightarrow> map BO_Asset ms = seen_assets xs
     \<and> (\<forall>m\<in>set ms. merged_asset D (asset_outcomes (BO_Asset m) xs) = Inr (BO_Outcome m))"

lemma merge_into_Inr:
  "merge_into D o1 ms = Inr ns \<Longrightarrow>
   (BO_Asset o1 \<notin> BO_Asset ` set ms \<and> ns = ms @ [o1])
   \<or> (\<exists>p m q combined. ms = p @ m # q \<and> BO_Asset m = BO_Asset o1 \<and> BO_Asset o1 \<notin> BO_Asset ` set p
        \<and> mergeAcceptedOutcomes D (BO_Outcome m) (BO_Outcome o1) = Inr combined
        \<and> ns = p @ m\<lparr>BO_Outcome := combined\<rparr> # q)"
proof (induction ms arbitrary: ns)
  case (Cons m ms)
  show ?case
  proof (cases "BO_Asset m = BO_Asset o1")
    case True
    then obtain combined where "mergeAcceptedOutcomes D (BO_Outcome m) (BO_Outcome o1) = Inr combined"
      "ns = m\<lparr>BO_Outcome := combined\<rparr> # ms"
      using Cons.prems by (auto split: sum.splits)
    then show ?thesis using True by (intro disjI2 exI[of _ "[]"]) auto
  next
    case False
    then obtain ns' where n: "merge_into D o1 ms = Inr ns'" "ns = m # ns'"
      using Cons.prems by (auto simp: res_bind_Inr)
    from Cons.IH[OF n(1)] show ?thesis
    proof (elim disjE exE conjE)
      fix p x q combined
      assume "ms = p @ x # q" "BO_Asset x = BO_Asset o1" "BO_Asset o1 \<notin> BO_Asset ` set p"
        "mergeAcceptedOutcomes D (BO_Outcome x) (BO_Outcome o1) = Inr combined" "ns' = p @ x\<lparr>BO_Outcome := combined\<rparr> # q"
      then show ?thesis using False n(2) by (intro disjI2 exI[of _ "m # p"]) auto
    qed (use False n(2) in auto)
  qed
qed simp

lemma asset_outcomes_snoc:
  "asset_outcomes a (xs @ [x]) = asset_outcomes a xs @ (if BO_Asset x = a then [BO_Outcome x] else [])"
  by (simp add: asset_outcomes_def)

lemma merged_asset_snoc:
  "ys \<noteq> [] \<Longrightarrow> merged_asset D (ys @ [y]) = res_bind (merged_asset D ys) (\<lambda>cur. mergeAcceptedOutcomes D cur y)"
  by (cases ys) (simp_all add: res_fold_append res_bind_def split: sum.splits)

lemma asset_outcomes_empty: "a \<notin> BO_Asset ` set xs \<Longrightarrow> asset_outcomes a xs = []"
  by (auto simp: asset_outcomes_def filter_empty_conv)

lemma merges_step:
  assumes "merges D xs ms" and "merge_outcome D o1 ms = Inr ns"
  shows "merges D (xs @ [o1]) ns"
proof -
  have i: "merge_into D o1 ms = Inr ns" using assms(2) by (simp add: merge_outcome_def split: if_splits)
  have assets: "BO_Asset ` set ms = BO_Asset ` set xs"
    using assms(1) by (metis merges_def seen_assets_def list.set_map set_remdups set_rev)
  have d: "distinct (map BO_Asset ms)" using assms(1) by (simp add: merges_def seen_assets_def)
  have old: "merged_asset D (asset_outcomes (BO_Asset m) xs) = Inr (BO_Outcome m)" if "m \<in> set ms" for m
    using assms(1) that by (simp add: merges_def)
  from merge_into_Inr[OF i] show ?thesis
  proof (elim disjE exE conjE)
    assume n: "BO_Asset o1 \<notin> BO_Asset ` set ms" "ns = ms @ [o1]"
    have fresh: "BO_Asset o1 \<notin> BO_Asset ` set xs" using n(1) assets by simp
    have "merged_asset D (asset_outcomes (BO_Asset x) (xs @ [o1])) = Inr (BO_Outcome x)" if "x \<in> set ns" for x
    proof (cases "x \<in> set ms")
      case True
      then have "BO_Asset o1 \<noteq> BO_Asset x" using n(1) by auto
      then show ?thesis using old[OF True] by (simp add: asset_outcomes_snoc)
    next
      case False
      then have "x = o1" using that n(2) by simp
      then show ?thesis using asset_outcomes_empty[OF fresh] by (simp add: asset_outcomes_snoc)
    qed
    moreover have "map BO_Asset ns = seen_assets (xs @ [o1])"
      using assms(1) n(2) fresh by (simp add: merges_def seen_assets_snoc)
    ultimately show ?thesis unfolding merges_def by blast
  next
    fix p m q combined
    assume n: "ms = p @ m # q" "BO_Asset m = BO_Asset o1"
      "mergeAcceptedOutcomes D (BO_Outcome m) (BO_Outcome o1) = Inr combined" "ns = p @ m\<lparr>BO_Outcome := combined\<rparr> # q"
    have "map BO_Asset ns = map BO_Asset ms" using n by simp
    moreover have "BO_Asset o1 \<in> BO_Asset ` set xs"
      unfolding assets[symmetric] n(1) n(2)[symmetric] by simp
    moreover have "merged_asset D (asset_outcomes (BO_Asset x) (xs @ [o1])) = Inr (BO_Outcome x)" if "x \<in> set ns" for x
    proof (cases "BO_Asset x = BO_Asset o1")
      case True
      have "BO_Asset x \<notin> set (map BO_Asset p)" "BO_Asset x \<notin> set (map BO_Asset q)"
        using d unfolding n(1) True n(2)[symmetric] by simp_all
      then have "x \<notin> set p" "x \<notin> set q" by auto
      then have "x = m\<lparr>BO_Outcome := combined\<rparr>" using that n(4) by simp
      moreover have "merged_asset D (asset_outcomes (BO_Asset o1) xs) = Inr (BO_Outcome m)" using old[of m] n by simp
      moreover from this have "asset_outcomes (BO_Asset o1) xs \<noteq> []" by auto
      ultimately show ?thesis using n(2,3)
        by (simp add: asset_outcomes_snoc merged_asset_snoc res_bind_def)
    next
      case False
      then have "x \<in> set ms" using that n by auto
      then show ?thesis using False old by (simp add: asset_outcomes_snoc)
    qed
    ultimately show ?thesis
      using assms(1) by (simp add: merges_def seen_assets_snoc)
  qed
qed

lemma mergeBalanceOutcomes_merges:
  "mergeBalanceOutcomes D phases = Inr ms \<Longrightarrow> merges D (concat phases) ms"
proof -
  have "res_fold (merge_outcome D) xs [] = Inr ms \<Longrightarrow> merges D xs ms" for xs ms
  proof (induction xs arbitrary: ms rule: rev_induct)
    case Nil
    then show ?case by (simp add: merges_def seen_assets_def)
  next
    case (snoc x xs)
    then obtain ms' where "res_fold (merge_outcome D) xs [] = Inr ms'" "merge_outcome D x ms' = Inr ms"
      by (auto simp: res_fold_append res_bind_Inr split: sum.splits)
    then show ?case using snoc.IH merges_step by blast
  qed
  then show "mergeBalanceOutcomes D phases = Inr ms \<Longrightarrow> merges D (concat phases) ms"
    by (simp add: mergeBalanceOutcomes_def)
qed

subsection \<open>Quantities\<close>

lemma side_delta_errors: "side_delta oi e1 x = Inr q \<Longrightarrow> side_delta oi e3 x = Inr q"
  by (cases "Order_Side oi") (simp_all add: side_delta_def)

lemma base_delta_errors:
  "base_delta oi e1 e2 found xs = Inr q \<Longrightarrow> base_delta oi e3 e4 found xs = Inr q"
proof (induction xs arbitrary: found)
  case (Cons x xs)
  show ?case
  proof (cases "BO_Asset x = Order_BaseAsset oi")
    case True
    then obtain candidate where c: "side_delta oi e1 (BO_Outcome x) = Inr candidate"
      using Cons.prems by (auto simp: res_bind_Inr)
    from side_delta_errors[OF c, of e3] c show ?thesis
      using Cons.prems True Cons.IH by (auto simp: res_bind_def split: if_splits)
  next
    case False
    then show ?thesis using Cons by simp
  qed
qed simp

text \<open>What a volume order fills at once is what it would have left open.\<close>

lemma volume_fill_is_opening_leaves:
  assumes "Order_AmountKind oi = OrderAmountKindVolume" and "immediateFillQuantity oi outcomes = Inr q"
  shows "openingLeavesFromOutcomes oi outcomes = Inr q"
proof -
  obtain e1 e2 where "base_delta oi e1 e2 [] outcomes = Inr q" "q \<noteq> []"
    using assms by (auto simp: immediateFillQuantity_def res_bind_Inr split: if_splits)
  from base_delta_errors[OF this(1)] this(2) show ?thesis
    by (simp add: openingLeavesFromOutcomes_def res_bind_def)
qed

subsection \<open>The account P\&L\<close>

definition changed_outcome :: "'acc \<Rightarrow> 'acc account_pnl_outcome \<Rightarrow> bool" where
  "changed_outcome acc x \<longleftrightarrow> Apo_Account x = acc \<and> (\<forall>v. Apo_Amount x \<noteq> Some (True, v))"

definition unchanged_amount :: "'acc \<Rightarrow> 'acc account_pnl_outcome \<Rightarrow> string" where
  "unchanged_amount acc x = (case Apo_Amount x of
     Some (True, v) \<Rightarrow> if Apo_Account x = acc then v else [] | _ \<Rightarrow> [])"

text \<open>The first outcome of the account that changed it decides; with none, the first absolute
  that an unchanged one shows.\<close>

definition selected_pnl ::
  "'acc \<Rightarrow> string \<Rightarrow> 'acc account_pnl_outcome list \<Rightarrow> go_error + string \<times> pnl_halt_reason" where
  "selected_pnl acc unchanged xs = (case List.find (changed_outcome acc) xs of
       Some x \<Rightarrow> (case Apo_Halt x of
           Some (Inl e) \<Rightarrow> Inl (Wrap ''engine: account pnl outcome'' e)
         | Some (Inr h) \<Rightarrow> Inr ([], h)
         | None \<Rightarrow> Inr (case Apo_Amount x of Some (_, v) \<Rightarrow> v | None \<Rightarrow> [], NoPnlHalt))
     | None \<Rightarrow> Inr (case List.find (\<lambda>v. v \<noteq> []) (unchanged # map (unchanged_amount acc) xs) of
           Some v \<Rightarrow> v | None \<Rightarrow> [], NoPnlHalt))"

lemma selected_stays: "spotFundsAccountPnl acc True pnl unchanged halt xs = Inr (pnl, halt)"
  by (induction xs arbitrary: unchanged) (auto split: option.split bool.split)

lemma spotFundsAccountPnl_selected:
  "spotFundsAccountPnl acc False [] unchanged NoPnlHalt xs = selected_pnl acc unchanged xs"
proof (induction xs arbitrary: unchanged)
  case Nil
  then show ?case by (simp add: selected_pnl_def)
next
  case (Cons x xs)
  show ?case
  proof (cases "changed_outcome acc x")
    case True
    then show ?thesis
      by (auto simp: changed_outcome_def selected_pnl_def selected_stays split: option.splits sum.splits)
  next
    case False
    then consider "Apo_Account x \<noteq> acc" | v where "Apo_Account x = acc" "Apo_Amount x = Some (True, v)"
      by (auto simp: changed_outcome_def)
    then show ?thesis
      using False
      by cases (auto simp: Cons.IH selected_pnl_def unchanged_amount_def split: option.splits prod.splits bool.splits)
  qed
qed

end
