(* ===== verification/Commissions.thy ===== *)
theory Commissions
  imports ReportSafety "HOL-Library.Multiset" "HOL-Library.List_Lexorder" "HOL-Library.Char_ord"
begin

section \<open>Commission subtotals of orders\<close>

text \<open>
  \<^verbatim>\<open>commissionRollup\<close> of \<^verbatim>\<open>internal/store/sqlite/orders.go\<close>: the recorded commissions of an order
  summed by currency, for the detail of one order and for a page of orders. The rows of a query
  come order by order; SQL leaves their order open.
\<close>

type_synonym 'd amounts = "(string \<times> 'd) list"
type_synonym 'd commission_rollup = "string \<Rightarrow> 'd amounts"

definition newCommissionRollup :: "'d commission_rollup" where
  "newCommissionRollup = (\<lambda>_. [])"

fun add_amount :: "'d decimal_pkg \<Rightarrow> string \<Rightarrow> 'd \<Rightarrow> 'd amounts \<Rightarrow> 'd amounts" where
  "add_amount D cur a [] = [(cur, AddDec D (ZeroDec D) a)]"
| "add_amount D cur a ((k, v) # m) =
     (if k = cur then (k, AddDec D v a) # m else (k, v) # add_amount D cur a m)"

definition recorded_commission :: "commission \<Rightarrow> bool" where
  "recorded_commission c \<longleftrightarrow> Commission_Amount c \<noteq> [] \<and> Commission_Currency c \<noteq> []"

definition add_commission ::
  "'d decimal_pkg \<Rightarrow> commission option \<Rightarrow> 'd amounts \<Rightarrow> go_error + 'd amounts" where
  "add_commission D commission m = (case commission of
       None \<Rightarrow> Inr m
     | Some c \<Rightarrow> if \<not> recorded_commission c then Inr m
         else (case NewFromString D (Commission_Amount c) of
             None \<Rightarrow> Inl (Wrap ''store: parse commission amount'' (Text ''decimal''))
           | Some a \<Rightarrow> Inr (add_amount D (Commission_Currency c) a m)))"

definition rollup_add ::
  "'d decimal_pkg \<Rightarrow> string \<Rightarrow> commission option \<Rightarrow> 'd commission_rollup
     \<Rightarrow> go_error + 'd commission_rollup" where
  "rollup_add D oid commission R =
     res_bind (add_commission D commission (R oid)) (\<lambda>m. Inr (R(oid := m)))"

definition feeOnlyExecutionReportCommission ::
  "order_event_type \<Rightarrow> order_event_payload \<Rightarrow> commission option" where
  "feeOnlyExecutionReportCommission eventType payload =
     (case Payload_ExecutionReport payload of
        None \<Rightarrow> None
      | Some report \<Rightarrow>
          if Req_Commission report = None \<or> Req_FillQuantity report \<noteq> [] \<or> Req_FillPrice report \<noteq> []
          then None
          else (case (case ExecutionReportStatusChangeEvent (Req_OrderStatus report) of
                Some ty \<Rightarrow> Some ty
              | None \<Rightarrow> if Req_OrderStatus report = OrderStatusFilled
                    \<or> Req_OrderStatus report = OrderStatusPartiallyFilled
                  then Some OrderEventCommission else None) of
              None \<Rightarrow> None
            | Some canonicalEvent \<Rightarrow>
                if eventType = canonicalEvent then Req_Commission report else None))"

definition rollup_addEvent ::
  "'d decimal_pkg \<Rightarrow> string \<Rightarrow> order_event_type \<Rightarrow> order_event_payload \<Rightarrow> 'd commission_rollup
     \<Rightarrow> go_error + 'd commission_rollup" where
  "rollup_addEvent D oid eventType payload =
     rollup_add D oid (feeOnlyExecutionReportCommission eventType payload)"

definition commissionsFromAmountMap :: "'d decimal_pkg \<Rightarrow> 'd amounts \<Rightarrow> commission list" where
  "commissionsFromAmountMap D m =
     map (\<lambda>cur. \<lparr> Commission_Amount = DecString D (the (map_of m cur)), Commission_Currency = cur \<rparr>)
       (sort (map fst m))"

definition rollup_subtotals :: "'d decimal_pkg \<Rightarrow> string \<Rightarrow> 'd commission_rollup \<Rightarrow> commission list" where
  "rollup_subtotals D oid R = commissionsFromAmountMap D (R oid)"

definition commissionSubtotals ::
  "'d decimal_pkg \<Rightarrow> string \<Rightarrow> trade list \<Rightarrow> order_event list \<Rightarrow> go_error + commission list" where
  "commissionSubtotals D oid trades events =
     res_bind (res_fold (\<lambda>t. rollup_add D oid (Trade_Commission t)) trades newCommissionRollup) (\<lambda>R.
     res_bind (res_fold (\<lambda>e. rollup_addEvent D oid (Event_Type e) (Event_Payload e)) events R) (\<lambda>R.
     Inr (rollup_subtotals D oid R)))"

subsection \<open>A page of orders\<close>

definition commissionSubtotalOrderBatchSize :: nat where
  "commissionSubtotalOrderBatchSize = 500"

definition order_rows :: "('c \<Rightarrow> order_detail option) \<Rightarrow> 'c list \<Rightarrow> (order_detail \<Rightarrow> 'a list) \<Rightarrow> ('c \<times> 'a) list" where
  "order_rows os orders f = concat (map (\<lambda>oid. case os oid of
       None \<Rightarrow> [] | Some d \<Rightarrow> map (Pair oid) (f d)) (remdups orders))"

text \<open>The commissions of the trades that the query selects.\<close>

definition trade_commissions :: "order_detail \<Rightarrow> commission list" where
  "trade_commissions d = filter recorded_commission (List.map_filter Trade_Commission (Det_Trades d))"

definition accumulateCommissionSubtotalsByOrder ::
  "'d decimal_pkg \<Rightarrow> (string \<rightharpoonup> order_detail) \<Rightarrow> string list \<Rightarrow> 'd commission_rollup
     \<Rightarrow> go_error + 'd commission_rollup" where
  "accumulateCommissionSubtotalsByOrder D os orders R =
     res_bind (res_fold (\<lambda>(oid, c). rollup_add D oid (Some c)) (order_rows os orders trade_commissions) R)
       (res_fold (\<lambda>(oid, e). rollup_addEvent D oid (Event_Type e) (Event_Payload e))
         (order_rows os orders Det_Events))"

function accumulate_batches ::
  "'d decimal_pkg \<Rightarrow> (string \<rightharpoonup> order_detail) \<Rightarrow> string list \<Rightarrow> 'd commission_rollup
     \<Rightarrow> go_error + 'd commission_rollup" where
  "accumulate_batches D os orders R =
     (if orders = [] then Inr R
      else res_bind
        (accumulateCommissionSubtotalsByOrder D os (take commissionSubtotalOrderBatchSize orders) R)
        (accumulate_batches D os (drop commissionSubtotalOrderBatchSize orders)))"
  by auto

termination
  by (relation "measure (\<lambda>(D, os, orders, R). length orders)")
    (auto simp: commissionSubtotalOrderBatchSize_def)

declare accumulate_batches.simps [simp del]

definition commissionSubtotalsByOrder ::
  "'d decimal_pkg \<Rightarrow> string list \<Rightarrow> (string \<rightharpoonup> order_detail) \<Rightarrow> go_error + (string \<rightharpoonup> commission list)" where
  "commissionSubtotalsByOrder D orders os =
     res_bind (accumulate_batches D os orders newCommissionRollup) (\<lambda>R.
     Inr (\<lambda>oid. if oid \<in> set orders then Some (rollup_subtotals D oid R) else None))"

subsection \<open>What the subtotals say\<close>

text \<open>The commissions of an order that count: those of its trades, and those of the reports
  without a trade.\<close>

definition event_fee :: "order_event \<Rightarrow> commission option" where
  "event_fee e = feeOnlyExecutionReportCommission (Event_Type e) (Event_Payload e)"

definition fees_of :: "commission option list \<Rightarrow> commission list" where
  "fees_of cs = filter recorded_commission (List.map_filter id cs)"

definition order_fees :: "order_detail \<Rightarrow> commission list" where
  "order_fees d = fees_of (map Trade_Commission (Det_Trades d) @ map event_fee (Det_Events d))"

definition fee_value :: "'d decimal_pkg \<Rightarrow> commission \<Rightarrow> rat" where
  "fee_value D c = (case NewFromString D (Commission_Amount c) of None \<Rightarrow> 0 | Some a \<Rightarrow> dval D a)"

definition fee_total :: "'d decimal_pkg \<Rightarrow> commission list \<Rightarrow> string \<Rightarrow> rat" where
  "fee_total D fees cur = sum_list (map (fee_value D) (filter (\<lambda>c. Commission_Currency c = cur) fees))"

lemma fees_of_simps [simp]:
  "fees_of [] = []"
  "fees_of (None # cs) = fees_of cs"
  "fees_of (Some c # cs) = (if recorded_commission c then c # fees_of cs else fees_of cs)"
  "fees_of (cs @ cs') = fees_of cs @ fees_of cs'"
  by (simp_all add: fees_of_def map_filter_def)

lemma fee_total_append [simp]: "fee_total D (xs @ ys) cur = fee_total D xs cur + fee_total D ys cur"
  by (simp add: fee_total_def)

lemma fee_total_Nil [simp]: "fee_total D [] cur = 0"
  by (simp add: fee_total_def)

lemma fee_total_one [simp]:
  "fee_total D [c] cur = (if Commission_Currency c = cur then fee_value D c else 0)"
  by (simp add: fee_total_def)

text \<open>An amount by currency holds the totals of the fees folded into it.\<close>

definition amounts_of :: "'d decimal_pkg \<Rightarrow> commission list \<Rightarrow> 'd amounts \<Rightarrow> bool" where
  "amounts_of D fees m \<longleftrightarrow> distinct (map fst m) \<and> dom (map_of m) = Commission_Currency ` set fees
     \<and> (\<forall>k v. map_of m k = Some v \<longrightarrow> dval D v = fee_total D fees k)"

lemma map_of_add_amount:
  "map_of (add_amount D cur a m)
   = (map_of m)(cur \<mapsto> AddDec D (case map_of m cur of None \<Rightarrow> ZeroDec D | Some v \<Rightarrow> v) a)"
  by (induction m) (auto simp: fun_eq_iff)

lemma fst_add_amount:
  "map fst (add_amount D cur a m) = (if cur \<in> fst ` set m then map fst m else map fst m @ [cur])"
  by (induction m) (auto simp: rev_image_eqI)

lemma fee_total_absent: "cur \<notin> Commission_Currency ` set fees \<Longrightarrow> fee_total D fees cur = 0"
  unfolding fee_total_def by (induction fees) auto

lemma add_commission_amounts:
  assumes "decimal_pkg_ok D" and "add_commission D c m = Inr m'" and "amounts_of D (fees_of cs) m"
  shows "amounts_of D (fees_of (cs @ [c])) m'"
proof (cases "\<exists>x. c = Some x \<and> recorded_commission x")
  case False
  then show ?thesis using assms(2,3) by (cases c) (auto simp: add_commission_def)
next
  case True
  then obtain x where c: "c = Some x" "recorded_commission x" by blast
  then obtain a where a: "NewFromString D (Commission_Amount x) = Some a"
    and m': "m' = add_amount D (Commission_Currency x) a m"
    using assms(2) by (auto simp: add_commission_def split: option.splits)
  have z: "fee_total D (fees_of cs) (Commission_Currency x) = 0" if "map_of m (Commission_Currency x) = None"
    using that assms(3) by (intro fee_total_absent) (auto simp: amounts_of_def domIff)
  show ?thesis
    using assms(3) c a m' z
    by (auto simp: amounts_of_def map_of_add_amount fst_add_amount fee_value_def dval_Add[OF assms(1)]
        dval_ZeroDec[OF assms(1)] split: option.splits if_splits)
qed

lemma rollup_fold:
  "res_fold (rollup_add D oid) cs R
   = res_bind (res_fold (add_commission D) cs (R oid)) (\<lambda>m. Inr (R(oid := m)))"
  by (induction cs arbitrary: R) (auto simp: rollup_add_def res_bind_def split: sum.splits)

lemma commissionSubtotals_fold:
  "commissionSubtotals D oid trades events =
   res_bind (res_fold (add_commission D) (map Trade_Commission trades @ map event_fee events) [])
     (\<lambda>m. Inr (commissionsFromAmountMap D m))"
proof -
  have t: "res_fold (\<lambda>t. rollup_add D oid (Trade_Commission t)) trades R
      = res_fold (rollup_add D oid) (map Trade_Commission trades) R" for R
    by (simp add: res_fold_map)
  have e: "res_fold (\<lambda>e. rollup_addEvent D oid (Event_Type e) (Event_Payload e)) events R
      = res_fold (rollup_add D oid) (map event_fee events) R" for R
    by (simp add: res_fold_map rollup_addEvent_def event_fee_def)
  show ?thesis
    unfolding commissionSubtotals_def t e rollup_fold
    by (auto simp: res_fold_append res_bind_def newCommissionRollup_def rollup_subtotals_def split: sum.splits)
qed

text \<open>The subtotals are the totals of the counted commissions, one entry for each currency.\<close>

lemma commissionSubtotals_totals:
  assumes "decimal_pkg_ok D" and "commissionSubtotals D oid (Det_Trades d) (Det_Events d) = Inr cs"
  shows "sorted (map Commission_Currency cs) \<and> distinct (map Commission_Currency cs)
    \<and> set (map Commission_Currency cs) = Commission_Currency ` set (order_fees d)
    \<and> (\<forall>c\<in>set cs. \<exists>x. Commission_Amount c = DecString D x
         \<and> dval D x = fee_total D (order_fees d) (Commission_Currency c))"
proof -
  obtain m where m: "res_fold (add_commission D) (map Trade_Commission (Det_Trades d) @ map event_fee (Det_Events d)) []
      = Inr m" and cs: "cs = commissionsFromAmountMap D m"
    using assms(2) by (auto simp: commissionSubtotals_fold res_bind_Inr)
  have "amounts_of D (fees_of ([] @ (map Trade_Commission (Det_Trades d) @ map event_fee (Det_Events d)))) m"
    by (rule res_fold_inv[OF m, where P = "\<lambda>done m. amounts_of D (fees_of done) m"])
      (simp add: amounts_of_def, rule add_commission_amounts[OF assms(1)])
  then have a: "amounts_of D (order_fees d) m" by (simp add: order_fees_def)
  have v: "\<exists>v. map_of m k = Some v" if "k \<in> fst ` set m" for k
    using that by (metis domD dom_map_of_conv_image_fst)
  have c: "map Commission_Currency cs = sort (map fst m)"
    by (simp add: cs commissionsFromAmountMap_def comp_def)
  have "set (map Commission_Currency cs) = Commission_Currency ` set (order_fees d)"
    unfolding c using a by (simp add: amounts_of_def dom_map_of_conv_image_fst)
  moreover have "\<exists>x. Commission_Amount c = DecString D x
      \<and> dval D x = fee_total D (order_fees d) (Commission_Currency c)" if "c \<in> set cs" for c
    using that a v by (fastforce simp: cs commissionsFromAmountMap_def amounts_of_def)
  moreover have "sorted (map Commission_Currency cs) \<and> distinct (map Commission_Currency cs)"
    unfolding c using a by (simp add: amounts_of_def)
  ultimately show ?thesis by blast
qed

subsection \<open>The page agrees with the detail\<close>

lemma keyed_fold:
  "res_fold (\<lambda>(k, c). rollup_add D k c) rows R = Inr R' \<Longrightarrow>
   res_fold (add_commission D) (map snd (filter (\<lambda>r. fst r = oid) rows)) (R oid) = Inr (R' oid)"
proof (induction rows arbitrary: R)
  case (Cons r rows)
  then obtain Q where q: "rollup_add D (fst r) (snd r) R = Inr Q"
    and rest: "res_fold (\<lambda>(k, c). rollup_add D k c) rows Q = Inr R'"
    by (cases r) (auto simp: res_bind_Inr)
  obtain m where m: "add_commission D (snd r) (R (fst r)) = Inr m" and "Q = R(fst r := m)"
    using q by (auto simp: rollup_add_def res_bind_Inr)
  from Cons.IH[OF rest] m \<open>Q = _\<close> show ?case by auto
qed simp

lemma own_order_rows:
  "map snd (filter (\<lambda>r. fst r = oid) (order_rows os orders f))
   = (if oid \<in> set orders then (case os oid of None \<Rightarrow> [] | Some d \<Rightarrow> f d) else [])"
proof -
  have "map snd (filter (\<lambda>r. fst r = oid) (concat (map (\<lambda>oid. case os oid of
       None \<Rightarrow> [] | Some d \<Rightarrow> map (Pair oid) (f d)) xs)))
   = (if oid \<in> set xs then (case os oid of None \<Rightarrow> [] | Some d \<Rightarrow> f d) else [])" if "distinct xs" for xs
    using that by (induction xs) (auto split: option.splits simp: filter_empty_conv comp_def)
  from this[OF distinct_remdups] show ?thesis unfolding order_rows_def by simp
qed

lemma recorded_fold:
  "res_fold (add_commission D) (map Some (filter recorded_commission (List.map_filter id cs)) @ rest) m
   = res_fold (add_commission D) (cs @ rest) m"
proof (induction cs arbitrary: m)
  case (Cons c cs)
  then show ?case
    by (cases c) (auto simp: map_filter_def add_commission_def res_bind_def split: sum.splits)
qed (simp add: map_filter_def)

definition detail_commissions :: "order_detail \<Rightarrow> commission option list" where
  "detail_commissions d = map Trade_Commission (Det_Trades d) @ map event_fee (Det_Events d)"

lemma trade_commissions_fold:
  "res_fold (add_commission D) (map Some (trade_commissions d) @ rest) m
   = res_fold (add_commission D) (map Trade_Commission (Det_Trades d) @ rest) m"
  using recorded_fold[of D "map Trade_Commission (Det_Trades d)"]
  by (simp add: trade_commissions_def map_filter_def filter_map comp_def)

lemma filter_keyed: "map snd (filter (\<lambda>r. fst r = k) (map (\<lambda>(k, c). (k, g c)) rows))
    = map g (map snd (filter (\<lambda>r. fst r = k) rows))"
  by (induction rows) auto

lemma accumulate_Inr:
  assumes "accumulateCommissionSubtotalsByOrder D os orders R = Inr R'"
  shows "res_fold (add_commission D)
    (if oid \<in> set orders then (case os oid of None \<Rightarrow> [] | Some d \<Rightarrow> detail_commissions d) else []) (R oid)
    = Inr (R' oid)"
proof -
  let ?ts = "map (\<lambda>(k, c). (k, Some c)) (order_rows os orders trade_commissions)"
  let ?es = "map (\<lambda>(k, e). (k, event_fee e)) (order_rows os orders Det_Events)"
  have m: "res_fold f (map g xs) = res_fold (\<lambda>x. f (g x)) xs" for f :: "'x \<Rightarrow> 'y \<Rightarrow> go_error + 'y" and g xs
    by (rule ext) (rule res_fold_map)
  have "res_fold (\<lambda>(k, c). rollup_add D k c) (?ts @ ?es) R = Inr R'"
    using assms unfolding accumulateCommissionSubtotalsByOrder_def
    by (simp add: res_fold_append m rollup_addEvent_def event_fee_def case_prod_unfold)
  from keyed_fold[OF this, of oid] show ?thesis
    unfolding filter_append map_append filter_keyed own_order_rows
    by (auto simp: trade_commissions_fold detail_commissions_def split: option.splits if_splits)
qed

lemma accumulate_batches_Inr:
  "accumulate_batches D os orders R = Inr R' \<Longrightarrow> distinct orders \<Longrightarrow>
   res_fold (add_commission D)
    (if oid \<in> set orders then (case os oid of None \<Rightarrow> [] | Some d \<Rightarrow> detail_commissions d) else []) (R oid)
    = Inr (R' oid)"
proof (induction D os orders R rule: accumulate_batches.induct)
  case (1 D os orders R)
  let ?n = commissionSubtotalOrderBatchSize
  show ?case
  proof (cases "orders = []")
    case True
    then show ?thesis using 1(2) by (simp add: accumulate_batches.simps)
  next
    case False
    then obtain Q where q: "accumulateCommissionSubtotalsByOrder D os (take ?n orders) R = Inr Q"
      and r: "accumulate_batches D os (drop ?n orders) Q = Inr R'"
      using 1(2) by (subst (asm) accumulate_batches.simps) (auto simp: res_bind_Inr)
    have dis: "set (take ?n orders) \<inter> set (drop ?n orders) = {}" "distinct (drop ?n orders)"
      using 1(3) by (simp_all add: set_take_disj_set_drop_if_distinct)
    have mem: "oid \<in> set orders \<longleftrightarrow> oid \<in> set (take ?n orders) \<or> oid \<in> set (drop ?n orders)"
      by (metis Un_iff append_take_drop_id set_append)
    note a = accumulate_Inr[OF q, of oid]
    note b = 1(1)[OF False r dis(2)]
    show ?thesis using a b mem dis(1) by (auto split: if_splits)
  qed
qed

lemma page_agrees_with_detail:
  assumes "commissionSubtotalsByOrder D orders os = Inr page" and "distinct orders"
    and "oid \<in> set orders" and "os oid = Some d"
  shows "commissionSubtotals D oid (Det_Trades d) (Det_Events d) = Inr (the (page oid))"
proof -
  obtain R where r: "accumulate_batches D os orders newCommissionRollup = Inr R"
    and p: "page = (\<lambda>oid. if oid \<in> set orders then Some (rollup_subtotals D oid R) else None)"
    using assms(1) by (auto simp: commissionSubtotalsByOrder_def res_bind_Inr)
  from accumulate_batches_Inr[OF r assms(2), of oid] show ?thesis
    using assms(3,4) by (simp add: commissionSubtotals_fold newCommissionRollup_def detail_commissions_def
        p rollup_subtotals_def)
qed

subsection \<open>A report and its commission\<close>

definition report_fee :: "order_event_type \<times> execution_report_request option \<Rightarrow> commission option" where
  "report_fee k = feeOnlyExecutionReportCommission (fst k) (empty_payload\<lparr>Payload_ExecutionReport := snd k\<rparr>)"

lemma event_fee_report: "event_fee e = report_fee (event_report e)"
  by (simp add: event_fee_def report_fee_def event_report_def feeOnlyExecutionReportCommission_def)

lemma event_fee_reattested: "reattested x y \<Longrightarrow> event_fee y = event_fee x"
  by (auto simp: reattested_def event_fee_def)

lemma event_fee_stamp: "event_fee (stamp_report_id xid ev) = event_fee ev"
proof (cases "Payload_ExecutionReport (Event_Payload ev)")
  case (Some r)
  then show ?thesis
    by (cases "ExecutionReportStatusChangeEvent (Req_OrderStatus r)")
      (simp_all add: stamp_report_id_def event_fee_def feeOnlyExecutionReportCommission_def)
qed (simp add: stamp_report_id_def)

lemma event_fee_records: "records oid xid ev y \<Longrightarrow> event_fee y = event_fee ev"
  unfolding records_def event_fee_stamp[of xid ev, symmetric]
  by (auto simp: event_fee_def stored_event_def)

lemma list_all2_map_same: "list_all2 R xs ys \<Longrightarrow> (\<And>x y. R x y \<Longrightarrow> g y = f x) \<Longrightarrow> map g ys = map f xs"
  by (induction rule: list_all2_induct) auto

text \<open>Of the events of a report without a fill only the change of status counts, and no event of a
  report with a fill.\<close>

lemma report_fees_once:
  assumes "report_wf D i"
  shows "fees_of (map report_fee (map (\<lambda>ty. (ty, Some (ExecutionReportRequestFromInput i))) (report_event_types i)))
    = (if has_fill i then [] else case In_Commission i of None \<Rightarrow> [] | Some c \<Rightarrow> [c])"
proof -
  have f: "has_fill i \<longleftrightarrow> is_fill_status (In_OrderStatus i)"
    using assms by (auto simp: report_wf_def has_fill_def)
  have r: "recorded_commission c" if "In_Commission i = Some c" for c
    using assms that by (simp add: report_wf_def recorded_commission_def)
  have n: "In_FillQuantity i = []" "In_FillPrice i = []" if "\<not> has_fill i"
    using assms f that by (simp_all add: report_wf_def)
  have s: "\<exists>ty. ExecutionReportStatusChangeEvent (In_OrderStatus i) = Some ty \<and> ty \<noteq> OrderEventCommission"
    if "\<not> has_fill i"
    using assms f that by (cases "In_OrderStatus i") (simp_all add: report_wf_def is_fill_status_def)
  show ?thesis
  proof (cases "has_fill i")
    case True
    then have "In_FillQuantity i \<noteq> []" by (simp add: has_fill_def)
    then have "report_fee (ty, Some (ExecutionReportRequestFromInput i)) = None" for ty
      by (simp add: report_fee_def feeOnlyExecutionReportCommission_def ExecutionReportRequestFromInput_def
          empty_payload_def)
    then have "fees_of (map report_fee (map (\<lambda>ty. (ty, Some (ExecutionReportRequestFromInput i))) tys)) = []" for tys
      by (induction tys) auto
    then show ?thesis using True by simp
  next
    case False
    then obtain ty where "ExecutionReportStatusChangeEvent (In_OrderStatus i) = Some ty" "ty \<noteq> OrderEventCommission"
      using s by blast
    then show ?thesis
      using False r n[OF False]
      by (auto simp: report_event_types_def report_fee_def feeOnlyExecutionReportCommission_def
          ExecutionReportRequestFromInput_def empty_payload_def split: option.splits)
  qed
qed

lemma report_effect_fees:
  assumes "report_effect c i s t" and "report_wf D i" and "R_Orders s (In_Order i) = Some d"
  shows "\<exists>e. R_Orders t (In_Order i) = Some e
    \<and> mset (order_fees e) = mset (order_fees d) + mset (case In_Commission i of None \<Rightarrow> [] | Some x \<Rightarrow> [x])"
proof -
  obtain st xid where st: "settles c i st" and e: "settled st xid s t"
    using assms(1) unfolding report_effect_def by blast
  have oid: "Set_Order st = In_Order i" using st by (simp add: settles_def)
  obtain e where t: "R_Orders t (In_Order i) = Some e" and se: "settles_detail st xid d e"
    using e assms(3) unfolding settled_def oid by auto
  obtain old new where ev: "Det_Events e = old @ new" "list_all2 reattested (Det_Events d) old"
      "list_all2 (records (In_Order i) xid) (Set_Events st) new"
    using se unfolding settles_detail_def oid by blast
  have "map event_fee old = map event_fee (Det_Events d)"
    using ev(2) by (rule list_all2_map_same) (rule event_fee_reattested)
  moreover have "map event_fee new = map event_fee (Set_Events st)"
    using ev(3) by (rule list_all2_map_same) (rule event_fee_records)
  moreover have "map event_fee (Set_Events st) = map report_fee (map event_report (Set_Events st))"
    by (simp add: event_fee_report)
  moreover have "map event_report (Set_Events st)
      = map (\<lambda>ty. (ty, Some (ExecutionReportRequestFromInput i))) (report_event_types i)"
    using st by (simp add: settles_def)
  ultimately have events: "fees_of (map event_fee (Det_Events e)) = fees_of (map event_fee (Det_Events d))
      @ (if has_fill i then [] else case In_Commission i of None \<Rightarrow> [] | Some x \<Rightarrow> [x])"
    using report_fees_once[OF assms(2)] ev(1) by simp
  have trades: "fees_of (map Trade_Commission (Det_Trades e)) = fees_of (map Trade_Commission (Det_Trades d))
      @ (if has_fill i then case In_Commission i of None \<Rightarrow> [] | Some x \<Rightarrow> [x] else [])"
    using se st assms(2)
    by (auto simp: settles_detail_def settles_def report_wf_def recorded_commission_def split: option.splits)
  show ?thesis
    using t events trades by (auto simp: order_fees_def ac_simps)
qed

lemma report_commission_effect:
  assumes "applyExecutionReport D E c i s = (Inr (), t)" and "R_Orders s (In_Order i) = Some d"
  shows "\<exists>e. R_Orders t (In_Order i) = Some e
    \<and> mset (order_fees e) = mset (order_fees d) + mset (case In_Commission i of None \<Rightarrow> [] | Some x \<Rightarrow> [x])"
proof -
  have "report_wf D i"
    using assms(1) by (auto simp: applyExecutionReport_def andthen_Inr ExecutionReportRequiresEngine_wf)
  moreover obtain u where "report_effect c i u t" "R_Orders u = R_Orders s"
    using applyExecutionReport_effect[OF assms(1)] engine_ran_fields(1) by blast
  ultimately show ?thesis using report_effect_fees assms(2) by metis
qed

end
