(* ===== verification/ReconcileSafety.thy ===== *)
theory ReconcileSafety
  imports SendSafety ReportSafety
begin

section \<open>Reconciliation books what the venue reports\<close>

text \<open>
  A reconciliation that ends well leaves exactly the quantity booked that the venue reports as
  filled; a fill that is delivered again changes nothing.
\<close>

subsection \<open>What leaves the trades alone\<close>

definition trades_at :: "string \<Rightarrow> trade list \<Rightarrow> world \<Rightarrow> bool" where
  "trades_at oid ts s \<longleftrightarrow> trades_of s oid = Some ts"

lemma trades_at_simps [simp]:
  "trades_at oid ts (s\<lparr>R_Faults := a1\<rparr>) = trades_at oid ts s"
  "trades_at oid ts (s\<lparr>R_Links := a2\<rparr>) = trades_at oid ts s"
  "trades_at oid ts (s\<lparr>W_Pending := a3\<rparr>) = trades_at oid ts s"
  "trades_at oid ts (s\<lparr>V_LookupResults := a4\<rparr>) = trades_at oid ts s"
  by (simp_all add: trades_at_def trades_of_def)

lemma trades_at_call: "keeps (trades_at oid ts) m \<Longrightarrow> keeps (trades_at oid ts) (store_call m)"
  by (rule keeps_store_call) simp_all

lemma trades_at_reads:
  "keeps (trades_at oid ts) (GetOrder x)"
  "keeps (trades_at oid ts) (GetVenueOrder x)"
  "keeps (trades_at oid ts) (FindTradingInstrument c b q)"
  "keeps (trades_at oid ts) (ExecutionReportExists i)"
  unfolding store_reads
  by (intro keeps_rules trades_at_call keeps_read_only; simp add: gets_def split: option.splits)+

lemma trades_at_set: "keeps (trades_at oid ts) (SetVenueOrderID x v)"
  unfolding SetVenueOrderID_def
  by (intro keeps_rules trades_at_call trades_at_reads) (simp add: keeps_def update_links_def)

lemma trades_at_lookup: "keeps (trades_at oid ts) (venue_lookup r)"
  by (auto simp: keeps_def venue_lookup_def split: list.splits)

lemma trades_at_no_fill: "\<not> has_fill i \<Longrightarrow> keeps (trades_at oid ts) (sink D E i)"
  by (simp add: keeps_def sink_def trades_at_def keepsD[OF keeps_trades_no_fill])

lemma trades_at_cancel: "keeps (trades_at oid ts) (cancelOrder D E l)"
  unfolding cancelOrder_def
  by (intro keeps_rules trades_at_no_fill) (simp add: has_fill_def empty_report_def)

lemma GetOrder_trades: "GetOrder oid s = (Inr d, t) \<Longrightarrow> trades_at oid (Det_Trades d) t"
  using GetOrder_Inr[of oid s d t] by (simp add: trades_at_def trades_of_def books_def)

subsection \<open>The loop over the fills\<close>

definition books_cum :: "'d decimal_pkg \<Rightarrow> string \<Rightarrow> 'd \<Rightarrow> world \<Rightarrow> bool" where
  "books_cum D oid c s \<longleftrightarrow> (\<exists>ts. trades_at oid ts s \<and> cumulative D ts = Inr c)"

lemma reconcile_fills_cum:
  "reconcile_fills D E l d c fs s = (Inr c', t) \<Longrightarrow> books_cum D (VO_Order l) c s
     \<Longrightarrow> books_cum D (VO_Order l) c' t"
proof (induction D E l d c fs arbitrary: s rule: reconcile_fills.induct)
  case (2 D E l d c f fs)
  obtain q cum where f: "fillQuantities D f = Inr (q, cum)"
    using 2(3) by (auto simp: andthen_Inr)
  show ?case
  proof (cases "dec_le D cum c")
    case True
    then show ?thesis using 2 f by (auto simp: andthen_Inr)
  next
    case False
    obtain s1 d1 s2 c1 where sub: "dec_eq D (SubDec D cum q) c" and "GetOrder (VO_Order l) s1 = (Inr d1, s2)"
      and "cumulative D (Det_Trades d1) = Inr c1" and "dec_eq D c1 cum"
      and r: "reconcile_fills D E l d1 c1 fs s2 = (Inr c', t)"
      using 2(3) f False by (auto simp: andthen_Inr split: if_splits)
    then have "books_cum D (VO_Order l) c1 s2"
      using GetOrder_trades unfolding books_cum_def by blast
    then show ?thesis using 2(2) r sub False \<open>dec_eq D c1 cum\<close> by blast
  qed
qed simp

subsection \<open>Reconciliation\<close>

definition settled_with_venue :: "'d decimal_pkg \<Rightarrow> string \<Rightarrow> snapshot \<Rightarrow> world \<Rightarrow> bool" where
  "settled_with_venue D oid snap s \<longleftrightarrow> snapshot_complete D snap
     \<and> (\<exists>ts filled. trades_at oid ts s \<and> trades_ok D ts
          \<and> NewFromString D (Snap_FilledQuantity snap) = Some filled
          \<and> booked D ts = dval D filled)"

lemma reconcile_snapshot_books:
  assumes D: "decimal_pkg_ok D"
    and m: "reconcile_snapshot D E l detail snap s = (Inr (), t)"
    and b: "trades_at (VO_Order l) (Det_Trades detail) s"
  shows "settled_with_venue D (VO_Order l) snap t"
proof -
  obtain l' s1 vc oc c s2 where o: "VO_Order l' = VO_Order l"
    and s1: "trades_at (VO_Order l) (Det_Trades detail) s1"
    and vc: "validateSnapshot D snap = Inr vc"
    and oc: "cumulative D (Det_Trades detail) = Inr oc"
    and rf: "reconcile_fills D E l' detail oc (Snap_Fills snap) s1 = (Inr c, s2)"
    and eq: "dec_eq D c vc"
    and tail: "(if Snap_Status snap = VenueStatusCancelled then cancelOrder D E l'
           else if Snap_Status snap = VenueStatusFilled then
             andthen (GetOrder (VO_Order l')) (\<lambda>detail.
               if \<not> OrderStatusTerminal (Order_Status (Det_Order detail))
               then raise (Wrap ''trading: venue filled but Officer order is still open''
                 (Sentinel ErrUpstream))
               else ret ())
           else ret ()) s2 = (Inr (), t)"
  proof -
    let ?l = "if VO_VenueOrderID l = [] then l\<lparr>VO_VenueOrderID := Snap_VenueOrderID snap\<rparr> else l"
    obtain x u where p: "(if VO_VenueOrderID l = []
          then SetVenueOrderID (VO_Order l) (Snap_VenueOrderID snap)
          else lift_out (check (VO_VenueOrderID l \<noteq> Snap_VenueOrderID snap)
            (Wrap ''trading: snapshot venue order id changed'' (Sentinel ErrUpstream)))) s
        = (Inr x, u)"
      using m by (auto simp: reconcile_snapshot_def andthen_Inr Let_def split: if_splits)
    have "keeps (trades_at (VO_Order l) (Det_Trades detail)) (if VO_VenueOrderID l = []
          then SetVenueOrderID (VO_Order l) (Snap_VenueOrderID snap)
          else lift_out (check (VO_VenueOrderID l \<noteq> Snap_VenueOrderID snap)
            (Wrap ''trading: snapshot venue order id changed'' (Sentinel ErrUpstream))))"
      by (intro keeps_rules trades_at_set)
    from keeps_Inr[OF this p b] have u: "trades_at (VO_Order l) (Det_Trades detail) u" .
    show ?thesis
      using m p u that[of ?l u]
      by (auto simp: reconcile_snapshot_def andthen_Inr Let_def split: if_splits)
  qed
  obtain ts where ts: "trades_at (VO_Order l) ts s2" "cumulative D ts = Inr c"
    using reconcile_fills_cum[OF rf] s1 oc o unfolding books_cum_def by auto
  have "keeps (trades_at (VO_Order l) ts) (if Snap_Status snap = VenueStatusCancelled
           then cancelOrder D E l'
           else if Snap_Status snap = VenueStatusFilled then
             andthen (GetOrder (VO_Order l')) (\<lambda>detail.
               if \<not> OrderStatusTerminal (Order_Status (Det_Order detail))
               then raise (Wrap ''trading: venue filled but Officer order is still open''
                 (Sentinel ErrUpstream))
               else ret ())
           else ret ())"
    by (intro keeps_rules trades_at_cancel trades_at_reads)
  from keeps_Inr[OF this tail ts(1)] have t: "trades_at (VO_Order l) ts t" .
  show ?thesis
    using validateSnapshot_complete[OF D vc] cumulative_Inr[OF D ts(2)] eq t
    by (auto simp: settled_with_venue_def dec_eq_val[OF D])
qed

text \<open>A reconciliation that got a snapshot ends well only when the two sides agree.\<close>

lemma reconcile_books:
  assumes D: "decimal_pkg_ok D"
    and m: "reconcile D E l s = (Inr (), t)"
    and a: "VO_SendAttempted l"
    and o: "R_Orders s (VO_Order l) = Some d" "\<not> OrderStatusTerminal (Order_Status (Det_Order d))"
    and v: "V_LookupResults s = Inr (Some snap) # rest"
  shows "settled_with_venue D (VO_Order l) snap t"
proof -
  obtain d1 s1 where g: "GetOrder (VO_Order l) s = (Inr d1, s1)"
    using m unfolding reconcile_def by (auto simp: andthen_Inr)
  have d1: "d1 = d" using GetOrder_Inr[OF g] o by simp
  have vs: "V_LookupResults s1 = V_LookupResults s" if "GetOrder x s = (r, s1)" for x r s s1
    using that unfolding GetOrder_def store_call_def
    by (auto split: list.splits fault.splits option.splits prod.splits sum.splits)
  have vi: "V_LookupResults s1 = V_LookupResults s"
    if "FindTradingInstrument c b q s = (r, s1)" for c b q r s s1
    using that unfolding FindTradingInstrument_def store_call_def gets_def
    by (auto split: list.splits fault.splits option.splits prod.splits sum.splits)
  obtain i s2 where f: "FindTradingInstrument (Conn_ExternalID (W_Connection s1))
         (Order_BaseAsset (Det_Order d)) (Order_QuoteAsset (Det_Order d)) s1 = (Inr i, s2)"
    using m g a o d1 unfolding reconcile_def by (auto simp: andthen_Inr reads_def)
  have v2: "V_LookupResults s2 = Inr (Some snap) # rest" using vi[OF f] vs[OF g] v by simp
  have r: "reconcile_snapshot D E l d snap (s2\<lparr>V_LookupResults := rest\<rparr>) = (Inr (), t)"
    using m g a o d1 f v2 unfolding reconcile_def
    by (simp add: andthen_def handle_def reads_def venue_lookup_def)
  have "trades_at (VO_Order l) (Det_Trades d) s1" using GetOrder_trades[OF g] d1 by simp
  then have "trades_at (VO_Order l) (Det_Trades d) (s2\<lparr>V_LookupResults := rest\<rparr>)"
    using keeps_Inr[OF trades_at_reads(3) f] by simp
  from reconcile_snapshot_books[OF D r this] show ?thesis .
qed

subsection \<open>Fills that arrive as events\<close>

lemma GetOrder_run:
  "R_Faults s = [] \<Longrightarrow> R_Orders s oid = Some d \<Longrightarrow> GetOrder oid s = (Inr d, s)"
  by (simp add: GetOrder_def store_call_def)

text \<open>A fill that was booked before changes nothing.\<close>

lemma handleFill_again:
  assumes D: "decimal_pkg_ok D" and nf: "R_Faults s = []"
    and o: "R_Orders s (VO_Order l) = Some d" and ok: "trades_ok D (Det_Trades d)"
    and f: "fillQuantities D f = Inr (q, c)" and le: "fill_cum D f \<le> booked D (Det_Trades d)"
  shows "handleFill D E l f s = (Inr (), s)"
proof -
  obtain oc where oc: "cumulative D (Det_Trades d) = Inr oc"
    using cumulative_ok[OF ok] unfolding cumulative_def by blast
  have "dec_le D c oc"
    using cumulative_Inr[OF D oc] fillQuantities_Inr(4)[OF f] le by (simp add: dec_le_val[OF D])
  then show ?thesis
    using GetOrder_run[OF nf o] oc f
    by (simp add: handleFill_def andthen_def lift_res_def ret_def)
qed

end
