(* ===== verification/FillReports.thy ===== *)
theory FillReports
  imports ReconcileSafety
begin

section \<open>What a booked fill leaves behind\<close>

text \<open>
  The report by which \<open>applyFill\<close> books a fill of the venue: whatever the store, the engine and
  the caller see, the order's trades are as before or hold exactly the one fill more. The report
  ends well without booking only when its id is known already: the last part shows that the
  report operation answers \<open>ErrAlreadyExists\<close> for a known id alone, as long as neither the store
  nor the engine answers with that error itself.
\<close>

subsection \<open>The report of a fill\<close>

lemma applyFill_report:
  assumes "fillQuantities D f = Inr (q, c)"
  obtains i where "In_Order i = VO_Order l" and "In_FillQuantity i = Fill_Quantity f"
    and "In_FillPrice i = Fill_Price f" and "is_fill_status (In_OrderStatus i)"
    and "In_ExternalID i = reportID (VO_ClientOrderID l) (''fill:'' @ DecString D c)"
    and "applyFill D E l oi f =
      handle (sink D E i) (\<lambda>e. if wraps e ErrAlreadyExists then ret () else raise e) ret"
proof
  let ?i = "empty_report
       \<lparr> In_ExternalID := reportID (VO_ClientOrderID l) (''fill:'' @ DecString D c),
         In_Order := VO_Order l,
         In_OrderStatus := (if Fill_Final f then OrderStatusFilled else OrderStatusPartiallyFilled),
         In_FillQuantity := Fill_Quantity f, In_FillPrice := Fill_Price f,
         In_LeavesQuantity := Fill_LeavesQuantity f,
         In_Commission := (case Fill_Commission f of
              None \<Rightarrow> None
            | Some c \<Rightarrow> Some (case Fill_CommissionLeg f of
                CommissionLegBase \<Rightarrow> c\<lparr>Commission_Currency := Order_BaseAsset oi\<rparr>
              | CommissionLegQuote \<Rightarrow> c\<lparr>Commission_Currency := Order_QuoteAsset oi\<rparr>
              | _ \<Rightarrow> c)) \<rparr>"
  show "applyFill D E l oi f =
      handle (sink D E ?i) (\<lambda>e. if wraps e ErrAlreadyExists then ret () else raise e) ret"
    using assms by (simp add: applyFill_def andthen_def lift_res_def Let_def fun_eq_iff)
qed (simp_all add: is_fill_status_def)

definition telling :: "go_error option \<Rightarrow> bool" where
  "telling v \<longleftrightarrow> (\<forall>e. v = Some e \<longrightarrow> \<not> wraps e ErrAlreadyExists)"

lemma telling_simps:
  "telling None" "telling (Some e) \<longleftrightarrow> \<not> wraps e ErrAlreadyExists"
  "\<not> wraps e ErrAlreadyExists \<Longrightarrow> telling (check c e)"
  "list_all telling vs \<Longrightarrow> telling (first_err vs)"
  by (auto simp: telling_def check_def, induction vs rule: first_err.induct) (auto simp: telling_def)

lemma ExecutionReportRequiresEngine_refuses:
  assumes "ExecutionReportRequiresEngine D i = Inl e"
  shows "\<not> wraps e ErrAlreadyExists"
proof -
  have v: "telling (ValidateLeavesQuantity D x)" "telling (validateExecutionReportLockPrice D x)" for x
    by (simp_all add: ValidateLeavesQuantity_def validateExecutionReportLockPrice_def telling_simps Let_def
        split: sum.split option.split)
  have w: "\<not> wraps e ErrAlreadyExists"
    if "of_outcome m b = Inl e" and "telling m" for m and b :: bool
    using that by (cases m) (auto simp: telling_def)
  show ?thesis
    by (rule w[OF assms[unfolded ExecutionReportRequiresEngine_def Let_def]])
      (intro telling_simps(4), simp add: telling_simps v split: option.split)
qed

lemma fill_report_has_fill:
  assumes "ExecutionReportRequiresEngine D i = Inr b" and "is_fill_status (In_OrderStatus i)"
  shows "has_fill i"
  using assms unfolding ExecutionReportRequiresEngine_wf report_wf_def has_fill_def by blast

text \<open>Whatever the report operation answers, the fill is booked once or not at all.\<close>

lemma fill_report_trades:
  assumes m: "sink D E i s = (r, t)" and st: "is_fill_status (In_OrderStatus i)"
    and ts: "trades_of s (In_Order i) = Some ts"
  shows "trades_of t = trades_of s \<and> R_Reports t = R_Reports s
   \<or> (\<exists>tr. Trade_Quantity tr = In_FillQuantity i \<and> Trade_Price tr = In_FillPrice i
        \<and> trades_of t = (trades_of s)(In_Order i \<mapsto> ts @ [tr])
        \<and> (In_ExternalID i \<noteq> [] \<longrightarrow> R_Reports t = R_Reports s @ [In_ExternalID i]))"
    and "r = Inr () \<Longrightarrow> trades_of t \<noteq> trades_of s"
proof -
  obtain u where us: "u = s \<or> (\<exists>j. u = engine_ran j s)"
    and e: "books_of u t \<or> report_effect system_caller i u t"
    using applyExecutionReport_cases[OF m[unfolded sink_def]] by blast
  have same: "trades_of u = trades_of s" "R_Reports u = R_Reports s" if "u = s \<or> (\<exists>j. u = engine_ran j s)" for u
    using that by (auto simp: trades_of_def fun_eq_iff)
  show "trades_of t = trades_of s \<and> R_Reports t = R_Reports s
   \<or> (\<exists>tr. Trade_Quantity tr = In_FillQuantity i \<and> Trade_Price tr = In_FillPrice i
        \<and> trades_of t = (trades_of s)(In_Order i \<mapsto> ts @ [tr])
        \<and> (In_ExternalID i \<noteq> [] \<longrightarrow> R_Reports t = R_Reports s @ [In_ExternalID i]))"
  proof (cases "ExecutionReportRequiresEngine D i")
    case (Inl x)
    then have "t = s"
      using m by (simp add: sink_def applyExecutionReport_def andthen_def lift_res_def)
    then show ?thesis by simp
  next
    case (Inr b)
    then have "has_fill i" by (rule fill_report_has_fill[OF _ st])
    show ?thesis
    proof (cases "books_of u t")
      case True
      then show ?thesis using same[OF us] by (simp add: books_def trades_of_def fun_eq_iff)
    next
      case False
      then have u: "report_effect system_caller i u t" using e by simp
      obtain tr where "Trade_Quantity tr = In_FillQuantity i" "Trade_Price tr = In_FillPrice i"
        and "trades_of t = (trades_of s)(In_Order i \<mapsto> ts @ [tr])"
        using report_effect_trades[OF u] \<open>has_fill i\<close> ts unfolding same[OF us] by auto
      moreover have "In_ExternalID i \<noteq> [] \<longrightarrow> R_Reports t = R_Reports s @ [In_ExternalID i]"
        using report_effect_reports[OF u] unfolding same[OF us] by blast
      ultimately show ?thesis by blast
    qed
  qed
  assume "r = Inr ()"
  then have ok: "applyExecutionReport D E system_caller i s = (Inr (), t)" using m by (simp add: sink_def)
  then obtain b where "ExecutionReportRequiresEngine D i = Inr b"
    unfolding applyExecutionReport_def by (auto simp: andthen_Inr)
  then have f: "has_fill i" using fill_report_has_fill[OF _ st] by blast
  obtain v where v: "report_effect system_caller i v t" "v = s \<or> (\<exists>j. v = engine_ran j s)"
    using applyExecutionReport_effect[OF ok] by blast
  then show "trades_of t \<noteq> trades_of s"
    using report_effect_trades[OF v(1)] f same[OF v(2)] ts by (auto dest: fun_cong[where x = "In_Order i"])
qed

subsection \<open>Which errors say that the report is known\<close>

fun fair_fault :: "fault \<Rightarrow> bool" where
  "fair_fault NoFault = True"
| "fair_fault (FailBefore e) = (\<not> wraps e ErrAlreadyExists)"
| "fair_fault (FailAfter e) = (\<not> wraps e ErrAlreadyExists)"

definition unreported :: "engine_settle \<Rightarrow> string \<Rightarrow> world \<Rightarrow> bool" where
  "unreported E x s \<longleftrightarrow> x \<notin> set (R_Reports s) \<and> list_all fair_fault (R_Faults s)
     \<and> (\<forall>j q e. E_Report E j q = Inl e \<longrightarrow> \<not> wraps e ErrAlreadyExists)"

lemma keeps_unreported:
  assumes "\<And>ls rs vs F. keeps (same_links ls rs vs F) m"
    and "\<And>os rs ls es vs. keeps (books os rs ls es vs) m"
  shows "keeps (unreported E x) m"
  unfolding keeps_def
proof (intro allI impI)
  fix s assume u: "unreported E x s"
  have "same_links (R_Links s) (V_Requests s) (V_SendResults s) (set (R_Faults s)) s"
    by (simp add: same_links_def)
  then have "same_links (R_Links s) (V_Requests s) (V_SendResults s) (set (R_Faults s)) (snd (m s))"
    by (rule keepsD[OF assms(1)])
  moreover have "books_of s (snd (m s))" using keepsD[OF assms(2)] books_refl by blast
  ultimately show "unreported E x (snd (m s))"
    using u by (auto simp: unreported_def same_links_def books_def list_all_iff)
qed

text \<open>\<open>fresh_run E x m\<close>: from a world without report \<open>x\<close> the errors of \<open>m\<close> do not say that
  something is known already.\<close>

definition fresh_run :: "engine_settle \<Rightarrow> string \<Rightarrow> 'a wop \<Rightarrow> bool" where
  "fresh_run E x m = triple (unreported E x) m (\<lambda>_ _. True) (\<lambda>e _. \<not> wraps e ErrAlreadyExists)"

definition quiet_run :: "engine_settle \<Rightarrow> string \<Rightarrow> 'a wop \<Rightarrow> bool" where
  "quiet_run E x m = triple (unreported E x) m (\<lambda>_. unreported E x) (\<lambda>e _. \<not> wraps e ErrAlreadyExists)"

lemma fresh_andthen: "quiet_run E x m \<Longrightarrow> (\<And>a. fresh_run E x (f a)) \<Longrightarrow> fresh_run E x (andthen m f)"
  unfolding fresh_run_def quiet_run_def by (rule triple_andthen)

lemma quiet_andthen: "quiet_run E x m \<Longrightarrow> (\<And>a. quiet_run E x (f a)) \<Longrightarrow> quiet_run E x (andthen m f)"
  unfolding quiet_run_def by (rule triple_andthen)

lemma quiet_handle:
  "keeps (unreported E x) m \<Longrightarrow> (\<And>a. quiet_run E x (f a)) \<Longrightarrow> (\<And>e. quiet_run E x (h e)) \<Longrightarrow>
   quiet_run E x (handle m h f)"
  unfolding quiet_run_def keeps_triple by (rule triple_handle)

lemma fresh_handle_wrap:
  assumes "quiet_run E x m" and "\<And>a. fresh_run E x (f a)"
  shows "fresh_run E x (handle m (\<lambda>e. raise (Wrap w e)) f)"
  unfolding fresh_run_def
proof (rule triple_handle)
  show "triple (unreported E x) m (\<lambda>_. unreported E x) (\<lambda>e _. \<not> wraps e ErrAlreadyExists)"
    using assms(1) by (simp add: quiet_run_def)
qed (use assms(2) in \<open>auto simp: fresh_run_def triple_def raise_def\<close>)

lemma quiet_handle_wrap:
  assumes "quiet_run E x m" and "\<And>a. quiet_run E x (f a)"
  shows "quiet_run E x (handle m (\<lambda>e. raise (Wrap w e)) f)"
  unfolding quiet_run_def
proof (rule triple_handle)
  show "triple (unreported E x) m (\<lambda>_. unreported E x) (\<lambda>e _. \<not> wraps e ErrAlreadyExists)"
    using assms(1) by (simp add: quiet_run_def)
qed (use assms(2) in \<open>auto simp: quiet_run_def triple_def raise_def\<close>)


lemma quiet_basic:
  "quiet_run E x (ret a)"
  "\<not> wraps e ErrAlreadyExists \<Longrightarrow> quiet_run E x (raise e)"
  "quiet_run E x (fatalPost e')"
  by (simp_all add: quiet_run_def triple_def ret_def raise_def fatalPost_def andthen_def modify_def)

lemma quiet_if: "quiet_run E x m \<Longrightarrow> quiet_run E x n \<Longrightarrow> quiet_run E x (if c then m else n)"
  by simp

lemma quiet_lift:
  "(\<And>e. v = Some e \<Longrightarrow> \<not> wraps e ErrAlreadyExists) \<Longrightarrow> quiet_run E x (lift_out v)"
  by (cases v) (simp_all add: quiet_run_def triple_def lift_out_def)

lemma quiet_call:
  assumes "\<And>s. unreported E x s \<Longrightarrow> unreported E x (snd (m s))
     \<and> (\<forall>e. fst (m s) = Inl e \<longrightarrow> \<not> wraps e ErrAlreadyExists)"
  shows "quiet_run E x (store_call m)"
proof -
  let ?ok = "\<lambda>r. case r of (Inr a, t) \<Rightarrow> unreported E x t | (Inl e, t) \<Rightarrow> \<not> wraps e ErrAlreadyExists"
  have run: "?ok (m s)" if "unreported E x s" for s
    using assms[OF that] by (cases "m s"; cases "fst (m s)") auto
  have "?ok (store_call m s)" if h: "unreported E x s" for s
  proof (cases "R_Faults s")
    case Nil
    then show ?thesis using run[OF h] by (simp add: store_call_def)
  next
    case (Cons f fs)
    have h': "unreported E x (s\<lparr>R_Faults := fs\<rparr>)" and f: "fair_fault f"
      using h Cons by (simp_all add: unreported_def)
    obtain r u where m: "m (s\<lparr>R_Faults := fs\<rparr>) = (r, u)" by fastforce
    show ?thesis
      using run[OF h'] f m Cons by (cases f; cases r) (simp_all add: store_call_def)
  qed
  then show ?thesis unfolding quiet_run_def triple_def by blast
qed

lemma quiet_read:
  "(\<And>s. snd (m s) = s) \<Longrightarrow> (\<And>s e. fst (m s) = Inl e \<Longrightarrow> \<not> wraps e ErrAlreadyExists) \<Longrightarrow>
   quiet_run E x (store_call m)"
  by (rule quiet_call) auto

lemma quiet_each: "(\<And>a. quiet_run E x (f a)) \<Longrightarrow> quiet_run E x (each f as)"
  by (induction as) (auto intro!: quiet_andthen quiet_basic)

subsection \<open>The steps before the engine\<close>

lemma quiet_reads:
  "quiet_run E x (GetOrder oid)" "quiet_run E x (read_account a)" "quiet_run E x (read_asset k)"
  "quiet_run E x outside"
  unfolding GetOrder_def read_account_def read_asset_def outside_def
  by (rule quiet_read; simp add: gets_def ret_def split: option.splits; fastforce)+

lemma refusals_say_invalid:
  "ValidateAccountID pr a = Some e \<Longrightarrow> \<not> wraps e ErrAlreadyExists"
  "guardTightenOnlyAccountCreation c = Some e \<Longrightarrow> \<not> wraps e ErrAlreadyExists"
  "ValidateMissingAccountPolicy p = Some e \<Longrightarrow> \<not> wraps e ErrAlreadyExists"
  "RequireOrderModifiable st b = Some e \<Longrightarrow> \<not> wraps e ErrAlreadyExists"
  by (auto simp: ValidateAccountID_def guardTightenOnlyAccountCreation_def check_def
      ValidateMissingAccountPolicy_def RequireOrderModifiable_def first_err_Cons_Some
      split: if_splits missing_account_policy.splits)

lemma asset_runes_say_invalid: "asset_runes pr rs = Some e \<Longrightarrow> \<not> wraps e ErrAlreadyExists"
  by (induction rs) (auto split: if_splits)

lemma ValidateAsset_says_invalid: "ValidateAsset pr a = Some e \<Longrightarrow> \<not> wraps e ErrAlreadyExists"
  by (auto simp: ValidateAsset_def validateAsset_def check_def first_err_Cons_Some
      asset_runes_say_invalid split: if_splits)

lemma keeps_rows:
  "keeps (unreported E x) (insert_account a)" "keeps (unreported E x) (insert_asset k)"
  "keeps (unreported E x) (auditNode act n)" "keeps (unreported E x) outside"
  "keeps (unreported E x) (store_call (modify (\<lambda>s. s\<lparr>R_Accounts := f s\<rparr>)))"
  "keeps (unreported E x) (store_call (modify (\<lambda>s. s\<lparr>R_Assets := g s\<rparr>)))"
  unfolding insert_account_def insert_asset_def auditNode_def outside_def
  by (rule keeps_store_call; auto simp: keeps_def unreported_def modify_def ret_def list_all_iff)+

lemma quiet_rollback:
  "keeps (unreported E x) d \<Longrightarrow> quiet_run E x (rollback_creation d e)"
  unfolding rollback_creation_def
  by (intro quiet_handle quiet_basic keeps_rows; simp)

lemma quiet_unless_known:
  "quiet_run E x (if wraps e ErrAlreadyExists then ret a else raise (Wrap w e))"
  by (simp add: quiet_basic)

lemma quiet_register:
  "quiet_run E x (registerAccount pr c a)" "quiet_run E x (registerAsset pr k)"
  unfolding registerAccount_def registerAsset_def
  by (intro quiet_handle_wrap quiet_unless_known quiet_if quiet_andthen quiet_handle quiet_rollback
      quiet_basic keeps_rows quiet_reads quiet_lift;
      simp add: refusals_say_invalid ValidateAsset_says_invalid)+

lemma quiet_missing: "quiet_run E x (missing_asset ks)"
  by (induction ks) (auto intro!: quiet_handle_wrap quiet_andthen quiet_basic quiet_reads)

lemma quiet_ensure:
  "quiet_run E x (ensureAccountAndAssetsRegisteredExclusive pr c MissingAccountCreate a ks)"
  unfolding ensureAccountAndAssetsRegisteredExclusive_def ensureAccountRegistered_def
  by (intro quiet_handle_wrap quiet_if quiet_andthen quiet_basic quiet_reads quiet_lift quiet_missing
      quiet_each quiet_register; auto dest: refusals_say_invalid intro!: quiet_register)

lemma quiet_available: "quiet_run E x (requireExecutionReportIDAvailable x)"
proof -
  have "triple (unreported E x) (ExecutionReportExists x)
      (\<lambda>b s. \<not> b \<and> unreported E x s) (\<lambda>e _. \<not> wraps e ErrAlreadyExists)"
    unfolding triple_def ExecutionReportExists_def
    by (auto simp: store_call_def gets_def ret_def unreported_def split: list.splits fault.splits)
  then show ?thesis
    unfolding requireExecutionReportIDAvailable_def quiet_run_def
    by (auto simp: triple_def ret_def raise_def handle_def split: sum.splits prod.splits; fastforce)
qed

lemma quiet_unmanaged: "quiet_run E x (requireUnmanaged c oid)"
  unfolding requireUnmanaged_def requireNoVenueOrder_def GetVenueOrder_def
  by (intro quiet_if quiet_handle_wrap quiet_basic quiet_read) (simp_all add: gets_def)

lemma quiet_reservation: "quiet_run E x (lift_res (executionReservedQuantity D j d))"
proof -
  have "\<not> wraps e ErrAlreadyExists" if "executionReservedQuantity D j d = Inl e" for e
    using that
    by (auto simp: executionReservedQuantity_def ParseOpenQuantity_def Let_def
        split: sum.splits if_splits option.splits)
  then show ?thesis by (auto simp: quiet_run_def triple_def lift_res_def split: sum.splits)
qed

text \<open>Once the engine has run, every error hides what it wraps.\<close>

definition hides :: "'a wop \<Rightarrow> bool" where
  "hides m \<longleftrightarrow> (\<forall>s e t. m s = (Inl e, t) \<longrightarrow> \<not> wraps e ErrAlreadyExists)"

lemma hides_fatal: "hides (fatalPost e)" "hides (ret a)"
  by (simp_all add: hides_def fatalPost_def andthen_def modify_def raise_def ret_def)

lemma hides_handle: "(\<And>e. hides (h e)) \<Longrightarrow> (\<And>a. hides (f a)) \<Longrightarrow> hides (handle m h f)"
  by (auto simp: hides_def handle_def split: prod.splits sum.splits)

lemma hides_persist: "hides (persist_report D E c i j oi outcome)"
  unfolding persist_report_def Let_def
  by (auto intro!: hides_handle hides_fatal split: sum.split)

lemma fresh_engine:
  "(\<And>a. hides (f a)) \<Longrightarrow> fresh_run E x (andthen (engine_call E j q) f)"
  unfolding fresh_run_def triple_def engine_call_cases
  by (auto simp: unreported_def hides_def split: sum.splits prod.splits)

lemma settle_fresh: "fresh_run E (In_ExternalID i) (settleExecutionReport D E c i)"
  unfolding settleExecutionReport_def Let_def
  by (intro fresh_handle_wrap fresh_andthen fresh_engine quiet_reads quiet_ensure quiet_available
      quiet_unmanaged quiet_lift quiet_reservation)
    (auto simp: refusals_say_invalid hides_fatal hides_persist split: sum.split)

text \<open>A fill report that ends with \<open>ErrAlreadyExists\<close> was known before.\<close>

lemma fill_report_known:
  assumes m: "sink D E i s = (Inl e, t)" and w: "wraps e ErrAlreadyExists"
    and st: "is_fill_status (In_OrderStatus i)"
  shows "\<not> unreported E (In_ExternalID i) s"
proof (cases "ExecutionReportRequiresEngine D i")
  case (Inl x)
  then have "e = x" using m by (simp add: sink_def applyExecutionReport_def andthen_def lift_res_def)
  moreover have "\<not> wraps x ErrAlreadyExists" using Inl by (rule ExecutionReportRequiresEngine_refuses)
  ultimately show ?thesis using w by simp
next
  case (Inr b)
  then have b using fill_report_has_fill[OF Inr st]
    unfolding ExecutionReportRequiresEngine_wf executionReportCarriesEnginePayload_def has_fill_def
    by blast
  then have "settleExecutionReport D E system_caller i s = (Inl e, t)"
    using m Inr by (simp add: sink_def applyExecutionReport_def andthen_def lift_res_def)
  then show ?thesis
    using triple_Inl[OF settle_fresh[unfolded fresh_run_def]] w by blast
qed

subsection \<open>The booked quantity\<close>

lemma applyFill_books:
  assumes D: "decimal_pkg_ok D" and m: "applyFill D E l oi f s = (r, t)"
    and f: "fillQuantities D f = Inr (q, c)"
    and ts: "trades_of s (VO_Order l) = Some ts" "trades_ok D ts"
    and next_fill: "fill_cum D f = booked D ts + fill_qty D f" and pos: "0 < fill_qty D f"
  defines "x \<equiv> reportID (VO_ClientOrderID l) (''fill:'' @ DecString D c)"
  shows "trades_of t = trades_of s \<and> R_Reports t = R_Reports s
   \<or> (\<exists>tr. Trade_Quantity tr = Fill_Quantity f \<and> Trade_Price tr = Fill_Price f
        \<and> trades_of t = (trades_of s)(VO_Order l \<mapsto> ts @ [tr]) \<and> R_Reports t = R_Reports s @ [x]
        \<and> trades_ok D (ts @ [tr]) \<and> booked D (ts @ [tr]) = fill_cum D f)"
    and "r = Inr () \<Longrightarrow> unreported E x s \<Longrightarrow> trades_of t \<noteq> trades_of s"
proof -
  obtain i where i: "In_Order i = VO_Order l" "In_FillQuantity i = Fill_Quantity f"
    "In_FillPrice i = Fill_Price f" "is_fill_status (In_OrderStatus i)" "In_ExternalID i = x"
    and a: "applyFill D E l oi f =
      handle (sink D E i) (\<lambda>e. if wraps e ErrAlreadyExists then ret () else raise e) ret"
    using applyFill_report[OF f] unfolding x_def by blast
  obtain p where p: "sink D E i s = (p, t)"
    and pr: "p = Inr () \<Longrightarrow> r = Inr ()" "\<And>e. p = Inl e \<Longrightarrow> r = Inr () \<longleftrightarrow> wraps e ErrAlreadyExists"
    using m unfolding a
    by (auto simp: handle_def ret_def raise_def split: prod.splits sum.splits if_splits)
  have x: "x \<noteq> []" by (simp add: x_def reportID_def TradingRuntimeIDPrefix_def)
  have "trades_ok D (ts @ [tr]) \<and> booked D (ts @ [tr]) = fill_cum D f"
    if "Trade_Quantity tr = Fill_Quantity f" for tr
    using that ts(2) fillQuantities_Inr(1,3)[OF f] pos next_fill
    by (auto simp: trades_ok_def booked_def trade_qty_def fill_qty_def)
  then show "trades_of t = trades_of s \<and> R_Reports t = R_Reports s
   \<or> (\<exists>tr. Trade_Quantity tr = Fill_Quantity f \<and> Trade_Price tr = Fill_Price f
        \<and> trades_of t = (trades_of s)(VO_Order l \<mapsto> ts @ [tr]) \<and> R_Reports t = R_Reports s @ [x]
        \<and> trades_ok D (ts @ [tr]) \<and> booked D (ts @ [tr]) = fill_cum D f)"
    using fill_report_trades(1)[OF p i(4), unfolded i, OF ts(1)] x by blast
  assume "r = Inr ()" and u: "unreported E x s"
  then have "p = Inr ()"
    using pr(2) fill_report_known[OF _ _ i(4), of D E s] p i(5) by (cases p) auto
  then show "trades_of t \<noteq> trades_of s"
    using fill_report_trades(2)[OF p i(4), unfolded i, OF ts(1)] by blast
qed

end
