(* ===== verification/Samples.thy ===== *)
theory Samples
  imports FillReports
begin

section \<open>A concrete world\<close>

text \<open>
  One account with an accepted order, a connection with its instrument and grant, and a worker
  that is ready to send: the concrete inputs on which the witnesses of the trading properties
  run.
\<close>

definition sample_order :: order where
  "sample_order = \<lparr> Order_At = 0, Order_ExternalID = ''o1'', Order_AmountValue = ''2'',
     Order_Leaves = ''2'', Order_ReservedQuantity = ''2'', Order_Price = ''10'',
     Order_Principal = ''op'', Order_BaseAsset = ''BTC'', Order_QuoteAsset = ''USD'',
     Order_Lock = [], Order_CommissionSubtotals = [], Order_Account = ''acc'',
     Order_Source = SourceAPI, Order_DropCopy = False, Order_Side = OrderSideBuy,
     Order_AmountKind = OrderAmountKindQuantity, Order_Status = OrderStatusCommitted \<rparr>"

definition sample_detail :: order_detail where
  "sample_detail = \<lparr> Det_Order = sample_order,
     Det_Events = [new_event ''o1'' OrderEventPreTradeAccepted empty_payload], Det_Trades = [] \<rparr>"

definition sample_connection :: trading_connection where
  "sample_connection = \<lparr> Conn_ExternalID = ''c1'', Conn_Provider = ''alpaca'', Conn_Label = ''main'',
     Conn_Mode = TradingModePaper, Conn_VenueIdentity = ''v'', Conn_Credentials = ''{}'',
     Conn_Enabled = True, Conn_FeeAccount = [] \<rparr>"

definition sample_destination :: trading_destination where
  "sample_destination =
     \<lparr> Dest_Connection = ''c1'', Dest_VenueAccount = [], Dest_Route = ''{}'' \<rparr>"

definition sample_world :: world where
  "sample_world = \<lparr> R_Orders = [''o1'' \<mapsto> sample_detail], R_Links = [], R_Reports = [],
     R_Connections = [sample_connection],
     R_Access = (\<lambda>a. if a = ''acc'' then [\<lparr> Access_Account = ''acc'', Access_AccountGroup = [],
       Access_Connection = ''c1'', Access_VenueAccount = [] \<rparr>] else []),
     R_Instruments = [\<lparr> TInstr_Connection = ''c1'', TInstr_ExternalSymbol = ''BTCUSD'',
       TInstr_BaseAsset = ''BTC'', TInstr_QuoteAsset = ''USD'', TInstr_Enabled = True \<rparr>],
     R_Accounts = [zero_account ''acc''], R_Assets = [''BTC'', ''USD''], R_Principals = [''op'', ''system''],
     R_SigningKeys = [], R_Balances = Map.empty, R_Now = 5, R_Audit = [],
     R_Fresh = [''n1'', ''n2'', ''n3''], R_Fatal = False, R_Engine = [], R_Reserved = [''o1''], R_Faults = [],
     W_Connection = sample_connection, W_Pending = [], W_ReconcileAllPending = False,
     W_Unavailable = None, W_Stopped = False, W_Providers = [''alpaca'' \<mapsto> False],
     W_Random = [Inr (replicate 16 (CHR ''A''))], W_FeeCursor = [], W_FeeSkips = [],
     W_FeeSkipped = [], R_Adjustments = [], R_FeeAccounts = Map.empty, V_Requests = [],
     V_SendResults = [Inr ''v1''], V_LookupResults = [], V_PreCheck = None, V_FeePages = None,
     V_InstrumentAssets = (\<lambda>s. Inl (Sentinel ErrNotFound)), V_AdjustResults = [] \<rparr>"

definition no_engine :: engine_settle where
  "no_engine = \<lparr> E_Report = (\<lambda>i r. Inl (Sentinel ErrConflict)), E_Attest = (\<lambda>c i. None),
     E_Print = (\<lambda>_. True) \<rparr>"

lemma ascii_canonical:
  assumes "list_all (\<lambda>c. of_char c < (128::nat) \<and> \<not> is_space (of_char c)) s"
  shows "canonical_text s"
  by (rule no_space_canonical) (use assms in \<open>auto simp: go_runes_ascii list_all_iff\<close>)

lemma all_registered:
  assumes "R_Faults s = []" and "code \<in> Account_Code ` set (R_Accounts s)"
    and "ValidateAccountID pr code = None" and "set codes \<subseteq> insert [] (set (R_Assets s))"
  shows "ensureAccountAndAssetsRegisteredExclusive pr c MissingAccountCreate code codes s = (Inr (), s)"
proof -
  have m: "missing_asset codes s = (Inr False, s)"
    using assms(4)
    by (induction codes) (auto simp: handle_def andthen_def read_asset_def store_call_def gets_def ret_def assms(1))
  have "List.find (\<lambda>a. Account_Code a = code) (R_Accounts s) \<noteq> None"
    using assms(2) by (auto simp: find_None_iff)
  then show ?thesis
    by (simp add: ensureAccountAndAssetsRegisteredExclusive_def handle_def andthen_def lift_out_def
        ValidateMissingAccountPolicy_def assms(1,3) read_account_def store_call_def gets_def ret_def m)
qed

lemma sample_account_id: "ValidateAccountID (\<lambda>_. True) ''acc'' = None"
proof -
  have "canonical_text ''acc''"
    by (rule no_space_canonical) (simp add: go_runes_ascii is_space_def)
  then show ?thesis
    using valid_utf8_ascii[of "''acc''"] rune_count_le_length[of "''acc''"]
    by (simp add: ValidateAccountID_iff code_text_def isPathDotSegment_def go_runes_ascii)
qed

lemma sample_registered:
  assumes "R_Faults s = []" and "R_Accounts s = [zero_account ''acc'']" and "R_Assets s = [''BTC'', ''USD'']"
  shows "ensureAccountAndAssetsRegisteredExclusive (\<lambda>_. True) c MissingAccountCreate ''acc'' [] s = (Inr (), s)"
    "ensureAccountAndAssetsRegisteredExclusive (\<lambda>_. True) c MissingAccountCreate ''acc'' [''BTC'', ''USD''] s
      = (Inr (), s)"
  by (rule all_registered; simp add: assms zero_account_def sample_account_id)+

lemmas settlement_runs = sample_registered resolveAccountTx_def lookupOrderTx_def require_def reads_def known_def
  requireSource_def resolveAssetTx_def resolveOptionalPrincipalID_def settleAccountPnlTx_def settleOrderRowTx_def
  insertTrade_def validateCommission_def commissionAmount_def commissionCurrency_def newExternalID_def
  recordEventTx_def appendOrderEventReturningTx_def attestOrderEventTx_def empty_settlement_def zero_account_def
  stored_event_def

lemma sample_json: "json_object ''{}''" by code_simp

lemma sample_canonical: "canonical_text []" "canonical_text ''{}''"
  by (rule ascii_canonical, simp add: is_space_def)+

lemma sample_b64: "b64_encode (replicate 16 CHR ''A'') = ''QUFBQUFBQUFBQUFBQUFBQQ''"
  by code_simp

lemma sample_destination_ok: "ValidateTradingDestination sample_destination = None"
  by (simp add: ValidateTradingDestination_iff sample_destination_def sample_canonical sample_json)


definition sample_request :: venue_request where
  "sample_request = \<lparr> VR_ClientOrderID = [], VR_Symbol = ''BTCUSD'', VR_BaseAsset = ''BTC'',
     VR_QuoteAsset = ''USD'', VR_Side = OrderSideBuy, VR_AmountKind = OrderAmountKindQuantity,
     VR_Quantity = ''2'', VR_LimitPrice = ''10'', VR_VenueAccount = [], VR_Route = ''{}'' \<rparr>"

definition sample_link where
  "sample_link = \<lparr> VO_Order = ''o1'', VO_Connection = ''c1'', VO_VenueAccount = [], VO_Route = ''{}'',
      VO_ClientOrderID = ''QUFBQUFBQUFBQUFBQUFBQQ'', VO_SendAttempted = False,
      VO_VenueOrderID = [], VO_CreatedAt = 5\<rparr>"

lemma sample_check: "checkDestination sample_order sample_destination sample_world = (Inr sample_request, sample_world)"
  by (simp add: checkDestination_def andthen_def sample_destination_ok sample_destination_ok[unfolded sample_destination_def] lift_out_def  GetTradingConnection_def ListTradingAccess_def FindTradingInstrument_def
   store_call_def gets_def sample_world_def sample_connection_def sample_destination_def sample_order_def reads_def ret_def sample_request_def)

lemma sample_order_read: "GetOrder ''o1'' sample_world = (Inr sample_detail, sample_world)"
  by (simp add: GetOrder_def store_call_def sample_world_def)

lemma sample_eligible: "eligible sample_detail [] = None"
  by (simp add: eligible_def sample_detail_def sample_order_def new_event_def empty_payload_def)

lemma sample_coid: "canonical_text ''QUFBQUFBQUFBQUFBQUFBQQ''"
  by (rule ascii_canonical) (simp add: is_space_def)

lemma sample_link_valid: "ValidateVenueOrder sample_link = None"
  by (simp add: ValidateVenueOrder_iff sample_link_def sample_canonical sample_json sample_coid)

lemma sample_send_link: "send_link ''o1'' sample_destination sample_world =
  (Inr (sample_request\<lparr>VR_ClientOrderID := ''QUFBQUFBQUFBQUFBQUFBQQ''\<rparr>, sample_link),
   sample_world\<lparr>R_Links := [sample_link], W_Random := []\<rparr>)"
proof -
  have v: "ValidateVenueOrder (sample_link\<lparr>VO_CreatedAt := 0\<rparr>) = None"
    using sample_link_valid by (simp add: ValidateVenueOrder_iff)
  have l: "\<lparr> VO_Order = ''o1'', VO_Connection = Dest_Connection sample_destination,
           VO_VenueAccount = Dest_VenueAccount sample_destination, VO_Route = Dest_Route sample_destination,
           VO_ClientOrderID = ''QUFBQUFBQUFBQUFBQUFBQQ'', VO_SendAttempted = False, VO_VenueOrderID = [],
           VO_CreatedAt = 0 \<rparr> = sample_link\<lparr>VO_CreatedAt := 0\<rparr>"
    by (simp add: sample_link_def sample_destination_def)
  have r: "random_id sample_world = (Inr ''QUFBQUFBQUFBQUFBQUFBQQ'', sample_world\<lparr>W_Random := []\<rparr>)"
    by (simp add: random_id_def sample_world_def NewExternalID_def GeneratedExternalIDFromBytes_def ExternalIDByteLen_def sample_b64
)
  have c: "CreateVenueOrder (sample_link\<lparr>VO_CreatedAt := 0\<rparr>) (sample_world\<lparr>W_Random := []\<rparr>)
    = (Inr sample_link, sample_world\<lparr>R_Links := [sample_link], W_Random := []\<rparr>)"
    by (simp add: CreateVenueOrder_def v v[unfolded sample_link_def, simplified] andthen_def lift_out_def lookupOrderID_def resolveTradingConnectionID_def
      store_call_def sample_world_def insert_link_def sample_link_def sample_connection_def Let_def)
  have d: "Det_Order sample_detail = sample_order" by (simp add: sample_detail_def)
  show ?thesis
    by (simp add: send_link_def andthen_def handle_def sample_order_read d sample_check sample_eligible lift_out_def r l c ret_def)
qed

definition claim_world where
 "claim_world = snd (send_claim pair_pkg no_engine ''o1'' sample_link (sample_world\<lparr>R_Links := [sample_link], W_Random := []\<rparr>))"

lemma sample_report: "ExecutionReportRequiresEngine pair_pkg (empty_report
         \<lparr> In_ExternalID := x, In_Order := ''o1'',
           In_OrderStatus := OrderStatusCommitted \<rparr>) = Inr False"
  by (simp add: ExecutionReportRequiresEngine_wf report_wf_def is_fill_status_def executionReportCarriesEnginePayload_def empty_report_def)

lemma sample_claim: "fst (send_claim pair_pkg no_engine ''o1'' sample_link (sample_world\<lparr>R_Links := [sample_link], W_Random := []\<rparr>)) = Inr ()
  \<and> V_Requests claim_world = [] \<and> V_SendResults claim_world = [Inr ''v1''] \<and> R_Faults claim_world = []
  \<and> R_Links claim_world = [sample_link]"
  apply (simp add: claim_world_def send_claim_def handle_def sink_def applyExecutionReport_def sample_report[unfolded empty_report_def, simplified] andthen_def lift_res_def
    recordWorkflowExecutionReport_def settlement_runs no_engine_def GetOrder_def store_call_def outside_def sample_world_def ret_def
    requireExecutionReportIDAvailable_def ExecutionReportExists_def reportID_def TradingRuntimeIDPrefix_def gets_def
    requireUnmanaged_def system_caller_def lift_out_def RequireOrderModifiable_def sample_detail_def sample_order_def
    empty_report_def Let_def RecordOrderSettlement_def atomic_def recordOrderSettlementTx_def
    insertExecutionReportTx_def externalIDForInsert_def guardedOrderStatus_def modify_order_def modify_def auditNode_def
   new_event_def empty_payload_def stamp_report_id_def sample_link_def eligible_def ExecutionReportRequestFromInput_def)
  done

lemma sample_claim_report:
  "\<exists>t. applyExecutionReport pair_pkg no_engine system_caller
     (empty_report \<lparr> In_ExternalID := reportID (VO_ClientOrderID sample_link) ''claim'',
        In_Order := ''o1'', In_OrderStatus := OrderStatusCommitted \<rparr>)
     (sample_world\<lparr>R_Links := [sample_link], W_Random := []\<rparr>) = (Inr (), t)"
proof -
  obtain u where "send_claim pair_pkg no_engine ''o1'' sample_link
      (sample_world\<lparr>R_Links := [sample_link], W_Random := []\<rparr>) = (Inr (), u)"
    using sample_claim by (metis prod.collapse)
  then show ?thesis
    by (auto simp: send_claim_def handle_Inr andthen_Inr drop_claim_def sink_def)
qed

lemma sample_venue:
  assumes "V_Requests s = []" "V_SendResults s = [Inr ''v1'']" "R_Faults s = []" "R_Links s = [sample_link]"
  shows "\<exists>t. send_venue pair_pkg no_engine ''o1'' m sample_link s
     = (Inr (sample_link\<lparr>VO_SendAttempted := True, VO_VenueOrderID := ''v1''\<rparr>), t) \<and> V_Requests t = [(''o1'', m)]"
proof -
  have c: "trim_space ''v1'' = ''v1''" using ascii_canonical[of "''v1''"]
     by (simp add: is_space_def canonical_text_def)
  have o: "VO_Order sample_link = ''o1''" "VO_VenueOrderID sample_link = []" by (simp_all add: sample_link_def)
  show ?thesis using assms
  by (auto simp: send_venue_def andthen_def pend_def modify_def MarkVenueOrderSendAttempted_def store_call_def
    update_links_def o handle_def venue_send_def SetVenueOrderID_def lift_out_def c unpend_def ret_def)
qed

lemma sample_sent:
  "\<exists>l t m. send pair_pkg no_engine ''o1'' sample_destination sample_world = (Inr l, t)
     \<and> V_Requests t = [(''o1'', m)] \<and> VO_VenueOrderID l = ''v1''"
proof -
  let ?m = "sample_request\<lparr>VR_ClientOrderID := ''QUFBQUFBQUFBQUFBQUFBQQ''\<rparr>"
  obtain t where "send_venue pair_pkg no_engine ''o1'' ?m sample_link claim_world
     = (Inr (sample_link\<lparr>VO_SendAttempted := True, VO_VenueOrderID := ''v1''\<rparr>), t)"
    and "V_Requests t = [(''o1'', ?m)]"
    using sample_venue sample_claim by blast
  then show ?thesis
    using sample_claim sample_send_link
    by (intro exI[of _ "sample_link\<lparr>VO_SendAttempted := True, VO_VenueOrderID := ''v1''\<rparr>"]
        exI[of _ t] exI[of _ ?m]) (auto simp: send_unfold claim_world_def split: prod.splits sum.splits)
qed

subsection \<open>A world with a booked fill\<close>

definition sample_fill :: fill where
  "sample_fill = \<lparr> Fill_Quantity = ''2'', Fill_Price = ''10'', Fill_CumQuantity = ''2'',
     Fill_LeavesQuantity = ''0'', Fill_Final = False, Fill_Commission = None, Fill_At = 0,
     Fill_CommissionLeg = NoLeg \<rparr>"

definition sample_snapshot :: snapshot where
  "sample_snapshot = \<lparr> Snap_VenueOrderID = ''v1'', Snap_Status = VenueStatusOpen,
     Snap_FilledQuantity = ''2'', Snap_Fills = [sample_fill], Snap_Reason = [] \<rparr>"

definition sample_trade :: trade where
  "sample_trade = \<lparr> Trade_At = 0, Trade_ExternalID = ''t'', Trade_Order = ''o1'',
              Trade_Quantity = ''2'', Trade_Price = ''10'',
              Trade_LockPrice = [], Trade_Commission = None,
              Trade_Principal = [], Trade_BaseAsset = ''BTC'',
              Trade_QuoteAsset = ''USD'', Trade_Account = ''acc'',
              Trade_Source = SourceSystem, Trade_Side = OrderSideBuy \<rparr>"

definition sent_link :: venue_order where
  "sent_link = sample_link\<lparr>VO_SendAttempted := True, VO_VenueOrderID := ''v1''\<rparr>"

definition filled_world :: world where
  "filled_world = sample_world\<lparr> R_Orders := [''o1'' \<mapsto> sample_detail\<lparr>Det_Trades := [sample_trade]\<rparr>],
     R_Links := [sent_link], V_LookupResults := [Inr (Some sample_snapshot)] \<rparr>"

lemma sample_numbers: "NewFromString pair_pkg ''2'' = Some (2, 0)" "NewFromString pair_pkg ''10'' = Some (10, 0)"
   "NewFromString pair_pkg ''0'' = Some (0, 0)"
  by code_simp+

lemma sample_venue_numbers: "parseVenueDecimal pair_pkg ''2'' f False False = Inr (2, 0)"
  "parseVenueDecimal pair_pkg ''10'' f True False = Inr (10, 0)"
  "parseVenueDecimal pair_pkg ''0'' f False False = Inr (0, 0)"
  using sample_numbers by (simp_all add: parseVenueDecimal_def Let_def segs_ascii maxVenueDecimalLength_def dec_positive_val dval_def)

lemma sample_fill_quantities: "fillQuantities pair_pkg sample_fill = Inr ((2,0),(2,0))"
  by (simp add: fillQuantities_def sample_fill_def sample_venue_numbers)

lemma sample_sum: "pair_add (0, 1) (2, 0) = (2, 0)" by code_simp

lemma sample_sum_eq: "dec_eq pair_pkg (2,0) (pair_add (0,1) (2,0))"
  by (simp add: dec_eq_val[OF pair_pkg_ok] sample_sum)

lemma sample_snapshot_ok: "validateSnapshot pair_pkg sample_snapshot = Inr (2,0)"
  using sample_sum_eq by (simp add: validateSnapshot_def sample_snapshot_def sample_venue_numbers sample_fill_quantities sample_fill_def dec_eq_val[OF pair_pkg_ok] sample_fill_quantities[unfolded sample_fill_def])

lemma sample_cumulative: "cumulative pair_pkg [sample_trade] = Inr (pair_add (0,1) (2,0))"
  using sample_numbers by (simp add: cumulative_def positiveDecimal_def sample_trade_def dec_positive_val dval_def)

lemma sample_reconcile: "reconcile pair_pkg no_engine sent_link filled_world = (Inr (), filled_world\<lparr>V_LookupResults := []\<rparr>)"
proof -
  have le: "dec_le pair_pkg (2,0) (pair_add (0,1) (2,0))" "dec_eq pair_pkg (pair_add (0,1) (2,0)) (2,0)"
    by (simp_all add: dec_le_val[OF pair_pkg_ok] dec_eq_val[OF pair_pkg_ok] sample_sum)
  have s: "VO_SendAttempted sent_link" "VO_Order sent_link = ''o1''" "VO_VenueOrderID sent_link = ''v1''"
    by (simp_all add: sent_link_def sample_link_def)
  have g: "GetOrder ''o1'' filled_world = (Inr (sample_detail\<lparr>Det_Trades := [sample_trade]\<rparr>), filled_world)"
    by (simp add: GetOrder_def store_call_def filled_world_def sample_world_def)
  have f: "FindTradingInstrument c b q filled_world = (Inr (fst (projr (fst (FindTradingInstrument c b q filled_world)), ())), filled_world)" for c b q
    by (simp add: FindTradingInstrument_def store_call_def gets_def filled_world_def sample_world_def)
  have t: "\<not> OrderStatusTerminal (Order_Status (Det_Order sample_detail))"
    by (simp add: sample_detail_def sample_order_def)
  have v: "V_LookupResults filled_world = [Inr (Some sample_snapshot)]" by (simp add: filled_world_def)
  have ss: "Snap_VenueOrderID sample_snapshot = ''v1''" "Snap_Fills sample_snapshot = [sample_fill]"
     "Snap_Status sample_snapshot = VenueStatusOpen"
     by (simp_all add: sample_snapshot_def)
  show ?thesis
    by (subst reconcile_def, simp add: andthen_def g s t reads_def, subst f,
      simp add: handle_def venue_lookup_def v reconcile_snapshot_def ss s andthen_def lift_out_def sample_snapshot_ok sample_cumulative sample_fill_quantities le lift_res_def ret_def)
qed

text \<open>A fill that goes through the engine.\<close>

definition quiet_engine :: engine_settle where
  "quiet_engine = \<lparr> E_Report = (\<lambda>i r. Inr (Inr \<lparr> Ro_Balances = [], Ro_Blocks = [],
     Ro_AccountPnl = [], Ro_AccountPnlHaltReason = NoPnlHalt \<rparr>)), E_Attest = (\<lambda>c i. None),
     E_Print = (\<lambda>_. True) \<rparr>"

definition fill_as :: "string \<Rightarrow> order_status \<Rightarrow> execution_report_input" where
  "fill_as x st = empty_report \<lparr> In_ExternalID := x, In_Order := ''o1'',
     In_OrderStatus := st, In_FillQuantity := ''2'', In_FillPrice := ''10'',
     In_LeavesQuantity := ''0'' \<rparr>"

definition fill_input :: execution_report_input where
  "fill_input = fill_as ''r1'' OrderStatusFilled"

lemma sample_digits: "canonical_text ''0''" "canonical_text ''2''" "canonical_text ''10''"
  by (rule ascii_canonical, simp add: is_space_def)+

lemma sample_open_two: "ParseOpenQuantity pair_pkg ''2'' = Inr (2, 0)"
  using sample_numbers sample_digits
  by (simp add: ParseOpenQuantity_def canonical_text_def contains_eE dec_negative_val dval_def)

lemma fill_as_settles:
  assumes "x \<noteq> []" and "OrderStatusSupported st"
  shows "\<exists>t. settleExecutionReport pair_pkg quiet_engine system_caller (fill_as x st) sample_world
    = (Inr (), t)"
proof -
  have r: "pair_add (2, 0) (- 2, 0) = (0, 0)" "pair_text (2, 0) = ''2''" by code_simp+
  show ?thesis
    using assms
    by (cases "ExecutionReportStatusChangeEvent st"; simp add: settleExecutionReport_def handle_def andthen_def GetOrder_def store_call_def
        outside_def sample_world_def ret_def requireExecutionReportIDAvailable_def
        settlement_runs report_assets_def persist_report_def report_settlement_def mirrorEngineBlocksAudit_def
        stamp_event_def stamp_report_id_def new_event_def empty_payload_def auditNode_def
        ExecutionReportExists_def gets_def requireUnmanaged_def system_caller_def lift_out_def
        RequireOrderModifiable_def sample_detail_def sample_order_def Let_def enrich_report_def
        fill_as_def empty_report_def lift_res_def engine_call_def quiet_engine_def
        executionReservedQuantity_def sample_open_two r reservationAfterOutcomes_def
        RecordOrderSettlement_def atomic_def recordOrderSettlementTx_def
        stampExecutionReportPersistence_def executionReportPersistenceFrom_def
        insertExecutionReportTx_def externalIDForInsert_def guardedOrderStatus_def
        modify_order_def modify_def auditNode_def dec_negative_val dval_def)
qed

lemma fill_as_applies:
  assumes "x \<noteq> []" and "is_fill_status st"
  shows "\<exists>t. applyExecutionReport pair_pkg quiet_engine system_caller (fill_as x st) sample_world
    = (Inr (), t)"
proof -
  have s: "OrderStatusSupported st"
    "st \<notin> {OrderStatusSubmitted, OrderStatusAccepted, OrderStatusCommitted}"
    using assms(2) by (cases st; simp add: is_fill_status_def)+
  have "ExecutionReportRequiresEngine pair_pkg (fill_as x st) = Inr True"
    using sample_numbers assms s
    by (simp add: ExecutionReportRequiresEngine_wf report_wf_def fill_as_def empty_report_def
        open_quantity_def sample_digits dval_def executionReportCarriesEnginePayload_def)
  then show ?thesis
    using fill_as_settles[OF assms(1) s(1)]
    by (auto simp: applyExecutionReport_def andthen_def lift_res_def)
qed

lemma fill_input_settles:
  "\<exists>t. settleExecutionReport pair_pkg quiet_engine system_caller fill_input sample_world = (Inr (), t)"
  unfolding fill_input_def by (rule fill_as_settles) simp_all

lemma fill_input_applies:
  "\<exists>t. applyExecutionReport pair_pkg quiet_engine system_caller fill_input sample_world = (Inr (), t)"
  unfolding fill_input_def by (rule fill_as_applies) (simp_all add: is_fill_status_def)

lemma fill_event_applies:
  "\<exists>t. applyFill pair_pkg quiet_engine sample_link sample_order sample_fill sample_world = (Inr (), t)"
proof -
  let ?x = "reportID (VO_ClientOrderID sample_link) (''fill:'' @ pair_text (2, 0))"
  have "applyFill pair_pkg quiet_engine sample_link sample_order sample_fill
      = handle (sink pair_pkg quiet_engine (fill_as ?x OrderStatusPartiallyFilled))
          (\<lambda>e. if wraps e ErrAlreadyExists then ret () else raise e) ret"
    by (simp add: applyFill_def sample_fill_quantities andthen_def lift_res_def fun_eq_iff Let_def)
      (simp add: fill_as_def sample_link_def sample_fill_def empty_report_def)
  moreover obtain t where "sink pair_pkg quiet_engine (fill_as ?x OrderStatusPartiallyFilled) sample_world
      = (Inr (), t)"
    unfolding sink_def using fill_as_applies[of ?x OrderStatusPartiallyFilled]
    by (auto simp: is_fill_status_def reportID_def TradingRuntimeIDPrefix_def)
  ultimately show ?thesis by (simp add: handle_def ret_def)
qed

end
