(* ===== verification/OrderSamples.thy ===== *)
theory OrderSamples
  imports ClosedOrders OutcomeRules Commissions Samples
begin

section \<open>A concrete order desk\<close>

text \<open>An engine that holds what it is asked, and the runs that the witnesses of the order desk use.\<close>

definition desk_caller :: caller where
  "desk_caller = \<lparr> Caller_Source = SourceAPI, Caller_Principal = ''op'', Caller_Role = [] \<rparr>"

definition desk_draft :: order where
  "desk_draft = sample_order\<lparr>Order_ExternalID := ''o2'', Order_Leaves := ''0'', Order_ReservedQuantity := ''0''\<rparr>"

definition desk_outcome :: adjustment_outcome where
  "desk_outcome = \<lparr> Out_BalanceDelta = [], Out_BalanceResult = [], Out_HeldDelta = [], Out_HeldResult = [],
     Out_IncomingDelta = ''2'', Out_IncomingResult = ''2'', Out_RealizedPnlDelta = [],
     Out_RealizedPnlResult = [], Out_RealizedPnlHaltReason = NoPnlHalt, Out_AverageEntryPrice = [] \<rparr>"

definition desk_engine :: order_engine where
  "desk_engine = \<lparr> OE_OrderModel = (\<lambda>_. None),
     OE_PreTrade = (\<lambda>_. PreTradeReserved (Inr \<lparr> Rsv_Lock = ''lk'', Rsv_Prices = [''10''],
       Rsv_Outcomes = [\<lparr> BO_Asset = ''BTC'', BO_Outcome = desk_outcome \<rparr>], Rsv_Blocks = [] \<rparr>) None),
     OE_ReportModel = (\<lambda>_ _. None),
     OE_PostTrade = (\<lambda>_ _. Inr (Inr \<lparr> Pt_Outcomes = [], Pt_Blocks = [], Pt_AccountPnl = [],
       Pt_AccountPnlHaltReason = NoPnlHalt \<rparr>)),
     OE_Print = (\<lambda>_. True) \<rparr>"

definition desk_world :: world where
  "desk_world = sample_world\<lparr>R_Fresh := [''n1'', ''n2'', ''n3'', ''n4'', ''n5'', ''n6'', ''n7'', ''n8'', ''n9'']\<rparr>"

lemma desk_prepared:
  "prepareSubmission desk_engine operation desk_draft MissingAccountCreate desk_caller desk_world
   = (Inr (False, (submittedOrderDraft desk_draft desk_caller)\<lparr>Order_At := 5\<rparr>), desk_world)"
proof -
  have e: "ensureAccountAndAssetsRegisteredExclusive (\<lambda>_. True) c MissingAccountCreate ''acc'' [''BTC'', ''USD''] desk_world
      = (Inr (), desk_world)" for c
    by (rule sample_registered) (simp_all add: desk_world_def sample_world_def)
  show ?thesis
    by (simp add: prepareSubmission_def andthen_def desk_engine_def desk_draft_def sample_order_def e
        outside_def store_call_def ret_def Let_def lift_out_def beginOrderSubmission_def submittedOrderDraft_def
        desk_caller_def read_account_def gets_def handle_def peek_def open_submission_def createOrderTx_def
        submittedOrderEvent_def fillSettlementEvent_def new_event_def
        settlement_runs externalIDForInsert_def insert_order_def modify_order_def modify_def
        desk_world_def sample_world_def validatePersistedOrderChainInput_def check_def)
qed

lemmas desk_runs = andthen_def handle_def ret_def store_call_def atomic_def lift_out_def lift_res_def gets_def
  modify_def modify_order_def recordOrderSettlementTx_def guardedOrderStatus_def stamp_report_id_def
  mirrorEngineBlocksAudit_def auditNode_def settlement_runs insertExecutionReportTx_def externalIDForInsert_def
  insert_order_def RecordOrderSubmission_def recordOrderSubmissionTx_def open_submission_def createOrderTx_def
  submission_settlement_def submitted_order_def completeSubmission_def engine_commit_def
  fillSettlementEvent_def new_event_def empty_payload_def submittedOrderEvent_def

lemma desk_submitted:
  "\<exists>placed result t. submitOrder pair_pkg desk_engine None desk_draft MissingAccountCreate desk_caller desk_world
     = (Inr (placed, result), t) \<and> OR_Accepted result \<and> Order_ExternalID placed = ''o2''"
  by (simp add: submitOrder_def andthen_def desk_prepared Let_def)
    (simp add: desk_engine_def acceptSubmission_def orderAcceptedSettlement_def reserved_result_def
      openingLeavesFromOutcomes_def side_delta_def res_bind_def Let_def submission_attestor_def desk_runs auditSubmittedOrder_def auditOrderDecision_def
      submittedOrderDraft_def desk_draft_def sample_order_def desk_caller_def desk_world_def sample_world_def
      executionBalanceSettlementsFrom_def settleBalanceTx_def desk_outcome_def sample_open_two err_of_def)

lemma desk_numbers:
  "ParseOpenQuantity pair_pkg ''0'' = Inr (0, 0)" "pair_add (0, 0) (2, 0) = (2, 0)" "pair_text (2, 0) = ''2''"
  "pair_parse ''2'' = Some (2, 0)"
proof -
  show "ParseOpenQuantity pair_pkg ''0'' = Inr (0, 0)"
    using sample_numbers sample_digits
    by (simp add: ParseOpenQuantity_def canonical_text_def contains_eE dec_negative_val dval_def)
qed code_simp+

lemma desk_filled:
  "\<exists>placed result t. submitImmediate pair_pkg desk_engine None desk_draft MissingAccountCreate desk_caller desk_world
     = (Inr (placed, result), t) \<and> IR_Accepted result \<and> IR_FillQuantity result = ''2'' \<and> Order_ExternalID placed = ''o2''"
proof -
  have p: "Order_Price desk_draft \<noteq> []" by (simp add: desk_draft_def sample_order_def)
  show ?thesis
    by (simp add: submitImmediate_def p check_def lift_out_def andthen_def desk_prepared Let_def)
      (simp add: desk_engine_def acceptImmediate_def prepareImmediate_def immediateTradePrice_def
        immediateFillQuantity_def SettleImmediate_def mergeBalanceOutcomes_def merge_outcome_def
        engine_fill_def immediateAcceptedSettlement_def empty_report_def settlementPrice_def
        res_bind_def Let_def submission_attestor_def desk_runs auditImmediateSubmission_def auditOrderDecision_def
        submittedOrderDraft_def desk_draft_def sample_order_def desk_caller_def desk_world_def sample_world_def
        executionBalanceSettlementsFrom_def settleBalanceTx_def desk_outcome_def sample_open_two err_of_def
        stampExecutionReportPersistence_def executionReportPersistenceFrom_def stamp_event_def
        ExecutionReportRequestFromInput_def reservationAfterOutcomes_def desk_numbers dec_negative_val dval_def
        OrderStatusesEligibleForFill_def stored_order_def)
qed

lemma desk_confirmed:
  "\<exists>t. confirmOrder pair_pkg (\<lambda>_. True) None ''o1'' desk_caller sample_world = (Inr sample_order, t)"
  by (simp add: confirmOrder_def confirm_read_def confirm_write_def desk_runs GetOrder_def read_order_account_def read_account_def outside_def
      requireNoVenueOrder_def GetVenueOrder_def find_link_def RequireOrderModifiable_def check_def ListOrderEvents_def
      requireNoExecutionReportActivity_def orderEventExists_def RecordOrderSettlement_def confirm_settlement_def
      sample_world_def sample_detail_def sample_order_def desk_caller_def)

lemma desk_cancel_report: "ExecutionReportRequiresEngine pair_pkg (cancel_input sample_detail ''o1'' ''0'') = Inr True"
  using sample_numbers
  by (simp add: ExecutionReportRequiresEngine_wf report_wf_def cancel_input_def empty_report_def sample_detail_def
      sample_order_def open_quantity_def sample_digits dval_def executionReportCarriesEnginePayload_def is_fill_status_def)

lemma desk_untouched: "read_untouched ''o1'' sample_world = (Inr (sample_detail, Det_Events sample_detail), sample_world)"
  by (simp add: read_untouched_def desk_runs GetOrder_def requireNoVenueOrder_def GetVenueOrder_def find_link_def
      RequireOrderModifiable_def check_def ListOrderEvents_def requireNoExecutionReportActivity_def
      sample_world_def sample_detail_def sample_order_def)

lemma desk_remainder: "\<exists>q. executionReservedQuantity pair_pkg (cancel_input sample_detail ''o1'' ''0'') sample_detail = Inr q"
  using sample_numbers
  by (simp add: executionReservedQuantity_def cancel_input_def empty_report_def sample_detail_def sample_order_def
      sample_open_two desk_numbers Let_def)

lemma desk_cancelled:
  "\<exists>x t. cancelWorkflowOrder pair_pkg quiet_engine None ''o1'' ''0'' desk_caller sample_world = (Inr x, t)"
proof -
  obtain q where q: "executionReservedQuantity pair_pkg (cancel_input sample_detail ''o1'' ''0'') sample_detail = Inr q"
    using desk_remainder by blast
  have g: "GetOrder ''o1'' sample_world = (Inr sample_detail, sample_world)" "outside sample_world = (Inr (), sample_world)"
    by (simp_all add: GetOrder_def outside_def store_call_def ret_def sample_world_def)
  have d: "Det_Order sample_detail = sample_order" by (simp add: sample_detail_def)
  have run: "cancelWorkflowOrder pair_pkg quiet_engine None ''o1'' ''0'' desk_caller sample_world
      = persist_cancel pair_pkg quiet_engine None desk_caller (cancel_input sample_detail ''o1'' ''0'') sample_order
          \<lparr> Ro_Balances = [], Ro_Blocks = [], Ro_AccountPnl = [], Ro_AccountPnlHaltReason = NoPnlHalt \<rparr>
          (engine_ran (cancel_input sample_detail ''o1'' ''0'') sample_world)"
    by (simp add: cancelWorkflowOrder_def handle_def andthen_def g desk_untouched Let_def desk_cancel_report
        lift_res_def ret_def q engine_call_def quiet_engine_def engine_ran_def d)
  show ?thesis
    unfolding run
    by (simp add: persist_cancel_def Let_def reservationAfterOutcomes_def sample_open_two desk_numbers dec_negative_val dval_def
        cancel_settlement_def stampExecutionReportPersistence_def executionReportPersistenceFrom_def stamp_event_def
        cancel_input_def empty_report_def ExecutionReportRequestFromInput_def RecordOrderSettlement_def desk_runs engine_ran_def
        sample_world_def sample_detail_def sample_order_def desk_caller_def quiet_engine_def)
qed

subsection \<open>Fees\<close>

definition sample_fee :: commission where
  "sample_fee = \<lparr> Commission_Amount = ''2'', Commission_Currency = ''USD'' \<rparr>"

definition fee_input :: execution_report_input where
  "fee_input = fill_input\<lparr>In_Commission := Some sample_fee\<rparr>"

definition charged_detail :: order_detail where
  "charged_detail = sample_detail\<lparr>Det_Trades := [sample_trade\<lparr>Trade_Commission := Some sample_fee\<rparr>]\<rparr>"

lemma sample_no_fees: "order_fees sample_detail = []"
  by (simp add: order_fees_def sample_detail_def event_fee_def new_event_def empty_payload_def
      feeOnlyExecutionReportCommission_def)

lemma charged_fees: "order_fees charged_detail = [sample_fee]"
  by (simp add: order_fees_def charged_detail_def sample_detail_def event_fee_def new_event_def empty_payload_def
      feeOnlyExecutionReportCommission_def recorded_commission_def sample_fee_def)

lemma charged_page: "\<exists>page. commissionSubtotalsByOrder pair_pkg [''o1''] [''o1'' \<mapsto> charged_detail] = Inr page"
  by (simp add: commissionSubtotalsByOrder_def commissionSubtotalOrderBatchSize_def
      accumulate_batches.simps[of _ _ "[''o1'']"] accumulate_batches.simps[of _ _ "[]"] accumulateCommissionSubtotalsByOrder_def
      order_rows_def trade_commissions_def charged_detail_def sample_detail_def sample_trade_def recorded_commission_def
      sample_fee_def rollup_add_def add_commission_def rollup_addEvent_def new_event_def empty_payload_def
      feeOnlyExecutionReportCommission_def res_bind_def desk_numbers)

lemma fee_registered:
  assumes "R_Faults s = []" and "R_Accounts s = [zero_account ''acc'']" and "R_Assets s = [''BTC'', ''USD'']"
  shows "ensureAccountAndAssetsRegisteredExclusive (\<lambda>_. True) c MissingAccountCreate ''acc''
    [''BTC'', ''USD'', ''USD''] s = (Inr (), s)"
  by (rule all_registered) (simp_all add: assms zero_account_def sample_account_id)

lemma fee_input_applies:
  "\<exists>t. applyExecutionReport pair_pkg quiet_engine system_caller fee_input sample_world = (Inr (), t)"
proof -
  have "ExecutionReportRequiresEngine pair_pkg fee_input = Inr True"
    using sample_numbers
    by (simp add: ExecutionReportRequiresEngine_wf report_wf_def fee_input_def fill_input_def fill_as_def
        empty_report_def sample_fee_def open_quantity_def sample_digits dval_def
        executionReportCarriesEnginePayload_def is_fill_status_def)
  moreover have "\<exists>t. settleExecutionReport pair_pkg quiet_engine system_caller fee_input sample_world = (Inr (), t)"
    by (simp add: settleExecutionReport_def desk_runs fee_registered GetOrder_def
        outside_def sample_world_def requireExecutionReportIDAvailable_def
        report_assets_def persist_report_def report_settlement_def
        stamp_event_def ExecutionReportExists_def requireUnmanaged_def system_caller_def
        RequireOrderModifiable_def sample_detail_def sample_order_def Let_def enrich_report_def
        fee_input_def fill_input_def sample_fee_def fill_as_def empty_report_def engine_call_def quiet_engine_def
        executionReservedQuantity_def sample_open_two reservationAfterOutcomes_def desk_numbers
        RecordOrderSettlement_def stampExecutionReportPersistence_def executionReportPersistenceFrom_def
        dec_negative_val dval_def)
  ultimately show ?thesis by (auto simp: applyExecutionReport_def andthen_def lift_res_def)
qed

end
