(* ===== verification/AccessSecrets.thy ===== *)
theory AccessSecrets
  imports AuditTrail Base64Url
begin

section \<open>The values of the panel's access control\<close>

text \<open>
  \<^verbatim>\<open>internal/access/access.go\<close> and \<^verbatim>\<open>secrets.go\<close>: access modes, token kinds, sessions and
  credentials, and how tokens, session ids, password hashes and recovery codes are made and
  checked. The record \<open>crypto\<close> holds what is not under src/ or is a table of the standard
  library: the argon2id key derivation at the fixed cost and its version, SHA-256 and the
  upper-case table of Unicode.
\<close>

record crypto =
  C_IDKey :: "string \<Rightarrow> string \<Rightarrow> string"
  C_ArgonVersion :: string
  C_Sum256 :: "string \<Rightarrow> string"
  C_Upper :: "nat \<Rightarrow> nat"

text \<open>What the code relies on: a derived key has the requested 32 bytes, and the upper-case
  table agrees with ASCII.\<close>

definition crypto_ok :: "crypto \<Rightarrow> bool" where
  "crypto_ok C \<longleftrightarrow> (\<forall>p s. length (C_IDKey C p s) = 32)
     \<and> (\<forall>r<128. C_Upper C r = (if 97 \<le> r \<and> r \<le> 122 then r - 32 else r))"

subsection \<open>Types\<close>

datatype access_mode = ModeSetup | ModeOpen | ModeToken | OtherMode string

datatype setup_step = SetupStepWelcome | SetupStepAccounts | SetupStepEncryption
  | SetupStepSigning | SetupStepAccess | OtherSetupStep string

definition ParseSetupStep :: "setup_step \<Rightarrow> go_error + setup_step" where
  "ParseSetupStep v =
     (case v of OtherSetupStep s \<Rightarrow> Inl (Wrap ''setup step'' (Sentinel ErrInvalid)) | _ \<Rightarrow> Inr v)"

record setup_state =
  Setup_Step :: setup_step
  Setup_EncryptionDeclinedAt :: "go_time option"

datatype token_kind = TokenAPI | TokenAgent | OtherTokenKind string

definition errUnknownTokenKind :: go_error where
  "errUnknownTokenKind = Named ''access: unknown token kind''"

definition ParseTokenKind :: "string \<Rightarrow> go_error + token_kind" where
  "ParseTokenKind v =
     (if v = ''api'' then Inr TokenAPI else if v = ''agent'' then Inr TokenAgent
      else Inl (Wrap ''access token kind'' (Sentinel ErrNotFound)))"

record snapshot_access =
  Snap_Mode :: access_mode
  Snap_APIToken :: string
  Snap_AgentToken :: string

definition snapshot_token :: "snapshot_access \<Rightarrow> token_kind \<Rightarrow> go_error + string" where
  "snapshot_token s kind =
     (let held = (\<lambda>v. if v = [] then Inl (Text ''access: token mode holds no token'') else Inr v)
      in case kind of
        TokenAPI \<Rightarrow> held (Snap_APIToken s)
      | TokenAgent \<Rightarrow> held (Snap_AgentToken s)
      | OtherTokenKind k \<Rightarrow> Inl errUnknownTokenKind)"

record password =
  Pw_Hash :: string
  Pw_SetAt :: go_time

record credentials =
  Cred_Password :: password
  Cred_APIToken :: string
  Cred_AgentToken :: string

record session =
  Ses_IDHash :: string
  Ses_CreatedAt :: go_time
  Ses_LastSeenAt :: go_time
  Ses_ExpiresAt :: go_time

definition one_second :: int where "one_second = 1000000000"

definition sessionLifetime :: int where "sessionLifetime = 30 * 24 * 3600 * one_second"
definition sessionIdleTimeout :: int where "sessionIdleTimeout = 7 * 24 * 3600 * one_second"
definition sessionTouchInterval :: int where "sessionTouchInterval = 3600 * one_second"
definition signInMinDelay :: int where "signInMinDelay = one_second"
definition signInMaxDelay :: int where "signInMaxDelay = 30 * one_second"
definition recoveryCodeTTL :: int where "recoveryCodeTTL = 15 * 60 * one_second"
definition recoveryIssueInterval :: int where "recoveryIssueInterval = 60 * one_second"
definition recoveryMaxFailures :: nat where "recoveryMaxFailures = 5"

text \<open>The zero time of Go, the first of January of the year one, on the clock of Unix.\<close>

definition zero_time :: go_time where "zero_time = - 62135596800 * one_second"

lemmas access_times = one_second_def sessionLifetime_def sessionIdleTimeout_def
  sessionTouchInterval_def signInMinDelay_def signInMaxDelay_def recoveryCodeTTL_def
  recoveryIssueInterval_def zero_time_def

subsection \<open>Tokens and session ids\<close>

definition tokenBytes :: nat where "tokenBytes = 32"
definition sessionIDBytes :: nat where "sessionIDBytes = 32"

definition tokenPrefix :: "token_kind \<Rightarrow> go_error + string" where
  "tokenPrefix kind = (case kind of
       TokenAPI \<Rightarrow> Inr ''pit_api_''
     | TokenAgent \<Rightarrow> Inr ''pit_officer_mcp_''
     | OtherTokenKind k \<Rightarrow> Inl errUnknownTokenKind)"

text \<open>
  The operations that draw random bytes are given the function \<open>rand\<close>, one read of
  \<^verbatim>\<open>crypto/rand\<close> of the given length on the state of the caller.
\<close>

definition newToken :: "(nat \<Rightarrow> ('s, go_error, string) op) \<Rightarrow> token_kind \<Rightarrow> ('s, go_error, string) op" where
  "newToken rand kind =
     andthen (lift_res (tokenPrefix kind)) (\<lambda>prefix.
     handle (rand tokenBytes) (\<lambda>e. raise (Wrap ''access: generate token'' e))
       (\<lambda>body. ret (prefix @ b64_encode body)))"

definition newSession :: "crypto \<Rightarrow> (nat \<Rightarrow> ('s, go_error, string) op) \<Rightarrow> go_time
    \<Rightarrow> ('s, go_error, string \<times> session) op" where
  "newSession C rand now =
     handle (rand sessionIDBytes) (\<lambda>e. raise (Wrap ''access: generate session id'' e))
       (\<lambda>i. ret (b64_encode i, \<lparr> Ses_IDHash = C_Sum256 C i, Ses_CreatedAt = now,
          Ses_LastSeenAt = now, Ses_ExpiresAt = now + sessionLifetime \<rparr>))"

definition sessionIDHash :: "crypto \<Rightarrow> string \<Rightarrow> string option" where
  "sessionIDHash C cookie = (case b64_decode cookie of
       None \<Rightarrow> None
     | Some i \<Rightarrow> if length i \<noteq> sessionIDBytes then None else Some (C_Sum256 C i))"

lemma sessionIDHash_new: "length i = 32 \<Longrightarrow> sessionIDHash C (b64_encode i) = Some (C_Sum256 C i)"
  by (simp add: sessionIDHash_def b64_roundtrip sessionIDBytes_def)

subsection \<open>Passwords\<close>

definition minPasswordRunes :: nat where "minPasswordRunes = 8"
definition maxPasswordRunes :: nat where "maxPasswordRunes = 256"

definition validatePassword :: "string \<Rightarrow> go_error option" where
  "validatePassword pw =
     (let n = rune_count pw in first_err
       [check (n < minPasswordRunes)
          (NewValidationError ''/password'' ''min_length'' ''password must be at least 8 characters''),
        check (n > maxPasswordRunes)
          (NewValidationError ''/password'' ''max_length'' ''password must be at most 256 characters'')])"

text \<open>\<^verbatim>\<open>base64.RawStdEncoding\<close>: the same code as the URL alphabet with two other letters.\<close>

definition std_char :: "char \<Rightarrow> char" where
  "std_char c = (if c = CHR ''-'' then CHR ''+'' else if c = CHR ''_'' then CHR ''/'' else c)"

definition url_char :: "char \<Rightarrow> char" where
  "url_char c = (if c = CHR ''+'' then CHR ''-'' else if c = CHR ''/'' then CHR ''_'' else c)"

definition b64std_encode :: "string \<Rightarrow> string" where
  "b64std_encode bs = map std_char (b64_encode bs)"

definition b64std_decode :: "string \<Rightarrow> string option" where
  "b64std_decode s = (if contains_any s ''-_'' then None else b64_decode (map url_char s))"

definition argonSaltBytes :: nat where "argonSaltBytes = 16"
definition argonKeyBytes :: nat where "argonKeyBytes = 32"

definition phcPrefix :: "crypto \<Rightarrow> string" where
  "phcPrefix C = ''$argon2id$v='' @ C_ArgonVersion C @ ''$m=19456,t=2,p=1$''"

definition errMalformedHash :: go_error where
  "errMalformedHash = Named ''access: stored panel password hash is not an argon2id PHC string with the expected cost''"

definition hash_text :: "crypto \<Rightarrow> string \<Rightarrow> string \<Rightarrow> string" where
  "hash_text C pw salt =
     phcPrefix C @ b64std_encode salt @ ''$'' @ b64std_encode (C_IDKey C pw salt)"

definition hashPassword :: "crypto \<Rightarrow> (nat \<Rightarrow> ('s, go_error, string) op) \<Rightarrow> string
    \<Rightarrow> ('s, go_error, string) op" where
  "hashPassword C rand pw =
     handle (rand argonSaltBytes) (\<lambda>e. raise (Wrap ''access: generate password salt'' e))
       (\<lambda>salt. ret (hash_text C pw salt))"

definition verifyPassword :: "crypto \<Rightarrow> string \<Rightarrow> string \<Rightarrow> go_error + bool" where
  "verifyPassword C hash pw =
     (case cut_prefix hash (phcPrefix C) of
        None \<Rightarrow> Inl errMalformedHash
      | Some encoded \<Rightarrow>
         if CHR ''$'' \<notin> set encoded then Inl errMalformedHash
         else (case cut_at (CHR ''$'') encoded of (saltText, keyText) \<Rightarrow>
           (case b64std_decode saltText of
              None \<Rightarrow> Inl errMalformedHash
            | Some salt \<Rightarrow>
               if length salt \<noteq> argonSaltBytes then Inl errMalformedHash
               else (case b64std_decode keyText of
                  None \<Rightarrow> Inl errMalformedHash
                | Some key \<Rightarrow>
                   if length key \<noteq> argonKeyBytes then Inl errMalformedHash
                   else Inr (C_IDKey C pw salt = key)))))"

lemma std_url: "c \<in> set b64_alphabet \<Longrightarrow> url_char (std_char c) = c
    \<and> std_char c \<notin> set ''-_'' \<and> std_char c \<noteq> CHR ''$''"
  by (auto simp: b64_alphabet_def std_char_def url_char_def)

lemma b64std_roundtrip: "b64std_decode (b64std_encode bs) = Some bs"
proof -
  have a: "\<forall>c\<in>set (b64_encode bs). c \<in> set b64_alphabet" using b64_encode_alphabet by blast
  then have "map url_char (b64std_encode bs) = b64_encode bs"
    unfolding b64std_encode_def map_map using std_url by (intro map_idI) (simp add: comp_def)
  moreover have "\<not> contains_any (b64std_encode bs) ''-_''"
    using a std_url by (auto simp: contains_any_def b64std_encode_def list_ex_iff)
  ultimately show ?thesis by (simp add: b64std_decode_def b64_roundtrip)
qed

lemma b64std_no_dollar: "CHR ''$'' \<notin> set (b64std_encode bs)"
  using b64_encode_alphabet std_url by (fastforce simp: b64std_encode_def)

lemma cut_at_first: "c \<notin> set a \<Longrightarrow> cut_at c (a @ c # b) = (a, b)"
  by (simp add: cut_at_def takeWhile_append dropWhile_append)

text \<open>A stored hash of this package accepts exactly the passwords with the same derived key.\<close>

lemma verify_hash_text:
  assumes "crypto_ok C" and "length salt = 16"
  shows "verifyPassword C (hash_text C pw salt) q = Inr (C_IDKey C q salt = C_IDKey C pw salt)"
proof -
  have "length (C_IDKey C pw salt) = 32" using assms(1) by (simp add: crypto_ok_def)
  then show ?thesis using assms(2)
    by (simp add: verifyPassword_def hash_text_def cut_at_first[OF b64std_no_dollar]
        b64std_roundtrip argonSaltBytes_def argonKeyBytes_def)
qed

subsection \<open>Recovery codes\<close>

definition recoveryCodeChars :: nat where "recoveryCodeChars = 12"

definition recoveryAlphabet :: string where
  "recoveryAlphabet = ''ABCDEFGHIJKLMNOPQRSTUVWXYZ234567''"

definition recovery_char :: "char \<Rightarrow> char" where
  "recovery_char b = recoveryAlphabet ! (of_char b mod length recoveryAlphabet)"

definition newRecoveryCode :: "(nat \<Rightarrow> ('s, go_error, string) op) \<Rightarrow> ('s, go_error, string) op" where
  "newRecoveryCode rand =
     handle (rand recoveryCodeChars) (\<lambda>e. raise (Wrap ''access: generate recovery code'' e))
       (\<lambda>bs. ret (map recovery_char bs))"

definition formatRecoveryCode :: "string \<Rightarrow> string" where
  "formatRecoveryCode code = take 4 code @ ''-'' @ take 4 (drop 4 code) @ ''-'' @ drop 8 code"

definition to_upper :: "crypto \<Rightarrow> string \<Rightarrow> string" where
  "to_upper C s = go_string (map (C_Upper C) (go_runes s))"

definition normalizeRecoveryCode :: "crypto \<Rightarrow> string \<Rightarrow> string" where
  "normalizeRecoveryCode C input =
     to_upper C (filter (\<lambda>c. c \<noteq> CHR ''-'' \<and> c \<noteq> CHR '' '') input)"

text \<open>\<^verbatim>\<open>subtle.ConstantTimeCompare\<close> is equality; its timing has no counterpart.\<close>

definition secretsEqual :: "string \<Rightarrow> string \<Rightarrow> bool" where
  "secretsEqual a b \<longleftrightarrow> a = b"

lemma recovery_char_in: "recovery_char b \<in> set recoveryAlphabet"
  unfolding recovery_char_def by (rule nth_mem) (simp add: recoveryAlphabet_def)

definition upper_char :: "char \<Rightarrow> char" where
  "upper_char c = (let n = of_char c :: nat in
     if 97 \<le> n \<and> n \<le> 122 then char_of (n - 32) else c)"

lemma encode_ascii: "(of_char c :: nat) < 128 \<Longrightarrow> utf8_encode (of_char c) = [c]"
  by (simp add: utf8_encode_def utf8_bytes_def scalar_def)

lemma upper_char_ascii: "(of_char c :: nat) < 128 \<Longrightarrow> (of_char (upper_char c) :: nat) < 128"
  by (simp add: upper_char_def Let_def) (rule impI, erule less_imp_diff_less)

lemma to_upper_ascii:
  assumes "crypto_ok C" and "list_all (\<lambda>c. (of_char c :: nat) < 128) s"
  shows "to_upper C s = map upper_char s"
  using assms(2)
proof (induction s)
  case Nil
  then show ?case by (simp add: to_upper_def go_runes_def go_string_def)
next
  case (Cons c s)
  then have a: "(of_char c :: nat) < 128" by simp
  then have "C_Upper C (of_char c) = (of_char (upper_char c) :: nat)"
    using assms(1) by (simp add: crypto_ok_def upper_char_def Let_def)
  moreover have "utf8_encode (of_char (upper_char c)) = [upper_char c]"
    by (rule encode_ascii[OF upper_char_ascii[OF a]])
  ultimately show ?case using Cons a
    by (simp add: to_upper_def go_runes_ascii go_string_def)
qed

lemma recoveryAlphabet_chars:
  "c \<in> set recoveryAlphabet \<Longrightarrow> (of_char c :: nat) < 128 \<and> upper_char c = c \<and> c \<noteq> CHR ''-'' \<and> c \<noteq> CHR '' ''"
  by (auto simp: recoveryAlphabet_def upper_char_def)

text \<open>Typed with dashes and spaces anywhere and in either case, a code is read as itself.\<close>

lemma normalize_typed_code:
  assumes "crypto_ok C" and "set code \<subseteq> set recoveryAlphabet"
    and "list_all (\<lambda>c. (of_char c :: nat) < 128) typed"
    and "map upper_char (filter (\<lambda>c. c \<noteq> CHR ''-'' \<and> c \<noteq> CHR '' '') typed) = code"
  shows "normalizeRecoveryCode C typed = code"
  using assms by (simp add: normalizeRecoveryCode_def to_upper_ascii list_all_iff)

lemma normalize_formatted:
  assumes "crypto_ok C" and "set code \<subseteq> set recoveryAlphabet"
  shows "normalizeRecoveryCode C (formatRecoveryCode code) = code"
proof -
  have keep: "filter (\<lambda>c. c \<noteq> CHR ''-'' \<and> c \<noteq> CHR '' '') xs = xs" "map upper_char xs = xs"
    if "set xs \<subseteq> set code" for xs
    using that assms(2) recoveryAlphabet_chars by (auto intro!: filter_True map_idI)
  have parts: "set (take 4 code) \<subseteq> set code" "set (take 4 (drop 4 code)) \<subseteq> set code"
    "set (drop 8 code) \<subseteq> set code"
    by (auto dest: in_set_takeD in_set_dropD)
  have "take 4 code @ take 4 (drop 4 code) @ drop 8 code = code"
    by (metis append_take_drop_id drop_drop numeral_Bit0 numeral_plus_numeral add_num_simps)
  then have "filter (\<lambda>c. c \<noteq> CHR ''-'' \<and> c \<noteq> CHR '' '') (formatRecoveryCode code) = code"
    by (simp add: formatRecoveryCode_def keep(1)[OF parts(1)] keep(1)[OF parts(2)] keep(1)[OF parts(3)])
  moreover have "list_all (\<lambda>c. (of_char c :: nat) < 128) (formatRecoveryCode code)"
    using assms(2) recoveryAlphabet_chars
    by (auto simp: formatRecoveryCode_def list_all_iff dest!: in_set_takeD in_set_dropD)
  ultimately show ?thesis
    using assms keep(2)[of code] by (intro normalize_typed_code) simp_all
qed

end
