(* ===== verification/AccessStore.thy ===== *)
theory AccessStore
  imports AccessSecrets
begin

section \<open>The store of the access state\<close>

text \<open>
  \<^verbatim>\<open>internal/store/sqlite/access.go\<close> over the tables of \<^verbatim>\<open>app_schema.sql\<close>: the single
  row of the access state, the credentials by kind and the panel sessions, and the published
  snapshot that is kept in memory. A write is one transaction: \<open>access_tx\<close> checks the stored
  mode, runs the statements on a copy and installs the copy when none of them fails.
  \<open>A_Faults\<close> schedules the failures of I/O: a failed call has no effect, as a transaction that
  does not commit. Stored values are kept opened; sealing is transparent to these operations.
  \<open>A_Now\<close> is the clock, read at the start of a call.
\<close>

datatype credential_kind = panelPasswordKind | apiTokenKind | agentTokenKind

record access_db =
  Db_Mode :: access_mode
  Db_SetupStep :: setup_step
  Db_EncryptionDeclinedAt :: "go_time option"
  Db_CompletedAt :: "go_time option"
  Db_Credentials :: "credential_kind \<rightharpoonup> string \<times> go_time"
  Db_Sessions :: "session list"

record access_store =
  A_Db :: access_db
  A_Snapshot :: snapshot_access
  A_Now :: go_time
  A_Faults :: "string option list"

type_synonym ('z, 'a) aop = "('z access_store_scheme, go_error, 'a) op"
type_synonym 'a tx = "(access_db, go_error, 'a) op"

definition io_call :: "('z, 'a) aop \<Rightarrow> ('z, 'a) aop" where
  "io_call m s = (case A_Faults s of
       [] \<Rightarrow> m s
     | None # fs \<Rightarrow> m (s\<lparr>A_Faults := fs\<rparr>)
     | Some text # fs \<Rightarrow> (Inl (Text text), s\<lparr>A_Faults := fs\<rparr>))"

text \<open>\<open>beginAccessWrite\<close>, the statements of the transaction and its commit or rollback.\<close>

definition access_tx :: "access_mode \<Rightarrow> 'a tx \<Rightarrow> ('z, 'a) aop" where
  "access_tx want body = io_call (\<lambda>s.
     if Db_Mode (A_Db s) \<noteq> want
     then (Inl (Wrap ''store: access mode'' (Sentinel
             (if want = ModeSetup then ErrSetupComplete else ErrConflict))), s)
     else (case body (A_Db s) of
         (Inl e, d) \<Rightarrow> (Inl e, s)
       | (Inr a, d) \<Rightarrow> (Inr a, s\<lparr>A_Db := d\<rparr>)))"

subsection \<open>Statements\<close>

definition setAccessMode :: "access_mode \<Rightarrow> unit tx" where
  "setAccessMode mode = modify (\<lambda>d. d\<lparr>Db_Mode := mode\<rparr>)"

definition putAccessCredential :: "credential_kind \<Rightarrow> string \<Rightarrow> go_time \<Rightarrow> unit tx" where
  "putAccessCredential kind v issuedAt =
     andthen (lift_out (check (v = []) (Wrap ''store: access credential is empty'' (Sentinel ErrInvalid))))
       (\<lambda>_. modify (\<lambda>d. d\<lparr>Db_Credentials := (Db_Credentials d)(kind \<mapsto> (v, issuedAt))\<rparr>))"

definition readAccessCredential :: "credential_kind \<Rightarrow> (string \<times> go_time) tx" where
  "readAccessCredential kind d = (case Db_Credentials d kind of
       None \<Rightarrow> (Inl (Wrap ''access credential'' (Sentinel ErrNotFound)), d)
     | Some c \<Rightarrow> (Inr c, d))"

definition storeSession :: "session \<Rightarrow> unit tx" where
  "storeSession ses d =
     (let d' = d\<lparr>Db_Sessions := filter (\<lambda>x. \<not> Ses_ExpiresAt x \<le> Ses_CreatedAt ses) (Db_Sessions d)\<rparr>
      in if \<exists>x\<in>set (Db_Sessions d'). Ses_IDHash x = Ses_IDHash ses
         then (Inl (Text ''store: insert panel session''), d')
         else (Inr (), d'\<lparr>Db_Sessions := Db_Sessions d' @ [ses]\<rparr>))"

definition storeTokenMode :: "credentials \<Rightarrow> session \<Rightarrow> go_time \<Rightarrow> unit tx" where
  "storeTokenMode cr ses issuedAt =
     andthen (putAccessCredential panelPasswordKind (Pw_Hash (Cred_Password cr))
         (Pw_SetAt (Cred_Password cr))) (\<lambda>_.
     andthen (putAccessCredential apiTokenKind (Cred_APIToken cr) issuedAt) (\<lambda>_.
     andthen (putAccessCredential agentTokenKind (Cred_AgentToken cr) issuedAt) (\<lambda>_.
     andthen (storeSession ses) (\<lambda>_.
     setAccessMode ModeToken))))"

definition loadAccessSnapshot :: "snapshot_access tx" where
  "loadAccessSnapshot = reads (\<lambda>d. case Db_Mode d of
       ModeSetup \<Rightarrow> ret \<lparr> Snap_Mode = ModeSetup, Snap_APIToken = [], Snap_AgentToken = [] \<rparr>
     | ModeOpen \<Rightarrow> ret \<lparr> Snap_Mode = ModeOpen, Snap_APIToken = [], Snap_AgentToken = [] \<rparr>
     | ModeToken \<Rightarrow>
         andthen (readAccessCredential apiTokenKind) (\<lambda>api.
         andthen (readAccessCredential agentTokenKind) (\<lambda>agent.
         ret \<lparr> Snap_Mode = ModeToken, Snap_APIToken = fst api, Snap_AgentToken = fst agent \<rparr>))
     | OtherMode m \<Rightarrow> raise (Text ''store: unknown access mode''))"

text \<open>\<open>commitAccess\<close>: the snapshot is read inside the transaction and published after its commit.\<close>

definition commitAccess :: "access_mode \<Rightarrow> unit tx \<Rightarrow> ('z, unit) aop" where
  "commitAccess want body =
     andthen (access_tx want (andthen body (\<lambda>_. loadAccessSnapshot))) (\<lambda>snap.
     modify (\<lambda>s. s\<lparr>A_Snapshot := snap\<rparr>))"

definition commitSetup :: "unit tx \<Rightarrow> go_time \<Rightarrow> ('z, unit) aop" where
  "commitSetup body completedAt =
     commitAccess ModeSetup (andthen body (\<lambda>_. modify (\<lambda>d. d\<lparr>Db_CompletedAt := Some completedAt\<rparr>)))"

subsection \<open>The methods of the store\<close>

definition store_SetupState :: "('z, setup_state) aop" where
  "store_SetupState = access_tx ModeSetup (\<lambda>d.
     (case ParseSetupStep (Db_SetupStep d) of
        Inl e \<Rightarrow> (Inl (Text ''store: unknown setup step''), d)
      | Inr step \<Rightarrow> (Inr \<lparr> Setup_Step = step,
          Setup_EncryptionDeclinedAt = Db_EncryptionDeclinedAt d \<rparr>, d)))"

definition store_SetSetupStep :: "setup_step \<Rightarrow> ('z, unit) aop" where
  "store_SetSetupStep step = access_tx ModeSetup (
     andthen (lift_res (ParseSetupStep step)) (\<lambda>_. modify (\<lambda>d. d\<lparr>Db_SetupStep := step\<rparr>)))"

definition store_DeclineEncryption :: "go_time \<Rightarrow> ('z, unit) aop" where
  "store_DeclineEncryption declinedAt = access_tx ModeSetup (modify (\<lambda>d.
     d\<lparr>Db_EncryptionDeclinedAt :=
        (case Db_EncryptionDeclinedAt d of None \<Rightarrow> Some declinedAt | Some first \<Rightarrow> Some first)\<rparr>))"

definition store_CompleteSetupOpen :: "go_time \<Rightarrow> ('z, unit) aop" where
  "store_CompleteSetupOpen completedAt = commitSetup (setAccessMode ModeOpen) completedAt"

definition store_CompleteSetupToken :: "credentials \<Rightarrow> session \<Rightarrow> go_time \<Rightarrow> ('z, unit) aop" where
  "store_CompleteSetupToken cr ses completedAt =
     reads (\<lambda>s. commitSetup (storeTokenMode cr ses (A_Now s)) completedAt)"

definition store_PanelPassword :: "('z, password) aop" where
  "store_PanelPassword = io_call (\<lambda>s. case fst (readAccessCredential panelPasswordKind (A_Db s)) of
       Inl e \<Rightarrow> (Inl e, s)
     | Inr (hash, setAt) \<Rightarrow> (Inr \<lparr> Pw_Hash = hash, Pw_SetAt = setAt \<rparr>, s))"

definition store_EnableTokenMode :: "credentials \<Rightarrow> session \<Rightarrow> ('z, unit) aop" where
  "store_EnableTokenMode cr ses =
     reads (\<lambda>s. commitAccess ModeOpen (storeTokenMode cr ses (A_Now s)))"

definition store_DisableTokenMode :: "('z, unit) aop" where
  "store_DisableTokenMode = commitAccess ModeToken (
     andthen (modify (\<lambda>d. d\<lparr>Db_Credentials := Map.empty\<rparr>)) (\<lambda>_.
     andthen (modify (\<lambda>d. d\<lparr>Db_Sessions := []\<rparr>)) (\<lambda>_.
     setAccessMode ModeOpen)))"

definition store_ReplaceToken :: "token_kind \<Rightarrow> string \<Rightarrow> ('z, unit) aop" where
  "store_ReplaceToken kind v = reads (\<lambda>s. case kind of
       TokenAPI \<Rightarrow> commitAccess ModeToken (putAccessCredential apiTokenKind v (A_Now s))
     | TokenAgent \<Rightarrow> commitAccess ModeToken (putAccessCredential agentTokenKind v (A_Now s))
     | OtherTokenKind k \<Rightarrow> raise (Text ''store: unknown access token kind''))"

definition store_ReplacePassword :: "password \<Rightarrow> string \<Rightarrow> ('z, unit) aop" where
  "store_ReplacePassword pw keep = access_tx ModeToken (
     andthen (putAccessCredential panelPasswordKind (Pw_Hash pw) (Pw_SetAt pw)) (\<lambda>_.
     modify (\<lambda>d. d\<lparr>Db_Sessions := filter (\<lambda>x. \<not> Ses_IDHash x \<noteq> keep) (Db_Sessions d)\<rparr>)))"

definition store_ResetPassword :: "password \<Rightarrow> session \<Rightarrow> ('z, unit) aop" where
  "store_ResetPassword pw ses = access_tx ModeToken (
     andthen (putAccessCredential panelPasswordKind (Pw_Hash pw) (Pw_SetAt pw)) (\<lambda>_.
     andthen (modify (\<lambda>d. d\<lparr>Db_Sessions := []\<rparr>)) (\<lambda>_.
     storeSession ses)))"

definition store_CreateSession :: "session \<Rightarrow> ('z, unit) aop" where
  "store_CreateSession ses = access_tx ModeToken (storeSession ses)"

definition find_session :: "string \<Rightarrow> session list \<Rightarrow> session option" where
  "find_session idHash xs = List.find (\<lambda>x. Ses_IDHash x = idHash) xs"

definition store_Session :: "string \<Rightarrow> ('z, session) aop" where
  "store_Session idHash = io_call (\<lambda>s. case find_session idHash (Db_Sessions (A_Db s)) of
       None \<Rightarrow> (Inl (Wrap ''panel session'' (Sentinel ErrNotFound)), s)
     | Some x \<Rightarrow> (Inr x, s))"

text \<open>The statements outside a checked transaction: they replace the session rows.\<close>

definition set_sessions :: "(session list \<Rightarrow> session list) \<Rightarrow> access_db \<Rightarrow> access_db" where
  "set_sessions f d = d\<lparr>Db_Sessions := f (Db_Sessions d)\<rparr>"

definition store_TouchSession :: "string \<Rightarrow> go_time \<Rightarrow> ('z, unit) aop" where
  "store_TouchSession idHash lastSeenAt = io_call (\<lambda>s.
     let t = s\<lparr>A_Db := set_sessions
           (map (\<lambda>x. if Ses_IDHash x = idHash then x\<lparr>Ses_LastSeenAt := lastSeenAt\<rparr> else x)) (A_Db s)\<rparr>
     in if find_session idHash (Db_Sessions (A_Db s)) = None
        then (Inl (Wrap ''panel session'' (Sentinel ErrNotFound)), t) else (Inr (), t))"

definition store_DeleteSession :: "string \<Rightarrow> ('z, unit) aop" where
  "store_DeleteSession idHash = io_call (modify (\<lambda>s.
     s\<lparr>A_Db := set_sessions (filter (\<lambda>x. Ses_IDHash x \<noteq> idHash)) (A_Db s)\<rparr>))"

definition store_DeleteSessions :: "('z, unit) aop" where
  "store_DeleteSessions = io_call (modify (\<lambda>s. s\<lparr>A_Db := set_sessions (\<lambda>_. []) (A_Db s)\<rparr>))"

definition store_CountSessions :: "go_time \<Rightarrow> go_time \<Rightarrow> ('z, nat) aop" where
  "store_CountSessions expiresAfter seenAfter = io_call (gets (\<lambda>s.
     length (filter (\<lambda>x. Ses_ExpiresAt x > expiresAfter \<and> Ses_LastSeenAt x > seenAfter)
       (Db_Sessions (A_Db s)))))"

text \<open>The rows of a new database, and the publication when the store creates or recreates it.\<close>

definition clean_db :: access_db where
  "clean_db = \<lparr> Db_Mode = ModeSetup, Db_SetupStep = SetupStepWelcome,
     Db_EncryptionDeclinedAt = None, Db_CompletedAt = None, Db_Credentials = Map.empty,
     Db_Sessions = [] \<rparr>"

definition recreate :: "('z, unit) aop" where
  "recreate = io_call (\<lambda>s. case loadAccessSnapshot clean_db of
       (Inl e, d) \<Rightarrow> (Inl e, s)
     | (Inr snap, d) \<Rightarrow> (Inr (), s\<lparr>A_Db := d, A_Snapshot := snap\<rparr>))"

subsection \<open>What a call does\<close>

lemma io_call_cases:
  assumes "io_call m s = (r, t)"
  obtains (fault) msg fs where "r = Inl (Text msg)" "t = s\<lparr>A_Faults := fs\<rparr>"
  | (run) fs where "m (s\<lparr>A_Faults := fs\<rparr>) = (r, t)"
proof (cases "A_Faults s")
  case Nil
  then have s: "s\<lparr>A_Faults := []\<rparr> = s" by (cases s) simp
  have "m s = (r, t)" using assms Nil by (simp add: io_call_def)
  then show thesis using run[of "[]"] s by simp
next
  case (Cons x fs)
  then show thesis using assms fault run by (cases x) (auto simp: io_call_def)
qed

lemma access_tx_Inr:
  assumes "access_tx want body s = (Inr a, t)"
  obtains d fs where "Db_Mode (A_Db s) = want" "body (A_Db s) = (Inr a, d)"
    "t = s\<lparr>A_Db := d, A_Faults := fs\<rparr>"
proof -
  from assms obtain fs where
    "(if Db_Mode (A_Db (s\<lparr>A_Faults := fs\<rparr>)) \<noteq> want
      then (Inl (Wrap ''store: access mode'' (Sentinel
             (if want = ModeSetup then ErrSetupComplete else ErrConflict))), s\<lparr>A_Faults := fs\<rparr>)
      else (case body (A_Db (s\<lparr>A_Faults := fs\<rparr>)) of
         (Inl e, d) \<Rightarrow> (Inl e, s\<lparr>A_Faults := fs\<rparr>)
       | (Inr a, d) \<Rightarrow> (Inr a, s\<lparr>A_Faults := fs, A_Db := d\<rparr>))) = (Inr a, t)"
    unfolding access_tx_def by (elim io_call_cases) simp_all
  then obtain d where "Db_Mode (A_Db s) = want" "body (A_Db s) = (Inr a, d)"
    "t = s\<lparr>A_Faults := fs, A_Db := d\<rparr>"
    by (auto split: if_splits prod.splits sum.splits)
  then show thesis by (intro that[of d fs]) simp_all
qed

lemma access_tx_Inl:
  assumes "access_tx want body s = (Inl e, t)"
  obtains fs where "t = s\<lparr>A_Faults := fs\<rparr>"
  using assms unfolding access_tx_def
  by (elim io_call_cases) (auto split: if_splits prod.splits sum.splits)

lemma commitAccess_Inr:
  assumes "commitAccess want body s = (Inr a, t)"
  obtains d snap d' fs where "Db_Mode (A_Db s) = want" "body (A_Db s) = (Inr (), d)"
    "loadAccessSnapshot d = (Inr snap, d')" "t = s\<lparr>A_Db := d', A_Faults := fs, A_Snapshot := snap\<rparr>"
  using assms unfolding commitAccess_def
  by (auto simp: andthen_Inr modify_def elim!: access_tx_Inr)

lemma commitAccess_Inl:
  assumes "commitAccess want body s = (Inl e, t)"
  obtains fs where "t = s\<lparr>A_Faults := fs\<rparr>"
  using assms unfolding commitAccess_def
  by (auto simp: andthen_def modify_def split: prod.splits sum.splits elim: access_tx_Inl)

text \<open>Without a scheduled fault a call runs.\<close>

lemma io_call_run [simp]: "A_Faults s = [] \<Longrightarrow> io_call m s = m s"
  by (simp add: io_call_def)

subsection \<open>The state the store keeps\<close>

text \<open>
  Token mode holds a password and two tokens, none empty; setup and open mode hold no
  credential and no session; setup is the mode before its completion was recorded; a session
  id has one row.
\<close>

definition credentials_ok :: "access_db \<Rightarrow> bool" where
  "credentials_ok d = (case Db_Mode d of
      ModeToken \<Rightarrow> (\<forall>k. \<exists>v at'. Db_Credentials d k = Some (v, at') \<and> v \<noteq> [])
    | OtherMode m \<Rightarrow> False
    | _ \<Rightarrow> Db_Credentials d = Map.empty \<and> Db_Sessions d = [])"

definition wf_access :: "access_db \<Rightarrow> bool" where
  "wf_access d \<longleftrightarrow> credentials_ok d
     \<and> (Db_Mode d = ModeSetup \<longleftrightarrow> Db_CompletedAt d = None)
     \<and> distinct (map Ses_IDHash (Db_Sessions d))
     \<and> (\<forall>m. Db_SetupStep d \<noteq> OtherSetupStep m)"

text \<open>The snapshot a database stands for.\<close>

definition credential :: "access_db \<Rightarrow> credential_kind \<Rightarrow> string" where
  "credential d k = (case Db_Credentials d k of None \<Rightarrow> [] | Some c \<Rightarrow> fst c)"

definition snapshot_of :: "access_db \<Rightarrow> snapshot_access" where
  "snapshot_of d = \<lparr> Snap_Mode = Db_Mode d, Snap_APIToken = credential d apiTokenKind,
     Snap_AgentToken = credential d agentTokenKind \<rparr>"

definition store_ok :: "'z access_store_scheme \<Rightarrow> bool" where
  "store_ok s \<longleftrightarrow> wf_access (A_Db s) \<and> A_Snapshot s = snapshot_of (A_Db s)"

lemma load_snapshot_of:
  assumes "loadAccessSnapshot d = (Inr snap, d')" and "wf_access d"
  shows "snap = snapshot_of d \<and> d' = d"
  using assms
  by (cases "Db_Mode d") (auto simp: loadAccessSnapshot_def op_defs readAccessCredential_def
      snapshot_of_def credential_def wf_access_def credentials_ok_def split: option.splits)

lemma clean_db_ok: "wf_access clean_db"
  by (simp add: wf_access_def credentials_ok_def clean_db_def)

subsection \<open>The contract of a write\<close>

text \<open>
  What \<^verbatim>\<open>access.Store\<close> promises of a method that writes: it requires a stored mode, it commits
  all of its effect or none, the published snapshot is the committed one, and nothing but the
  tables, the snapshot and the fault schedule changes.
\<close>

locale access_write =
  fixes want :: access_mode and m :: "('z, 'a) aop"
  assumes refused: "m s = (Inr a, t) \<Longrightarrow> Db_Mode (A_Db s) = want"
    and all_or_nothing: "m s = (Inl e, t) \<Longrightarrow> \<exists>fs. t = s\<lparr>A_Faults := fs\<rparr>"
    and framed: "m s = (Inr a, t) \<Longrightarrow> \<exists>d snap fs. t = s\<lparr>A_Db := d, A_Faults := fs, A_Snapshot := snap\<rparr>"
    and commits_ok: "store_ok s \<Longrightarrow> m s = (Inr a, t) \<Longrightarrow> store_ok t"
    and completion: "store_ok s \<Longrightarrow> m s = (Inr a, t) \<Longrightarrow> Db_CompletedAt (A_Db s) = Some x
      \<Longrightarrow> Db_CompletedAt (A_Db t) = Some x"
begin

lemma keeps_completion: "keeps (\<lambda>s. store_ok s \<and> Db_CompletedAt (A_Db s) = Some x) m"
proof (unfold keeps_def, intro allI impI)
  fix s :: "'z access_store_scheme" assume s: "store_ok s \<and> Db_CompletedAt (A_Db s) = Some x"
  show "store_ok (snd (m s)) \<and> Db_CompletedAt (A_Db (snd (m s))) = Some x"
  proof (cases "m s")
    case (Pair r t)
    then show ?thesis using s commits_ok[of s _ t] completion[of s _ t x] all_or_nothing[of s _ t]
      by (cases r) (auto simp: store_ok_def)
  qed
qed

lemma keeps_ok: "keeps store_ok m"
proof (unfold keeps_def, intro allI impI)
  fix s :: "'z access_store_scheme" assume s: "store_ok s"
  show "store_ok (snd (m s))"
  proof (cases "m s")
    case (Pair r t)
    then show ?thesis
      using s commits_ok[of s _ t] all_or_nothing[of s _ t] by (cases r) (auto simp: store_ok_def)
  qed
qed

lemma wrong_mode_no_effect:
  assumes "Db_Mode (A_Db s) \<noteq> want"
  shows "\<exists>e fs. m s = (Inl e, s\<lparr>A_Faults := fs\<rparr>)"
  using assms refused all_or_nothing by (metis obj_sumE surjective_pairing)

lemma frame: "access_store.more (snd (m s)) = access_store.more s \<and> A_Now (snd (m s)) = A_Now s"
proof (cases "m s")
  case (Pair r t)
  then show ?thesis using all_or_nothing[of s _ t] framed[of s _ t] by (cases r) auto
qed

end

text \<open>A transaction whose statements keep the state well-formed has the contract.\<close>

lemma access_write_tx:
  assumes "\<And>d a d'. wf_access d \<Longrightarrow> Db_Mode d = want \<Longrightarrow> body d = (Inr a, d')
      \<Longrightarrow> wf_access d' \<and> snapshot_of d' = snapshot_of d
        \<and> (want = ModeSetup \<or> Db_CompletedAt d' = Db_CompletedAt d)"
  shows "access_write want (access_tx want body)"
proof
  fix s t a assume "access_tx want body s = (Inr a, t)"
  then show "Db_Mode (A_Db s) = want" by (rule access_tx_Inr)
next
  fix s t e assume "access_tx want body s = (Inl e, t)"
  then show "\<exists>fs. t = s\<lparr>A_Faults := fs\<rparr>" by (elim access_tx_Inl) blast
next
  fix s t a assume "access_tx want body s = (Inr a, t)"
  then obtain d fs where "t = s\<lparr>A_Db := d, A_Faults := fs\<rparr>" by (rule access_tx_Inr)
  then have "t = s\<lparr>A_Db := d, A_Faults := fs, A_Snapshot := A_Snapshot s\<rparr>" by simp
  then show "\<exists>d snap fs. t = s\<lparr>A_Db := d, A_Faults := fs, A_Snapshot := snap\<rparr>" by blast
next
  fix s t a assume "store_ok s" and "access_tx want body s = (Inr a, t)"
  then show "store_ok t" using assms by (elim access_tx_Inr) (auto simp: store_ok_def)
next
  fix s t a x assume s: "store_ok s" and r: "access_tx want body s = (Inr a, t)"
    and c: "Db_CompletedAt (A_Db s) = Some x"
  from r obtain d fs where d: "Db_Mode (A_Db s) = want" "body (A_Db s) = (Inr a, d)"
    "t = s\<lparr>A_Db := d, A_Faults := fs\<rparr>" by (rule access_tx_Inr)
  have w: "wf_access (A_Db s)" using s by (simp add: store_ok_def)
  then have "want \<noteq> ModeSetup" using c d(1) by (auto simp: wf_access_def)
  then show "Db_CompletedAt (A_Db t) = Some x" using assms[OF w d(1,2)] c d(3) by simp
qed

lemma access_write_commit:
  assumes "\<And>d d'. wf_access d \<Longrightarrow> Db_Mode d = want \<Longrightarrow> body d = (Inr (), d') \<Longrightarrow> wf_access d'
      \<and> (want = ModeSetup \<or> Db_CompletedAt d' = Db_CompletedAt d)"
  shows "access_write want (commitAccess want body)"
proof
  fix s t a assume "commitAccess want body s = (Inr a, t)"
  then show "Db_Mode (A_Db s) = want" by (rule commitAccess_Inr)
next
  fix s t e assume "commitAccess want body s = (Inl e, t)"
  then show "\<exists>fs. t = s\<lparr>A_Faults := fs\<rparr>" by (elim commitAccess_Inl) blast
next
  fix s t a assume "commitAccess want body s = (Inr a, t)"
  then show "\<exists>d snap fs. t = s\<lparr>A_Db := d, A_Faults := fs, A_Snapshot := snap\<rparr>"
    by (elim commitAccess_Inr) blast
next
  fix s t a assume s: "store_ok s" and r: "commitAccess want body s = (Inr a, t)"
  from r obtain d snap d' fs where d: "Db_Mode (A_Db s) = want" "body (A_Db s) = (Inr (), d)"
    "loadAccessSnapshot d = (Inr snap, d')" "t = s\<lparr>A_Db := d', A_Faults := fs, A_Snapshot := snap\<rparr>"
    by (rule commitAccess_Inr)
  have "wf_access d" using assms[OF _ d(1,2)] s by (simp add: store_ok_def)
  then show "store_ok t" using load_snapshot_of[OF d(3)] d(4) by (simp add: store_ok_def)
next
  fix s t a x assume s: "store_ok s" and r: "commitAccess want body s = (Inr a, t)"
    and c: "Db_CompletedAt (A_Db s) = Some x"
  from r obtain d snap d' fs where d: "Db_Mode (A_Db s) = want" "body (A_Db s) = (Inr (), d)"
    "loadAccessSnapshot d = (Inr snap, d')" "t = s\<lparr>A_Db := d', A_Faults := fs, A_Snapshot := snap\<rparr>"
    by (rule commitAccess_Inr)
  have w: "wf_access (A_Db s)" using s by (simp add: store_ok_def)
  then have "want \<noteq> ModeSetup" using c d(1) by (auto simp: wf_access_def)
  then show "Db_CompletedAt (A_Db t) = Some x"
    using assms[OF w d(1,2)] c d(4) load_snapshot_of[OF d(3)] by simp
qed

lemma access_write_reads:
  assumes "\<And>now. access_write want (f now)"
  shows "access_write want (reads (\<lambda>s. f (A_Now s)))"
  using assms unfolding access_write_def reads_def by blast

subsection \<open>The writes of the store have the contract\<close>

lemma putAccessCredential_Inr:
  "putAccessCredential k v at' d = (Inr a, d') \<longleftrightarrow>
   v \<noteq> [] \<and> d' = d\<lparr>Db_Credentials := (Db_Credentials d)(k \<mapsto> (v, at'))\<rparr>"
  by (auto simp: putAccessCredential_def andthen_Inr modify_def)

definition live_after :: "go_time \<Rightarrow> session list \<Rightarrow> session list" where
  "live_after now xs = filter (\<lambda>x. \<not> Ses_ExpiresAt x \<le> now) xs"

lemma storeSession_Inr:
  "storeSession ses d = (Inr a, d') \<longleftrightarrow>
   Ses_IDHash ses \<notin> Ses_IDHash ` set (live_after (Ses_CreatedAt ses) (Db_Sessions d))
   \<and> d' = d\<lparr>Db_Sessions := live_after (Ses_CreatedAt ses) (Db_Sessions d) @ [ses]\<rparr>"
  by (auto simp: storeSession_def live_after_def Let_def image_iff)

lemma distinct_live_after:
  "distinct (map Ses_IDHash xs) \<Longrightarrow> distinct (map Ses_IDHash (live_after now xs))"
  by (simp add: live_after_def distinct_map_filter)

definition token_mode :: "credentials \<Rightarrow> session \<Rightarrow> go_time \<Rightarrow> access_db \<Rightarrow> access_db" where
  "token_mode cr ses issuedAt d = d\<lparr> Db_Mode := ModeToken,
     Db_Credentials := (Db_Credentials d)
       (panelPasswordKind \<mapsto> (Pw_Hash (Cred_Password cr), Pw_SetAt (Cred_Password cr)),
        apiTokenKind \<mapsto> (Cred_APIToken cr, issuedAt), agentTokenKind \<mapsto> (Cred_AgentToken cr, issuedAt)),
     Db_Sessions := live_after (Ses_CreatedAt ses) (Db_Sessions d) @ [ses] \<rparr>"

lemma storeTokenMode_Inr:
  "storeTokenMode cr ses issuedAt d = (Inr a, d') \<longleftrightarrow>
   Pw_Hash (Cred_Password cr) \<noteq> [] \<and> Cred_APIToken cr \<noteq> [] \<and> Cred_AgentToken cr \<noteq> []
   \<and> Ses_IDHash ses \<notin> Ses_IDHash ` set (live_after (Ses_CreatedAt ses) (Db_Sessions d))
   \<and> d' = token_mode cr ses issuedAt d"
  by (auto simp: storeTokenMode_def andthen_Inr putAccessCredential_Inr storeSession_Inr
      setAccessMode_def modify_def token_mode_def)

lemma credential_kinds: "(\<forall>k. P k) \<longleftrightarrow> P panelPasswordKind \<and> P apiTokenKind \<and> P agentTokenKind"
  by (metis credential_kind.exhaust)

lemma token_mode_ok:
  assumes "wf_access d" and "storeTokenMode cr ses issuedAt d = (Inr a, d')"
  shows "credentials_ok d' \<and> distinct (map Ses_IDHash (Db_Sessions d')) \<and> Db_Mode d' = ModeToken
    \<and> Db_CompletedAt d' = Db_CompletedAt d \<and> Db_SetupStep d' = Db_SetupStep d"
  using assms distinct_live_after[of "Db_Sessions d" "Ses_CreatedAt ses"]
  by (auto simp: storeTokenMode_Inr token_mode_def credentials_ok_def credential_kinds wf_access_def)

lemma put_credential_ok:
  assumes "wf_access d" and "Db_Mode d = ModeToken" and "putAccessCredential k v at' d = (Inr a, d')"
  shows "wf_access d'"
  using assms by (auto simp: putAccessCredential_Inr wf_access_def credentials_ok_def)

lemma open_mode_ok: "wf_access d \<Longrightarrow> Db_CompletedAt d \<noteq> None \<Longrightarrow>
    wf_access (d\<lparr>Db_Mode := ModeOpen, Db_Credentials := Map.empty, Db_Sessions := []\<rparr>)"
  by (simp add: wf_access_def credentials_ok_def)

lemma sessions_ok:
  assumes "wf_access d" and "set (map Ses_IDHash (f (Db_Sessions d))) \<subseteq> set (map Ses_IDHash (Db_Sessions d))"
    and "distinct (map Ses_IDHash (f (Db_Sessions d)))"
  shows "wf_access (set_sessions f d) \<and> snapshot_of (set_sessions f d) = snapshot_of d"
  using assms
  by (auto simp: wf_access_def credentials_ok_def set_sessions_def snapshot_of_def credential_def
      split: access_mode.splits)

interpretation setup_read: access_write ModeSetup store_SetupState
  unfolding store_SetupState_def by (rule access_write_tx) (auto split: sum.splits)

interpretation set_step: access_write ModeSetup "store_SetSetupStep step" for step
  unfolding store_SetSetupStep_def
  by (rule access_write_tx)
     (auto simp: andthen_Inr modify_def wf_access_def credentials_ok_def snapshot_of_def
       credential_def ParseSetupStep_def split: setup_step.splits)

interpretation decline: access_write ModeSetup "store_DeclineEncryption t" for t
  unfolding store_DeclineEncryption_def
  by (rule access_write_tx)
     (auto simp: modify_def wf_access_def credentials_ok_def snapshot_of_def credential_def)

interpretation complete_open: access_write ModeSetup "store_CompleteSetupOpen t" for t
  unfolding store_CompleteSetupOpen_def commitSetup_def
  by (rule access_write_commit)
     (auto simp: andthen_Inr modify_def setAccessMode_def wf_access_def credentials_ok_def)

lemma setup_token_ok: "access_write ModeSetup (commitSetup (storeTokenMode cr ses now) t)"
  unfolding commitSetup_def
  by (rule access_write_commit)
     (auto simp: andthen_Inr modify_def wf_access_def credentials_ok_def dest!: token_mode_ok[rotated])

interpretation complete_token: access_write ModeSetup "store_CompleteSetupToken cr ses t" for cr ses t
  unfolding store_CompleteSetupToken_def by (rule access_write_reads) (rule setup_token_ok)

lemma enable_ok: "access_write ModeOpen (commitAccess ModeOpen (storeTokenMode cr ses now))"
proof (rule access_write_commit)
  fix d d' assume d: "wf_access d" "Db_Mode d = ModeOpen" "storeTokenMode cr ses now d = (Inr (), d')"
  show "wf_access d' \<and> (ModeOpen = ModeSetup \<or> Db_CompletedAt d' = Db_CompletedAt d)"
    using token_mode_ok[OF d(1,3)] d(1,2) by (simp add: wf_access_def)
qed

interpretation enable: access_write ModeOpen "store_EnableTokenMode cr ses" for cr ses
  unfolding store_EnableTokenMode_def by (rule access_write_reads) (rule enable_ok)

interpretation disable: access_write ModeToken store_DisableTokenMode
  unfolding store_DisableTokenMode_def
  by (rule access_write_commit)
     (auto simp: andthen_Inr modify_def setAccessMode_def wf_access_def credentials_ok_def)

lemma replace_token_ok: "access_write ModeToken (commitAccess ModeToken (putAccessCredential k v now))"
  by (rule access_write_commit) (simp add: put_credential_ok, simp add: putAccessCredential_Inr)

lemma same_faults: "\<exists>fs. s = s\<lparr>A_Faults := fs\<rparr>"
  by (rule exI[of _ "A_Faults s"]) simp

lemma access_write_raise: "access_write want (raise e)"
  by unfold_locales (auto simp: raise_def same_faults)

interpretation replace_token: access_write ModeToken "store_ReplaceToken kind v" for kind v
proof (cases kind)
  case (OtherTokenKind k)
  then show "access_write ModeToken (store_ReplaceToken kind v)"
    unfolding store_ReplaceToken_def by (intro access_write_reads) (simp add: access_write_raise)
qed (auto simp: store_ReplaceToken_def intro!: access_write_reads replace_token_ok)

interpretation replace_password: access_write ModeToken "store_ReplacePassword pw keep" for pw keep
  unfolding store_ReplacePassword_def
  by (rule access_write_tx)
     (auto simp: andthen_Inr putAccessCredential_Inr modify_def wf_access_def credentials_ok_def
       snapshot_of_def credential_def distinct_map_filter)

interpretation reset_password: access_write ModeToken "store_ResetPassword pw ses" for pw ses
  unfolding store_ResetPassword_def
  by (rule access_write_tx)
     (auto simp: andthen_Inr putAccessCredential_Inr storeSession_Inr modify_def wf_access_def
       credentials_ok_def snapshot_of_def credential_def live_after_def)

interpretation create_session: access_write ModeToken "store_CreateSession ses" for ses
  unfolding store_CreateSession_def
  by (rule access_write_tx)
     (auto simp: storeSession_Inr wf_access_def credentials_ok_def snapshot_of_def credential_def
       distinct_live_after)

end
