(* ===== verification/Backoff.thy ===== *)
theory Backoff
  imports Prelude "HOL-Library.Signed_Division"
begin

section \<open>Reconnect and retry delays\<close>

text \<open>
  The delay formula of \<^verbatim>\<open>internal/backoff/backoff.go\<close>, which the stream connectors and
  the sign-in delay share. A duration is a number of nanoseconds; the division truncates
  towards zero.
\<close>

fun Delay_loop :: "nat \<Rightarrow> int \<Rightarrow> int \<Rightarrow> int" where
  "Delay_loop 0 d maxDelay = (if d > maxDelay then maxDelay else d)"
| "Delay_loop (Suc n) d maxDelay =
     (if d \<ge> maxDelay sdiv 2 then maxDelay else Delay_loop n (d * 2) maxDelay)"

definition Delay :: "int \<Rightarrow> int \<Rightarrow> int \<Rightarrow> int" where
  "Delay attempt minDelay maxDelay =
     (if attempt \<le> 0 then minDelay else Delay_loop (nat (attempt - 1)) minDelay maxDelay)"

text \<open>The documented value: \<open>minDelay\<close> doubled \<open>attempt - 1\<close> times, capped at \<open>maxDelay\<close>.\<close>

definition documented_delay :: "int \<Rightarrow> int \<Rightarrow> int \<Rightarrow> int" where
  "documented_delay attempt minDelay maxDelay =
     (if attempt \<le> 0 then minDelay else min maxDelay (minDelay * 2 ^ nat (attempt - 1)))"

lemma sdiv_two: "0 \<le> (m::int) \<Longrightarrow> m sdiv 2 = m div 2"
  by (simp add: signed_divide_int_def sgn_if)

lemma power_two_mono: "0 < (d::int) \<Longrightarrow> d \<le> d * 2 ^ n"
  using mult_left_mono[of 1 "2 ^ n" d] by simp

lemma Delay_loop_even:
  assumes "0 < d" and "0 < maxDelay" and "even maxDelay"
  shows "Delay_loop n d maxDelay = min maxDelay (d * 2 ^ n)"
  using assms
proof (induction n arbitrary: d)
  case (Suc n)
  have m: "maxDelay = 2 * (maxDelay div 2)" using Suc.prems by simp
  show ?case
  proof (cases "d \<ge> maxDelay div 2")
    case True
    have "d * 2 * 1 \<le> d * 2 * 2 ^ n" using Suc.prems by (intro mult_left_mono) auto
    then have "maxDelay \<le> d * 2 ^ Suc n" using True m by simp
    then show ?thesis using True Suc.prems by (simp add: sdiv_two)
  next
    case False
    then show ?thesis using Suc.IH[of "d * 2"] Suc.prems by (simp add: sdiv_two mult_ac)
  qed
qed simp

lemma Delay_loop_between:
  assumes "0 < d" and "d \<le> maxDelay"
  shows "d \<le> Delay_loop n d maxDelay \<and> Delay_loop n d maxDelay \<le> maxDelay"
  using assms
proof (induction n arbitrary: d)
  case (Suc n)
  show ?case
  proof (cases "d \<ge> maxDelay div 2")
    case True
    then show ?thesis using Suc.prems by (simp add: sdiv_two)
  next
    case False
    then have "d * 2 \<le> maxDelay" by linarith
    then show ?thesis using False Suc.IH[of "d * 2"] Suc.prems by (auto simp: sdiv_two)
  qed
qed simp

lemma Delay_between:
  "0 < minDelay \<Longrightarrow> minDelay \<le> maxDelay \<Longrightarrow>
   minDelay \<le> Delay a minDelay maxDelay \<and> Delay a minDelay maxDelay \<le> maxDelay"
  by (simp add: Delay_def Delay_loop_between)

lemma Delay_documented:
  "0 < minDelay \<Longrightarrow> minDelay \<le> maxDelay \<Longrightarrow> even maxDelay \<Longrightarrow>
   Delay a minDelay maxDelay = documented_delay a minDelay maxDelay"
  by (simp add: Delay_def documented_delay_def Delay_loop_even)

text \<open>The delays of more failures are no shorter.\<close>

lemma Delay_mono:
  assumes "0 < minDelay" and "minDelay \<le> maxDelay" and "even maxDelay" and "a \<le> b"
  shows "Delay a minDelay maxDelay \<le> Delay b minDelay maxDelay"
proof (cases "a \<le> 0")
  case True
  then show ?thesis using Delay_between[OF assms(1,2), of b] by (simp add: Delay_def)
next
  case False
  have "minDelay * 2 ^ nat (a - 1) \<le> minDelay * 2 ^ nat (b - 1)"
    using assms by (intro mult_left_mono power_increasing nat_mono) auto
  then show ?thesis
    using False assms by (simp add: Delay_documented documented_delay_def min_le_iff_disj)
qed

end
