(* ===== verification/AccessService.thy ===== *)
theory AccessService
  imports AccessStore Accounts Backoff
begin

section \<open>The access service\<close>

text \<open>
  \<^verbatim>\<open>internal/access/service.go\<close>, \<^verbatim>\<open>setup.go\<close> and \<^verbatim>\<open>http.go\<close> over the access store. The
  record extends the store with the memory of the service (failed sign-ins, the recovery code),
  the draws of the random source, the recovery codes printed so far, the audit rows and the
  decisions of the other components. The mutex of the service makes an operation that changes
  access state one step; its clock is read once, at the start. A context is the caller stamped
  in it, if any.
\<close>

record recovery_code =
  Rc_Code :: string
  Rc_ExpiresAt :: go_time
  Rc_Failures :: nat
  Rc_IssuedAt :: go_time

record access_service = access_store +
  Svc_SignInFailures :: int
  Svc_NextSignIn :: go_time
  Svc_Recovery :: recovery_code
  Svc_Draws :: "(string + string) list"
  Svc_Printed :: "(go_time \<times> string) list"
  Svc_Audited :: "(audit_action \<times> string \<times> caller) list"
  Svc_AccountModeChosen :: bool
  Svc_FundsLimitModeChosen :: bool
  Svc_CredentialsSealed :: bool

type_synonym 'a sop = "(access_service, go_error, 'a) op"

definition no_recovery :: recovery_code where
  "no_recovery = \<lparr> Rc_Code = [], Rc_ExpiresAt = zero_time, Rc_Failures = 0, Rc_IssuedAt = zero_time \<rparr>"

definition recovery_live :: "recovery_code \<Rightarrow> go_time \<Rightarrow> bool" where
  "recovery_live r now \<longleftrightarrow> Rc_Code r \<noteq> [] \<and> now < Rc_ExpiresAt r"

text \<open>\<^verbatim>\<open>rand.Read\<close> fills a buffer of \<open>n\<close> bytes with the next draw.\<close>

definition randomBytes :: "nat \<Rightarrow> string sop" where
  "randomBytes n s = (case Svc_Draws s of
       [] \<Rightarrow> (Inl (Text ''rand''), s)
     | Inl m # ds \<Rightarrow> (Inl (Text m), s\<lparr>Svc_Draws := ds\<rparr>)
     | Inr b # ds \<Rightarrow> (Inr (take n (b @ replicate n (CHR 0x00))), s\<lparr>Svc_Draws := ds\<rparr>))"

definition wrap_err :: "string \<Rightarrow> 'a sop \<Rightarrow> 'a sop" where
  "wrap_err m x = handle x (\<lambda>e. raise (Wrap m e)) ret"

definition err_mode :: go_error where "err_mode = Text ''access: unknown access mode''"
definition errNoSession :: go_error where "errNoSession = Wrap ''no session'' (Sentinel ErrUnauthorized)"
definition errSessionEnded :: go_error where
  "errSessionEnded = Wrap ''session ended'' (Sentinel ErrUnauthorized)"
definition errTokenNotAccepted :: go_error where
  "errTokenNotAccepted = Wrap ''token not accepted'' (Sentinel ErrUnauthorized)"
definition errNoRecoveryCode :: go_error where
  "errNoRecoveryCode = Wrap ''no live recovery code'' (Sentinel ErrInvalidRecoveryCode)"
definition errWrongRecoveryCode :: go_error where
  "errWrongRecoveryCode = Wrap ''wrong recovery code'' (Sentinel ErrInvalidRecoveryCode)"
definition errAgentTokenOnAPI :: go_error where
  "errAgentTokenOnAPI =
     Wrap ''this is the agent token; it is accepted only on /mcp'' (Sentinel ErrWrongToken)"
definition errAPITokenOnMCP :: go_error where
  "errAPITokenOnMCP =
     Wrap ''this is the API token; it is accepted only on /api/v1'' (Sentinel ErrWrongToken)"

definition requireMode :: "access_mode \<Rightarrow> access_mode \<Rightarrow> go_error option" where
  "requireMode current want = (case current of
       ModeSetup \<Rightarrow> Some (Sentinel ErrSetupRequired)
     | OtherMode m \<Rightarrow> Some err_mode
     | _ \<Rightarrow> check (current \<noteq> want) (Wrap ''the access mode'' (Sentinel ErrConflict)))"

definition callerFrom :: "caller option \<Rightarrow> caller sop" where
  "callerFrom ctx = (case ctx of
       None \<Rightarrow> raise (Text ''access: authenticated operation without a caller'')
     | Some c \<Rightarrow> ret c)"

fun audit :: "caller \<Rightarrow> (audit_action \<times> string) list \<Rightarrow> unit sop" where
  "audit c [] = ret ()"
| "audit c ((action, detail) # rest) =
     andthen (wrap_err ''access: audit'' (io_call (modify (\<lambda>s.
        s\<lparr>Svc_Audited := Svc_Audited s @ [(action, detail, c)]\<rparr>)))) (\<lambda>_. audit c rest)"

definition publicCaller :: caller where
  "publicCaller = \<lparr> Caller_Source = SourcePanel, Caller_Principal = ''operator'', Caller_Role = [] \<rparr>"

definition storedPassword :: "password sop" where
  "storedPassword = handle store_PanelPassword
     (\<lambda>e. if wraps e ErrNotFound then raise (Text ''access: token mode holds no panel password'')
          else raise (Wrap ''access: read panel password'' e)) ret"

definition checkCurrentPassword :: "crypto \<Rightarrow> string \<Rightarrow> unit sop" where
  "checkCurrentPassword C pw =
     andthen storedPassword (\<lambda>stored.
     andthen (lift_res (verifyPassword C (Pw_Hash stored) pw)) (\<lambda>matches.
     if \<not> matches then raise (Sentinel ErrCurrentPasswordInvalid) else ret ()))"

subsection \<open>Credential checks\<close>

definition CheckToken :: "token_kind \<Rightarrow> string \<Rightarrow> unit sop" where
  "CheckToken kind presented = reads (\<lambda>s.
     (let snap = A_Snapshot s in case Snap_Mode snap of
        ModeSetup \<Rightarrow> raise (Sentinel ErrSetupRequired)
      | ModeOpen \<Rightarrow> raise (Wrap ''the access mode issues no token'' (Sentinel ErrUnauthorized))
      | OtherMode m \<Rightarrow> raise err_mode
      | ModeToken \<Rightarrow>
          andthen (case kind of
              TokenAPI \<Rightarrow> ret (TokenAgent, errAgentTokenOnAPI)
            | TokenAgent \<Rightarrow> ret (TokenAPI, errAPITokenOnMCP)
            | OtherTokenKind k \<Rightarrow> raise errUnknownTokenKind) (\<lambda>(other, wrong).
          andthen (lift_res (snapshot_token snap kind)) (\<lambda>own.
          andthen (lift_res (snapshot_token snap other)) (\<lambda>foreign.
          if secretsEqual presented own then ret ()
          else if secretsEqual presented foreign then raise wrong
          else raise errTokenNotAccepted)))))"

definition session_live :: "session \<Rightarrow> go_time \<Rightarrow> bool" where
  "session_live x now \<longleftrightarrow> now < Ses_ExpiresAt x \<and> now < Ses_LastSeenAt x + sessionIdleTimeout"

definition check_session_row :: "string \<Rightarrow> session \<Rightarrow> unit sop" where
  "check_session_row idHash x = reads (\<lambda>s. let now = A_Now s in
     if \<not> session_live x now
     then andthen (wrap_err ''access: delete ended session'' (store_DeleteSession idHash))
            (\<lambda>_. raise errSessionEnded)
     else if now - Ses_LastSeenAt x > sessionTouchInterval
     then handle (store_TouchSession idHash now)
            (\<lambda>e. if wraps e ErrNotFound then raise errNoSession
                 else raise (Wrap ''access: record session activity'' e)) ret
     else ret ())"

definition CheckSession :: "crypto \<Rightarrow> string \<Rightarrow> unit sop" where
  "CheckSession C cookie = reads (\<lambda>s. case Snap_Mode (A_Snapshot s) of
       ModeSetup \<Rightarrow> raise (Sentinel ErrSetupRequired)
     | ModeOpen \<Rightarrow> raise (Wrap ''the access mode issues no session'' (Sentinel ErrUnauthorized))
     | OtherMode m \<Rightarrow> raise err_mode
     | ModeToken \<Rightarrow> (case sessionIDHash C cookie of
          None \<Rightarrow> raise errNoSession
        | Some idHash \<Rightarrow> handle (store_Session idHash)
            (\<lambda>e. if wraps e ErrNotFound then raise errNoSession
                 else raise (Wrap ''access: read session'' e))
            (check_session_row idHash)))"

record access_status =
  Status_Mode :: access_mode
  Status_SetupComplete :: bool
  Status_Authenticated :: bool

definition Status :: "crypto \<Rightarrow> string \<Rightarrow> access_status sop" where
  "Status C cookie = reads (\<lambda>s. let mode = Snap_Mode (A_Snapshot s) in case mode of
       ModeSetup \<Rightarrow> ret \<lparr> Status_Mode = mode, Status_SetupComplete = False, Status_Authenticated = False \<rparr>
     | ModeOpen \<Rightarrow> ret \<lparr> Status_Mode = mode, Status_SetupComplete = True, Status_Authenticated = False \<rparr>
     | OtherMode m \<Rightarrow> raise err_mode
     | ModeToken \<Rightarrow> handle (CheckSession C cookie)
         (\<lambda>e. if \<not> wraps e ErrUnauthorized then raise e
              else ret \<lparr> Status_Mode = mode, Status_SetupComplete = True, Status_Authenticated = False \<rparr>)
         (\<lambda>_. ret \<lparr> Status_Mode = mode, Status_SetupComplete = True, Status_Authenticated = True \<rparr>))"

subsection \<open>Signing in and out\<close>

definition refuse_sign_in :: "go_time \<Rightarrow> string sop" where
  "refuse_sign_in now = reads (\<lambda>s.
     let failures = Svc_SignInFailures s + 1;
         delay = Delay failures signInMinDelay signInMaxDelay
     in andthen (modify (\<lambda>s. s\<lparr>Svc_SignInFailures := failures, Svc_NextSignIn := now + delay\<rparr>))
          (\<lambda>_. raise (RetryAfterError (Sentinel ErrInvalidPassword) delay)))"

definition SignIn :: "crypto \<Rightarrow> string \<Rightarrow> string sop" where
  "SignIn C pw = reads (\<lambda>s0. let now = A_Now s0 in
     andthen (lift_out (requireMode (Snap_Mode (A_Snapshot s0)) ModeToken)) (\<lambda>_.
     if now < Svc_NextSignIn s0
     then raise (RetryAfterError (Sentinel ErrTooManyAttempts) (Svc_NextSignIn s0 - now))
     else andthen storedPassword (\<lambda>stored.
       andthen (lift_res (verifyPassword C (Pw_Hash stored) pw)) (\<lambda>matches.
       if \<not> matches then refuse_sign_in now
       else andthen (modify (\<lambda>s. s\<lparr>Svc_SignInFailures := 0, Svc_NextSignIn := zero_time\<rparr>)) (\<lambda>_.
         andthen (newSession C randomBytes now) (\<lambda>(i, ses).
         andthen (wrap_err ''access: create session'' (store_CreateSession ses)) (\<lambda>_. ret i)))))))"

definition SignOut :: "crypto \<Rightarrow> string \<Rightarrow> unit sop" where
  "SignOut C cookie = (case sessionIDHash C cookie of
       None \<Rightarrow> ret ()
     | Some idHash \<Rightarrow> wrap_err ''access: delete session'' (store_DeleteSession idHash))"

definition SignOutEverywhere :: "unit sop" where
  "SignOutEverywhere = wrap_err ''access: delete sessions'' store_DeleteSessions"

subsection \<open>Password recovery\<close>

definition burnRecoveryCode :: "unit sop" where
  "burnRecoveryCode = modify (\<lambda>s.
     s\<lparr>Svc_Recovery := no_recovery\<lparr>Rc_IssuedAt := Rc_IssuedAt (Svc_Recovery s)\<rparr>\<rparr>)"

definition issueRecoveryCode :: "go_time \<Rightarrow> (bool \<times> go_time) sop" where
  "issueRecoveryCode now =
     andthen (newRecoveryCode randomBytes) (\<lambda>code.
     andthen (wrap_err ''access: write recovery code''
       (io_call (modify (\<lambda>s. s\<lparr>Svc_Printed := Svc_Printed s @ [(now, formatRecoveryCode code)]\<rparr>)))) (\<lambda>_.
     andthen (modify (\<lambda>s. s\<lparr>Svc_Recovery := \<lparr> Rc_Code = code,
        Rc_ExpiresAt = now + recoveryCodeTTL, Rc_Failures = 0, Rc_IssuedAt = now \<rparr>\<rparr>)) (\<lambda>_.
     andthen (audit publicCaller [(AuditActionIssueRecoveryCode, [])]) (\<lambda>_.
     gets (\<lambda>s. (True, Rc_ExpiresAt (Svc_Recovery s)))))))"

text \<open>It returns whether it issued a code and when the live code expires.\<close>

definition RequestRecovery :: "(bool \<times> go_time) sop" where
  "RequestRecovery = reads (\<lambda>s0. let now = A_Now s0; rc = Svc_Recovery s0 in
     andthen (lift_out (requireMode (Snap_Mode (A_Snapshot s0)) ModeToken)) (\<lambda>_.
     if recovery_live rc now then ret (False, Rc_ExpiresAt rc)
     else let nextIssue = Rc_IssuedAt rc + recoveryIssueInterval in
       if now < nextIssue
       then raise (RetryAfterError (Sentinel ErrTooManyAttempts) (nextIssue - now))
       else issueRecoveryCode now))"

definition wrong_code :: "string sop" where
  "wrong_code = andthen (modify (\<lambda>s. s\<lparr>Svc_Recovery :=
       (Svc_Recovery s)\<lparr>Rc_Failures := Rc_Failures (Svc_Recovery s) + 1\<rparr>\<rparr>)) (\<lambda>_.
     reads (\<lambda>s. andthen
       (if Rc_Failures (Svc_Recovery s) \<ge> recoveryMaxFailures then burnRecoveryCode else ret ())
       (\<lambda>_. raise errWrongRecoveryCode)))"

definition ResetWithRecoveryCode :: "crypto \<Rightarrow> string \<Rightarrow> string \<Rightarrow> string sop" where
  "ResetWithRecoveryCode C code pw = reads (\<lambda>s0. let now = A_Now s0; rc = Svc_Recovery s0 in
     andthen (lift_out (requireMode (Snap_Mode (A_Snapshot s0)) ModeToken)) (\<lambda>_.
     andthen (lift_out (validatePassword pw)) (\<lambda>_.
     if \<not> recovery_live rc now
     then andthen burnRecoveryCode (\<lambda>_. raise errNoRecoveryCode)
     else if \<not> secretsEqual (normalizeRecoveryCode C code) (Rc_Code rc) then wrong_code
     else andthen (hashPassword C randomBytes pw) (\<lambda>hash.
       andthen (newSession C randomBytes now) (\<lambda>(i, ses).
       andthen (wrap_err ''access: reset panel password''
         (store_ResetPassword \<lparr> Pw_Hash = hash, Pw_SetAt = now \<rparr> ses)) (\<lambda>_.
       andthen burnRecoveryCode (\<lambda>_.
       andthen (audit publicCaller [(AuditActionUseRecoveryCode, []), (AuditActionSetPanelPassword, [])])
         (\<lambda>_. ret i))))))))"

subsection \<open>Modes, password and tokens\<close>

record access_info =
  Info_Mode :: access_mode
  Info_PasswordSetAt :: "go_time option"
  Info_Sessions :: nat

definition AccessInfo :: "access_info sop" where
  "AccessInfo = reads (\<lambda>s0. let mode = Snap_Mode (A_Snapshot s0); now = A_Now s0 in
     andthen (case mode of
         ModeSetup \<Rightarrow> raise (Sentinel ErrSetupRequired)
       | ModeOpen \<Rightarrow> ret None
       | ModeToken \<Rightarrow> andthen storedPassword (\<lambda>pw. ret (Some (Pw_SetAt pw)))
       | OtherMode m \<Rightarrow> raise err_mode) (\<lambda>setAt.
     andthen (wrap_err ''access: count sessions'' (store_CountSessions now (now - sessionIdleTimeout)))
       (\<lambda>n. ret \<lparr> Info_Mode = mode, Info_PasswordSetAt = setAt, Info_Sessions = n \<rparr>)))"

definition enableTokenMode ::
  "crypto \<Rightarrow> caller \<Rightarrow> string \<Rightarrow> (credentials \<Rightarrow> session \<Rightarrow> unit sop) \<Rightarrow> string sop" where
  "enableTokenMode C c pw commit =
     andthen (hashPassword C randomBytes pw) (\<lambda>hash.
     andthen (newToken randomBytes TokenAPI) (\<lambda>apiToken.
     andthen (newToken randomBytes TokenAgent) (\<lambda>agentToken.
     reads (\<lambda>s. let now = A_Now s in
     andthen (newSession C randomBytes now) (\<lambda>(i, ses).
     andthen (wrap_err ''access: enable token mode''
       (commit \<lparr> Cred_Password = \<lparr> Pw_Hash = hash, Pw_SetAt = now \<rparr>, Cred_APIToken = apiToken,
          Cred_AgentToken = agentToken \<rparr> ses)) (\<lambda>_.
     andthen (modify (\<lambda>s. s\<lparr>Svc_Recovery := no_recovery\<rparr>)) (\<lambda>_.
     andthen (audit c [(AuditActionSetAccessMode, ''set_access_mode_token''),
       (AuditActionSetPanelPassword, []), (AuditActionIssueAccessToken, ''issue_api_token''),
       (AuditActionIssueAccessToken, ''issue_agent_token'')]) (\<lambda>_. ret i))))))))"

definition SwitchToToken :: "crypto \<Rightarrow> caller option \<Rightarrow> string \<Rightarrow> string sop" where
  "SwitchToToken C ctx pw =
     andthen (callerFrom ctx) (\<lambda>c.
     reads (\<lambda>s. andthen (lift_out (requireMode (Snap_Mode (A_Snapshot s)) ModeOpen)) (\<lambda>_.
     andthen (lift_out (validatePassword pw)) (\<lambda>_.
     enableTokenMode C c pw store_EnableTokenMode))))"

definition SwitchToOpen :: "crypto \<Rightarrow> caller option \<Rightarrow> string \<Rightarrow> bool \<Rightarrow> unit sop" where
  "SwitchToOpen C ctx currentPassword acknowledged =
     andthen (callerFrom ctx) (\<lambda>c.
     reads (\<lambda>s. andthen (lift_out (requireMode (Snap_Mode (A_Snapshot s)) ModeToken)) (\<lambda>_.
     andthen (lift_out (check (\<not> acknowledged) (NewValidationError ''/acknowledged'' ''required''
       ''switching to open mode must be acknowledged''))) (\<lambda>_.
     andthen (checkCurrentPassword C currentPassword) (\<lambda>_.
     andthen (wrap_err ''access: disable token mode'' store_DisableTokenMode) (\<lambda>_.
     audit c [(AuditActionSetAccessMode, ''set_access_mode_open'')]))))))"

definition ChangePassword ::
  "crypto \<Rightarrow> caller option \<Rightarrow> string \<Rightarrow> string \<Rightarrow> string \<Rightarrow> unit sop" where
  "ChangePassword C ctx cookie currentPassword pw =
     andthen (callerFrom ctx) (\<lambda>c.
     reads (\<lambda>s. andthen (lift_out (requireMode (Snap_Mode (A_Snapshot s)) ModeToken)) (\<lambda>_.
     case sessionIDHash C cookie of
       None \<Rightarrow> raise errNoSession
     | Some keep \<Rightarrow>
         andthen (lift_out (validatePassword pw)) (\<lambda>_.
         andthen (checkCurrentPassword C currentPassword) (\<lambda>_.
         andthen (hashPassword C randomBytes pw) (\<lambda>hash.
         andthen (wrap_err ''access: replace panel password''
           (store_ReplacePassword \<lparr> Pw_Hash = hash, Pw_SetAt = A_Now s \<rparr> keep)) (\<lambda>_.
         andthen burnRecoveryCode (\<lambda>_.
         audit c [(AuditActionSetPanelPassword, [])]))))))))"

definition Token :: "token_kind \<Rightarrow> string sop" where
  "Token kind = reads (\<lambda>s.
     andthen (lift_out (requireMode (Snap_Mode (A_Snapshot s)) ModeToken)) (\<lambda>_.
     lift_res (snapshot_token (A_Snapshot s) kind)))"

definition issueTokenAuditDetail :: "token_kind \<Rightarrow> go_error + string" where
  "issueTokenAuditDetail kind = (case kind of
       TokenAPI \<Rightarrow> Inr ''issue_api_token''
     | TokenAgent \<Rightarrow> Inr ''issue_agent_token''
     | OtherTokenKind k \<Rightarrow> Inl (Wrap ''access: unknown token kind'' (Sentinel ErrInvalid)))"

definition RegenerateToken :: "caller option \<Rightarrow> token_kind \<Rightarrow> string sop" where
  "RegenerateToken ctx kind =
     andthen (callerFrom ctx) (\<lambda>c.
     reads (\<lambda>s. andthen (lift_out (requireMode (Snap_Mode (A_Snapshot s)) ModeToken)) (\<lambda>_.
     andthen (lift_res (issueTokenAuditDetail kind)) (\<lambda>detail.
     andthen (newToken randomBytes kind) (\<lambda>token.
     andthen (wrap_err ''access: replace token'' (store_ReplaceToken kind token)) (\<lambda>_.
     andthen (audit c [(AuditActionIssueAccessToken, detail)]) (\<lambda>_. ret token)))))))"

subsection \<open>First-run setup\<close>

definition requireSetup :: "('z, unit) aop" where
  "requireSetup = reads (\<lambda>s. case Snap_Mode (A_Snapshot s) of
       ModeSetup \<Rightarrow> ret ()
     | OtherMode m \<Rightarrow> raise err_mode
     | _ \<Rightarrow> raise (Sentinel ErrSetupComplete))"

definition WhileInSetup :: "('z, 'a) aop \<Rightarrow> ('z, 'a) aop" where
  "WhileInSetup f = andthen requireSetup (\<lambda>_. f)"

definition SetupState :: "setup_state sop" where
  "SetupState = andthen requireSetup (\<lambda>_. store_SetupState)"

definition SetSetupStep :: "setup_step \<Rightarrow> unit sop" where
  "SetSetupStep step =
     andthen requireSetup (\<lambda>_.
     (case ParseSetupStep step of
        Inl e \<Rightarrow> raise (NewValidationError ''/step'' ''enum'' (err_text e))
      | Inr _ \<Rightarrow> store_SetSetupStep step))"

definition DeclineEncryption :: "bool \<Rightarrow> unit sop" where
  "DeclineEncryption acknowledged =
     andthen requireSetup (\<lambda>_.
     andthen (lift_out (check (\<not> acknowledged) (NewValidationError ''/acknowledged'' ''required''
       ''running without encryption must be acknowledged''))) (\<lambda>_.
     reads (\<lambda>s. if Svc_CredentialsSealed s
       then raise (Wrap ''the master key is already in effect'' (Sentinel ErrConflict))
       else store_DeclineEncryption (A_Now s))))"

definition missing_decisions :: "bool \<Rightarrow> bool \<Rightarrow> bool \<Rightarrow> setup_state \<Rightarrow> string list" where
  "missing_decisions chosen fundsChosen sealed st =
     (if \<not> chosen then [''account mode''] else [])
     @ (if \<not> fundsChosen then [''funds limit mode''] else [])
     @ (if \<not> sealed \<and> Setup_EncryptionDeclinedAt st = None then [''encryption''] else [])"

definition check_setup_access :: "access_mode \<Rightarrow> string \<Rightarrow> bool \<Rightarrow> go_error option" where
  "check_setup_access mode pw acknowledged = (case mode of
       ModeOpen \<Rightarrow> check (\<not> acknowledged) (NewValidationError ''/acknowledged'' ''required''
         ''open access must be acknowledged'')
     | ModeToken \<Rightarrow> validatePassword pw
     | _ \<Rightarrow> Some (NewValidationError ''/access'' ''enum'' ''access must be open or token''))"

definition CompleteSetup ::
  "crypto \<Rightarrow> caller option \<Rightarrow> access_mode \<Rightarrow> string \<Rightarrow> bool \<Rightarrow> string sop" where
  "CompleteSetup C ctx mode pw acknowledged =
     andthen requireSetup (\<lambda>_.
     andthen (callerFrom ctx) (\<lambda>c.
     andthen (lift_out (check_setup_access mode pw acknowledged)) (\<lambda>_.
     andthen (wrap_err ''access: read account mode choice'' (io_call (gets Svc_AccountModeChosen)))
       (\<lambda>chosen.
     andthen (wrap_err ''access: read funds limit mode choice'' (io_call (gets Svc_FundsLimitModeChosen)))
       (\<lambda>fundsChosen.
     andthen store_SetupState (\<lambda>st.
     reads (\<lambda>s. if missing_decisions chosen fundsChosen (Svc_CredentialsSealed s) st \<noteq> []
       then raise (Wrap ''setup decisions missing'' (Sentinel ErrConflict))
       else if mode = ModeToken
       then enableTokenMode C c pw (\<lambda>cr ses. store_CompleteSetupToken cr ses (Pw_SetAt (Cred_Password cr)))
       else andthen (wrap_err ''access: complete setup in open mode'' (store_CompleteSetupOpen (A_Now s)))
         (\<lambda>_. andthen (audit c [(AuditActionSetAccessMode, ''set_access_mode_open'')]) (\<lambda>_. ret [])))))))))"

subsection \<open>Requests\<close>

text \<open>The parts of an HTTP request and its context that the resolver reads.\<close>

record access_request =
  Req_Surface :: "source option"
  Req_DuringSetup :: bool
  Req_Authorization :: "string list"
  Req_Cookie :: "string option"
  Req_Host :: string

definition sessionCookieValue :: "access_request \<Rightarrow> string" where
  "sessionCookieValue r = (case Req_Cookie r of None \<Rightarrow> [] | Some v \<Rightarrow> v)"

text \<open>\<^verbatim>\<open>strings.Fields\<close> over the segments of a text.\<close>

fun fields_of :: "(nat \<times> string \<times> bool) list \<Rightarrow> string \<Rightarrow> string list" where
  "fields_of [] cur = (if cur = [] then [] else [cur])"
| "fields_of ((r, b, ok) # rest) cur =
     (if is_space r then (if cur = [] then fields_of rest [] else cur # fields_of rest [])
      else fields_of rest (cur @ b))"

text \<open>No rune outside ASCII folds to a letter of \<^verbatim>\<open>Bearer\<close>, so the case-insensitive comparison
  is one of ASCII letters.\<close>

definition bearerToken :: "access_request \<Rightarrow> string option" where
  "bearerToken r = (case Req_Authorization r of
       [v] \<Rightarrow> (case fields_of (segs v) [] of
           [scheme, token] \<Rightarrow> if map upper_char scheme = ''BEARER'' then Some token else None
         | _ \<Rightarrow> None)
     | _ \<Rightarrow> None)"

definition challenge :: "go_error \<Rightarrow> go_error" where
  "challenge e = ResponseHeaderError e ''WWW-Authenticate'' ''Bearer realm=\"pit-officer\"''"

definition errNoBearerToken :: go_error where
  "errNoBearerToken = Wrap ''no bearer token'' (Sentinel ErrUnauthorized)"

definition operator_caller :: caller where
  "operator_caller = \<lparr> Caller_Source = OtherSource [], Caller_Principal = ''operator'', Caller_Role = [] \<rparr>"

definition resolveBearer :: "access_request \<Rightarrow> token_kind \<Rightarrow> caller sop" where
  "resolveBearer r kind = (case bearerToken r of
       None \<Rightarrow> raise (challenge errNoBearerToken)
     | Some token \<Rightarrow> handle (CheckToken kind token)
         (\<lambda>e. if wraps e ErrWrongToken then raise e
              else if wraps e ErrUnauthorized then raise (challenge e) else raise e)
         (\<lambda>_. ret operator_caller))"

definition resolveSession :: "crypto \<Rightarrow> access_request \<Rightarrow> caller sop" where
  "resolveSession C r = andthen (CheckSession C (sessionCookieValue r)) (\<lambda>_. ret operator_caller)"

definition ResolveCaller :: "crypto \<Rightarrow> access_request \<Rightarrow> caller sop" where
  "ResolveCaller C r =
     (case Req_Surface r of
        None \<Rightarrow> raise (Text ''access: the request carries no surface'')
      | Some surface \<Rightarrow>
          if surface \<notin> {SourceAPI, SourceMCP, SourcePanel}
          then raise (Text ''access: unknown request surface'')
          else reads (\<lambda>s. case Snap_Mode (A_Snapshot s) of
             ModeSetup \<Rightarrow> if surface = SourcePanel \<and> Req_DuringSetup r then ret operator_caller
               else raise (Wrap ''Pit Officer is not set up yet'' (Sentinel ErrSetupRequired))
           | ModeOpen \<Rightarrow> ret operator_caller
           | OtherMode m \<Rightarrow> raise err_mode
           | ModeToken \<Rightarrow> if surface = SourcePanel then resolveSession C r
               else resolveBearer r (if surface = SourceAPI then TokenAPI else TokenAgent)))"

definition Authorize :: "bool \<Rightarrow> caller \<Rightarrow> unit sop" where
  "Authorize duringSetup c = reads (\<lambda>s. case Snap_Mode (A_Snapshot s) of
       ModeSetup \<Rightarrow> (case Caller_Source c of
           SourceMCP \<Rightarrow> ret ()
         | SourcePanel \<Rightarrow> if duringSetup then ret () else raise (Sentinel ErrSetupRequired)
         | SourceAPI \<Rightarrow> raise (Sentinel ErrSetupRequired)
         | _ \<Rightarrow> raise (Text ''access: unknown caller source''))
     | OtherMode m \<Rightarrow> raise err_mode
     | _ \<Rightarrow> ret ())"

end
