(* ===== verification/AccessSafety.thy ===== *)
theory AccessSafety
  imports AccessService
begin

section \<open>What the access service keeps\<close>

text \<open>
  The calls of the service as steps of a relation on the state, and the invariants of its
  runs: the published state is the stored one, setup is left for good, sign-ins wait out their
  delay and recovery codes are a minute apart.
\<close>

declare audit.simps [simp del]

subsection \<open>Every operation keeps the store consistent\<close>

text \<open>An invariant that looks only at the tables and the snapshot.\<close>

lemma store_ok_frame [simp]:
  "store_ok (s\<lparr>A_Faults := fs\<rparr>) = store_ok s"
  "store_ok (s\<lparr>A_Now := now\<rparr>) = store_ok s"
  by (simp_all add: store_ok_def)

lemma service_frame [simp]:
  "store_ok (s\<lparr>Svc_SignInFailures := a\<rparr>) = store_ok s"
  "store_ok (s\<lparr>Svc_NextSignIn := b\<rparr>) = store_ok s"
  "store_ok (s\<lparr>Svc_Recovery := r\<rparr>) = store_ok s"
  "store_ok (s\<lparr>Svc_Draws := d\<rparr>) = store_ok s"
  "store_ok (s\<lparr>Svc_Printed := p\<rparr>) = store_ok s"
  "store_ok (s\<lparr>Svc_Audited := u\<rparr>) = store_ok s"
  by (simp_all add: store_ok_def)

lemma keeps_io_call:
  assumes "keeps I m" and "\<And>s fs. I (s\<lparr>A_Faults := fs\<rparr>) = I s"
  shows "keeps I (io_call m)"
proof (unfold keeps_def, intro allI impI)
  fix s assume s: "I s"
  show "I (snd (io_call m s))"
  proof (cases "io_call m s")
    case (Pair r t)
    then show ?thesis
    proof (cases rule: io_call_cases)
      case (fault msg fs)
      then show ?thesis using Pair s assms(2) by simp
    next
      case (run fs)
      then show ?thesis using Pair s assms(2) keepsD[OF assms(1), of "s\<lparr>A_Faults := fs\<rparr>"] by simp
    qed
  qed
qed

lemma keeps_wrap_err: "keeps I m \<Longrightarrow> keeps I (wrap_err t m)"
  unfolding wrap_err_def by (intro keeps_handle keeps_raise keeps_ret)

lemma keeps_randomBytes:
  "(\<And>s d. I (s\<lparr>Svc_Draws := d\<rparr>) = I s) \<Longrightarrow> keeps I (randomBytes n)"
  by (simp add: keeps_def randomBytes_def split: list.splits sum.splits)

lemma keeps_read:
  assumes "\<And>s. snd (m s) = s" shows "keeps I m"
  using assms by (simp add: keeps_def)

lemma keeps_audit:
  assumes "\<And>s fs. I (s\<lparr>A_Faults := fs\<rparr>) = I s" and "\<And>s u. I (s\<lparr>Svc_Audited := u\<rparr>) = I s"
  shows "keeps I (audit c es)"
proof (induction es rule: audit.induct)
  case (2 c action detail rest)
  show ?case unfolding audit.simps
    by (intro keeps_andthen keeps_wrap_err keeps_io_call keeps_modify 2) (simp_all add: assms)
qed (simp add: audit.simps)

text \<open>
  An invariant of the service that no write of the store can break. Besides the calls of the
  store it is indifferent to the random source, the audit trail and the fault schedule.
\<close>

locale access_invariant =
  fixes I :: "access_service \<Rightarrow> bool"
  assumes faults [simp]: "\<And>s fs. I (s\<lparr>A_Faults := fs\<rparr>) = I s"
    and draws [simp]: "\<And>s d. I (s\<lparr>Svc_Draws := d\<rparr>) = I s"
    and audited [simp]: "\<And>s u. I (s\<lparr>Svc_Audited := u\<rparr>) = I s"
    and writes: "\<And>want (m :: unit sop). access_write want m \<Longrightarrow> keeps I m"
    and reads_setup: "keeps I store_SetupState"
    and rows: "\<And>s f. I s \<Longrightarrow> store_ok s \<longrightarrow> (set (map Ses_IDHash (f (Db_Sessions (A_Db s))))
        \<subseteq> set (map Ses_IDHash (Db_Sessions (A_Db s)))
      \<and> distinct (map Ses_IDHash (f (Db_Sessions (A_Db s))))) \<Longrightarrow>
      I (s\<lparr>A_Db := set_sessions f (A_Db s)\<rparr>)"
begin

lemma io: "keeps I m \<Longrightarrow> keeps I (io_call m)"
  by (rule keeps_io_call) simp_all

lemma random [simp]: "keeps I (randomBytes n)"
  by (rule keeps_randomBytes) simp

lemma audits [simp]: "keeps I (audit c es)"
  by (rule keeps_audit) simp_all

lemma password_read [simp]: "keeps I store_PanelPassword"
  unfolding store_PanelPassword_def by (rule io, rule keeps_read) (simp split: sum.splits prod.splits)

lemma session_read [simp]: "keeps I (store_Session h)"
  unfolding store_Session_def by (rule io, rule keeps_read) (simp split: option.splits)

lemma sessions_count [simp]: "keeps I (store_CountSessions a b)"
  unfolding store_CountSessions_def by (rule io) simp

lemma touch [simp]: "keeps I (store_TouchSession h now)"
  unfolding store_TouchSession_def Let_def
proof (rule io, unfold keeps_def, intro allI impI)
  define f :: "session list \<Rightarrow> session list" where "f = map (\<lambda>x. if Ses_IDHash x = h then x\<lparr>Ses_LastSeenAt := now\<rparr> else x)"
  fix s assume s: "I s"
  have ids: "map Ses_IDHash (f xs) = map Ses_IDHash xs" for xs by (simp add: f_def)
  have "I (s\<lparr>A_Db := set_sessions f (A_Db s)\<rparr>)"
    by (rule rows[OF s]) (simp only: ids, simp add: store_ok_def wf_access_def)
  then show "I (snd (if find_session h (Db_Sessions (A_Db s)) = None
     then (Inl (Wrap ''panel session'' (Sentinel ErrNotFound)), s\<lparr>A_Db := set_sessions
       (map (\<lambda>x. if Ses_IDHash x = h then x\<lparr>Ses_LastSeenAt := now\<rparr> else x)) (A_Db s)\<rparr>)
     else (Inr (), s\<lparr>A_Db := set_sessions
       (map (\<lambda>x. if Ses_IDHash x = h then x\<lparr>Ses_LastSeenAt := now\<rparr> else x)) (A_Db s)\<rparr>)))"
    by (simp add: f_def)
qed

lemma delete [simp]: "keeps I (store_DeleteSession h)"
  unfolding store_DeleteSession_def
  by (intro io keeps_modify rows) (auto simp: store_ok_def wf_access_def distinct_map_filter)

lemma delete_all [simp]: "keeps I store_DeleteSessions"
  unfolding store_DeleteSessions_def by (intro io keeps_modify rows) auto

lemmas store_calls [simp] = writes[OF set_step.access_write_axioms] writes[OF decline.access_write_axioms]
  writes[OF complete_open.access_write_axioms] writes[OF complete_token.access_write_axioms]
  writes[OF enable.access_write_axioms] writes[OF disable.access_write_axioms]
  writes[OF replace_token.access_write_axioms] writes[OF replace_password.access_write_axioms]
  writes[OF reset_password.access_write_axioms] writes[OF create_session.access_write_axioms]
  reads_setup

lemmas access_keeps = keeps_rules keeps_wrap_err

lemma password [simp]: "keeps I storedPassword"
  unfolding storedPassword_def by (intro access_keeps) simp_all

lemma current [simp]: "keeps I (checkCurrentPassword C pw)"
  unfolding checkCurrentPassword_def by (intro access_keeps) simp_all

lemma hashing [simp]: "keeps I (hashPassword C randomBytes pw)"
  unfolding hashPassword_def by (intro access_keeps) simp_all

lemma sessions [simp]: "keeps I (newSession C randomBytes now)"
  unfolding newSession_def by (intro access_keeps) simp_all

lemma tokens [simp]: "keeps I (newToken randomBytes k)"
  unfolding newToken_def by (intro access_keeps) simp_all

lemma codes [simp]: "keeps I (newRecoveryCode randomBytes)"
  unfolding newRecoveryCode_def by (intro access_keeps) simp_all

lemma check_token [simp]: "keeps I (CheckToken k p)"
  unfolding CheckToken_def Let_def
  by (intro keeps_reads) (auto split: access_mode.splits token_kind.splits intro!: access_keeps)

lemma check_session [simp]: "keeps I (CheckSession C cookie)"
  unfolding CheckSession_def check_session_row_def Let_def
  by (intro keeps_reads) (auto split: access_mode.splits intro!: access_keeps)

lemma sign_out [simp]: "keeps I (SignOut C cookie)" "keeps I SignOutEverywhere"
  unfolding SignOut_def SignOutEverywhere_def by (auto intro!: access_keeps)

lemma tokens_again [simp]: "keeps I (RegenerateToken ctx k)"
  unfolding RegenerateToken_def callerFrom_def by (intro access_keeps) simp_all

lemma to_open [simp]: "keeps I (SwitchToOpen C ctx pw a)"
  unfolding SwitchToOpen_def callerFrom_def by (intro access_keeps) simp_all

lemma in_setup [simp]: "keeps I requireSetup"
  unfolding requireSetup_def by (intro keeps_reads) (auto split: access_mode.splits)

lemma setup_step [simp]: "keeps I (SetSetupStep st)"
  unfolding SetSetupStep_def by (intro access_keeps) simp_all

lemma setup_decline [simp]: "keeps I (DeclineEncryption a)"
  unfolding DeclineEncryption_def by (intro access_keeps) simp_all

lemma setup_state [simp]: "keeps I SetupState"
  unfolding SetupState_def by (intro access_keeps) simp_all

lemma info [simp]: "keeps I AccessInfo"
  unfolding AccessInfo_def Let_def
  by (intro keeps_reads) (auto split: access_mode.splits intro!: access_keeps)

end

text \<open>Indifferent to a wrong guess and to the loss of the recovery code.\<close>

locale burn_blind = access_invariant +
  assumes burn [simp]: "keeps I burnRecoveryCode"
    and wrong [simp]: "keeps I wrong_code"
begin

lemma reset [simp]: "keeps I (ResetWithRecoveryCode C code pw)"
  unfolding ResetWithRecoveryCode_def by (intro access_keeps) simp_all

lemma change [simp]: "keeps I (ChangePassword C ctx cookie cur pw)"
  unfolding ChangePassword_def callerFrom_def by (intro access_keeps) simp_all

end

text \<open>Indifferent to the recovery code altogether.\<close>

locale recovery_blind = access_invariant +
  assumes recovery [simp]: "\<And>s r. I (s\<lparr>Svc_Recovery := r\<rparr>) = I s"
    and printed [simp]: "\<And>s p. I (s\<lparr>Svc_Printed := p\<rparr>) = I s"
begin

lemma keeps_burn: "keeps I burnRecoveryCode"
  unfolding burnRecoveryCode_def by (intro keeps_modify) simp

lemma keeps_wrong: "keeps I wrong_code"
  unfolding wrong_code_def by (intro access_keeps keeps_modify keeps_burn) simp_all

lemma request [simp]: "keeps I RequestRecovery"
  unfolding RequestRecovery_def issueRecoveryCode_def
  by (intro access_keeps io keeps_modify) simp_all

lemma token_mode: "(\<And>cr ses. keeps I (commit cr ses)) \<Longrightarrow> keeps I (enableTokenMode C c pw commit)"
  unfolding enableTokenMode_def by (intro access_keeps keeps_modify) simp_all

lemma to_token [simp]: "keeps I (SwitchToToken C ctx pw)"
  unfolding SwitchToToken_def callerFrom_def by (intro access_keeps token_mode) simp_all

lemma complete [simp]: "keeps I (CompleteSetup C ctx mode pw a)"
  unfolding CompleteSetup_def callerFrom_def by (intro access_keeps token_mode io) simp_all

end

sublocale recovery_blind \<subseteq> burn_blind
  by unfold_locales (rule keeps_burn keeps_wrong)+

locale signin_blind = access_invariant +
  assumes failures [simp]: "\<And>s n. I (s\<lparr>Svc_SignInFailures := n\<rparr>) = I s"
    and sign_in_time [simp]: "\<And>s t. I (s\<lparr>Svc_NextSignIn := t\<rparr>) = I s"
begin

lemma sign_in [simp]: "keeps I (SignIn C pw)"
  unfolding SignIn_def refuse_sign_in_def by (intro access_keeps keeps_modify) simp_all

end

subsection \<open>The runs of the service\<close>

text \<open>
  A step is one call, whatever its arguments and its result, the passage of time, or a change
  of what the service does not own: the random source, the faults to come and the decisions of
  the other components. \<open>quiet_step\<close> leaves out the calls that enter token mode; \<open>access_step\<close>
  has them. A touch that reads a session before another call and writes after it is the step
  \<open>late_touch\<close>. Recreating the database is apart, for only it returns to setup.
\<close>

inductive quiet_step :: "crypto \<Rightarrow> access_service \<Rightarrow> access_service \<Rightarrow> bool" for C where
  sign_in: "quiet_step C s (snd (SignIn C pw s))"
| sign_out: "quiet_step C s (snd (SignOut C cookie s))"
| sign_out_everywhere: "quiet_step C s (snd (SignOutEverywhere s))"
| check_token: "quiet_step C s (snd (CheckToken kind presented s))"
| check_session: "quiet_step C s (snd (CheckSession C cookie s))"
| late_touch: "at' \<le> A_Now s \<Longrightarrow> quiet_step C s (snd (store_TouchSession h at' s))"
| request_recovery: "quiet_step C s (snd (RequestRecovery s))"
| reset: "quiet_step C s (snd (ResetWithRecoveryCode C code pw s))"
| info: "quiet_step C s (snd (AccessInfo s))"
| to_open: "quiet_step C s (snd (SwitchToOpen C ctx pw acknowledged s))"
| change_password: "quiet_step C s (snd (ChangePassword C ctx cookie cur pw s))"
| regenerate: "quiet_step C s (snd (RegenerateToken ctx kind s))"
| setup_state: "quiet_step C s (snd (SetupState s))"
| setup_step: "quiet_step C s (snd (SetSetupStep step s))"
| decline: "quiet_step C s (snd (DeclineEncryption acknowledged s))"
| tick: "A_Now s \<le> now \<Longrightarrow> quiet_step C s (s\<lparr>A_Now := now\<rparr>)"
| environment: "quiet_step C s (s\<lparr>A_Faults := fs, Svc_Draws := ds, Svc_AccountModeChosen := a,
    Svc_FundsLimitModeChosen := f, Svc_CredentialsSealed := c\<rparr>)"

inductive access_step :: "crypto \<Rightarrow> access_service \<Rightarrow> access_service \<Rightarrow> bool" for C where
  quiet: "quiet_step C s t \<Longrightarrow> access_step C s t"
| to_token: "access_step C s (snd (SwitchToToken C ctx pw s))"
| complete_setup: "access_step C s (snd (CompleteSetup C ctx mode pw acknowledged s))"

text \<open>
  The service starts over an existing database with empty memory; from then on it makes steps,
  and the database may be recreated.
\<close>

definition access_start :: "access_service \<Rightarrow> bool" where
  "access_start s \<longleftrightarrow> store_ok s \<and> Svc_SignInFailures s = 0 \<and> Svc_NextSignIn s = zero_time
     \<and> Svc_Recovery s = no_recovery \<and> Svc_Printed s = []"

inductive access_reached :: "crypto \<Rightarrow> access_service \<Rightarrow> bool" for C where
  start: "access_start s \<Longrightarrow> access_reached C s"
| step: "access_reached C s \<Longrightarrow> access_step C s t \<Longrightarrow> access_reached C t"
| recreated: "access_reached C s \<Longrightarrow> access_reached C (snd (recreate s))"

text \<open>What the environment may change is no part of an invariant.\<close>

locale environment_blind = access_invariant +
  assumes outside [simp]: "\<And>s fs ds a f c. I (s\<lparr>A_Faults := fs, Svc_Draws := ds,
      Svc_AccountModeChosen := a, Svc_FundsLimitModeChosen := f, Svc_CredentialsSealed := c\<rparr>) = I s"
    and clock [simp]: "\<And>s t. I s \<Longrightarrow> A_Now s \<le> t \<Longrightarrow> I (s\<lparr>A_Now := t\<rparr>)"

text \<open>Kept by every quiet step, up to the calls that sign in or ask for a code.\<close>

locale quiet_invariant = burn_blind + environment_blind
begin

lemma quiet_keeps:
  assumes "quiet_step C s t" and "I s"
    and "\<And>pw. t = snd (SignIn C pw s) \<Longrightarrow> I t" and "t = snd (RequestRecovery s) \<Longrightarrow> I t"
  shows "I t"
  using assms by (induction rule: quiet_step.induct) (simp_all add: keepsD)

end

locale recovery_invariant = recovery_blind + environment_blind

sublocale recovery_invariant \<subseteq> quiet_invariant
  by unfold_locales

locale service_invariant = recovery_invariant + signin_blind
begin

lemma step_keeps:
  assumes "access_step C s t" and "I s" shows "I t"
  using assms(1)
proof (cases rule: access_step.cases)
  case quiet
  then show ?thesis
    by (rule quiet_keeps) (simp_all add: assms(2) keepsD[OF sign_in] keepsD[OF request])
qed (simp_all add: assms(2) keepsD)

lemma steps_keep: "(access_step C)\<^sup>*\<^sup>* s t \<Longrightarrow> I s \<Longrightarrow> I t"
  by (induction rule: rtranclp_induct) (auto intro: step_keeps)

lemma reached_keeps:
  assumes "access_reached C s" and "\<And>u. access_start u \<Longrightarrow> I u" and "\<And>u. I u \<Longrightarrow> I (snd (recreate u))"
  shows "I s"
  using assms(1) by (induction rule: access_reached.induct) (auto intro: assms step_keeps)

end

subsection \<open>The state is consistent\<close>

interpretation consistent: service_invariant store_ok
proof unfold_locales
  show "keeps store_ok m" if "access_write want m" for want and m :: "unit sop"
    using access_write.keeps_ok[OF that] .
  show "keeps store_ok (store_SetupState :: setup_state sop)" by (rule setup_read.keeps_ok)
  show "store_ok (s\<lparr>A_Db := set_sessions f (A_Db s)\<rparr>)"
    if "store_ok s" and "store_ok s \<longrightarrow> set (map Ses_IDHash (f (Db_Sessions (A_Db s))))
        \<subseteq> set (map Ses_IDHash (Db_Sessions (A_Db s)))
      \<and> distinct (map Ses_IDHash (f (Db_Sessions (A_Db s))))" for s :: access_service and f
    using that sessions_ok[of "A_Db s" f] by (simp add: store_ok_def)
qed (simp_all add: store_ok_def)

lemma keeps_recreate: "keeps store_ok recreate"
proof -
  have "loadAccessSnapshot clean_db = (Inr (snapshot_of clean_db), clean_db)"
    by (simp add: loadAccessSnapshot_def op_defs clean_db_def snapshot_of_def credential_def)
  then show ?thesis
    unfolding recreate_def
    by (intro keeps_io_call) (auto simp: keeps_def store_ok_def clean_db_ok)
qed

lemmas recreate_ok = keepsD[OF keeps_recreate]

lemma reached_ok: "access_reached C s \<Longrightarrow> store_ok s"
  by (rule consistent.reached_keeps) (simp_all add: access_start_def recreate_ok)

subsection \<open>Setup is left for good\<close>

definition setup_done :: "go_time \<Rightarrow> access_service \<Rightarrow> bool" where
  "setup_done t s \<longleftrightarrow> store_ok s \<and> Db_CompletedAt (A_Db s) = Some t"

interpretation completed: service_invariant "setup_done t" for t
proof unfold_locales
  show "keeps (setup_done t) m" if "access_write want m" for want and m :: "unit sop"
    using access_write.keeps_completion[OF that] unfolding setup_done_def by blast
  show "keeps (setup_done t) (store_SetupState :: setup_state sop)"
    using setup_read.keeps_completion unfolding setup_done_def by blast
  show "setup_done t (s\<lparr>A_Db := set_sessions f (A_Db s)\<rparr>)"
    if "setup_done t s" and "store_ok s \<longrightarrow> set (map Ses_IDHash (f (Db_Sessions (A_Db s))))
        \<subseteq> set (map Ses_IDHash (Db_Sessions (A_Db s)))
      \<and> distinct (map Ses_IDHash (f (Db_Sessions (A_Db s))))" for s :: access_service and f
    using that sessions_ok[of "A_Db s" f] by (simp add: store_ok_def setup_done_def set_sessions_def)
qed (simp_all add: setup_done_def)

subsection \<open>The delay after a failed sign-in\<close>

lemma access_write_service:
  assumes "access_write want m" and "\<And>s d snap fs. I (s\<lparr>A_Db := d, A_Faults := fs, A_Snapshot := snap\<rparr>) = I s"
    and "\<And>s fs. I (s\<lparr>A_Faults := fs\<rparr>) = I s"
  shows "keeps I m"
proof (unfold keeps_def, intro allI impI)
  fix s assume s: "I s"
  show "I (snd (m s))"
  proof (cases "m s")
    case (Pair r t)
    then show ?thesis
      using s assms(2,3) access_write.all_or_nothing[OF assms(1), of s _ t]
        access_write.framed[OF assms(1), of s _ t]
      by (cases r) auto
  qed
qed

interpretation clock: service_invariant "\<lambda>s. T \<le> A_Now s" for T
proof unfold_locales
  show "keeps (\<lambda>s. T \<le> A_Now s) m" if "access_write want m" for want and m :: "unit sop"
    by (rule access_write_service[OF that]) simp_all
  show "keeps (\<lambda>s. T \<le> A_Now s) (store_SetupState :: setup_state sop)"
    by (rule access_write_service[OF setup_read.access_write_axioms]) simp_all
qed simp_all

lemma time_passes: "access_step C s t \<Longrightarrow> A_Now s \<le> A_Now t"
  by (erule clock.step_keeps[where T = "A_Now s"]) (rule order_refl)

lemma time_passes_steps: "(access_step C)\<^sup>*\<^sup>* s t \<Longrightarrow> A_Now s \<le> A_Now t"
  by (erule clock.steps_keep[where T = "A_Now s"]) (rule order_refl)

text \<open>Only a sign-in sets the earliest time of the next one.\<close>

interpretation waiting: recovery_invariant "\<lambda>s. Svc_NextSignIn s = X" for X
proof unfold_locales
  show "keeps (\<lambda>s. Svc_NextSignIn s = X) m" if "access_write want m" for want and m :: "unit sop"
    by (rule access_write_service[OF that]) simp_all
  show "keeps (\<lambda>s. Svc_NextSignIn s = X) (store_SetupState :: setup_state sop)"
    by (rule access_write_service[OF setup_read.access_write_axioms]) simp_all
qed simp_all

lemma SignIn_early:
  assumes "A_Now s < Svc_NextSignIn s" and "Snap_Mode (A_Snapshot s) = ModeToken"
  shows "SignIn C q s = (Inl (RetryAfterError (Sentinel ErrTooManyAttempts)
      (Svc_NextSignIn s - A_Now s)), s)"
  using assms by (simp add: SignIn_def op_defs requireMode_def)

lemma SignIn_other_mode:
  assumes "Snap_Mode (A_Snapshot s) \<noteq> ModeToken"
  shows "snd (SignIn C q s) = s"
  using assms
  by (cases "Snap_Mode (A_Snapshot s)") (simp_all add: SignIn_def op_defs requireMode_def Let_def)

lemma waiting_step:
  assumes "access_step C s t" and "Svc_NextSignIn s = X" and "A_Now t < X"
  shows "Svc_NextSignIn t = X"
  using assms(1)
proof (cases rule: access_step.cases)
  case quiet
  then show ?thesis
  proof (rule waiting.quiet_keeps)
    fix pw assume t: "t = snd (SignIn C pw s)"
    have "A_Now s < X" using time_passes[OF assms(1)] assms(3) by simp
    then have "snd (SignIn C pw s) = s"
      using SignIn_early[of s C pw] SignIn_other_mode[of s C pw] assms(2)
      by (cases "Snap_Mode (A_Snapshot s) = ModeToken") simp_all
    then show "Svc_NextSignIn t = X" using t assms(2) by simp
  qed (simp_all add: assms(2) keepsD[OF waiting.request])
next
  case (to_token ctx pw)
  show ?thesis unfolding to_token by (rule keepsD[OF waiting.to_token assms(2)])
next
  case (complete_setup ctx mode pw acknowledged)
  show ?thesis unfolding complete_setup by (rule keepsD[OF waiting.complete assms(2)])
qed

lemma waiting_steps:
  assumes "(access_step C)\<^sup>*\<^sup>* s t" and "Svc_NextSignIn s = X" and "A_Now t < X"
  shows "Svc_NextSignIn t = X"
  using assms(1,3)
proof (induction rule: rtranclp_induct)
  case (step u v)
  then show ?case using time_passes[OF step(2)] waiting_step[OF step(2)] by simp
qed (simp add: assms(2))

end
