(* ===== verification/AccessResults.thy ===== *)
theory AccessResults
  imports AccessSafety
begin

section \<open>What the calls of the access service achieve\<close>

text \<open>
  Recovery codes are spaced and die after five wrong guesses, a changed password ends the other
  sessions, a request is admitted exactly with the credential of its surface, and a printed
  code resets the password.
\<close>

subsection \<open>Recovery codes are a minute apart\<close>

fun spaced :: "go_time list \<Rightarrow> bool" where
  "spaced (a # b # rest) = (a + recoveryIssueInterval \<le> b \<and> spaced (b # rest))"
| "spaced _ = True"

lemma spaced_snoc: "xs \<noteq> [] \<Longrightarrow> spaced (xs @ [b]) \<longleftrightarrow> spaced xs \<and> last xs + recoveryIssueInterval \<le> b"
  by (induction xs rule: spaced.induct) auto

text \<open>The codes printed after a given moment, and the issue time of the last one.\<close>

definition codes_spaced :: "go_time \<Rightarrow> (go_time \<times> string) list \<Rightarrow> access_service \<Rightarrow> bool" where
  "codes_spaced T P s \<longleftrightarrow> (\<exists>new. Svc_Printed s = P @ new \<and> spaced (T # map fst new)
     \<and> Rc_IssuedAt (Svc_Recovery s) = last (T # map fst new))"

lemma codes_spaced_frame [simp]:
  "codes_spaced T P (s\<lparr>A_Faults := fs\<rparr>) = codes_spaced T P s"
  "codes_spaced T P (s\<lparr>A_Now := now\<rparr>) = codes_spaced T P s"
  "codes_spaced T P (s\<lparr>A_Db := d\<rparr>) = codes_spaced T P s"
  "codes_spaced T P (s\<lparr>A_Snapshot := snap\<rparr>) = codes_spaced T P s"
  "codes_spaced T P (s\<lparr>Svc_SignInFailures := n\<rparr>) = codes_spaced T P s"
  "codes_spaced T P (s\<lparr>Svc_NextSignIn := now\<rparr>) = codes_spaced T P s"
  "codes_spaced T P (s\<lparr>Svc_Draws := ds\<rparr>) = codes_spaced T P s"
  "codes_spaced T P (s\<lparr>Svc_Audited := u\<rparr>) = codes_spaced T P s"
  "codes_spaced T P (s\<lparr>Svc_AccountModeChosen := a\<rparr>) = codes_spaced T P s"
  "codes_spaced T P (s\<lparr>Svc_FundsLimitModeChosen := a\<rparr>) = codes_spaced T P s"
  "codes_spaced T P (s\<lparr>Svc_CredentialsSealed := a\<rparr>) = codes_spaced T P s"
  by (simp_all add: codes_spaced_def)

lemma codes_spaced_issued:
  "Rc_IssuedAt r = Rc_IssuedAt (Svc_Recovery s) \<Longrightarrow>
   codes_spaced T P (s\<lparr>Svc_Recovery := r\<rparr>) = codes_spaced T P s"
  by (simp add: codes_spaced_def)

locale codes_invariant = quiet_invariant + signin_blind

interpretation codes: codes_invariant "codes_spaced T P" for T P
proof unfold_locales
  show "keeps (codes_spaced T P) m" if "access_write want m" for want and m :: "unit sop"
    by (rule access_write_service[OF that]) simp_all
  show "keeps (codes_spaced T P) (store_SetupState :: setup_state sop)"
    by (rule access_write_service[OF setup_read.access_write_axioms]) simp_all
  show burn: "keeps (codes_spaced T P) burnRecoveryCode"
    unfolding burnRecoveryCode_def by (intro keeps_modify) (simp add: codes_spaced_issued)
  show "keeps (codes_spaced T P) wrong_code"
    unfolding wrong_code_def
    by (intro keeps_rules keeps_modify burn) (simp_all add: codes_spaced_issued)
qed simp_all

text \<open>A new code is printed and its issue time kept in one stretch that cannot fail between.\<close>

lemma issue_keeps:
  assumes "codes_spaced T P s" and "Rc_IssuedAt (Svc_Recovery s) + recoveryIssueInterval \<le> now"
  shows "codes_spaced T P (s\<lparr>Svc_Printed := Svc_Printed s @ [(now, line)],
    Svc_Recovery := \<lparr> Rc_Code = code, Rc_ExpiresAt = e, Rc_Failures = n, Rc_IssuedAt = now \<rparr>\<rparr>)"
proof -
  obtain new where n: "Svc_Printed s = P @ new" "spaced (T # map fst new)"
    "Rc_IssuedAt (Svc_Recovery s) = last (T # map fst new)"
    using assms(1) by (auto simp: codes_spaced_def)
  have "spaced ((T # map fst new) @ [now])"
    using n assms(2) by (subst spaced_snoc) auto
  then show ?thesis
    unfolding codes_spaced_def using n(1) by (intro exI[of _ "new @ [(now, line)]"]) simp
qed

lemma write_code_cases:
  assumes "wrap_err w (io_call (modify f)) s = (r, t)"
  obtains e fs where "r = Inl e" "t = s\<lparr>A_Faults := fs\<rparr>"
  | fs where "r = Inr ()" "t = f (s\<lparr>A_Faults := fs\<rparr>)"
proof (cases "io_call (modify f) s")
  case (Pair r' t')
  then have rt: "(r, t) = (case r' of Inl e \<Rightarrow> (Inl (Wrap w e), t') | Inr a \<Rightarrow> (Inr a, t'))"
    using assms by (cases r') (auto simp: wrap_err_def handle_def raise_def ret_def)
  from Pair show thesis
  proof (cases rule: io_call_cases)
    case (fault msg fs)
    then show thesis using rt by (intro that(1)) simp_all
  next
    case (run fs)
    then show thesis using rt by (intro that(2)[of fs]) (auto simp: modify_def)
  qed
qed

lemma print_triple:
  assumes "\<And>s fs. P (s\<lparr>A_Faults := fs\<rparr>) = P s" and "\<And>s. P s \<Longrightarrow> I s"
    and "\<And>s fs. I (s\<lparr>A_Faults := fs\<rparr>) = I s"
  shows "triple P (wrap_err w (io_call (modify f))) (\<lambda>_ t. \<exists>u. P u \<and> t = f u) (\<lambda>_. I)"
proof (rule tripleI)
  fix s t a assume "P s" "wrap_err w (io_call (modify f)) s = (Inr a, t)"
  then show "\<exists>u. P u \<and> t = f u" using assms(1) by (elim write_code_cases) auto
next
  fix s t e assume "P s" "wrap_err w (io_call (modify f)) s = (Inl e, t)"
  then show "I t" using assms by (elim write_code_cases) auto
qed

lemma keeps_as_triple:
  "keeps P m \<Longrightarrow> (\<And>s. P s \<Longrightarrow> I s) \<Longrightarrow> triple P m (\<lambda>_. P) (\<lambda>_. I)"
  by (rule triple_conseq[of P _ "\<lambda>_. P" "\<lambda>_. P"]) (simp_all add: keeps_triple)

definition may_issue :: "go_time \<Rightarrow> (go_time \<times> string) list \<Rightarrow> go_time \<Rightarrow> access_service \<Rightarrow> bool" where
  "may_issue T P now s \<longleftrightarrow>
     codes_spaced T P s \<and> Rc_IssuedAt (Svc_Recovery s) + recoveryIssueInterval \<le> now"

lemma may_issue_frame [simp]:
  "may_issue T P now (s\<lparr>A_Faults := fs\<rparr>) = may_issue T P now s"
  "may_issue T P now (s\<lparr>Svc_Draws := ds\<rparr>) = may_issue T P now s"
  by (simp_all add: may_issue_def)

lemma may_issue_spaced: "may_issue T P now s \<Longrightarrow> codes_spaced T P s"
  by (simp add: may_issue_def)

lemma new_code_may_issue: "keeps (may_issue T P now) (newRecoveryCode randomBytes)"
  unfolding newRecoveryCode_def by (intro keeps_rules keeps_randomBytes) simp

lemma issue_triple:
  "triple (may_issue T P now) (issueRecoveryCode now) (\<lambda>_. codes_spaced T P) (\<lambda>_. codes_spaced T P)"
  unfolding issueRecoveryCode_def
proof (intro triple_andthen)
  show "triple (may_issue T P now) (newRecoveryCode randomBytes) (\<lambda>_. may_issue T P now)
      (\<lambda>_. codes_spaced T P)"
    by (rule keeps_as_triple[OF new_code_may_issue may_issue_spaced])
  fix code
  show "triple (may_issue T P now) (wrap_err ''access: write recovery code''
      (io_call (modify (\<lambda>s. s\<lparr>Svc_Printed := Svc_Printed s @ [(now, formatRecoveryCode code)]\<rparr>))))
      (\<lambda>_ t. \<exists>u. may_issue T P now u
        \<and> t = u\<lparr>Svc_Printed := Svc_Printed u @ [(now, formatRecoveryCode code)]\<rparr>)
      (\<lambda>_. codes_spaced T P)"
    by (rule print_triple) (simp_all add: may_issue_spaced)
  show "triple (\<lambda>t. \<exists>u. may_issue T P now u
        \<and> t = u\<lparr>Svc_Printed := Svc_Printed u @ [(now, formatRecoveryCode code)]\<rparr>)
      (modify (\<lambda>s. s\<lparr>Svc_Recovery := \<lparr> Rc_Code = code,
             Rc_ExpiresAt = now + recoveryCodeTTL, Rc_Failures = 0, Rc_IssuedAt = now \<rparr>\<rparr>))
      (\<lambda>_. codes_spaced T P) (\<lambda>_. codes_spaced T P)"
    by (rule triple_modify) (auto simp: may_issue_def intro!: issue_keeps)
  show "triple (codes_spaced T P) (audit publicCaller [(AuditActionIssueRecoveryCode, [])]) (\<lambda>_. codes_spaced T P) (\<lambda>_. codes_spaced T P)"
    by (rule keeps_as_triple) simp_all
  show "triple (codes_spaced T P) (gets (\<lambda>s. (True, Rc_ExpiresAt (Svc_Recovery s))))
      (\<lambda>_. codes_spaced T P) (\<lambda>_. codes_spaced T P)"
    by (rule triple_gets)
qed

text \<open>A request either issues a code or leaves the state alone.\<close>

definition code_due :: "access_service \<Rightarrow> bool" where
  "code_due s \<longleftrightarrow> Snap_Mode (A_Snapshot s) = ModeToken \<and> \<not> recovery_live (Svc_Recovery s) (A_Now s)
     \<and> Rc_IssuedAt (Svc_Recovery s) + recoveryIssueInterval \<le> A_Now s"

lemma request_due: "code_due s \<Longrightarrow> RequestRecovery s = issueRecoveryCode (A_Now s) s"
  by (simp add: RequestRecovery_def code_due_def reads_def Let_def requireMode_def andthen_def
      lift_out_def)

lemma request_not_due: "\<not> code_due s \<Longrightarrow> snd (RequestRecovery s) = s"
  by (auto simp: RequestRecovery_def code_due_def reads_def Let_def requireMode_def andthen_def
      lift_out_def ret_def raise_def split: access_mode.splits)

lemma request_spaced: "keeps (codes_spaced T P) RequestRecovery"
proof (unfold keeps_def, intro allI impI)
  fix s assume s: "codes_spaced T P s"
  show "codes_spaced T P (snd (RequestRecovery s))"
  proof (cases "code_due s")
    case True
    then have "may_issue T P (A_Now s) s" using s by (simp add: may_issue_def code_due_def)
    then have "codes_spaced T P (snd (issueRecoveryCode (A_Now s) s))"
      using triple_Inr[OF issue_triple] triple_Inl[OF issue_triple]
      by (cases "issueRecoveryCode (A_Now s) s"; cases "fst (issueRecoveryCode (A_Now s) s)") auto
    then show ?thesis by (simp add: request_due[OF True])
  next
    case False
    then show ?thesis using s by (simp add: request_not_due)
  qed
qed

lemma quiet_code_step:
  assumes "quiet_step C s t" and "codes_spaced T P s" shows "codes_spaced T P t"
  using assms(1,2)
proof (rule codes.quiet_keeps)
  show "codes_spaced T P t" if "t = snd (SignIn C pw s)" for pw
    unfolding that by (rule keepsD[OF codes.sign_in assms(2)])
  show "codes_spaced T P t" if "t = snd (RequestRecovery s)"
    unfolding that by (rule keepsD[OF request_spaced assms(2)])
qed

lemma quiet_codes: "(quiet_step C)\<^sup>*\<^sup>* s t \<Longrightarrow> codes_spaced T P s \<Longrightarrow> codes_spaced T P t"
  by (induction rule: rtranclp_induct) (auto intro: quiet_code_step)

subsection \<open>Successful calls\<close>

lemma wrap_err_Inr [simp]: "wrap_err w m s = (Inr a, t) \<longleftrightarrow> m s = (Inr a, t)"
  by (auto simp: wrap_err_def handle_Inr)

lemma randomBytes_Inr:
  assumes "randomBytes n s = (Inr b, t)"
  shows "length b = n \<and> (\<exists>ds. t = s\<lparr>Svc_Draws := ds\<rparr>)"
  using assms by (auto simp: randomBytes_def split: list.splits sum.splits)

lemma hashPassword_Inr:
  assumes "hashPassword C randomBytes pw s = (Inr h, t)"
  obtains salt ds where "length salt = 16" "h = hash_text C pw salt" "t = s\<lparr>Svc_Draws := ds\<rparr>"
proof -
  from assms obtain b where b: "randomBytes 16 s = (Inr b, t)" "h = hash_text C pw b"
    by (auto simp: hashPassword_def argonSaltBytes_def handle_Inr)
  then show thesis using randomBytes_Inr[OF b(1)] that by blast
qed

lemma newSession_Inr:
  assumes "newSession C randomBytes now s = (Inr (i, ses), t)"
  obtains ds where "sessionIDHash C i = Some (Ses_IDHash ses)" "Ses_LastSeenAt ses = now"
    "Ses_CreatedAt ses = now" "Ses_ExpiresAt ses = now + sessionLifetime" "t = s\<lparr>Svc_Draws := ds\<rparr>"
proof -
  from assms obtain b where b: "randomBytes 32 s = (Inr b, t)" "i = b64_encode b"
    "ses = \<lparr> Ses_IDHash = C_Sum256 C b, Ses_CreatedAt = now, Ses_LastSeenAt = now,
       Ses_ExpiresAt = now + sessionLifetime \<rparr>"
    by (auto simp: newSession_def sessionIDBytes_def handle_Inr)
  then show thesis using randomBytes_Inr[OF b(1)] that by (auto simp: sessionIDHash_new)
qed

lemma audit_Inr: "audit c es s = (Inr a, t) \<Longrightarrow> \<exists>fs u. t = s\<lparr>A_Faults := fs, Svc_Audited := u\<rparr>"
proof (induction es arbitrary: s rule: audit.induct)
  case (1 c)
  then have "t = s\<lparr>A_Faults := A_Faults s, Svc_Audited := Svc_Audited s\<rparr>" by (simp add: audit.simps)
  then show ?case by blast
next
  case (2 c action detail rest)
  from 2(2) obtain u where u: "io_call (modify (\<lambda>s. s\<lparr>Svc_Audited := Svc_Audited s @ [(action, detail, c)]\<rparr>)) s
      = (Inr (), u)" "audit c rest u = (Inr a, t)"
    by (auto simp: audit.simps andthen_Inr)
  from u(1) obtain fs where "u = s\<lparr>A_Faults := fs, Svc_Audited := Svc_Audited s @ [(action, detail, c)]\<rparr>"
    by (cases rule: io_call_cases) (auto simp: modify_def)
  then show ?case using 2(1)[OF u(2)] by auto
qed

lemma storedPassword_Inr:
  assumes "storedPassword s = (Inr pw, t)"
  obtains fs where "Db_Credentials (A_Db s) panelPasswordKind = Some (Pw_Hash pw, Pw_SetAt pw)"
    "t = s\<lparr>A_Faults := fs\<rparr>"
proof -
  have "store_PanelPassword s = (Inr pw, t)"
    using assms by (auto simp: storedPassword_def handle_Inr split: if_splits)
  then show thesis unfolding store_PanelPassword_def
  proof (cases rule: io_call_cases)
    case (run fs)
    then show thesis by (intro that[of fs])
      (auto simp: readAccessCredential_def split: option.splits)
  qed simp
qed

lemma checkCurrentPassword_Inr:
  assumes "checkCurrentPassword C pw s = (Inr a, t)"
  obtains hash at' fs where "Db_Credentials (A_Db s) panelPasswordKind = Some (hash, at')"
    "verifyPassword C hash pw = Inr True" "t = s\<lparr>A_Faults := fs\<rparr>"
  using assms by (auto simp: checkCurrentPassword_def andthen_Inr split: if_splits elim!: storedPassword_Inr)

lemma store_ReplacePassword_Inr:
  assumes "store_ReplacePassword pw keep s = (Inr a, t)"
  obtains fs where "Db_Mode (A_Db s) = ModeToken" "t = s\<lparr>A_Db := (A_Db s)\<lparr>
      Db_Credentials := (Db_Credentials (A_Db s))(panelPasswordKind \<mapsto> (Pw_Hash pw, Pw_SetAt pw)),
      Db_Sessions := filter (\<lambda>x. Ses_IDHash x = keep) (Db_Sessions (A_Db s))\<rparr>, A_Faults := fs\<rparr>"
  using assms unfolding store_ReplacePassword_def
  by (elim access_tx_Inr) (auto simp: andthen_Inr putAccessCredential_Inr modify_def)

lemma store_ResetPassword_Inr:
  assumes "store_ResetPassword pw ses s = (Inr a, t)"
  obtains fs where "Db_Mode (A_Db s) = ModeToken" "t = s\<lparr>A_Db := (A_Db s)\<lparr>
      Db_Credentials := (Db_Credentials (A_Db s))(panelPasswordKind \<mapsto> (Pw_Hash pw, Pw_SetAt pw)),
      Db_Sessions := [ses]\<rparr>, A_Faults := fs\<rparr>"
  using assms unfolding store_ResetPassword_def
  by (elim access_tx_Inr)
     (auto simp: andthen_Inr putAccessCredential_Inr storeSession_Inr live_after_def modify_def)

text \<open>The database after a new password: its hash, the sessions that are left, the tokens.\<close>

definition password_replaced ::
  "crypto \<Rightarrow> string \<Rightarrow> session list \<Rightarrow> access_db \<Rightarrow> access_db \<Rightarrow> bool" where
  "password_replaced C pw sess d d' \<longleftrightarrow>
     (\<exists>hash at'. verifyPassword C hash pw = Inr True
        \<and> d' = d\<lparr>Db_Credentials := (Db_Credentials d)(panelPasswordKind \<mapsto> (hash, at')),
               Db_Sessions := sess\<rparr>)"

lemma change_password_result:
  assumes "crypto_ok C" and "ChangePassword C ctx cookie cur pw s = (Inr a, t)"
  shows "\<exists>keep. sessionIDHash C cookie = Some keep
    \<and> password_replaced C pw (filter (\<lambda>x. Ses_IDHash x = keep) (Db_Sessions (A_Db s))) (A_Db s) (A_Db t)
    \<and> Rc_Code (Svc_Recovery t) = []
    \<and> (\<exists>hash at'. Db_Credentials (A_Db s) panelPasswordKind = Some (hash, at')
        \<and> verifyPassword C hash cur = Inr True)"
proof -
  from assms(2) obtain keep u1 u2 u3 hash u4 u5 c where
    k: "sessionIDHash C cookie = Some keep" and
    u: "checkCurrentPassword C cur s = (Inr (), u1)" "hashPassword C randomBytes pw u1 = (Inr hash, u2)"
       "store_ReplacePassword \<lparr> Pw_Hash = hash, Pw_SetAt = A_Now s \<rparr> keep u2 = (Inr (), u3)"
       "burnRecoveryCode u3 = (Inr (), u4)" "audit c [(AuditActionSetPanelPassword, [])] u4 = (Inr a, t)"
    by (auto simp: ChangePassword_def callerFrom_def andthen_Inr reads_def split: option.splits)
  obtain h0 at0 fs1 where h0: "Db_Credentials (A_Db s) panelPasswordKind = Some (h0, at0)"
    "verifyPassword C h0 cur = Inr True" "u1 = s\<lparr>A_Faults := fs1\<rparr>"
    using u(1) by (rule checkCurrentPassword_Inr)
  obtain salt ds where h: "length salt = 16" "hash = hash_text C pw salt" "u2 = u1\<lparr>Svc_Draws := ds\<rparr>"
    using u(2) by (rule hashPassword_Inr)
  have v: "verifyPassword C hash pw = Inr True" unfolding h(2) by (simp add: verify_hash_text assms(1) h(1))
  obtain fs3 where u3: "u3 = u2\<lparr>A_Db := (A_Db u2)\<lparr>
      Db_Credentials := (Db_Credentials (A_Db u2))(panelPasswordKind \<mapsto> (hash, A_Now s)),
      Db_Sessions := filter (\<lambda>x. Ses_IDHash x = keep) (Db_Sessions (A_Db u2))\<rparr>, A_Faults := fs3\<rparr>"
    using u(3) by (rule store_ReplacePassword_Inr) simp
  obtain fs5 au where t: "t = u4\<lparr>A_Faults := fs5, Svc_Audited := au\<rparr>" using audit_Inr[OF u(5)] by blast
  have u4: "u4 = u3\<lparr>Svc_Recovery := no_recovery\<lparr>Rc_IssuedAt := Rc_IssuedAt (Svc_Recovery u3)\<rparr>\<rparr>"
    using u(4) by (simp add: burnRecoveryCode_def modify_def)
  show ?thesis
    using k h0(1,2) v by (auto simp: t u4 u3 h(3) h0(3) password_replaced_def no_recovery_def)
qed

lemma reset_password_result:
  assumes "crypto_ok C" and "ResetWithRecoveryCode C code pw s = (Inr i, t)"
  shows "\<exists>ses. sessionIDHash C i = Some (Ses_IDHash ses) \<and> Ses_LastSeenAt ses = A_Now s
    \<and> Ses_ExpiresAt ses = A_Now s + sessionLifetime
    \<and> password_replaced C pw [ses] (A_Db s) (A_Db t)
    \<and> Rc_Code (Svc_Recovery t) = []
    \<and> recovery_live (Svc_Recovery s) (A_Now s)
    \<and> normalizeRecoveryCode C code = Rc_Code (Svc_Recovery s)"
proof -
  have no: "wrong_code x \<noteq> (Inr y, z)" for x y z
    by (auto simp: wrong_code_def andthen_Inr reads_def)
  from assms(2) obtain ses u1 u2 u3 hash u4 where
    g: "recovery_live (Svc_Recovery s) (A_Now s)"
       "normalizeRecoveryCode C code = Rc_Code (Svc_Recovery s)" and
    u: "hashPassword C randomBytes pw s = (Inr hash, u1)"
       "newSession C randomBytes (A_Now s) u1 = (Inr (i, ses), u2)"
       "store_ResetPassword \<lparr> Pw_Hash = hash, Pw_SetAt = A_Now s \<rparr> ses u2 = (Inr (), u3)"
       "burnRecoveryCode u3 = (Inr (), u4)"
       "audit publicCaller [(AuditActionUseRecoveryCode, []), (AuditActionSetPanelPassword, [])] u4
          = (Inr (), t)"
    by (auto simp: ResetWithRecoveryCode_def andthen_Inr reads_def Let_def secretsEqual_def no
        split: if_splits prod.splits)
  obtain salt ds where h: "length salt = 16" "hash = hash_text C pw salt" "u1 = s\<lparr>Svc_Draws := ds\<rparr>"
    using u(1) by (rule hashPassword_Inr)
  have v: "verifyPassword C hash pw = Inr True" unfolding h(2) by (simp add: verify_hash_text assms(1) h(1))
  obtain ds2 where n: "sessionIDHash C i = Some (Ses_IDHash ses)" "Ses_LastSeenAt ses = A_Now s"
    "Ses_ExpiresAt ses = A_Now s + sessionLifetime" "u2 = u1\<lparr>Svc_Draws := ds2\<rparr>"
    using u(2) by (rule newSession_Inr)
  obtain fs3 where u3: "u3 = u2\<lparr>A_Db := (A_Db u2)\<lparr>
      Db_Credentials := (Db_Credentials (A_Db u2))(panelPasswordKind \<mapsto> (hash, A_Now s)),
      Db_Sessions := [ses]\<rparr>, A_Faults := fs3\<rparr>"
    using u(3) by (rule store_ResetPassword_Inr) simp
  obtain fs5 au where t: "t = u4\<lparr>A_Faults := fs5, Svc_Audited := au\<rparr>" using audit_Inr[OF u(5)] by blast
  have u4: "u4 = u3\<lparr>Svc_Recovery := no_recovery\<lparr>Rc_IssuedAt := Rc_IssuedAt (Svc_Recovery u3)\<rparr>\<rparr>"
    using u(4) by (simp add: burnRecoveryCode_def modify_def)
  show ?thesis
    using g v n(1-3) by (auto simp: t u4 u3 h(3) n(4) password_replaced_def no_recovery_def)
qed

subsection \<open>Wrong guesses\<close>

text \<open>Attempts to reset the password, each at its own time.\<close>

fun attempts :: "crypto \<Rightarrow> (go_time \<times> string \<times> string) list \<Rightarrow> access_service \<Rightarrow> access_service" where
  "attempts C [] s = s"
| "attempts C ((now, code, pw) # rest) s =
     attempts C rest (snd (ResetWithRecoveryCode C code pw (s\<lparr>A_Now := now\<rparr>)))"

definition guess_of :: "crypto \<Rightarrow> string \<Rightarrow> go_time \<times> string \<times> string \<Rightarrow> bool" where
  "guess_of C code = (\<lambda>(now, guess, pw). validatePassword pw = None
     \<and> normalizeRecoveryCode C guess \<noteq> code)"

lemma recoveryMaxFailures_5: "recoveryMaxFailures = 5"
  by (simp add: recoveryMaxFailures_def)

text \<open>A wrong guess counts, or finds the code dead and forgets it.\<close>

lemma wrong_guess:
  assumes "Snap_Mode (A_Snapshot s) = ModeToken" and "validatePassword pw = None"
    and "normalizeRecoveryCode C guess \<noteq> Rc_Code (Svc_Recovery s)"
  shows "snd (ResetWithRecoveryCode C guess pw s) =
    s\<lparr>Svc_Recovery := (if recovery_live (Svc_Recovery s) (A_Now s) \<and> Rc_Failures (Svc_Recovery s) + 1 < 5
       then (Svc_Recovery s)\<lparr>Rc_Failures := Rc_Failures (Svc_Recovery s) + 1\<rparr>
       else no_recovery\<lparr>Rc_IssuedAt := Rc_IssuedAt (Svc_Recovery s)\<rparr>)\<rparr>"
  using assms
  by (simp add: ResetWithRecoveryCode_def op_defs requireMode_def Let_def secretsEqual_def
      wrong_code_def burnRecoveryCode_def recoveryMaxFailures_5)

lemma dead_code_attempt:
  assumes "Snap_Mode (A_Snapshot s) = ModeToken" and "Rc_Code (Svc_Recovery s) = []"
    and "validatePassword pw = None"
  shows "ResetWithRecoveryCode C guess pw s = (Inl errNoRecoveryCode,
    s\<lparr>Svc_Recovery := no_recovery\<lparr>Rc_IssuedAt := Rc_IssuedAt (Svc_Recovery s)\<rparr>\<rparr>)"
  using assms
  by (simp add: ResetWithRecoveryCode_def op_defs requireMode_def Let_def recovery_live_def
      burnRecoveryCode_def)

lemma attempts_dead:
  assumes "Snap_Mode (A_Snapshot s) = ModeToken" and "Rc_Code (Svc_Recovery s) = []"
    and "\<forall>(now, guess, pw)\<in>set xs. validatePassword pw = None"
  shows "Rc_Code (Svc_Recovery (attempts C xs s)) = [] \<and> Snap_Mode (A_Snapshot (attempts C xs s)) = ModeToken"
  using assms
proof (induction xs arbitrary: s)
  case (Cons x xs)
  obtain now guess pw where x: "x = (now, guess, pw)" by (cases x)
  have "snd (ResetWithRecoveryCode C guess pw (s\<lparr>A_Now := now\<rparr>)) = s\<lparr>A_Now := now,
      Svc_Recovery := no_recovery\<lparr>Rc_IssuedAt := Rc_IssuedAt (Svc_Recovery s)\<rparr>\<rparr>"
    using Cons.prems x by (subst dead_code_attempt) auto
  then show ?case using Cons x by (auto simp: no_recovery_def)
qed simp

lemma attempts_wrong:
  assumes "Snap_Mode (A_Snapshot s) = ModeToken" and "Rc_Code (Svc_Recovery s) \<noteq> []"
    and "\<forall>x\<in>set xs. guess_of C (Rc_Code (Svc_Recovery s)) x"
    and "5 \<le> Rc_Failures (Svc_Recovery s) + length xs" and "Rc_Failures (Svc_Recovery s) < 5"
  shows "Rc_Code (Svc_Recovery (attempts C xs s)) = [] \<and> Snap_Mode (A_Snapshot (attempts C xs s)) = ModeToken"
  using assms
proof (induction xs arbitrary: s)
  case (Cons x xs)
  obtain now guess pw where x: "x = (now, guess, pw)" by (cases x)
  define r where "r = Svc_Recovery s"
  define u where "u = snd (ResetWithRecoveryCode C guess pw (s\<lparr>A_Now := now\<rparr>))"
  have g: "validatePassword pw = None" "normalizeRecoveryCode C guess \<noteq> Rc_Code r"
    using Cons.prems(3) x by (auto simp: guess_of_def r_def)
  have u: "u = s\<lparr>A_Now := now, Svc_Recovery := (if recovery_live r now \<and> Rc_Failures r + 1 < 5
       then r\<lparr>Rc_Failures := Rc_Failures r + 1\<rparr> else no_recovery\<lparr>Rc_IssuedAt := Rc_IssuedAt r\<rparr>)\<rparr>"
    unfolding u_def r_def using g Cons.prems(1) by (subst wrong_guess) (simp_all add: r_def)
  show ?case
  proof (cases "recovery_live r now \<and> Rc_Failures r + 1 < 5")
    case True
    then have "Rc_Code (Svc_Recovery u) = Rc_Code r" "Rc_Failures (Svc_Recovery u) = Rc_Failures r + 1"
      by (simp_all add: u)
    moreover have "Snap_Mode (A_Snapshot u) = ModeToken" using Cons.prems(1) by (simp add: u)
    ultimately have "Rc_Code (Svc_Recovery (attempts C xs u)) = []
        \<and> Snap_Mode (A_Snapshot (attempts C xs u)) = ModeToken"
      using True Cons.prems by (intro Cons.IH) (auto simp: r_def)
    then show ?thesis by (simp add: x u_def)
  next
    case False
    then have "Rc_Code (Svc_Recovery u) = []" "Snap_Mode (A_Snapshot u) = ModeToken"
      using Cons.prems(1) by (auto simp: u no_recovery_def)
    then have "Rc_Code (Svc_Recovery (attempts C xs u)) = []
        \<and> Snap_Mode (A_Snapshot (attempts C xs u)) = ModeToken"
      using Cons.prems(3) by (intro attempts_dead) (auto simp: guess_of_def)
    then show ?thesis by (simp add: x u_def)
  qed
qed simp

subsection \<open>Who is admitted\<close>

text \<open>
  The credential each surface asks for, in the words of the documentation: nothing in open
  mode, a setup route of the panel during setup, and in token mode the surface's own token or a
  live session.
\<close>

definition admitted :: "crypto \<Rightarrow> access_db \<Rightarrow> go_time \<Rightarrow> access_request \<Rightarrow> bool" where
  "admitted C d now r \<longleftrightarrow> (case Req_Surface r of
      Some SourceAPI \<Rightarrow> Db_Mode d = ModeOpen
        \<or> Db_Mode d = ModeToken \<and> bearerToken r = Some (credential d apiTokenKind)
    | Some SourceMCP \<Rightarrow> Db_Mode d = ModeOpen
        \<or> Db_Mode d = ModeToken \<and> bearerToken r = Some (credential d agentTokenKind)
    | Some SourcePanel \<Rightarrow> Db_Mode d = ModeSetup \<and> Req_DuringSetup r \<or> Db_Mode d = ModeOpen
        \<or> Db_Mode d = ModeToken \<and> (\<exists>h x. sessionIDHash C (sessionCookieValue r) = Some h
            \<and> x \<in> set (Db_Sessions d) \<and> Ses_IDHash x = h \<and> session_live x now)
    | _ \<Rightarrow> False)"

lemma token_mode_credential: "credentials_ok d \<Longrightarrow> Db_Mode d = ModeToken \<Longrightarrow> credential d k \<noteq> []"
proof -
  assume "credentials_ok d" "Db_Mode d = ModeToken"
  then have "\<forall>k. \<exists>v at'. Db_Credentials d k = Some (v, at') \<and> v \<noteq> []" by (simp add: credentials_ok_def)
  then obtain v at' where "Db_Credentials d k = Some (v, at')" "v \<noteq> []" by blast
  then show ?thesis by (simp add: credential_def)
qed

lemma CheckToken_token_mode:
  assumes "store_ok s" and "Db_Mode (A_Db s) = ModeToken"
  shows "CheckToken TokenAPI p s = ((if p = credential (A_Db s) apiTokenKind then Inr ()
      else if p = credential (A_Db s) agentTokenKind then Inl errAgentTokenOnAPI
      else Inl errTokenNotAccepted), s)"
    and "CheckToken TokenAgent p s = ((if p = credential (A_Db s) agentTokenKind then Inr ()
      else if p = credential (A_Db s) apiTokenKind then Inl errAPITokenOnMCP
      else Inl errTokenNotAccepted), s)"
  using assms token_mode_credential[of "A_Db s"]
  by (simp_all add: CheckToken_def store_ok_def wf_access_def snapshot_of_def Let_def op_defs
      snapshot_token_def secretsEqual_def)

lemma find_session_Some:
  assumes "distinct (map Ses_IDHash xs)"
  shows "find_session h xs = Some x \<longleftrightarrow> x \<in> set xs \<and> Ses_IDHash x = h"
proof
  assume "find_session h xs = Some x"
  then show "x \<in> set xs \<and> Ses_IDHash x = h"
    unfolding find_session_def find_Some_iff by auto
next
  assume x: "x \<in> set xs \<and> Ses_IDHash x = h"
  then obtain y where y: "find_session h xs = Some y"
    by (cases "find_session h xs") (auto simp: find_session_def find_None_iff)
  then have "y \<in> set xs" "Ses_IDHash y = h"
    unfolding find_session_def find_Some_iff by auto
  then have "y = x" using assms x by (auto simp: distinct_map inj_on_def)
  then show "find_session h xs = Some x" using y by simp
qed

lemma store_Session_Inr:
  "store_Session h s = (Inr x, t) \<Longrightarrow>
   find_session h (Db_Sessions (A_Db s)) = Some x \<and> (\<exists>fs. t = s\<lparr>A_Faults := fs\<rparr>)"
  unfolding store_Session_def by (erule io_call_cases) (auto split: option.splits)

lemma check_session_row_Inr:
  "check_session_row h x s = (Inr a, t) \<Longrightarrow> session_live x (A_Now s)"
  by (auto simp: check_session_row_def reads_def Let_def andthen_Inr split: if_splits)

lemma CheckSession_Inr:
  assumes "store_ok s" and "CheckSession C cookie s = (Inr a, t)"
  shows "Db_Mode (A_Db s) = ModeToken \<and> (\<exists>h x. sessionIDHash C cookie = Some h
    \<and> x \<in> set (Db_Sessions (A_Db s)) \<and> Ses_IDHash x = h \<and> session_live x (A_Now s))"
proof -
  from assms obtain h x u where m: "Db_Mode (A_Db s) = ModeToken" and
    u: "sessionIDHash C cookie = Some h" "store_Session h s = (Inr x, u)"
       "check_session_row h x u = (Inr a, t)"
    by (auto simp: CheckSession_def reads_def store_ok_def snapshot_of_def handle_Inr
        split: access_mode.splits option.splits if_splits)
  have "x \<in> set (Db_Sessions (A_Db s))" "Ses_IDHash x = h"
    using store_Session_Inr[OF u(2)] find_session_Some[of "Db_Sessions (A_Db s)" h x] assms(1)
    by (auto simp: store_ok_def wf_access_def)
  moreover have "session_live x (A_Now s)"
    using store_Session_Inr[OF u(2)] check_session_row_Inr[OF u(3)] by auto
  ultimately show ?thesis using m u(1) by blast
qed

lemma CheckSession_live:
  assumes "store_ok s" and "Db_Mode (A_Db s) = ModeToken" and "A_Faults s = []"
    and "sessionIDHash C cookie = Some (Ses_IDHash x)" and "x \<in> set (Db_Sessions (A_Db s))"
    and "session_live x (A_Now s)"
  shows "fst (CheckSession C cookie s) = Inr ()"
proof -
  have "find_session (Ses_IDHash x) (Db_Sessions (A_Db s)) = Some x"
    using assms find_session_Some[of "Db_Sessions (A_Db s)" "Ses_IDHash x" x]
    by (auto simp: store_ok_def wf_access_def)
  then show ?thesis
    using assms
    by (simp add: CheckSession_def op_defs store_ok_def snapshot_of_def store_Session_def
        check_session_row_def store_TouchSession_def Let_def)
qed

lemma mode_cases_ok: "wf_access d \<Longrightarrow> Db_Mode d = ModeSetup \<or> Db_Mode d = ModeOpen \<or> Db_Mode d = ModeToken"
  by (cases "Db_Mode d") (auto simp: wf_access_def credentials_ok_def)

lemma resolveBearer_Inr:
  assumes "store_ok s" and "Db_Mode (A_Db s) = ModeToken"
  shows "fst (resolveBearer r TokenAPI s) = Inr c \<longleftrightarrow>
      c = operator_caller \<and> bearerToken r = Some (credential (A_Db s) apiTokenKind)"
    and "fst (resolveBearer r TokenAgent s) = Inr c \<longleftrightarrow>
      c = operator_caller \<and> bearerToken r = Some (credential (A_Db s) agentTokenKind)"
  by (auto simp: resolveBearer_def handle_def CheckToken_token_mode[OF assms] ret_def raise_def
      split: option.splits)

lemma ResolveCaller_sound:
  assumes "store_ok s" and "fst (ResolveCaller C r s) = Inr c"
  shows "c = operator_caller \<and> admitted C (A_Db s) (A_Now s) r"
proof -
  have snap: "Snap_Mode (A_Snapshot s) = Db_Mode (A_Db s)"
    using assms(1) by (simp add: store_ok_def snapshot_of_def)
  obtain surface where f: "Req_Surface r = Some surface" "surface \<in> {SourceAPI, SourceMCP, SourcePanel}"
    using assms(2) by (auto simp: ResolveCaller_def raise_def split: option.splits if_splits)
  consider "Db_Mode (A_Db s) = ModeSetup" | "Db_Mode (A_Db s) = ModeOpen" | "Db_Mode (A_Db s) = ModeToken"
    using mode_cases_ok assms(1) by (auto simp: store_ok_def)
  then show ?thesis
  proof cases
    case 3
    show ?thesis
    proof (cases "surface = SourcePanel")
      case True
      then have "fst (resolveSession C r s) = Inr c"
        using assms(2) f 3 snap by (simp add: ResolveCaller_def reads_def)
      then obtain t where "CheckSession C (sessionCookieValue r) s = (Inr (), t)" "c = operator_caller"
        by (auto simp: resolveSession_def andthen_def ret_def split: prod.splits sum.splits)
      then show ?thesis using CheckSession_Inr[OF assms(1)] f True by (auto simp: admitted_def)
    next
      case False
      then show ?thesis
        using assms(2) f 3 snap resolveBearer_Inr[OF assms(1) 3]
        by (auto simp: ResolveCaller_def reads_def admitted_def split: if_splits)
    qed
  qed (use assms(2) f snap in \<open>auto simp: ResolveCaller_def op_defs admitted_def split: if_splits\<close>)
qed

lemma ResolveCaller_complete:
  assumes "store_ok s" and "A_Faults s = []" and "admitted C (A_Db s) (A_Now s) r"
  shows "fst (ResolveCaller C r s) = Inr operator_caller"
proof -
  have snap: "Snap_Mode (A_Snapshot s) = Db_Mode (A_Db s)"
    using assms(1) by (simp add: store_ok_def snapshot_of_def)
  obtain surface where f: "Req_Surface r = Some surface" "surface \<in> {SourceAPI, SourceMCP, SourcePanel}"
    using assms(3) by (auto simp: admitted_def split: option.splits source.splits)
  consider "Db_Mode (A_Db s) = ModeSetup" | "Db_Mode (A_Db s) = ModeOpen" | "Db_Mode (A_Db s) = ModeToken"
    using mode_cases_ok assms(1) by (auto simp: store_ok_def)
  then show ?thesis
  proof cases
    case 3
    show ?thesis
    proof (cases "surface = SourcePanel")
      case True
      then obtain x where "sessionIDHash C (sessionCookieValue r) = Some (Ses_IDHash x)"
        "x \<in> set (Db_Sessions (A_Db s))" "session_live x (A_Now s)"
        using assms(3) f 3 by (auto simp: admitted_def)
      then have "fst (CheckSession C (sessionCookieValue r) s) = Inr ()"
        by (rule CheckSession_live[OF assms(1) 3 assms(2)])
      then have "fst (resolveSession C r s) = Inr operator_caller"
        by (auto simp: resolveSession_def andthen_def ret_def split: prod.splits sum.splits)
      then show ?thesis using True f 3 snap by (simp add: ResolveCaller_def reads_def)
    next
      case False
      then show ?thesis
        using assms(3) f 3 snap resolveBearer_Inr[OF assms(1) 3]
        by (auto simp: ResolveCaller_def reads_def admitted_def)
    qed
  qed (use assms(3) f snap in \<open>auto simp: ResolveCaller_def op_defs admitted_def\<close>)
qed

lemma ended_session_deleted:
  assumes "store_ok s" and "Db_Mode (A_Db s) = ModeToken" and "A_Faults s = []"
    and "sessionIDHash C cookie = Some (Ses_IDHash x)" and "x \<in> set (Db_Sessions (A_Db s))"
    and "\<not> session_live x (A_Now s)"
  shows "CheckSession C cookie s = (Inl errSessionEnded,
    s\<lparr>A_Db := set_sessions (filter (\<lambda>y. Ses_IDHash y \<noteq> Ses_IDHash x)) (A_Db s)\<rparr>)"
proof -
  have "find_session (Ses_IDHash x) (Db_Sessions (A_Db s)) = Some x"
    using assms find_session_Some[of "Db_Sessions (A_Db s)" "Ses_IDHash x" x]
    by (auto simp: store_ok_def wf_access_def)
  then show ?thesis
    using assms
    by (simp add: CheckSession_def op_defs store_ok_def snapshot_of_def store_Session_def
        check_session_row_def store_DeleteSession_def wrap_err_def Let_def)
qed

subsection \<open>A printed code works\<close>

definition code_of :: "string \<Rightarrow> string" where
  "code_of b = map recovery_char (take 12 (b @ replicate 12 (CHR 0x00)))"

lemma code_of: "set (code_of b) \<subseteq> set recoveryAlphabet" "code_of b \<noteq> []"
  using recovery_char_in by (auto simp: code_of_def)

lemma audit_run:
  "A_Faults s = [] \<Longrightarrow> audit c es s =
     (Inr (), s\<lparr>Svc_Audited := Svc_Audited s @ map (\<lambda>(action, detail). (action, detail, c)) es\<rparr>)"
proof (induction es arbitrary: s rule: audit.induct)
  case (2 c action detail rest)
  then show ?case by (simp add: audit.simps wrap_err_def op_defs)
qed (simp add: audit.simps ret_def)

lemma issue_run:
  assumes "A_Faults s = []" and "Svc_Draws s = Inr b # ds"
  shows "issueRecoveryCode now s = (Inr (True, now + recoveryCodeTTL),
    s\<lparr>Svc_Draws := ds, Svc_Printed := Svc_Printed s @ [(now, formatRecoveryCode (code_of b))],
      Svc_Recovery := \<lparr> Rc_Code = code_of b, Rc_ExpiresAt = now + recoveryCodeTTL, Rc_Failures = 0,
        Rc_IssuedAt = now \<rparr>,
      Svc_Audited := Svc_Audited s @ [(AuditActionIssueRecoveryCode, [], publicCaller)]\<rparr>)"
  using assms
  by (simp add: issueRecoveryCode_def newRecoveryCode_def randomBytes_def recoveryCodeChars_def
      op_defs wrap_err_def audit_run code_of_def)

lemma hash_text_nonempty: "hash_text C pw salt \<noteq> []"
  by (simp add: hash_text_def phcPrefix_def)

lemma reset_run:
  assumes "A_Faults s = []" and "Svc_Draws s = Inr b1 # Inr b2 # ds"
    and "store_ok s" and "Db_Mode (A_Db s) = ModeToken" and "validatePassword pw = None"
    and "recovery_live (Svc_Recovery s) (A_Now s)"
    and "normalizeRecoveryCode C code = Rc_Code (Svc_Recovery s)"
  shows "\<exists>i t. ResetWithRecoveryCode C code pw s = (Inr i, t) \<and> A_Faults t = [] \<and> A_Now t = A_Now s"
  using assms
  by (simp add: ResetWithRecoveryCode_def op_defs requireMode_def store_ok_def snapshot_of_def Let_def
      secretsEqual_def hashPassword_def newSession_def randomBytes_def wrap_err_def
      store_ResetPassword_def access_tx_def putAccessCredential_def storeSession_def
      hash_text_nonempty burnRecoveryCode_def audit_run)

lemma CheckSession_fresh:
  assumes "store_ok s" and "Db_Mode (A_Db s) = ModeToken" and "A_Faults s = []"
    and "sessionIDHash C cookie = Some (Ses_IDHash x)" and "x \<in> set (Db_Sessions (A_Db s))"
    and "session_live x (A_Now s)" and "Ses_LastSeenAt x = A_Now s"
  shows "CheckSession C cookie s = (Inr (), s)"
proof -
  have "find_session (Ses_IDHash x) (Db_Sessions (A_Db s)) = Some x"
    using assms find_session_Some[of "Db_Sessions (A_Db s)" "Ses_IDHash x" x]
    by (auto simp: store_ok_def wf_access_def)
  then show ?thesis
    using assms
    by (simp add: CheckSession_def op_defs store_ok_def snapshot_of_def store_Session_def
        check_session_row_def Let_def sessionTouchInterval_def one_second_def)
qed

lemma printed_code_resets:
  assumes C: "crypto_ok C" and s: "store_ok s" and m: "Db_Mode (A_Db s) = ModeToken"
    and f: "A_Faults s = []" and due: "code_due s"
    and d: "Svc_Draws s = Inr b1 # Inr b2 # Inr b3 # ds" and pw: "validatePassword pw = None"
    and l: "A_Now s \<le> later" "later < A_Now s + recoveryCodeTTL"
  shows "\<exists>u i v. RequestRecovery s = (Inr (True, A_Now s + recoveryCodeTTL), u)
    \<and> ResetWithRecoveryCode C (snd (last (Svc_Printed u))) pw (u\<lparr>A_Now := later\<rparr>) = (Inr i, v)
    \<and> CheckSession C i v = (Inr (), v)
    \<and> (\<exists>hash at'. Db_Credentials (A_Db v) panelPasswordKind = Some (hash, at')
        \<and> verifyPassword C hash pw = Inr True)"
proof -
  define u where "u = s\<lparr>Svc_Draws := Inr b2 # Inr b3 # ds,
      Svc_Printed := Svc_Printed s @ [(A_Now s, formatRecoveryCode (code_of b1))],
      Svc_Recovery := \<lparr> Rc_Code = code_of b1, Rc_ExpiresAt = A_Now s + recoveryCodeTTL,
        Rc_Failures = 0, Rc_IssuedAt = A_Now s \<rparr>,
      Svc_Audited := Svc_Audited s @ [(AuditActionIssueRecoveryCode, [], publicCaller)]\<rparr>"
  have r: "RequestRecovery s = (Inr (True, A_Now s + recoveryCodeTTL), u)"
    unfolding request_due[OF due] issue_run[OF f d] u_def by simp
  have p: "snd (last (Svc_Printed u)) = formatRecoveryCode (code_of b1)" by (simp add: u_def)
  let ?w = "u\<lparr>A_Now := later\<rparr>"
  have w: "store_ok ?w" using s by (simp add: u_def)
  have "\<exists>i t. ResetWithRecoveryCode C (formatRecoveryCode (code_of b1)) pw ?w = (Inr i, t)
      \<and> A_Faults t = [] \<and> A_Now t = A_Now ?w"
    by (rule reset_run[of _ b2 b3 ds])
       (use w m f pw l code_of normalize_formatted[OF C code_of(1)] in
         \<open>simp_all add: u_def recovery_live_def\<close>)
  then obtain i v where v: "ResetWithRecoveryCode C (formatRecoveryCode (code_of b1)) pw ?w = (Inr i, v)"
    "A_Faults v = []" "A_Now v = later" by auto
  obtain ses where ses: "sessionIDHash C i = Some (Ses_IDHash ses)" "Ses_LastSeenAt ses = later"
    "Ses_ExpiresAt ses = later + sessionLifetime" "password_replaced C pw [ses] (A_Db ?w) (A_Db v)"
    using reset_password_result[OF C v(1)] by auto
  have ok: "store_ok v" using keepsD[OF consistent.reset w, of C "formatRecoveryCode (code_of b1)" pw] v(1) by simp
  have "CheckSession C i v = (Inr (), v)"
    by (rule CheckSession_fresh[OF ok, of _ _ ses])
       (use ses v m in \<open>auto simp: password_replaced_def u_def session_live_def sessionLifetime_def
          sessionIdleTimeout_def one_second_def\<close>)
  moreover have "\<exists>hash at'. Db_Credentials (A_Db v) panelPasswordKind = Some (hash, at')
      \<and> verifyPassword C hash pw = Inr True"
    using ses(4) by (auto simp: password_replaced_def)
  ultimately show ?thesis using r v(1) p by auto
qed

subsection \<open>Facts of the properties\<close>

lemma consistent_facts:
  assumes "wf_access d"
  shows "(Db_Mode d = ModeToken \<longrightarrow> (\<forall>k. credential d k \<noteq> []))
    \<and> (Db_Mode d \<noteq> ModeToken \<longrightarrow> Db_Credentials d = Map.empty \<and> Db_Sessions d = [])
    \<and> (Db_Mode d = ModeSetup \<longleftrightarrow> Db_CompletedAt d = None)
    \<and> Db_Mode d \<in> {ModeSetup, ModeOpen, ModeToken}
    \<and> distinct (map Ses_IDHash (Db_Sessions d))"
  using assms token_mode_credential[of d]
  by (cases "Db_Mode d") (simp_all add: wf_access_def credentials_ok_def)

lemma completed_steps:
  assumes "store_ok s" and "Db_CompletedAt (A_Db s) = Some x" and "(access_step C)\<^sup>*\<^sup>* s t"
  shows "Db_CompletedAt (A_Db t) = Some x \<and> Snap_Mode (A_Snapshot t) \<in> {ModeOpen, ModeToken}
    \<and> WhileInSetup f t = (Inl (Sentinel ErrSetupComplete), t)
    \<and> SetupState t = (Inl (Sentinel ErrSetupComplete), t)
    \<and> SetSetupStep st t = (Inl (Sentinel ErrSetupComplete), t)
    \<and> DeclineEncryption acknowledged t = (Inl (Sentinel ErrSetupComplete), t)
    \<and> CompleteSetup C ctx mode pw acknowledged t = (Inl (Sentinel ErrSetupComplete), t)"
proof -
  have d: "setup_done x t"
    using completed.steps_keep[OF assms(3), of x] assms(1,2) by (simp add: setup_done_def)
  then have m: "Snap_Mode (A_Snapshot t) = ModeOpen \<or> Snap_Mode (A_Snapshot t) = ModeToken"
    using mode_cases_ok[of "A_Db t"]
    by (auto simp: setup_done_def store_ok_def snapshot_of_def wf_access_def)
  then have q: "requireSetup t = (Inl (Sentinel ErrSetupComplete), t)"
    by (auto simp: requireSetup_def op_defs)
  show ?thesis
    using d m
    by (auto simp: setup_done_def WhileInSetup_def SetupState_def SetSetupStep_def DeclineEncryption_def
        CompleteSetup_def andthen_def q)
qed

text \<open>Only a wrong password is refused with the error of one.\<close>

definition not_refusal :: "'a sop \<Rightarrow> bool" where
  "not_refusal m \<longleftrightarrow> (\<forall>s e t d. m s = (Inl e, t) \<longrightarrow> e \<noteq> RetryAfterError (Sentinel ErrInvalidPassword) d)"

lemma not_refusal_andthen:
  "not_refusal m \<Longrightarrow> (\<And>a. not_refusal (f a)) \<Longrightarrow> not_refusal (andthen m f)"
  by (fastforce simp: not_refusal_def andthen_Inl)

lemma not_refusal_leaf:
  "not_refusal (ret a)" "not_refusal (modify g)" "not_refusal (wrap_err w m)"
  by (auto simp: not_refusal_def ret_def modify_def wrap_err_def handle_Inl raise_def)

lemma not_refusal_password: "not_refusal storedPassword"
  by (auto simp: not_refusal_def storedPassword_def handle_Inl raise_def ret_def split: if_splits)

lemma not_refusal_session: "not_refusal (newSession C randomBytes now)"
  by (auto simp: not_refusal_def newSession_def handle_Inl raise_def ret_def)

lemma not_refusal_verify: "verifyPassword C h q = Inl e \<Longrightarrow> e = errMalformedHash"
  by (auto simp: verifyPassword_def Let_def split: option.splits if_splits prod.splits)

lemma not_refusalD: "not_refusal m \<Longrightarrow> m s \<noteq> (Inl (RetryAfterError (Sentinel ErrInvalidPassword) d), t)"
  unfolding not_refusal_def by blast

lemma requireMode_no_retry: "requireMode a b \<noteq> Some (RetryAfterError e d)"
  by (cases a) (auto simp: requireMode_def err_mode_def)

lemma second_bounds: "0 < one_second" "signInMinDelay \<le> signInMaxDelay" "even signInMaxDelay"
  by (simp_all add: one_second_def signInMinDelay_def signInMaxDelay_def)

lemma wrong_password:
  assumes "SignIn C pw s = (Inl (RetryAfterError (Sentinel ErrInvalidPassword) d), t)"
  shows "Svc_NextSignIn t = A_Now s + d \<and> Svc_SignInFailures t = Svc_SignInFailures s + 1
    \<and> d = documented_delay (Svc_SignInFailures t) one_second (30 * one_second) \<and> one_second \<le> d \<and> d \<le> 30 * one_second"
proof -
  have created: "not_refusal (andthen (modify g) (\<lambda>_. andthen (newSession C randomBytes now) (\<lambda>x.
      case x of (i, ses) \<Rightarrow> andthen (wrap_err w (store_CreateSession ses)) (\<lambda>_. ret i))))" for g now w
    by (intro not_refusal_andthen not_refusal_leaf not_refusal_session)
       (auto intro!: not_refusal_andthen not_refusal_leaf)
  from assms obtain stored u where u: "storedPassword s = (Inr stored, u)"
    and r: "refuse_sign_in (A_Now s) u = (Inl (RetryAfterError (Sentinel ErrInvalidPassword) d), t)"
    using not_refusalD[OF not_refusal_password] not_refusalD[OF created] requireMode_no_retry
    by (auto simp: SignIn_def reads_def Let_def andthen_Inl lift_out_def lift_res_def of_outcome_def
        raise_def errMalformedHash_def
        split: option.splits if_splits dest!: not_refusal_verify)
  have f: "\<exists>fs. u = s\<lparr>A_Faults := fs\<rparr>" using u by (rule storedPassword_Inr) blast
  have d: "d = Delay (Svc_SignInFailures s + 1) signInMinDelay signInMaxDelay"
    and t: "t = u\<lparr>Svc_SignInFailures := Svc_SignInFailures s + 1, Svc_NextSignIn := A_Now s + d\<rparr>"
    using r f by (auto simp: refuse_sign_in_def op_defs Let_def)
  have b: "signInMinDelay \<le> d \<and> d \<le> signInMaxDelay"
    unfolding d by (rule Delay_between) (simp_all add: one_second_def signInMinDelay_def signInMaxDelay_def)
  have "d = documented_delay (Svc_SignInFailures s + 1) signInMinDelay signInMaxDelay"
    unfolding d by (rule Delay_documented) (simp_all add: one_second_def signInMinDelay_def signInMaxDelay_def)
  then show ?thesis using b t by (simp add: signInMinDelay_def signInMaxDelay_def)
qed

subsection \<open>A code that was used stays used\<close>

text \<open>
  \<open>spent P s\<close>: as long as no code was printed beyond \<open>P\<close>, there is no code. Every call keeps it,
  for a code comes to life only after it was printed.
\<close>

definition spent :: "(go_time \<times> string) list \<Rightarrow> access_service \<Rightarrow> bool" where
  "spent P s \<longleftrightarrow> (\<exists>new. Svc_Printed s = P @ new \<and> (new = [] \<longrightarrow> Rc_Code (Svc_Recovery s) = []))"

lemma spent_frame [simp]:
  "spent P (s\<lparr>A_Faults := fs\<rparr>) = spent P s"
  "spent P (s\<lparr>A_Now := now\<rparr>) = spent P s"
  "spent P (s\<lparr>A_Db := d\<rparr>) = spent P s"
  "spent P (s\<lparr>A_Snapshot := snap\<rparr>) = spent P s"
  "spent P (s\<lparr>Svc_SignInFailures := n\<rparr>) = spent P s"
  "spent P (s\<lparr>Svc_NextSignIn := now\<rparr>) = spent P s"
  "spent P (s\<lparr>Svc_Draws := ds\<rparr>) = spent P s"
  "spent P (s\<lparr>Svc_Audited := u\<rparr>) = spent P s"
  "spent P (s\<lparr>Svc_AccountModeChosen := a\<rparr>) = spent P s"
  "spent P (s\<lparr>Svc_FundsLimitModeChosen := a\<rparr>) = spent P s"
  "spent P (s\<lparr>Svc_CredentialsSealed := a\<rparr>) = spent P s"
  by (simp_all add: spent_def)

lemma spent_without_code:
  "spent P s \<Longrightarrow> Rc_Code r = [] \<Longrightarrow> spent P (s\<lparr>Svc_Recovery := r\<rparr>)"
  "spent P s \<Longrightarrow> Rc_Code r = Rc_Code (Svc_Recovery s) \<Longrightarrow> spent P (s\<lparr>Svc_Recovery := r\<rparr>)"
  by (auto simp: spent_def)

interpretation spent: codes_invariant "spent P" for P
proof unfold_locales
  show "keeps (spent P) m" if "access_write want m" for want and m :: "unit sop"
    by (rule access_write_service[OF that]) simp_all
  show "keeps (spent P) (store_SetupState :: setup_state sop)"
    by (rule access_write_service[OF setup_read.access_write_axioms]) simp_all
  show burn: "keeps (spent P) burnRecoveryCode"
    unfolding burnRecoveryCode_def
    by (intro keeps_modify) (rule spent_without_code(1); simp add: no_recovery_def)
  show "keeps (spent P) wrong_code"
    unfolding wrong_code_def
    by (intro keeps_rules keeps_modify burn) (rule spent_without_code(2); simp)
qed simp_all

lemma issue_spent:
  "triple (spent P) (issueRecoveryCode now) (\<lambda>_. spent P) (\<lambda>_. spent P)"
  unfolding issueRecoveryCode_def
proof (intro triple_andthen)
  have "keeps (spent P) (newRecoveryCode randomBytes)" by simp
  then show "triple (spent P) (newRecoveryCode randomBytes) (\<lambda>_. spent P) (\<lambda>_. spent P)"
    by (simp add: keeps_triple)
  fix code
  show "triple (spent P) (wrap_err ''access: write recovery code''
      (io_call (modify (\<lambda>s. s\<lparr>Svc_Printed := Svc_Printed s @ [(now, formatRecoveryCode code)]\<rparr>))))
      (\<lambda>_ t. \<exists>u. spent P u \<and> t = u\<lparr>Svc_Printed := Svc_Printed u @ [(now, formatRecoveryCode code)]\<rparr>)
      (\<lambda>_. spent P)"
    by (rule print_triple) simp_all
  show "triple (\<lambda>t. \<exists>u. spent P u
        \<and> t = u\<lparr>Svc_Printed := Svc_Printed u @ [(now, formatRecoveryCode code)]\<rparr>)
      (modify (\<lambda>s. s\<lparr>Svc_Recovery := \<lparr> Rc_Code = code,
             Rc_ExpiresAt = now + recoveryCodeTTL, Rc_Failures = 0, Rc_IssuedAt = now \<rparr>\<rparr>))
      (\<lambda>_. spent P) (\<lambda>_. spent P)"
    by (rule triple_modify) (auto simp: spent_def)
  show "triple (spent P) (audit publicCaller [(AuditActionIssueRecoveryCode, [])]) (\<lambda>_. spent P) (\<lambda>_. spent P)"
    by (rule keeps_as_triple) simp_all
  show "triple (spent P) (gets (\<lambda>s. (True, Rc_ExpiresAt (Svc_Recovery s)))) (\<lambda>_. spent P) (\<lambda>_. spent P)"
    by (rule triple_gets)
qed

lemma request_spent: "keeps (spent P) RequestRecovery"
proof -
  have "keeps (spent P) (issueRecoveryCode now)" for now
    using issue_spent by (simp add: keeps_triple)
  then show ?thesis
    unfolding RequestRecovery_def Let_def by (intro keeps_rules)
qed

lemma token_mode_spent:
  "keeps (spent P) (SwitchToToken C ctx pw)" "keeps (spent P) (CompleteSetup C ctx mode pw a)"
proof -
  have t: "keeps (spent P) (enableTokenMode C c pw commit)" if "\<And>cr ses. keeps (spent P) (commit cr ses)"
    for c pw commit
    unfolding enableTokenMode_def
    by (intro spent.access_keeps keeps_modify that) (simp_all add: spent_without_code(1) no_recovery_def)
  show "keeps (spent P) (SwitchToToken C ctx pw)"
    unfolding SwitchToToken_def callerFrom_def by (intro spent.access_keeps t) simp_all
  show "keeps (spent P) (CompleteSetup C ctx mode pw a)"
    unfolding CompleteSetup_def callerFrom_def by (intro spent.access_keeps t spent.io) simp_all
qed

lemma spent_step:
  assumes "access_step C s t" and "spent P s" shows "spent P t"
  using assms(1)
proof (cases rule: access_step.cases)
  case quiet
  then show ?thesis
    by (rule spent.quiet_keeps)
      (simp_all add: assms(2) keepsD[OF spent.sign_in] keepsD[OF request_spent])
qed (simp_all add: assms(2) keepsD[OF token_mode_spent(1)] keepsD[OF token_mode_spent(2)])

lemma spent_steps: "(access_step C)\<^sup>*\<^sup>* s t \<Longrightarrow> spent P s \<Longrightarrow> spent P t"
  by (induction rule: rtranclp_induct) (auto intro: spent_step)

lemma no_code_refused:
  assumes "Rc_Code (Svc_Recovery s) = []"
  shows "\<exists>e. fst (ResetWithRecoveryCode C code pw s) = Inl e
    \<and> (Snap_Mode (A_Snapshot s) = ModeToken \<and> validatePassword pw = None \<longrightarrow> e = errNoRecoveryCode)"
proof (cases "Snap_Mode (A_Snapshot s) = ModeToken \<and> validatePassword pw = None")
  case True
  then show ?thesis using dead_code_attempt[OF _ assms] by simp
next
  case False
  then show ?thesis
    by (cases "requireMode (Snap_Mode (A_Snapshot s)) ModeToken"; cases "validatePassword pw")
      (auto simp: ResetWithRecoveryCode_def op_defs requireMode_def Let_def split: access_mode.splits)
qed

lemma used_code_refused:
  assumes "crypto_ok C" and "ResetWithRecoveryCode C code pw s = (Inr i, t)"
    and "(access_step C)\<^sup>*\<^sup>* t u" and "Svc_Printed u = Svc_Printed t"
  shows "\<exists>e. fst (ResetWithRecoveryCode C code' pw' u) = Inl e
    \<and> (Snap_Mode (A_Snapshot u) = ModeToken \<and> validatePassword pw' = None \<longrightarrow> e = errNoRecoveryCode)"
proof -
  have "spent (Svc_Printed t) t"
    using reset_password_result[OF assms(1,2)] by (auto simp: spent_def)
  then have "spent (Svc_Printed t) u" by (rule spent_steps[OF assms(3)])
  then have "Rc_Code (Svc_Recovery u) = []" using assms(4) by (simp add: spent_def)
  then show ?thesis by (rule no_code_refused)
qed

lemma codes_spaced_init: "codes_spaced (Rc_IssuedAt (Svc_Recovery s)) (Svc_Printed s) s"
  by (simp add: codes_spaced_def)

end
