(* ===== verification/AccessSamples.thy ===== *)
theory AccessSamples
  imports AccessResults
begin

section \<open>A concrete access state\<close>

text \<open>
  A key derivation with keys of 32 bytes, a database in token mode with one session, and a
  service that has just started on it: the inputs of the witnesses of the access properties.
\<close>

definition sample_crypto :: crypto where
  "sample_crypto = \<lparr> C_IDKey = (\<lambda>p salt. take 32 (p @ replicate 32 (CHR ''.''))),
     C_ArgonVersion = ''19'', C_Sum256 = (\<lambda>b. b),
     C_Upper = (\<lambda>r. if 97 \<le> r \<and> r \<le> 122 then r - 32 else r) \<rparr>"

definition sample_salt :: string where "sample_salt = replicate 16 (CHR ''s'')"

definition sample_session :: session where
  "sample_session = \<lparr> Ses_IDHash = replicate 32 (CHR ''A''), Ses_CreatedAt = 0,
     Ses_LastSeenAt = 0, Ses_ExpiresAt = sessionLifetime \<rparr>"

definition sample_cookie :: string where "sample_cookie = b64_encode (replicate 32 (CHR ''A''))"

definition sample_credentials :: "credential_kind \<Rightarrow> string" where
  "sample_credentials k = (case k of
       panelPasswordKind \<Rightarrow> hash_text sample_crypto ''password'' sample_salt
     | apiTokenKind \<Rightarrow> ''pit_api_a''
     | agentTokenKind \<Rightarrow> ''pit_officer_mcp_b'')"

definition sample_db :: access_db where
  "sample_db = \<lparr> Db_Mode = ModeToken, Db_SetupStep = SetupStepAccess,
     Db_EncryptionDeclinedAt = Some 0, Db_CompletedAt = Some 0,
     Db_Credentials = (\<lambda>k. Some (sample_credentials k, 0)), Db_Sessions = [sample_session] \<rparr>"

definition sample_service :: access_service where
  "sample_service = \<lparr> A_Db = sample_db, A_Snapshot = snapshot_of sample_db, A_Now = 0, A_Faults = [],
     Svc_SignInFailures = 0, Svc_NextSignIn = zero_time, Svc_Recovery = no_recovery,
     Svc_Draws = [Inr [], Inr [], Inr []], Svc_Printed = [], Svc_Audited = [],
     Svc_AccountModeChosen = True, Svc_FundsLimitModeChosen = True, Svc_CredentialsSealed = True \<rparr>"

lemma sample_crypto_ok: "crypto_ok sample_crypto"
  by (auto simp: crypto_ok_def sample_crypto_def)

lemma sample_credentials_nonempty: "sample_credentials k \<noteq> []"
  by (cases k) (simp_all add: sample_credentials_def hash_text_nonempty)

lemma sample_db_ok: "wf_access sample_db"
  by (simp add: wf_access_def credentials_ok_def sample_db_def sample_credentials_nonempty)

lemma sample_start: "access_start sample_service"
  by (simp add: access_start_def sample_service_def store_ok_def sample_db_ok)

lemmas sample_reached = access_reached.start[OF sample_start, of sample_crypto]

lemma sample_ok: "store_ok sample_service"
  using sample_start by (simp add: access_start_def)

lemma sample_mode: "Snap_Mode (A_Snapshot sample_service) = ModeToken"
  "Db_Mode (A_Db sample_service) = ModeToken"
  by (simp_all add: sample_service_def snapshot_of_def sample_db_def)

lemma sample_cookie_hash:
  "sessionIDHash sample_crypto sample_cookie = Some (replicate 32 (CHR ''A''))"
  by (simp add: sample_cookie_def sessionIDHash_new sample_crypto_def)

lemma sample_password: "validatePassword ''password'' = None" "validatePassword ''correct-horse'' = None"
  by (simp_all add: validatePassword_def rune_count_runes go_runes_ascii minPasswordRunes_def
      maxPasswordRunes_def)

lemma sample_verify:
  "verifyPassword sample_crypto (sample_credentials panelPasswordKind) q
   = Inr (take 32 (q @ replicate 32 (CHR ''.'')) = take 32 (''password'' @ replicate 32 (CHR ''.'')))"
proof -
  have "verifyPassword sample_crypto (hash_text sample_crypto ''password'' sample_salt) q
      = Inr (C_IDKey sample_crypto q sample_salt = C_IDKey sample_crypto ''password'' sample_salt)"
    by (rule verify_hash_text[OF sample_crypto_ok]) (simp add: sample_salt_def)
  then show ?thesis by (simp add: sample_credentials_def sample_crypto_def)
qed

lemma sample_wrong_sign_in:
  "SignIn sample_crypto ''wrong-password'' sample_service
   = (Inl (RetryAfterError (Sentinel ErrInvalidPassword) one_second),
      sample_service\<lparr>Svc_SignInFailures := 1, Svc_NextSignIn := one_second\<rparr>)"
proof -
  have p: "storedPassword sample_service
      = (Inr \<lparr> Pw_Hash = sample_credentials panelPasswordKind, Pw_SetAt = 0 \<rparr>, sample_service)"
    by (simp add: storedPassword_def handle_def store_PanelPassword_def io_call_def
        sample_service_def readAccessCredential_def sample_db_def ret_def)
  show ?thesis
    using sample_mode p
    by (simp add: SignIn_def reads_def Let_def andthen_def requireMode_def lift_out_def
        lift_res_def sample_verify refuse_sign_in_def modify_def raise_def)
       (simp add: sample_service_def zero_time_def one_second_def Delay_def signInMinDelay_def
          signInMaxDelay_def)
qed

lemma sample_change:
  "\<exists>t. ChangePassword sample_crypto (Some publicCaller) sample_cookie ''password'' ''correct-horse''
     sample_service = (Inr (), t)"
proof -
  have p: "storedPassword sample_service
      = (Inr \<lparr> Pw_Hash = sample_credentials panelPasswordKind, Pw_SetAt = 0 \<rparr>, sample_service)"
    by (simp add: storedPassword_def handle_def store_PanelPassword_def io_call_def
        sample_service_def readAccessCredential_def sample_db_def ret_def)
  have c: "checkCurrentPassword sample_crypto ''password'' sample_service = (Inr (), sample_service)"
    using p by (simp add: checkCurrentPassword_def andthen_def lift_res_def sample_verify ret_def)
  have f: "A_Faults sample_service = []" "Svc_Draws sample_service = [Inr [], Inr [], Inr []]"
    by (simp_all add: sample_service_def)
  show ?thesis
    using sample_mode f
    by (simp add: ChangePassword_def callerFrom_def reads_def andthen_def ret_def requireMode_def
        lift_out_def sample_cookie_hash sample_password c hashPassword_def handle_def randomBytes_def
        wrap_err_def store_ReplacePassword_def access_tx_def putAccessCredential_def
        hash_text_nonempty modify_def burnRecoveryCode_def audit_run)
qed

lemma sample_due: "code_due sample_service"
  using sample_mode
  by (simp add: code_due_def recovery_live_def sample_service_def no_recovery_def zero_time_def
      recoveryIssueInterval_def one_second_def)

lemma sample_printed:
  "\<exists>u i v. RequestRecovery sample_service = (Inr (True, recoveryCodeTTL), u)
     \<and> ResetWithRecoveryCode sample_crypto (snd (last (Svc_Printed u))) ''correct-horse''
          (u\<lparr>A_Now := one_second\<rparr>) = (Inr i, v)
     \<and> CheckSession sample_crypto i v = (Inr (), v)"
proof -
  have "Svc_Draws sample_service = Inr [] # Inr [] # Inr [] # []" "A_Faults sample_service = []"
    "A_Now sample_service = 0"
    by (simp_all add: sample_service_def)
  then show ?thesis
    using printed_code_resets[OF sample_crypto_ok sample_ok sample_mode(2) _ sample_due _ sample_password(2),
        of "[]" "[]" "[]" "[]" one_second]
    by (simp add: one_second_def recoveryCodeTTL_def) blast
qed

lemma sample_issued:
  "\<exists>u. RequestRecovery sample_service = (Inr (True, recoveryCodeTTL), u)
     \<and> Snap_Mode (A_Snapshot u) = ModeToken \<and> Rc_Code (Svc_Recovery u) \<noteq> []
     \<and> Rc_Failures (Svc_Recovery u) = 0 \<and> length (Svc_Printed u) = 1"
proof -
  have f: "Svc_Draws sample_service = Inr [] # [Inr [], Inr []]" "A_Faults sample_service = []"
    by (simp_all add: sample_service_def)
  show ?thesis
    unfolding request_due[OF sample_due] issue_run[OF f(2,1)]
    using sample_mode(1) code_of(2) by (simp add: sample_service_def)
qed

lemma sample_issued_quiet:
  "\<exists>u. (quiet_step sample_crypto)\<^sup>*\<^sup>* sample_service u \<and> length (Svc_Printed u) = 1"
proof -
  obtain u where "RequestRecovery sample_service = (Inr (True, recoveryCodeTTL), u)"
    "length (Svc_Printed u) = 1" using sample_issued by blast
  then show ?thesis
    using quiet_step.request_recovery[of sample_crypto sample_service]
    by (auto intro!: exI[of _ u] r_into_rtranclp)
qed

lemma sample_recovery_reached:
  assumes "RequestRecovery sample_service = (Inr (True, recoveryCodeTTL), u)"
  shows "access_reached sample_crypto (u\<lparr>A_Now := one_second\<rparr>)"
proof -
  have "access_reached sample_crypto (snd (RequestRecovery sample_service))"
    by (rule access_reached.step[OF sample_reached access_step.quiet[OF quiet_step.request_recovery]])
  then have r: "access_reached sample_crypto u" using assms by simp
  have "A_Now u = 0"
    using sample_due issue_run[of sample_service "[]" "[Inr [], Inr []]" 0] assms
      request_due[OF sample_due]
    by (auto simp: sample_service_def)
  then have "A_Now u \<le> one_second" by (simp add: one_second_def)
  from access_reached.step[OF r access_step.quiet[OF quiet_step.tick[OF this]]] show ?thesis .
qed

lemma sample_no_code: "normalizeRecoveryCode C [] = []"
  by (simp add: normalizeRecoveryCode_def to_upper_def go_runes_def go_string_def)

lemma sample_hash:
  "\<exists>hash t. hashPassword sample_crypto randomBytes ''password'' sample_service = (Inr hash, t)"
  by (simp add: hashPassword_def handle_def randomBytes_def sample_service_def ret_def)

end
