(* ===== verification/AccountScope.thy ===== *)
theory AccountScope
  imports Accounts Identity
begin

section \<open>Account scopes\<close>

text \<open>
  \<^verbatim>\<open>framework/backend/account_scope.go\<close> and the two scopes: \<open>EveryAccount\<close> and the
  single-account scope of \<^verbatim>\<open>internal/accountmode/accountmode.go\<close>. The Go interface is a record
  of functions; its documented contract is the locale \<open>account_scope_contract\<close>, which every
  scope of a composition satisfies.
\<close>

record account_features =
  Features_Account :: account_id

record account_scope =
  Scope_Features :: account_features
  Scope_Account :: "caller \<Rightarrow> account_id \<Rightarrow> go_error + account_id"
  Scope_MissingAccount :: "caller \<Rightarrow> missing_account_policy \<Rightarrow> go_error + missing_account_policy"
  Scope_List :: "caller \<Rightarrow> account_id \<Rightarrow> go_error + account_restriction"
  Scope_Visible :: "caller \<Rightarrow> account_id \<Rightarrow> go_error option"
  Scope_Group :: "caller \<Rightarrow> string \<Rightarrow> go_error option"
  Scope_ManageAccounts :: "caller \<Rightarrow> go_error option"

definition features_Accounts :: "account_features \<Rightarrow> bool" where
  "features_Accounts f \<longleftrightarrow> Features_Account f = []"

definition AccountFor :: "account_features \<Rightarrow> account_id \<Rightarrow> account_id" where
  "AccountFor f requested = (if requested \<noteq> [] then requested else Features_Account f)"

definition zero_features :: account_features where "zero_features = \<lparr> Features_Account = [] \<rparr>"

definition zero_restriction :: account_restriction where
  "zero_restriction = \<lparr> Restriction_Account = [], Restriction_IncludeUnowned = False \<rparr>"

text \<open>The rows a restriction keeps, by the account that owns them.\<close>

definition restriction_shows :: "account_restriction \<Rightarrow> account_id \<Rightarrow> bool" where
  "restriction_shows r owner \<longleftrightarrow> Restriction_Account r = [] \<or> owner = Restriction_Account r
     \<or> (Restriction_IncludeUnowned r \<and> owner = [])"

subsection \<open>The two scopes\<close>

definition EveryAccount :: account_scope where
  "EveryAccount = \<lparr>
     Scope_Features = zero_features,
     Scope_Account = (\<lambda>c requested. Inr requested),
     Scope_MissingAccount = (\<lambda>c requested. Inr requested),
     Scope_List = (\<lambda>c requested. Inr zero_restriction),
     Scope_Visible = (\<lambda>c owner. None),
     Scope_Group = (\<lambda>c g. None),
     Scope_ManageAccounts = (\<lambda>c. None) \<rparr>"

definition isSystem :: "caller \<Rightarrow> bool" where
  "isSystem c \<longleftrightarrow> Caller_Source c = SourceSystem"

definition scope_accepts :: "account_id \<Rightarrow> account_id \<Rightarrow> go_error option" where
  "scope_accepts acc requested =
     (if requested = [] \<or> requested = acc then None
      else Some (NewValidationError ''/account'' ''single_account_mode''
        ''single-account mode acts only on the default account: another account is not accepted''))"

definition singleAccount :: "account_id \<Rightarrow> account_scope" where
  "singleAccount acc = \<lparr>
     Scope_Features = \<lparr> Features_Account = acc \<rparr>,
     Scope_Account = (\<lambda>c requested.
       if isSystem c then Scope_Account EveryAccount c requested
       else of_outcome (scope_accepts acc requested) acc),
     Scope_MissingAccount = (\<lambda>c requested.
       if isSystem c then Scope_MissingAccount EveryAccount c requested
       else if requested \<noteq> MissingAccountNone then Inr requested else Inr MissingAccountReject),
     Scope_List = (\<lambda>c requested.
       if isSystem c then Scope_List EveryAccount c requested
       else of_outcome (scope_accepts acc requested)
         \<lparr> Restriction_Account = acc, Restriction_IncludeUnowned = True \<rparr>),
     Scope_Visible = (\<lambda>c owner.
       if isSystem c then Scope_Visible EveryAccount c owner
       else if owner = [] \<or> owner = acc then None else Some (Sentinel ErrNotFound)),
     Scope_Group = (\<lambda>c requested.
       if isSystem c then Scope_Group EveryAccount c requested
       else if requested = [] then None
       else Some (NewValidationError ''/accountGroup'' ''single_account_mode''
         ''account groups are not accepted in single-account mode'')),
     Scope_ManageAccounts = (\<lambda>c.
       if isSystem c then Scope_ManageAccounts EveryAccount c
       else Some (Wrap ''the account set cannot be changed in single-account mode''
         (Sentinel ErrAccountsNotManaged))) \<rparr>"

definition scopeOf :: "account_features \<Rightarrow> account_scope" where
  "scopeOf f = (if features_Accounts f then EveryAccount else singleAccount (Features_Account f))"

subsection \<open>The service's use of a scope\<close>

text \<open>\<open>CallerFromContext\<close>: an unstamped context is an error.\<close>

definition CallerFromContext :: "caller option \<Rightarrow> go_error + caller" where
  "CallerFromContext ctx = (case ctx of
       None \<Rightarrow> Inl (Wrap ''auth: no caller in context'' (Sentinel ErrInvalid))
     | Some c \<Rightarrow> Inr c)"

definition listRestriction ::
  "account_scope \<Rightarrow> caller option \<Rightarrow> account_id \<Rightarrow> go_error + account_restriction" where
  "listRestriction sc ctx requested =
     res_bind (CallerFromContext ctx) (\<lambda>c. Scope_List sc c requested)"

definition restrictedAccount :: "account_id \<Rightarrow> account_restriction \<Rightarrow> account_id option" where
  "restrictedAccount acc r =
     (if Restriction_Account r = [] \<or> acc = Restriction_Account r then Some acc
      else if acc = [] then Some (Restriction_Account r)
      else None)"

text \<open>
  \<open>visibleGroups\<close>: \<open>group_of\<close> answers the read of the restricted account's row, the code of its
  group when it exists.
\<close>

definition visibleGroups ::
  "account_scope \<Rightarrow> (account_id \<Rightarrow> go_error + string option) \<Rightarrow> caller
   \<Rightarrow> go_error + (string \<Rightarrow> bool)" where
  "visibleGroups sc group_of c =
     res_bind (Scope_List sc c []) (\<lambda>r.
       if Restriction_Account r = [] then Inr (\<lambda>g. True)
       else res_bind (group_of (Restriction_Account r)) (\<lambda>row.
         let member = (case row of None \<Rightarrow> [] | Some g \<Rightarrow> g)
         in Inr (\<lambda>g. g \<noteq> [] \<and> g = member)))"

subsection \<open>The contract\<close>

text \<open>
  What \<^verbatim>\<open>AccountScope\<close> promises: the system caller acts on any account; the account a request
  acts on is one its caller may see, and it is the one the features announce; a list shows only
  rows whose owner the caller may see; a hidden resource looks like an absent one whoever owns
  it.
\<close>

locale account_scope_contract =
  fixes S :: account_scope
  assumes system_account: "isSystem c \<Longrightarrow> Scope_Account S c r = Inr r"
    and system_list: "isSystem c \<Longrightarrow> Scope_List S c r = Inr zero_restriction"
    and system_visible: "isSystem c \<Longrightarrow> Scope_Visible S c owner = None"
    and system_manage: "isSystem c \<Longrightarrow> Scope_ManageAccounts S c = None"
    and account_visible: "Scope_Account S c r = Inr a \<Longrightarrow> Scope_Visible S c a = None"
    and account_announced: "\<not> isSystem c \<Longrightarrow> Scope_Account S c r = Inr a
      \<Longrightarrow> a = AccountFor (Scope_Features S) r"
    and list_visible: "Scope_List S c r = Inr res \<Longrightarrow> restriction_shows res owner
      \<Longrightarrow> Scope_Visible S c owner = None"
    and list_named: "Scope_List S c r = Inr res \<Longrightarrow> r = [] \<or> Scope_Account S c r = Inr r"
    and hidden_as_absent: "Scope_Visible S c owner = Some e
      \<Longrightarrow> wraps e ErrNotFound \<and> (\<forall>owner' e'. Scope_Visible S c owner' = Some e' \<longrightarrow> e' = e)"
    and fixed_manage: "\<not> isSystem c \<Longrightarrow> \<not> features_Accounts (Scope_Features S)
      \<Longrightarrow> Scope_ManageAccounts S c \<noteq> None"
begin

text \<open>A list of account-owned rows narrowed through \<open>restrictedAccount\<close> shows only visible
  accounts.\<close>

lemma restricted_visible:
  assumes "Scope_List S c acc = Inr res" and "restrictedAccount acc res = Some scoped"
    and "scoped = [] \<or> owner = scoped"
  shows "Scope_Visible S c owner = None"
  using assms
  by (intro list_visible[OF assms(1)])
     (auto simp: restrictedAccount_def restriction_shows_def split: if_splits)

text \<open>What a caller can name it can also see, and every list it reads is visible to it.\<close>

lemma listed_or_refused:
  assumes "listRestriction S ctx r = Inr res" and "restriction_shows res owner"
  shows "\<exists>c. ctx = Some c \<and> Scope_Visible S c owner = None"
  using assms list_visible
  by (auto simp: listRestriction_def CallerFromContext_def res_bind_Inr split: option.splits)

lemma client_account:
  assumes "\<not> isSystem c" and "Scope_Account S c r = Inr a"
  shows "a = AccountFor (Scope_Features S) r \<and> Scope_Visible S c a = None"
  using assms account_announced account_visible by blast

end

interpretation every: account_scope_contract EveryAccount
  by unfold_locales
     (auto simp: EveryAccount_def zero_features_def AccountFor_def features_Accounts_def)

lemma single_contract: "acc \<noteq> [] \<Longrightarrow> account_scope_contract (singleAccount acc)"
  by unfold_locales
     (auto simp: singleAccount_def scope_accepts_def EveryAccount_def AccountFor_def
       restriction_shows_def of_outcome_def split: if_splits)

text \<open>Every scope a composition installs has the contract: the single-account scope is built for
  an account only.\<close>

interpretation installed: account_scope_contract "scopeOf f" for f
proof (cases "features_Accounts f")
  case True
  then show "account_scope_contract (scopeOf f)"
    by (simp add: scopeOf_def every.account_scope_contract_axioms)
next
  case False
  then show "account_scope_contract (scopeOf f)"
    by (simp add: scopeOf_def single_contract features_Accounts_def)
qed

lemma scopeOf_features [simp]: "Scope_Features (scopeOf f) = f"
  by (cases f) (auto simp: scopeOf_def features_Accounts_def EveryAccount_def zero_features_def
      singleAccount_def)

text \<open>A client of single-account mode is confined to its account.\<close>

lemma single_mode_confines:
  assumes "\<not> isSystem c" and "Features_Account f = acc" and "acc \<noteq> []"
  shows "(Scope_Account (scopeOf f) c r = Inr a \<longrightarrow> a = acc)
    \<and> (Scope_List (scopeOf f) c r = Inr res \<longrightarrow> (\<forall>owner. restriction_shows res owner \<longleftrightarrow> owner = [] \<or> owner = acc))
    \<and> (Scope_Visible (scopeOf f) c owner = None \<longleftrightarrow> owner = [] \<or> owner = acc)
    \<and> (Scope_Group (scopeOf f) c g = None \<longleftrightarrow> g = [])
    \<and> Scope_ManageAccounts (scopeOf f) c \<noteq> None"
  using assms
  by (auto simp: scopeOf_def features_Accounts_def singleAccount_def scope_accepts_def
      restriction_shows_def of_outcome_def split: if_splits)

end
