(* ===== verification/AccountMode.thy ===== *)
theory AccountMode
  imports AccountScope AccessSafety
begin

section \<open>The account mode\<close>

text \<open>
  \<^verbatim>\<open>internal/accountmode/accountmode.go\<close>: the realm setting that chooses single-account or
  multi-account mode, its application during first-run setup and at the start of the process.
  The state extends the access service, whose \<open>WhileInSetup\<close> is the setup gate, with the stored
  setting, the codes of the existing accounts and the scope of the running process. \<open>pr\<close> is the
  table of printable runes the account-code rule reads.
\<close>

record mode_world = access_service +
  MW_Setting :: "string option"
  MW_Accounts :: "account_id list"
  MW_Scope :: account_scope

type_synonym 'a mop = "(mode_world, go_error, 'a) op"

definition SettingKeyMode :: string where "SettingKeyMode = ''account_mode''"
definition mode_single :: string where "mode_single = ''single''"
definition mode_multi :: string where "mode_multi = ''multi''"
definition singlePrefix :: string where "singlePrefix = mode_single @ '':''"
definition defaultAccount :: account_id where "defaultAccount = ''default''"

lemmas mode_texts = mode_single_def mode_multi_def singlePrefix_def

subsection \<open>The control plane as the mode uses it\<close>

definition cp_Setting :: "string option mop" where
  "cp_Setting = io_call (gets MW_Setting)"

definition cp_SetSetting :: "string \<Rightarrow> unit mop" where
  "cp_SetSetting v = io_call (modify (\<lambda>s. s\<lparr>MW_Setting := Some v\<rparr>))"

definition cp_GetAccountState :: "account_id \<Rightarrow> unit mop" where
  "cp_GetAccountState a = io_call (\<lambda>s.
     if a \<in> set (MW_Accounts s) then (Inr (), s)
     else (Inl (Wrap ''account'' (Sentinel ErrNotFound)), s))"

definition cp_ListAccounts :: "account_id list mop" where
  "cp_ListAccounts = io_call (gets MW_Accounts)"

definition cp_CreateAccount :: "account_id \<Rightarrow> account_id mop" where
  "cp_CreateAccount a = io_call (\<lambda>s.
     if a \<in> set (MW_Accounts s) then (Inl (Wrap ''account'' (Sentinel ErrAlreadyExists)), s)
     else (Inr a, s\<lparr>MW_Accounts := MW_Accounts s @ [a]\<rparr>))"

definition cp_AccountFeatures :: "account_features mop" where
  "cp_AccountFeatures = gets (\<lambda>s. Scope_Features (MW_Scope s))"

subsection \<open>Reading the choice\<close>

record account_mode_state =
  AM_Mode :: "string option"
  AM_Account :: account_id
  AM_Features :: account_features
  AM_RestartRequired :: bool
  AM_Live :: bool

definition zero_mode_state :: account_mode_state where
  "zero_mode_state = \<lparr> AM_Mode = None, AM_Account = [], AM_Features = zero_features,
     AM_RestartRequired = False, AM_Live = False \<rparr>"

text \<open>The choice a stored value stands for; \<open>None\<close> is a setting that was never stored.\<close>

definition parse_mode ::
  "(nat \<Rightarrow> bool) \<Rightarrow> string option \<Rightarrow> go_error + account_mode_state \<times> account_features" where
  "parse_mode pr stored = (case stored of
       None \<Rightarrow> Inr (zero_mode_state, zero_features)
     | Some v \<Rightarrow>
         if v = mode_multi then Inr (zero_mode_state\<lparr>AM_Mode := Some mode_multi\<rparr>, zero_features)
         else (case cut_prefix v singlePrefix of
             None \<Rightarrow> Inl (Text ''accountmode: setting account_mode holds unknown mode'')
           | Some acc \<Rightarrow>
               if ValidateAccountID pr acc \<noteq> None
               then Inl (Text ''accountmode: setting account_mode does not hold the default account'')
               else Inr (zero_mode_state\<lparr>AM_Mode := Some mode_single, AM_Account := acc\<rparr>,
                  \<lparr> Features_Account = acc \<rparr>)))"

definition readStored :: "(nat \<Rightarrow> bool) \<Rightarrow> (account_mode_state \<times> account_features) mop" where
  "readStored pr = handle cp_Setting (\<lambda>e. raise (Wrap ''accountmode: read setting'' e))
     (\<lambda>stored. lift_res (parse_mode pr stored))"

definition Chosen :: "(nat \<Rightarrow> bool) \<Rightarrow> bool mop" where
  "Chosen pr = andthen (readStored pr) (\<lambda>(st, f). ret (AM_Mode st \<noteq> None))"

definition ReadMode :: "(nat \<Rightarrow> bool) \<Rightarrow> account_mode_state mop" where
  "ReadMode pr = andthen (readStored pr) (\<lambda>(st, stored).
     andthen cp_AccountFeatures (\<lambda>running.
     ret (st\<lparr>AM_Features := running, AM_RestartRequired := (stored \<noteq> running)\<rparr>)))"

subsection \<open>The start of the process\<close>

definition ensureDefaultAccount :: "account_id \<Rightarrow> unit mop" where
  "ensureDefaultAccount a = handle (cp_GetAccountState a)
     (\<lambda>e. if \<not> wraps e ErrNotFound then raise (Wrap ''accountmode: read default account'' e)
          else handle (cp_CreateAccount a)
            (\<lambda>e. raise (Wrap ''accountmode: recreate default account'' e)) (\<lambda>_. ret ()))
     (\<lambda>_. ret ())"

text \<open>The scope \<open>Load\<close> returns is installed for the life of the process.\<close>

definition Load :: "(nat \<Rightarrow> bool) \<Rightarrow> unit mop" where
  "Load pr = andthen (readStored pr) (\<lambda>(st, f).
     andthen (if features_Accounts f then ret () else ensureDefaultAccount (Features_Account f)) (\<lambda>_.
     modify (\<lambda>s. s\<lparr>MW_Scope := scopeOf f\<rparr>)))"

subsection \<open>Changing the mode\<close>

record mode_request =
  ModeReq_Mode :: string
  ModeReq_Account :: account_id

definition singleModeAccount :: "account_id \<Rightarrow> account_id mop" where
  "singleModeAccount requested =
     andthen cp_AccountFeatures (\<lambda>running.
     if \<not> features_Accounts running
     then (if requested \<noteq> [] \<and> requested \<noteq> Features_Account running
       then raise (Wrap ''single-account mode runs with its default account''
              (Sentinel ErrAccountsNotManaged))
       else ret (Features_Account running))
     else if requested \<noteq> []
     then handle (cp_GetAccountState requested)
       (\<lambda>e. if wraps e ErrNotFound then raise (AccountMissingError requested) else raise e)
       (\<lambda>_. ret requested)
     else andthen cp_ListAccounts (\<lambda>accounts. case accounts of
         [] \<Rightarrow> cp_CreateAccount defaultAccount
       | [a] \<Rightarrow> ret a
       | _ \<Rightarrow> raise (NewValidationError ''/account'' ''required''
           ''accounts exist: name the one single-account mode acts on'')))"

definition store_mode :: "mode_request \<Rightarrow> account_features mop" where
  "store_mode req =
     (if ModeReq_Mode req = [] then raise (NewValidationError ''/mode'' ''required''
        ''account mode is required'')
      else if ModeReq_Mode req = mode_multi
      then (if ModeReq_Account req \<noteq> [] then raise (NewValidationError ''/account''
          ''unsupported_value'' ''multi-account mode takes no account'')
        else andthen (cp_SetSetting mode_multi) (\<lambda>_. ret zero_features))
      else if ModeReq_Mode req = mode_single
      then andthen (singleModeAccount (ModeReq_Account req)) (\<lambda>a.
        andthen (cp_SetSetting (singlePrefix @ a)) (\<lambda>_. ret \<lparr> Features_Account = a \<rparr>))
      else raise (NewValidationError ''/mode'' ''enum'' ''account mode is not supported''))"

definition ApplyMode :: "(nat \<Rightarrow> bool) \<Rightarrow> mode_request \<Rightarrow> account_mode_state mop" where
  "ApplyMode pr req = andthen (store_mode req) (\<lambda>_. ReadMode pr)"

definition switch_live :: "mode_request \<Rightarrow> account_mode_state mop" where
  "switch_live req =
     andthen (store_mode req) (\<lambda>stored.
     andthen (modify (\<lambda>s. s\<lparr>MW_Scope := scopeOf stored\<rparr>)) (\<lambda>_.
     andthen cp_AccountFeatures (\<lambda>running.
     ret \<lparr> AM_Mode = Some (ModeReq_Mode req), AM_Account = Features_Account stored,
        AM_Features = running, AM_RestartRequired = (stored \<noteq> running), AM_Live = True \<rparr>)))"

definition ApplyDuringSetup :: "(nat \<Rightarrow> bool) \<Rightarrow> mode_request \<Rightarrow> account_mode_state mop" where
  "ApplyDuringSetup pr req = handle (WhileInSetup (switch_live req))
     (\<lambda>e. if wraps e ErrSetupComplete then ApplyMode pr req else raise e) ret"

text \<open>\<open>has_scope\<close>: the composition passes a scope that \<open>ApplyDuringSetup\<close> switches.\<close>

definition live_mode :: "bool \<Rightarrow> bool mop" where
  "live_mode has_scope = (if \<not> has_scope then ret False
     else handle (WhileInSetup (ret ()))
       (\<lambda>e. if wraps e ErrSetupComplete then ret False else raise e) (\<lambda>_. ret True))"

subsection \<open>The running scope\<close>

lemma cp_scope [simp]:
  "keeps (\<lambda>s. MW_Scope s = sc) cp_Setting" "keeps (\<lambda>s. MW_Scope s = sc) (cp_SetSetting v)"
  "keeps (\<lambda>s. MW_Scope s = sc) (cp_GetAccountState a)" "keeps (\<lambda>s. MW_Scope s = sc) cp_ListAccounts"
  "keeps (\<lambda>s. MW_Scope s = sc) (cp_CreateAccount a)" "keeps (\<lambda>s. MW_Scope s = sc) cp_AccountFeatures"
  unfolding cp_Setting_def cp_SetSetting_def cp_GetAccountState_def cp_ListAccounts_def
    cp_CreateAccount_def cp_AccountFeatures_def
  by (intro keeps_io_call; simp add: keeps_def gets_def modify_def)+ (simp add: keeps_def gets_def)

lemma store_mode_scope: "keeps (\<lambda>s. MW_Scope s = sc) (store_mode req)"
  unfolding store_mode_def singleModeAccount_def
  by (intro keeps_rules) (auto split: list.splits intro!: keeps_rules)

lemma read_mode_scope: "keeps (\<lambda>s. MW_Scope s = sc) (ReadMode pr)"
  unfolding ReadMode_def readStored_def by (intro keeps_rules) simp_all

lemma apply_scope: "keeps (\<lambda>s. MW_Scope s = sc) (ApplyMode pr req)"
  unfolding ApplyMode_def by (intro keeps_rules store_mode_scope read_mode_scope)

lemma apply_setup_scope:
  assumes "Snap_Mode (A_Snapshot s) \<noteq> ModeSetup"
  shows "MW_Scope (snd (ApplyDuringSetup pr req s)) = MW_Scope s"
proof (cases "Snap_Mode (A_Snapshot s)")
  case (OtherMode m)
  then show ?thesis
    by (simp add: ApplyDuringSetup_def WhileInSetup_def requireSetup_def op_defs err_mode_def)
qed (use assms keepsD[OF apply_scope[of "MW_Scope s" pr req], of s] in
    \<open>simp_all add: ApplyDuringSetup_def WhileInSetup_def requireSetup_def op_defs\<close>)

text \<open>
  The runs of one process: mode changes and reads in any order, changes of the account set, and
  calls of the access service. The latter change the access part of the state and never return
  to setup.
\<close>

inductive mode_step :: "(nat \<Rightarrow> bool) \<Rightarrow> mode_world \<Rightarrow> mode_world \<Rightarrow> bool" for pr where
  apply_mode: "mode_step pr s (snd (ApplyMode pr req s))"
| apply_setup: "mode_step pr s (snd (ApplyDuringSetup pr req s))"
| read_mode: "mode_step pr s (snd (ReadMode pr s))"
| chosen: "mode_step pr s (snd (Chosen pr s))"
| live: "mode_step pr s (snd (live_mode b s))"
| accounts: "mode_step pr s (s\<lparr>MW_Accounts := as, MW_Setting := v\<rparr>)"
| access: "(Snap_Mode (A_Snapshot s) \<noteq> ModeSetup \<longrightarrow> Snap_Mode (A_Snapshot t) \<noteq> ModeSetup)
    \<Longrightarrow> MW_Setting t = MW_Setting s \<Longrightarrow> MW_Accounts t = MW_Accounts s \<Longrightarrow> MW_Scope t = MW_Scope s
    \<Longrightarrow> mode_step pr s t"

definition set_up :: "mode_world \<Rightarrow> bool" where
  "set_up s \<longleftrightarrow> Snap_Mode (A_Snapshot s) \<noteq> ModeSetup"

lemma cp_set_up [simp]:
  "keeps set_up cp_Setting" "keeps set_up (cp_SetSetting v)" "keeps set_up (cp_GetAccountState a)"
  "keeps set_up cp_ListAccounts" "keeps set_up (cp_CreateAccount a)" "keeps set_up cp_AccountFeatures"
  unfolding cp_Setting_def cp_SetSetting_def cp_GetAccountState_def cp_ListAccounts_def
    cp_CreateAccount_def cp_AccountFeatures_def
  by (intro keeps_io_call; simp add: keeps_def gets_def modify_def set_up_def)+
     (simp add: keeps_def gets_def)

lemma store_mode_set_up [simp]: "keeps set_up (store_mode req)"
  unfolding store_mode_def singleModeAccount_def
  by (intro keeps_rules) (auto split: list.splits intro!: keeps_rules)

lemma read_mode_set_up [simp]: "keeps set_up (ReadMode pr)" "keeps set_up (Chosen pr)"
  unfolding ReadMode_def readStored_def Chosen_def by (intro keeps_rules; simp)+

lemma apply_set_up [simp]: "keeps set_up (ApplyMode pr req)"
  unfolding ApplyMode_def by (intro keeps_rules) simp_all

lemma require_set_up [simp]: "keeps set_up requireSetup"
  unfolding requireSetup_def by (intro keeps_reads) (auto split: access_mode.splits)

lemma apply_setup_set_up [simp]: "keeps set_up (ApplyDuringSetup pr req)"
  unfolding ApplyDuringSetup_def WhileInSetup_def switch_live_def
  by (intro keeps_rules keeps_modify) (simp_all add: set_up_def)

lemma live_set_up [simp]: "keeps set_up (live_mode b)" "keeps (\<lambda>s. MW_Scope s = sc) (live_mode b)"
  unfolding live_mode_def WhileInSetup_def requireSetup_def
  by (intro keeps_rules; auto split: access_mode.splits)+

lemma mode_step_fixed:
  assumes "mode_step pr s t" and "set_up s"
  shows "set_up t \<and> MW_Scope t = MW_Scope s"
  using assms
proof (cases rule: mode_step.cases)
  case (apply_setup req)
  then show ?thesis
    using keepsD[OF apply_setup_set_up assms(2)] apply_setup_scope[of s pr req] assms(2)
    by (simp add: set_up_def)
next
  case (apply_mode req)
  then show ?thesis using keepsD[OF apply_set_up assms(2)] keepsD[OF apply_scope[of "MW_Scope s"]] by simp
next
  case read_mode
  then show ?thesis
    using keepsD[OF read_mode_set_up(1) assms(2)] keepsD[OF read_mode_scope[of "MW_Scope s"]] by simp
next
  case chosen
  have "keeps (\<lambda>u. MW_Scope u = MW_Scope s) (Chosen pr)"
    unfolding Chosen_def readStored_def by (intro keeps_rules) simp_all
  then show ?thesis using chosen keepsD[OF read_mode_set_up(2) assms(2)] keepsD by fastforce
next
  case (live b)
  then show ?thesis
    using keepsD[OF live_set_up(1) assms(2)] keepsD[OF live_set_up(2)[of "MW_Scope s"]] by simp
qed (simp_all add: set_up_def)

lemma mode_steps_fixed:
  "(mode_step pr)\<^sup>*\<^sup>* s t \<Longrightarrow> set_up s \<Longrightarrow> set_up t \<and> MW_Scope t = MW_Scope s"
  by (induction rule: rtranclp_induct) (auto dest: mode_step_fixed)

subsection \<open>A stored choice is the one read at the next start\<close>

definition valid_accounts :: "(nat \<Rightarrow> bool) \<Rightarrow> mode_world \<Rightarrow> bool" where
  "valid_accounts pr s \<longleftrightarrow> ValidateAccountID pr defaultAccount = None
     \<and> (\<forall>a\<in>set (MW_Accounts s). ValidateAccountID pr a = None)
     \<and> (Features_Account (Scope_Features (MW_Scope s)) = []
        \<or> ValidateAccountID pr (Features_Account (Scope_Features (MW_Scope s))) = None)"

lemma ValidateAccountID_Nil: "ValidateAccountID pr [] \<noteq> None"
  by (simp add: ValidateAccountID_def)

lemma parse_multi: "parse_mode pr (Some mode_multi) = Inr (zero_mode_state\<lparr>AM_Mode := Some mode_multi\<rparr>, zero_features)"
  by (simp add: parse_mode_def)

lemma parse_single:
  "ValidateAccountID pr a = None \<Longrightarrow> parse_mode pr (Some (singlePrefix @ a)) =
     Inr (zero_mode_state\<lparr>AM_Mode := Some mode_single, AM_Account := a\<rparr>, \<lparr> Features_Account = a \<rparr>)"
  by (simp add: parse_mode_def cut_prefix_append) (simp add: mode_texts)

lemma cp_SetSetting_Inr: "cp_SetSetting v s = (Inr x, t) \<Longrightarrow> MW_Setting t = Some v"
  unfolding cp_SetSetting_def by (erule io_call_cases) (auto simp: modify_def)

lemma cp_GetAccountState_Inr: "cp_GetAccountState a s = (Inr x, t) \<Longrightarrow> a \<in> set (MW_Accounts s)"
  unfolding cp_GetAccountState_def by (erule io_call_cases) (auto split: if_splits)

lemma cp_ListAccounts_Inr: "cp_ListAccounts s = (Inr xs, t) \<Longrightarrow> xs = MW_Accounts s"
  unfolding cp_ListAccounts_def by (erule io_call_cases) (auto simp: gets_def)

lemma cp_CreateAccount_Inr: "cp_CreateAccount a s = (Inr b, t) \<Longrightarrow> b = a"
  unfolding cp_CreateAccount_def by (erule io_call_cases) (auto split: if_splits)

lemma cp_AccountFeatures_Inr [simp]:
  "cp_AccountFeatures s = (Inr f, t) \<longleftrightarrow> f = Scope_Features (MW_Scope s) \<and> t = s"
  by (auto simp: cp_AccountFeatures_def gets_def)

lemma singleModeAccount_valid:
  assumes "singleModeAccount r s = (Inr a, t)" and "valid_accounts pr s"
  shows "ValidateAccountID pr a = None"
proof (cases "features_Accounts (Scope_Features (MW_Scope s))")
  case True
  show ?thesis
  proof (cases "r = []")
    case False
    then have "a = r" "\<exists>u. cp_GetAccountState r s = (Inr (), u)"
      using assms(1) True by (auto simp: singleModeAccount_def andthen_Inr handle_Inr split: if_splits)
    then show ?thesis using assms(2) by (auto simp: valid_accounts_def dest: cp_GetAccountState_Inr)
  next
    case Nil: True
    obtain xs u where u: "cp_ListAccounts s = (Inr xs, u)"
      "(case xs of [] \<Rightarrow> cp_CreateAccount defaultAccount | [a] \<Rightarrow> ret a
         | _ \<Rightarrow> raise (NewValidationError ''/account'' ''required''
           ''accounts exist: name the one single-account mode acts on'')) u = (Inr a, t)"
      using assms(1) True Nil by (auto simp: singleModeAccount_def andthen_Inr)
    then show ?thesis
      using assms(2) cp_ListAccounts_Inr[OF u(1)]
      by (auto simp: valid_accounts_def dest!: cp_CreateAccount_Inr split: list.splits)
  qed
next
  case False
  then have "a = Features_Account (Scope_Features (MW_Scope s))"
    using assms(1) by (auto simp: singleModeAccount_def andthen_Inr split: if_splits)
  then show ?thesis using False assms(2) by (auto simp: valid_accounts_def features_Accounts_def)
qed

lemma stored_choice_parses:
  assumes "store_mode req s = (Inr f, t)" and "valid_accounts pr s"
  shows "\<exists>st. parse_mode pr (MW_Setting t) = Inr (st, f) \<and> AM_Mode st = Some (ModeReq_Mode req)
    \<and> AM_Account st = Features_Account f"
proof (cases "ModeReq_Mode req = mode_multi")
  case True
  then have "f = zero_features" "\<exists>u. cp_SetSetting mode_multi s = (Inr (), t)"
    using assms(1) by (auto simp: store_mode_def andthen_Inr mode_texts split: if_splits)
  then show ?thesis
    using True by (auto dest!: cp_SetSetting_Inr simp: parse_multi zero_mode_state_def zero_features_def)
next
  case False
  then obtain a u where a: "singleModeAccount (ModeReq_Account req) s = (Inr a, u)"
    "cp_SetSetting (singlePrefix @ a) u = (Inr (), t)" "f = \<lparr> Features_Account = a \<rparr>"
    "ModeReq_Mode req = mode_single"
    using assms(1) by (auto simp: store_mode_def andthen_Inr split: if_splits)
  have v: "ValidateAccountID pr a = None" by (rule singleModeAccount_valid[OF a(1) assms(2)])
  show ?thesis
    using a(3,4) parse_single[OF v] cp_SetSetting_Inr[OF a(2)] by (simp add: zero_mode_state_def)
qed

text \<open>A start that meets no I/O failure enforces the parsed choice, and its account exists.\<close>

lemma Load_run:
  assumes "parse_mode pr (MW_Setting u) = Inr (st, f)" and "A_Faults u = []"
  shows "\<exists>v. Load pr u = (Inr (), v) \<and> MW_Scope v = scopeOf f
    \<and> (Features_Account f \<noteq> [] \<longrightarrow> Features_Account f \<in> set (MW_Accounts v))"
proof -
  have r: "readStored pr u = (Inr (st, f), u)"
    using assms by (simp add: readStored_def handle_def cp_Setting_def gets_def lift_res_def)
  show ?thesis
  proof (cases "features_Accounts f")
    case True
    then show ?thesis
      by (simp add: Load_def andthen_def r ret_def modify_def features_Accounts_def)
  next
    case False
    then show ?thesis
      using assms(2)
      by (cases "Features_Account f \<in> set (MW_Accounts u)")
         (simp_all add: Load_def andthen_def r ret_def modify_def ensureDefaultAccount_def
            handle_def cp_GetAccountState_def cp_CreateAccount_def)
  qed
qed

lemma choice_at_next_start:
  assumes "store_mode req s = (Inr f, t)" and "valid_accounts pr s"
    and "MW_Setting u = MW_Setting t" and "A_Faults u = []"
  shows "\<exists>v. Load pr u = (Inr (), v) \<and> MW_Scope v = scopeOf f
    \<and> (ModeReq_Mode req = mode_multi \<longrightarrow> MW_Scope v = EveryAccount)
    \<and> (ModeReq_Mode req = mode_single \<longrightarrow> Features_Account f \<noteq> []
        \<and> Features_Account f \<in> set (MW_Accounts v))"
proof -
  obtain st where p: "parse_mode pr (MW_Setting t) = Inr (st, f)" "AM_Mode st = Some (ModeReq_Mode req)"
    "AM_Account st = Features_Account f"
    using stored_choice_parses[OF assms(1,2)] by blast
  have "parse_mode pr (MW_Setting u) = Inr (st, f)" using p(1) assms(3) by simp
  then obtain v where v: "Load pr u = (Inr (), v)" "MW_Scope v = scopeOf f"
    "Features_Account f \<noteq> [] \<longrightarrow> Features_Account f \<in> set (MW_Accounts v)"
    using Load_run assms(4) by blast
  have "ModeReq_Mode req = mode_multi \<longrightarrow> f = zero_features"
    using assms(1) by (auto simp: store_mode_def andthen_Inr mode_texts split: if_splits)
  moreover have "ModeReq_Mode req = mode_single \<longrightarrow> Features_Account f \<noteq> []"
    using p ValidateAccountID_Nil[of pr]
    by (auto simp: parse_mode_def zero_mode_state_def mode_texts split: option.splits if_splits)
  ultimately show ?thesis
    using v by (auto simp: scopeOf_def features_Accounts_def zero_features_def)
qed

text \<open>A start that succeeds enforces the stored choice, and the account of it exists.\<close>

lemma cp_Setting_Inr: "cp_Setting s = (Inr v, t) \<Longrightarrow> v = MW_Setting s \<and> MW_Accounts t = MW_Accounts s"
  unfolding cp_Setting_def by (erule io_call_cases) (auto simp: gets_def)

lemma ensureDefaultAccount_Inr:
  assumes "ensureDefaultAccount a s = (Inr (), t)"
  shows "a \<in> set (MW_Accounts t)"
proof -
  have g: "a \<in> set (MW_Accounts u)" if "cp_GetAccountState a s = (Inr x, u)" for x u
    using that unfolding cp_GetAccountState_def by (auto elim!: io_call_cases split: if_splits)
  have c: "a \<in> set (MW_Accounts w)" if "cp_CreateAccount a u = (Inr b, w)" for b u w
    using that unfolding cp_CreateAccount_def by (auto elim!: io_call_cases split: if_splits)
  show ?thesis
    using assms g c unfolding ensureDefaultAccount_def
    by (auto simp: handle_def ret_def raise_def split: prod.splits sum.splits if_splits)
qed

lemma Load_single:
  assumes "Load pr s = (Inr (), u)" and "MW_Setting s = Some (singlePrefix @ acc)"
  shows "MW_Scope u = scopeOf \<lparr> Features_Account = acc \<rparr> \<and> acc \<noteq> [] \<and> acc \<in> set (MW_Accounts u)"
proof -
  obtain st f u1 u2 where r: "readStored pr s = (Inr (st, f), u1)"
    and e: "(if features_Accounts f then ret () else ensureDefaultAccount (Features_Account f)) u1 = (Inr (), u2)"
    and u: "u = u2\<lparr>MW_Scope := scopeOf f\<rparr>"
    using assms(1) by (auto simp: Load_def andthen_Inr modify_def)
  have "parse_mode pr (MW_Setting s) = Inr (st, f)"
    using r cp_Setting_Inr by (fastforce simp: readStored_def handle_Inr raise_def)
  moreover have "singlePrefix @ acc \<noteq> mode_multi" by (simp add: mode_texts)
  ultimately have f: "f = \<lparr> Features_Account = acc \<rparr>" and a: "acc \<noteq> []"
    using assms(2) ValidateAccountID_Nil[of pr]
    by (auto simp: parse_mode_def cut_prefix_append split: if_splits)
  show ?thesis
    using e u f a ensureDefaultAccount_Inr[of acc u1 u2] by (simp add: features_Accounts_def)
qed

subsection \<open>A concrete world\<close>

definition sample_mode_world :: mode_world where
  "sample_mode_world = \<lparr> A_Db = clean_db\<lparr>Db_Mode := ModeOpen, Db_CompletedAt := Some 0\<rparr>,
     A_Snapshot = \<lparr> Snap_Mode = ModeOpen, Snap_APIToken = [], Snap_AgentToken = [] \<rparr>,
     A_Now = 0, A_Faults = [], Svc_SignInFailures = 0, Svc_NextSignIn = zero_time,
     Svc_Recovery = no_recovery, Svc_Draws = [], Svc_Printed = [], Svc_Audited = [],
     Svc_AccountModeChosen = True, Svc_FundsLimitModeChosen = True, Svc_CredentialsSealed = True,
     MW_Setting = Some mode_multi, MW_Accounts = [''desk''], MW_Scope = EveryAccount \<rparr>"

lemma ValidateAccountID_plain:
  assumes "list_all (\<lambda>c. 32 < (of_char c :: nat) \<and> of_char c < (127::nat)) s" and "s \<noteq> []"
    and "length s \<le> 64" and "\<not> isPathDotSegment s"
  shows "ValidateAccountID ascii_print s = None"
proof -
  have a: "list_all (\<lambda>c. (of_char c :: nat) < 128) s" using assms(1) by (auto simp: list_all_iff)
  have "canonical_text s"
    by (rule no_space_canonical) (use assms(1) a in \<open>auto simp: go_runes_ascii list_all_iff is_space_def\<close>)
  then show ?thesis
    using assms a valid_utf8_ascii[OF a] rune_count_le_length[of s]
    by (auto simp: ValidateAccountID_def canonical_text_def go_runes_ascii ascii_print_def list_all_iff
        less_imp_le)
qed

lemma sample_valid: "valid_accounts ascii_print sample_mode_world"
  by (simp add: valid_accounts_def sample_mode_world_def EveryAccount_def zero_features_def
      defaultAccount_def ValidateAccountID_plain isPathDotSegment_def)

lemma sample_store_mode:
  "store_mode \<lparr> ModeReq_Mode = ''single'', ModeReq_Account = [] \<rparr> sample_mode_world
   = (Inr \<lparr> Features_Account = ''desk'' \<rparr>, sample_mode_world\<lparr>MW_Setting := Some ''single:desk''\<rparr>)"
  by (simp add: store_mode_def mode_texts singleModeAccount_def andthen_def cp_AccountFeatures_def
      gets_def sample_mode_world_def EveryAccount_def zero_features_def features_Accounts_def
      cp_ListAccounts_def cp_SetSetting_def modify_def ret_def)

end
