(* ===== verification/IdResolver.thy ===== *)
theory IdResolver
  imports Accounts DecimalPkg
begin

section \<open>The dictionary between Officer codes and engine ids\<close>

text \<open>
  \<^verbatim>\<open>idResolver\<close> of \<^verbatim>\<open>engine/mapping.go\<close>: the adapter of the risk engine addresses accounts,
  groups and assets by stored integer ids and translates them to the human codes and back. The
  identifiers of the SDK are a parameter, \<open>sdk_ids\<close>; \<open>sdk_ids_ok\<close> states what its constructors
  document: an id built from an integer has that integer as its handle, an asset built from a
  text is named by it, and the default group has handle 0.
\<close>

record ('acc, 'grp, 'ast) sdk_ids =
  NewAccountIDFromUint64 :: "64 word \<Rightarrow> 'acc"
  AccountHandle :: "'acc \<Rightarrow> 64 word"
  NewAccountGroupIDFromUint32 :: "32 word \<Rightarrow> go_error + 'grp"
  GroupHandle :: "'grp \<Rightarrow> 32 word"
  DefaultAccountGroup :: 'grp
  NewAsset :: "string \<Rightarrow> go_error + 'ast"
  AssetSafe :: "'ast \<Rightarrow> string"

definition sdk_ids_ok :: "('acc, 'grp, 'ast) sdk_ids \<Rightarrow> bool" where
  "sdk_ids_ok K \<longleftrightarrow> (\<forall>n. AccountHandle K (NewAccountIDFromUint64 K n) = n)
     \<and> (\<forall>n g. NewAccountGroupIDFromUint32 K n = Inr g \<longrightarrow> GroupHandle K g = n)
     \<and> GroupHandle K (DefaultAccountGroup K) = 0
     \<and> (\<forall>t a. NewAsset K t = Inr a \<longrightarrow> AssetSafe K a = t)"

record asset =
  Asset_Code :: string
  Asset_Title :: string
  Asset_Class :: string
  Asset_EngineAssetID :: "64 word"

text \<open>\<^verbatim>\<open>strconv.FormatUint\<close> in base ten.\<close>

fun decimal_digits :: "nat \<Rightarrow> string" where
  "decimal_digits n = (if n < 10 then [char_of (48 + n)]
     else decimal_digits (n div 10) @ [char_of (48 + n mod 10)])"

declare decimal_digits.simps [simp del]

definition FormatUint :: "64 word \<Rightarrow> string" where
  "FormatUint n = decimal_digits (unat n)"

subsection \<open>State\<close>

text \<open>The maps behind the mutex; \<open>None\<close> is a resolver whose shared state is nil.\<close>

record ('acc, 'grp, 'ast) resolver_maps =
  Res_accounts :: "account_id \<rightharpoonup> 'acc"
  Res_accountAliases :: "64 word \<rightharpoonup> account_id"
  Res_assets :: "string \<rightharpoonup> 'ast"
  Res_assetIDs :: "64 word \<rightharpoonup> 'ast"
  Res_assetAliases :: "string \<rightharpoonup> string"
  Res_groups :: "string \<rightharpoonup> 'grp"
  Res_groupAliases :: "32 word \<rightharpoonup> string"

type_synonym ('acc, 'grp, 'ast) id_resolver = "('acc, 'grp, 'ast) resolver_maps option"

definition newEmptyIDResolver :: "('acc, 'grp, 'ast) id_resolver" where
  "newEmptyIDResolver = Some \<lparr> Res_accounts = Map.empty, Res_accountAliases = Map.empty,
     Res_assets = Map.empty, Res_assetIDs = Map.empty, Res_assetAliases = Map.empty,
     Res_groups = Map.empty, Res_groupAliases = Map.empty \<rparr>"

definition ensureInitialized :: "('acc, 'grp, 'ast) id_resolver \<Rightarrow> ('acc, 'grp, 'ast) id_resolver" where
  "ensureInitialized r = (case r of None \<Rightarrow> newEmptyIDResolver | Some m \<Rightarrow> Some m)"

subsection \<open>Lookups\<close>

definition unknownAccountAliasError :: go_error where
  "unknownAccountAliasError = err_invalid ''engine: unknown account resolver alias''"
definition unknownAccountIDError :: go_error where
  "unknownAccountIDError = Text ''engine: unknown account engine id''"
definition unknownAssetAliasError :: go_error where
  "unknownAssetAliasError = err_invalid ''engine: unknown asset resolver alias''"
definition unknownAssetIDError :: go_error where
  "unknownAssetIDError = Wrap ''engine: unknown asset engine id'' (Named ''marketdata: unknown asset'')"
definition unknownAssetReadyIDError :: go_error where
  "unknownAssetReadyIDError = Text ''engine: unknown asset engine id''"
definition unknownGroupAliasError :: go_error where
  "unknownGroupAliasError = err_invalid ''engine: unknown group resolver alias''"

definition lookup :: "go_error \<Rightarrow> (('acc, 'grp, 'ast) resolver_maps \<Rightarrow> 'k \<rightharpoonup> 'v)
    \<Rightarrow> ('acc, 'grp, 'ast) id_resolver \<Rightarrow> 'k \<Rightarrow> go_error + 'v" where
  "lookup e f r k = (case r of None \<Rightarrow> Inl e
     | Some m \<Rightarrow> (case f m k of None \<Rightarrow> Inl e | Some v \<Rightarrow> Inr v))"

definition resolve_account :: "('acc, 'grp, 'ast) id_resolver \<Rightarrow> account_id \<Rightarrow> go_error + 'acc" where
  "resolve_account = lookup unknownAccountAliasError Res_accounts"

definition accountAlias ::
  "('acc, 'grp, 'ast) sdk_ids \<Rightarrow> ('acc, 'grp, 'ast) id_resolver \<Rightarrow> 'acc \<Rightarrow> go_error + account_id" where
  "accountAlias K r i = lookup unknownAccountIDError Res_accountAliases r (AccountHandle K i)"

definition resolve_asset :: "('acc, 'grp, 'ast) id_resolver \<Rightarrow> string \<Rightarrow> go_error + 'ast" where
  "resolve_asset = lookup unknownAssetAliasError Res_assets"

definition assetByID :: "('acc, 'grp, 'ast) id_resolver \<Rightarrow> 64 word \<Rightarrow> go_error + 'ast" where
  "assetByID = lookup unknownAssetIDError Res_assetIDs"

definition assetAlias ::
  "('acc, 'grp, 'ast) sdk_ids \<Rightarrow> ('acc, 'grp, 'ast) id_resolver \<Rightarrow> 'ast \<Rightarrow> go_error + string" where
  "assetAlias K r a = lookup unknownAssetReadyIDError Res_assetAliases r (AssetSafe K a)"

definition resolve_group :: "('acc, 'grp, 'ast) id_resolver \<Rightarrow> string \<Rightarrow> go_error + 'grp" where
  "resolve_group = lookup unknownGroupAliasError Res_groups"

subsection \<open>Conversion of stored ids\<close>

definition engineAccountID :: "('acc, 'grp, 'ast) sdk_ids \<Rightarrow> 64 word \<Rightarrow> go_error + 'acc" where
  "engineAccountID K i = (case ValidateEngineAccountID i of
       Some e \<Rightarrow> Inl (Wrap ''engine: account engine id'' e)
     | None \<Rightarrow> Inr (NewAccountIDFromUint64 K i))"

definition engineGroupID :: "('acc, 'grp, 'ast) sdk_ids \<Rightarrow> 32 word \<Rightarrow> go_error + 'grp" where
  "engineGroupID K i = (case ValidateEngineGroupID i of
       Some e \<Rightarrow> Inl (Wrap ''engine: group engine id'' e)
     | None \<Rightarrow> (case NewAccountGroupIDFromUint32 K i of
         Inl e \<Rightarrow> Inl (Wrap ''engine: group engine id'' e) | Inr g \<Rightarrow> Inr g))"

definition engineAsset :: "('acc, 'grp, 'ast) sdk_ids \<Rightarrow> 64 word \<Rightarrow> go_error + 'ast" where
  "engineAsset K i = (case ValidateEngineAssetID i of
       Some e \<Rightarrow> Inl (Wrap ''engine: asset engine id'' e)
     | None \<Rightarrow> (case NewAsset K (FormatUint i) of
         Inl e \<Rightarrow> Inl (Wrap ''engine: asset engine id'' e) | Inr a \<Rightarrow> Inr a))"

definition resolverGroupID :: "('acc, 'grp, 'ast) sdk_ids \<Rightarrow> account_group \<Rightarrow> go_error + 'grp" where
  "resolverGroupID K g =
     (if Group_Code g = []
      then if Group_EngineGroupID g \<noteq> 0 then Inl (err_invalid ''engine: default group engine id, want 0'')
           else Inr (DefaultAccountGroup K)
      else engineGroupID K (Group_EngineGroupID g))"

subsection \<open>Writes\<close>

definition publish_account ::
  "('acc, 'grp, 'ast) sdk_ids \<Rightarrow> account_id \<Rightarrow> 'acc \<Rightarrow> ('acc, 'grp, 'ast) resolver_maps
     \<Rightarrow> ('acc, 'grp, 'ast) resolver_maps" where
  "publish_account K c i m = m\<lparr>Res_accounts := (Res_accounts m)(c \<mapsto> i),
     Res_accountAliases := (Res_accountAliases m)(AccountHandle K i \<mapsto> c)\<rparr>"

definition move_account ::
  "('acc, 'grp, 'ast) sdk_ids \<Rightarrow> account_id \<Rightarrow> account_id \<Rightarrow> 'acc \<Rightarrow> ('acc, 'grp, 'ast) resolver_maps
     \<Rightarrow> ('acc, 'grp, 'ast) resolver_maps" where
  "move_account K old new i m = m\<lparr>Res_accounts := ((Res_accounts m)(old := None))(new \<mapsto> i),
     Res_accountAliases := (Res_accountAliases m)(AccountHandle K i \<mapsto> new)\<rparr>"

definition publish_group ::
  "('acc, 'grp, 'ast) sdk_ids \<Rightarrow> string \<Rightarrow> 'grp \<Rightarrow> ('acc, 'grp, 'ast) resolver_maps
     \<Rightarrow> ('acc, 'grp, 'ast) resolver_maps" where
  "publish_group K c i m = m\<lparr>Res_groups := (Res_groups m)(c \<mapsto> i),
     Res_groupAliases := (Res_groupAliases m)(GroupHandle K i \<mapsto> c)\<rparr>"

definition move_group ::
  "('acc, 'grp, 'ast) sdk_ids \<Rightarrow> string \<Rightarrow> string \<Rightarrow> 'grp \<Rightarrow> ('acc, 'grp, 'ast) resolver_maps
     \<Rightarrow> ('acc, 'grp, 'ast) resolver_maps" where
  "move_group K old new i m = m\<lparr>Res_groups := ((Res_groups m)(old := None))(new \<mapsto> i),
     Res_groupAliases := (Res_groupAliases m)(GroupHandle K i \<mapsto> new)\<rparr>"

definition drop_group ::
  "('acc, 'grp, 'ast) sdk_ids \<Rightarrow> string \<Rightarrow> 'grp \<Rightarrow> ('acc, 'grp, 'ast) resolver_maps
     \<Rightarrow> ('acc, 'grp, 'ast) resolver_maps" where
  "drop_group K c i m = m\<lparr>Res_groups := (Res_groups m)(c := None),
     Res_groupAliases := (Res_groupAliases m)(GroupHandle K i := None)\<rparr>"

text \<open>The writes of an asset on its code and its alias; the index by id is written beside them.\<close>

definition publish_asset ::
  "('acc, 'grp, 'ast) sdk_ids \<Rightarrow> string \<Rightarrow> 'ast \<Rightarrow> ('acc, 'grp, 'ast) resolver_maps
     \<Rightarrow> ('acc, 'grp, 'ast) resolver_maps" where
  "publish_asset K c a m = m\<lparr>Res_assets := (Res_assets m)(c \<mapsto> a),
     Res_assetAliases := (Res_assetAliases m)(AssetSafe K a \<mapsto> c)\<rparr>"

definition move_asset ::
  "('acc, 'grp, 'ast) sdk_ids \<Rightarrow> string \<Rightarrow> string \<Rightarrow> 'ast \<Rightarrow> ('acc, 'grp, 'ast) resolver_maps
     \<Rightarrow> ('acc, 'grp, 'ast) resolver_maps" where
  "move_asset K old new a m = m\<lparr>Res_assets := ((Res_assets m)(old := None))(new \<mapsto> a),
     Res_assetAliases := (Res_assetAliases m)(AssetSafe K a \<mapsto> new)\<rparr>"

definition drop_asset ::
  "('acc, 'grp, 'ast) sdk_ids \<Rightarrow> string \<Rightarrow> 'ast \<Rightarrow> ('acc, 'grp, 'ast) resolver_maps
     \<Rightarrow> ('acc, 'grp, 'ast) resolver_maps" where
  "drop_asset K c a m = m\<lparr>Res_assets := (Res_assets m)(c := None),
     Res_assetAliases := (Res_assetAliases m)(AssetSafe K a := None)\<rparr>"

subsection \<open>Operations\<close>

text \<open>A refused operation has written nothing: every guard precedes the writes.\<close>

type_synonym ('acc, 'grp, 'ast) resolver_op =
  "('acc, 'grp, 'ast) id_resolver \<Rightarrow> go_error + ('acc, 'grp, 'ast) id_resolver"

definition addAccountResolverEntry ::
  "('acc, 'grp, 'ast) sdk_ids \<Rightarrow> account \<Rightarrow> ('acc, 'grp, 'ast) resolver_op" where
  "addAccountResolverEntry K acc r = res_bind (engineAccountID K (Account_EngineAccountID acc)) (\<lambda>i.
     case r of None \<Rightarrow> Inl (Text ''engine: account resolver is not initialized'')
     | Some m \<Rightarrow>
         if Res_accounts m (Account_Code acc) \<noteq> None
         then Inl (Wrap ''engine: account resolver alias already exists'' (Sentinel ErrAlreadyExists))
         else if Res_accountAliases m (AccountHandle K i) \<noteq> None
         then Inl (err_invalid ''engine: account engine id already belongs to resolver alias'')
         else Inr (Some (publish_account K (Account_Code acc) i m)))"

definition addAssetResolverEntry ::
  "('acc, 'grp, 'ast) sdk_ids \<Rightarrow> asset \<Rightarrow> ('acc, 'grp, 'ast) resolver_op" where
  "addAssetResolverEntry K ast r = res_bind (engineAsset K (Asset_EngineAssetID ast)) (\<lambda>ready.
     case r of None \<Rightarrow> Inl (Text ''engine: asset resolver is not initialized'')
     | Some m \<Rightarrow>
         if Res_assets m (Asset_Code ast) \<noteq> None
         then Inl (Wrap ''engine: asset resolver alias already exists'' (Sentinel ErrAlreadyExists))
         else if Res_assetAliases m (AssetSafe K ready) \<noteq> None
         then Inl (err_invalid ''engine: asset engine id already belongs to resolver alias'')
         else if Res_assetIDs m (Asset_EngineAssetID ast) \<noteq> None
         then Inl (err_invalid ''engine: asset engine id already exists'')
         else Inr (Some ((publish_asset K (Asset_Code ast) ready m)
           \<lparr>Res_assetIDs := (Res_assetIDs m)(Asset_EngineAssetID ast \<mapsto> ready)\<rparr>)))"

definition addGroupResolverEntry ::
  "('acc, 'grp, 'ast) sdk_ids \<Rightarrow> account_group \<Rightarrow> ('acc, 'grp, 'ast) resolver_op" where
  "addGroupResolverEntry K g r = res_bind (resolverGroupID K g) (\<lambda>i.
     case r of None \<Rightarrow> Inl (Text ''engine: group resolver is not initialized'')
     | Some m \<Rightarrow>
         if Res_groups m (Group_Code g) \<noteq> None
         then Inl (Wrap ''engine: group resolver alias already exists'' (Sentinel ErrAlreadyExists))
         else if Res_groupAliases m (GroupHandle K i) \<noteq> None
         then Inl (err_invalid ''engine: group engine id already belongs to resolver alias'')
         else Inr (Some (publish_group K (Group_Code g) i m)))"

definition renameAccountResolverEntry ::
  "('acc, 'grp, 'ast) sdk_ids \<Rightarrow> account_id \<Rightarrow> account \<Rightarrow> ('acc, 'grp, 'ast) resolver_op" where
  "renameAccountResolverEntry K oldCode acc r =
     res_bind (engineAccountID K (Account_EngineAccountID acc)) (\<lambda>targetID.
     case r of None \<Rightarrow> Inl unknownAccountAliasError
     | Some m \<Rightarrow> (case Res_accounts m oldCode of
         None \<Rightarrow> Inl unknownAccountAliasError
       | Some currentID \<Rightarrow>
           if AccountHandle K currentID \<noteq> AccountHandle K targetID
           then Inl (err_invalid ''engine: account resolver alias has another engine id'')
           else if oldCode = Account_Code acc then Inr r
           else if Res_accounts m (Account_Code acc) \<noteq> None
           then Inl (Wrap ''engine: account resolver alias already exists'' (Sentinel ErrAlreadyExists))
           else Inr (Some (move_account K oldCode (Account_Code acc) currentID m))))"

definition renameGroupResolverEntry ::
  "('acc, 'grp, 'ast) sdk_ids \<Rightarrow> string \<Rightarrow> account_group \<Rightarrow> ('acc, 'grp, 'ast) resolver_op" where
  "renameGroupResolverEntry K oldCode g r =
     res_bind (resolverGroupID K g) (\<lambda>targetID.
     case r of None \<Rightarrow> Inl unknownGroupAliasError
     | Some m \<Rightarrow> (case Res_groups m oldCode of
         None \<Rightarrow> Inl unknownGroupAliasError
       | Some currentID \<Rightarrow>
           if GroupHandle K currentID \<noteq> GroupHandle K targetID
           then Inl (err_invalid ''engine: group resolver alias has another engine id'')
           else if oldCode = Group_Code g then Inr r
           else if Res_groups m (Group_Code g) \<noteq> None
           then Inl (Wrap ''engine: group resolver alias already exists'' (Sentinel ErrAlreadyExists))
           else Inr (Some (move_group K oldCode (Group_Code g) currentID m))))"

definition removeGroupResolverEntry ::
  "('acc, 'grp, 'ast) sdk_ids \<Rightarrow> account_group \<Rightarrow> ('acc, 'grp, 'ast) resolver_op" where
  "removeGroupResolverEntry K g r =
     res_bind (resolverGroupID K g) (\<lambda>targetID.
     case r of None \<Rightarrow> Inl unknownGroupAliasError
     | Some m \<Rightarrow> (case Res_groups m (Group_Code g) of
         None \<Rightarrow> Inl unknownGroupAliasError
       | Some currentID \<Rightarrow>
           if GroupHandle K currentID \<noteq> GroupHandle K targetID
           then Inl (err_invalid ''engine: group resolver alias has another engine id'')
           else Inr (Some (drop_group K (Group_Code g) currentID m))))"

definition renameAssetResolverEntry ::
  "('acc, 'grp, 'ast) sdk_ids \<Rightarrow> string \<Rightarrow> asset \<Rightarrow> ('acc, 'grp, 'ast) resolver_op" where
  "renameAssetResolverEntry K oldCode ast r =
     (case ValidateEngineAssetID (Asset_EngineAssetID ast) of
        Some e \<Rightarrow> Inl (Wrap ''engine: asset engine id'' e)
      | None \<Rightarrow> (case r of None \<Rightarrow> Inl (Text ''engine: asset resolver is not initialized'')
        | Some m \<Rightarrow> (case Res_assets m oldCode of
            None \<Rightarrow> Inl unknownAssetAliasError
          | Some current \<Rightarrow>
              let k = AssetSafe K current
              in if k \<noteq> FormatUint (Asset_EngineAssetID ast)
                 then Inl (err_invalid ''engine: asset resolver alias has another engine id'')
                 else if oldCode = Asset_Code ast then Inr r
                 else if Res_assets m (Asset_Code ast) \<noteq> None
                 then Inl (Wrap ''engine: asset resolver alias already exists''
                   (Sentinel ErrAlreadyExists))
                 else if Res_assetAliases m k \<noteq> Some oldCode
                 then Inl (err_invalid ''engine: asset resolver alias has corrupt engine id mapping'')
                 else Inr (Some (move_asset K oldCode (Asset_Code ast) current m)))))"

definition removeAssetResolverEntry ::
  "('acc, 'grp, 'ast) sdk_ids \<Rightarrow> asset \<Rightarrow> ('acc, 'grp, 'ast) resolver_op" where
  "removeAssetResolverEntry K ast r =
     (case ValidateEngineAssetID (Asset_EngineAssetID ast) of
        Some e \<Rightarrow> Inl (Wrap ''engine: asset engine id'' e)
      | None \<Rightarrow> (case r of None \<Rightarrow> Inl (Text ''engine: asset resolver is not initialized'')
        | Some m \<Rightarrow> (case Res_assets m (Asset_Code ast) of
            None \<Rightarrow> Inl unknownAssetAliasError
          | Some current \<Rightarrow>
              if AssetSafe K current \<noteq> FormatUint (Asset_EngineAssetID ast)
              then Inl (err_invalid ''engine: asset resolver alias has another engine id'')
              else if Res_assetAliases m (FormatUint (Asset_EngineAssetID ast)) \<noteq> Some (Asset_Code ast)
              then Inl (err_invalid ''engine: asset resolver alias has corrupt engine id mapping'')
              else Inr (Some ((drop_asset K (Asset_Code ast) current m)
                \<lparr>Res_assetIDs := (Res_assetIDs m)(Asset_EngineAssetID ast := None)\<rparr>)))))"

text \<open>The first error ends a loop over entries.\<close>

fun each_entry :: "('a \<Rightarrow> 'r \<Rightarrow> 'e + 'r) \<Rightarrow> 'a list \<Rightarrow> 'r \<Rightarrow> 'e + 'r" where
  "each_entry f [] r = Inr r"
| "each_entry f (x # xs) r = res_bind (f x r) (each_entry f xs)"

definition newIDResolver ::
  "('acc, 'grp, 'ast) sdk_ids \<Rightarrow> account list \<Rightarrow> account_group list \<Rightarrow> asset list
     \<Rightarrow> go_error + ('acc, 'grp, 'ast) id_resolver" where
  "newIDResolver K accounts groups assets =
     res_bind (each_entry (addAccountResolverEntry K) accounts newEmptyIDResolver) (\<lambda>r.
     res_bind (each_entry (addGroupResolverEntry K) groups r) (\<lambda>r.
     each_entry (addAssetResolverEntry K) assets r))"

end
