(* ===== verification/IdResolverSafety.thy ===== *)
theory IdResolverSafety
  imports IdResolver
begin

section \<open>Codes and engine ids stay inverse\<close>

text \<open>
  The contract behind the three dictionaries of the resolver, the locale \<open>id_dictionary\<close>: codes
  map to ids and handles map back to codes, an entry is published, renamed or removed as a
  whole. Its lemmas keep the two maps inverse of each other; the interpretations discharge its
  laws on the writes of accounts, groups and assets. The step relation \<open>resolver_step\<close> is any
  operation of the adapter on its resolver.
\<close>

subsection \<open>Decimal ids are distinct\<close>

lemma of_char_digit: "d < 10 \<Longrightarrow> (of_char (char_of (48 + d :: nat)) :: nat) = 48 + d"
  by simp

lemma digits_value_snoc: "digits_value (ds @ [c]) = 10 * digits_value ds + (int (of_char c) - 48)"
  by (simp add: digits_value_def)

lemma digits_value_decimal [simp]: "digits_value (decimal_digits n) = int n"
proof (induction n rule: decimal_digits.induct)
  case (1 n)
  have m: "(of_char (char_of (48 + n mod 10)) :: nat) = 48 + n mod 10"
    by (rule of_char_digit) simp
  show ?case
  proof (cases "n < 10")
    case True
    then have "decimal_digits n = [] @ [char_of (48 + n mod 10)]"
      by (simp add: decimal_digits.simps[of n])
    then show ?thesis
      using True m unfolding digits_value_snoc[of "[]"] by (simp only: digits_value_snoc)
        (simp add: digits_value_def)
  next
    case False
    then have "decimal_digits n = decimal_digits (n div 10) @ [char_of (48 + n mod 10)]"
      by (simp add: decimal_digits.simps[of n])
    then show ?thesis using 1[OF False] m by (simp only: digits_value_snoc) (simp, presburger)
  qed
qed

lemma FormatUint_inject [simp]: "FormatUint m = FormatUint n \<longleftrightarrow> m = n"
  unfolding FormatUint_def by (metis digits_value_decimal of_nat_eq_iff word_unat_eq_iff)

subsection \<open>The contract of a dictionary\<close>

locale id_dictionary =
  fixes codes :: "'m \<Rightarrow> 'c \<rightharpoonup> 'i" and aliases :: "'m \<Rightarrow> 'k \<rightharpoonup> 'c" and key :: "'i \<Rightarrow> 'k"
    and publish :: "'c \<Rightarrow> 'i \<Rightarrow> 'm \<Rightarrow> 'm" and move :: "'c \<Rightarrow> 'c \<Rightarrow> 'i \<Rightarrow> 'm \<Rightarrow> 'm"
  assumes publish: "codes (publish c i m) = (codes m)(c \<mapsto> i)
      \<and> aliases (publish c i m) = (aliases m)(key i \<mapsto> c)"
    and move: "codes (move c d i m) = ((codes m)(c := None))(d \<mapsto> i)
      \<and> aliases (move c d i m) = (aliases m)(key i \<mapsto> d)"
begin

definition mutual :: "'m \<Rightarrow> bool" where
  "mutual m \<longleftrightarrow> (\<forall>k c. aliases m k = Some c \<longleftrightarrow> (\<exists>i. codes m c = Some i \<and> key i = k))"

lemma mutual_alias: "mutual m \<Longrightarrow> codes m c = Some i \<Longrightarrow> aliases m (key i) = Some c"
  by (auto simp: mutual_def)

lemma mutual_code: "mutual m \<Longrightarrow> aliases m k = Some c \<Longrightarrow> \<exists>i. codes m c = Some i \<and> key i = k"
  by (simp add: mutual_def)

lemma mutual_one_code:
  assumes "mutual m" and "codes m c = Some i" and "codes m d = Some j" and "key i = key j"
  shows "c = d"
  using mutual_alias[OF assms(1,2)] mutual_alias[OF assms(1,3)] assms(4) by simp

lemma mutual_publish:
  assumes "mutual m" and "codes m c = None" and "aliases m (key i) = None"
  shows "mutual (publish c i m)"
  unfolding mutual_def publish[THEN conjunct1] publish[THEN conjunct2]
proof (intro allI)
  fix k d
  have "aliases m (key i) \<noteq> Some d" "\<And>j. codes m d = Some j \<Longrightarrow> key j \<noteq> key i"
    using assms mutual_alias[OF assms(1)] by fastforce+
  then show "((aliases m)(key i \<mapsto> c)) k = Some d
      \<longleftrightarrow> (\<exists>j. ((codes m)(c \<mapsto> i)) d = Some j \<and> key j = k)"
    using assms(1,2) by (auto simp: mutual_def)
qed

lemma mutual_move:
  assumes "mutual m" and "codes m c = Some i" and "codes m d = None"
  shows "mutual (move c d i m)"
  unfolding mutual_def move[THEN conjunct1] move[THEN conjunct2]
proof (intro allI)
  fix k e
  have "\<And>j. e \<noteq> c \<Longrightarrow> codes m e = Some j \<Longrightarrow> key j \<noteq> key i"
    using mutual_one_code[OF assms(1,2)] by metis
  moreover have "aliases m (key i) = Some c" by (rule mutual_alias[OF assms(1,2)])
  ultimately show "((aliases m)(key i \<mapsto> d)) k = Some e
      \<longleftrightarrow> (\<exists>j. (((codes m)(c := None))(d \<mapsto> i)) e = Some j \<and> key j = k)"
    using assms by (auto simp: mutual_def)
qed

end

locale removable_dictionary = id_dictionary +
  fixes drop_entry :: "'b \<Rightarrow> 'c \<Rightarrow> 'a \<Rightarrow> 'a"
  assumes drop_entry: "codes (drop_entry c i m) = (codes m)(c := None)
      \<and> aliases (drop_entry c i m) = (aliases m)(key i := None)"
begin

lemma mutual_drop:
  assumes "mutual m" and "codes m c = Some i"
  shows "mutual (drop_entry c i m)"
  unfolding mutual_def drop_entry[THEN conjunct1] drop_entry[THEN conjunct2]
proof (intro allI)
  fix k e
  have "\<And>j. e \<noteq> c \<Longrightarrow> codes m e = Some j \<Longrightarrow> key j \<noteq> key i"
    using mutual_one_code[OF assms] by metis
  moreover have "aliases m (key i) = Some c" by (rule mutual_alias[OF assms])
  ultimately show "((aliases m)(key i := None)) k = Some e
      \<longleftrightarrow> (\<exists>j. ((codes m)(c := None)) e = Some j \<and> key j = k)"
    using assms by (auto simp: mutual_def)
qed

end

subsection \<open>The three dictionaries\<close>

interpretation account_dictionary: id_dictionary
  Res_accounts Res_accountAliases "AccountHandle K" "publish_account K" "move_account K" for K
  by unfold_locales (simp_all add: publish_account_def move_account_def)

interpretation group_dictionary: removable_dictionary
  Res_groups Res_groupAliases "GroupHandle K" "publish_group K" "move_group K" "drop_group K" for K
  by unfold_locales (simp_all add: publish_group_def move_group_def drop_group_def)

interpretation asset_dictionary: removable_dictionary
  Res_assets Res_assetAliases "AssetSafe K" "publish_asset K" "move_asset K" "drop_asset K" for K
  by unfold_locales (simp_all add: publish_asset_def move_asset_def drop_asset_def)

text \<open>The index of assets by id holds the published assets, each under the id it is named by.\<close>

definition indexed :: "('acc, 'grp, 'ast) sdk_ids \<Rightarrow> ('acc, 'grp, 'ast) resolver_maps \<Rightarrow> bool" where
  "indexed K m \<longleftrightarrow>
     (\<forall>n a. Res_assetIDs m n = Some a
        \<longrightarrow> AssetSafe K a = FormatUint n \<and> (\<exists>c. Res_assets m c = Some a))
     \<and> (\<forall>c a. Res_assets m c = Some a
        \<longrightarrow> (\<exists>n. AssetSafe K a = FormatUint n \<and> Res_assetIDs m n = Some a))"

definition wf_resolver :: "('acc, 'grp, 'ast) sdk_ids \<Rightarrow> ('acc, 'grp, 'ast) resolver_maps \<Rightarrow> bool" where
  "wf_resolver K m \<longleftrightarrow> account_dictionary.mutual K m \<and> group_dictionary.mutual K m
     \<and> asset_dictionary.mutual K m \<and> indexed K m"

text \<open>A write of one dictionary leaves the others alone.\<close>

lemmas resolver_writes = publish_account_def move_account_def publish_group_def move_group_def
  drop_group_def publish_asset_def move_asset_def drop_asset_def

lemma write_frames [simp]:
  "group_dictionary.mutual K (publish_account K c i m) = group_dictionary.mutual K m"
  "asset_dictionary.mutual K (publish_account K c i m) = asset_dictionary.mutual K m"
  "indexed K (publish_account K c i m) = indexed K m"
  "group_dictionary.mutual K (move_account K c d i m) = group_dictionary.mutual K m"
  "asset_dictionary.mutual K (move_account K c d i m) = asset_dictionary.mutual K m"
  "indexed K (move_account K c d i m) = indexed K m"
  "account_dictionary.mutual K (publish_group K g j m) = account_dictionary.mutual K m"
  "asset_dictionary.mutual K (publish_group K g j m) = asset_dictionary.mutual K m"
  "indexed K (publish_group K g j m) = indexed K m"
  "account_dictionary.mutual K (move_group K g h j m) = account_dictionary.mutual K m"
  "asset_dictionary.mutual K (move_group K g h j m) = asset_dictionary.mutual K m"
  "indexed K (move_group K g h j m) = indexed K m"
  "account_dictionary.mutual K (drop_group K g j m) = account_dictionary.mutual K m"
  "asset_dictionary.mutual K (drop_group K g j m) = asset_dictionary.mutual K m"
  "indexed K (drop_group K g j m) = indexed K m"
  "account_dictionary.mutual K (publish_asset K s a m) = account_dictionary.mutual K m"
  "group_dictionary.mutual K (publish_asset K s a m) = group_dictionary.mutual K m"
  "account_dictionary.mutual K (move_asset K s u a m) = account_dictionary.mutual K m"
  "group_dictionary.mutual K (move_asset K s u a m) = group_dictionary.mutual K m"
  "account_dictionary.mutual K (drop_asset K s a m) = account_dictionary.mutual K m"
  "group_dictionary.mutual K (drop_asset K s a m) = group_dictionary.mutual K m"
  by (simp_all add: resolver_writes indexed_def account_dictionary.mutual_def
      group_dictionary.mutual_def asset_dictionary.mutual_def)

lemma index_frames [simp]:
  "account_dictionary.mutual K (m\<lparr>Res_assetIDs := x\<rparr>) = account_dictionary.mutual K m"
  "group_dictionary.mutual K (m\<lparr>Res_assetIDs := x\<rparr>) = group_dictionary.mutual K m"
  "asset_dictionary.mutual K (m\<lparr>Res_assetIDs := x\<rparr>) = asset_dictionary.mutual K m"
  by (simp_all add: account_dictionary.mutual_def group_dictionary.mutual_def
      asset_dictionary.mutual_def)

lemma indexedI:
  assumes "\<And>n a. Res_assetIDs m n = Some a \<Longrightarrow> AssetSafe K a = FormatUint n \<and> (\<exists>c. Res_assets m c = Some a)"
    and "\<And>c a. Res_assets m c = Some a \<Longrightarrow> \<exists>n. AssetSafe K a = FormatUint n \<and> Res_assetIDs m n = Some a"
  shows "indexed K m"
  unfolding indexed_def using assms by blast

lemma indexed_id:
  assumes "indexed K m" and "Res_assetIDs m n = Some a"
  obtains c where "AssetSafe K a = FormatUint n" "Res_assets m c = Some a"
  using assms unfolding indexed_def by blast

lemma indexed_code:
  assumes "indexed K m" and "Res_assets m c = Some a"
  obtains n where "AssetSafe K a = FormatUint n" "Res_assetIDs m n = Some a"
  using assms unfolding indexed_def by blast

lemma indexed_publish:
  assumes "indexed K m" and "Res_assets m c = None"
    and "Res_assetIDs m n = None" and "AssetSafe K a = FormatUint n"
  shows "indexed K ((publish_asset K c a m)\<lparr>Res_assetIDs := (Res_assetIDs m)(n \<mapsto> a)\<rparr>)"
proof (rule indexedI)
  fix k b
  assume "Res_assetIDs ((publish_asset K c a m)\<lparr>Res_assetIDs := (Res_assetIDs m)(n \<mapsto> a)\<rparr>) k = Some b"
  then consider "k = n" "b = a" | "Res_assetIDs m k = Some b"
    by (cases "k = n") simp_all
  then show "AssetSafe K b = FormatUint k
    \<and> (\<exists>d. Res_assets ((publish_asset K c a m)\<lparr>Res_assetIDs := (Res_assetIDs m)(n \<mapsto> a)\<rparr>) d = Some b)"
  proof cases
    case 1
    then show ?thesis
      using assms(4) by (intro conjI exI[of _ c]) (simp_all add: publish_asset_def)
  next
    case 2
    obtain d where d: "AssetSafe K b = FormatUint k" "Res_assets m d = Some b"
      by (rule indexed_id[OF assms(1) 2])
    then have "d \<noteq> c" using assms(2) by auto
    then show ?thesis using d by (intro conjI exI[of _ d]) (simp_all add: publish_asset_def)
  qed
next
  fix d b
  assume "Res_assets ((publish_asset K c a m)\<lparr>Res_assetIDs := (Res_assetIDs m)(n \<mapsto> a)\<rparr>) d = Some b"
  then consider "b = a" | "Res_assets m d = Some b"
    by (cases "d = c") (simp_all add: publish_asset_def)
  then show "\<exists>k. AssetSafe K b = FormatUint k
      \<and> Res_assetIDs ((publish_asset K c a m)\<lparr>Res_assetIDs := (Res_assetIDs m)(n \<mapsto> a)\<rparr>) k = Some b"
  proof cases
    case 1
    then show ?thesis using assms(4) by (intro exI[of _ n]) simp
  next
    case 2
    obtain k where k: "AssetSafe K b = FormatUint k" "Res_assetIDs m k = Some b"
      by (rule indexed_code[OF assms(1) 2])
    then have "k \<noteq> n" using assms(3) by auto
    with k show ?thesis by (intro exI[of _ k]) simp
  qed
qed

lemma indexed_move:
  assumes "indexed K m" and "Res_assets m c = Some a" and "Res_assets m d = None"
  shows "indexed K (move_asset K c d a m)"
proof (rule indexedI)
  fix k b
  assume "Res_assetIDs (move_asset K c d a m) k = Some b"
  then have i: "Res_assetIDs m k = Some b" by (simp add: move_asset_def)
  obtain e where e: "AssetSafe K b = FormatUint k" "Res_assets m e = Some b"
    by (rule indexed_id[OF assms(1) i])
  have "Res_assets (move_asset K c d a m) (if e = c then d else e) = Some b"
    using e(2) assms(2,3) by (auto simp: move_asset_def)
  then show "AssetSafe K b = FormatUint k \<and> (\<exists>x. Res_assets (move_asset K c d a m) x = Some b)"
    using e(1) by blast
next
  fix e b
  assume "Res_assets (move_asset K c d a m) e = Some b"
  then have "Res_assets m (if e = d then c else e) = Some b"
    using assms(2) by (auto simp: move_asset_def split: if_splits)
  then obtain k where "AssetSafe K b = FormatUint k" "Res_assetIDs m k = Some b"
    by (rule indexed_code[OF assms(1)])
  then show "\<exists>k. AssetSafe K b = FormatUint k \<and> Res_assetIDs (move_asset K c d a m) k = Some b"
    by (auto simp: move_asset_def)
qed

lemma indexed_drop:
  assumes "indexed K m" and "asset_dictionary.mutual K m" and "Res_assets m c = Some a"
    and "AssetSafe K a = FormatUint n"
  shows "indexed K ((drop_asset K c a m)\<lparr>Res_assetIDs := (Res_assetIDs m)(n := None)\<rparr>)"
proof (rule indexedI)
  fix k b
  assume "Res_assetIDs ((drop_asset K c a m)\<lparr>Res_assetIDs := (Res_assetIDs m)(n := None)\<rparr>) k = Some b"
  then have i: "k \<noteq> n" "Res_assetIDs m k = Some b" by (auto split: if_splits)
  obtain e where e: "AssetSafe K b = FormatUint k" "Res_assets m e = Some b"
    by (rule indexed_id[OF assms(1) i(2)])
  then have "e \<noteq> c" using assms(3,4) i(1) by auto
  then show "AssetSafe K b = FormatUint k
    \<and> (\<exists>x. Res_assets ((drop_asset K c a m)\<lparr>Res_assetIDs := (Res_assetIDs m)(n := None)\<rparr>) x = Some b)"
    using e by (auto simp: drop_asset_def)
next
  fix e b
  assume "Res_assets ((drop_asset K c a m)\<lparr>Res_assetIDs := (Res_assetIDs m)(n := None)\<rparr>) e = Some b"
  then have e: "e \<noteq> c" "Res_assets m e = Some b" by (auto simp: drop_asset_def split: if_splits)
  obtain k where k: "AssetSafe K b = FormatUint k" "Res_assetIDs m k = Some b"
    by (rule indexed_code[OF assms(1) e(2)])
  have "k \<noteq> n"
    using asset_dictionary.mutual_one_code[OF assms(2) e(2) assms(3)] e(1) k(1) assms(4) by auto
  with k show "\<exists>k. AssetSafe K b = FormatUint k
      \<and> Res_assetIDs ((drop_asset K c a m)\<lparr>Res_assetIDs := (Res_assetIDs m)(n := None)\<rparr>) k = Some b"
    by auto
qed

subsection \<open>Operations keep the resolver well formed\<close>

inductive resolver_step ::
  "('acc, 'grp, 'ast) sdk_ids \<Rightarrow> ('acc, 'grp, 'ast) id_resolver \<Rightarrow> ('acc, 'grp, 'ast) id_resolver \<Rightarrow> bool"
  for K where
  add_account: "addAccountResolverEntry K acc r = Inr r' \<Longrightarrow> resolver_step K r r'"
| add_asset: "addAssetResolverEntry K ast r = Inr r' \<Longrightarrow> resolver_step K r r'"
| add_group: "addGroupResolverEntry K g r = Inr r' \<Longrightarrow> resolver_step K r r'"
| rename_account: "renameAccountResolverEntry K old acc r = Inr r' \<Longrightarrow> resolver_step K r r'"
| rename_asset: "renameAssetResolverEntry K old ast r = Inr r' \<Longrightarrow> resolver_step K r r'"
| rename_group: "renameGroupResolverEntry K old g r = Inr r' \<Longrightarrow> resolver_step K r r'"
| remove_asset: "removeAssetResolverEntry K ast r = Inr r' \<Longrightarrow> resolver_step K r r'"
| remove_group: "removeGroupResolverEntry K g r = Inr r' \<Longrightarrow> resolver_step K r r'"

definition resolver_ok :: "('acc, 'grp, 'ast) sdk_ids \<Rightarrow> ('acc, 'grp, 'ast) id_resolver \<Rightarrow> bool" where
  "resolver_ok K r = (case r of None \<Rightarrow> True | Some m \<Rightarrow> wf_resolver K m)"

lemma engineAsset_named:
  "sdk_ids_ok K \<Longrightarrow> engineAsset K n = Inr a \<Longrightarrow> AssetSafe K a = FormatUint n"
  by (auto simp: sdk_ids_ok_def engineAsset_def split: option.splits sum.splits)

lemma empty_resolver_ok: "resolver_ok K newEmptyIDResolver"
  by (simp add: resolver_ok_def newEmptyIDResolver_def wf_resolver_def indexed_def
      account_dictionary.mutual_def group_dictionary.mutual_def asset_dictionary.mutual_def)

lemma resolver_step_ok:
  assumes "sdk_ids_ok K" and "resolver_step K r r'" and "resolver_ok K r"
  shows "resolver_ok K r'"
  using assms(2)
proof cases
  case (add_account acc)
  then show ?thesis using assms(3)
    by (auto simp: addAccountResolverEntry_def res_bind_Inr resolver_ok_def wf_resolver_def
        intro: account_dictionary.mutual_publish split: option.split_asm if_split_asm)
next
  case (add_asset ast)
  then obtain a where e: "engineAsset K (Asset_EngineAssetID ast) = Inr a"
    by (auto simp: addAssetResolverEntry_def res_bind_Inr)
  with add_asset obtain m where m: "r = Some m"
    by (cases r) (simp_all add: addAssetResolverEntry_def)
  with add_asset e have a: "Res_assets m (Asset_Code ast) = None"
    "Res_assetAliases m (AssetSafe K a) = None" "Res_assetIDs m (Asset_EngineAssetID ast) = None"
    "r' = Some ((publish_asset K (Asset_Code ast) a m)
           \<lparr>Res_assetIDs := (Res_assetIDs m)(Asset_EngineAssetID ast \<mapsto> a)\<rparr>)"
    by (simp_all add: addAssetResolverEntry_def split: if_split_asm)
  then show ?thesis
    using assms(3) m indexed_publish[OF _ a(1) a(3) engineAsset_named[OF assms(1) e]]
    by (simp add: resolver_ok_def wf_resolver_def asset_dictionary.mutual_publish)
next
  case (add_group g)
  then show ?thesis using assms(3)
    by (auto simp: addGroupResolverEntry_def res_bind_Inr resolver_ok_def wf_resolver_def
        intro: group_dictionary.mutual_publish split: option.split_asm if_split_asm)
next
  case (rename_account old acc)
  then show ?thesis using assms(3)
    by (auto simp: renameAccountResolverEntry_def res_bind_Inr resolver_ok_def wf_resolver_def
        intro: account_dictionary.mutual_move split: option.split_asm if_split_asm)
next
  case (rename_asset old ast)
  then show ?thesis using assms(3)
    by (auto simp: renameAssetResolverEntry_def Let_def resolver_ok_def wf_resolver_def
        intro: asset_dictionary.mutual_move indexed_move split: option.split_asm if_split_asm)
next
  case (rename_group old g)
  then show ?thesis using assms(3)
    by (auto simp: renameGroupResolverEntry_def res_bind_Inr resolver_ok_def wf_resolver_def
        intro: group_dictionary.mutual_move split: option.split_asm if_split_asm)
next
  case (remove_asset ast)
  then show ?thesis using assms(3)
    by (auto simp: removeAssetResolverEntry_def resolver_ok_def wf_resolver_def
        intro: asset_dictionary.mutual_drop indexed_drop split: option.split_asm if_split_asm)
next
  case (remove_group g)
  then show ?thesis using assms(3)
    by (auto simp: removeGroupResolverEntry_def res_bind_Inr resolver_ok_def wf_resolver_def
        intro: group_dictionary.mutual_drop split: option.split_asm if_split_asm)
qed

lemma resolver_steps_ok:
  assumes "(resolver_step K)\<^sup>*\<^sup>* r r'" and "sdk_ids_ok K" and "resolver_ok K r"
  shows "resolver_ok K r'"
  using assms by (induction rule: rtranclp_induct) (auto intro: resolver_step_ok)

lemma each_entry_steps:
  assumes "\<And>x s s'. f x s = Inr s' \<Longrightarrow> R s s'" and "each_entry f xs r = Inr r'"
  shows "R\<^sup>*\<^sup>* r r'"
  using assms(2)
proof (induction xs arbitrary: r)
  case (Cons x xs)
  then obtain u where "f x r = Inr u" "each_entry f xs u = Inr r'" by (auto simp: res_bind_Inr)
  then show ?case using Cons.IH assms(1) by (meson converse_rtranclp_into_rtranclp)
qed simp

lemma newIDResolver_steps:
  assumes "newIDResolver K accounts groups assets = Inr r"
  shows "(resolver_step K)\<^sup>*\<^sup>* newEmptyIDResolver r"
proof -
  from assms obtain u v where "each_entry (addAccountResolverEntry K) accounts newEmptyIDResolver = Inr u"
    "each_entry (addGroupResolverEntry K) groups u = Inr v"
    "each_entry (addAssetResolverEntry K) assets v = Inr r"
    by (auto simp: newIDResolver_def res_bind_Inr)
  then have "(resolver_step K)\<^sup>*\<^sup>* newEmptyIDResolver u" "(resolver_step K)\<^sup>*\<^sup>* u v"
    "(resolver_step K)\<^sup>*\<^sup>* v r"
    by (auto elim: each_entry_steps[rotated] intro: add_account add_group add_asset)
  then show ?thesis by simp
qed

lemma newIDResolver_ok:
  "sdk_ids_ok K \<Longrightarrow> newIDResolver K accounts groups assets = Inr r \<Longrightarrow> resolver_ok K r"
  using resolver_steps_ok newIDResolver_steps empty_resolver_ok by blast

subsection \<open>Lookups\<close>

lemma lookup_Inr: "lookup e f r k = Inr v \<longleftrightarrow> (\<exists>m. r = Some m \<and> f m k = Some v)"
  by (auto simp: lookup_def split: option.splits)

lemmas lookup_defs = resolve_account_def accountAlias_def resolve_asset_def assetByID_def
  assetAlias_def resolve_group_def lookup_Inr

lemma account_code_inverse:
  assumes "resolver_ok K r"
  shows "resolve_account r c = Inr i \<Longrightarrow> accountAlias K r i = Inr c"
    and "accountAlias K r i = Inr c
      \<Longrightarrow> \<exists>j. resolve_account r c = Inr j \<and> AccountHandle K j = AccountHandle K i"
  using assms account_dictionary.mutual_alias account_dictionary.mutual_code
  by (fastforce simp: lookup_defs resolver_ok_def wf_resolver_def)+

lemma asset_code_inverse:
  assumes "resolver_ok K r"
  shows "resolve_asset r c = Inr a \<Longrightarrow> assetAlias K r a = Inr c"
    and "assetAlias K r a = Inr c
      \<Longrightarrow> \<exists>b. resolve_asset r c = Inr b \<and> AssetSafe K b = AssetSafe K a"
  using assms asset_dictionary.mutual_alias asset_dictionary.mutual_code
  by (fastforce simp: lookup_defs resolver_ok_def wf_resolver_def)+

lemma group_code_inverse:
  assumes "resolver_ok K r" and "resolve_group r c = Inr i" and "resolve_group r d = Inr j"
    and "GroupHandle K i = GroupHandle K j"
  shows "c = d"
  using assms group_dictionary.mutual_one_code
  by (fastforce simp: lookup_defs resolver_ok_def wf_resolver_def)

lemma asset_id_index:
  assumes "resolver_ok K r" and "assetByID r n = Inr a"
  obtains c where "resolve_asset r c = Inr a" "AssetSafe K a = FormatUint n"
proof -
  from assms obtain m where m: "r = Some m" "indexed K m" "Res_assetIDs m n = Some a"
    by (auto simp: lookup_defs resolver_ok_def wf_resolver_def)
  obtain c where "AssetSafe K a = FormatUint n" "Res_assets m c = Some a"
    by (rule indexed_id[OF m(2,3)])
  then show thesis using that[of c] m(1) by (simp add: lookup_defs)
qed

lemma asset_has_id:
  assumes "resolver_ok K r" and "resolve_asset r c = Inr a"
  obtains n where "assetByID r n = Inr a" "AssetSafe K a = FormatUint n"
proof -
  from assms obtain m where m: "r = Some m" "indexed K m" "Res_assets m c = Some a"
    by (auto simp: lookup_defs resolver_ok_def wf_resolver_def)
  obtain n where "AssetSafe K a = FormatUint n" "Res_assetIDs m n = Some a"
    by (rule indexed_code[OF m(2,3)])
  then show thesis using that[of n] m(1) by (simp add: lookup_defs)
qed

subsection \<open>Ids are stable\<close>

text \<open>Only a removal takes an engine id out of the dictionary: no operation gives a published
  account another id or another account its id.\<close>

definition account_ids :: "('acc, 'grp, 'ast) id_resolver \<Rightarrow> 'acc set" where
  "account_ids r = {i. \<exists>c. resolve_account r c = Inr i}"

lemma account_ids_cong:
  "map_option Res_accounts r' = map_option Res_accounts r \<Longrightarrow> account_ids r \<subseteq> account_ids r'"
  by (cases r; cases r') (simp_all add: account_ids_def lookup_defs)

text \<open>The operations on assets and groups leave the accounts alone.\<close>

lemma add_asset_keeps:
  "addAssetResolverEntry K ast r = Inr r' \<Longrightarrow> map_option Res_accounts r' = map_option Res_accounts r"
  by (cases r) (auto simp: addAssetResolverEntry_def res_bind_Inr resolver_writes Let_def
      split: option.splits if_split_asm)

lemma add_group_keeps:
  "addGroupResolverEntry K g r = Inr r' \<Longrightarrow> map_option Res_accounts r' = map_option Res_accounts r"
  by (cases r) (auto simp: addGroupResolverEntry_def res_bind_Inr resolver_writes Let_def
      split: option.splits if_split_asm)

lemma rename_asset_keeps:
  "renameAssetResolverEntry K old ast r = Inr r' \<Longrightarrow> map_option Res_accounts r' = map_option Res_accounts r"
  by (cases r) (auto simp: renameAssetResolverEntry_def res_bind_Inr resolver_writes Let_def
      split: option.splits if_split_asm)

lemma rename_group_keeps:
  "renameGroupResolverEntry K old g r = Inr r' \<Longrightarrow> map_option Res_accounts r' = map_option Res_accounts r"
  by (cases r) (auto simp: renameGroupResolverEntry_def res_bind_Inr resolver_writes Let_def
      split: option.splits if_split_asm)

lemma remove_asset_keeps:
  "removeAssetResolverEntry K ast r = Inr r' \<Longrightarrow> map_option Res_accounts r' = map_option Res_accounts r"
  by (cases r) (auto simp: removeAssetResolverEntry_def res_bind_Inr resolver_writes Let_def
      split: option.splits if_split_asm)

lemma remove_group_keeps:
  "removeGroupResolverEntry K g r = Inr r' \<Longrightarrow> map_option Res_accounts r' = map_option Res_accounts r"
  by (cases r) (auto simp: removeGroupResolverEntry_def res_bind_Inr resolver_writes Let_def
      split: option.splits if_split_asm)

lemma account_ids_grow:
  assumes "resolver_step K r r'"
  shows "account_ids r \<subseteq> account_ids r'"
  using assms
proof cases
  case (add_account acc)
  then obtain m where m: "r = Some m" by (cases r) (auto simp: addAccountResolverEntry_def res_bind_Inr)
  with add_account obtain i where "Res_accounts m (Account_Code acc) = None"
    "r' = Some (publish_account K (Account_Code acc) i m)"
    by (auto simp: addAccountResolverEntry_def res_bind_Inr split: if_split_asm)
  then have "Res_accounts m c = Some j \<Longrightarrow> resolve_account r' c = Inr j" for c j
    by (auto simp: lookup_defs publish_account_def)
  moreover have "account_ids r = {i. \<exists>c. Res_accounts m c = Some i}"
    using m by (simp add: account_ids_def lookup_defs)
  ultimately show ?thesis by (auto simp: account_ids_def)
next
  case (rename_account old acc)
  then obtain m where m1: "r = Some m"
    by (cases r) (auto simp: renameAccountResolverEntry_def res_bind_Inr)
  with rename_account obtain i where m2: "Res_accounts m old = Some i"
    by (cases "Res_accounts m old") (auto simp: renameAccountResolverEntry_def res_bind_Inr)
  with rename_account m1 have "r' = r \<or> Res_accounts m (Account_Code acc) = None
       \<and> r' = Some (move_account K old (Account_Code acc) i m)"
    by (auto simp: renameAccountResolverEntry_def res_bind_Inr split: if_split_asm)
  note m = m1 m2 this
  have "j \<in> account_ids (Some (move_account K old (Account_Code acc) i m))"
    if "Res_accounts m c = Some j" "Res_accounts m (Account_Code acc) = None" for c j
    unfolding account_ids_def mem_Collect_eq
    by (rule exI[of _ "if c = old then Account_Code acc else c"])
       (use that m(2) in \<open>auto simp: lookup_defs move_account_def\<close>)
  then show ?thesis using m by (auto simp: account_ids_def lookup_defs)
qed (auto intro!: account_ids_cong dest: add_asset_keeps add_group_keeps rename_asset_keeps
    rename_group_keeps remove_asset_keeps remove_group_keeps)

lemma account_ids_kept: "(resolver_step K)\<^sup>*\<^sup>* r r' \<Longrightarrow> account_ids r \<subseteq> account_ids r'"
  by (induction rule: rtranclp_induct) (auto dest: account_ids_grow)

subsection \<open>A concrete SDK\<close>

text \<open>Integer ids as the SDK's ids, texts as its assets.\<close>

definition plain_ids :: "(64 word, 32 word, string) sdk_ids" where
  "plain_ids = \<lparr> NewAccountIDFromUint64 = id, AccountHandle = id,
     NewAccountGroupIDFromUint32 = Inr, GroupHandle = id, DefaultAccountGroup = 0,
     NewAsset = Inr, AssetSafe = id \<rparr>"

lemma plain_ids_ok: "sdk_ids_ok plain_ids"
  by (simp add: sdk_ids_ok_def plain_ids_def)

definition desk_account :: account where
  "desk_account = \<lparr> Account_Code = ''desk'', Account_Title = [], Account_Pnl = [],
     Account_PnlHaltReason = NoPnlHalt, Account_Currency = [], Account_EffectiveCurrency = [],
     Account_CurrencyOrigin = [], Account_GroupCurrency = [], Account_DefaultCurrency = [],
     Account_GroupCode = [], Account_Notes = [], Account_BlockReason = [], Account_BlockPolicy = [],
     Account_BlockCode = [], Account_BlockDetails = [], Account_EngineAccountID = 7,
     Account_Blocked = False \<rparr>"

definition usd_asset :: asset where
  "usd_asset = \<lparr> Asset_Code = ''USD'', Asset_Title = [], Asset_Class = [], Asset_EngineAssetID = 2 \<rparr>"

definition desk_resolver :: "(64 word, 32 word, string) id_resolver" where
  "desk_resolver = Some \<lparr> Res_accounts = [''desk'' \<mapsto> 7], Res_accountAliases = [7 \<mapsto> ''desk''],
     Res_assets = [''USD'' \<mapsto> ''2''], Res_assetIDs = [2 \<mapsto> ''2''], Res_assetAliases = [''2'' \<mapsto> ''USD''],
     Res_groups = Map.empty, Res_groupAliases = Map.empty \<rparr>"

lemma desk_resolver_new: "newIDResolver plain_ids [desk_account] [] [usd_asset] = Inr desk_resolver"
proof -
  have "char_of (50 :: nat) = CHR ''2''" by code_simp
  then have "FormatUint 2 = ''2''" by (simp add: FormatUint_def decimal_digits.simps)
  then show ?thesis
    by (simp add: newIDResolver_def newEmptyIDResolver_def addAccountResolverEntry_def
        addAssetResolverEntry_def engineAccountID_def engineAsset_def plain_ids_def desk_account_def
        usd_asset_def desk_resolver_def publish_account_def publish_asset_def
        ValidateEngineAccountID_def ValidateEngineAssetID_def EngineAccountIDMin_def
        EngineAccountIDMax_def EngineAssetIDMin_def EngineAssetIDMax_def check_def)
qed

end
