(* ===== verification/EngineLimits.thy ===== *)
theory EngineLimits
  imports IdResolverSafety LimitRules
begin

section \<open>Limits on the live engine\<close>

text \<open>
  How the adapter of the risk engine takes limits: \<^verbatim>\<open>engine/mapping.go\<close> maps the stored barriers
  to the settings of the engine's policies, \<^verbatim>\<open>engine/openpit.go\<close> installs them at a build and
  replaces them on the live handle. The engine library is outside: its value constructors are
  the parameter \<open>sdk_values\<close>, and each configuring call takes its answer as an argument. A call
  the engine refuses changes nothing, one that breaks off leaves whatever the library makes of the
  old and the new settings (\<open>Lib_Left\<close>), and one it accepts installs the settings and reports
  account blocks, whose translation back to codes may fail.
\<close>

record 'v sdk_values =
  NewQuantityFromString :: "string \<Rightarrow> go_error + 'v"
  NewVolumeFromString :: "string \<Rightarrow> go_error + 'v"
  NewPnlFromString :: "string \<Rightarrow> go_error + 'v"

datatype sdk_answer =
    Cancelled
  | Refuses string
  | BreaksOff string
  | Accepts "string + account_block list"

record rate_value =
  Rv_MaxOrders :: "64 word"
  Rv_Window :: duration

record 'v size_value =
  Sv_MaxQuantity :: "'v option"
  Sv_MaxNotional :: "'v option"

record ('ast, 'v) pnl_barrier =
  Pb_Currency :: 'ast
  Pb_LowerBound :: "'v option"
  Pb_UpperBound :: "'v option"

record ('acc, 'ast) rate_axes =
  Rx_Broker :: "rate_value option"
  Rx_Assets :: "('ast \<times> rate_value) list"
  Rx_Accounts :: "('acc \<times> rate_value) list"
  Rx_AccountAssets :: "(('acc \<times> 'ast) \<times> rate_value) list"

record ('acc, 'ast, 'v) size_axes =
  Sx_Broker :: "'v size_value option"
  Sx_Assets :: "('ast \<times> 'v size_value) list"
  Sx_AccountAssets :: "(('acc \<times> 'ast) \<times> 'v size_value) list"

record ('acc, 'grp, 'ast, 'v) pnl_axes =
  Px_Global :: "('ast, 'v) pnl_barrier option"
  Px_Groups :: "('grp \<times> ('ast, 'v) pnl_barrier) list"
  Px_Accounts :: "('acc \<times> ('ast, 'v) pnl_barrier) list"

subsection \<open>Rate limits\<close>

definition MaxUint :: "64 word" where "MaxUint = - 1"

definition rateLimitValue :: "limit_rate \<Rightarrow> go_error + rate_value" where
  "rateLimitValue l =
     (if Rate_MaxOrders l > MaxUint then Inl (Text ''engine: rate_limit max_orders exceeds platform uint'')
      else Inr \<lparr> Rv_MaxOrders = Rate_MaxOrders l, Rv_Window = Rate_Window l \<rparr>)"

definition rate_axis_entry ::
  "('acc, 'grp, 'ast) id_resolver \<Rightarrow> limit_rate \<Rightarrow> ('acc, 'ast) rate_axes
     \<Rightarrow> go_error + ('acc, 'ast) rate_axes" where
  "rate_axis_entry res l x = res_bind (rateLimitValue l) (\<lambda>rate.
     case Rate_Scope l of
       ScopeBroker \<Rightarrow>
         if Rx_Broker x \<noteq> None then Inl (Text ''engine: rate_limit carries more than one broker barrier'')
         else Inr (x\<lparr>Rx_Broker := Some rate\<rparr>)
     | ScopeAsset \<Rightarrow> res_bind (resolve_asset res (Rate_Asset l)) (\<lambda>asset.
         Inr (x\<lparr>Rx_Assets := Rx_Assets x @ [(asset, rate)]\<rparr>))
     | ScopeAccount \<Rightarrow> res_bind (resolve_account res (Rate_Account l)) (\<lambda>acc.
         Inr (x\<lparr>Rx_Accounts := Rx_Accounts x @ [(acc, rate)]\<rparr>))
     | ScopeAccountAsset \<Rightarrow> res_bind (resolve_account res (Rate_Account l)) (\<lambda>acc.
         res_bind (resolve_asset res (Rate_Asset l)) (\<lambda>asset.
         Inr (x\<lparr>Rx_AccountAssets := Rx_AccountAssets x @ [((acc, asset), rate)]\<rparr>)))
     | _ \<Rightarrow> Inl (Text ''engine: rate_limit unsupported scope''))"

definition no_rate_axes :: "('acc, 'ast) rate_axes" where
  "no_rate_axes = \<lparr> Rx_Broker = None, Rx_Assets = [], Rx_Accounts = [], Rx_AccountAssets = [] \<rparr>"

definition rateLimitAxes ::
  "limit_rate list \<Rightarrow> ('acc, 'grp, 'ast) id_resolver \<Rightarrow> go_error + ('acc, 'ast) rate_axes" where
  "rateLimitAxes limits res = each_entry (rate_axis_entry res) limits no_rate_axes"

text \<open>The builder of a new engine is given the same axes.\<close>

definition rateLimitReady ::
  "limit_rate list \<Rightarrow> ('acc, 'grp, 'ast) id_resolver \<Rightarrow> go_error + ('acc, 'ast) rate_axes" where
  "rateLimitReady limits res = each_entry (rate_axis_entry res) limits no_rate_axes"

subsection \<open>Order sizes\<close>

definition orderSizeValue :: "'v sdk_values \<Rightarrow> limit_order_size \<Rightarrow> go_error + 'v size_value" where
  "orderSizeValue V l =
     res_bind (if Size_MaxQuantity l \<noteq> []
       then (case NewQuantityFromString V (Size_MaxQuantity l) of
           Inl e \<Rightarrow> Inl (Wrap ''engine: order_size_limit max_quantity'' e) | Inr q \<Rightarrow> Inr (Some q))
       else Inr None) (\<lambda>quantity.
     res_bind (if Size_MaxNotional l \<noteq> []
       then (case NewVolumeFromString V (Size_MaxNotional l) of
           Inl e \<Rightarrow> Inl (Wrap ''engine: order_size_limit max_notional'' e) | Inr n \<Rightarrow> Inr (Some n))
       else Inr None) (\<lambda>notional.
     Inr \<lparr> Sv_MaxQuantity = quantity, Sv_MaxNotional = notional \<rparr>))"

definition mergeOrderSizeValue ::
  "'v size_value \<Rightarrow> 'v size_value \<Rightarrow> go_error + 'v size_value" where
  "mergeOrderSizeValue current incoming =
     (if Sv_MaxQuantity current \<noteq> None \<and> Sv_MaxQuantity incoming \<noteq> None
      then Inl (err_invalid ''engine: duplicate order_size_limit max_quantity'')
      else if Sv_MaxNotional current \<noteq> None \<and> Sv_MaxNotional incoming \<noteq> None
      then Inl (err_invalid ''engine: duplicate order_size_limit max_notional'')
      else
        let current = (if Sv_MaxQuantity incoming \<noteq> None
              then current\<lparr>Sv_MaxQuantity := Sv_MaxQuantity incoming\<rparr> else current);
            current = (if Sv_MaxNotional incoming \<noteq> None
              then current\<lparr>Sv_MaxNotional := Sv_MaxNotional incoming\<rparr> else current)
        in Inr current)"

text \<open>The index of an axis maps a key to the position of its one entry: a value is merged into
  the entry with its key or appended.\<close>

fun place_size ::
  "('k \<Rightarrow> bool) \<Rightarrow> 'k \<Rightarrow> 'v size_value \<Rightarrow> ('k \<times> 'v size_value) list
     \<Rightarrow> go_error + ('k \<times> 'v size_value) list" where
  "place_size same k cap [] = Inr [(k, cap)]"
| "place_size same k cap ((k', current) # xs) =
     (if same k' then res_bind (mergeOrderSizeValue current cap) (\<lambda>merged. Inr ((k', merged) # xs))
      else res_bind (place_size same k cap xs) (\<lambda>ys. Inr ((k', current) # ys)))"

definition size_axis_entry ::
  "(nat \<Rightarrow> bool) \<Rightarrow> 'd decimal_pkg \<Rightarrow> 'v sdk_values \<Rightarrow> ('acc, 'grp, 'ast) sdk_ids
     \<Rightarrow> ('acc, 'grp, 'ast) id_resolver \<Rightarrow> limit_order_size \<Rightarrow> ('acc, 'ast, 'v) size_axes
     \<Rightarrow> go_error + ('acc, 'ast, 'v) size_axes" where
  "size_axis_entry pr D V K res l x =
     (case LimitOrderSize_Validate pr D l of
        Some e \<Rightarrow> Inl (Wrap ''engine: invalid order_size_limit'' e)
      | None \<Rightarrow> res_bind (orderSizeValue V l) (\<lambda>cap.
        if Size_Scope l = ScopeBroker then
          if Sx_Broker x \<noteq> None
          then Inl (Text ''engine: order_size_limit carries more than one broker barrier'')
          else Inr (x\<lparr>Sx_Broker := Some cap\<rparr>)
        else if Size_Scope l = ScopeUnderlyingAsset \<or> Size_Scope l = ScopeSettlementAsset then
          res_bind (resolve_asset res (Size_Asset l)) (\<lambda>asset.
          res_bind (place_size (\<lambda>k. AssetSafe K k = AssetSafe K asset) asset cap (Sx_Assets x))
            (\<lambda>xs. Inr (x\<lparr>Sx_Assets := xs\<rparr>)))
        else if Size_Scope l = ScopeAccountUnderlyingAsset \<or> Size_Scope l = ScopeAccountSettlementAsset then
          res_bind (resolve_account res (Size_Account l)) (\<lambda>acc.
          res_bind (resolve_asset res (Size_Asset l)) (\<lambda>asset.
          res_bind (place_size (\<lambda>k. fst k = acc \<and> AssetSafe K (snd k) = AssetSafe K asset)
              (acc, asset) cap (Sx_AccountAssets x))
            (\<lambda>xs. Inr (x\<lparr>Sx_AccountAssets := xs\<rparr>))))
        else Inl (Text ''engine: order_size_limit unsupported scope'')))"

definition no_size_axes :: "('acc, 'ast, 'v) size_axes" where
  "no_size_axes = \<lparr> Sx_Broker = None, Sx_Assets = [], Sx_AccountAssets = [] \<rparr>"

definition orderSizeAxes ::
  "(nat \<Rightarrow> bool) \<Rightarrow> 'd decimal_pkg \<Rightarrow> 'v sdk_values \<Rightarrow> ('acc, 'grp, 'ast) sdk_ids
     \<Rightarrow> limit_order_size list \<Rightarrow> ('acc, 'grp, 'ast) id_resolver \<Rightarrow> go_error + ('acc, 'ast, 'v) size_axes"
  where "orderSizeAxes pr D V K limits res = each_entry (size_axis_entry pr D V K res) limits no_size_axes"

subsection \<open>Bounds on profit and loss\<close>

definition pnlBoundOptions ::
  "'v sdk_values \<Rightarrow> string \<Rightarrow> string \<Rightarrow> go_error + ('v option \<times> 'v option)" where
  "pnlBoundOptions V lower upper =
     res_bind (if lower \<noteq> []
       then (case NewPnlFromString V lower of
           Inl e \<Rightarrow> Inl (Wrap ''engine: lower_bound'' e) | Inr p \<Rightarrow> Inr (Some p))
       else Inr None) (\<lambda>lo.
     res_bind (if upper \<noteq> []
       then (case NewPnlFromString V upper of
           Inl e \<Rightarrow> Inl (Wrap ''engine: upper_bound'' e) | Inr p \<Rightarrow> Inr (Some p))
       else Inr None) (\<lambda>up. Inr (lo, up)))"

definition spotFundsPnlBoundsBarrier ::
  "'v sdk_values \<Rightarrow> limit_pnl_bounds \<Rightarrow> ('acc, 'grp, 'ast) id_resolver
     \<Rightarrow> go_error + ('ast, 'v) pnl_barrier" where
  "spotFundsPnlBoundsBarrier V l res =
     res_bind (resolve_asset res (Pnl_Currency l)) (\<lambda>currency.
     res_bind (pnlBoundOptions V (Pnl_LowerBound l) (Pnl_UpperBound l)) (\<lambda>(lo, up).
     Inr \<lparr> Pb_Currency = currency, Pb_LowerBound = lo, Pb_UpperBound = up \<rparr>))"

definition pnl_axis_entry ::
  "'v sdk_values \<Rightarrow> pnl_axis \<Rightarrow> ('acc, 'grp, 'ast) id_resolver \<Rightarrow> limit_pnl_bounds
     \<Rightarrow> ('acc, 'grp, 'ast, 'v) pnl_axes \<Rightarrow> go_error + ('acc, 'grp, 'ast, 'v) pnl_axes" where
  "pnl_axis_entry V axis res l x =
     (if Pnl_Axis l \<noteq> axis then Inr x
      else res_bind (spotFundsPnlBoundsBarrier V l res) (\<lambda>barrier.
        case Pnl_Scope l of
          ScopeGlobal \<Rightarrow>
            if Px_Global x \<noteq> None then Inl (Text ''engine: carries more than one global barrier'')
            else Inr (x\<lparr>Px_Global := Some barrier\<rparr>)
        | ScopeAccountGroup \<Rightarrow> res_bind (resolve_group res (Pnl_AccountGroup l)) (\<lambda>grp.
            Inr (x\<lparr>Px_Groups := Px_Groups x @ [(grp, barrier)]\<rparr>))
        | ScopeAccount \<Rightarrow> res_bind (resolve_account res (Pnl_Account l)) (\<lambda>acc.
            Inr (x\<lparr>Px_Accounts := Px_Accounts x @ [(acc, barrier)]\<rparr>))
        | _ \<Rightarrow> Inl (Text ''engine: unsupported scope'')))"

definition no_pnl_axes :: "('acc, 'grp, 'ast, 'v) pnl_axes" where
  "no_pnl_axes = \<lparr> Px_Global = None, Px_Groups = [], Px_Accounts = [] \<rparr>"

definition spotFundsPnlBoundsAxes ::
  "'v sdk_values \<Rightarrow> pnl_axis \<Rightarrow> limit_pnl_bounds list \<Rightarrow> ('acc, 'grp, 'ast) id_resolver
     \<Rightarrow> go_error + ('acc, 'grp, 'ast, 'v) pnl_axes" where
  "spotFundsPnlBoundsAxes V axis limits res = each_entry (pnl_axis_entry V axis res) limits no_pnl_axes"

subsection \<open>The live handle\<close>

text \<open>
  The part of \<^verbatim>\<open>openPitEngine\<close> that limits use. A policy is registered when it has axes here:
  rate limits and order sizes only when the build saw a barrier, Spot Funds always, with one set
  of axes for each P\&L measure. Two fields are history: \<open>Eng_Build\<close> numbers the builds, of which
  each starts with empty rate windows and other counters, and \<open>Eng_Landed\<close> lists the policies of
  the configuring calls that broke off on this handle.
\<close>

record ('acc, 'grp, 'ast, 'v) live_engine =
  Eng_res :: "('acc, 'grp, 'ast) id_resolver"
  Eng_running :: bool
  Eng_Rate :: "('acc, 'ast) rate_axes option"
  Eng_Size :: "('acc, 'ast, 'v) size_axes option"
  Eng_Pnl :: "pnl_axis \<Rightarrow> ('acc, 'grp, 'ast, 'v) pnl_axes"
  Eng_TrackOnly :: bool
  Eng_seedBlocks :: "account_block list"
  Eng_Build :: nat
  Eng_Landed :: "limit_policy list"

record limit_set =
  Set_RateLimits :: "limit_rate list"
  Set_OrderSizeLimits :: "limit_order_size list"
  Set_SpotFundsPnlBoundsLimits :: "limit_pnl_bounds list"

text \<open>What the adapter is built with: the libraries it calls. \<open>Lib_Left\<close> is what a configuring call
  that breaks off leaves, given the handle before it and the one it was to make.\<close>

record ('acc, 'grp, 'ast, 'v, 'd) engine_libs =
  Lib_Ids :: "('acc, 'grp, 'ast) sdk_ids"
  Lib_Values :: "'v sdk_values"
  Lib_Decimals :: "'d decimal_pkg"
  Lib_Print :: "nat \<Rightarrow> bool"
  Lib_Left :: "('acc, 'grp, 'ast, 'v) live_engine \<Rightarrow> ('acc, 'grp, 'ast, 'v) live_engine
    \<Rightarrow> ('acc, 'grp, 'ast, 'v) live_engine"

definition size_axes_of ::
  "('acc, 'grp, 'ast, 'v, 'd) engine_libs \<Rightarrow> limit_order_size list \<Rightarrow> ('acc, 'grp, 'ast) id_resolver
     \<Rightarrow> go_error + ('acc, 'ast, 'v) size_axes" where
  "size_axes_of L = orderSizeAxes (Lib_Print L) (Lib_Decimals L) (Lib_Values L) (Lib_Ids L)"

type_synonym ('acc, 'grp, 'ast, 'v, 'a) engine_op =
  "(('acc, 'grp, 'ast, 'v) live_engine, go_error, 'a) op"

definition barrierCount :: "limit_policy \<Rightarrow> limit_set \<Rightarrow> nat" where
  "barrierCount policy limits = (case policy of
       PolicyRateLimit \<Rightarrow> length (Set_RateLimits limits)
     | PolicyOrderSizeLimit \<Rightarrow> length (Set_OrderSizeLimits limits)
     | PolicySpotFundsPnlBoundsKillSwitch \<Rightarrow> length (Set_SpotFundsPnlBoundsLimits limits)
     | PolicySpotFundsUnrealizedPnlBoundsKillSwitch \<Rightarrow> length (Set_SpotFundsPnlBoundsLimits limits)
     | PolicySpotFundsTotalPnlBoundsKillSwitch \<Rightarrow> length (Set_SpotFundsPnlBoundsLimits limits)
     | _ \<Rightarrow> 0)"

text \<open>\<open>policyName\<close> and the set of registered names.\<close>

definition policy_registered :: "limit_policy \<Rightarrow> ('acc, 'grp, 'ast, 'v) live_engine \<Rightarrow> bool" where
  "policy_registered policy eng = (case policy of
       PolicyRateLimit \<Rightarrow> Eng_Rate eng \<noteq> None
     | PolicyOrderSizeLimit \<Rightarrow> Eng_Size eng \<noteq> None
     | PolicySpotFundsPnlBoundsKillSwitch \<Rightarrow> True
     | PolicySpotFundsUnrealizedPnlBoundsKillSwitch \<Rightarrow> True
     | PolicySpotFundsTotalPnlBoundsKillSwitch \<Rightarrow> True
     | _ \<Rightarrow> False)"

text \<open>One call of the configurator: the answer decides between no change, the new settings and
  what a call that breaks off leaves.\<close>

definition configure_call ::
  "('acc, 'grp, 'ast, 'v, 'd) engine_libs \<Rightarrow> limit_policy \<Rightarrow> sdk_answer \<Rightarrow> string \<Rightarrow> (('acc, 'grp, 'ast, 'v) live_engine \<Rightarrow> ('acc, 'grp, 'ast, 'v) live_engine)
     \<Rightarrow> ('acc, 'grp, 'ast, 'v, string + account_block list) engine_op" where
  "configure_call L policy answer what change = (case answer of
       Accepts blocks \<Rightarrow> andthen (modify change) (\<lambda>_. ret blocks)
     | Refuses m \<Rightarrow> raise (Wrap what (Text m))
     | BreaksOff m \<Rightarrow> andthen (modify (\<lambda>e. (Lib_Left L e (change e))
           \<lparr>Eng_Landed := Eng_Landed e @ [policy]\<rparr>)) (\<lambda>_. raise (Wrap what (Text m)))
     | Cancelled \<Rightarrow> raise (Text ''engine: configure cancelled''))"

definition configureRateLimitLocked ::
  "('acc, 'grp, 'ast, 'v, 'd) engine_libs \<Rightarrow> sdk_answer \<Rightarrow> limit_rate list
     \<Rightarrow> ('acc, 'grp, 'ast, 'v, unit) engine_op" where
  "configureRateLimitLocked L answer limits = reads (\<lambda>eng.
     andthen (lift_res (rateLimitAxes limits (Eng_res eng))) (\<lambda>axes.
     andthen (configure_call L PolicyRateLimit answer ''engine: configure rate_limit''
         (\<lambda>e. e\<lparr>Eng_Rate := Some axes\<rparr>))
       (\<lambda>_. ret ())))"

definition configureOrderSizeLocked ::
  "('acc, 'grp, 'ast, 'v, 'd) engine_libs \<Rightarrow> sdk_answer \<Rightarrow> limit_order_size list
     \<Rightarrow> ('acc, 'grp, 'ast, 'v, unit) engine_op" where
  "configureOrderSizeLocked L answer limits = reads (\<lambda>eng.
     andthen (lift_res (size_axes_of L limits (Eng_res eng))) (\<lambda>axes.
     andthen (configure_call L PolicyOrderSizeLimit answer ''engine: configure order_size_limit''
         (\<lambda>e. e\<lparr>Eng_Size := Some axes\<rparr>))
       (\<lambda>_. ret ())))"

definition configureSpotFundsPnlBounds ::
  "('acc, 'grp, 'ast, 'v, 'd) engine_libs \<Rightarrow> sdk_answer \<Rightarrow> pnl_axis \<Rightarrow> limit_pnl_bounds list
     \<Rightarrow> ('acc, 'grp, 'ast, 'v, account_block list) engine_op" where
  "configureSpotFundsPnlBounds L answer axis limits = reads (\<lambda>eng.
     andthen (lift_res (spotFundsPnlBoundsAxes (Lib_Values L) axis limits (Eng_res eng))) (\<lambda>axes.
     case AxisPolicy axis of
       None \<Rightarrow> raise (err_invalid ''engine: unknown spot funds pnl axis'')
     | Some policy \<Rightarrow> andthen (configure_call L policy answer ''engine: configure''
         (\<lambda>e. e\<lparr>Eng_Pnl := (Eng_Pnl e)(axis := axes)\<rparr>))
       (\<lambda>blocks. case blocks of Inl m \<Rightarrow> raise (Text m) | Inr bs \<Rightarrow> ret bs)))"

definition ConfigurePolicy ::
  "('acc, 'grp, 'ast, 'v, 'd) engine_libs \<Rightarrow> sdk_answer \<Rightarrow> limit_policy \<Rightarrow> limit_set
     \<Rightarrow> ('acc, 'grp, 'ast, 'v, account_block list) engine_op" where
  "ConfigurePolicy L answer policy limits = reads (\<lambda>eng.
     if answer = Cancelled then raise (Text ''engine: configure cancelled'')
     else if \<not> Eng_running eng then raise (Text ''engine: configure on stopped engine'')
     else if \<not> policy_registered policy eng
     then raise (Wrap ''engine: cannot configure unregistered policy'' (Sentinel ErrNotImplemented))
     else if SpotFundsPnlAxisOf policy = None \<and> barrierCount policy limits = 0
     then raise (Wrap ''engine: cannot remove the last barrier of policy'' (Sentinel ErrNotImplemented))
     else if policy = PolicyRateLimit
     then andthen (configureRateLimitLocked L answer (Set_RateLimits limits)) (\<lambda>_. ret [])
     else if policy = PolicyOrderSizeLimit
     then andthen (configureOrderSizeLocked L answer (Set_OrderSizeLimits limits)) (\<lambda>_. ret [])
     else (case SpotFundsPnlAxisOf policy of
         Some axis \<Rightarrow> configureSpotFundsPnlBounds L answer axis (Set_SpotFundsPnlBoundsLimits limits)
       | None \<Rightarrow> raise (Text ''engine: configure unknown policy'')))"

definition SetSpotFundsTrackOnly ::
  "('acc, 'grp, 'ast, 'v, 'd) engine_libs \<Rightarrow> sdk_answer \<Rightarrow> bool \<Rightarrow> ('acc, 'grp, 'ast, 'v, unit) engine_op" where
  "SetSpotFundsTrackOnly L answer trackOnly = reads (\<lambda>eng.
     if answer = Cancelled then raise (Text ''engine: configure cancelled'')
     else if \<not> Eng_running eng then raise (Text ''engine: configure on stopped engine'')
     else andthen (configure_call L PolicySpotFundsLimitMode answer ''engine: configure spot funds limit mode''
         (\<lambda>e. e\<lparr>Eng_TrackOnly := trackOnly\<rparr>)) (\<lambda>_. ret ()))"

subsection \<open>A build\<close>

record engine_snapshot =
  Es_Assets :: "asset list"
  Es_Accounts :: "account list"
  Es_Groups :: "account_group list"
  Es_RateLimits :: "limit_rate list"
  Es_OrderSizeLimits :: "limit_order_size list"
  Es_SpotFundsPnlBoundsLimits :: "limit_pnl_bounds list"
  Es_SpotFundsTrackOnly :: bool

text \<open>Each P\&L measure with a stored bound is configured, in the fixed order of the measures.\<close>

fun configureStoredSpotFundsPnlAxes ::
  "'v sdk_values \<Rightarrow> ('acc, 'grp, 'ast) id_resolver \<Rightarrow> limit_pnl_bounds list \<Rightarrow> pnl_axis list
     \<Rightarrow> (pnl_axis \<Rightarrow> ('acc, 'grp, 'ast, 'v) pnl_axes) \<Rightarrow> go_error + (pnl_axis \<Rightarrow> ('acc, 'grp, 'ast, 'v) pnl_axes)"
  where
  "configureStoredSpotFundsPnlAxes V res limits [] axes = Inr axes"
| "configureStoredSpotFundsPnlAxes V res limits (axis # rest) axes =
     (if \<not> list_ex (\<lambda>l. Pnl_Axis l = axis) limits
      then configureStoredSpotFundsPnlAxes V res limits rest axes
      else res_bind (spotFundsPnlBoundsAxes V axis limits res) (\<lambda>x.
        configureStoredSpotFundsPnlAxes V res limits rest (axes(axis := x))))"

text \<open>
  The build: the dictionary, the policies that have a barrier, the limit mode and the P\&L
  measures. The answer stands for the engine library's calls, among them those that seed
  balances, groups, currencies and blocks, which follow and are outside the model.
\<close>

definition buildEngine ::
  "('acc, 'grp, 'ast, 'v, 'd) engine_libs \<Rightarrow> sdk_answer \<Rightarrow> nat \<Rightarrow> engine_snapshot
     \<Rightarrow> go_error + ('acc, 'grp, 'ast, 'v) live_engine" where
  "buildEngine L answer build snap =
     res_bind (newIDResolver (Lib_Ids L) (Es_Accounts snap) (Es_Groups snap) (Es_Assets snap)) (\<lambda>res.
     res_bind (if Es_RateLimits snap \<noteq> []
         then res_bind (rateLimitReady (Es_RateLimits snap) res) (\<lambda>x. Inr (Some x)) else Inr None) (\<lambda>rate.
     res_bind (if Es_OrderSizeLimits snap \<noteq> []
         then res_bind (size_axes_of L (Es_OrderSizeLimits snap) res) (\<lambda>x. Inr (Some x)) else Inr None) (\<lambda>cap.
     res_bind (configureStoredSpotFundsPnlAxes (Lib_Values L) res (Es_SpotFundsPnlBoundsLimits snap)
         SpotFundsPnlAxes (\<lambda>_. no_pnl_axes)) (\<lambda>pnl.
     case answer of
       Refuses m \<Rightarrow> Inl (Wrap ''engine: build openpit engine'' (Text m))
     | BreaksOff m \<Rightarrow> Inl (Wrap ''engine: build openpit engine'' (Text m))
     | Cancelled \<Rightarrow> Inl (Text ''engine: build openpit engine'')
     | Accepts (Inl m) \<Rightarrow> Inl (Text m)
     | Accepts (Inr seeded) \<Rightarrow>
         Inr \<lparr> Eng_res = res, Eng_running = True, Eng_Rate = rate, Eng_Size = cap, Eng_Pnl = pnl,
           Eng_TrackOnly = Es_SpotFundsTrackOnly snap, Eng_seedBlocks = seeded, Eng_Build = build,
           Eng_Landed = [] \<rparr>))))"

end
