(* ===== verification/LimitStore.thy ===== *)
theory LimitStore
  imports LimitRules IdResolver AuditTrail EngineLimits
    "HOL-Library.List_Lexorder" "HOL-Library.Product_Lexorder" "HOL-Library.Char_ord"
begin

section \<open>The store of limits and dictionaries\<close>

text \<open>
  The methods of \<^verbatim>\<open>internal/store/sqlite\<close> that the limit operations of a node call: the barrier
  tables of \<^verbatim>\<open>limits.go\<close>, the realm settings of \<^verbatim>\<open>settings.go\<close> and of \<^verbatim>\<open>accounts.go\<close> the
  dictionary reads, the creation and deletion of an account or an asset and the account block.
  A row refers to its account, group and asset by surrogate id; as no operation here renames
  one, the model keeps the codes. \<open>Ld_Used\<close> holds the dependents an entity has in tables that
  are not modelled, \<open>Ld_FeeAccounts\<close> the fee accounts of trading connections, \<open>Ld_NextAccount\<close> and \<open>Ld_NextAsset\<close> the ids the next rows get.
\<close>

record limit_db =
  Ld_Rates :: "limit_rate list"
  Ld_Sizes :: "limit_order_size list"
  Ld_Pnls :: "limit_pnl_bounds list"
  Ld_Settings :: "string \<rightharpoonup> string"
  Ld_Accounts :: "account list"
  Ld_Groups :: "account_group list"
  Ld_Assets :: "asset list"
  Ld_Classes :: "string list"
  Ld_NextAccount :: "64 word"
  Ld_NextAsset :: "64 word"
  Ld_FeeAccounts :: "account_id list"
  Ld_Used :: "string \<Rightarrow> (string \<times> nat) list"

type_synonym 'a db_op = "(limit_db, go_error, 'a) op"

subsection \<open>Codes to rows\<close>

definition find_account :: "account_id \<Rightarrow> limit_db \<Rightarrow> account option" where
  "find_account code db = List.find (\<lambda>a. Account_Code a = code) (Ld_Accounts db)"

definition find_group :: "string \<Rightarrow> limit_db \<Rightarrow> account_group option" where
  "find_group code db = List.find (\<lambda>g. Group_Code g = code) (Ld_Groups db)"

definition find_asset :: "string \<Rightarrow> limit_db \<Rightarrow> asset option" where
  "find_asset code db = List.find (\<lambda>a. Asset_Code a = code) (Ld_Assets db)"

definition resolveAccountID :: "account_id \<Rightarrow> limit_db \<Rightarrow> go_error option" where
  "resolveAccountID code db = check (find_account code db = None) (err_invalid ''unknown account'')"

definition resolveGroupID :: "string \<Rightarrow> limit_db \<Rightarrow> go_error option" where
  "resolveGroupID code db = check (find_group code db = None) (err_invalid ''unknown group'')"

definition resolveAssetID :: "string \<Rightarrow> limit_db \<Rightarrow> go_error option" where
  "resolveAssetID code db = check (find_asset code db = None) (err_invalid ''unknown asset'')"

definition resolveLimitAxes :: "account_id \<Rightarrow> string \<Rightarrow> limit_db \<Rightarrow> go_error option" where
  "resolveLimitAxes acc asset db = first_err
     [if acc \<noteq> [] then resolveAccountID acc db else None,
      if asset \<noteq> [] then resolveAssetID asset db else None]"

definition resolveSubjectIDs :: "account_id \<Rightarrow> string \<Rightarrow> limit_db \<Rightarrow> go_error option" where
  "resolveSubjectIDs acc grp db = first_err
     [if acc \<noteq> [] then resolveAccountID acc db else None,
      if grp \<noteq> [] then resolveGroupID grp db else None]"

subsection \<open>Barrier tables\<close>

text \<open>The composite key of a barrier and the order of the reads, which is that of the texts.\<close>

type_synonym barrier_key = "limit_scope \<times> account_id \<times> string"
type_synonym pnl_key = "pnl_axis \<times> limit_scope \<times> account_id \<times> string"

definition rate_key :: "limit_rate \<Rightarrow> barrier_key" where
  "rate_key l = (Rate_Scope l, Rate_Account l, Rate_Asset l)"

definition size_key :: "limit_order_size \<Rightarrow> barrier_key" where
  "size_key l = (Size_Scope l, Size_Account l, Size_Asset l)"

definition pnl_key :: "limit_pnl_bounds \<Rightarrow> pnl_key" where
  "pnl_key l = (Pnl_Axis l, Pnl_Scope l, Pnl_Account l, Pnl_AccountGroup l)"

fun scope_text :: "limit_scope \<Rightarrow> string" where
  "scope_text ScopeBroker = ''broker''"
| "scope_text ScopeGlobal = ''global''"
| "scope_text ScopeAsset = ''asset''"
| "scope_text ScopeAccount = ''account''"
| "scope_text ScopeAccountGroup = ''account_group''"
| "scope_text ScopeAccountAsset = ''account_asset''"
| "scope_text ScopeUnderlyingAsset = ''underlying_asset''"
| "scope_text ScopeSettlementAsset = ''settlement_asset''"
| "scope_text ScopeAccountUnderlyingAsset = ''account_underlying_asset''"
| "scope_text ScopeAccountSettlementAsset = ''account_settlement_asset''"
| "scope_text (OtherScope s) = s"

fun axis_text :: "pnl_axis \<Rightarrow> string" where
  "axis_text SpotFundsPnlAxisRealized = ''realized''"
| "axis_text SpotFundsPnlAxisUnrealized = ''unrealized''"
| "axis_text SpotFundsPnlAxisTotal = ''total''"
| "axis_text (OtherPnlAxis s) = s"

fun key_order :: "barrier_key \<Rightarrow> string \<times> string \<times> string" where
  "key_order (s, a, x) = (scope_text s, a, x)"

fun pnl_key_order :: "pnl_key \<Rightarrow> string \<times> string \<times> string \<times> string" where
  "pnl_key_order (axis, s, a, g) = (axis_text axis, scope_text s, a, g)"

text \<open>\<open>putLimitRow\<close> deletes the row with the key and inserts the new one in one transaction.\<close>

definition putLimitRow :: "('r \<Rightarrow> 'k) \<Rightarrow> 'r \<Rightarrow> 'r list \<Rightarrow> 'r list" where
  "putLimitRow key r rows = filter (\<lambda>x. key x \<noteq> key r) rows @ [r]"

definition deleteLimitRow :: "('r \<Rightarrow> 'k) \<Rightarrow> 'k \<Rightarrow> 'r list \<Rightarrow> 'r list" where
  "deleteLimitRow key k rows = filter (\<lambda>x. key x \<noteq> k) rows"

definition ListRateLimits :: "account_id \<Rightarrow> limit_rate list db_op" where
  "ListRateLimits acc = gets (\<lambda>db. sort_key (\<lambda>l. key_order (rate_key l))
     (filter (\<lambda>l. acc \<noteq> [] \<longrightarrow> Rate_Account l = acc) (Ld_Rates db)))"

definition ListOrderSizeLimits :: "account_id \<Rightarrow> limit_order_size list db_op" where
  "ListOrderSizeLimits acc = gets (\<lambda>db. sort_key (\<lambda>l. key_order (size_key l))
     (filter (\<lambda>l. acc \<noteq> [] \<longrightarrow> Size_Account l = acc) (Ld_Sizes db)))"

definition ListSpotFundsPnlBoundsLimits :: "account_id \<Rightarrow> limit_pnl_bounds list db_op" where
  "ListSpotFundsPnlBoundsLimits acc = gets (\<lambda>db. sort_key (\<lambda>l. pnl_key_order (pnl_key l))
     (filter (\<lambda>l. acc \<noteq> [] \<longrightarrow> Pnl_Account l = acc) (Ld_Pnls db)))"

definition store_PutRateLimit :: "(nat \<Rightarrow> bool) \<Rightarrow> limit_rate \<Rightarrow> unit db_op" where
  "store_PutRateLimit pr l = reads (\<lambda>db.
     andthen (lift_out (first_err [LimitRate_Validate pr l,
       resolveLimitAxes (Rate_Account l) (Rate_Asset l) db])) (\<lambda>_.
     modify (\<lambda>db. db\<lparr>Ld_Rates := putLimitRow rate_key l (Ld_Rates db)\<rparr>)))"

definition store_PutOrderSizeLimit ::
  "(nat \<Rightarrow> bool) \<Rightarrow> 'd decimal_pkg \<Rightarrow> limit_order_size \<Rightarrow> unit db_op" where
  "store_PutOrderSizeLimit pr D l = reads (\<lambda>db.
     andthen (lift_out (first_err [LimitOrderSize_Validate pr D l,
       resolveLimitAxes (Size_Account l) (Size_Asset l) db])) (\<lambda>_.
     modify (\<lambda>db. db\<lparr>Ld_Sizes := putLimitRow size_key l (Ld_Sizes db)\<rparr>)))"

definition store_PutSpotFundsPnlBoundsLimit ::
  "(nat \<Rightarrow> bool) \<Rightarrow> 'd decimal_pkg \<Rightarrow> limit_pnl_bounds \<Rightarrow> unit db_op" where
  "store_PutSpotFundsPnlBoundsLimit pr D l = reads (\<lambda>db.
     andthen (lift_out (first_err [LimitPnl_Validate pr D l,
       resolveSubjectIDs (Pnl_Account l) (Pnl_AccountGroup l) db,
       resolveAssetID (Pnl_Currency l) db])) (\<lambda>_.
     modify (\<lambda>db. db\<lparr>Ld_Pnls := putLimitRow pnl_key l (Ld_Pnls db)\<rparr>)))"

definition notFoundIfNoRows :: "bool \<Rightarrow> string \<Rightarrow> go_error option" where
  "notFoundIfNoRows none entity = check none (Wrap entity (Sentinel ErrNotFound))"

definition store_DeleteRateLimit :: "limit_scope \<Rightarrow> account_id \<Rightarrow> string \<Rightarrow> unit db_op" where
  "store_DeleteRateLimit scope acc asset = reads (\<lambda>db.
     andthen (lift_out (first_err [resolveLimitAxes acc asset db,
       notFoundIfNoRows ((scope, acc, asset) \<notin> rate_key ` set (Ld_Rates db)) ''rate limit''])) (\<lambda>_.
     modify (\<lambda>db. db\<lparr>Ld_Rates := deleteLimitRow rate_key (scope, acc, asset) (Ld_Rates db)\<rparr>)))"

definition store_DeleteOrderSizeLimit :: "limit_scope \<Rightarrow> account_id \<Rightarrow> string \<Rightarrow> unit db_op" where
  "store_DeleteOrderSizeLimit scope acc asset = reads (\<lambda>db.
     andthen (lift_out (first_err [resolveLimitAxes acc asset db,
       notFoundIfNoRows ((scope, acc, asset) \<notin> size_key ` set (Ld_Sizes db)) ''order size limit''])) (\<lambda>_.
     modify (\<lambda>db. db\<lparr>Ld_Sizes := deleteLimitRow size_key (scope, acc, asset) (Ld_Sizes db)\<rparr>)))"

definition store_DeleteSpotFundsPnlBoundsLimit ::
  "pnl_axis \<Rightarrow> limit_scope \<Rightarrow> account_id \<Rightarrow> string \<Rightarrow> unit db_op" where
  "store_DeleteSpotFundsPnlBoundsLimit axis scope acc grp = reads (\<lambda>db.
     andthen (lift_out (first_err [resolveSubjectIDs acc grp db,
       notFoundIfNoRows ((axis, scope, acc, grp) \<notin> pnl_key ` set (Ld_Pnls db))
         ''spot funds pnl bounds limit''])) (\<lambda>_.
     modify (\<lambda>db. db\<lparr>Ld_Pnls := deleteLimitRow pnl_key (axis, scope, acc, grp) (Ld_Pnls db)\<rparr>)))"

subsection \<open>Settings\<close>

definition GetSetting :: "string \<Rightarrow> string option db_op" where
  "GetSetting key = gets (\<lambda>db. Ld_Settings db key)"

definition SetSetting :: "string \<Rightarrow> string \<Rightarrow> unit db_op" where
  "SetSetting key v = modify (\<lambda>db. db\<lparr>Ld_Settings := (Ld_Settings db)(key \<mapsto> v)\<rparr>)"

definition DeleteSetting :: "string \<Rightarrow> unit db_op" where
  "DeleteSetting key = reads (\<lambda>db.
     andthen (lift_out (notFoundIfNoRows (Ld_Settings db key = None) ''setting'')) (\<lambda>_.
     modify (\<lambda>db. db\<lparr>Ld_Settings := (Ld_Settings db)(key := None)\<rparr>)))"

subsection \<open>Accounts, groups and assets\<close>

text \<open>The projection of an account row: its currencies come from the joined rows.\<close>

definition group_currency :: "string \<Rightarrow> limit_db \<Rightarrow> string" where
  "group_currency code db = (case find_group code db of None \<Rightarrow> [] | Some g \<Rightarrow> Group_Currency g)"

definition setAccountCurrencyFields :: "limit_db \<Rightarrow> account \<Rightarrow> account" where
  "setAccountCurrencyFields db a =
     (let grp = (if Account_GroupCode a = [] then [] else group_currency (Account_GroupCode a) db);
          dflt = group_currency [] db;
          (effective, origin) = ResolveCurrencyCascade (Account_Currency a) grp dflt
      in a\<lparr>Account_GroupCurrency := grp, Account_DefaultCurrency := dflt,
           Account_EffectiveCurrency := effective, Account_CurrencyOrigin := origin\<rparr>)"

definition GetAccount :: "account_id \<Rightarrow> account option db_op" where
  "GetAccount code = gets (\<lambda>db. map_option (setAccountCurrencyFields db) (find_account code db))"

definition ListAccounts :: "account list db_op" where
  "ListAccounts = gets (\<lambda>db. sort_key Account_Code (map (setAccountCurrencyFields db) (Ld_Accounts db)))"

definition GetGroup :: "string \<Rightarrow> account_group option db_op" where
  "GetGroup code = gets (find_group code)"

definition ListGroups :: "account_group list db_op" where
  "ListGroups = gets (\<lambda>db. sort_key Group_Code (filter (\<lambda>g. Group_Code g \<noteq> []) (Ld_Groups db)))"

definition GetAsset :: "string \<Rightarrow> asset option db_op" where
  "GetAsset code = gets (find_asset code)"

definition ListAssets :: "asset list db_op" where
  "ListAssets = gets (\<lambda>db. sort_key Asset_Code (Ld_Assets db))"

definition CreateAssetClass :: "string \<Rightarrow> unit db_op" where
  "CreateAssetClass code = reads (\<lambda>db.
     andthen (lift_out (check (code \<in> set (Ld_Classes db))
       (Wrap ''asset class'' (Sentinel ErrAlreadyExists)))) (\<lambda>_.
     modify (\<lambda>db. db\<lparr>Ld_Classes := Ld_Classes db @ [code]\<rparr>)))"

definition CreateAsset :: "asset \<Rightarrow> asset db_op" where
  "CreateAsset a = reads (\<lambda>db.
     andthen (lift_out (first_err
       [check (Asset_Class a \<noteq> [] \<and> Asset_Class a \<notin> set (Ld_Classes db))
          (err_invalid ''unknown asset class''),
        check (find_asset (Asset_Code a) db \<noteq> None) (Wrap ''asset'' (Sentinel ErrAlreadyExists))])) (\<lambda>_.
     let created = a\<lparr>Asset_EngineAssetID := Ld_NextAsset db\<rparr>
     in andthen (modify (\<lambda>db. db\<lparr>Ld_Assets := Ld_Assets db @ [created],
          Ld_NextAsset := Ld_NextAsset db + 1\<rparr>)) (\<lambda>_. ret created)))"

subsubsection \<open>Typed blocks\<close>

definition knownRejectCodes :: "string list" where
  "knownRejectCodes = [
     ''missing_required_field'', ''invalid_field_format'', ''invalid_field_value'',
     ''unsupported_order_type'', ''unsupported_time_in_force'', ''unsupported_order_attribute'',
     ''duplicate_client_order_id'', ''too_late_to_enter'', ''exchange_closed'',
     ''unknown_instrument'', ''unknown_account'', ''unknown_venue'',
     ''unknown_clearing_account'', ''unknown_collateral_asset'', ''insufficient_funds'',
     ''insufficient_margin'', ''insufficient_position'', ''credit_limit_exceeded'',
     ''risk_limit_exceeded'', ''order_exceeds_limit'', ''order_qty_exceeds_limit'',
     ''order_notional_exceeds_limit'', ''position_limit_exceeded'',
     ''concentration_limit_exceeded'', ''leverage_limit_exceeded'', ''rate_limit_exceeded'',
     ''pnl_kill_switch_triggered'', ''account_blocked'', ''account_not_authorized'',
     ''compliance_restriction'', ''instrument_restricted'', ''jurisdiction_restriction'',
     ''wash_trade_prevention'', ''self_match_prevention'', ''short_sale_restriction'',
     ''risk_configuration_missing'', ''reference_data_unavailable'',
     ''order_value_calculation_failed'', ''system_unavailable'', ''mark_price_unavailable'',
     ''account_adjustment_bounds_exceeded'', ''arithmetic_overflow'', ''custom'', ''other'']"

definition KnownRejectCode :: "string \<Rightarrow> bool" where
  "KnownRejectCode code \<longleftrightarrow> code \<in> set knownRejectCodes"

definition validateTypedAccountBlock :: "(nat \<Rightarrow> bool) \<Rightarrow> account_block \<Rightarrow> go_error option" where
  "validateTypedAccountBlock pr b = first_err
     [check (\<not> KnownRejectCode (Blk_Code b)) (err_invalid ''store: account block code''),
      map_option (Wrap ''store: account block reason'') (ValidateBlockReason pr (Blk_Reason b)),
      map_option (Wrap ''store: account block policy'') (ValidateBlockText pr (Blk_Policy b)),
      map_option (Wrap ''store: account block details'') (ValidateBlockText pr (Blk_Details b))]"

definition SetAccountBlock :: "(nat \<Rightarrow> bool) \<Rightarrow> account_block \<Rightarrow> unit db_op" where
  "SetAccountBlock pr b = reads (\<lambda>db.
     andthen (lift_out (first_err [validateTypedAccountBlock pr b,
       notFoundIfNoRows (find_account (Blk_Account b) db = None) ''account''])) (\<lambda>_.
     modify (\<lambda>db. db\<lparr>Ld_Accounts := map (\<lambda>a. if Account_Code a \<noteq> Blk_Account b then a
         else if Account_Blocked a then a
         else a\<lparr>Account_Blocked := True, Account_BlockReason := Blk_Reason b,
           Account_BlockPolicy := Blk_Policy b, Account_BlockCode := Blk_Code b,
           Account_BlockDetails := Blk_Details b\<rparr>) (Ld_Accounts db)\<rparr>)))"

definition created_block :: "(nat \<Rightarrow> bool) \<Rightarrow> account \<Rightarrow> go_error option" where
  "created_block pr a =
     (if \<not> Account_Blocked a then None
      else if Account_BlockCode a = []
      then first_err
        [map_option (Wrap ''account block reason'') (ValidateBlockReason pr (Account_BlockReason a)),
         check (Account_BlockPolicy a \<noteq> [] \<or> Account_BlockDetails a \<noteq> [])
           (err_invalid ''account has typed block fields without block code'')]
      else validateTypedAccountBlock pr \<lparr> Blk_Account = Account_Code a, Blk_Policy = Account_BlockPolicy a,
        Blk_Code = Account_BlockCode a, Blk_Reason = Account_BlockReason a,
        Blk_Details = Account_BlockDetails a \<rparr>)"

definition CreateAccount :: "(nat \<Rightarrow> bool) \<Rightarrow> 'd decimal_pkg \<Rightarrow> account \<Rightarrow> account db_op" where
  "CreateAccount pr D a = reads (\<lambda>db.
     andthen (lift_out (first_err
       [created_block pr a,
        if Account_GroupCode a \<noteq> [] then resolveGroupID (Account_GroupCode a) db else None,
        if Account_Currency a \<noteq> [] then resolveAssetID (Account_Currency a) db else None,
        if Account_Pnl a \<noteq> []
          then map_option (Wrap ''account pnl'') (err_of (AddDecimals D [] (Account_Pnl a))) else None,
        check (find_account (Account_Code a) db \<noteq> None) (Wrap ''account'' (Sentinel ErrAlreadyExists))])) (\<lambda>_.
     let a = (if Account_Pnl a \<noteq> [] \<and> Account_PnlHaltReason a = NoPnlHalt then a
              else a\<lparr>Account_Pnl := []\<rparr>);
         a = (if Account_Blocked a then a
              else a\<lparr>Account_BlockReason := [], Account_BlockPolicy := [], Account_BlockCode := [],
                Account_BlockDetails := []\<rparr>);
         row = a\<lparr>Account_EngineAccountID := Ld_NextAccount db\<rparr>
     in andthen (modify (\<lambda>db. db\<lparr>Ld_Accounts := Ld_Accounts db @ [row],
          Ld_NextAccount := Ld_NextAccount db + 1\<rparr>)) (\<lambda>_.
        gets (\<lambda>db. setAccountCurrencyFields db row))))"

text \<open>The dependents of an entity, by kind: those of the modelled tables and the others.\<close>

definition count_rows :: "string \<Rightarrow> ('r \<Rightarrow> bool) \<Rightarrow> 'r list \<Rightarrow> (string \<times> nat) list" where
  "count_rows kind p rows = (let n = length (filter p rows) in if n > 0 then [(kind, n)] else [])"

definition accountDependents :: "account_id \<Rightarrow> limit_db \<Rightarrow> (string \<times> nat) list" where
  "accountDependents code db = Ld_Used db code
     @ count_rows ''limit_rate'' (\<lambda>l. Rate_Account l = code) (Ld_Rates db)
     @ count_rows ''limit_order_size'' (\<lambda>l. Size_Account l = code) (Ld_Sizes db)
     @ count_rows ''limit_spot_funds_pnl_bound'' (\<lambda>l. Pnl_Account l = code) (Ld_Pnls db)"

definition assetCurrencyDependents :: "string \<Rightarrow> limit_db \<Rightarrow> (string \<times> nat) list" where
  "assetCurrencyDependents code db =
     count_rows ''account_currency'' (\<lambda>a. Account_Currency a = code) (Ld_Accounts db)
     @ count_rows ''account_group_currency'' (\<lambda>g. Group_Currency g = code) (Ld_Groups db)"

definition assetDependents :: "string \<Rightarrow> limit_db \<Rightarrow> (string \<times> nat) list" where
  "assetDependents code db = Ld_Used db code
     @ count_rows ''limit_rate'' (\<lambda>l. Rate_Asset l = code) (Ld_Rates db)
     @ count_rows ''limit_order_size'' (\<lambda>l. Size_Asset l = code) (Ld_Sizes db)
     @ count_rows ''limit_spot_funds_pnl_bound'' (\<lambda>l. Pnl_Currency l = code) (Ld_Pnls db)"

text \<open>\<open>DeleteAccount\<close> and \<open>DeleteAsset\<close> without \<^verbatim>\<open>force\<close>, as the rollback of a creation calls them.\<close>

definition DeleteAccount :: "account_id \<Rightarrow> unit db_op" where
  "DeleteAccount code = reads (\<lambda>db.
     andthen (lift_out (first_err
       [notFoundIfNoRows (find_account code db = None) ''account'',
        check (code \<in> set (Ld_FeeAccounts db))
          (Wrap ''account is the fee account of trading connection'' (Sentinel ErrConflict)),
        check (accountDependents code db \<noteq> []) (NewHasDependentsError (accountDependents code db))])) (\<lambda>_.
     modify (\<lambda>db. db\<lparr>Ld_Accounts := filter (\<lambda>a. Account_Code a \<noteq> code) (Ld_Accounts db)\<rparr>)))"

definition DeleteAsset :: "string \<Rightarrow> unit db_op" where
  "DeleteAsset code = reads (\<lambda>db.
     andthen (lift_out (first_err
       [notFoundIfNoRows (find_asset code db = None) ''asset'',
        check (assetCurrencyDependents code db \<noteq> [])
          (NewHasDependentsError (assetCurrencyDependents code db)),
        check (assetDependents code db \<noteq> []) (NewHasDependentsError (assetDependents code db))])) (\<lambda>_.
     modify (\<lambda>db. db\<lparr>Ld_Assets := filter (\<lambda>a. Asset_Code a \<noteq> code) (Ld_Assets db)\<rparr>)))"

end
