(* ===== verification/LimitNode.thy ===== *)
theory LimitNode
  imports LimitStore
begin

section \<open>Limits on a node\<close>

text \<open>
  \<^verbatim>\<open>framework/node/local_limits.go\<close>, \<^verbatim>\<open>local_spot_funds_limit_mode.go\<close>, the creation of
  missing accounts and assets of \<^verbatim>\<open>local_autocreate.go\<close> and \<^verbatim>\<open>local_orders.go\<close> and the engine
  builds of \<^verbatim>\<open>local.go\<close>: the node writes the realm store first, applies the change to the live
  engine and reverts the store when the engine refuses it. \<open>N_Faults\<close> schedules the failures of
  store calls, each before its effect or after it became durable; \<open>N_Lost\<close>, a history, counts the
  failures after the effect. \<open>N_Answers\<close> lists the answers of the engine library. An
  operation holds the live-policy gate from its first step to its last, so it is one step of the
  model. The market-data sink that an operation hands back is the one of \<open>N_Engine\<close>.
\<close>

datatype store_fault = Serves | FailsBefore string | FailsAfter string

record limit_audit =
  La_Action :: audit_action
  La_Source :: source
  La_Actor :: string
  La_Account :: account_id
  La_Asset :: string

record ('acc, 'grp, 'ast, 'v) limit_node =
  N_Db :: limit_db
  N_Engine :: "('acc, 'grp, 'ast, 'v) live_engine"
  N_Audit :: "limit_audit list"
  N_Fatal :: "go_error list"
  N_restarting :: bool
  N_Builds :: nat
  N_Faults :: "store_fault list"
  N_Lost :: nat
  N_Answers :: "sdk_answer list"

type_synonym ('acc, 'grp, 'ast, 'v, 'a) node_op =
  "(('acc, 'grp, 'ast, 'v) limit_node, go_error, 'a) op"

subsection \<open>Calls of the store and of the engine\<close>

definition realm :: "'a db_op \<Rightarrow> ('acc, 'grp, 'ast, 'v, 'a) node_op" where
  "realm m s = (case N_Faults s of
       FailsBefore text # fs \<Rightarrow> (Inl (Text text), s\<lparr>N_Faults := fs\<rparr>)
     | FailsAfter text # fs \<Rightarrow>
         (Inl (Text text), s\<lparr>N_Db := snd (m (N_Db s)), N_Faults := fs, N_Lost := Suc (N_Lost s)\<rparr>)
     | fs \<Rightarrow> (case m (N_Db s) of (r, db) \<Rightarrow> (r, s\<lparr>N_Db := db, N_Faults := tl fs\<rparr>)))"

definition next_answer :: "('acc, 'grp, 'ast, 'v, sdk_answer) node_op" where
  "next_answer s = (case N_Answers s of
       [] \<Rightarrow> (Inr (Accepts (Inr [])), s)
     | a # as \<Rightarrow> (Inr a, s\<lparr>N_Answers := as\<rparr>))"

definition engine_step :: "('acc, 'grp, 'ast, 'v, 'a) engine_op \<Rightarrow> ('acc, 'grp, 'ast, 'v, 'a) node_op" where
  "engine_step m s = (case m (N_Engine s) of (r, eng) \<Rightarrow> (r, s\<lparr>N_Engine := eng\<rparr>))"

definition appendAudit :: "limit_audit \<Rightarrow> ('acc, 'grp, 'ast, 'v, unit) node_op" where
  "appendAudit e s = (case realm (ret ()) s of (r, t) \<Rightarrow>
     (r, if r = Inr () \<or> N_Lost t \<noteq> N_Lost s then t\<lparr>N_Audit := N_Audit t @ [e]\<rparr> else t))"

definition node_audit :: "caller \<Rightarrow> audit_action \<Rightarrow> account_id \<Rightarrow> string \<Rightarrow> ('acc, 'grp, 'ast, 'v, unit) node_op" where
  "node_audit c action acc asset =
     andthen (lift_out (ValidateAuditDecision action [] [] [])) (\<lambda>_.
     appendAudit \<lparr> La_Action = action, La_Source = Caller_Source c, La_Actor = Caller_Principal c,
       La_Account = acc, La_Asset = asset \<rparr>)"

text \<open>\<^verbatim>\<open>fatalPostEngineAuditByCode\<close> and \<^verbatim>\<open>fatalReconciliation\<close>: the fail-stop hook, then the
  error with its domain causes hidden.\<close>

definition fatal :: "go_error \<Rightarrow> ('acc, 'grp, 'ast, 'v, 'a) node_op" where
  "fatal e = andthen (modify (\<lambda>s. s\<lparr>N_Fatal := N_Fatal s @ [e]\<rparr>))
     (\<lambda>_. raise (internalPostCommitNodeMutationError e))"

definition beginLivePolicyConfiguration :: "('acc, 'grp, 'ast, 'v, unit) node_op" where
  "beginLivePolicyConfiguration = reads (\<lambda>s. lift_out (check (N_restarting s)
     (Wrap ''engine restart in progress'' (Sentinel ErrEngineRestarting))))"

subsection \<open>The limit mode in force\<close>

definition storedSpotFundsLimitModeRow :: "('acc, 'grp, 'ast, 'v, limit_mode \<times> bool) node_op" where
  "storedSpotFundsLimitModeRow = andthen (realm (GetSetting SettingKeySpotFundsLimitMode)) (\<lambda>stored.
     case stored of
       None \<Rightarrow> ret (SpotFundsLimitModeEnforce, False)
     | Some v \<Rightarrow> (case ParseSpotFundsLimitMode v of
         Inl e \<Rightarrow> raise (Text ''setting holds invalid stored value'')
       | Inr mode \<Rightarrow> ret (mode, True)))"

definition storedSpotFundsLimitMode :: "('acc, 'grp, 'ast, 'v, limit_mode) node_op" where
  "storedSpotFundsLimitMode = andthen storedSpotFundsLimitModeRow (\<lambda>r. ret (fst r))"

subsection \<open>Builds\<close>

definition wrapping :: "string \<Rightarrow> ('acc, 'grp, 'ast, 'v, 'a) node_op \<Rightarrow> ('acc, 'grp, 'ast, 'v, 'a) node_op"
  where "wrapping what m = handle m (\<lambda>e. raise (Wrap what e)) ret"

text \<open>The balances of the snapshot are read and not kept: they are not part of the state.\<close>

definition loadSnapshot :: "('acc, 'grp, 'ast, 'v, engine_snapshot) node_op" where
  "loadSnapshot =
     andthen (wrapping ''load assets for build'' (realm ListAssets)) (\<lambda>assets.
     andthen (wrapping ''load accounts for build'' (realm ListAccounts)) (\<lambda>accounts.
     andthen (wrapping ''load rate limits for build'' (realm (ListRateLimits []))) (\<lambda>rates.
     andthen (wrapping ''load order-size limits for build'' (realm (ListOrderSizeLimits []))) (\<lambda>sizes.
     andthen (wrapping ''load spot funds pnl-bounds limits for build''
       (realm (ListSpotFundsPnlBoundsLimits []))) (\<lambda>pnls.
     andthen (wrapping ''load groups for build'' (realm ListGroups)) (\<lambda>groups.
     andthen (wrapping ''load default group for build'' (realm (GetGroup []))) (\<lambda>dflt.
     andthen (wrapping ''load balances for build'' (realm (ret ()))) (\<lambda>_.
     andthen (wrapping ''load spot funds limit mode for build'' storedSpotFundsLimitMode) (\<lambda>mode.
     ret \<lparr> Es_Assets = assets, Es_Accounts = accounts,
       Es_Groups = groups @ (case dflt of None \<Rightarrow> [] | Some g \<Rightarrow> [g]),
       Es_RateLimits = rates, Es_OrderSizeLimits = sizes, Es_SpotFundsPnlBoundsLimits = pnls,
       Es_SpotFundsTrackOnly = (mode = SpotFundsLimitModeTrackOnly) \<rparr>)))))))))"

text \<open>A build makes a new handle, so it is neither nil nor the current one.\<close>

definition build ::
  "('acc, 'grp, 'ast, 'v, 'd) engine_libs \<Rightarrow> engine_snapshot
     \<Rightarrow> ('acc, 'grp, 'ast, 'v, ('acc, 'grp, 'ast, 'v) live_engine) node_op" where
  "build L snap = andthen next_answer (\<lambda>answer.
     andthen (modify (\<lambda>s. s\<lparr>N_Builds := Suc (N_Builds s)\<rparr>)) (\<lambda>_.
     reads (\<lambda>s. lift_res (buildEngine L answer (N_Builds s) snap))))"

definition swapEngine :: "('acc, 'grp, 'ast, 'v) live_engine \<Rightarrow> ('acc, 'grp, 'ast, 'v, unit) node_op" where
  "swapEngine eng = modify (\<lambda>s. s\<lparr>N_Engine := eng\<rparr>)"

fun mirror_blocks ::
  "(nat \<Rightarrow> bool) \<Rightarrow> account_id list \<Rightarrow> account_block list \<Rightarrow> ('acc, 'grp, 'ast, 'v, unit) node_op" where
  "mirror_blocks pr seen [] = ret ()"
| "mirror_blocks pr seen (b # bs) =
     (if Blk_Account b = [] then fatal (Text ''policy configuration block has no account'')
      else if Blk_Account b \<in> set seen then mirror_blocks pr seen bs
      else handle (realm (GetAccount (Blk_Account b)))
        (\<lambda>e. fatal (Wrap ''read policy configuration block state'' e))
        (\<lambda>found. case found of
           None \<Rightarrow> fatal (Wrap ''account not found'' (Sentinel ErrNotFound))
         | Some acc \<Rightarrow>
             if Account_Blocked acc then mirror_blocks pr (Blk_Account b # seen) bs
             else
               let block = b\<lparr>Blk_Policy := NormalizeReason pr (Blk_Policy b),
                     Blk_Reason := NormalizeReason pr (Blk_Reason b),
                     Blk_Details := NormalizeReason pr (Blk_Details b)\<rparr>
               in handle (realm (SetAccountBlock pr block))
                 (\<lambda>e. fatal (Wrap ''record policy configuration block'' e))
                 (\<lambda>_. handle (appendAudit \<lparr> La_Action = AuditActionBlock, La_Source = SourceSystem,
                        La_Actor = [], La_Account = Blk_Account b, La_Asset = [] \<rparr>)
                    (\<lambda>e. fatal (Wrap ''audit policy configuration block'' e))
                    (\<lambda>_. mirror_blocks pr (Blk_Account b # seen) bs))))"

definition mirrorPolicyConfigurationBlocks ::
  "(nat \<Rightarrow> bool) \<Rightarrow> account_block list \<Rightarrow> ('acc, 'grp, 'ast, 'v, unit) node_op" where
  "mirrorPolicyConfigurationBlocks pr blocks = mirror_blocks pr [] blocks"

definition mirrorSeedAccountBlocks ::
  "(nat \<Rightarrow> bool) \<Rightarrow> ('acc, 'grp, 'ast, 'v) live_engine \<Rightarrow> ('acc, 'grp, 'ast, 'v, unit) node_op" where
  "mirrorSeedAccountBlocks pr eng = mirrorPolicyConfigurationBlocks pr (Eng_seedBlocks eng)"

definition rebuildEngineFromStore ::
  "('acc, 'grp, 'ast, 'v, 'd) engine_libs \<Rightarrow> ('acc, 'grp, 'ast, 'v, unit) node_op" where
  "rebuildEngineFromStore L =
     andthen (wrapping ''load restored snapshot'' loadSnapshot) (\<lambda>snap.
     andthen (wrapping ''build restored engine'' (build L snap)) (\<lambda>next.
     andthen (swapEngine next) (\<lambda>_.
     wrapping ''mirror rebuilt engine seed blocks'' (mirrorSeedAccountBlocks (Lib_Print L) next))))"

subsection \<open>Missing accounts and assets\<close>

definition AddAccountResolverEntry ::
  "('acc, 'grp, 'ast, 'v, 'd) engine_libs \<Rightarrow> account \<Rightarrow> ('acc, 'grp, 'ast, 'v, unit) engine_op" where
  "AddAccountResolverEntry L acc = reads (\<lambda>eng.
     andthen (lift_res (addAccountResolverEntry (Lib_Ids L) acc (Eng_res eng))) (\<lambda>res.
     modify (\<lambda>eng. eng\<lparr>Eng_res := res\<rparr>)))"

definition AddAssetResolverEntry ::
  "('acc, 'grp, 'ast, 'v, 'd) engine_libs \<Rightarrow> asset \<Rightarrow> ('acc, 'grp, 'ast, 'v, unit) engine_op" where
  "AddAssetResolverEntry L a = reads (\<lambda>eng.
     andthen (lift_res (addAssetResolverEntry (Lib_Ids L) a (Eng_res eng))) (\<lambda>res.
     modify (\<lambda>eng. eng\<lparr>Eng_res := res\<rparr>)))"

text \<open>The rollback of a creation whose publication failed: the row is deleted, or the engine is
  rebuilt and the node fails for good.\<close>

definition rollback_publication ::
  "('acc, 'grp, 'ast, 'v, 'd) engine_libs \<Rightarrow> unit db_op \<Rightarrow> go_error \<Rightarrow> ('acc, 'grp, 'ast, 'v, 'a) node_op"
  where
  "rollback_publication L delete cause =
     handle (realm delete)
       (\<lambda>e. handle (rebuildEngineFromStore L)
          (\<lambda>e'. fatal (Wrap2 cause (Wrap2 (Wrap ''rollback auto-created'' e) e')))
          (\<lambda>_. fatal (Wrap2 cause (Wrap ''rollback auto-created'' e))))
       (\<lambda>_. raise (internalPostCommitNodeMutationError cause))"

definition rollbackAutoCreatedAccountPublication ::
  "('acc, 'grp, 'ast, 'v, 'd) engine_libs \<Rightarrow> account \<Rightarrow> go_error \<Rightarrow> ('acc, 'grp, 'ast, 'v, 'a) node_op"
  where "rollbackAutoCreatedAccountPublication L acc cause =
    rollback_publication L (DeleteAccount (Account_Code acc)) cause"

definition rollbackAutoCreatedAssetPublication ::
  "('acc, 'grp, 'ast, 'v, 'd) engine_libs \<Rightarrow> asset \<Rightarrow> go_error \<Rightarrow> ('acc, 'grp, 'ast, 'v, 'a) node_op"
  where "rollbackAutoCreatedAssetPublication L a cause =
    rollback_publication L (DeleteAsset (Asset_Code a)) cause"

definition ensureAutoCreatedAccount ::
  "('acc, 'grp, 'ast, 'v, 'd) engine_libs \<Rightarrow> account_id \<Rightarrow> caller \<Rightarrow> ('acc, 'grp, 'ast, 'v, unit) node_op"
  where
  "ensureAutoCreatedAccount L code c =
     andthen (wrapping ''read account'' (realm (GetAccount code))) (\<lambda>found.
     if found \<noteq> None then ret ()
     else andthen (lift_out (ValidateAccountID (Lib_Print L) code)) (\<lambda>_.
       andthen (lift_out (guardTightenOnlyAccountCreation c)) (\<lambda>_.
       handle (realm (CreateAccount (Lib_Print L) (Lib_Decimals L) (zero_account code)))
         (\<lambda>e. if wraps e ErrAlreadyExists then ret () else raise (Wrap ''create account'' e))
         (\<lambda>acc. handle (engine_step (AddAccountResolverEntry L acc))
            (\<lambda>e. rollbackAutoCreatedAccountPublication L acc (Wrap ''publish auto-created account'' e))
            (\<lambda>_. handle (node_audit c AuditActionCreateAccount (Account_Code acc) [])
               (\<lambda>e. fatal (Wrap ''audit create account'' e)) ret)))))"

definition ensureAccount ::
  "('acc, 'grp, 'ast, 'v, 'd) engine_libs \<Rightarrow> account_id \<Rightarrow> missing_account_policy \<Rightarrow> caller
     \<Rightarrow> ('acc, 'grp, 'ast, 'v, unit) node_op" where
  "ensureAccount L code missing c =
     andthen (lift_out (ValidateAccountID (Lib_Print L) code)) (\<lambda>_.
     case missing of
       MissingAccountCreate \<Rightarrow> ensureAutoCreatedAccount L code c
     | MissingAccountReject \<Rightarrow> andthen (wrapping ''read account'' (realm (GetAccount code))) (\<lambda>found.
         if found = None then raise (AccountMissingError code) else ret ())
     | _ \<Rightarrow> lift_out (ValidateMissingAccountPolicy missing))"

definition autoCreatedAssetClassCode :: string where
  "autoCreatedAssetClassCode = ''auto-created''"

text \<open>The result says whether the asset was created.\<close>

definition ensureAutoCreatedAsset ::
  "('acc, 'grp, 'ast, 'v, 'd) engine_libs \<Rightarrow> string \<Rightarrow> caller \<Rightarrow> ('acc, 'grp, 'ast, 'v, bool) node_op"
  where
  "ensureAutoCreatedAsset L code c =
     andthen (wrapping ''read asset'' (realm (GetAsset code))) (\<lambda>found.
     if found \<noteq> None then ret False
     else andthen (lift_out (ValidateAsset (Lib_Print L) code)) (\<lambda>_.
       andthen (handle (realm (CreateAssetClass autoCreatedAssetClassCode))
         (\<lambda>e. if wraps e ErrAlreadyExists then ret () else raise (Wrap ''create auto-created asset class'' e))
         ret) (\<lambda>_.
       handle (realm (CreateAsset \<lparr> Asset_Code = code, Asset_Title = [],
             Asset_Class = autoCreatedAssetClassCode, Asset_EngineAssetID = 0 \<rparr>))
         (\<lambda>e. if wraps e ErrAlreadyExists then ret False else raise (Wrap ''create auto-created asset'' e))
         (\<lambda>a. handle (engine_step (AddAssetResolverEntry L a))
            (\<lambda>e. rollbackAutoCreatedAssetPublication L a (Wrap ''publish auto-created asset'' e))
            (\<lambda>_. handle (node_audit c AuditActionCreateAsset [] code)
               (\<lambda>e. fatal (Wrap ''audit auto-created asset'' e)) (\<lambda>_. ret True))))))"

definition ensureLimitAccount ::
  "('acc, 'grp, 'ast, 'v, 'd) engine_libs \<Rightarrow> limit_scope \<Rightarrow> account_id \<Rightarrow> missing_account_policy
     \<Rightarrow> caller \<Rightarrow> ('acc, 'grp, 'ast, 'v, unit) node_op" where
  "ensureLimitAccount L scope code missing c =
     (if HasAccountAxis scope then ensureAccount L code missing c else ret ())"

definition ensureLimitAsset ::
  "('acc, 'grp, 'ast, 'v, 'd) engine_libs \<Rightarrow> limit_scope \<Rightarrow> string \<Rightarrow> caller
     \<Rightarrow> ('acc, 'grp, 'ast, 'v, unit) node_op" where
  "ensureLimitAsset L scope asset c =
     (if needsAsset scope then andthen (ensureAutoCreatedAsset L asset c) (\<lambda>_. ret ()) else ret ())"

end
