(* ===== verification/LimitOps.thy ===== *)
theory LimitOps
  imports LimitNode
begin

section \<open>Putting and deleting limits\<close>

text \<open>The operations of \<^verbatim>\<open>local_limits.go\<close> and the limit-mode meta-policy.\<close>

record limit_target =
  Tgt_Policy :: limit_policy
  Tgt_Scope :: limit_scope
  Tgt_Account :: account_id
  Tgt_AccountGroup :: string
  Tgt_Asset :: string

subsection \<open>Reading and restoring a barrier\<close>

definition readRateBarrier ::
  "limit_target \<Rightarrow> ('acc, 'grp, 'ast, 'v, limit_rate option) node_op" where
  "readRateBarrier t = andthen (wrapping ''read rate barrier'' (realm (ListRateLimits []))) (\<lambda>limits.
     ret (List.find (\<lambda>l. Rate_Scope l = Tgt_Scope t \<and> Rate_Account l = Tgt_Account t
       \<and> Rate_Asset l = Tgt_Asset t) limits))"

definition readOrderSizeBarrier ::
  "limit_target \<Rightarrow> ('acc, 'grp, 'ast, 'v, limit_order_size option) node_op" where
  "readOrderSizeBarrier t =
     andthen (wrapping ''read order-size barrier'' (realm (ListOrderSizeLimits []))) (\<lambda>limits.
     ret (List.find (\<lambda>l. Size_Scope l = Tgt_Scope t \<and> Size_Account l = Tgt_Account t
       \<and> Size_Asset l = Tgt_Asset t) limits))"

definition spotFundsPnlAxisOfPolicy :: "limit_policy \<Rightarrow> go_error + pnl_axis" where
  "spotFundsPnlAxisOfPolicy policy = (case SpotFundsPnlAxisOf policy of
       None \<Rightarrow> Inl (err_invalid ''policy is not a spot funds pnl-bounds policy'')
     | Some axis \<Rightarrow> Inr axis)"

definition readSpotFundsPnlBoundsBarrier ::
  "limit_target \<Rightarrow> ('acc, 'grp, 'ast, 'v, limit_pnl_bounds option) node_op" where
  "readSpotFundsPnlBoundsBarrier t =
     andthen (lift_res (spotFundsPnlAxisOfPolicy (Tgt_Policy t))) (\<lambda>axis.
     andthen (wrapping ''read spot funds pnl-bounds barrier'' (realm (ListSpotFundsPnlBoundsLimits [])))
       (\<lambda>limits. ret (List.find (\<lambda>l. Pnl_Axis l = axis \<and> Pnl_Scope l = Tgt_Scope t
         \<and> Pnl_Account l = Tgt_Account t \<and> Pnl_AccountGroup l = Tgt_AccountGroup t) limits)))"

definition revertRateBarrier ::
  "('acc, 'grp, 'ast, 'v, 'd) engine_libs \<Rightarrow> limit_target \<Rightarrow> limit_rate option
     \<Rightarrow> ('acc, 'grp, 'ast, 'v, unit) node_op" where
  "revertRateBarrier L t prev = (case prev of
       Some l \<Rightarrow> wrapping ''restore rate-limit barrier'' (realm (store_PutRateLimit (Lib_Print L) l))
     | None \<Rightarrow> wrapping ''remove rate-limit barrier''
         (realm (store_DeleteRateLimit (Tgt_Scope t) (Tgt_Account t) (Tgt_Asset t))))"

definition revertOrderSizeBarrier ::
  "('acc, 'grp, 'ast, 'v, 'd) engine_libs \<Rightarrow> limit_target \<Rightarrow> limit_order_size option
     \<Rightarrow> ('acc, 'grp, 'ast, 'v, unit) node_op" where
  "revertOrderSizeBarrier L t prev = (case prev of
       Some l \<Rightarrow> wrapping ''restore order-size barrier''
         (realm (store_PutOrderSizeLimit (Lib_Print L) (Lib_Decimals L) l))
     | None \<Rightarrow> wrapping ''remove order-size barrier''
         (realm (store_DeleteOrderSizeLimit (Tgt_Scope t) (Tgt_Account t) (Tgt_Asset t))))"

definition revertSpotFundsPnlBoundsBarrier ::
  "('acc, 'grp, 'ast, 'v, 'd) engine_libs \<Rightarrow> limit_target \<Rightarrow> limit_pnl_bounds option
     \<Rightarrow> ('acc, 'grp, 'ast, 'v, unit) node_op" where
  "revertSpotFundsPnlBoundsBarrier L t prev = (case prev of
       Some l \<Rightarrow> wrapping ''restore spot funds pnl-bounds barrier''
         (realm (store_PutSpotFundsPnlBoundsLimit (Lib_Print L) (Lib_Decimals L) l))
     | None \<Rightarrow> andthen (lift_res (spotFundsPnlAxisOfPolicy (Tgt_Policy t))) (\<lambda>axis.
         wrapping ''remove spot funds pnl-bounds barrier''
           (realm (store_DeleteSpotFundsPnlBoundsLimit axis (Tgt_Scope t) (Tgt_Account t)
             (Tgt_AccountGroup t)))))"

subsection \<open>Applying a change to the engine\<close>

definition policyLimitSet :: "limit_policy \<Rightarrow> ('acc, 'grp, 'ast, 'v, limit_set) node_op" where
  "policyLimitSet policy =
     (if policy = PolicyRateLimit then
        andthen (wrapping ''read rate limits'' (realm (ListRateLimits []))) (\<lambda>limits.
        ret \<lparr> Set_RateLimits = limits, Set_OrderSizeLimits = [], Set_SpotFundsPnlBoundsLimits = [] \<rparr>)
      else if policy = PolicyOrderSizeLimit then
        andthen (wrapping ''read order-size limits'' (realm (ListOrderSizeLimits []))) (\<lambda>limits.
        ret \<lparr> Set_RateLimits = [], Set_OrderSizeLimits = limits, Set_SpotFundsPnlBoundsLimits = [] \<rparr>)
      else if SpotFundsPnlAxisOf policy \<noteq> None then
        andthen (wrapping ''read spot funds pnl-bounds limits'' (realm (ListSpotFundsPnlBoundsLimits [])))
          (\<lambda>limits. ret \<lparr> Set_RateLimits = [], Set_OrderSizeLimits = [],
            Set_SpotFundsPnlBoundsLimits = limits \<rparr>)
      else raise (err_invalid ''unknown policy''))"

definition reconfigurePolicy ::
  "('acc, 'grp, 'ast, 'v, 'd) engine_libs \<Rightarrow> limit_policy
     \<Rightarrow> ('acc, 'grp, 'ast, 'v, account_block list) node_op" where
  "reconfigurePolicy L policy = andthen (policyLimitSet policy) (\<lambda>limits.
     andthen next_answer (\<lambda>answer. engine_step (ConfigurePolicy L answer policy limits)))"

definition revertPolicy ::
  "('acc, 'grp, 'ast, 'v, unit) node_op \<Rightarrow> ('acc, 'grp, 'ast, 'v, unit) node_op" where
  "revertPolicy revert = handle revert (\<lambda>e. fatal (Wrap ''revert policy configuration'' e)) ret"

definition applyPolicyChangeLocked ::
  "('acc, 'grp, 'ast, 'v, 'd) engine_libs \<Rightarrow> limit_policy \<Rightarrow> ('acc, 'grp, 'ast, 'v, unit) node_op
     \<Rightarrow> ('acc, 'grp, 'ast, 'v, unit) node_op" where
  "applyPolicyChangeLocked L policy revert =
     handle (reconfigurePolicy L policy)
       (\<lambda>e. let spotFunds = SpotFundsPnlAxisOf policy \<noteq> None in
          if wraps e ErrNotImplemented then
            if spotFunds then andthen (revertPolicy revert) (\<lambda>_. raise e)
            else handle (rebuildEngineFromStore L)
              (\<lambda>e'. fatal (Wrap2 e (Wrap ''rebuild policy after online lifecycle gap'' e'))) ret
          else andthen (revertPolicy revert) (\<lambda>_.
            if \<not> spotFunds then raise e
            else handle (rebuildEngineFromStore L)
              (\<lambda>e'. fatal (Wrap2 e
                 (Wrap ''rebuild engine after failed spot funds pnl-bounds configure'' e')))
              (\<lambda>_. raise e)))
       (\<lambda>blocks. mirrorPolicyConfigurationBlocks (Lib_Print L) blocks)"

definition replaceEngineForPolicyLifecycle ::
  "('acc, 'grp, 'ast, 'v, 'd) engine_libs \<Rightarrow> engine_snapshot \<Rightarrow> ('acc, 'grp, 'ast, 'v, unit) node_op
     \<Rightarrow> ('acc, 'grp, 'ast, 'v, unit) node_op" where
  "replaceEngineForPolicyLifecycle L snap commit =
     andthen (wrapping ''build engine for lifecycle'' (build L snap)) (\<lambda>next.
     andthen (wrapping ''commit lifecycle engine replacement'' commit) (\<lambda>_.
     andthen (swapEngine next) (\<lambda>_.
     handle (mirrorSeedAccountBlocks (Lib_Print L) next)
       (\<lambda>e. fatal (Wrap ''mirror lifecycle seed blocks'' e)) ret)))"

definition audit_change ::
  "caller \<Rightarrow> audit_action \<Rightarrow> account_id \<Rightarrow> ('acc, 'grp, 'ast, 'v, unit) node_op" where
  "audit_change c action acc = handle (node_audit c action acc []) (\<lambda>e. fatal (Wrap ''audit limit'' e)) ret"

subsection \<open>The guards of a tighten-only caller\<close>

definition guardTightenOnlyRebuild :: "caller \<Rightarrow> ('acc, 'grp, 'ast, 'v, unit) node_op" where
  "guardTightenOnlyRebuild c =
     (if \<not> TightenOnly c then ret ()
      else andthen (wrapping ''read rate limits for engine rebuild'' (realm (ListRateLimits []))) (\<lambda>limits.
        if limits = [] then ret ()
        else raise (err_loosening ''the engine rebuild would reset every rate-limit window'')))"

definition guardTightenOnlyOrderSize ::
  "('acc, 'grp, 'ast, 'v, 'd) engine_libs \<Rightarrow> limit_order_size \<Rightarrow> limit_order_size option \<Rightarrow> caller
     \<Rightarrow> ('acc, 'grp, 'ast, 'v, unit) node_op" where
  "guardTightenOnlyOrderSize L l prev c =
     (if \<not> TightenOnly c then ret ()
      else case prev of
        Some p \<Rightarrow> lift_out (Size_NoLooserThan (Lib_Decimals L) l p)
      | None \<Rightarrow>
          andthen (wrapping ''read order-size barriers'' (realm (ListOrderSizeLimits []))) (\<lambda>limits.
          if limits = [] then guardTightenOnlyRebuild c
          else
            let against = (\<lambda>overridden.
              andthen (readOrderSizeBarrier \<lparr> Tgt_Policy = PolicyOrderSizeLimit, Tgt_Scope = overridden,
                 Tgt_Account = [], Tgt_AccountGroup = [], Tgt_Asset = Size_Asset l \<rparr>) (\<lambda>ref.
              case ref of None \<Rightarrow> ret () | Some r \<Rightarrow> lift_out (Size_NoLooserThan (Lib_Decimals L) l r)))
            in case Size_Scope l of
                 ScopeAccountUnderlyingAsset \<Rightarrow> against ScopeUnderlyingAsset
               | ScopeAccountSettlementAsset \<Rightarrow> against ScopeSettlementAsset
               | ScopeBroker \<Rightarrow> ret ()
               | ScopeUnderlyingAsset \<Rightarrow> ret ()
               | ScopeSettlementAsset \<Rightarrow> ret ()
               | _ \<Rightarrow> raise (err_invalid ''scope not allowed for policy'')))"

definition axis_policy :: "pnl_axis \<Rightarrow> limit_policy" where
  "axis_policy axis = (case AxisPolicy axis of Some p \<Rightarrow> p | None \<Rightarrow> OtherPolicy [])"

definition pnl_target :: "pnl_axis \<Rightarrow> limit_scope \<Rightarrow> account_id \<Rightarrow> string \<Rightarrow> limit_target" where
  "pnl_target axis scope acc grp = \<lparr> Tgt_Policy = axis_policy axis, Tgt_Scope = scope,
     Tgt_Account = acc, Tgt_AccountGroup = grp, Tgt_Asset = [] \<rparr>"

definition resolvedSpotFundsPnlBounds ::
  "pnl_axis \<Rightarrow> account_id \<Rightarrow> ('acc, 'grp, 'ast, 'v, limit_pnl_bounds option) node_op" where
  "resolvedSpotFundsPnlBounds axis acc =
     andthen (wrapping ''read account for spot funds pnl bounds'' (realm (GetAccount acc))) (\<lambda>stored.
     andthen (case stored of
         Some a \<Rightarrow> ret (Account_GroupCode a, Account_EffectiveCurrency a)
       | None \<Rightarrow> andthen (wrapping ''read default group currency'' (realm (GetGroup []))) (\<lambda>dflt.
           ret ([], case dflt of None \<Rightarrow> [] | Some g \<Rightarrow> Group_Currency g))) (\<lambda>(groupCode, currency).
     let applies = (\<lambda>b. currency = [] \<or> Pnl_Currency b = currency);
         global = andthen (readSpotFundsPnlBoundsBarrier (pnl_target axis ScopeGlobal [] []))
           (\<lambda>bound. ret (case bound of None \<Rightarrow> None | Some b \<Rightarrow> if applies b then Some b else None))
     in if groupCode = [] then global
        else andthen (readSpotFundsPnlBoundsBarrier (pnl_target axis ScopeAccountGroup [] groupCode))
          (\<lambda>bound. case bound of
             Some b \<Rightarrow> if applies b then ret (Some b) else global
           | None \<Rightarrow> global)))"

definition guardTightenOnlySpotFundsPnlBounds ::
  "('acc, 'grp, 'ast, 'v, 'd) engine_libs \<Rightarrow> limit_pnl_bounds \<Rightarrow> limit_pnl_bounds option \<Rightarrow> caller
     \<Rightarrow> ('acc, 'grp, 'ast, 'v, unit) node_op" where
  "guardTightenOnlySpotFundsPnlBounds L l prev c =
     (if \<not> TightenOnly c then ret ()
      else case prev of
        Some p \<Rightarrow> lift_out (Pnl_NoLooserThan (Lib_Decimals L) l p)
      | None \<Rightarrow>
          let against = (\<lambda>ref. case ref of None \<Rightarrow> ret ()
                | Some r \<Rightarrow> lift_out (Pnl_NoLooserThan (Lib_Decimals L) l r))
          in case Pnl_Scope l of
               ScopeGlobal \<Rightarrow> ret ()
             | ScopeAccountGroup \<Rightarrow>
                 andthen (readSpotFundsPnlBoundsBarrier (pnl_target (Pnl_Axis l) ScopeGlobal [] [])) against
             | ScopeAccount \<Rightarrow>
                 andthen (resolvedSpotFundsPnlBounds (Pnl_Axis l) (Pnl_Account l)) against
             | _ \<Rightarrow> raise (err_invalid ''scope not allowed for policy''))"

subsection \<open>Put\<close>

definition PutRateLimit ::
  "('acc, 'grp, 'ast, 'v, 'd) engine_libs \<Rightarrow> limit_rate \<Rightarrow> missing_account_policy \<Rightarrow> caller
     \<Rightarrow> ('acc, 'grp, 'ast, 'v, unit) node_op" where
  "PutRateLimit L l missing c =
     andthen beginLivePolicyConfiguration (\<lambda>_.
     let target = \<lparr> Tgt_Policy = PolicyRateLimit, Tgt_Scope = Rate_Scope l,
           Tgt_Account = Rate_Account l, Tgt_AccountGroup = [], Tgt_Asset = Rate_Asset l \<rparr>
     in andthen (readRateBarrier target) (\<lambda>prev.
     andthen (case prev of
         Some p \<Rightarrow> if TightenOnly c
           then lift_out (map_option (Wrap ''put rate limit'') (Rate_NoLooserThan l p)) else ret ()
       | None \<Rightarrow> ret ()) (\<lambda>_.
     andthen (ensureLimitAccount L (Rate_Scope l) (Rate_Account l) missing c) (\<lambda>_.
     andthen (ensureLimitAsset L (Rate_Scope l) (Rate_Asset l) c) (\<lambda>_.
     andthen (wrapping ''load rate policy lifecycle snapshot'' loadSnapshot) (\<lambda>snap.
     andthen
       (if prev = None \<and> Es_RateLimits snap = []
        then wrapping ''install first rate limit''
          (replaceEngineForPolicyLifecycle L (snap\<lparr>Es_RateLimits := [l]\<rparr>)
            (realm (store_PutRateLimit (Lib_Print L) l)))
        else andthen (wrapping ''put rate limit'' (realm (store_PutRateLimit (Lib_Print L) l))) (\<lambda>_.
          wrapping ''configure policy after limit''
            (applyPolicyChangeLocked L PolicyRateLimit (revertRateBarrier L target prev)))) (\<lambda>_.
     audit_change c AuditActionSetLimit (Rate_Account l))))))))"

definition PutOrderSizeLimit ::
  "('acc, 'grp, 'ast, 'v, 'd) engine_libs \<Rightarrow> limit_order_size \<Rightarrow> missing_account_policy \<Rightarrow> caller
     \<Rightarrow> ('acc, 'grp, 'ast, 'v, unit) node_op" where
  "PutOrderSizeLimit L l missing c =
     andthen beginLivePolicyConfiguration (\<lambda>_.
     let target = \<lparr> Tgt_Policy = PolicyOrderSizeLimit, Tgt_Scope = Size_Scope l,
           Tgt_Account = Size_Account l, Tgt_AccountGroup = [], Tgt_Asset = Size_Asset l \<rparr>;
         commit = realm (store_PutOrderSizeLimit (Lib_Print L) (Lib_Decimals L) l)
     in andthen (readOrderSizeBarrier target) (\<lambda>prev.
     andthen (wrapping ''put order-size limit'' (guardTightenOnlyOrderSize L l prev c)) (\<lambda>_.
     andthen (ensureLimitAccount L (Size_Scope l) (Size_Account l) missing c) (\<lambda>_.
     andthen (ensureLimitAsset L (Size_Scope l) (Size_Asset l) c) (\<lambda>_.
     andthen (wrapping ''load order-size policy lifecycle snapshot'' loadSnapshot) (\<lambda>snap.
     andthen
       (if prev = None \<and> Es_OrderSizeLimits snap = []
        then wrapping ''install first order-size limit''
          (replaceEngineForPolicyLifecycle L (snap\<lparr>Es_OrderSizeLimits := [l]\<rparr>) commit)
        else andthen (wrapping ''put order-size limit'' commit) (\<lambda>_.
          wrapping ''configure policy after limit''
            (applyPolicyChangeLocked L PolicyOrderSizeLimit (revertOrderSizeBarrier L target prev)))) (\<lambda>_.
     audit_change c AuditActionSetLimit (Size_Account l))))))))"

definition PutSpotFundsPnlBoundsLimit ::
  "('acc, 'grp, 'ast, 'v, 'd) engine_libs \<Rightarrow> limit_pnl_bounds \<Rightarrow> missing_account_policy \<Rightarrow> caller
     \<Rightarrow> ('acc, 'grp, 'ast, 'v, unit) node_op" where
  "PutSpotFundsPnlBoundsLimit L l missing c =
     andthen beginLivePolicyConfiguration (\<lambda>_.
     case AxisPolicy (Pnl_Axis l) of
       None \<Rightarrow> raise (err_invalid ''unknown spot funds pnl axis'')
     | Some policy \<Rightarrow>
         let target = \<lparr> Tgt_Policy = policy, Tgt_Scope = Pnl_Scope l, Tgt_Account = Pnl_Account l,
               Tgt_AccountGroup = Pnl_AccountGroup l, Tgt_Asset = [] \<rparr>
         in andthen (readSpotFundsPnlBoundsBarrier target) (\<lambda>prev.
         andthen (wrapping ''put spot funds pnl-bounds limit''
           (guardTightenOnlySpotFundsPnlBounds L l prev c)) (\<lambda>_.
         andthen (ensureLimitAccount L (Pnl_Scope l) (Pnl_Account l) missing c) (\<lambda>_.
         andthen (wrapping ''put spot funds pnl-bounds limit''
           (realm (store_PutSpotFundsPnlBoundsLimit (Lib_Print L) (Lib_Decimals L) l))) (\<lambda>_.
         andthen (wrapping ''configure policy after limit''
           (applyPolicyChangeLocked L policy (revertSpotFundsPnlBoundsBarrier L target prev))) (\<lambda>_.
         audit_change c AuditActionSetLimit (Pnl_Account l)))))))"

subsection \<open>The limit mode\<close>

fun limit_mode_text :: "limit_mode \<Rightarrow> string" where
  "limit_mode_text SpotFundsLimitModeUnset = []"
| "limit_mode_text SpotFundsLimitModeEnforce = ''enforce''"
| "limit_mode_text SpotFundsLimitModeTrackOnly = ''track_only''"
| "limit_mode_text (OtherLimitMode t) = t"

text \<open>\<open>None\<close> deletes the stored mode.\<close>

definition applySpotFundsLimitMode ::
  "('acc, 'grp, 'ast, 'v, 'd) engine_libs \<Rightarrow> caller \<Rightarrow> limit_mode option \<Rightarrow> audit_action \<Rightarrow> account_id \<Rightarrow> ('acc, 'grp, 'ast, 'v, unit) node_op" where
  "applySpotFundsLimitMode L c next action acc =
     andthen (realm (GetSetting SettingKeySpotFundsLimitMode)) (\<lambda>prev.
     andthen (case next of
         None \<Rightarrow> realm (DeleteSetting SettingKeySpotFundsLimitMode)
       | Some m \<Rightarrow> realm (SetSetting SettingKeySpotFundsLimitMode (limit_mode_text m))) (\<lambda>_.
     andthen next_answer (\<lambda>answer.
     handle (engine_step (SetSpotFundsTrackOnly L answer (next = Some SpotFundsLimitModeTrackOnly)))
       (\<lambda>e. handle (case prev of
            Some v \<Rightarrow> realm (SetSetting SettingKeySpotFundsLimitMode v)
          | None \<Rightarrow> realm (DeleteSetting SettingKeySpotFundsLimitMode))
          (\<lambda>e'. fatal (Wrap ''revert spot funds limit mode'' e'))
          (\<lambda>_. raise e))
       (\<lambda>_. audit_change c action acc))))"

definition SetSpotFundsLimitMode ::
  "('acc, 'grp, 'ast, 'v, 'd) engine_libs \<Rightarrow> limit_mode \<Rightarrow> caller \<Rightarrow> ('acc, 'grp, 'ast, 'v, unit) node_op" where
  "SetSpotFundsLimitMode L mode c =
     andthen (lift_out (ValidateSpotFundsLimitMode mode)) (\<lambda>_.
     andthen beginLivePolicyConfiguration (\<lambda>_.
     andthen (wrapping ''set spot funds limit mode'' storedSpotFundsLimitMode) (\<lambda>prev.
     andthen (if TightenOnly c
       then lift_out (map_option (Wrap ''set spot funds limit mode'') (Mode_NoLooserThan mode prev))
       else ret ()) (\<lambda>_.
     wrapping ''set spot funds limit mode''
       (applySpotFundsLimitMode L c (Some mode) AuditActionSetLimit [])))))"

definition deleteSpotFundsLimitMode ::
  "('acc, 'grp, 'ast, 'v, 'd) engine_libs \<Rightarrow> limit_target \<Rightarrow> caller \<Rightarrow> ('acc, 'grp, 'ast, 'v, unit) node_op"
  where
  "deleteSpotFundsLimitMode L t c =
     andthen (lift_out (ValidateLimitScopeAndAxes (Lib_Print L) (Tgt_Policy t) (Tgt_Scope t)
       (Tgt_Account t) (Tgt_Asset t) (Tgt_AccountGroup t))) (\<lambda>_.
     andthen beginLivePolicyConfiguration (\<lambda>_.
     wrapping ''delete spot funds limit mode''
       (applySpotFundsLimitMode L c None AuditActionDeleteLimit (Tgt_Account t))))"

subsection \<open>Delete\<close>

text \<open>The last barrier of a policy is removed by an engine build; the result says whether it was.\<close>

definition deleteLastPolicyBarrierPrepared ::
  "('acc, 'grp, 'ast, 'v, 'd) engine_libs \<Rightarrow> limit_target \<Rightarrow> ('acc, 'grp, 'ast, 'v, bool) node_op" where
  "deleteLastPolicyBarrierPrepared L t =
     (if Tgt_Policy t = PolicyRateLimit then
        andthen (readRateBarrier t) (\<lambda>prev.
        andthen (wrapping ''list rate limits for lifecycle delete'' (realm (ListRateLimits []))) (\<lambda>limits.
        case prev of
          Some p \<Rightarrow>
            if length limits \<noteq> 1 then ret False
            else andthen (wrapping ''load rate policy lifecycle snapshot'' loadSnapshot) (\<lambda>snap.
              andthen (replaceEngineForPolicyLifecycle L (snap\<lparr>Es_RateLimits := []\<rparr>)
                (realm (store_DeleteRateLimit (Rate_Scope p) (Rate_Account p) (Rate_Asset p))))
              (\<lambda>_. ret True))
        | None \<Rightarrow> ret False))
      else if Tgt_Policy t = PolicyOrderSizeLimit then
        andthen (readOrderSizeBarrier t) (\<lambda>prev.
        andthen (wrapping ''list order-size limits for lifecycle delete'' (realm (ListOrderSizeLimits [])))
          (\<lambda>limits.
        case prev of
          Some p \<Rightarrow>
            if length limits \<noteq> 1 then ret False
            else andthen (wrapping ''load order-size policy lifecycle snapshot'' loadSnapshot) (\<lambda>snap.
              andthen (replaceEngineForPolicyLifecycle L (snap\<lparr>Es_OrderSizeLimits := []\<rparr>)
                (realm (store_DeleteOrderSizeLimit (Size_Scope p) (Size_Account p) (Size_Asset p))))
              (\<lambda>_. ret True))
        | None \<Rightarrow> ret False))
      else ret False)"

text \<open>\<open>deleteBarrier\<close> returns the operation that restores the barrier.\<close>

definition deleteBarrier ::
  "('acc, 'grp, 'ast, 'v, 'd) engine_libs \<Rightarrow> limit_target
     \<Rightarrow> ('acc, 'grp, 'ast, 'v, ('acc, 'grp, 'ast, 'v, unit) node_op) node_op" where
  "deleteBarrier L t =
     (if Tgt_Policy t = PolicyRateLimit then
        andthen (readRateBarrier t) (\<lambda>prev.
        andthen (wrapping ''delete rate limit''
          (realm (store_DeleteRateLimit (Tgt_Scope t) (Tgt_Account t) (Tgt_Asset t)))) (\<lambda>_.
        ret (revertRateBarrier L t prev)))
      else if Tgt_Policy t = PolicyOrderSizeLimit then
        andthen (readOrderSizeBarrier t) (\<lambda>prev.
        andthen (wrapping ''delete order-size limit''
          (realm (store_DeleteOrderSizeLimit (Tgt_Scope t) (Tgt_Account t) (Tgt_Asset t)))) (\<lambda>_.
        ret (revertOrderSizeBarrier L t prev)))
      else (case SpotFundsPnlAxisOf (Tgt_Policy t) of
          Some axis \<Rightarrow>
            andthen (readSpotFundsPnlBoundsBarrier t) (\<lambda>prev.
            andthen (wrapping ''delete spot funds pnl-bounds limit''
              (realm (store_DeleteSpotFundsPnlBoundsLimit axis (Tgt_Scope t) (Tgt_Account t)
                (Tgt_AccountGroup t)))) (\<lambda>_.
            ret (revertSpotFundsPnlBoundsBarrier L t prev)))
        | None \<Rightarrow> raise (err_invalid ''unknown policy'')))"

definition DeleteLimit ::
  "('acc, 'grp, 'ast, 'v, 'd) engine_libs \<Rightarrow> limit_target \<Rightarrow> caller \<Rightarrow> ('acc, 'grp, 'ast, 'v, unit) node_op"
  where
  "DeleteLimit L t c =
     (if Tgt_Policy t = PolicySpotFundsLimitMode then deleteSpotFundsLimitMode L t c
      else if TightenOnly c then raise (err_loosening ''delete limit: removing a barrier only loosens'')
      else andthen beginLivePolicyConfiguration (\<lambda>_.
        andthen (wrapping ''delete last policy barrier'' (deleteLastPolicyBarrierPrepared L t)) (\<lambda>prepared.
        andthen (if prepared then ret ()
          else andthen (deleteBarrier L t) (\<lambda>revert.
            wrapping ''configure policy after delete limit''
              (applyPolicyChangeLocked L (Tgt_Policy t) revert))) (\<lambda>_.
        audit_change c AuditActionDeleteLimit (Tgt_Account t)))))"

end
