(* ===== verification/LimitTables.thy ===== *)
theory LimitTables
  imports LimitOps "HOL-Library.Multiset"
begin

section \<open>Barrier tables\<close>

text \<open>
  What the barrier tables promise, the locale \<open>barrier_table\<close>: keys are unique, a listing in the
  order of the keys depends only on the rows, a put replaces the row with its key, and putting
  back or deleting again restores the listing. It is interpreted on the rate, order-size and
  P\&L tables.
\<close>

locale barrier_table =
  fixes key :: "'r \<Rightarrow> 'k" and ord :: "'k \<Rightarrow> 'o::linorder" and valid :: "'r \<Rightarrow> bool"
  assumes ord_key: "valid r \<Longrightarrow> valid r' \<Longrightarrow> ord (key r) = ord (key r') \<Longrightarrow> key r = key r'"
begin

definition listing :: "'r list \<Rightarrow> 'r list" where
  "listing rows = sort_key (\<lambda>r. ord (key r)) rows"

definition table_ok :: "'r list \<Rightarrow> bool" where
  "table_ok rows \<longleftrightarrow> distinct (map key rows) \<and> (\<forall>r\<in>set rows. valid r)"

lemma set_listing [simp]: "set (listing rows) = set rows"
  by (simp add: listing_def)

lemma listing_Nil [simp]: "listing rows = [] \<longleftrightarrow> rows = []"
  by (metis set_listing set_empty)

lemma table_unique:
  "table_ok rows \<Longrightarrow> r \<in> set rows \<Longrightarrow> r' \<in> set rows \<Longrightarrow> key r = key r' \<Longrightarrow> r = r'"
  by (auto simp: table_ok_def distinct_map dest: inj_onD)

lemma table_ok_listing [simp]: "table_ok (listing rows) \<longleftrightarrow> table_ok rows"
proof -
  have "distinct (map key (listing rows)) \<longleftrightarrow> distinct (map key rows)"
    by (simp add: distinct_map listing_def)
  then show ?thesis by (simp add: table_ok_def)
qed

lemma listing_cong:
  assumes "table_ok xs" and "mset xs = mset ys"
  shows "listing xs = listing ys"
proof -
  have "inj_on (\<lambda>r. ord (key r)) (set xs)"
  proof (rule inj_onI)
    fix r r' assume rr: "r \<in> set xs" "r' \<in> set xs" and "ord (key r) = ord (key r')"
    then have "key r = key r'" using assms(1) ord_key by (simp add: table_ok_def)
    then show "r = r'" by (rule table_unique[OF assms(1) rr])
  qed
  then show ?thesis
    unfolding listing_def by (intro sort_key_inj_key_eq) (simp_all add: assms(2))
qed

lemma listing_set_cong:
  assumes "table_ok xs" and "table_ok ys" and "set xs = set ys"
  shows "listing xs = listing ys"
proof (rule listing_cong[OF assms(1)])
  have "distinct xs" "distinct ys" using assms by (auto simp: table_ok_def distinct_map)
  then show "mset xs = mset ys" using assms(3) by (metis set_eq_iff_mset_eq_distinct)
qed

lemma set_put: "set (putLimitRow key r rows) = insert r {x \<in> set rows. key x \<noteq> key r}"
  by (auto simp: putLimitRow_def)

lemma set_delete: "set (deleteLimitRow key k rows) = {x \<in> set rows. key x \<noteq> k}"
  by (auto simp: deleteLimitRow_def)

lemma put_ok: "table_ok rows \<Longrightarrow> valid r \<Longrightarrow> table_ok (putLimitRow key r rows)"
  by (auto simp: table_ok_def putLimitRow_def distinct_map inj_on_def)

lemma delete_ok: "table_ok rows \<Longrightarrow> table_ok (deleteLimitRow key k rows)"
  by (auto simp: table_ok_def deleteLimitRow_def distinct_map inj_on_def)

lemma listing_put: "table_ok rows \<Longrightarrow> valid r
    \<Longrightarrow> listing (putLimitRow key r (listing rows)) = listing (putLimitRow key r rows)"
  by (rule listing_set_cong) (simp_all add: put_ok set_put)

lemma listing_delete: "table_ok rows
    \<Longrightarrow> listing (deleteLimitRow key k (listing rows)) = listing (deleteLimitRow key k rows)"
  by (rule listing_set_cong) (simp_all add: delete_ok set_delete)

text \<open>What a reverted change leaves.\<close>

lemma put_back:
  assumes "table_ok rows" and "p \<in> set rows" and "valid r" and "key p = key r"
  shows "listing (putLimitRow key p (putLimitRow key r rows)) = listing rows"
proof -
  have p: "x = p" if "x \<in> set rows" "key x = key r" for x
    using table_unique[OF assms(1) that(1) assms(2)] that(2) assms(4) by simp
  have v: "valid p" using assms(1,2) by (simp add: table_ok_def)
  have "set (putLimitRow key p (putLimitRow key r rows)) = insert p {x \<in> set rows. key x \<noteq> key r}"
    using assms(4) by (auto simp: set_put)
  also have "{x \<in> set rows. key x \<noteq> key r} = set rows - {p}"
    using p assms(4) by blast
  finally have "set (putLimitRow key p (putLimitRow key r rows)) = set rows"
    using assms(2) by (simp add: insert_absorb)
  then show ?thesis
    by (rule listing_set_cong[OF put_ok[OF put_ok[OF assms(1,3)] v] assms(1)])
qed

lemma delete_again:
  assumes "key r \<notin> key ` set rows"
  shows "deleteLimitRow key (key r) (putLimitRow key r rows) = rows"
proof -
  have "key x \<noteq> key r" if "x \<in> set rows" for x
    using assms that by (metis imageI)
  then have "filter (\<lambda>x. key x \<noteq> key r) rows = rows" by (simp add: filter_id_conv)
  then show ?thesis by (simp add: deleteLimitRow_def putLimitRow_def)
qed

lemma put_deleted:
  assumes "table_ok rows" and "p \<in> set rows"
  shows "listing (putLimitRow key p (deleteLimitRow key (key p) rows)) = listing rows"
proof -
  have "x = p" if "x \<in> set rows" "key x = key p" for x
    by (rule table_unique[OF assms(1) that(1) assms(2) that(2)])
  moreover have "valid p" using assms by (simp add: table_ok_def)
  ultimately show ?thesis
    using assms by (intro listing_set_cong) (auto simp: put_ok delete_ok set_put set_delete)
qed

lemma find_listing:
  assumes "table_ok rows"
  shows "List.find (\<lambda>r. key r = k) (listing rows) = Some p \<longleftrightarrow> p \<in> set rows \<and> key p = k"
    and "List.find (\<lambda>r. key r = k) (listing rows) = None \<longleftrightarrow> k \<notin> key ` set rows"
proof -
  show "List.find (\<lambda>r. key r = k) (listing rows) = Some p \<longleftrightarrow> p \<in> set rows \<and> key p = k"
  proof
    assume "List.find (\<lambda>r. key r = k) (listing rows) = Some p"
    then show "p \<in> set rows \<and> key p = k" by (metis (mono_tags, lifting) find_Some_iff nth_mem set_listing)
  next
    assume p: "p \<in> set rows \<and> key p = k"
    then obtain q where q: "List.find (\<lambda>r. key r = k) (listing rows) = Some q"
      by (metis (mono_tags, lifting) find_None_iff not_Some_eq set_listing)
    then have "q \<in> set rows \<and> key q = k" by (metis (mono_tags, lifting) find_Some_iff nth_mem set_listing)
    then show "List.find (\<lambda>r. key r = k) (listing rows) = Some p"
      using table_unique[OF assms] p q by metis
  qed
  show "List.find (\<lambda>r. key r = k) (listing rows) = None \<longleftrightarrow> k \<notin> key ` set rows"
    by (auto simp: find_None_iff)
qed

end

subsection \<open>The three tables\<close>

lemma scope_text_inj:
  "(\<forall>t. s \<noteq> OtherScope t) \<Longrightarrow> (\<forall>t. s' \<noteq> OtherScope t) \<Longrightarrow> scope_text s = scope_text s' \<Longrightarrow> s = s'"
  by (cases s; cases s') simp_all

lemma axis_text_inj:
  "AxisPolicy a \<noteq> None \<Longrightarrow> AxisPolicy a' \<noteq> None \<Longrightarrow> axis_text a = axis_text a' \<Longrightarrow> a = a'"
  by (cases a; cases a') simp_all

lemma allowed_scope_named:
  "ValidateLimitScopeAndAxes pr p s a x g = None \<Longrightarrow> \<forall>t. s \<noteq> OtherScope t"
  by (cases p) (auto simp: ValidateLimitScopeAndAxes_iff)

interpretation rate_table: barrier_table
  rate_key key_order "\<lambda>l. LimitRate_Validate pr l = None" for pr
proof unfold_locales
  fix r r'
  assume "LimitRate_Validate pr r = None" "LimitRate_Validate pr r' = None"
    and o: "key_order (rate_key r) = key_order (rate_key r')"
  then have "\<forall>t. Rate_Scope r \<noteq> OtherScope t" "\<forall>t. Rate_Scope r' \<noteq> OtherScope t"
    by (auto simp: LimitRate_Validate_iff dest: allowed_scope_named)
  then show "rate_key r = rate_key r'"
    using o scope_text_inj by (simp add: rate_key_def)
qed

lemma size_scope_named:
  "LimitOrderSize_Validate pr D l = None \<Longrightarrow> \<forall>t. Size_Scope l \<noteq> OtherScope t"
  by (auto simp: LimitOrderSize_Validate_def dest: allowed_scope_named)

interpretation size_table: barrier_table
  size_key key_order "\<lambda>l. LimitOrderSize_Validate pr D l = None" for pr D
proof unfold_locales
  fix r r'
  assume "LimitOrderSize_Validate pr D r = None" "LimitOrderSize_Validate pr D r' = None"
    and o: "key_order (size_key r) = key_order (size_key r')"
  then have "\<forall>t. Size_Scope r \<noteq> OtherScope t" "\<forall>t. Size_Scope r' \<noteq> OtherScope t"
    by (auto dest: size_scope_named)
  then show "size_key r = size_key r'"
    using o scope_text_inj by (simp add: size_key_def)
qed

lemma pnl_row_named:
  "LimitPnl_Validate pr D l = None
    \<Longrightarrow> (\<forall>t. Pnl_Scope l \<noteq> OtherScope t) \<and> AxisPolicy (Pnl_Axis l) \<noteq> None"
  by (auto simp: LimitPnl_Validate_def dest: allowed_scope_named split: option.splits)

interpretation pnl_table: barrier_table
  pnl_key pnl_key_order "\<lambda>l. LimitPnl_Validate pr D l = None" for pr D
proof unfold_locales
  fix r r'
  assume "LimitPnl_Validate pr D r = None" "LimitPnl_Validate pr D r' = None"
    and o: "pnl_key_order (pnl_key r) = pnl_key_order (pnl_key r')"
  then have n: "\<forall>t. Pnl_Scope r \<noteq> OtherScope t" "\<forall>t. Pnl_Scope r' \<noteq> OtherScope t"
    "AxisPolicy (Pnl_Axis r) \<noteq> None" "AxisPolicy (Pnl_Axis r') \<noteq> None"
    by (auto dest: pnl_row_named)
  show "pnl_key r = pnl_key r'"
    using o scope_text_inj[OF n(1,2)] axis_text_inj[OF n(3,4)] by (simp add: pnl_key_def)
qed

end
