(* ===== verification/LimitTriples.thy ===== *)
theory LimitTriples
  imports LimitTables
begin

section \<open>Limits of the store and of the engine\<close>

text \<open>
  \<open>limit_view\<close> is what the reads of a node see of the stored limits, \<open>enforces\<close> that a live
  engine holds the settings those limits map to, and \<open>holding\<close> and \<open>stands\<close> the assertions that
  the operations pass through: the store shows one view, the engine enforces a second one. The
  lemmas give the triple of each store method, of the engine's live configuration, of an engine
  build and of the two ways a node applies a policy change.
\<close>

record limit_view =
  Vw_Rates :: "limit_rate list"
  Vw_Sizes :: "limit_order_size list"
  Vw_Pnls :: "limit_pnl_bounds list"
  Vw_Mode :: "string option"

abbreviation rate_listing :: "limit_rate list \<Rightarrow> limit_rate list" where
  "rate_listing \<equiv> barrier_table.listing rate_key key_order"
abbreviation size_listing :: "limit_order_size list \<Rightarrow> limit_order_size list" where
  "size_listing \<equiv> barrier_table.listing size_key key_order"
abbreviation pnl_listing :: "limit_pnl_bounds list \<Rightarrow> limit_pnl_bounds list" where
  "pnl_listing \<equiv> barrier_table.listing pnl_key pnl_key_order"

definition view_of :: "limit_db \<Rightarrow> limit_view" where
  "view_of db = \<lparr> Vw_Rates = rate_listing (Ld_Rates db), Vw_Sizes = size_listing (Ld_Sizes db),
     Vw_Pnls = pnl_listing (Ld_Pnls db), Vw_Mode = Ld_Settings db SettingKeySpotFundsLimitMode \<rparr>"

lemma view_of_simps [simp]:
  "Vw_Rates (view_of db) = rate_listing (Ld_Rates db)"
  "Vw_Sizes (view_of db) = size_listing (Ld_Sizes db)"
  "Vw_Pnls (view_of db) = pnl_listing (Ld_Pnls db)"
  "Vw_Mode (view_of db) = Ld_Settings db SettingKeySpotFundsLimitMode"
  by (simp_all add: view_of_def)

definition tables_ok :: "('acc, 'grp, 'ast, 'v, 'd) engine_libs \<Rightarrow> limit_db \<Rightarrow> bool" where
  "tables_ok L db \<longleftrightarrow> rate_table.table_ok (Lib_Print L) (Ld_Rates db)
     \<and> barrier_table.table_ok size_key
         (\<lambda>l. LimitOrderSize_Validate (Lib_Print L) (Lib_Decimals L) l = None) (Ld_Sizes db)
     \<and> barrier_table.table_ok pnl_key
         (\<lambda>l. LimitPnl_Validate (Lib_Print L) (Lib_Decimals L) l = None) (Ld_Pnls db)"

text \<open>The group and the effective currency that the P\&L cascade of an account depends on.\<close>

definition account_place :: "limit_db \<Rightarrow> account_id \<Rightarrow> string \<times> string" where
  "account_place db acc = (case find_account acc db of
       None \<Rightarrow> ([], group_currency [] db)
     | Some a \<Rightarrow> (Account_GroupCode a, Account_EffectiveCurrency (setAccountCurrencyFields db a)))"

definition db_at ::
  "('acc, 'grp, 'ast, 'v, 'd) engine_libs \<Rightarrow> caller \<Rightarrow> (account_id \<Rightarrow> string \<times> string) \<Rightarrow> limit_view
     \<Rightarrow> limit_db \<Rightarrow> bool" where
  "db_at L c A X db \<longleftrightarrow> tables_ok L db \<and> view_of db = X \<and> (TightenOnly c \<longrightarrow> account_place db = A)"

subsection \<open>Changes of the view\<close>

definition put_rate :: "limit_rate \<Rightarrow> limit_view \<Rightarrow> limit_view" where
  "put_rate l X = X\<lparr>Vw_Rates := rate_listing (putLimitRow rate_key l (Vw_Rates X))\<rparr>"
definition put_size :: "limit_order_size \<Rightarrow> limit_view \<Rightarrow> limit_view" where
  "put_size l X = X\<lparr>Vw_Sizes := size_listing (putLimitRow size_key l (Vw_Sizes X))\<rparr>"
definition put_pnl :: "limit_pnl_bounds \<Rightarrow> limit_view \<Rightarrow> limit_view" where
  "put_pnl l X = X\<lparr>Vw_Pnls := pnl_listing (putLimitRow pnl_key l (Vw_Pnls X))\<rparr>"
definition drop_rate :: "barrier_key \<Rightarrow> limit_view \<Rightarrow> limit_view" where
  "drop_rate k X = X\<lparr>Vw_Rates := rate_listing (deleteLimitRow rate_key k (Vw_Rates X))\<rparr>"
definition drop_size :: "barrier_key \<Rightarrow> limit_view \<Rightarrow> limit_view" where
  "drop_size k X = X\<lparr>Vw_Sizes := size_listing (deleteLimitRow size_key k (Vw_Sizes X))\<rparr>"
definition drop_pnl :: "pnl_key \<Rightarrow> limit_view \<Rightarrow> limit_view" where
  "drop_pnl k X = X\<lparr>Vw_Pnls := pnl_listing (deleteLimitRow pnl_key k (Vw_Pnls X))\<rparr>"
definition set_mode :: "string option \<Rightarrow> limit_view \<Rightarrow> limit_view" where
  "set_mode m X = X\<lparr>Vw_Mode := m\<rparr>"

lemmas view_changes = put_rate_def put_size_def put_pnl_def drop_rate_def drop_size_def drop_pnl_def
  set_mode_def

subsection \<open>Store methods\<close>

text \<open>A store method that succeeds changes the view as stated, one that fails changes nothing.\<close>

lemma guarded_write:
  assumes "\<And>db. P db \<Longrightarrow> x db = None \<Longrightarrow> Q (f db)"
  shows "triple P (reads (\<lambda>db. andthen (lift_out (x db)) (\<lambda>_. modify f))) (\<lambda>_. Q) (\<lambda>_. P)"
  using assms by (auto simp: triple_def op_defs of_outcome_def split: option.splits)

lemma account_place_cong:
  "Ld_Accounts db' = Ld_Accounts db \<Longrightarrow> Ld_Groups db' = Ld_Groups db
    \<Longrightarrow> account_place db' = account_place db"
  by (auto simp: fun_eq_iff account_place_def find_account_def group_currency_def find_group_def
      setAccountCurrencyFields_def split: option.splits)

lemma account_place_frames [simp]:
  "account_place (db\<lparr>Ld_Rates := r\<rparr>) = account_place db"
  "account_place (db\<lparr>Ld_Sizes := z\<rparr>) = account_place db"
  "account_place (db\<lparr>Ld_Pnls := p\<rparr>) = account_place db"
  "account_place (db\<lparr>Ld_Settings := m\<rparr>) = account_place db"
  "account_place (db\<lparr>Ld_Classes := k\<rparr>) = account_place db"
  "account_place (db\<lparr>Ld_Assets := a\<rparr>) = account_place db"
  "account_place (db\<lparr>Ld_Assets := a, Ld_NextAsset := n\<rparr>) = account_place db"
  by (rule account_place_cong; simp)+

lemmas at_simps = db_at_def tables_ok_def view_of_def view_changes

lemma store_PutRateLimit_at:
  "triple (db_at L c A X) (store_PutRateLimit (Lib_Print L) l)
     (\<lambda>_ db. LimitRate_Validate (Lib_Print L) l = None \<and> db_at L c A (put_rate l X) db) (\<lambda>_. db_at L c A X)"
  unfolding store_PutRateLimit_def
  by (rule guarded_write) (auto simp: at_simps rate_table.put_ok rate_table.listing_put)

lemma store_PutOrderSizeLimit_at:
  "triple (db_at L c A X) (store_PutOrderSizeLimit (Lib_Print L) (Lib_Decimals L) l)
     (\<lambda>_ db. LimitOrderSize_Validate (Lib_Print L) (Lib_Decimals L) l = None
        \<and> db_at L c A (put_size l X) db) (\<lambda>_. db_at L c A X)"
  unfolding store_PutOrderSizeLimit_def
  by (rule guarded_write) (auto simp: at_simps size_table.put_ok size_table.listing_put)

lemma store_PutSpotFundsPnlBoundsLimit_at:
  "triple (db_at L c A X) (store_PutSpotFundsPnlBoundsLimit (Lib_Print L) (Lib_Decimals L) l)
     (\<lambda>_ db. LimitPnl_Validate (Lib_Print L) (Lib_Decimals L) l = None
        \<and> db_at L c A (put_pnl l X) db) (\<lambda>_. db_at L c A X)"
  unfolding store_PutSpotFundsPnlBoundsLimit_def
  by (rule guarded_write) (auto simp: at_simps pnl_table.put_ok pnl_table.listing_put)

lemma store_DeleteRateLimit_at:
  "triple (db_at L c A X) (store_DeleteRateLimit s a x)
     (\<lambda>_ db. (s, a, x) \<in> rate_key ` set (Vw_Rates X) \<and> db_at L c A (drop_rate (s, a, x) X) db)
     (\<lambda>_. db_at L c A X)"
  unfolding store_DeleteRateLimit_def
  by (rule guarded_write)
     (auto simp: at_simps notFoundIfNoRows_def rate_table.delete_ok rate_table.listing_delete)

lemma store_DeleteOrderSizeLimit_at:
  "triple (db_at L c A X) (store_DeleteOrderSizeLimit s a x)
     (\<lambda>_ db. (s, a, x) \<in> size_key ` set (Vw_Sizes X) \<and> db_at L c A (drop_size (s, a, x) X) db)
     (\<lambda>_. db_at L c A X)"
  unfolding store_DeleteOrderSizeLimit_def
  by (rule guarded_write)
     (auto simp: at_simps notFoundIfNoRows_def size_table.delete_ok size_table.listing_delete)

lemma store_DeleteSpotFundsPnlBoundsLimit_at:
  "triple (db_at L c A X) (store_DeleteSpotFundsPnlBoundsLimit axis s a g)
     (\<lambda>_ db. (axis, s, a, g) \<in> pnl_key ` set (Vw_Pnls X) \<and> db_at L c A (drop_pnl (axis, s, a, g) X) db)
     (\<lambda>_. db_at L c A X)"
  unfolding store_DeleteSpotFundsPnlBoundsLimit_def
  by (rule guarded_write)
     (auto simp: at_simps notFoundIfNoRows_def pnl_table.delete_ok pnl_table.listing_delete)

lemma SetSetting_at:
  "triple (db_at L c A X) (SetSetting SettingKeySpotFundsLimitMode v)
     (\<lambda>_. db_at L c A (set_mode (Some v) X)) (\<lambda>_. db_at L c A X)"
  unfolding SetSetting_def by (rule triple_modify) (auto simp: at_simps)

lemma DeleteSetting_at:
  "triple (db_at L c A X) (DeleteSetting SettingKeySpotFundsLimitMode)
     (\<lambda>_. db_at L c A (set_mode None X)) (\<lambda>_. db_at L c A X)"
  unfolding DeleteSetting_def by (rule guarded_write) (auto simp: at_simps)

lemma find_map:
  "(\<And>a. P (f a) = P a) \<Longrightarrow> List.find P (map f xs) = map_option f (List.find P xs)"
  by (induction xs) auto

lemma SetAccountBlock_at: "keeps (db_at L c A X) (SetAccountBlock pr b)"
proof -
  have "account_place (db\<lparr>Ld_Accounts := map (\<lambda>a. if Account_Code a \<noteq> Blk_Account b then a
         else if Account_Blocked a then a
         else a\<lparr>Account_Blocked := True, Account_BlockReason := Blk_Reason b,
           Account_BlockPolicy := Blk_Policy b, Account_BlockCode := Blk_Code b,
           Account_BlockDetails := Blk_Details b\<rparr>) (Ld_Accounts db)\<rparr>) = account_place db" for db
    by (auto simp: fun_eq_iff account_place_def find_account_def find_map group_currency_def
        find_group_def setAccountCurrencyFields_def Let_def split: option.splits prod.splits)
  then show ?thesis
    unfolding SetAccountBlock_def keeps_triple
    by (intro guarded_write) (auto simp: at_simps)
qed

lemma CreateAssetClass_at: "keeps (db_at L c A X) (CreateAssetClass code)"
  unfolding CreateAssetClass_def keeps_triple by (rule guarded_write) (auto simp: at_simps)

lemma CreateAsset_at: "keeps (db_at L c A X) (CreateAsset a)"
  unfolding CreateAsset_def
  by (intro keeps_reads keeps_andthen keeps_lift_out keeps_Let keeps_modify keeps_gets keeps_ret)
     (auto simp: at_simps)

lemma DeleteAsset_at: "keeps (db_at L c A X) (DeleteAsset code)"
  unfolding DeleteAsset_def keeps_triple by (rule guarded_write) (auto simp: at_simps)

lemma CreateAccount_at: "\<not> TightenOnly c \<Longrightarrow> keeps (db_at L c A X) (CreateAccount pr D a)"
  unfolding CreateAccount_def
  by (intro keeps_reads keeps_andthen keeps_lift_out keeps_Let keeps_modify keeps_gets keeps_ret)
     (auto simp: at_simps)

lemma DeleteAccount_at: "\<not> TightenOnly c \<Longrightarrow> keeps (db_at L c A X) (DeleteAccount code)"
  unfolding DeleteAccount_def keeps_triple by (rule guarded_write) (auto simp: at_simps)

subsection \<open>What an engine enforces\<close>

definition track_only :: "limit_view \<Rightarrow> bool" where
  "track_only X \<longleftrightarrow> Vw_Mode X = Some ''track_only''"

definition enforces ::
  "('acc, 'grp, 'ast, 'v, 'd) engine_libs \<Rightarrow> limit_view \<Rightarrow> ('acc, 'grp, 'ast, 'v) live_engine \<Rightarrow> bool" where
  "enforces L X eng \<longleftrightarrow> Eng_running eng
     \<and> (if Vw_Rates X = [] then Eng_Rate eng = None
        else \<exists>x. Eng_Rate eng = Some x \<and> rateLimitAxes (Vw_Rates X) (Eng_res eng) = Inr x)
     \<and> (if Vw_Sizes X = [] then Eng_Size eng = None
        else \<exists>x. Eng_Size eng = Some x \<and> size_axes_of L (Vw_Sizes X) (Eng_res eng) = Inr x)
     \<and> (\<forall>axis\<in>set SpotFundsPnlAxes.
          spotFundsPnlBoundsAxes (Lib_Values L) axis (Vw_Pnls X) (Eng_res eng) = Inr (Eng_Pnl eng axis))
     \<and> (Eng_TrackOnly eng \<longleftrightarrow> track_only X)"

subsubsection \<open>Growing dictionaries\<close>

text \<open>The settings a list of barriers maps to do not depend on codes added later.\<close>

definition extends :: "('acc, 'grp, 'ast) id_resolver \<Rightarrow> ('acc, 'grp, 'ast) id_resolver \<Rightarrow> bool" where
  "extends r r' \<longleftrightarrow> (\<forall>k v. resolve_account r k = Inr v \<longrightarrow> resolve_account r' k = Inr v)
     \<and> (\<forall>k v. resolve_asset r k = Inr v \<longrightarrow> resolve_asset r' k = Inr v)
     \<and> (\<forall>k v. resolve_group r k = Inr v \<longrightarrow> resolve_group r' k = Inr v)"

lemma extendsD:
  assumes "extends r r'"
  shows "resolve_account r k = Inr i \<Longrightarrow> resolve_account r' k = Inr i"
    and "resolve_asset r x = Inr j \<Longrightarrow> resolve_asset r' x = Inr j"
    and "resolve_group r g = Inr h \<Longrightarrow> resolve_group r' g = Inr h"
  using assms by (auto simp: extends_def)

lemma each_entry_mono:
  assumes "\<And>x a b. f x a = Inr b \<Longrightarrow> g x a = Inr b"
  shows "each_entry f xs a = Inr b \<Longrightarrow> each_entry g xs a = Inr b"
  by (induction xs arbitrary: a) (auto simp: res_bind_Inr dest: assms)

lemma res_bind_mono:
  "res_bind m f = Inr y \<Longrightarrow> (\<And>a. m = Inr a \<Longrightarrow> m' = Inr a) \<Longrightarrow> (\<And>a. f a = Inr y \<Longrightarrow> g a = Inr y)
    \<Longrightarrow> res_bind m' g = Inr y"
  by (cases m) auto

lemma size_axis_entry_mono:
  assumes "extends r r'" and "size_axis_entry pr D V K r l x = Inr y"
  shows "size_axis_entry pr D V K r' l x = Inr y"
  using assms(2) unfolding size_axis_entry_def
  by (cases "LimitOrderSize_Validate pr D l")
     (auto split: if_splits elim!: res_bind_mono dest: extendsD[OF assms(1)])

lemma rate_axis_entry_mono:
  assumes "extends r r'" and "rate_axis_entry r l x = Inr y"
  shows "rate_axis_entry r' l x = Inr y"
  using assms(2) unfolding rate_axis_entry_def
  by (elim res_bind_mono) (auto dest: extendsD[OF assms(1)] elim!: res_bind_mono
      split: limit_scope.splits if_splits)

lemma rateLimitAxes_mono:
  assumes "extends r r'" and "rateLimitAxes ls r = Inr x"
  shows "rateLimitAxes ls r' = Inr x"
  using assms(2) unfolding rateLimitAxes_def
  by (rule each_entry_mono[rotated]) (rule rate_axis_entry_mono[OF assms(1)])

lemma size_axes_of_mono:
  assumes "extends r r'" and "size_axes_of L ls r = Inr x"
  shows "size_axes_of L ls r' = Inr x"
  using assms(2) unfolding size_axes_of_def orderSizeAxes_def
  by (rule each_entry_mono[rotated]) (rule size_axis_entry_mono[OF assms(1)])

lemma spotFundsPnlBoundsBarrier_mono:
  assumes "extends r r'" and "spotFundsPnlBoundsBarrier V l r = Inr b"
  shows "spotFundsPnlBoundsBarrier V l r' = Inr b"
  using assms(2) unfolding spotFundsPnlBoundsBarrier_def
  by (elim res_bind_mono) (auto dest: extendsD[OF assms(1)])

lemma pnl_axis_entry_mono:
  assumes "extends r r'" and "pnl_axis_entry V axis r l x = Inr y"
  shows "pnl_axis_entry V axis r' l x = Inr y"
proof (cases "Pnl_Axis l = axis")
  case True
  show ?thesis
    using assms(2) unfolding pnl_axis_entry_def
    by (simp add: True)
       (elim res_bind_mono, auto dest: extendsD[OF assms(1)] spotFundsPnlBoundsBarrier_mono[OF assms(1)]
         elim!: res_bind_mono split: limit_scope.splits if_splits)
next
  case False
  then show ?thesis using assms(2) by (simp add: pnl_axis_entry_def)
qed

lemma spotFundsPnlBoundsAxes_mono:
  assumes "extends r r'" and "spotFundsPnlBoundsAxes V axis ls r = Inr x"
  shows "spotFundsPnlBoundsAxes V axis ls r' = Inr x"
  using assms(2) unfolding spotFundsPnlBoundsAxes_def
  by (rule each_entry_mono[rotated]) (rule pnl_axis_entry_mono[OF assms(1)])

lemma enforces_extends:
  assumes "enforces L X eng" and "extends (Eng_res eng) res"
  shows "enforces L X (eng\<lparr>Eng_res := res\<rparr>)"
  using assms(1)
  by (auto simp: enforces_def intro: rateLimitAxes_mono[OF assms(2)] size_axes_of_mono[OF assms(2)]
      spotFundsPnlBoundsAxes_mono[OF assms(2)] split: if_splits)

subsection \<open>Assertions on a node\<close>

type_synonym ('acc, 'grp, 'ast, 'v) engine_claim =
  "('acc, 'grp, 'ast, 'v) live_engine \<Rightarrow> go_error list \<Rightarrow> bool"

text \<open>The claim about the engine lapses once a failing store call took effect.\<close>

definition holding ::
  "('acc, 'grp, 'ast, 'v, 'd) engine_libs \<Rightarrow> caller \<Rightarrow> (account_id \<Rightarrow> string \<times> string) \<Rightarrow> limit_view
     \<Rightarrow> ('acc, 'grp, 'ast, 'v) engine_claim \<Rightarrow> ('acc, 'grp, 'ast, 'v) limit_node \<Rightarrow> bool" where
  "holding L c A X Q s \<longleftrightarrow> db_at L c A X (N_Db s) \<and> (N_Lost s = 0 \<longrightarrow> Q (N_Engine s) (N_Fatal s))"

definition adrift ::
  "('acc, 'grp, 'ast, 'v, 'd) engine_libs \<Rightarrow> caller \<Rightarrow> (account_id \<Rightarrow> string \<times> string) \<Rightarrow> limit_view
     \<Rightarrow> ('acc, 'grp, 'ast, 'v) limit_node \<Rightarrow> bool" where
  "adrift L c A X s \<longleftrightarrow> db_at L c A X (N_Db s) \<and> N_Lost s \<noteq> 0"

lemma adrift_holding: "adrift L c A X s \<Longrightarrow> holding L c A X Q s"
  by (simp add: adrift_def holding_def)

text \<open>An engine enforces a view unless a change of a policy other than the P\&L ones broke off on
  it; a broken P\&L change is never left standing. The live engine does so unless the node has
  called its fatal hook.\<close>

definition in_force ::
  "('acc, 'grp, 'ast, 'v, 'd) engine_libs \<Rightarrow> limit_view \<Rightarrow> ('acc, 'grp, 'ast, 'v) live_engine \<Rightarrow> bool" where
  "in_force L Y eng \<longleftrightarrow> (\<forall>p\<in>set (Eng_Landed eng). SpotFundsPnlAxisOf p = None)
     \<and> (Eng_Landed eng = [] \<longrightarrow> enforces L Y eng)"

lemma in_force_extends:
  "in_force L X eng \<Longrightarrow> extends (Eng_res eng) res \<Longrightarrow> in_force L X (eng\<lparr>Eng_res := res\<rparr>)"
  by (auto simp: in_force_def enforces_extends)

definition live ::
  "('acc, 'grp, 'ast, 'v, 'd) engine_libs \<Rightarrow> limit_view \<Rightarrow> ('acc, 'grp, 'ast, 'v) engine_claim" where
  "live L Y eng f \<longleftrightarrow> (f = [] \<longrightarrow> in_force L Y eng)"

abbreviation stands ::
  "('acc, 'grp, 'ast, 'v, 'd) engine_libs \<Rightarrow> caller \<Rightarrow> (account_id \<Rightarrow> string \<times> string) \<Rightarrow> limit_view
     \<Rightarrow> limit_view \<Rightarrow> ('acc, 'grp, 'ast, 'v) limit_node \<Rightarrow> bool" where
  "stands L c A X Y \<equiv> holding L c A X (live L Y)"

abbreviation stored ::
  "('acc, 'grp, 'ast, 'v, 'd) engine_libs \<Rightarrow> caller \<Rightarrow> (account_id \<Rightarrow> string \<times> string) \<Rightarrow> limit_view
     \<Rightarrow> ('acc, 'grp, 'ast, 'v) limit_node \<Rightarrow> bool" where
  "stored L c A X \<equiv> holding L c A X (\<lambda>_ _. True)"

text \<open>Claims that a longer dictionary and a call of the fatal hook leave standing.\<close>

definition steady :: "('acc, 'grp, 'ast, 'v) engine_claim \<Rightarrow> bool" where
  "steady Q \<longleftrightarrow> (\<forall>eng f e. Q eng f \<longrightarrow> Q eng (f @ [e]))
     \<and> (\<forall>eng f res. extends (Eng_res eng) res \<longrightarrow> Q eng f \<longrightarrow> Q (eng\<lparr>Eng_res := res\<rparr>) f)"

lemma steady_live [simp]: "steady (live L Y)"
  by (auto simp: steady_def live_def in_force_extends)

lemma steady_True [simp]: "steady (\<lambda>_ _. True)"
  by (simp add: steady_def)

lemma holding_stored: "holding L c A X Q s \<Longrightarrow> stored L c A X s"
  by (simp add: holding_def)

subsubsection \<open>Rules\<close>

lemma triple_keeps: "keeps I m \<Longrightarrow> triple I m (\<lambda>_. I) (\<lambda>_. I)"
  by (simp add: keeps_triple)

lemma triple_assume: "(\<phi> \<Longrightarrow> triple P m Q E) \<Longrightarrow> triple (\<lambda>s. \<phi> \<and> P s) m Q E"
  by (simp add: triple_def)

lemma triple_wrapping: "triple P m Q (\<lambda>_. E) \<Longrightarrow> triple P (wrapping w m) Q (\<lambda>_. E)"
  unfolding wrapping_def by (rule triple_handle) (auto intro: triple_ret triple_raise)

lemma keeps_wrapping: "keeps I m \<Longrightarrow> keeps I (wrapping w m)"
  unfolding wrapping_def by (intro keeps_handle keeps_ret keeps_raise)

lemma triple_realm:
  assumes "triple (db_at L c A X) m (\<lambda>a db. \<phi> a \<and> db_at L c A X' db) (\<lambda>_. db_at L c A X)"
  shows "triple (holding L c A X Q) (realm m) (\<lambda>a s. \<phi> a \<and> holding L c A X' Q s)
           (\<lambda>_ s. holding L c A X Q s \<or> (\<exists>a. \<phi> a) \<and> adrift L c A X' s)"
  unfolding triple_def
proof (intro allI impI)
  fix s
  assume s: "holding L c A X Q s"
  then have db: "db_at L c A X (N_Db s)" by (simp add: holding_def)
  obtain r d where m: "m (N_Db s) = (r, d)" by fastforce
  have d: "case r of Inl e \<Rightarrow> db_at L c A X d | Inr a \<Rightarrow> \<phi> a \<and> db_at L c A X' d"
    using triple_Inr[OF assms db] triple_Inl[OF assms db] m by (cases r) auto
  show "case realm m s of (Inr a, t) \<Rightarrow> \<phi> a \<and> holding L c A X' Q t
      | (Inl e, t) \<Rightarrow> holding L c A X Q t \<or> (\<exists>a. \<phi> a) \<and> adrift L c A X' t"
    using s d m
    by (cases r) (auto simp: realm_def holding_def adrift_def split: list.splits store_fault.splits)
qed

lemma triple_read:
  assumes "\<And>db. db_at L c A X db \<Longrightarrow> \<phi> (f db)"
  shows "triple (holding L c A X Q) (realm (gets f)) (\<lambda>a s. \<phi> a \<and> holding L c A X Q s)
           (\<lambda>_. holding L c A X Q)"
  by (rule triple_conseq[OF triple_realm[where \<phi> = \<phi> and X' = X]])
     (auto intro: triple_gets assms adrift_holding)

lemma keeps_realm: "keeps (db_at L c A X) m \<Longrightarrow> keeps (holding L c A X Q) (realm m)"
  unfolding keeps_triple
  by (rule triple_conseq[OF triple_realm[where \<phi> = "\<lambda>_. True" and X' = X]])
     (auto intro: adrift_holding)

lemma keeps_realm_gets: "keeps (holding L c A X Q) (realm (gets f))"
  by (rule keeps_realm) simp

lemma keeps_fatal: "steady Q \<Longrightarrow> keeps (holding L c A X Q) (fatal e)"
  unfolding fatal_def
  by (intro keeps_andthen keeps_modify keeps_raise) (simp add: holding_def steady_def)

lemma triple_fatal: "triple (stored L c A X) (fatal e) Q (\<lambda>_. stands L c A X Z)"
  by (auto simp: triple_def fatal_def op_defs holding_def live_def)

lemma keeps_next_answer: "keeps (holding L c A X Q) next_answer"
  by (auto simp: keeps_def next_answer_def holding_def split: list.splits)

lemma keeps_log:
  "keeps (holding L c A X Q) (appendAudit e)"
  "keeps (holding L c A X Q) (node_audit c' action acc asset)"
  "steady Q \<Longrightarrow> keeps (holding L c A X Q) (audit_change c' action acc)"
proof -
  have row: "keeps (holding L c A X Q) (appendAudit e)" for e
    unfolding keeps_def
  proof (intro allI impI)
    fix s :: "('a, 'b, 'c, 'd) limit_node"
    assume "holding L c A X Q s"
    moreover obtain r t where t: "realm (ret ()) s = (r, t)" by fastforce
    ultimately have "holding L c A X Q t" using keepsD[OF keeps_realm[OF keeps_ret]] by (metis snd_conv)
    then show "holding L c A X Q (snd (appendAudit e s))" by (simp add: appendAudit_def t holding_def)
  qed
  show "keeps (holding L c A X Q) (appendAudit e)" by (rule row)
  have log: "keeps (holding L c A X Q) (node_audit c' action acc asset)" for asset
    unfolding node_audit_def by (intro keeps_rules row)
  then show "keeps (holding L c A X Q) (node_audit c' action acc asset)" .
  show "steady Q \<Longrightarrow> keeps (holding L c A X Q) (audit_change c' action acc)"
    unfolding audit_change_def by (intro keeps_rules keeps_fatal log)
qed

lemma keeps_begin: "keeps I beginLivePolicyConfiguration"
  unfolding beginLivePolicyConfiguration_def by (intro keeps_reads keeps_lift_out)

lemma keeps_mirror: "steady Q \<Longrightarrow> keeps (holding L c A X Q) (mirror_blocks pr seen bs)"
proof (induction bs arbitrary: seen)
  case Nil
  then show ?case by simp
next
  case (Cons b bs)
  then show ?case
    by (auto simp: GetAccount_def Let_def intro!: keeps_rules keeps_fatal keeps_realm_gets keeps_realm
        SetAccountBlock_at keeps_log)
qed

end
