(* ===== verification/LimitRuns.thy ===== *)
theory LimitRuns
  imports LimitTriples
begin

section \<open>Builds and live changes keep the engine in step\<close>

text \<open>
  The triples of the node's own building blocks: a snapshot shows the view, a build from it
  enforces it, a rebuild puts a live engine in step with the store, and \<open>applyPolicyChangeLocked\<close>
  and \<open>replaceEngineForPolicyLifecycle\<close> end with store and engine in step, at the changed view or
  at the one before it, or with the fatal hook called.
\<close>

lemma triple_pre: "triple P' m Q E \<Longrightarrow> (\<And>s. P s \<Longrightarrow> P' s) \<Longrightarrow> triple P m Q E"
  by (erule triple_conseq) auto

lemma triple_then:
  assumes "triple P m (\<lambda>a s. \<phi> a \<and> R s) (\<lambda>_. P)" and "\<And>s. P s \<Longrightarrow> E s"
    and "\<And>a. \<phi> a \<Longrightarrow> triple R (f a) Q (\<lambda>_. E)"
  shows "triple P (andthen m f) Q (\<lambda>_. E)"
proof (rule triple_andthen)
  show "triple P m (\<lambda>a s. \<phi> a \<and> R s) (\<lambda>_. E)"
    by (rule triple_conseq[OF assms(1)]) (auto intro: assms(2))
  show "triple (\<lambda>s. \<phi> a \<and> R s) (f a) Q (\<lambda>_. E)" for a by (rule triple_assume) (rule assms(3))
qed

lemma triple_then_keeps:
  assumes "keeps P m" and "\<And>s. P s \<Longrightarrow> E s" and "\<And>a. triple P (f a) Q (\<lambda>_. E)"
  shows "triple P (andthen m f) Q (\<lambda>_. E)"
  by (rule triple_then[where \<phi> = "\<lambda>_. True"]) (use assms in \<open>simp_all add: keeps_triple\<close>)

lemma triple_wrapping_then:
  assumes "triple P m (\<lambda>a s. \<phi> a \<and> R s) (\<lambda>_. P)" and "\<And>s. P s \<Longrightarrow> E s"
    and "\<And>a. \<phi> a \<Longrightarrow> triple R (f a) Q (\<lambda>_. E)"
  shows "triple P (andthen (wrapping w m) f) Q (\<lambda>_. E)"
  by (rule triple_then[OF triple_wrapping[OF assms(1)] assms(2,3)])

subsection \<open>Reads\<close>

lemma read_rates:
  "triple (holding L c A X Q) (realm (ListRateLimits []))
     (\<lambda>ls s. ls = Vw_Rates X \<and> holding L c A X Q s) (\<lambda>_. holding L c A X Q)"
  unfolding ListRateLimits_def
  by (rule triple_read) (auto simp: db_at_def barrier_table.listing_def[OF rate_table.barrier_table_axioms])

lemma read_sizes:
  "triple (holding L c A X Q) (realm (ListOrderSizeLimits []))
     (\<lambda>ls s. ls = Vw_Sizes X \<and> holding L c A X Q s) (\<lambda>_. holding L c A X Q)"
  unfolding ListOrderSizeLimits_def
  by (rule triple_read) (auto simp: db_at_def barrier_table.listing_def[OF size_table.barrier_table_axioms])

lemma read_pnls:
  "triple (holding L c A X Q) (realm (ListSpotFundsPnlBoundsLimits []))
     (\<lambda>ls s. ls = Vw_Pnls X \<and> holding L c A X Q s) (\<lambda>_. holding L c A X Q)"
  unfolding ListSpotFundsPnlBoundsLimits_def
  by (rule triple_read) (auto simp: db_at_def barrier_table.listing_def[OF pnl_table.barrier_table_axioms])

lemma read_mode:
  "triple (holding L c A X Q) (realm (GetSetting SettingKeySpotFundsLimitMode))
     (\<lambda>m s. m = Vw_Mode X \<and> holding L c A X Q s) (\<lambda>_. holding L c A X Q)"
  unfolding GetSetting_def by (rule triple_read) (auto simp: db_at_def)

text \<open>The mode in force: an unset one is the enforcing mode.\<close>

definition mode_in_force :: "limit_view \<Rightarrow> limit_mode option" where
  "mode_in_force X = (case Vw_Mode X of
       None \<Rightarrow> Some SpotFundsLimitModeEnforce
     | Some v \<Rightarrow> (case ParseSpotFundsLimitMode v of Inl _ \<Rightarrow> None | Inr m \<Rightarrow> Some m))"

lemma read_stored_mode:
  "triple (holding L c A X Q) storedSpotFundsLimitMode
     (\<lambda>m s. mode_in_force X = Some m \<and> holding L c A X Q s) (\<lambda>_. holding L c A X Q)"
  unfolding storedSpotFundsLimitMode_def
proof (rule triple_andthen)
  show "triple (holding L c A X Q) storedSpotFundsLimitModeRow
     (\<lambda>r s. mode_in_force X = Some (fst r) \<and> holding L c A X Q s) (\<lambda>_. holding L c A X Q)"
    unfolding storedSpotFundsLimitModeRow_def
    by (rule triple_then[OF read_mode])
       (auto simp: mode_in_force_def intro: triple_ret triple_raise split: option.splits sum.splits)
qed (auto intro: triple_ret)

lemma track_only_in_force:
  "mode_in_force X = Some m \<Longrightarrow> m = SpotFundsLimitModeTrackOnly \<longleftrightarrow> track_only X"
  by (auto simp: mode_in_force_def track_only_def ParseSpotFundsLimitMode_def limit_mode_of_def Let_def
      split: option.splits sum.splits if_splits)

subsection \<open>Builds\<close>

definition shows_view :: "limit_view \<Rightarrow> engine_snapshot \<Rightarrow> bool" where
  "shows_view X snap \<longleftrightarrow> Es_RateLimits snap = Vw_Rates X \<and> Es_OrderSizeLimits snap = Vw_Sizes X
     \<and> Es_SpotFundsPnlBoundsLimits snap = Vw_Pnls X \<and> (Es_SpotFundsTrackOnly snap \<longleftrightarrow> track_only X)"

lemma loadSnapshot_shows:
  "triple (holding L c A X Q) loadSnapshot (\<lambda>snap s. shows_view X snap \<and> holding L c A X Q s)
     (\<lambda>_. holding L c A X Q)"
  unfolding loadSnapshot_def
  apply (rule triple_then_keeps, simp add: keeps_wrapping keeps_realm_gets ListAssets_def)
   apply assumption
  apply (rule triple_then_keeps, simp add: keeps_wrapping keeps_realm_gets ListAccounts_def)
   apply assumption
  apply (rule triple_wrapping_then[OF read_rates], assumption)
  apply (rule triple_wrapping_then[OF read_sizes], assumption)
  apply (rule triple_wrapping_then[OF read_pnls], assumption)
  apply (rule triple_then_keeps, simp add: keeps_wrapping keeps_realm_gets ListGroups_def)
   apply assumption
  apply (rule triple_then_keeps, simp add: keeps_wrapping keeps_realm_gets GetGroup_def)
   apply assumption
  apply (rule triple_then_keeps, simp add: keeps_wrapping keeps_realm)
   apply assumption
  apply (rule triple_wrapping_then[OF read_stored_mode], assumption)
  apply (rule triple_ret)
  apply (simp add: shows_view_def track_only_in_force)
  done

text \<open>An axis without a bound has no settings, one with a bound those it maps to.\<close>

lemma no_axis_entries:
  "\<not> list_ex (\<lambda>l. Pnl_Axis l = axis) ls \<Longrightarrow> each_entry (pnl_axis_entry V axis res) ls x = Inr x"
  by (induction ls) (auto simp: pnl_axis_entry_def)

lemma configureStoredSpotFundsPnlAxes_Inr:
  assumes "configureStoredSpotFundsPnlAxes V res ls axes m = Inr m'" and "distinct axes"
    and "\<And>a. a \<in> set axes \<Longrightarrow> m a = no_pnl_axes"
  shows "a \<in> set axes \<Longrightarrow> spotFundsPnlBoundsAxes V a ls res = Inr (m' a)"
    and "a \<notin> set axes \<Longrightarrow> m' a = m a"
  using assms
proof (induction axes arbitrary: m)
  case (Cons axis axes)
  {
    case 1
    then show ?case
      using Cons.IH no_axis_entries[of axis ls V res no_pnl_axes]
      by (cases "a = axis")
         (fastforce simp: res_bind_Inr spotFundsPnlBoundsAxes_def split: if_split_asm)+
  next
    case 2
    then show ?case using Cons.IH(2) by (fastforce simp: res_bind_Inr split: if_split_asm)
  }
qed simp_all

lemma buildEngine_enforces:
  assumes "buildEngine L answer n snap = Inr eng" and "shows_view X snap"
  shows "enforces L X eng"
proof -
  obtain res rate cap pnl where
    rate: "(if Es_RateLimits snap \<noteq> []
      then res_bind (rateLimitReady (Es_RateLimits snap) res) (\<lambda>x. Inr (Some x)) else Inr None) = Inr rate"
    and cap: "(if Es_OrderSizeLimits snap \<noteq> []
      then res_bind (size_axes_of L (Es_OrderSizeLimits snap) res) (\<lambda>x. Inr (Some x)) else Inr None) = Inr cap"
    and pnl0: "configureStoredSpotFundsPnlAxes (Lib_Values L) res (Es_SpotFundsPnlBoundsLimits snap)
      SpotFundsPnlAxes (\<lambda>_. no_pnl_axes) = Inr pnl"
    and eng: "Eng_res eng = res" "Eng_running eng" "Eng_Rate eng = rate" "Eng_Size eng = cap"
      "Eng_Pnl eng = pnl" "Eng_TrackOnly eng \<longleftrightarrow> Es_SpotFundsTrackOnly snap"
  proof (cases answer)
    case (Accepts r)
    then show ?thesis
      using assms(1) that by (cases r) (auto simp: buildEngine_def res_bind_Inr)
  qed (use assms(1) in \<open>auto simp: buildEngine_def res_bind_Inr\<close>)
  note view = assms(2)[unfolded shows_view_def]
  have pnl: "configureStoredSpotFundsPnlAxes (Lib_Values L) res (Vw_Pnls X)
      SpotFundsPnlAxes (\<lambda>_. no_pnl_axes) = Inr pnl"
    using pnl0 view by simp
  have "spotFundsPnlBoundsAxes (Lib_Values L) axis (Vw_Pnls X) res = Inr (pnl axis)"
    if "axis \<in> set SpotFundsPnlAxes" for axis
    using configureStoredSpotFundsPnlAxes_Inr(1)[OF pnl _ _ that] by (simp add: SpotFundsPnlAxes_def)
  then show ?thesis
    using rate cap eng view
    by (auto simp: enforces_def rateLimitAxes_def rateLimitReady_def res_bind_Inr split: if_splits)
qed

lemma buildEngine_in_force:
  assumes "buildEngine L answer n snap = Inr eng" and "shows_view X snap"
  shows "in_force L X eng"
proof -
  have "Eng_Landed eng = []"
  proof (cases answer)
    case (Accepts r)
    then show ?thesis using assms(1) by (cases r) (auto simp: buildEngine_def res_bind_Inr)
  qed (use assms(1) in \<open>auto simp: buildEngine_def res_bind_Inr\<close>)
  then show ?thesis using buildEngine_enforces[OF assms] by (simp add: in_force_def)
qed

lemma build_live:
  "triple (holding L c A X Q) (build L snap)
     (\<lambda>eng s. (shows_view Y snap \<longrightarrow> in_force L Y eng) \<and> holding L c A X Q s) (\<lambda>_. holding L c A X Q)"
  unfolding build_def
proof (rule triple_then_keeps[OF keeps_next_answer])
  fix answer
  show "triple (holding L c A X Q)
     (andthen (modify (\<lambda>s. s\<lparr>N_Builds := Suc (N_Builds s)\<rparr>)) (\<lambda>_. reads (\<lambda>s. lift_res (buildEngine L answer (N_Builds s) snap))))
     (\<lambda>eng s. (shows_view Y snap \<longrightarrow> in_force L Y eng) \<and> holding L c A X Q s) (\<lambda>_. holding L c A X Q)"
    by (auto simp: triple_def op_defs holding_def buildEngine_in_force split: sum.splits)
qed

lemma swapEngine_live:
  assumes "in_force L Y eng"
  shows "triple (stored L c A X) (swapEngine eng) (\<lambda>_. stands L c A X Y) E"
  unfolding swapEngine_def by (rule triple_modify) (simp add: holding_def live_def assms)

lemma swapEngine_stands:
  assumes "in_force L Y eng"
  shows "triple (stands L c A X Z) (swapEngine eng) (\<lambda>_. stands L c A X Y) E"
  unfolding swapEngine_def by (rule triple_modify) (simp add: holding_def live_def assms)

lemma mirrorSeed_keeps: "steady Q \<Longrightarrow> keeps (holding L c A X Q) (mirrorSeedAccountBlocks pr eng)"
  by (simp add: mirrorSeedAccountBlocks_def mirrorPolicyConfigurationBlocks_def keeps_mirror)

text \<open>A rebuild that fails may leave the old engine or the new one.\<close>

lemma rebuild_stored:
  "triple (stored L c A X) (rebuildEngineFromStore L) (\<lambda>_. stands L c A X X) (\<lambda>_. stored L c A X)"
  unfolding rebuildEngineFromStore_def
  apply (rule triple_wrapping_then[OF loadSnapshot_shows], assumption)
  apply (rule triple_wrapping_then[OF build_live[where Y = X]], assumption)
  apply (rule triple_andthen, rule swapEngine_live[where Y = X], simp)
  apply (rule triple_conseq[OF triple_keeps[OF keeps_wrapping[OF mirrorSeed_keeps[where Q = "live L X"]]]])
  apply (auto intro: holding_stored)
  done

lemma rebuild_stands:
  "keeps (stands L c A X X) (rebuildEngineFromStore L)"
  unfolding rebuildEngineFromStore_def keeps_triple
  apply (rule triple_wrapping_then[OF loadSnapshot_shows], assumption)
  apply (rule triple_wrapping_then[OF build_live[where Y = X]], assumption)
  apply (rule triple_andthen, rule swapEngine_stands[where Y = X], simp)
  apply (rule triple_keeps[OF keeps_wrapping[OF mirrorSeed_keeps]])
  apply simp
  done

subsection \<open>A live change of one policy\<close>

text \<open>Two views that differ in the barriers of one policy only.\<close>

definition same_but :: "limit_policy \<Rightarrow> limit_view \<Rightarrow> limit_view \<Rightarrow> bool" where
  "same_but p X Y \<longleftrightarrow> (p \<noteq> PolicyRateLimit \<longrightarrow> Vw_Rates X = Vw_Rates Y)
     \<and> (p \<noteq> PolicyOrderSizeLimit \<longrightarrow> Vw_Sizes X = Vw_Sizes Y)
     \<and> (\<forall>axis\<in>set SpotFundsPnlAxes. AxisPolicy axis \<noteq> Some p
          \<longrightarrow> filter (\<lambda>l. Pnl_Axis l = axis) (Vw_Pnls X) = filter (\<lambda>l. Pnl_Axis l = axis) (Vw_Pnls Y))
     \<and> Vw_Mode X = Vw_Mode Y"

lemma spotFundsPnlBoundsAxes_filter:
  "spotFundsPnlBoundsAxes V axis (filter (\<lambda>l. Pnl_Axis l = axis) ls) r = spotFundsPnlBoundsAxes V axis ls r"
proof -
  have "each_entry (pnl_axis_entry V axis r) (filter (\<lambda>l. Pnl_Axis l = axis) ls) x
      = each_entry (pnl_axis_entry V axis r) ls x" for x
    by (induction ls arbitrary: x) (auto simp: pnl_axis_entry_def res_bind_def split: sum.splits)
  then show ?thesis by (simp add: spotFundsPnlBoundsAxes_def)
qed

lemma same_but_axes:
  assumes "same_but p X Y" and "axis \<in> set SpotFundsPnlAxes" and "AxisPolicy axis \<noteq> Some p"
  shows "spotFundsPnlBoundsAxes V axis (Vw_Pnls X) r = spotFundsPnlBoundsAxes V axis (Vw_Pnls Y) r"
proof -
  have "filter (\<lambda>l. Pnl_Axis l = axis) (Vw_Pnls X) = filter (\<lambda>l. Pnl_Axis l = axis) (Vw_Pnls Y)"
    using assms by (simp add: same_but_def)
  then show ?thesis using spotFundsPnlBoundsAxes_filter by metis
qed

definition limit_part :: "limit_policy \<Rightarrow> limit_view \<Rightarrow> limit_set" where
  "limit_part p X = \<lparr> Set_RateLimits = (if p = PolicyRateLimit then Vw_Rates X else []),
     Set_OrderSizeLimits = (if p = PolicyOrderSizeLimit then Vw_Sizes X else []),
     Set_SpotFundsPnlBoundsLimits = (if SpotFundsPnlAxisOf p \<noteq> None then Vw_Pnls X else []) \<rparr>"

lemma no_axis_policy [simp]:
  "SpotFundsPnlAxisOf PolicyRateLimit = None" "SpotFundsPnlAxisOf PolicyOrderSizeLimit = None"
  "AxisPolicy axis \<noteq> Some PolicyRateLimit" "AxisPolicy axis \<noteq> Some PolicyOrderSizeLimit"
  by (cases axis; simp add: SpotFundsPnlAxisOf_def SpotFundsPnlAxes_def)+

lemma policyLimitSet_part:
  "triple (holding L c A X Q) (policyLimitSet p) (\<lambda>ls s. ls = limit_part p X \<and> holding L c A X Q s)
     (\<lambda>_. holding L c A X Q)"
  unfolding policyLimitSet_def
  by (intro triple_if triple_wrapping_then[OF read_rates] triple_wrapping_then[OF read_sizes]
      triple_wrapping_then[OF read_pnls] triple_ret triple_raise)
     (auto simp: limit_part_def)

lemma configure_call_Inr:
  "configure_call L p answer w change eng = (Inr bs, eng') \<longleftrightarrow> answer = Accepts bs \<and> eng' = change eng"
  by (cases answer) (auto simp: configure_call_def op_defs)

lemma configure_call_Inl:
  "configure_call L p answer w change eng = (Inl e, eng')
    \<Longrightarrow> eng' = eng \<or> Eng_Landed eng' = Eng_Landed eng @ [p] \<and> (\<exists>m. e = Wrap w (Text m))"
  by (cases answer) (auto simp: configure_call_def op_defs)

text \<open>The clauses of \<open>enforces\<close>, one for each policy.\<close>

definition rates_live :: "limit_view \<Rightarrow> ('acc, 'grp, 'ast, 'v) live_engine \<Rightarrow> bool" where
  "rates_live X eng \<longleftrightarrow> (if Vw_Rates X = [] then Eng_Rate eng = None
     else \<exists>x. Eng_Rate eng = Some x \<and> rateLimitAxes (Vw_Rates X) (Eng_res eng) = Inr x)"

definition sizes_live ::
  "('acc, 'grp, 'ast, 'v, 'd) engine_libs \<Rightarrow> limit_view \<Rightarrow> ('acc, 'grp, 'ast, 'v) live_engine \<Rightarrow> bool" where
  "sizes_live L X eng \<longleftrightarrow> (if Vw_Sizes X = [] then Eng_Size eng = None
     else \<exists>x. Eng_Size eng = Some x \<and> size_axes_of L (Vw_Sizes X) (Eng_res eng) = Inr x)"

definition axis_live ::
  "('acc, 'grp, 'ast, 'v, 'd) engine_libs \<Rightarrow> limit_view \<Rightarrow> ('acc, 'grp, 'ast, 'v) live_engine \<Rightarrow> pnl_axis \<Rightarrow> bool" where
  "axis_live L X eng axis \<longleftrightarrow>
     spotFundsPnlBoundsAxes (Lib_Values L) axis (Vw_Pnls X) (Eng_res eng) = Inr (Eng_Pnl eng axis)"

lemma enforces_clauses:
  "enforces L X eng \<longleftrightarrow> Eng_running eng \<and> rates_live X eng \<and> sizes_live L X eng
     \<and> (\<forall>axis\<in>set SpotFundsPnlAxes. axis_live L X eng axis) \<and> (Eng_TrackOnly eng \<longleftrightarrow> track_only X)"
  by (simp only: enforces_def rates_live_def sizes_live_def axis_live_def)

lemma same_but_clauses:
  assumes "same_but p X Y"
  shows "p \<noteq> PolicyRateLimit \<Longrightarrow> rates_live X eng = rates_live Y eng"
    and "p \<noteq> PolicyOrderSizeLimit \<Longrightarrow> sizes_live L X eng = sizes_live L Y eng"
    and "axis \<in> set SpotFundsPnlAxes \<Longrightarrow> AxisPolicy axis \<noteq> Some p \<Longrightarrow> axis_live L X eng axis = axis_live L Y eng axis"
    and "track_only X = track_only Y"
proof -
  show "AxisPolicy axis \<noteq> Some p \<Longrightarrow> axis \<in> set SpotFundsPnlAxes \<Longrightarrow> axis_live L X eng axis = axis_live L Y eng axis"
    by (simp add: axis_live_def same_but_axes[OF assms])
qed (use assms in \<open>simp_all add: rates_live_def sizes_live_def track_only_def same_but_def\<close>)

lemma configure_rate_enforces:
  assumes "configureRateLimitLocked L answer (Vw_Rates X) eng = (Inr u, eng')" and "Vw_Rates X \<noteq> []"
    and "enforces L Y eng" and "same_but PolicyRateLimit X Y"
  shows "enforces L X eng'"
proof -
  obtain x where x: "rateLimitAxes (Vw_Rates X) (Eng_res eng) = Inr x" "eng' = eng\<lparr>Eng_Rate := Some x\<rparr>"
    using assms(1) by (auto simp: configureRateLimitLocked_def reads_def andthen_Inr configure_call_Inr)
  have "rates_live X eng'" using x assms(2) by (simp add: rates_live_def)
  moreover have "sizes_live L Z eng' = sizes_live L Z eng" "axis_live L Z eng' axis = axis_live L Z eng axis" for Z axis
    using x(2) by (simp_all add: sizes_live_def axis_live_def)
  ultimately show ?thesis
    using assms(3) x(2) by (simp add: enforces_clauses same_but_clauses[OF assms(4)])
qed

lemma configure_size_enforces:
  assumes "configureOrderSizeLocked L answer (Vw_Sizes X) eng = (Inr u, eng')" and "Vw_Sizes X \<noteq> []"
    and "enforces L Y eng" and "same_but PolicyOrderSizeLimit X Y"
  shows "enforces L X eng'"
proof -
  obtain x where x: "size_axes_of L (Vw_Sizes X) (Eng_res eng) = Inr x" "eng' = eng\<lparr>Eng_Size := Some x\<rparr>"
    using assms(1) by (auto simp: configureOrderSizeLocked_def reads_def andthen_Inr configure_call_Inr)
  have "sizes_live L X eng'" using x assms(2) by (simp add: sizes_live_def)
  moreover have "rates_live Z eng' = rates_live Z eng" "axis_live L Z eng' axis = axis_live L Z eng axis" for Z axis
    using x(2) by (simp_all add: rates_live_def axis_live_def)
  ultimately show ?thesis
    using assms(3) x(2) by (simp add: enforces_clauses same_but_clauses[OF assms(4)])
qed

lemma configure_pnl_enforces:
  assumes "configureSpotFundsPnlBounds L answer a (Vw_Pnls X) eng = (Inr bs, eng')"
    and "AxisPolicy a = Some p" and "enforces L Y eng" and "same_but p X Y"
  shows "enforces L X eng'"
proof -
  obtain axes where axes: "spotFundsPnlBoundsAxes (Lib_Values L) a (Vw_Pnls X) (Eng_res eng) = Inr axes"
      "eng' = eng\<lparr>Eng_Pnl := (Eng_Pnl eng)(a := axes)\<rparr>"
  proof -
    obtain axes r where "spotFundsPnlBoundsAxes (Lib_Values L) a (Vw_Pnls X) (Eng_res eng) = Inr axes"
        "configure_call L p answer ''engine: configure'' (\<lambda>e. e\<lparr>Eng_Pnl := (Eng_Pnl e)(a := axes)\<rparr>) eng
          = (Inr r, eng')"
      using assms(1,2) by (auto simp: configureSpotFundsPnlBounds_def reads_def andthen_Inr)
        (auto simp: raise_def ret_def split: sum.splits)
    then show ?thesis using that by (simp add: configure_call_Inr)
  qed
  have others: "AxisPolicy axis \<noteq> Some p" if "axis \<noteq> a" for axis
    using that assms(2) by (metis SpotFundsPnlAxisOf_iff option.inject)
  have "axis_live L X eng' axis" if "axis \<in> set SpotFundsPnlAxes" for axis
  proof (cases "axis = a")
    case True
    then show ?thesis using axes by (simp add: axis_live_def)
  next
    case False
    then show ?thesis
      using same_but_clauses(3)[OF assms(4) that others[OF False], of L eng] assms(3) that axes(2)
      by (simp add: enforces_clauses axis_live_def)
  qed
  moreover have "p \<noteq> PolicyRateLimit" "p \<noteq> PolicyOrderSizeLimit" using assms(2) by auto
  moreover have "rates_live Z eng' = rates_live Z eng" "sizes_live L Z eng' = sizes_live L Z eng" for Z
    using axes(2) by (simp_all add: rates_live_def sizes_live_def)
  ultimately show ?thesis
    using assms(3) axes(2) by (simp add: enforces_clauses same_but_clauses[OF assms(4)])
qed

lemma andthen_ret_Inr [simp]: "andthen m (\<lambda>_. ret b) s = (Inr c, t) \<longleftrightarrow> (\<exists>a. m s = (Inr a, t)) \<and> c = b"
  by (auto simp: andthen_Inr)

lemma ConfigurePolicy_enforces:
  assumes "ConfigurePolicy L answer p (limit_part p X) eng = (Inr bs, eng')"
    and "enforces L Y eng" and "same_but p X Y"
  shows "enforces L X eng'"
proof -
  have step: "answer \<noteq> Cancelled" "Eng_running eng" "policy_registered p eng"
      "SpotFundsPnlAxisOf p = None \<longrightarrow> barrierCount p (limit_part p X) \<noteq> 0"
    using assms(1) by (auto simp: ConfigurePolicy_def reads_def split: if_split_asm)
  consider "p = PolicyRateLimit" | "p = PolicyOrderSizeLimit"
    | a where "SpotFundsPnlAxisOf p = Some a" "p \<noteq> PolicyRateLimit" "p \<noteq> PolicyOrderSizeLimit"
    using step by (cases "SpotFundsPnlAxisOf p") (auto simp: barrierCount_def limit_part_def split: limit_policy.splits)
  then show ?thesis
  proof cases
    case 1
    then have "configureRateLimitLocked L answer (Vw_Rates X) eng = (Inr (), eng')" "Vw_Rates X \<noteq> []"
      using assms(1) step by (auto simp: ConfigurePolicy_def reads_def limit_part_def barrierCount_def)
    then show ?thesis using configure_rate_enforces assms(2,3) unfolding 1 by blast
  next
    case 2
    then have "configureOrderSizeLocked L answer (Vw_Sizes X) eng = (Inr (), eng')" "Vw_Sizes X \<noteq> []"
      using assms(1) step by (auto simp: ConfigurePolicy_def reads_def limit_part_def barrierCount_def)
    then show ?thesis using configure_size_enforces assms(2,3) unfolding 2 by blast
  next
    case 3
    then have "configureSpotFundsPnlBounds L answer a (Vw_Pnls X) eng = (Inr bs, eng')"
      using assms(1) step by (auto simp: ConfigurePolicy_def reads_def limit_part_def)
    then show ?thesis using configure_pnl_enforces assms(2,3) 3(1) by (metis SpotFundsPnlAxisOf_iff)
  qed
qed

text \<open>A change that fails leaves the handle alone or the mark of a broken change.\<close>

definition broken :: "limit_policy \<Rightarrow> ('acc, 'grp, 'ast, 'v) live_engine \<Rightarrow> ('acc, 'grp, 'ast, 'v) live_engine \<Rightarrow> bool" where
  "broken p eng eng' \<longleftrightarrow> eng' = eng \<or> Eng_Landed eng' = Eng_Landed eng @ [p]"

lemma broken_in_force:
  "broken p eng eng' \<Longrightarrow> SpotFundsPnlAxisOf p = None \<Longrightarrow> in_force L Y eng \<Longrightarrow> in_force L Y eng'"
  by (auto simp: broken_def in_force_def)

lemma configure_locked_Inl:
  "configureRateLimitLocked L answer ls eng = (Inl e, eng') \<Longrightarrow> broken PolicyRateLimit eng eng'"
  "configureOrderSizeLocked L answer zs eng = (Inl e, eng') \<Longrightarrow> broken PolicyOrderSizeLimit eng eng'"
  unfolding broken_def by (auto simp: configureRateLimitLocked_def configureOrderSizeLocked_def reads_def andthen_Inl
      lift_res_def ret_def dest: configure_call_Inl)

lemma ConfigurePolicy_landed:
  assumes "ConfigurePolicy L answer p ls eng = (Inr bs, eng')"
  shows "Eng_Landed eng' = Eng_Landed eng"
  using assms
  apply (auto simp: ConfigurePolicy_def configureRateLimitLocked_def configureOrderSizeLocked_def
      configureSpotFundsPnlBounds_def reads_def andthen_Inr configure_call_Inr raise_def ret_def
      split: if_split_asm option.split_asm)
  subgoal for axis policy axes blocks by (cases blocks) auto
  done

lemma ConfigurePolicy_in_force:
  assumes "ConfigurePolicy L answer p (limit_part p X) eng = (Inr bs, eng')"
    and "in_force L Y eng" and "same_but p X Y"
  shows "in_force L X eng'"
  using assms(2) ConfigurePolicy_landed[OF assms(1)] ConfigurePolicy_enforces[OF assms(1) _ assms(3)]
  by (simp add: in_force_def)

lemma ConfigurePolicy_Inl:
  assumes "ConfigurePolicy L answer p ls eng = (Inl e, eng')"
    and "SpotFundsPnlAxisOf p = None \<or> wraps e ErrNotImplemented"
  shows "in_force L Y eng \<Longrightarrow> in_force L Y eng'"
proof (cases "SpotFundsPnlAxisOf p")
  case None
  have "broken p eng eng'"
    using assms(1) None
    by (auto simp: ConfigurePolicy_def reads_def raise_def andthen_Inl ret_def broken_def split: if_split_asm
        dest!: configure_locked_Inl)
  then show "in_force L Y eng \<Longrightarrow> in_force L Y eng'" using None broken_in_force by blast
next
  case (Some a)
  have w: "wraps e ErrNotImplemented" using assms(2) Some by simp
  have "eng' = eng"
    using assms(1) w Some
    apply (auto simp: ConfigurePolicy_def reads_def raise_def andthen_Inl andthen_Inr ret_def lift_res_def
        configureSpotFundsPnlBounds_def configure_call_Inr
        split: if_split_asm option.split_asm sum.split_asm dest!: configure_call_Inl)
    subgoal for axes policy blocks by (cases blocks) auto
    done
  then show "in_force L Y eng \<Longrightarrow> in_force L Y eng'" by simp
qed

lemma reconfigure_triple:
  assumes "same_but p X Y"
  shows "triple (stands L c A X Y) (reconfigurePolicy L p) (\<lambda>_. stands L c A X X)
    (\<lambda>e s. stored L c A X s
       \<and> (SpotFundsPnlAxisOf p = None \<or> wraps e ErrNotImplemented \<longrightarrow> stands L c A X Y s))"
  unfolding reconfigurePolicy_def
proof (rule triple_andthen)
  let ?E = "\<lambda>e s. stored L c A X s
       \<and> (SpotFundsPnlAxisOf p = None \<or> wraps e ErrNotImplemented \<longrightarrow> stands L c A X Y s)"
  show "triple (stands L c A X Y) (policyLimitSet p)
     (\<lambda>ls s. ls = limit_part p X \<and> stands L c A X Y s) ?E"
    by (rule triple_conseq[OF policyLimitSet_part]) (auto intro: holding_stored)
  fix ls
  show "triple (\<lambda>s. ls = limit_part p X \<and> stands L c A X Y s)
     (andthen next_answer (\<lambda>answer. engine_step (ConfigurePolicy L answer p ls))) (\<lambda>_. stands L c A X X) ?E"
  proof (rule triple_assume, rule triple_andthen)
    show "triple (stands L c A X Y) next_answer (\<lambda>_. stands L c A X Y) ?E"
      by (rule triple_conseq[OF triple_keeps[OF keeps_next_answer]]) (auto intro: holding_stored)
    fix answer
    assume ls: "ls = limit_part p X"
    show "triple (stands L c A X Y) (engine_step (ConfigurePolicy L answer p ls)) (\<lambda>_. stands L c A X X) ?E"
      using ConfigurePolicy_in_force[OF _ _ assms] ConfigurePolicy_Inl unfolding ls
      by (fastforce simp: triple_def engine_step_def holding_def live_def split: prod.splits sum.splits)
  qed
qed

subsection \<open>The two ways to apply a change\<close>

text \<open>What a commit promises: whatever the engine holds, a success shows the new view, a failure
  the old one, or the new one when it was lost on the way. A revert is a commit to the view of
  before.\<close>

definition commits ::
  "('acc, 'grp, 'ast, 'v, 'd) engine_libs \<Rightarrow> caller \<Rightarrow> (account_id \<Rightarrow> string \<times> string)
     \<Rightarrow> limit_view \<Rightarrow> limit_view \<Rightarrow> bool \<Rightarrow> ('acc, 'grp, 'ast, 'v, unit) node_op \<Rightarrow> bool" where
  "commits L c A X Y \<phi> commit \<longleftrightarrow>
     (\<forall>Q. triple (holding L c A X Q) commit (\<lambda>_ s. \<phi> \<and> holding L c A Y Q s)
        (\<lambda>_ s. holding L c A X Q s \<or> \<phi> \<and> adrift L c A Y s))"

abbreviation reverts ::
  "('acc, 'grp, 'ast, 'v, 'd) engine_libs \<Rightarrow> caller \<Rightarrow> (account_id \<Rightarrow> string \<times> string)
     \<Rightarrow> limit_view \<Rightarrow> limit_view \<Rightarrow> ('acc, 'grp, 'ast, 'v, unit) node_op \<Rightarrow> bool" where
  "reverts L c A X Y \<equiv> commits L c A X Y True"

lemma commitsD:
  "commits L c A X Y \<phi> m \<Longrightarrow> triple (holding L c A X Q) m (\<lambda>_ s. \<phi> \<and> holding L c A Y Q s)
     (\<lambda>_ s. holding L c A X Q s \<or> \<phi> \<and> adrift L c A Y s)"
  by (simp add: commits_def)

lemma commits_realm:
  assumes "triple (db_at L c A X) m (\<lambda>_ db. \<phi> \<and> db_at L c A Y db) (\<lambda>_. db_at L c A X)"
  shows "commits L c A X Y \<phi> (realm m)"
  unfolding commits_def
  by (intro allI triple_conseq[OF triple_realm[where \<phi> = "\<lambda>_. \<phi>", OF assms]]) auto

lemma commits_wrapping: "commits L c A X Y \<phi> m \<Longrightarrow> commits L c A X Y \<phi> (wrapping w m)"
  unfolding commits_def by (blast intro: triple_wrapping)

lemma triple_commit_then:
  assumes "commits L c A X Y \<phi> m" and "\<And>s. holding L c A X Q s \<Longrightarrow> E s"
    and "\<And>s. \<phi> \<Longrightarrow> adrift L c A Y s \<Longrightarrow> E s" and "\<phi> \<Longrightarrow> triple (holding L c A Y Q) (f ()) R (\<lambda>_. E)"
  shows "triple (holding L c A X Q) (andthen (wrapping w m) f) R (\<lambda>_. E)"
proof (rule triple_andthen[OF triple_wrapping])
  show "triple (holding L c A X Q) m (\<lambda>_ s. \<phi> \<and> holding L c A Y Q s) (\<lambda>_. E)"
    by (rule triple_conseq[OF commitsD[OF assms(1)]]) (use assms(2,3) in auto)
qed (use assms(4) in \<open>auto intro: triple_assume\<close>)

lemma commits_weaken: "commits L c A X Y \<phi> m \<Longrightarrow> (\<phi> \<Longrightarrow> \<psi>) \<Longrightarrow> commits L c A X Y \<psi> m"
  unfolding commits_def by (intro allI, rule triple_conseq, erule spec) auto

text \<open>Store and engine in step, at one view or another.\<close>

definition settled ::
  "('acc, 'grp, 'ast, 'v, 'd) engine_libs \<Rightarrow> caller \<Rightarrow> (account_id \<Rightarrow> string \<times> string)
     \<Rightarrow> limit_view \<Rightarrow> limit_view \<Rightarrow> ('acc, 'grp, 'ast, 'v) limit_node \<Rightarrow> bool" where
  "settled L c A X Y s \<longleftrightarrow> stands L c A X X s \<or> stands L c A Y Y s"

lemma settledI [intro]:
  "stands L c A X X s \<Longrightarrow> settled L c A X Y s" "stands L c A Y Y s \<Longrightarrow> settled L c A X Y s"
  by (simp_all add: settled_def)

lemma adrift_settled:
  "adrift L c A X s \<Longrightarrow> settled L c A X Y s" "adrift L c A Y s \<Longrightarrow> settled L c A X Y s"
  by (auto simp: settled_def adrift_holding)

lemma revertPolicy_triple:
  assumes "reverts L c A X Y revert"
  shows "triple (holding L c A X Q) (revertPolicy revert) (\<lambda>_. holding L c A Y Q) (\<lambda>_. settled L c A X Y)"
  unfolding revertPolicy_def
proof (rule triple_handle[OF commitsD[OF assms]])
  show "triple (\<lambda>s. holding L c A X Q s \<or> True \<and> adrift L c A Y s)
      (fatal (Wrap ''revert policy configuration'' e)) (\<lambda>_. holding L c A Y Q) (\<lambda>_. settled L c A X Y)" for e
    by (auto simp: triple_def fatal_def op_defs holding_def live_def settled_def adrift_def)
qed (auto intro: triple_ret)

lemma rebuild_or_fatal:
  assumes "triple (stands L c A X X) next Q (\<lambda>_. stands L c A X X)"
  shows "triple (stored L c A X)
     (handle (rebuildEngineFromStore L) (\<lambda>e. fatal (f e)) (\<lambda>_. next)) Q (\<lambda>_. stands L c A X X)"
  by (rule triple_handle[OF rebuild_stored]) (rule assms triple_fatal)+

lemma applyPolicyChangeLocked_triple:
  assumes "same_but p X Y" and "reverts L c A X Y revert"
  shows "triple (stands L c A X Y) (applyPolicyChangeLocked L p revert)
     (\<lambda>_. settled L c A X Y) (\<lambda>_. settled L c A X Y)"
  unfolding applyPolicyChangeLocked_def
proof (rule triple_handle[OF reconfigure_triple[OF assms(1)]])
  show "triple (stands L c A X X) (mirrorPolicyConfigurationBlocks (Lib_Print L) blocks)
      (\<lambda>_. settled L c A X Y) (\<lambda>_. settled L c A X Y)" for blocks
    unfolding mirrorPolicyConfigurationBlocks_def
    by (rule triple_conseq[OF triple_keeps[OF keeps_mirror]]) auto
  fix e
  let ?sf = "SpotFundsPnlAxisOf p \<noteq> None" and ?ni = "wraps e ErrNotImplemented"
  let ?P = "\<lambda>s. stored L c A X s \<and> (SpotFundsPnlAxisOf p = None \<or> ?ni \<longrightarrow> stands L c A X Y s)"
  have raised: "triple (stands L c A Z Z) (raise e) (\<lambda>_. settled L c A X Y) (\<lambda>_. settled L c A X Y)"
    if "Z = X \<or> Z = Y" for Z
    using that by (auto intro: triple_raise)
  have restored: "triple (stands L c A X Y) (andthen (revertPolicy revert) (\<lambda>_. raise e))
      (\<lambda>_. settled L c A X Y) (\<lambda>_. settled L c A X Y)"
    by (rule triple_andthen[OF triple_conseq[OF revertPolicy_triple[OF assms(2)]] raised]) auto
  have rebuilt: "triple (stored L c A X) (andthen (revertPolicy revert)
      (\<lambda>_. handle (rebuildEngineFromStore L) (\<lambda>e'. fatal (Wrap2 e (Wrap w e'))) (\<lambda>_. raise e)))
      (\<lambda>_. settled L c A X Y) (\<lambda>_. settled L c A X Y)" for w
  proof (rule triple_andthen)
    show "triple (stored L c A X) (revertPolicy revert) (\<lambda>_. stored L c A Y) (\<lambda>_. settled L c A X Y)"
      by (rule triple_conseq[OF revertPolicy_triple[OF assms(2)]]) auto
    show "triple (stored L c A Y)
      (handle (rebuildEngineFromStore L) (\<lambda>e'. fatal (Wrap2 e (Wrap w e'))) (\<lambda>_. raise e))
      (\<lambda>_. settled L c A X Y) (\<lambda>_. settled L c A X Y)"
      by (rule triple_conseq[OF rebuild_or_fatal]) (auto intro: triple_raise)
  qed
  have kept: "triple (stored L c A X)
      (handle (rebuildEngineFromStore L) (\<lambda>e'. fatal (Wrap2 e (Wrap w e'))) ret)
      (\<lambda>_. settled L c A X Y) (\<lambda>_. settled L c A X Y)" for w
    by (rule triple_handle[OF rebuild_stored])
       (auto intro: triple_ret triple_conseq[OF triple_fatal])
  show "triple ?P
     (let spotFunds = SpotFundsPnlAxisOf p \<noteq> None in
      if ?ni then
        if spotFunds then andthen (revertPolicy revert) (\<lambda>_. raise e)
        else handle (rebuildEngineFromStore L)
          (\<lambda>e'. fatal (Wrap2 e (Wrap ''rebuild policy after online lifecycle gap'' e'))) ret
      else andthen (revertPolicy revert) (\<lambda>_.
        if \<not> spotFunds then raise e
        else handle (rebuildEngineFromStore L)
          (\<lambda>e'. fatal (Wrap2 e
             (Wrap ''rebuild engine after failed spot funds pnl-bounds configure'' e'))) (\<lambda>_. raise e)))
     (\<lambda>_. settled L c A X Y) (\<lambda>_. settled L c A X Y)"
    unfolding Let_def
    by (cases ?ni; cases "SpotFundsPnlAxisOf p"; simp)
       (rule triple_pre[OF kept] triple_pre[OF restored] triple_pre[OF rebuilt]; simp)+
qed

lemma replaceEngineForPolicyLifecycle_triple:
  assumes "shows_view Y snap"
    and "commits L c A X Y \<phi> commit"
  shows "triple (stands L c A X X) (replaceEngineForPolicyLifecycle L snap commit)
     (\<lambda>_ s. \<phi> \<and> stands L c A Y Y s) (\<lambda>_ s. stands L c A X X s \<or> \<phi> \<and> stands L c A Y Y s)"
  unfolding replaceEngineForPolicyLifecycle_def
proof (rule triple_wrapping_then[OF build_live[where Y = Y]])
  fix eng
  assume "shows_view Y snap \<longrightarrow> in_force L Y eng"
  then have eng: "in_force L Y eng" using assms(1) by simp
  have rest: "triple (stands L c A Y X)
      (andthen (swapEngine eng) (\<lambda>_. handle (mirrorSeedAccountBlocks (Lib_Print L) eng)
        (\<lambda>e. fatal (Wrap ''mirror lifecycle seed blocks'' e)) ret))
      (\<lambda>_. stands L c A Y Y) (\<lambda>_. stands L c A Y Y)"
    by (rule triple_andthen[OF swapEngine_stands[OF eng]])
       (intro triple_keeps keeps_handle mirrorSeed_keeps keeps_fatal keeps_ret; simp)
  have swap: "triple (stands L c A Y X)
      (andthen (swapEngine eng) (\<lambda>_. handle (mirrorSeedAccountBlocks (Lib_Print L) eng)
        (\<lambda>e. fatal (Wrap ''mirror lifecycle seed blocks'' e)) ret))
      (\<lambda>_ s. \<phi> \<and> stands L c A Y Y s) (\<lambda>_ s. stands L c A X X s \<or> \<phi> \<and> stands L c A Y Y s)"
    if "\<phi>"
    by (rule triple_conseq[OF rest]) (simp_all add: that)
  show "triple (stands L c A X X)
      (andthen (wrapping ''commit lifecycle engine replacement'' commit) (\<lambda>_.
        andthen (swapEngine eng) (\<lambda>_. handle (mirrorSeedAccountBlocks (Lib_Print L) eng)
          (\<lambda>e. fatal (Wrap ''mirror lifecycle seed blocks'' e)) ret)))
      (\<lambda>_ s. \<phi> \<and> stands L c A Y Y s) (\<lambda>_ s. stands L c A X X s \<or> \<phi> \<and> stands L c A Y Y s)"
  proof (rule triple_andthen[OF triple_wrapping])
    show "triple (stands L c A X X) commit (\<lambda>_ s. \<phi> \<and> stands L c A Y X s)
        (\<lambda>_ s. stands L c A X X s \<or> \<phi> \<and> stands L c A Y Y s)"
      by (rule triple_conseq[OF commitsD[OF assms(2)]]) (auto intro: adrift_holding)
  qed (rule triple_assume, erule swap)
qed simp

end
