(* ===== verification/LimitSafety.thy ===== *)
theory LimitSafety
  imports LimitRuns
begin

section \<open>Every limit operation leaves store and engine in step\<close>

text \<open>
  The triples of the operations themselves. \<open>becomes\<close> is their common postcondition: the store
  shows the view of before or the changed one, and the latter only under the operation's guard;
  in both cases the live engine enforces what the store shows, or the fatal hook was called.
\<close>

subsection \<open>Listings that a change and its revert leave\<close>

context barrier_table
begin

lemma listing_idem [simp]: "listing (listing rows) = listing rows"
  by (simp add: listing_def sort_key_id_if_sorted)

lemma put_back_listed:
  assumes "table_ok rows" and "listing rows = rows" and "p \<in> set rows" and "valid r" and "key p = key r"
  shows "listing (putLimitRow key p (listing (putLimitRow key r rows))) = rows"
proof -
  have "valid p" using assms(1,3) by (simp add: table_ok_def)
  then show ?thesis
    using put_back[OF assms(1,3,4,5)] listing_put[OF put_ok[OF assms(1,4)]] assms(2) by simp
qed

lemma drop_put_listed:
  assumes "table_ok rows" and "listing rows = rows" and "valid r" and "key r \<notin> key ` set rows"
  shows "listing (deleteLimitRow key (key r) (listing (putLimitRow key r rows))) = rows"
  using delete_again[OF assms(4)] listing_delete[OF put_ok[OF assms(1,3)]] assms(2) by simp

lemma put_dropped_listed:
  assumes "table_ok rows" and "listing rows = rows" and "p \<in> set rows"
  shows "listing (putLimitRow key p (listing (deleteLimitRow key (key p) rows))) = rows"
proof -
  have "valid p" using assms(1,3) by (simp add: table_ok_def)
  then show ?thesis
    using put_deleted[OF assms(1,3)] listing_put[OF delete_ok[OF assms(1)]] assms(2) by simp
qed

lemma listing_one [simp]: "listing [r] = [r]" "listing [] = []"
  by (simp_all add: listing_def)

lemma found:
  assumes "table_ok rows" and "listing rows = rows"
  shows "List.find (\<lambda>r. key r = k) rows = Some p \<longleftrightarrow> p \<in> set rows \<and> key p = k"
    and "List.find (\<lambda>r. key r = k) rows = None \<longleftrightarrow> k \<notin> key ` set rows"
  using find_listing[OF assms(1)] assms(2) by simp_all

lemma found_Some:
  assumes "table_ok rows" and "listing rows = rows" and "List.find (\<lambda>r. key r = k) rows = Some p"
  shows "\<forall>q\<in>set rows. key q = k \<longrightarrow> q = p" and "k \<in> key ` set rows"
proof -
  have p: "p \<in> set rows" "key p = k" using found(1)[OF assms(1,2)] assms(3) by blast+
  then show "\<forall>q\<in>set rows. key q = k \<longrightarrow> q = p" using table_unique[OF assms(1)] by blast
  show "k \<in> key ` set rows" using p by blast
qed

end

definition view_ok :: "('acc, 'grp, 'ast, 'v, 'd) engine_libs \<Rightarrow> limit_view \<Rightarrow> bool" where
  "view_ok L X \<longleftrightarrow>
     rate_table.table_ok (Lib_Print L) (Vw_Rates X) \<and> rate_listing (Vw_Rates X) = Vw_Rates X
     \<and> barrier_table.table_ok size_key
         (\<lambda>l. LimitOrderSize_Validate (Lib_Print L) (Lib_Decimals L) l = None) (Vw_Sizes X)
     \<and> size_listing (Vw_Sizes X) = Vw_Sizes X
     \<and> barrier_table.table_ok pnl_key
         (\<lambda>l. LimitPnl_Validate (Lib_Print L) (Lib_Decimals L) l = None) (Vw_Pnls X)
     \<and> pnl_listing (Vw_Pnls X) = Vw_Pnls X"

lemma db_at_view_ok: "db_at L c A X db \<Longrightarrow> view_ok L X"
  by (auto simp: db_at_def tables_ok_def view_ok_def)

lemma triple_view:
  "(view_ok L X \<Longrightarrow> triple (holding L c A X Q) m R E) \<Longrightarrow> triple (holding L c A X Q) m R E"
  using db_at_view_ok by (fastforce simp: triple_def holding_def)

subsection \<open>Missing accounts and assets\<close>

lemma add_account_extends:
  "addAccountResolverEntry K acc r = Inr r' \<Longrightarrow> extends r r'"
  by (cases r) (auto simp: addAccountResolverEntry_def res_bind_Inr extends_def lookup_Inr lookup_defs
      publish_account_def split: if_split_asm)

lemma add_asset_extends:
  "addAssetResolverEntry K ast r = Inr r' \<Longrightarrow> extends r r'"
  by (cases r) (auto simp: addAssetResolverEntry_def res_bind_Inr extends_def lookup_Inr lookup_defs
      publish_asset_def split: if_split_asm)

lemma keeps_publish:
  assumes "steady Q"
  shows "keeps (holding L c A X Q) (engine_step (AddAccountResolverEntry L' acc))"
    and "keeps (holding L c A X Q) (engine_step (AddAssetResolverEntry L' ast))"
  using assms
  by (auto simp: keeps_def engine_step_def AddAccountResolverEntry_def AddAssetResolverEntry_def op_defs
      holding_def steady_def dest: add_account_extends add_asset_extends split: prod.splits sum.splits)

lemma keeps_rollback:
  assumes "keeps (db_at L c A X) delete"
  shows "keeps (stands L c A X X) (rollback_publication L delete cause)"
  unfolding rollback_publication_def
  by (intro keeps_handle keeps_realm assms rebuild_stands keeps_fatal keeps_raise steady_live)

lemma keeps_ensureAutoCreatedAccount:
  "keeps (stands L c A X X) (ensureAutoCreatedAccount L code c)"
proof (cases "TightenOnly c")
  case True
  then have "guardTightenOnlyAccountCreation c = Some (err_loosening
      ''a new account would start unblocked, with no barrier of its own'')"
    by (simp add: guardTightenOnlyAccountCreation_def)
  then have stop: "andthen (lift_out (guardTightenOnlyAccountCreation c)) m = raise (err_loosening
      ''a new account would start unblocked, with no barrier of its own'')"
    for m :: "unit \<Rightarrow> ('a, 'b, 'c, 'd, unit) node_op"
    by (simp add: fun_eq_iff op_defs)
  show ?thesis
    unfolding ensureAutoCreatedAccount_def GetAccount_def stop
    by (intro keeps_rules keeps_wrapping keeps_realm_gets)
next
  case False
  show ?thesis
    unfolding ensureAutoCreatedAccount_def GetAccount_def rollbackAutoCreatedAccountPublication_def
    by (intro keeps_rules keeps_wrapping keeps_realm_gets keeps_realm CreateAccount_at DeleteAccount_at
        keeps_publish keeps_rollback keeps_log keeps_fatal steady_live False)
qed

lemma keeps_ensureLimitAccount: "keeps (stands L c A X X) (ensureLimitAccount L scope code missing c)"
  unfolding ensureLimitAccount_def ensureAccount_def GetAccount_def
  by (cases missing; simp)
     (intro keeps_rules keeps_wrapping keeps_realm_gets keeps_ensureAutoCreatedAccount)+

lemma keeps_ensureLimitAsset: "keeps (stands L c A X X) (ensureLimitAsset L scope asset c)"
  unfolding ensureLimitAsset_def ensureAutoCreatedAsset_def GetAsset_def
    rollbackAutoCreatedAssetPublication_def
  by (intro keeps_rules keeps_wrapping keeps_realm_gets keeps_realm CreateAssetClass_at CreateAsset_at
      DeleteAsset_at keeps_publish keeps_rollback keeps_log keeps_fatal steady_live)

subsection \<open>The common postcondition\<close>

definition becomes ::
  "('acc, 'grp, 'ast, 'v, 'd) engine_libs \<Rightarrow> caller \<Rightarrow> (account_id \<Rightarrow> string \<times> string)
     \<Rightarrow> limit_view \<Rightarrow> limit_view \<Rightarrow> bool \<Rightarrow> ('acc, 'grp, 'ast, 'v) limit_node \<Rightarrow> bool" where
  "becomes L c A X Y G s \<longleftrightarrow> stands L c A X X s \<or> G \<and> stands L c A Y Y s"

lemma becomes_same [intro]: "stands L c A X X s \<Longrightarrow> becomes L c A X Y G s"
  by (simp add: becomes_def)

lemma becomes_adrift [intro]: "G \<Longrightarrow> adrift L c A Y s \<Longrightarrow> becomes L c A X Y G s"
  by (simp add: becomes_def adrift_holding)

lemma becomes_settled: "G \<Longrightarrow> settled L c A Y X s \<Longrightarrow> becomes L c A X Y G s"
  by (auto simp: becomes_def settled_def)

lemma keeps_becomes:
  assumes "\<And>Z. keeps (stands L c A Z Z) m"
  shows "keeps (becomes L c A X Y G) m"
  using assms[THEN keepsD] by (auto simp: keeps_def becomes_def)

text \<open>Every operation ends with its audit row.\<close>

lemma triple_audited:
  assumes "triple P m (\<lambda>_. becomes L c A X Y G) (\<lambda>_. becomes L c A X Y G)"
  shows "triple P (andthen m (\<lambda>_. audit_change c' action acc)) (\<lambda>_. becomes L c A X Y G)
    (\<lambda>_. becomes L c A X Y G)"
  by (rule triple_andthen[OF assms]) (intro triple_keeps keeps_becomes keeps_log steady_live)

lemma guarded_prev:
  "triple P (case prev of Some p \<Rightarrow> if T then lift_out (map_option f (x p)) else ret () | None \<Rightarrow> ret ())
     (\<lambda>_ s. (\<forall>p. prev = Some p \<longrightarrow> T \<longrightarrow> x p = None) \<and> P s) (\<lambda>_. P)"
  by (cases prev) (auto intro: triple_ret triple_lift_out)

text \<open>A commit of one row, then the live change.\<close>

lemma triple_commit_apply:
  assumes "commits L c A X Y \<phi> commit" and "\<phi> \<Longrightarrow> reverts L c A Y X revert" and "same_but p Y X" and "\<phi> \<Longrightarrow> G"
  shows "triple (stands L c A X X)
    (andthen (wrapping w commit) (\<lambda>_. wrapping w' (applyPolicyChangeLocked L p revert)))
    (\<lambda>_. becomes L c A X Y G) (\<lambda>_. becomes L c A X Y G)"
proof (rule triple_andthen[OF triple_wrapping])
  show "triple (stands L c A X X) commit (\<lambda>_ s. \<phi> \<and> stands L c A Y X s) (\<lambda>_. becomes L c A X Y G)"
    by (rule triple_conseq[OF commitsD[OF assms(1)]]) (use assms(4) in auto)
  show "triple (\<lambda>s. \<phi> \<and> stands L c A Y X s) (wrapping w' (applyPolicyChangeLocked L p revert))
      (\<lambda>_. becomes L c A X Y G) (\<lambda>_. becomes L c A X Y G)"
  proof (rule triple_assume)
    assume "\<phi>"
    then show "triple (stands L c A Y X) (wrapping w' (applyPolicyChangeLocked L p revert))
      (\<lambda>_. becomes L c A X Y G) (\<lambda>_. becomes L c A X Y G)"
      by (intro triple_wrapping triple_conseq[OF applyPolicyChangeLocked_triple[OF assms(3) assms(2)]])
         (use assms(4) in \<open>auto intro: becomes_settled\<close>)
  qed
qed

text \<open>A commit that replaces the engine.\<close>

lemma triple_replaced:
  assumes "shows_view Y snap" and "\<phi> \<Longrightarrow> G"
    and "commits L c A X Y \<phi> commit"
  shows "triple (stands L c A X X) (wrapping w (replaceEngineForPolicyLifecycle L snap commit))
    (\<lambda>_. becomes L c A X Y G) (\<lambda>_. becomes L c A X Y G)"
  by (rule triple_wrapping, rule triple_conseq[OF replaceEngineForPolicyLifecycle_triple[OF assms(1,3)]])
     (auto simp: becomes_def assms(2))

subsection \<open>Reverts\<close>

text \<open>
  A table with its place in the view and its two store methods, the locale \<open>stored_table\<close>: the
  method that undoes a change shows the view of before. The three tables are its interpretations.
\<close>

locale stored_table = barrier_table key ord valid
  for key :: "'r \<Rightarrow> 'k" and ord :: "'k \<Rightarrow> 'o::linorder" and valid :: "'r \<Rightarrow> bool" +
  fixes L :: "('acc, 'grp, 'ast, 'v, 'd) engine_libs" and c :: caller
    and A :: "account_id \<Rightarrow> string \<times> string"
    and rows :: "limit_view \<Rightarrow> 'r list" and with_rows :: "'r list \<Rightarrow> limit_view \<Rightarrow> limit_view"
    and put :: "'r \<Rightarrow> unit db_op" and drop :: "'k \<Rightarrow> unit db_op"
  assumes rows_with: "rows (with_rows xs X) = xs"
    and with_with: "with_rows xs (with_rows ys X) = with_rows xs X"
    and with_rows_self: "with_rows (rows X) X = X"
    and view_rows: "view_ok L X \<Longrightarrow> table_ok (rows X) \<and> listing (rows X) = rows X"
    and put_at: "triple (db_at L c A X) (put l)
      (\<lambda>_ db. valid l \<and> db_at L c A (with_rows (listing (putLimitRow key l (rows X))) X) db)
      (\<lambda>_. db_at L c A X)"
    and drop_at: "triple (db_at L c A X) (drop k)
      (\<lambda>_ db. k \<in> key ` set (rows X)
        \<and> db_at L c A (with_rows (listing (deleteLimitRow key k (rows X))) X) db)
      (\<lambda>_. db_at L c A X)"
begin

definition put_view :: "'r \<Rightarrow> limit_view \<Rightarrow> limit_view" where
  "put_view l X = with_rows (listing (putLimitRow key l (rows X))) X"

definition drop_view :: "'k \<Rightarrow> limit_view \<Rightarrow> limit_view" where
  "drop_view k X = with_rows (listing (deleteLimitRow key k (rows X))) X"

lemma put_node: "commits L c A X (put_view l X) (valid l) (realm (put l))"
  unfolding put_view_def by (rule commits_realm) (rule put_at)

lemma drop_node: "commits L c A X (drop_view k X) (k \<in> key ` set (rows X)) (realm (drop k))"
  unfolding drop_view_def by (rule commits_realm) (rule drop_at)

text \<open>A put is undone by putting the replaced row or by deleting the new one.\<close>

lemma undo_put:
  assumes "view_ok L X" and "valid l" and "List.find (\<lambda>r. key r = key l) (rows X) = Some p"
  shows "reverts L c A (put_view l X) X (realm (put p))"
proof -
  note ok = view_rows[OF assms(1)]
  have "p \<in> set (rows X)" "key p = key l" using found(1) ok assms(3) by blast+
  then have "put_view p (put_view l X) = X"
    using put_back_listed ok assms(2) by (simp add: put_view_def rows_with with_with with_rows_self)
  then show ?thesis using commits_weaken[OF put_node[of "put_view l X" p]] by simp
qed

lemma undo_new:
  assumes "view_ok L X" and "valid l" and "List.find (\<lambda>r. key r = key l) (rows X) = None"
  shows "reverts L c A (put_view l X) X (realm (drop (key l)))"
proof -
  note ok = view_rows[OF assms(1)]
  have "key l \<notin> key ` set (rows X)" using found(2) ok assms(3) by blast
  then have "drop_view (key l) (put_view l X) = X"
    using drop_put_listed ok assms(2)
    by (simp add: put_view_def drop_view_def rows_with with_with with_rows_self)
  then show ?thesis using commits_weaken[OF drop_node[of "put_view l X" "key l"]] by simp
qed

lemma undo_drop:
  assumes "view_ok L X" and "p \<in> set (rows X)"
  shows "reverts L c A (drop_view (key p) X) X (realm (put p))"
proof -
  have "put_view p (drop_view (key p) X) = X"
    using put_dropped_listed view_rows[OF assms(1)] assms(2)
    by (simp add: put_view_def drop_view_def rows_with with_with with_rows_self)
  then show ?thesis using commits_weaken[OF put_node[of "drop_view (key p) X" p]] by simp
qed

end

interpretation rate_rows: stored_table rate_key key_order "\<lambda>l. LimitRate_Validate (Lib_Print L) l = None"
  L c A Vw_Rates "\<lambda>xs X. X\<lparr>Vw_Rates := xs\<rparr>" "store_PutRateLimit (Lib_Print L)"
  "\<lambda>(s, a, x). store_DeleteRateLimit s a x" for L c A
  by unfold_locales
     (use store_PutRateLimit_at store_DeleteRateLimit_at in
       \<open>auto simp: view_ok_def put_rate_def drop_rate_def split: prod.splits\<close>)

interpretation size_rows: stored_table size_key key_order
  "\<lambda>l. LimitOrderSize_Validate (Lib_Print L) (Lib_Decimals L) l = None"
  L c A Vw_Sizes "\<lambda>xs X. X\<lparr>Vw_Sizes := xs\<rparr>" "store_PutOrderSizeLimit (Lib_Print L) (Lib_Decimals L)"
  "\<lambda>(s, a, x). store_DeleteOrderSizeLimit s a x" for L c A
  by unfold_locales
     (use store_PutOrderSizeLimit_at store_DeleteOrderSizeLimit_at in
       \<open>auto simp: view_ok_def put_size_def drop_size_def split: prod.splits\<close>)

interpretation pnl_rows: stored_table pnl_key pnl_key_order
  "\<lambda>l. LimitPnl_Validate (Lib_Print L) (Lib_Decimals L) l = None"
  L c A Vw_Pnls "\<lambda>xs X. X\<lparr>Vw_Pnls := xs\<rparr>"
  "store_PutSpotFundsPnlBoundsLimit (Lib_Print L) (Lib_Decimals L)"
  "\<lambda>(axis, s, a, g). store_DeleteSpotFundsPnlBoundsLimit axis s a g" for L c A
  by unfold_locales
     (use store_PutSpotFundsPnlBoundsLimit_at store_DeleteSpotFundsPnlBoundsLimit_at in
       \<open>auto simp: view_ok_def put_pnl_def drop_pnl_def split: prod.splits\<close>)

lemma view_ops [simp]:
  "rate_rows.put_view = put_rate" "rate_rows.drop_view = drop_rate"
  "size_rows.put_view = put_size" "size_rows.drop_view = drop_size"
  "pnl_rows.put_view = put_pnl" "pnl_rows.drop_view = drop_pnl"
  by (simp_all add: fun_eq_iff view_changes rate_rows.put_view_def rate_rows.drop_view_def
      size_rows.put_view_def size_rows.drop_view_def pnl_rows.put_view_def pnl_rows.drop_view_def)

subsection \<open>Rate limits\<close>

lemma rate_reverts:
  assumes "view_ok L X" and "LimitRate_Validate (Lib_Print L) l = None"
    and "Tgt_Scope t = Rate_Scope l" "Tgt_Account t = Rate_Account l" "Tgt_Asset t = Rate_Asset l"
    and "List.find (\<lambda>r. rate_key r = rate_key l) (Vw_Rates X) = prev"
  shows "reverts L c A (put_rate l X) X (revertRateBarrier L t prev)"
  using rate_rows.undo_put[OF assms(1,2)] rate_rows.undo_new[OF assms(1,2)] assms(3-6)
  by (cases prev) (simp_all add: revertRateBarrier_def commits_wrapping rate_key_def)

definition rate_put_ok ::
  "('acc, 'grp, 'ast, 'v, 'd) engine_libs \<Rightarrow> caller \<Rightarrow> limit_rate \<Rightarrow> limit_view \<Rightarrow> bool" where
  "rate_put_ok L c l X \<longleftrightarrow> LimitRate_Validate (Lib_Print L) l = None
     \<and> (TightenOnly c \<longrightarrow>
          (\<forall>p\<in>set (Vw_Rates X). rate_key p = rate_key l \<longrightarrow> Rate_NoLooserThan l p = None))"

lemma PutRateLimit_triple:
  "triple (stands L c A X X) (PutRateLimit L l missing c)
    (\<lambda>_. becomes L c A X (put_rate l X) (rate_put_ok L c l X))
    (\<lambda>_. becomes L c A X (put_rate l X) (rate_put_ok L c l X))"
proof (rule triple_view)
  assume ok: "view_ok L X"
  note rows = rate_table.found[OF conjunct1[OF ok[unfolded view_ok_def]] conjunct1[OF conjunct2[OF ok[unfolded view_ok_def]]]]
  let ?t = "\<lparr> Tgt_Policy = PolicyRateLimit, Tgt_Scope = Rate_Scope l,
           Tgt_Account = Rate_Account l, Tgt_AccountGroup = [], Tgt_Asset = Rate_Asset l \<rparr>"
  let ?prev = "List.find (\<lambda>r. rate_key r = rate_key l) (Vw_Rates X)"
  let ?Z = "becomes L c A X (put_rate l X) (rate_put_ok L c l X)"
  have read: "triple (stands L c A X X) (readRateBarrier ?t)
      (\<lambda>prev s. prev = ?prev \<and> stands L c A X X s) (\<lambda>_. stands L c A X X)"
    unfolding readRateBarrier_def
    by (rule triple_wrapping_then[OF read_rates]) (auto intro: triple_ret simp: rate_key_def)
  let ?revert = "revertRateBarrier L ?t"
  have commit: "commits L c A X (put_rate l X) (LimitRate_Validate (Lib_Print L) l = None)
     (realm (store_PutRateLimit (Lib_Print L) l))"
    by (rule commits_realm) (rule store_PutRateLimit_at)
  have same: "same_but PolicyRateLimit (put_rate l X) X" by (simp add: same_but_def put_rate_def)
  have guard: "rate_put_ok L c l X"
    if "\<forall>p. ?prev = Some p \<longrightarrow> TightenOnly c \<longrightarrow> Rate_NoLooserThan l p = None"
      and "LimitRate_Validate (Lib_Print L) l = None"
    using that rows(1) by (simp add: rate_put_ok_def)
  have first: "shows_view (put_rate l X) (snap\<lparr>Es_RateLimits := [l]\<rparr>)"
    if "shows_view X snap" "Es_RateLimits snap = []" for snap
    using that by (auto simp: shows_view_def put_rate_def putLimitRow_def track_only_def
        rate_table.listing_one)
  show "triple (stands L c A X X) (PutRateLimit L l missing c) (\<lambda>_. ?Z) (\<lambda>_. ?Z)"
    unfolding PutRateLimit_def Let_def
    apply (rule triple_then_keeps[OF keeps_begin], erule becomes_same)
    apply (rule triple_then[OF read], erule becomes_same)
    apply (rule triple_then[OF guarded_prev], erule becomes_same)
    apply (rule triple_then_keeps[OF keeps_ensureLimitAccount], erule becomes_same)
    apply (rule triple_then_keeps[OF keeps_ensureLimitAsset], erule becomes_same)
    apply (rule triple_wrapping_then[OF loadSnapshot_shows], erule becomes_same)
    apply (rule triple_audited)
    apply (rule triple_if)
     apply (rule triple_replaced[OF first _ commit]; simp add: guard)
    apply (rule triple_commit_apply[OF commit rate_reverts[OF ok] same]; simp add: guard)
    done
qed

subsection \<open>Order sizes\<close>

lemma size_reverts:
  assumes "view_ok L X" and "LimitOrderSize_Validate (Lib_Print L) (Lib_Decimals L) l = None"
    and "Tgt_Scope t = Size_Scope l" "Tgt_Account t = Size_Account l" "Tgt_Asset t = Size_Asset l"
    and "List.find (\<lambda>r. size_key r = size_key l) (Vw_Sizes X) = prev"
  shows "reverts L c A (put_size l X) X (revertOrderSizeBarrier L t prev)"
  using size_rows.undo_put[OF assms(1,2)] size_rows.undo_new[OF assms(1,2)] assms(3-6)
  by (cases prev) (simp_all add: revertOrderSizeBarrier_def commits_wrapping size_key_def)

text \<open>The key of the cap that an account's cap overrides.\<close>

definition overridden_size :: "limit_order_size \<Rightarrow> barrier_key option" where
  "overridden_size l = (case Size_Scope l of
       ScopeAccountUnderlyingAsset \<Rightarrow> Some (ScopeUnderlyingAsset, [], Size_Asset l)
     | ScopeAccountSettlementAsset \<Rightarrow> Some (ScopeSettlementAsset, [], Size_Asset l)
     | _ \<Rightarrow> None)"

definition size_put_ok ::
  "('acc, 'grp, 'ast, 'v, 'd) engine_libs \<Rightarrow> caller \<Rightarrow> limit_order_size \<Rightarrow> limit_view \<Rightarrow> bool" where
  "size_put_ok L c l X \<longleftrightarrow> LimitOrderSize_Validate (Lib_Print L) (Lib_Decimals L) l = None
     \<and> (TightenOnly c \<longrightarrow>
          (\<forall>p\<in>set (Vw_Sizes X). size_key p = size_key l \<longrightarrow> Size_NoLooserThan (Lib_Decimals L) l p = None)
          \<and> (size_key l \<notin> size_key ` set (Vw_Sizes X) \<longrightarrow>
              (\<forall>p\<in>set (Vw_Sizes X). overridden_size l = Some (size_key p)
                 \<longrightarrow> Size_NoLooserThan (Lib_Decimals L) l p = None)))"

lemma read_size_barrier:
  "triple (holding L c A X Q) (readOrderSizeBarrier t)
     (\<lambda>prev s. List.find (\<lambda>r. size_key r = (Tgt_Scope t, Tgt_Account t, Tgt_Asset t)) (Vw_Sizes X) = prev
        \<and> holding L c A X Q s) (\<lambda>_. holding L c A X Q)"
  unfolding readOrderSizeBarrier_def
  by (rule triple_wrapping_then[OF read_sizes]) (auto intro: triple_ret simp: size_key_def)

text \<open>What the guard of an order size establishes.\<close>

definition size_guarded ::
  "('acc, 'grp, 'ast, 'v, 'd) engine_libs \<Rightarrow> limit_order_size \<Rightarrow> limit_order_size option \<Rightarrow> limit_view \<Rightarrow> bool"
  where
  "size_guarded L l prev X \<longleftrightarrow> (case prev of
       Some p \<Rightarrow> Size_NoLooserThan (Lib_Decimals L) l p = None
     | None \<Rightarrow> Vw_Sizes X = [] \<or> (\<forall>k r. overridden_size l = Some k
         \<longrightarrow> List.find (\<lambda>r. size_key r = k) (Vw_Sizes X) = Some r
         \<longrightarrow> Size_NoLooserThan (Lib_Decimals L) l r = None))"

lemma keeps_guardRebuild: "keeps (holding L c A X Q) (guardTightenOnlyRebuild c')"
  unfolding guardTightenOnlyRebuild_def ListRateLimits_def
  by (intro keeps_rules keeps_wrapping keeps_realm_gets)

lemma guardTightenOnlyOrderSize_triple:
  "triple (holding L c A X Q) (guardTightenOnlyOrderSize L l prev c)
     (\<lambda>_ s. (TightenOnly c \<longrightarrow> size_guarded L l prev X) \<and> holding L c A X Q s) (\<lambda>_. holding L c A X Q)"
proof (cases "TightenOnly c")
  case False
  then show ?thesis by (simp add: guardTightenOnlyOrderSize_def triple_ret)
next
  case T: True
  have against: "triple (holding L c A X Q)
      (andthen (readOrderSizeBarrier \<lparr> Tgt_Policy = PolicyOrderSizeLimit, Tgt_Scope = scope,
         Tgt_Account = [], Tgt_AccountGroup = [], Tgt_Asset = Size_Asset l \<rparr>) (\<lambda>ref.
         case ref of None \<Rightarrow> ret () | Some r \<Rightarrow> lift_out (Size_NoLooserThan (Lib_Decimals L) l r)))
      (\<lambda>_ s. size_guarded L l None X \<and> holding L c A X Q s) (\<lambda>_. holding L c A X Q)"
    if "overridden_size l = Some (scope, [], Size_Asset l)" for scope
  proof (rule triple_then[OF read_size_barrier])
    fix ref
    assume r: "List.find (\<lambda>r. size_key r = (Tgt_Scope \<lparr> Tgt_Policy = PolicyOrderSizeLimit, Tgt_Scope = scope,
         Tgt_Account = [], Tgt_AccountGroup = [], Tgt_Asset = Size_Asset l \<rparr>, Tgt_Account \<lparr> Tgt_Policy = PolicyOrderSizeLimit, Tgt_Scope = scope,
         Tgt_Account = [], Tgt_AccountGroup = [], Tgt_Asset = Size_Asset l \<rparr>, Tgt_Asset \<lparr> Tgt_Policy = PolicyOrderSizeLimit, Tgt_Scope = scope,
         Tgt_Account = [], Tgt_AccountGroup = [], Tgt_Asset = Size_Asset l \<rparr>)) (Vw_Sizes X) = ref"
    show "triple (holding L c A X Q)
       (case ref of None \<Rightarrow> ret () | Some r \<Rightarrow> lift_out (Size_NoLooserThan (Lib_Decimals L) l r))
       (\<lambda>_ s. size_guarded L l None X \<and> holding L c A X Q s) (\<lambda>_. holding L c A X Q)"
      using r that by (cases ref) (auto simp: size_guarded_def intro!: triple_ret triple_lift_out)
  qed
  have rest: "triple (holding L c A X Q) (raise e) R (\<lambda>_. holding L c A X Q)" for e :: go_error and R :: "unit \<Rightarrow> _"
    by (auto intro: triple_raise)
  show ?thesis
  proof (cases prev)
    case (Some p)
    then show ?thesis
      by (auto simp: guardTightenOnlyOrderSize_def T size_guarded_def intro!: triple_lift_out)
  next
    case None
    have "triple (holding L c A X Q) (guardTightenOnlyOrderSize L l None c)
      (\<lambda>_ s. size_guarded L l None X \<and> holding L c A X Q s) (\<lambda>_. holding L c A X Q)"
      unfolding guardTightenOnlyOrderSize_def Let_def
      apply (simp add: T)
      apply (rule triple_wrapping_then[OF read_sizes], assumption)
      apply (rule triple_if)
       apply (rule triple_conseq[OF triple_keeps[OF keeps_guardRebuild]]; simp add: size_guarded_def)
      apply (cases "Size_Scope l"; simp; (rule against rest triple_ret)?; simp add: size_guarded_def overridden_size_def)
      done
    then show ?thesis by (simp add: None T)
  qed
qed

lemma PutOrderSizeLimit_triple:
  "triple (stands L c A X X) (PutOrderSizeLimit L l missing c)
    (\<lambda>_. becomes L c A X (put_size l X) (size_put_ok L c l X))
    (\<lambda>_. becomes L c A X (put_size l X) (size_put_ok L c l X))"
proof (rule triple_view)
  assume ok: "view_ok L X"
  note rows = size_table.found[OF conjunct1[OF size_rows.view_rows[OF ok]] conjunct2[OF size_rows.view_rows[OF ok]]]
  let ?t = "\<lparr> Tgt_Policy = PolicyOrderSizeLimit, Tgt_Scope = Size_Scope l,
           Tgt_Account = Size_Account l, Tgt_AccountGroup = [], Tgt_Asset = Size_Asset l \<rparr>"
  let ?Z = "becomes L c A X (put_size l X) (size_put_ok L c l X)"
  have read: "triple (stands L c A X X) (readOrderSizeBarrier ?t)
      (\<lambda>prev s. List.find (\<lambda>r. size_key r = size_key l) (Vw_Sizes X) = prev \<and> stands L c A X X s)
      (\<lambda>_. stands L c A X X)"
    using read_size_barrier[of L c A X "live L X" ?t] by (simp add: size_key_def)
  have commit: "commits L c A X (put_size l X) (LimitOrderSize_Validate (Lib_Print L) (Lib_Decimals L) l = None)
     (realm (store_PutOrderSizeLimit (Lib_Print L) (Lib_Decimals L) l))"
    by (rule commits_realm) (rule store_PutOrderSizeLimit_at)
  have same: "same_but PolicyOrderSizeLimit (put_size l X) X" by (simp add: same_but_def put_size_def)
  have guard: "size_put_ok L c l X"
    if find: "List.find (\<lambda>r. size_key r = size_key l) (Vw_Sizes X) = prev"
      and grd: "TightenOnly c \<longrightarrow> size_guarded L l prev X"
      and val: "LimitOrderSize_Validate (Lib_Print L) (Lib_Decimals L) l = None" for prev
  proof (cases prev)
    case None
    then have "size_key l \<notin> size_key ` set (Vw_Sizes X)" using find rows(2) by blast
    then have "\<forall>p\<in>set (Vw_Sizes X). size_key p \<noteq> size_key l" by (metis image_eqI)
    moreover have "Size_NoLooserThan (Lib_Decimals L) l p = None"
      if "TightenOnly c" "p \<in> set (Vw_Sizes X)" "overridden_size l = Some (size_key p)" for p
    proof -
      have "List.find (\<lambda>r. size_key r = size_key p) (Vw_Sizes X) = Some p" using rows(1) that(2) by blast
      then show ?thesis using grd that None by (auto simp: size_guarded_def)
    qed
    ultimately show ?thesis using val by (simp add: size_put_ok_def)
  next
    case (Some p)
    then have "\<forall>q\<in>set (Vw_Sizes X). size_key q = size_key l \<longrightarrow> q = p" "size_key l \<in> size_key ` set (Vw_Sizes X)"
      using find size_table.found_Some[OF conjunct1[OF size_rows.view_rows[OF ok]]
        conjunct2[OF size_rows.view_rows[OF ok]]] by blast+
    then show ?thesis using grd val Some by (auto simp: size_put_ok_def size_guarded_def)
  qed
  have first: "shows_view (put_size l X) (snap\<lparr>Es_OrderSizeLimits := [l]\<rparr>)"
    if "shows_view X snap" "Es_OrderSizeLimits snap = []" for snap
    using that by (auto simp: shows_view_def put_size_def putLimitRow_def track_only_def)
  show "triple (stands L c A X X) (PutOrderSizeLimit L l missing c) (\<lambda>_. ?Z) (\<lambda>_. ?Z)"
    unfolding PutOrderSizeLimit_def Let_def
    apply (rule triple_then_keeps[OF keeps_begin], erule becomes_same)
    apply (rule triple_then[OF read], erule becomes_same)
    apply (rule triple_wrapping_then[OF guardTightenOnlyOrderSize_triple], erule becomes_same)
    apply (rule triple_then_keeps[OF keeps_ensureLimitAccount], erule becomes_same)
    apply (rule triple_then_keeps[OF keeps_ensureLimitAsset], erule becomes_same)
    apply (rule triple_wrapping_then[OF loadSnapshot_shows], erule becomes_same)
    apply (rule triple_audited)
    apply (rule triple_if)
     apply (rule triple_replaced[OF first _ commit]; simp add: guard)
    apply (rule triple_commit_apply[OF commit size_reverts[OF ok] same]; simp add: guard)
    done
qed

end
