(* ===== verification/LimitSteps.thy ===== *)
theory LimitSteps
  imports LimitSafety
begin

section \<open>Bounds on profit and loss, the limit mode and deletions\<close>

text \<open>The remaining operations, with the bound an account inherits from its group or from the
  global one, and the request that stands for any of them.\<close>

subsection \<open>Bounds on profit and loss\<close>

lemma pnl_reverts:
  assumes "view_ok L X" and "LimitPnl_Validate (Lib_Print L) (Lib_Decimals L) l = None"
    and "AxisPolicy (Pnl_Axis l) = Some (Tgt_Policy t)"
    and "Tgt_Scope t = Pnl_Scope l" "Tgt_Account t = Pnl_Account l" "Tgt_AccountGroup t = Pnl_AccountGroup l"
    and "List.find (\<lambda>r. pnl_key r = pnl_key l) (Vw_Pnls X) = prev"
  shows "reverts L c A (put_pnl l X) X (revertSpotFundsPnlBoundsBarrier L t prev)"
proof -
  have "andthen (lift_res (spotFundsPnlAxisOfPolicy (Tgt_Policy t))) f = f (Pnl_Axis l)"
    for f :: "pnl_axis \<Rightarrow> ('a, 'b, 'c, 'd, unit) node_op"
    using assms(3) by (simp add: spotFundsPnlAxisOfPolicy_def SpotFundsPnlAxisOf_iff[symmetric] fun_eq_iff op_defs)
  then show ?thesis
    using pnl_rows.undo_put[OF assms(1,2)] pnl_rows.undo_new[OF assms(1,2)] assms(4-7)
    by (cases prev) (simp_all add: revertSpotFundsPnlBoundsBarrier_def commits_wrapping pnl_key_def)
qed

lemma pnl_same_but:
  assumes "view_ok L X" and "AxisPolicy (Pnl_Axis l) = Some p" and "Pnl_Axis r = Pnl_Axis l"
  shows "same_but p (put_pnl l X) X" and "same_but p (drop_pnl (pnl_key r) X) X"
proof -
  have sorted: "pnl_listing (Vw_Pnls X) = Vw_Pnls X" using assms(1) by (simp add: view_ok_def)
  have listing: "pnl_listing xs = sort_key (\<lambda>r. pnl_key_order (pnl_key r)) xs" for xs
    by (rule barrier_table.listing_def[OF pnl_table.barrier_table_axioms])
  have p: "p \<noteq> PolicyRateLimit" "p \<noteq> PolicyOrderSizeLimit" using assms(2) by auto
  have keep: "filter (\<lambda>q. Pnl_Axis q = axis) (pnl_listing ys) = filter (\<lambda>q. Pnl_Axis q = axis) (Vw_Pnls X)"
    if "filter (\<lambda>q. Pnl_Axis q = axis) ys = filter (\<lambda>q. Pnl_Axis q = axis) (Vw_Pnls X)" for axis ys
  proof -
    have "filter (\<lambda>q. Pnl_Axis q = axis) (pnl_listing ys) = filter (\<lambda>q. Pnl_Axis q = axis) (pnl_listing (Vw_Pnls X))"
      by (simp add: listing filter_sort that)
    then show ?thesis by (simp add: sorted)
  qed
  have other: "axis \<noteq> Pnl_Axis l" if "AxisPolicy axis \<noteq> Some p" for axis using that assms(2) by auto
  have rows: "filter (\<lambda>q. Pnl_Axis q = axis) (putLimitRow pnl_key l (Vw_Pnls X)) = filter (\<lambda>q. Pnl_Axis q = axis) (Vw_Pnls X)"
    "filter (\<lambda>q. Pnl_Axis q = axis) (deleteLimitRow pnl_key (pnl_key r) (Vw_Pnls X)) = filter (\<lambda>q. Pnl_Axis q = axis) (Vw_Pnls X)"
    if "AxisPolicy axis \<noteq> Some p" for axis
    using other[OF that] assms(3)
    by (auto simp: putLimitRow_def deleteLimitRow_def pnl_key_def intro!: filter_cong)
  show "same_but p (put_pnl l X) X"
    unfolding same_but_def put_pnl_def using p by (simp add: keep rows)
  show "same_but p (drop_pnl (pnl_key r) X) X"
    unfolding same_but_def drop_pnl_def using p by (simp add: keep rows)
qed

lemma read_pnl_barrier:
  assumes "AxisPolicy axis = Some (Tgt_Policy t)"
  shows "triple (holding L c A X Q) (readSpotFundsPnlBoundsBarrier t)
     (\<lambda>prev s. List.find (\<lambda>r. pnl_key r = (axis, Tgt_Scope t, Tgt_Account t, Tgt_AccountGroup t)) (Vw_Pnls X) = prev
        \<and> holding L c A X Q s) (\<lambda>_. holding L c A X Q)"
proof -
  have "andthen (lift_res (spotFundsPnlAxisOfPolicy (Tgt_Policy t))) f = f axis"
    for f :: "pnl_axis \<Rightarrow> ('a, 'b, 'c, 'd, limit_pnl_bounds option) node_op"
    using assms by (simp add: spotFundsPnlAxisOfPolicy_def SpotFundsPnlAxisOf_iff[symmetric] fun_eq_iff op_defs)
  then show ?thesis
    unfolding readSpotFundsPnlBoundsBarrier_def
    by simp (rule triple_wrapping_then[OF read_pnls], auto intro: triple_ret simp: pnl_key_def)
qed

subsubsection \<open>The inherited bound\<close>

definition bound_at :: "limit_view \<Rightarrow> pnl_axis \<Rightarrow> limit_scope \<Rightarrow> account_id \<Rightarrow> string \<Rightarrow> limit_pnl_bounds option" where
  "bound_at X axis scope acc grp = List.find (\<lambda>r. pnl_key r = (axis, scope, acc, grp)) (Vw_Pnls X)"

text \<open>A bound in another currency than the account's does not apply; an account without a
  currency takes any.\<close>

definition applicable :: "string \<Rightarrow> limit_pnl_bounds option \<Rightarrow> limit_pnl_bounds option" where
  "applicable currency bound = (case bound of None \<Rightarrow> None
     | Some b \<Rightarrow> if currency = [] \<or> Pnl_Currency b = currency then Some b else None)"

definition inherited_bound :: "limit_view \<Rightarrow> pnl_axis \<Rightarrow> string \<times> string \<Rightarrow> limit_pnl_bounds option" where
  "inherited_bound X axis place = (case place of (grp, currency) \<Rightarrow>
     let global = applicable currency (bound_at X axis ScopeGlobal [] [])
     in if grp = [] then global
        else case applicable currency (bound_at X axis ScopeAccountGroup [] grp) of
          Some b \<Rightarrow> Some b | None \<Rightarrow> global)"

lemma read_bound:
  assumes "AxisPolicy axis \<noteq> None"
  shows "triple (holding L c A X Q) (readSpotFundsPnlBoundsBarrier (pnl_target axis scope acc grp))
     (\<lambda>b s. bound_at X axis scope acc grp = b \<and> holding L c A X Q s) (\<lambda>_. holding L c A X Q)"
  using read_pnl_barrier[of axis "pnl_target axis scope acc grp"] assms
  by (auto simp: pnl_target_def axis_policy_def bound_at_def)

text \<open>The group and the currency that the cascade reads are the account's place.\<close>

lemma read_place:
  assumes "TightenOnly c"
  shows "triple (holding L c A X Q)
     (andthen (wrapping w (realm (GetAccount acc))) (\<lambda>stored.
       case stored of
         Some a \<Rightarrow> ret (Account_GroupCode a, Account_EffectiveCurrency a)
       | None \<Rightarrow> andthen (wrapping w' (realm (GetGroup []))) (\<lambda>dflt.
           ret ([], case dflt of None \<Rightarrow> [] | Some g \<Rightarrow> Group_Currency g))))
     (\<lambda>place s. place = A acc \<and> holding L c A X Q s) (\<lambda>_. holding L c A X Q)"
proof -
  have place: "A acc = account_place db acc" if "db_at L c A X db" for db
    using that assms by (auto simp: db_at_def)
  have frame: "Account_GroupCode (setAccountCurrencyFields db a) = Account_GroupCode a" for db a
    by (simp add: setAccountCurrencyFields_def Let_def split: prod.splits)
  have read: "triple (\<lambda>s. holding L c A X Q s \<and> N_Db s = db) (realm (gets f))
      (\<lambda>a s. a = f db \<and> holding L c A X Q s \<and> N_Db s = db) (\<lambda>_. holding L c A X Q)"
    for db and f :: "limit_db \<Rightarrow> 'z"
    by (auto simp: triple_def realm_def holding_def op_defs split: list.splits store_fault.splits)
  have at: "triple (\<lambda>s. holding L c A X Q s \<and> N_Db s = db)
     (andthen (wrapping w (realm (GetAccount acc))) (\<lambda>stored.
       case stored of
         Some a \<Rightarrow> ret (Account_GroupCode a, Account_EffectiveCurrency a)
       | None \<Rightarrow> andthen (wrapping w' (realm (GetGroup []))) (\<lambda>dflt.
           ret ([], case dflt of None \<Rightarrow> [] | Some g \<Rightarrow> Group_Currency g))))
     (\<lambda>place s. place = A acc \<and> holding L c A X Q s) (\<lambda>_. holding L c A X Q)" for db
  proof (rule triple_andthen)
    show "triple (\<lambda>s. holding L c A X Q s \<and> N_Db s = db) (wrapping w (realm (GetAccount acc)))
        (\<lambda>a s. a = map_option (setAccountCurrencyFields db) (find_account acc db)
          \<and> holding L c A X Q s \<and> N_Db s = db) (\<lambda>_. holding L c A X Q)"
      unfolding GetAccount_def by (rule triple_wrapping[OF read])
    fix stored
    have "triple (\<lambda>s. holding L c A X Q s \<and> N_Db s = db) (case stored of
         Some a \<Rightarrow> ret (Account_GroupCode a, Account_EffectiveCurrency a)
       | None \<Rightarrow> andthen (wrapping w' (realm (GetGroup []))) (\<lambda>dflt.
           ret ([], case dflt of None \<Rightarrow> [] | Some g \<Rightarrow> Group_Currency g)))
       (\<lambda>place s. place = A acc \<and> holding L c A X Q s) (\<lambda>_. holding L c A X Q)"
      if "stored = map_option (setAccountCurrencyFields db) (find_account acc db)"
    proof (cases stored)
      case None
      show ?thesis
        unfolding None option.case GetGroup_def
        by (rule triple_andthen[OF triple_wrapping[OF read]], rule triple_ret)
           (use that None in \<open>auto simp: holding_def place account_place_def group_currency_def split: option.splits\<close>)
    next
      case (Some a)
      then show ?thesis
        using that by (auto intro!: triple_ret simp: holding_def place account_place_def frame)
    qed
    then show "triple (\<lambda>s. stored = map_option (setAccountCurrencyFields db) (find_account acc db)
        \<and> holding L c A X Q s \<and> N_Db s = db) (case stored of
         Some a \<Rightarrow> ret (Account_GroupCode a, Account_EffectiveCurrency a)
       | None \<Rightarrow> andthen (wrapping w' (realm (GetGroup []))) (\<lambda>dflt.
           ret ([], case dflt of None \<Rightarrow> [] | Some g \<Rightarrow> Group_Currency g)))
       (\<lambda>place s. place = A acc \<and> holding L c A X Q s) (\<lambda>_. holding L c A X Q)"
      by (rule triple_assume)
  qed
  then show ?thesis by (auto simp: triple_def)
qed

lemma andthen_assoc: "andthen (andthen m f) g = andthen m (\<lambda>a. andthen (f a) g)"
  by (auto simp: fun_eq_iff andthen_def split: prod.splits sum.splits)

lemma resolvedSpotFundsPnlBounds_cascade:
  "resolvedSpotFundsPnlBounds axis acc =
    andthen (andthen (wrapping ''read account for spot funds pnl bounds'' (realm (GetAccount acc))) (\<lambda>stored.
       case stored of
         Some a \<Rightarrow> ret (Account_GroupCode a, Account_EffectiveCurrency a)
       | None \<Rightarrow> andthen (wrapping ''read default group currency'' (realm (GetGroup []))) (\<lambda>dflt.
           ret ([], case dflt of None \<Rightarrow> [] | Some g \<Rightarrow> Group_Currency g))))
      (\<lambda>(groupCode, currency).
     let applies = (\<lambda>b. currency = [] \<or> Pnl_Currency b = currency);
         global = andthen (readSpotFundsPnlBoundsBarrier (pnl_target axis ScopeGlobal [] []))
           (\<lambda>bound. ret (case bound of None \<Rightarrow> None | Some b \<Rightarrow> if applies b then Some b else None))
     in if groupCode = [] then global
        else andthen (readSpotFundsPnlBoundsBarrier (pnl_target axis ScopeAccountGroup [] groupCode))
          (\<lambda>bound. case bound of
             Some b \<Rightarrow> if applies b then ret (Some b) else global
           | None \<Rightarrow> global))"
  by (simp add: resolvedSpotFundsPnlBounds_def andthen_assoc)

lemma resolvedSpotFundsPnlBounds_triple:
  assumes "TightenOnly c" and "AxisPolicy axis \<noteq> None"
  shows "triple (holding L c A X Q) (resolvedSpotFundsPnlBounds axis acc)
     (\<lambda>b s. inherited_bound X axis (A acc) = b \<and> holding L c A X Q s) (\<lambda>_. holding L c A X Q)"
proof -
  obtain grp currency where A: "A acc = (grp, currency)" by fastforce
  let ?applies = "\<lambda>b. currency = [] \<or> Pnl_Currency b = currency"
  let ?global = "andthen (readSpotFundsPnlBoundsBarrier (pnl_target axis ScopeGlobal [] []))
           (\<lambda>bound. ret (case bound of None \<Rightarrow> None | Some b \<Rightarrow> if ?applies b then Some b else None))"
  have global: "triple (holding L c A X Q) ?global
      (\<lambda>b s. applicable currency (bound_at X axis ScopeGlobal [] []) = b \<and> holding L c A X Q s)
      (\<lambda>_. holding L c A X Q)"
    by (rule triple_then[OF read_bound[OF assms(2)]]) (auto intro: triple_ret simp: applicable_def)
  have cascade: "triple (holding L c A X Q)
     (if grp = [] then ?global
        else andthen (readSpotFundsPnlBoundsBarrier (pnl_target axis ScopeAccountGroup [] grp))
          (\<lambda>bound. case bound of
             Some b \<Rightarrow> if ?applies b then ret (Some b) else ?global
           | None \<Rightarrow> ?global))
     (\<lambda>b s. inherited_bound X axis (A acc) = b \<and> holding L c A X Q s) (\<lambda>_. holding L c A X Q)"
  proof (rule triple_if)
    assume "grp = []"
    then show "triple (holding L c A X Q) ?global
      (\<lambda>b s. inherited_bound X axis (A acc) = b \<and> holding L c A X Q s) (\<lambda>_. holding L c A X Q)"
      by (intro triple_conseq[OF global]) (simp_all add: inherited_bound_def A)
  next
    assume g: "grp \<noteq> []"
    show "triple (holding L c A X Q) (andthen (readSpotFundsPnlBoundsBarrier (pnl_target axis ScopeAccountGroup [] grp))
          (\<lambda>bound. case bound of Some b \<Rightarrow> if ?applies b then ret (Some b) else ?global | None \<Rightarrow> ?global))
      (\<lambda>b s. inherited_bound X axis (A acc) = b \<and> holding L c A X Q s) (\<lambda>_. holding L c A X Q)"
    proof (rule triple_then[OF read_bound[OF assms(2)]])
      fix bound
      assume b: "bound_at X axis ScopeAccountGroup [] grp = bound"
      have fall: "triple (holding L c A X Q) ?global
          (\<lambda>b s. inherited_bound X axis (A acc) = b \<and> holding L c A X Q s) (\<lambda>_. holding L c A X Q)"
        if "applicable currency bound = None"
        by (rule triple_conseq[OF global]) (simp_all add: inherited_bound_def A g b that)
      show "triple (holding L c A X Q)
          (case bound of Some b \<Rightarrow> if ?applies b then ret (Some b) else ?global | None \<Rightarrow> ?global)
          (\<lambda>b s. inherited_bound X axis (A acc) = b \<and> holding L c A X Q s) (\<lambda>_. holding L c A X Q)"
      proof (cases bound)
        case None
        then show ?thesis using fall by (simp add: applicable_def)
      next
        case (Some v)
        then show ?thesis
          using fall by (cases "?applies v") (auto intro!: triple_ret simp: applicable_def inherited_bound_def A g b)
      qed
    qed
  qed
  show ?thesis
    unfolding resolvedSpotFundsPnlBounds_cascade
    by (rule triple_then[OF read_place[OF assms(1)]]) (use cascade in \<open>simp_all add: A Let_def\<close>)
qed

subsubsection \<open>The guard and the operation\<close>

definition pnl_guarded ::
  "('acc, 'grp, 'ast, 'v, 'd) engine_libs \<Rightarrow> (account_id \<Rightarrow> string \<times> string) \<Rightarrow> limit_pnl_bounds
     \<Rightarrow> limit_pnl_bounds option \<Rightarrow> limit_view \<Rightarrow> bool" where
  "pnl_guarded L A l prev X \<longleftrightarrow> (case prev of
       Some p \<Rightarrow> Pnl_NoLooserThan (Lib_Decimals L) l p = None
     | None \<Rightarrow>
         (Pnl_Scope l = ScopeAccountGroup \<longrightarrow> (\<forall>r. bound_at X (Pnl_Axis l) ScopeGlobal [] [] = Some r
            \<longrightarrow> Pnl_NoLooserThan (Lib_Decimals L) l r = None))
         \<and> (Pnl_Scope l = ScopeAccount \<longrightarrow> (\<forall>r. inherited_bound X (Pnl_Axis l) (A (Pnl_Account l)) = Some r
            \<longrightarrow> Pnl_NoLooserThan (Lib_Decimals L) l r = None)))"

definition pnl_put_ok ::
  "('acc, 'grp, 'ast, 'v, 'd) engine_libs \<Rightarrow> caller \<Rightarrow> (account_id \<Rightarrow> string \<times> string) \<Rightarrow> limit_pnl_bounds
     \<Rightarrow> limit_view \<Rightarrow> bool" where
  "pnl_put_ok L c A l X \<longleftrightarrow> LimitPnl_Validate (Lib_Print L) (Lib_Decimals L) l = None
     \<and> (TightenOnly c \<longrightarrow>
          pnl_guarded L A l (List.find (\<lambda>r. pnl_key r = pnl_key l) (Vw_Pnls X)) X)"

lemma guardTightenOnlySpotFundsPnlBounds_triple:
  assumes "AxisPolicy (Pnl_Axis l) \<noteq> None"
  shows "triple (holding L c A X Q) (guardTightenOnlySpotFundsPnlBounds L l prev c)
     (\<lambda>_ s. (TightenOnly c \<longrightarrow> pnl_guarded L A l prev X) \<and> holding L c A X Q s) (\<lambda>_. holding L c A X Q)"
proof (cases "TightenOnly c")
  case False
  then show ?thesis by (simp add: guardTightenOnlySpotFundsPnlBounds_def triple_ret)
next
  case T: True
  show ?thesis
  proof (cases prev)
    case (Some p)
    then show ?thesis
      by (auto simp: guardTightenOnlySpotFundsPnlBounds_def T pnl_guarded_def intro!: triple_lift_out)
  next
    case None
    have against: "triple (holding L c A X Q) (andthen m (\<lambda>ref. case ref of None \<Rightarrow> ret ()
          | Some r \<Rightarrow> lift_out (Pnl_NoLooserThan (Lib_Decimals L) l r)))
        (\<lambda>_ s. pnl_guarded L A l None X \<and> holding L c A X Q s) (\<lambda>_. holding L c A X Q)"
      if "triple (holding L c A X Q) m (\<lambda>b s. ref = b \<and> holding L c A X Q s) (\<lambda>_. holding L c A X Q)"
        and "(\<forall>r. ref = Some r \<longrightarrow> Pnl_NoLooserThan (Lib_Decimals L) l r = None) \<Longrightarrow> pnl_guarded L A l None X"
      for m ref
      by (rule triple_then[OF that(1)]) (auto intro!: triple_ret triple_lift_out that(2) split: option.splits)
    have other: "triple (holding L c A X Q) (ret ()) (\<lambda>_ s. pnl_guarded L A l None X \<and> holding L c A X Q s)
        (\<lambda>_. holding L c A X Q)"
      if "Pnl_Scope l = ScopeGlobal"
      by (rule triple_ret) (simp add: pnl_guarded_def that)
    have rest: "triple (holding L c A X Q) (raise e) R (\<lambda>_. holding L c A X Q)" for e :: go_error and R :: "unit \<Rightarrow> _"
      by (auto intro: triple_raise)
    have grp: "triple (holding L c A X Q)
        (andthen (readSpotFundsPnlBoundsBarrier (pnl_target (Pnl_Axis l) ScopeGlobal [] [])) (\<lambda>ref. case ref of None \<Rightarrow> ret ()
          | Some r \<Rightarrow> lift_out (Pnl_NoLooserThan (Lib_Decimals L) l r)))
        (\<lambda>_ s. pnl_guarded L A l None X \<and> holding L c A X Q s) (\<lambda>_. holding L c A X Q)"
      if "Pnl_Scope l = ScopeAccountGroup"
      by (rule against[OF read_bound[OF assms]]) (simp add: pnl_guarded_def that)
    have acc: "triple (holding L c A X Q)
        (andthen (resolvedSpotFundsPnlBounds (Pnl_Axis l) (Pnl_Account l)) (\<lambda>ref. case ref of None \<Rightarrow> ret ()
          | Some r \<Rightarrow> lift_out (Pnl_NoLooserThan (Lib_Decimals L) l r)))
        (\<lambda>_ s. pnl_guarded L A l None X \<and> holding L c A X Q s) (\<lambda>_. holding L c A X Q)"
      if "Pnl_Scope l = ScopeAccount"
      by (rule against[OF resolvedSpotFundsPnlBounds_triple[OF T assms]]) (simp add: pnl_guarded_def that)
    show ?thesis
      unfolding guardTightenOnlySpotFundsPnlBounds_def Let_def None
      by (simp add: T, cases "Pnl_Scope l"; simp; rule other grp acc rest; simp)
  qed
qed

lemma PutSpotFundsPnlBoundsLimit_triple:
  "triple (stands L c A X X) (PutSpotFundsPnlBoundsLimit L l missing c)
    (\<lambda>_. becomes L c A X (put_pnl l X) (pnl_put_ok L c A l X))
    (\<lambda>_. becomes L c A X (put_pnl l X) (pnl_put_ok L c A l X))"
proof (rule triple_view)
  assume ok: "view_ok L X"
  let ?Z = "becomes L c A X (put_pnl l X) (pnl_put_ok L c A l X)"
  show "triple (stands L c A X X) (PutSpotFundsPnlBoundsLimit L l missing c) (\<lambda>_. ?Z) (\<lambda>_. ?Z)"
  proof (cases "AxisPolicy (Pnl_Axis l)")
    case None
    then show ?thesis
      unfolding PutSpotFundsPnlBoundsLimit_def
      by (intro triple_then_keeps[OF keeps_begin]) (auto intro: triple_raise)
  next
    case (Some policy)
    let ?t = "\<lparr> Tgt_Policy = policy, Tgt_Scope = Pnl_Scope l, Tgt_Account = Pnl_Account l,
               Tgt_AccountGroup = Pnl_AccountGroup l, Tgt_Asset = [] \<rparr>"
    have read: "triple (stands L c A X X) (readSpotFundsPnlBoundsBarrier ?t)
        (\<lambda>prev s. List.find (\<lambda>r. pnl_key r = pnl_key l) (Vw_Pnls X) = prev \<and> stands L c A X X s)
        (\<lambda>_. stands L c A X X)"
      using read_pnl_barrier[of "Pnl_Axis l" ?t L c A X "live L X"] Some by (simp add: pnl_key_def)
    have guardtriple: "triple (stands L c A X X) (guardTightenOnlySpotFundsPnlBounds L l prev c)
        (\<lambda>_ s. (TightenOnly c \<longrightarrow> pnl_guarded L A l prev X) \<and> stands L c A X X s) (\<lambda>_. stands L c A X X)"
      for prev
      by (rule guardTightenOnlySpotFundsPnlBounds_triple) (simp add: Some)
    have commit: "commits L c A X (put_pnl l X) (LimitPnl_Validate (Lib_Print L) (Lib_Decimals L) l = None)
       (realm (store_PutSpotFundsPnlBoundsLimit (Lib_Print L) (Lib_Decimals L) l))"
      by (rule commits_realm) (rule store_PutSpotFundsPnlBoundsLimit_at)
    have commit': "triple (stands L c A X X)
        (andthen (wrapping w (realm (store_PutSpotFundsPnlBoundsLimit (Lib_Print L) (Lib_Decimals L) l))) (\<lambda>_.
          wrapping w' (applyPolicyChangeLocked L policy (revertSpotFundsPnlBoundsBarrier L ?t prev))))
        (\<lambda>_. ?Z) (\<lambda>_. ?Z)"
      if "List.find (\<lambda>r. pnl_key r = pnl_key l) (Vw_Pnls X) = prev"
        and "TightenOnly c \<longrightarrow> pnl_guarded L A l prev X" for prev w w'
      by (rule triple_commit_apply[OF commit pnl_reverts[OF ok _ _ _ _ _ that(1)] pnl_same_but(1)[OF ok Some refl]])
         (use that Some in \<open>simp_all add: pnl_put_ok_def\<close>)
    show ?thesis
      unfolding PutSpotFundsPnlBoundsLimit_def Let_def Some option.case
      apply (rule triple_then_keeps[OF keeps_begin], erule becomes_same)
      apply (rule triple_then[OF read], erule becomes_same)
      apply (rule triple_wrapping_then[OF guardtriple], erule becomes_same)
      apply (rule triple_then_keeps[OF keeps_ensureLimitAccount], erule becomes_same)
      apply (subst andthen_assoc[symmetric])
      apply (rule triple_audited)
      apply (erule (1) commit')
      done
  qed
qed

subsection \<open>The limit mode\<close>

lemma next_answer_total: "triple (holding L c A X Q) next_answer (\<lambda>_. holding L c A X Q) E"
  by (auto simp: triple_def next_answer_def holding_def split: list.splits)

lemma set_mode_enforces:
  assumes "SetSpotFundsTrackOnly L answer b eng = (Inr u, eng')" and "enforces L X eng"
    and "track_only (set_mode v X) \<longleftrightarrow> b"
  shows "enforces L (set_mode v X) eng'"
proof -
  have eng': "eng' = eng\<lparr>Eng_TrackOnly := b\<rparr>"
    using assms(1) by (auto simp: SetSpotFundsTrackOnly_def reads_def configure_call_Inr split: if_split_asm)
  have "rates_live (set_mode v X) eng' = rates_live X eng" "sizes_live L (set_mode v X) eng' = sizes_live L X eng"
    "axis_live L (set_mode v X) eng' axis = axis_live L X eng axis" for axis
    by (simp_all add: eng' set_mode_def rates_live_def sizes_live_def axis_live_def)
  then show ?thesis using assms(2,3) by (simp add: enforces_clauses eng')
qed

lemma set_mode_in_force:
  assumes "SetSpotFundsTrackOnly L answer b eng = (Inr u, eng')" and "in_force L X eng"
    and "track_only (set_mode v X) \<longleftrightarrow> b"
  shows "in_force L (set_mode v X) eng'"
proof -
  have "Eng_Landed eng' = Eng_Landed eng"
    using assms(1) by (auto simp: SetSpotFundsTrackOnly_def reads_def configure_call_Inr split: if_split_asm)
  then show ?thesis using assms(2) set_mode_enforces[OF assms(1) _ assms(3)] by (simp add: in_force_def)
qed

lemma set_mode_Inl:
  assumes "SetSpotFundsTrackOnly L answer b eng = (Inl e, eng')" and "in_force L X eng"
  shows "in_force L X eng'"
proof -
  have "broken PolicySpotFundsLimitMode eng eng'"
    using assms(1)
    by (auto simp: SetSpotFundsTrackOnly_def reads_def raise_def ret_def andthen_Inl broken_def split: if_split_asm
        dest!: configure_call_Inl)
  moreover have "SpotFundsPnlAxisOf PolicySpotFundsLimitMode = None"
    by (simp add: SpotFundsPnlAxisOf_def SpotFundsPnlAxes_def)
  ultimately show ?thesis using broken_in_force assms(2) by blast
qed

lemma applySpotFundsLimitMode_triple:
  assumes "\<And>m. next = Some m \<Longrightarrow> ValidateSpotFundsLimitMode m = None"
  shows "triple (stands L c A X X) (applySpotFundsLimitMode L c' next action acc)
     (\<lambda>_. becomes L c A X (set_mode (map_option limit_mode_text next) X) True)
     (\<lambda>_. becomes L c A X (set_mode (map_option limit_mode_text next) X) True)"
proof -
  let ?v = "map_option limit_mode_text next"
  let ?Y = "set_mode ?v X"
  let ?Z = "becomes L c A X ?Y True"
  have b: "track_only ?Y \<longleftrightarrow> next = Some SpotFundsLimitModeTrackOnly"
  proof (cases "next")
    case (Some m)
    then show ?thesis
      using assms[OF Some] by (cases m) (simp_all add: ValidateSpotFundsLimitMode_def track_only_def set_mode_def)
  qed (simp add: track_only_def set_mode_def)
  have put: "commits L c A Z (set_mode w Z) True (case w of
        Some v \<Rightarrow> realm (SetSetting SettingKeySpotFundsLimitMode v)
      | None \<Rightarrow> realm (DeleteSetting SettingKeySpotFundsLimitMode))" for w Z
    by (cases w) (simp_all add: commits_realm SetSetting_at DeleteSetting_at)
  have "commits L c A X ?Y True (case next of
         None \<Rightarrow> realm (DeleteSetting SettingKeySpotFundsLimitMode)
       | Some m \<Rightarrow> realm (SetSetting SettingKeySpotFundsLimitMode (limit_mode_text m)))"
    using put[of X ?v] by (cases "next") simp_all
  then have wrote: "triple (stands L c A X X) (case next of
         None \<Rightarrow> realm (DeleteSetting SettingKeySpotFundsLimitMode)
       | Some m \<Rightarrow> realm (SetSetting SettingKeySpotFundsLimitMode (limit_mode_text m)))
     (\<lambda>_. stands L c A ?Y X) (\<lambda>_. ?Z)"
    by (intro triple_conseq[OF commitsD]) auto
  have undone: "set_mode (Vw_Mode X) ?Y = X" by (simp add: set_mode_def)
  have engine: "triple (stands L c A ?Y X) (engine_step (SetSpotFundsTrackOnly L answer b'))
      (\<lambda>_. stands L c A ?Y ?Y) (\<lambda>_. stands L c A ?Y X)"
    if "b' = (next = Some SpotFundsLimitModeTrackOnly)" for answer b'
    using set_mode_in_force[where v = ?v and X = X and L = L] set_mode_Inl b that
    by (fastforce simp: triple_def engine_step_def holding_def live_def split: prod.splits sum.splits)
  have revert: "triple (stands L c A ?Y X)
      (handle (case Vw_Mode X of
            Some v \<Rightarrow> realm (SetSetting SettingKeySpotFundsLimitMode v)
          | None \<Rightarrow> realm (DeleteSetting SettingKeySpotFundsLimitMode))
          (\<lambda>e'. fatal (Wrap ''revert spot funds limit mode'' e'))
          (\<lambda>_. raise e)) (\<lambda>_. ?Z) (\<lambda>_. ?Z)" for e
  proof (rule triple_handle[OF commitsD[OF put]])
    show "triple (\<lambda>s. True \<and> holding L c A (set_mode (Vw_Mode X) ?Y) (live L X) s) (raise e) (\<lambda>_. ?Z) (\<lambda>_. ?Z)"
      unfolding undone by (auto intro: triple_raise)
    show "triple (\<lambda>s. stands L c A ?Y X s \<or> True \<and> adrift L c A (set_mode (Vw_Mode X) ?Y) s)
        (fatal (Wrap ''revert spot funds limit mode'' e')) (\<lambda>_. ?Z) (\<lambda>_. ?Z)" for e'
      unfolding undone
      by (auto simp: triple_def fatal_def op_defs holding_def live_def becomes_def adrift_def)
  qed
  show ?thesis
    unfolding applySpotFundsLimitMode_def
    apply (rule triple_then[OF read_mode], erule becomes_same)
    apply (rule triple_andthen[OF wrote])
    apply (rule triple_andthen[OF next_answer_total])
    apply hypsubst
    apply (rule triple_handle[OF engine[OF refl] _ revert])
    apply (rule triple_conseq[OF triple_keeps[OF keeps_log(3)[OF steady_live]]])
      apply (auto simp: becomes_def)
    done
qed

lemma mode_validated: "triple P (lift_out (ValidateSpotFundsLimitMode m))
    (\<lambda>_ s. ValidateSpotFundsLimitMode m = None \<and> P s) (\<lambda>_. P)"
  by (rule triple_lift_out) auto

definition mode_put_ok :: "caller \<Rightarrow> limit_mode \<Rightarrow> limit_view \<Rightarrow> bool" where
  "mode_put_ok c m X \<longleftrightarrow> ValidateSpotFundsLimitMode m = None
     \<and> (TightenOnly c \<longrightarrow> (\<exists>prev. mode_in_force X = Some prev \<and> Mode_NoLooserThan m prev = None))"

lemma becomes_mono: "becomes L c A X Y G s \<Longrightarrow> (G \<Longrightarrow> G') \<Longrightarrow> becomes L c A X Y G' s"
  by (auto simp: becomes_def)

lemma SetSpotFundsLimitMode_triple:
  "triple (stands L c A X X) (SetSpotFundsLimitMode L m c)
    (\<lambda>_. becomes L c A X (set_mode (Some (limit_mode_text m)) X) (mode_put_ok c m X))
    (\<lambda>_. becomes L c A X (set_mode (Some (limit_mode_text m)) X) (mode_put_ok c m X))"
proof -
  have guard: "triple P (if TightenOnly c then lift_out (map_option f (Mode_NoLooserThan m prev)) else ret ())
     (\<lambda>_ s. (TightenOnly c \<longrightarrow> Mode_NoLooserThan m prev = None) \<and> P s) (\<lambda>_. P)" for P f prev
    by (auto intro: triple_ret triple_lift_out)
  have apply_mode: "triple (stands L c A X X) (wrapping w (applySpotFundsLimitMode L c (Some m) AuditActionSetLimit []))
     (\<lambda>_. becomes L c A X (set_mode (Some (limit_mode_text m)) X) (mode_put_ok c m X))
     (\<lambda>_. becomes L c A X (set_mode (Some (limit_mode_text m)) X) (mode_put_ok c m X))"
    if "mode_put_ok c m X" for w
    by (rule triple_wrapping, rule triple_conseq[OF applySpotFundsLimitMode_triple])
       (use that in \<open>auto simp: mode_put_ok_def intro: becomes_mono\<close>)
  show ?thesis
    unfolding SetSpotFundsLimitMode_def
    apply (rule triple_then[OF mode_validated], erule becomes_same)
    apply (rule triple_then_keeps[OF keeps_begin], erule becomes_same)
    apply (rule triple_wrapping_then[OF read_stored_mode], erule becomes_same)
    apply (rule triple_then[OF guard], erule becomes_same)
    apply (rule apply_mode)
    apply (simp add: mode_put_ok_def)
    done
qed

lemma deleteSpotFundsLimitMode_triple:
  "triple (stands L c A X X) (deleteSpotFundsLimitMode L t c)
    (\<lambda>_. becomes L c A X (set_mode None X) True) (\<lambda>_. becomes L c A X (set_mode None X) True)"
  unfolding deleteSpotFundsLimitMode_def
  apply (rule triple_then_keeps[OF keeps_lift_out], erule becomes_same)
  apply (rule triple_then_keeps[OF keeps_begin], erule becomes_same)
  apply (rule triple_wrapping)
  apply (rule applySpotFundsLimitMode_triple[of None, simplified])
  done

subsection \<open>Deletions\<close>

definition drop_target :: "limit_target \<Rightarrow> limit_view \<Rightarrow> limit_view" where
  "drop_target t X =
     (if Tgt_Policy t = PolicyRateLimit then drop_rate (Tgt_Scope t, Tgt_Account t, Tgt_Asset t) X
      else if Tgt_Policy t = PolicyOrderSizeLimit then drop_size (Tgt_Scope t, Tgt_Account t, Tgt_Asset t) X
      else case SpotFundsPnlAxisOf (Tgt_Policy t) of
        Some axis \<Rightarrow> drop_pnl (axis, Tgt_Scope t, Tgt_Account t, Tgt_AccountGroup t) X
      | None \<Rightarrow> X)"

lemma read_rate_barrier:
  "triple (holding L c A X Q) (readRateBarrier t)
     (\<lambda>prev s. List.find (\<lambda>r. rate_key r = (Tgt_Scope t, Tgt_Account t, Tgt_Asset t)) (Vw_Rates X) = prev
        \<and> holding L c A X Q s) (\<lambda>_. holding L c A X Q)"
  unfolding readRateBarrier_def
  by (rule triple_wrapping_then[OF read_rates]) (auto intro: triple_ret simp: rate_key_def)

lemma deleteBarrier_triple:
  assumes ok: "view_ok L X"
  shows "triple (stands L c A X X) (deleteBarrier L t)
     (\<lambda>revert s. (reverts L c A (drop_target t X) X revert \<and> same_but (Tgt_Policy t) (drop_target t X) X)
        \<and> stands L c A (drop_target t X) X s) (\<lambda>_. becomes L c A X (drop_target t X) True)"
proof -
  let ?k = "(Tgt_Scope t, Tgt_Account t, Tgt_Asset t)"
  note rate = rate_table.found[OF conjunct1[OF rate_rows.view_rows[OF ok]] conjunct2[OF rate_rows.view_rows[OF ok]]]
  note cap = size_table.found[OF conjunct1[OF size_rows.view_rows[OF ok]] conjunct2[OF size_rows.view_rows[OF ok]]]
  note pnl = pnl_table.found[OF conjunct1[OF pnl_rows.view_rows[OF ok]] conjunct2[OF pnl_rows.view_rows[OF ok]]]
  have rate_back: "reverts L c A (drop_rate ?k X) X (revertRateBarrier L t prev)"
    if "List.find (\<lambda>r. rate_key r = ?k) (Vw_Rates X) = prev" "?k \<in> rate_key ` set (Vw_Rates X)" for prev
  proof (cases prev)
    case (Some p)
    then have "p \<in> set (Vw_Rates X)" "rate_key p = ?k" using that(1) rate(1) by blast+
    then show ?thesis using rate_rows.undo_drop[OF ok, of p]
      by (simp add: revertRateBarrier_def Some commits_wrapping)
  qed (use that rate(2) in blast)
  have size_back: "reverts L c A (drop_size ?k X) X (revertOrderSizeBarrier L t prev)"
    if "List.find (\<lambda>r. size_key r = ?k) (Vw_Sizes X) = prev" "?k \<in> size_key ` set (Vw_Sizes X)" for prev
  proof (cases prev)
    case (Some p)
    then have "p \<in> set (Vw_Sizes X)" "size_key p = ?k" using that(1) cap(1) by blast+
    then show ?thesis using size_rows.undo_drop[OF ok, of p]
      by (simp add: revertOrderSizeBarrier_def Some commits_wrapping)
  qed (use that cap(2) in blast)
  have pnl_back: "reverts L c A (drop_pnl k X) X (revertSpotFundsPnlBoundsBarrier L t prev)
      \<and> same_but (Tgt_Policy t) (drop_pnl k X) X"
    if "List.find (\<lambda>r. pnl_key r = k) (Vw_Pnls X) = prev" "k \<in> pnl_key ` set (Vw_Pnls X)"
      "k = (axis, Tgt_Scope t, Tgt_Account t, Tgt_AccountGroup t)" "AxisPolicy axis = Some (Tgt_Policy t)"
    for prev k axis
  proof (cases prev)
    case (Some p)
    then have p: "p \<in> set (Vw_Pnls X)" "pnl_key p = k" using that(1) pnl(1) by blast+
    then have "AxisPolicy (Pnl_Axis p) = Some (Tgt_Policy t)" using that(3,4) by (simp add: pnl_key_def)
    then show ?thesis using pnl_rows.undo_drop[OF ok, of p] p(1) pnl_same_but(2)[OF ok _ refl, of p] p(2)
      by (simp add: revertSpotFundsPnlBoundsBarrier_def Some commits_wrapping)
  qed (use that pnl(2) in blast)
  have rate_drop: "commits L c A X (drop_rate ?k X) (?k \<in> rate_key ` set (Vw_Rates X))
      (realm (store_DeleteRateLimit (Tgt_Scope t) (Tgt_Account t) (Tgt_Asset t)))"
    by (rule commits_realm) (rule store_DeleteRateLimit_at)
  have size_drop: "commits L c A X (drop_size ?k X) (?k \<in> size_key ` set (Vw_Sizes X))
      (realm (store_DeleteOrderSizeLimit (Tgt_Scope t) (Tgt_Account t) (Tgt_Asset t)))"
    by (rule commits_realm) (rule store_DeleteOrderSizeLimit_at)
  have pnl_drop: "commits L c A X (drop_pnl (axis, Tgt_Scope t, Tgt_Account t, Tgt_AccountGroup t) X)
      ((axis, Tgt_Scope t, Tgt_Account t, Tgt_AccountGroup t) \<in> pnl_key ` set (Vw_Pnls X))
      (realm (store_DeleteSpotFundsPnlBoundsLimit axis (Tgt_Scope t) (Tgt_Account t) (Tgt_AccountGroup t)))"
    for axis
    by (rule commits_realm) (rule store_DeleteSpotFundsPnlBoundsLimit_at)
  have drops: "same_but PolicyRateLimit (drop_rate ?k X) X" "same_but PolicyOrderSizeLimit (drop_size ?k X) X"
    by (simp_all add: same_but_def drop_rate_def drop_size_def)
  show ?thesis
  proof (cases "SpotFundsPnlAxisOf (Tgt_Policy t)")
    case None
    show ?thesis
      unfolding deleteBarrier_def
      apply (rule triple_if)
       apply (rule triple_then[OF read_rate_barrier], erule becomes_same)
       apply (rule triple_commit_then[OF rate_drop], erule becomes_same, simp add: drop_target_def becomes_adrift)
       apply (rule triple_ret)
       apply (simp add: drop_target_def rate_back drops)
      apply (rule triple_if)
       apply (rule triple_then[OF read_size_barrier], erule becomes_same)
       apply (rule triple_commit_then[OF size_drop], erule becomes_same, simp add: drop_target_def becomes_adrift)
       apply (rule triple_ret)
       apply (simp add: drop_target_def size_back drops)
      apply (auto simp: None intro: triple_raise)
      done
  next
    case (Some axis)
    then have policy: "AxisPolicy axis = Some (Tgt_Policy t)" "Tgt_Policy t \<noteq> PolicyRateLimit"
      "Tgt_Policy t \<noteq> PolicyOrderSizeLimit"
      by (auto simp: SpotFundsPnlAxisOf_iff)
    have "triple (stands L c A X X)
      (andthen (readSpotFundsPnlBoundsBarrier t) (\<lambda>prev.
         andthen (wrapping ''delete spot funds pnl-bounds limit''
            (realm (store_DeleteSpotFundsPnlBoundsLimit axis (Tgt_Scope t) (Tgt_Account t) (Tgt_AccountGroup t)))) (\<lambda>_.
         ret (revertSpotFundsPnlBoundsBarrier L t prev))))
      (\<lambda>revert s. (reverts L c A (drop_target t X) X revert \<and> same_but (Tgt_Policy t) (drop_target t X) X)
        \<and> stands L c A (drop_target t X) X s) (\<lambda>_. becomes L c A X (drop_target t X) True)"
      apply (rule triple_then[OF read_pnl_barrier[OF policy(1)]], erule becomes_same)
      apply (rule triple_commit_then[OF pnl_drop], erule becomes_same, simp add: drop_target_def policy Some becomes_adrift)
      apply (rule triple_ret)
      apply (simp add: drop_target_def policy Some pnl_back)
      done
    then show ?thesis by (simp add: deleteBarrier_def policy Some)
  qed
qed

lemma triple_lifecycle_delete:
  assumes "shows_view Y snap"
    and "commits L c A X Y \<phi> commit"
  shows "triple (stands L c A X X)
     (andthen (replaceEngineForPolicyLifecycle L snap commit) (\<lambda>_. ret True))
     (\<lambda>b s. if b then becomes L c A X Y True s else stands L c A X X s) (\<lambda>_. becomes L c A X Y True)"
proof (rule triple_andthen)
  show "triple (stands L c A X X) (replaceEngineForPolicyLifecycle L snap commit) (\<lambda>_. stands L c A Y Y)
      (\<lambda>_. becomes L c A X Y True)"
    by (rule triple_conseq[OF replaceEngineForPolicyLifecycle_triple[OF assms]]) (auto simp: becomes_def)
  show "triple (stands L c A Y Y) (ret True)
      (\<lambda>b s. if b then becomes L c A X Y True s else stands L c A X X s) (\<lambda>_. becomes L c A X Y True)"
    by (rule triple_ret) (simp add: becomes_def)
qed

lemma one_row:
  assumes "length xs = 1" and "p \<in> set xs"
  shows "xs = [p]"
  using assms by (cases xs) auto

lemma deleteLastPolicyBarrierPrepared_triple:
  assumes ok: "view_ok L X"
  shows "triple (stands L c A X X) (deleteLastPolicyBarrierPrepared L t)
     (\<lambda>b s. if b then becomes L c A X (drop_target t X) True s else stands L c A X X s)
     (\<lambda>_. becomes L c A X (drop_target t X) True)"
proof -
  let ?k = "(Tgt_Scope t, Tgt_Account t, Tgt_Asset t)" and ?Y = "drop_target t X"
  note rate = rate_table.found[OF conjunct1[OF rate_rows.view_rows[OF ok]] conjunct2[OF rate_rows.view_rows[OF ok]]]
  note cap = size_table.found[OF conjunct1[OF size_rows.view_rows[OF ok]] conjunct2[OF size_rows.view_rows[OF ok]]]
  have no: "triple (stands L c A X X) (ret False)
     (\<lambda>b s. if b then becomes L c A X ?Y True s else stands L c A X X s) (\<lambda>_. becomes L c A X ?Y True)"
    by (rule triple_ret) simp
  have rate_last: "triple (stands L c A X X)
      (andthen (replaceEngineForPolicyLifecycle L (snap\<lparr>Es_RateLimits := []\<rparr>)
        (realm (store_DeleteRateLimit (Rate_Scope p) (Rate_Account p) (Rate_Asset p)))) (\<lambda>_. ret True))
      (\<lambda>b s. if b then becomes L c A X ?Y True s else stands L c A X X s) (\<lambda>_. becomes L c A X ?Y True)"
    if "Tgt_Policy t = PolicyRateLimit" "List.find (\<lambda>r. rate_key r = ?k) (Vw_Rates X) = Some p"
      "length (Vw_Rates X) = 1" "shows_view X snap" for p snap
  proof -
    have p: "p \<in> set (Vw_Rates X)" "rate_key p = ?k" using that(2) rate(1) by blast+
    then have "Vw_Rates X = [p]" using one_row[OF that(3)] by simp
    moreover have y: "?Y = drop_rate (Rate_Scope p, Rate_Account p, Rate_Asset p) X"
      using that(1) p(2) by (simp add: drop_target_def rate_key_def)
    ultimately have v: "shows_view (drop_rate (Rate_Scope p, Rate_Account p, Rate_Asset p) X) (snap\<lparr>Es_RateLimits := []\<rparr>)"
      using that(4) by (simp add: shows_view_def drop_rate_def deleteLimitRow_def track_only_def rate_key_def)
    show ?thesis unfolding y by (rule triple_lifecycle_delete[OF v commits_realm[OF store_DeleteRateLimit_at]])
  qed
  have size_last: "triple (stands L c A X X)
      (andthen (replaceEngineForPolicyLifecycle L (snap\<lparr>Es_OrderSizeLimits := []\<rparr>)
        (realm (store_DeleteOrderSizeLimit (Size_Scope p) (Size_Account p) (Size_Asset p)))) (\<lambda>_. ret True))
      (\<lambda>b s. if b then becomes L c A X ?Y True s else stands L c A X X s) (\<lambda>_. becomes L c A X ?Y True)"
    if "Tgt_Policy t = PolicyOrderSizeLimit" "List.find (\<lambda>r. size_key r = ?k) (Vw_Sizes X) = Some p"
      "length (Vw_Sizes X) = 1" "shows_view X snap" for p snap
  proof -
    have p: "p \<in> set (Vw_Sizes X)" "size_key p = ?k" using that(2) cap(1) by blast+
    then have "Vw_Sizes X = [p]" using one_row[OF that(3)] by simp
    moreover have y: "?Y = drop_size (Size_Scope p, Size_Account p, Size_Asset p) X"
      using that(1) p(2) by (simp add: drop_target_def size_key_def)
    ultimately have v: "shows_view (drop_size (Size_Scope p, Size_Account p, Size_Asset p) X) (snap\<lparr>Es_OrderSizeLimits := []\<rparr>)"
      using that(4) by (simp add: shows_view_def drop_size_def deleteLimitRow_def track_only_def size_key_def)
    show ?thesis unfolding y by (rule triple_lifecycle_delete[OF v commits_realm[OF store_DeleteOrderSizeLimit_at]])
  qed
  show ?thesis
    unfolding deleteLastPolicyBarrierPrepared_def
    apply (rule triple_if)
     apply (rule triple_then[OF read_rate_barrier], erule becomes_same)
     apply (rule triple_wrapping_then[OF read_rates], erule becomes_same)
    subgoal for prev limits
      apply (cases prev; simp add: no)
      apply (rule impI)
      apply (rule triple_wrapping_then[OF loadSnapshot_shows], erule becomes_same)
      apply (rule rate_last[unfolded if_bool_eq_conj]; simp)
      done
    apply (rule triple_if)
     apply (rule triple_then[OF read_size_barrier], erule becomes_same)
     apply (rule triple_wrapping_then[OF read_sizes], erule becomes_same)
    subgoal for prev limits
      apply (cases prev; simp add: no)
      apply (rule impI)
      apply (rule triple_wrapping_then[OF loadSnapshot_shows], erule becomes_same)
      apply (rule size_last[unfolded if_bool_eq_conj]; simp)
      done
    apply (rule no)
    done
qed

text \<open>What a deletion leaves: the mode of before the choice, or the view without the barrier.\<close>

definition delete_view :: "limit_target \<Rightarrow> limit_view \<Rightarrow> limit_view" where
  "delete_view t X =
     (if Tgt_Policy t = PolicySpotFundsLimitMode then set_mode None X else drop_target t X)"

definition delete_ok :: "caller \<Rightarrow> limit_target \<Rightarrow> bool" where
  "delete_ok c t \<longleftrightarrow> (TightenOnly c \<longrightarrow> Tgt_Policy t = PolicySpotFundsLimitMode)"

lemma DeleteLimit_triple:
  "triple (stands L c A X X) (DeleteLimit L t c)
    (\<lambda>_. becomes L c A X (delete_view t X) (delete_ok c t))
    (\<lambda>_. becomes L c A X (delete_view t X) (delete_ok c t))"
proof (rule triple_view)
  assume ok: "view_ok L X"
  let ?Z = "becomes L c A X (drop_target t X) True"
  have apply_drop: "triple (stands L c A X X) (andthen (deleteBarrier L t) (\<lambda>revert.
            wrapping w (applyPolicyChangeLocked L (Tgt_Policy t) revert))) (\<lambda>_. ?Z) (\<lambda>_. ?Z)" for w
  proof (rule triple_andthen[OF deleteBarrier_triple[OF ok]], rule triple_assume)
    fix revert
    assume r: "reverts L c A (drop_target t X) X revert \<and> same_but (Tgt_Policy t) (drop_target t X) X"
    show "triple (stands L c A (drop_target t X) X) (wrapping w (applyPolicyChangeLocked L (Tgt_Policy t) revert))
        (\<lambda>_. ?Z) (\<lambda>_. ?Z)"
      by (rule triple_wrapping, rule triple_conseq[OF applyPolicyChangeLocked_triple]) (use r in \<open>auto intro: becomes_settled\<close>)
  qed
  show "triple (stands L c A X X) (DeleteLimit L t c)
    (\<lambda>_. becomes L c A X (delete_view t X) (delete_ok c t))
    (\<lambda>_. becomes L c A X (delete_view t X) (delete_ok c t))"
  proof (cases "Tgt_Policy t = PolicySpotFundsLimitMode")
    case True
    then show ?thesis
      using deleteSpotFundsLimitMode_triple by (simp add: DeleteLimit_def delete_view_def delete_ok_def)
  next
    case False
    show ?thesis
    proof (cases "TightenOnly c")
      case True
      then show ?thesis using False by (auto simp: DeleteLimit_def intro: triple_raise)
    next
      case nt: False
      have "triple (stands L c A X X) (andthen beginLivePolicyConfiguration (\<lambda>_.
        andthen (wrapping ''delete last policy barrier'' (deleteLastPolicyBarrierPrepared L t)) (\<lambda>prepared.
        andthen (if prepared then ret ()
          else andthen (deleteBarrier L t) (\<lambda>revert.
            wrapping ''configure policy after delete limit''
              (applyPolicyChangeLocked L (Tgt_Policy t) revert))) (\<lambda>_.
        audit_change c AuditActionDeleteLimit (Tgt_Account t))))) (\<lambda>_. ?Z) (\<lambda>_. ?Z)"
        apply (rule triple_then_keeps[OF keeps_begin], erule becomes_same)
        apply (rule triple_andthen[OF triple_wrapping[OF deleteLastPolicyBarrierPrepared_triple[OF ok]]])
        apply (rule triple_audited)
        subgoal for prepared using apply_drop by (cases prepared) (auto intro: triple_ret)
        done
      then show ?thesis using False nt by (simp add: DeleteLimit_def delete_view_def delete_ok_def)
    qed
  qed
qed

subsection \<open>Requests\<close>

datatype limit_request =
    PutRate limit_rate missing_account_policy
  | PutSize limit_order_size missing_account_policy
  | PutPnl limit_pnl_bounds missing_account_policy
  | SetMode limit_mode
  | Delete limit_target

fun serve ::
  "('acc, 'grp, 'ast, 'v, 'd) engine_libs \<Rightarrow> caller \<Rightarrow> limit_request \<Rightarrow> ('acc, 'grp, 'ast, 'v, unit) node_op" where
  "serve L c (PutRate l missing) = PutRateLimit L l missing c"
| "serve L c (PutSize l missing) = PutOrderSizeLimit L l missing c"
| "serve L c (PutPnl l missing) = PutSpotFundsPnlBoundsLimit L l missing c"
| "serve L c (SetMode m) = SetSpotFundsLimitMode L m c"
| "serve L c (Delete t) = DeleteLimit L t c"

fun requested :: "limit_request \<Rightarrow> limit_view \<Rightarrow> limit_view" where
  "requested (PutRate l missing) X = put_rate l X"
| "requested (PutSize l missing) X = put_size l X"
| "requested (PutPnl l missing) X = put_pnl l X"
| "requested (SetMode m) X = set_mode (Some (limit_mode_text m)) X"
| "requested (Delete t) X = delete_view t X"

fun request_ok ::
  "('acc, 'grp, 'ast, 'v, 'd) engine_libs \<Rightarrow> caller \<Rightarrow> (account_id \<Rightarrow> string \<times> string) \<Rightarrow> limit_request
     \<Rightarrow> limit_view \<Rightarrow> bool" where
  "request_ok L c A (PutRate l missing) X = rate_put_ok L c l X"
| "request_ok L c A (PutSize l missing) X = size_put_ok L c l X"
| "request_ok L c A (PutPnl l missing) X = pnl_put_ok L c A l X"
| "request_ok L c A (SetMode m) X = mode_put_ok c m X"
| "request_ok L c A (Delete t) X = delete_ok c t"

theorem serve_triple:
  "triple (stands L c A X X) (serve L c req)
     (\<lambda>_. becomes L c A X (requested req X) (request_ok L c A req X))
     (\<lambda>_. becomes L c A X (requested req X) (request_ok L c A req X))"
  by (cases req) (simp_all add: PutRateLimit_triple PutOrderSizeLimit_triple
      PutSpotFundsPnlBoundsLimit_triple SetSpotFundsLimitMode_triple DeleteLimit_triple)

end
