(* ===== verification/LimitPromise.thy ===== *)
theory LimitPromise
  imports LimitSteps Strictness
begin

section \<open>What limit operations promise\<close>

text \<open>
  Two promises over any sequence of limit operations, whatever the store and the engine library
  answer: the live engine enforces what the store holds or the fatal hook was called, unless a
  failing store call took effect or a failing rate, size or mode change broke off; and callers
  that may only tighten never loosen what is admitted. What a set of barriers admits follows the
  precedence that the tighten-only guards document: an account's order-size cap overrides the
  cap of its kind on the asset, the broker cap applies on top, and the P\&L bound of an account is
  its own, else its group's, else the global one, the first in its currency.
\<close>

subsection \<open>Runs\<close>

text \<open>One step serves one request of one caller; the faults of the store and the answers of the
  engine library are chosen anew.\<close>

inductive limit_step ::
  "('acc, 'grp, 'ast, 'v, 'd) engine_libs \<Rightarrow> (caller \<Rightarrow> bool) \<Rightarrow> ('acc, 'grp, 'ast, 'v) limit_node
     \<Rightarrow> ('acc, 'grp, 'ast, 'v) limit_node \<Rightarrow> bool" for L may where
  "may c \<Longrightarrow> limit_step L may s (snd (serve L c req (s\<lparr>N_Faults := faults, N_Answers := answers\<rparr>)))"

definition in_step :: "('acc, 'grp, 'ast, 'v, 'd) engine_libs \<Rightarrow> ('acc, 'grp, 'ast, 'v) limit_node \<Rightarrow> bool" where
  "in_step L s \<longleftrightarrow> tables_ok L (N_Db s)
     \<and> (N_Fatal s = [] \<and> N_Lost s = 0 \<longrightarrow> in_force L (view_of (N_Db s)) (N_Engine s))"

lemma in_step_stands:
  "in_step L s \<longleftrightarrow> stands L c (account_place (N_Db s)) (view_of (N_Db s)) (view_of (N_Db s)) s"
  by (auto simp: in_step_def holding_def db_at_def live_def)

lemma stands_in_step: "stands L c A X X s \<Longrightarrow> in_step L s"
  by (auto simp: in_step_def holding_def db_at_def live_def)

lemma serve_becomes:
  assumes "in_step L s"
  shows "becomes L c (account_place (N_Db s)) (view_of (N_Db s)) (requested req (view_of (N_Db s)))
     (request_ok L c (account_place (N_Db s)) req (view_of (N_Db s)))
     (snd (serve L c req (s\<lparr>N_Faults := faults, N_Answers := answers\<rparr>)))"
proof -
  let ?s = "s\<lparr>N_Faults := faults, N_Answers := answers\<rparr>"
  obtain r t where t: "serve L c req ?s = (r, t)" by fastforce
  have s: "stands L c (account_place (N_Db s)) (view_of (N_Db s)) (view_of (N_Db s)) ?s"
    using assms in_step_stands[of L s c] by (simp add: holding_def)
  show ?thesis
    unfolding t snd_conv
    using triple_Inr[OF serve_triple s, of req] triple_Inl[OF serve_triple s, of req] t by (cases r) auto
qed

lemma limit_step_in_step: "limit_step L may s t \<Longrightarrow> in_step L s \<Longrightarrow> in_step L t"
  by (induction rule: limit_step.induct)
     (use serve_becomes in \<open>fastforce simp: becomes_def intro: stands_in_step\<close>)

lemma limit_steps_in_step: "(limit_step L may)\<^sup>*\<^sup>* s t \<Longrightarrow> in_step L s \<Longrightarrow> in_step L t"
  by (induction rule: rtranclp_induct) (blast intro: limit_step_in_step)+

text \<open>A node starts with an engine built from its store.\<close>

lemma started_in_step:
  assumes "tables_ok L (N_Db s)" and "rebuildEngineFromStore L s = (Inr u, t)"
  shows "in_step L t"
proof -
  have "stored L c (account_place (N_Db s)) (view_of (N_Db s)) s" for c
    using assms(1) by (simp add: holding_def db_at_def)
  from triple_Inr[OF rebuild_stored this assms(2)] show ?thesis by (rule stands_in_step)
qed

subsection \<open>What barriers admit\<close>

definition rates_kept :: "limit_view \<Rightarrow> limit_view \<Rightarrow> bool" where
  "rates_kept Y X \<longleftrightarrow> (\<forall>r\<in>set (Vw_Rates X). \<exists>r'\<in>set (Vw_Rates Y).
     rate_key r' = rate_key r \<and> rate_admits r' \<subseteq> rate_admits r)"

definition cap_key :: "limit_view \<Rightarrow> limit_scope \<Rightarrow> limit_scope \<Rightarrow> account_id \<Rightarrow> string \<Rightarrow> barrier_key" where
  "cap_key X account_scope asset_scope acc asset =
     (if (account_scope, acc, asset) \<in> size_key ` set (Vw_Sizes X) then (account_scope, acc, asset)
      else (asset_scope, [], asset))"

definition caps_in_force :: "limit_view \<Rightarrow> account_id \<Rightarrow> string \<Rightarrow> string \<Rightarrow> barrier_key list" where
  "caps_in_force X acc base quot =
     [(ScopeBroker, [], []), cap_key X ScopeAccountUnderlyingAsset ScopeUnderlyingAsset acc base,
      cap_key X ScopeAccountSettlementAsset ScopeSettlementAsset acc quot]"

text \<open>The quantities and notionals of orders of an account on an instrument.\<close>

definition sizes_admitted ::
  "'d decimal_pkg \<Rightarrow> limit_view \<Rightarrow> account_id \<Rightarrow> string \<Rightarrow> string \<Rightarrow> (rat \<times> rat) set" where
  "sizes_admitted D X acc base quot =
     {x. \<forall>r\<in>set (Vw_Sizes X). size_key r \<in> set (caps_in_force X acc base quot) \<longrightarrow> x \<in> size_admits D r}"

definition bound_in_force ::
  "limit_view \<Rightarrow> (account_id \<Rightarrow> string \<times> string) \<Rightarrow> pnl_axis \<Rightarrow> account_id \<Rightarrow> limit_pnl_bounds option" where
  "bound_in_force X A axis acc =
     (case applicable (snd (A acc)) (bound_at X axis ScopeAccount acc []) of
        Some b \<Rightarrow> Some b | None \<Rightarrow> inherited_bound X axis (A acc))"

definition pnl_admitted ::
  "'d decimal_pkg \<Rightarrow> limit_view \<Rightarrow> (account_id \<Rightarrow> string \<times> string) \<Rightarrow> pnl_axis \<Rightarrow> account_id \<Rightarrow> rat set" where
  "pnl_admitted D X A axis acc = (case bound_in_force X A axis acc of None \<Rightarrow> UNIV | Some b \<Rightarrow> pnl_admits D b)"

definition no_looser_view ::
  "'d decimal_pkg \<Rightarrow> (account_id \<Rightarrow> string \<times> string) \<Rightarrow> limit_view \<Rightarrow> limit_view \<Rightarrow> bool" where
  "no_looser_view D A Y X \<longleftrightarrow> rates_kept Y X
     \<and> (\<forall>acc base quot. sizes_admitted D Y acc base quot \<subseteq> sizes_admitted D X acc base quot)
     \<and> (\<forall>axis acc. pnl_admitted D Y A axis acc \<subseteq> pnl_admitted D X A axis acc)
     \<and> (track_only Y \<longrightarrow> track_only X)"

lemma no_looser_refl: "no_looser_view D A X X"
  by (auto simp: no_looser_view_def rates_kept_def)

lemma rates_kept_trans:
  assumes "rates_kept Z Y" and "rates_kept Y X"
  shows "rates_kept Z X"
  unfolding rates_kept_def
proof
  fix r assume "r \<in> set (Vw_Rates X)"
  then obtain r' where r': "r' \<in> set (Vw_Rates Y)" "rate_key r' = rate_key r" "rate_admits r' \<subseteq> rate_admits r"
    using assms(2) unfolding rates_kept_def by blast
  then obtain r'' where "r'' \<in> set (Vw_Rates Z)" "rate_key r'' = rate_key r'" "rate_admits r'' \<subseteq> rate_admits r'"
    using assms(1) unfolding rates_kept_def by blast
  then show "\<exists>r''\<in>set (Vw_Rates Z). rate_key r'' = rate_key r \<and> rate_admits r'' \<subseteq> rate_admits r"
    using r' by (metis order_trans)
qed

lemma no_looser_trans: "no_looser_view D A Z Y \<Longrightarrow> no_looser_view D A Y X \<Longrightarrow> no_looser_view D A Z X"
  unfolding no_looser_view_def by (intro conjI; blast intro: rates_kept_trans)

subsection \<open>The guards are sound\<close>

lemma bound_sound:
  assumes "decimal_pkg_ok D" and "boundNoLooserThan D f v r lo = None"
  shows "bound_range D v lo \<subseteq> bound_range D r lo"
proof (cases "r = []")
  case False
  then have "engine_text D v" "engine_text D r"
    using assms(2) by (auto simp: boundNoLooserThan_def engine_text_def split: if_split_asm sum.split_asm)
  then show ?thesis using boundNoLooserThan_range[OF assms(1)] assms(2) by blast
qed (simp add: bound_range_def)

lemma size_sound: "decimal_pkg_ok D \<Longrightarrow> Size_NoLooserThan D l r = None \<Longrightarrow> size_admits D l \<subseteq> size_admits D r"
  using bound_sound[of D "''max_quantity''" "Size_MaxQuantity l" "Size_MaxQuantity r" False]
    bound_sound[of D "''max_notional''" "Size_MaxNotional l" "Size_MaxNotional r" False]
  by (auto simp: Size_NoLooserThan_def size_admits_def)

lemma pnl_sound: "decimal_pkg_ok D \<Longrightarrow> Pnl_NoLooserThan D l r = None
    \<Longrightarrow> Pnl_Currency l = Pnl_Currency r \<and> pnl_admits D l \<subseteq> pnl_admits D r"
  using bound_sound[of D "''lower_bound''" "Pnl_LowerBound l" "Pnl_LowerBound r" True]
    bound_sound[of D "''upper_bound''" "Pnl_UpperBound l" "Pnl_UpperBound r" False]
  by (auto simp: Pnl_NoLooserThan_def pnl_admits_def)

lemma rate_sound: "Rate_NoLooserThan l r = None \<Longrightarrow> rate_key r = rate_key l \<Longrightarrow> rate_admits l \<subseteq> rate_admits r"
  by (rule Rate_NoLooserThan_sound)
     (auto simp: rate_valid_def rate_same_def rate_key_def Rate_NoLooserThan_def split: if_split_asm)

lemma sizes_frame: "Vw_Sizes Y = Vw_Sizes X \<Longrightarrow> sizes_admitted D Y = sizes_admitted D X"
  by (simp add: fun_eq_iff sizes_admitted_def caps_in_force_def cap_key_def)

lemma pnl_frame:
  assumes "Vw_Pnls Y = Vw_Pnls X"
  shows "pnl_admitted D Y = pnl_admitted D X"
proof -
  have b: "bound_at Y = bound_at X" using assms by (simp add: fun_eq_iff bound_at_def)
  have i: "inherited_bound Y = inherited_bound X" by (intro ext, unfold inherited_bound_def b, rule refl)
  show ?thesis by (intro ext, unfold pnl_admitted_def bound_in_force_def b i, rule refl)
qed

lemma put_rate_tightens:
  assumes "rate_put_ok L c l X" and "TightenOnly c" and "view_ok L X"
  shows "no_looser_view D A (put_rate l X) X"
proof -
  have rows: "set (Vw_Rates (put_rate l X)) = insert l {x \<in> set (Vw_Rates X). rate_key x \<noteq> rate_key l}"
    by (simp add: put_rate_def rate_table.set_put)
  have "\<exists>r'\<in>set (Vw_Rates (put_rate l X)). rate_key r' = rate_key r \<and> rate_admits r' \<subseteq> rate_admits r"
    if r: "r \<in> set (Vw_Rates X)" for r
  proof (cases "rate_key r = rate_key l")
    case True
    then have "Rate_NoLooserThan l r = None" using assms(1,2) r by (simp add: rate_put_ok_def)
    then show ?thesis using True rate_sound[OF _ True] unfolding rows by simp
  next
    case False
    then show ?thesis using r unfolding rows by blast
  qed
  then have "rates_kept (put_rate l X) X" by (simp add: rates_kept_def)
  moreover have "sizes_admitted D (put_rate l X) = sizes_admitted D X" "pnl_admitted D (put_rate l X) = pnl_admitted D X"
    by (intro sizes_frame pnl_frame; simp add: put_rate_def)+
  moreover have "track_only (put_rate l X) = track_only X" by (simp add: put_rate_def track_only_def)
  ultimately show ?thesis by (simp add: no_looser_view_def)
qed

lemma cap_key_put:
  assumes "cap_key (put_size l X) s s' acc asset \<noteq> cap_key X s s' acc asset"
  shows "cap_key (put_size l X) s s' acc asset = size_key l" and "size_key l = (s, acc, asset)"
    and "size_key l \<notin> size_key ` set (Vw_Sizes X)" and "cap_key X s s' acc asset = (s', [], asset)"
proof -
  have keys: "size_key ` set (Vw_Sizes (put_size l X)) = insert (size_key l) (size_key ` set (Vw_Sizes X))"
    by (auto simp: put_size_def size_table.set_put)
  show "cap_key (put_size l X) s s' acc asset = size_key l" "size_key l = (s, acc, asset)"
    "size_key l \<notin> size_key ` set (Vw_Sizes X)" "cap_key X s s' acc asset = (s', [], asset)"
    using assms unfolding cap_key_def keys by (auto split: if_split_asm)
qed

lemma put_size_tightens:
  assumes "size_put_ok L c l X" and "TightenOnly c" and "decimal_pkg_ok (Lib_Decimals L)"
  shows "no_looser_view (Lib_Decimals L) A (put_size l X) X"
proof -
  let ?D = "Lib_Decimals L" and ?Y = "put_size l X"
  have rows: "set (Vw_Sizes ?Y) = insert l {x \<in> set (Vw_Sizes X). size_key x \<noteq> size_key l}"
    by (simp add: put_size_def size_table.set_put)
  have same: "size_admits ?D l \<subseteq> size_admits ?D r"
    if "r \<in> set (Vw_Sizes X)" "size_key r = size_key l" for r
  proof -
    have "Size_NoLooserThan ?D l r = None" using assms(1,2) that by (simp add: size_put_ok_def)
    then show ?thesis by (rule size_sound[OF assms(3)])
  qed
  have over: "size_admits ?D l \<subseteq> size_admits ?D r"
    if "r \<in> set (Vw_Sizes X)" "size_key l \<notin> size_key ` set (Vw_Sizes X)" "overridden_size l = Some (size_key r)" for r
  proof -
    have "Size_NoLooserThan ?D l r = None" using assms(1,2) that by (simp add: size_put_ok_def)
    then show ?thesis by (rule size_sound[OF assms(3)])
  qed
  have "x \<in> size_admits ?D r"
    if x: "x \<in> sizes_admitted ?D ?Y acc base quot" and r: "r \<in> set (Vw_Sizes X)"
      and k: "size_key r \<in> set (caps_in_force X acc base quot)" for x r acc base quot
  proof (cases "size_key r \<in> set (caps_in_force ?Y acc base quot)")
    case True
    show ?thesis
    proof (cases "size_key r = size_key l")
      case k': True
      then have "x \<in> size_admits ?D l" using x True by (simp add: sizes_admitted_def rows)
      then show ?thesis using same[OF r k'] by blast
    next
      case False
      then show ?thesis using x True r by (auto simp: sizes_admitted_def rows)
    qed
  next
    case False
    then consider
        "size_key r = cap_key X ScopeAccountUnderlyingAsset ScopeUnderlyingAsset acc base"
        "cap_key ?Y ScopeAccountUnderlyingAsset ScopeUnderlyingAsset acc base
          \<noteq> cap_key X ScopeAccountUnderlyingAsset ScopeUnderlyingAsset acc base"
      | "size_key r = cap_key X ScopeAccountSettlementAsset ScopeSettlementAsset acc quot"
        "cap_key ?Y ScopeAccountSettlementAsset ScopeSettlementAsset acc quot
          \<noteq> cap_key X ScopeAccountSettlementAsset ScopeSettlementAsset acc quot"
      using k by (auto simp: caps_in_force_def)
    then show ?thesis
    proof cases
      case 1
      note c = cap_key_put[OF 1(2)]
      have "x \<in> size_admits ?D l" using x c(1) by (auto simp: sizes_admitted_def rows caps_in_force_def)
      moreover have "overridden_size l = Some (size_key r)"
        using c(2,4) 1(1) by (simp add: overridden_size_def size_key_def)
      ultimately show ?thesis using over[OF r c(3)] by blast
    next
      case 2
      note c = cap_key_put[OF 2(2)]
      have "x \<in> size_admits ?D l" using x c(1) by (auto simp: sizes_admitted_def rows caps_in_force_def)
      moreover have "overridden_size l = Some (size_key r)"
        using c(2,4) 2(1) by (simp add: overridden_size_def size_key_def)
      ultimately show ?thesis using over[OF r c(3)] by blast
    qed
  qed
  then have "sizes_admitted ?D ?Y acc base quot \<subseteq> sizes_admitted ?D X acc base quot" for acc base quot
    by (auto simp: sizes_admitted_def)
  moreover have "rates_kept ?Y X" by (auto simp: rates_kept_def put_size_def)
  moreover have "pnl_admitted ?D ?Y = pnl_admitted ?D X" by (rule pnl_frame) (simp add: put_size_def)
  moreover have "track_only ?Y = track_only X" by (simp add: put_size_def track_only_def)
  ultimately show ?thesis by (simp add: no_looser_view_def)
qed

context barrier_table
begin

lemma find_put:
  assumes "table_ok rows" and "valid r"
  shows "List.find (\<lambda>x. key x = k) (listing (putLimitRow key r rows))
    = (if k = key r then Some r else List.find (\<lambda>x. key x = k) (listing rows))"
proof (cases "k = key r")
  case True
  then show ?thesis using find_listing(1)[OF put_ok[OF assms], of k r] by (simp add: set_put)
next
  case False
  note new = find_listing[OF put_ok[OF assms], of k]
  show ?thesis
  proof (cases "List.find (\<lambda>x. key x = k) (listing rows)")
    case None
    then have "k \<notin> key ` set rows" using find_listing(2)[OF assms(1)] by blast
    then have "k \<notin> key ` set (putLimitRow key r rows)" using False by (auto simp: set_put)
    then show ?thesis using None False new(2) by simp
  next
    case (Some p)
    then have "p \<in> set rows" "key p = k" using find_listing(1)[OF assms(1)] by blast+
    then have "p \<in> set (putLimitRow key r rows)" using False by (auto simp: set_put)
    then show ?thesis using Some False new(1) \<open>key p = k\<close> by simp
  qed
qed

end

lemma bound_at_put:
  assumes "view_ok L X" and "LimitPnl_Validate (Lib_Print L) (Lib_Decimals L) l = None"
  shows "bound_at (put_pnl l X) axis scope acc grp
    = (if (axis, scope, acc, grp) = pnl_key l then Some l else bound_at X axis scope acc grp)"
  using pnl_table.find_put[OF conjunct1[OF pnl_rows.view_rows[OF assms(1)]] assms(2), of "(axis, scope, acc, grp)"]
    pnl_rows.view_rows[OF assms(1)]
  by (simp add: bound_at_def put_pnl_def)

definition or_else :: "'a option \<Rightarrow> 'a option \<Rightarrow> 'a option" where
  "or_else x y = (case x of Some b \<Rightarrow> Some b | None \<Rightarrow> y)"

lemma bound_in_force_place:
  "A acc = (grp, currency) \<Longrightarrow> bound_in_force X A axis acc =
     or_else (applicable currency (bound_at X axis ScopeAccount acc []))
       (or_else (if grp = [] then None else applicable currency (bound_at X axis ScopeAccountGroup [] grp))
         (applicable currency (bound_at X axis ScopeGlobal [] [])))"
  by (cases "applicable currency (bound_at X axis ScopeAccount acc [])")
     (simp_all add: bound_in_force_def inherited_bound_def or_else_def Let_def)

definition admitted_by :: "'d decimal_pkg \<Rightarrow> limit_pnl_bounds option \<Rightarrow> rat set" where
  "admitted_by D bound = (case bound of None \<Rightarrow> UNIV | Some b \<Rightarrow> pnl_admits D b)"

lemma pnl_admitted_by: "pnl_admitted D X A axis acc = admitted_by D (bound_in_force X A axis acc)"
  by (simp add: pnl_admitted_def admitted_by_def)

text \<open>A tightened bound applies where the replaced one does.\<close>

definition replaces :: "'d decimal_pkg \<Rightarrow> limit_pnl_bounds option \<Rightarrow> limit_pnl_bounds option \<Rightarrow> bool" where
  "replaces D x' x \<longleftrightarrow> (x' = None \<longleftrightarrow> x = None) \<and> admitted_by D x' \<subseteq> admitted_by D x"

lemma replaces_simps:
  "replaces D x x"
  "replaces D x' x \<Longrightarrow> replaces D y' y \<Longrightarrow> replaces D (or_else x' y') (or_else x y)"
  "decimal_pkg_ok D \<Longrightarrow> Pnl_NoLooserThan D l p = None
     \<Longrightarrow> replaces D (applicable currency (Some l)) (applicable currency (Some p))"
  using pnl_sound[of D l p]
  by (auto simp: replaces_def or_else_def applicable_def admitted_by_def split: option.splits)

lemma put_pnl_replaces:
  assumes "view_ok L X" and "LimitPnl_Validate (Lib_Print L) (Lib_Decimals L) l = None"
    and "decimal_pkg_ok (Lib_Decimals L)"
    and "List.find (\<lambda>r. pnl_key r = pnl_key l) (Vw_Pnls X) = Some p"
    and "Pnl_NoLooserThan (Lib_Decimals L) l p = None"
  shows "pnl_admitted (Lib_Decimals L) (put_pnl l X) A axis acc \<subseteq> pnl_admitted (Lib_Decimals L) X A axis acc"
proof -
  let ?D = "Lib_Decimals L"
  obtain grp currency where A: "A acc = (grp, currency)" by fastforce
  have at: "replaces ?D (applicable currency (bound_at (put_pnl l X) axis scope a g))
      (applicable currency (bound_at X axis scope a g))" for scope a g
  proof (cases "(axis, scope, a, g) = pnl_key l")
    case True
    then have "bound_at X axis scope a g = Some p" using assms(4) by (simp add: bound_at_def)
    then show ?thesis using True replaces_simps(3)[OF assms(3,5)] by (simp add: bound_at_put[OF assms(1,2)])
  qed (simp add: bound_at_put[OF assms(1,2)] replaces_simps(1))
  have "replaces ?D (bound_in_force (put_pnl l X) A axis acc) (bound_in_force X A axis acc)"
    unfolding bound_in_force_place[where A = A and acc = acc, OF A]
    by (intro replaces_simps(2)) (auto intro: at replaces_simps(1))
  then show ?thesis by (simp add: pnl_admitted_by replaces_def)
qed

lemma put_pnl_adds:
  assumes "view_ok L X" and "LimitPnl_Validate (Lib_Print L) (Lib_Decimals L) l = None"
    and "decimal_pkg_ok (Lib_Decimals L)"
    and "List.find (\<lambda>r. pnl_key r = pnl_key l) (Vw_Pnls X) = None" and "pnl_guarded L A l None X"
  shows "pnl_admitted (Lib_Decimals L) (put_pnl l X) A axis acc \<subseteq> pnl_admitted (Lib_Decimals L) X A axis acc"
proof -
  let ?D = "Lib_Decimals L"
  obtain grp currency where A: "A acc = (grp, currency)" by fastforce
  let ?own = "bound_at X axis ScopeAccount acc []" and ?grp = "bound_at X axis ScopeAccountGroup [] grp"
    and ?all = "bound_at X axis ScopeGlobal [] []"
  note put = bound_at_put[OF assms(1,2)] and place = bound_in_force_place[where A = A and acc = acc, OF A] and adm = pnl_admitted_by
  have fresh: "bound_at X ax s a g = None" if "(ax, s, a, g) = pnl_key l" for ax s a g
    using assms(4) that by (simp add: bound_at_def)
  have none: "applicable currency None = None" by (simp add: applicable_def)
  have below: "admitted_by ?D (Some l) \<subseteq> admitted_by ?D x"
    if "\<And>r. x = Some r \<Longrightarrow> Pnl_NoLooserThan ?D l r = None" for x
    using pnl_sound[OF assms(3)] that by (auto simp: admitted_by_def split: option.splits)
  have taken: "applicable currency (Some l) = Some l \<or> applicable currency (Some l) = None"
    by (simp add: applicable_def)
  consider (own) "pnl_key l = (axis, ScopeAccount, acc, [])"
    | (grp) "pnl_key l = (axis, ScopeAccountGroup, [], grp)" | (all) "pnl_key l = (axis, ScopeGlobal, [], [])"
    | (other) "pnl_key l \<notin> {(axis, ScopeAccount, acc, []), (axis, ScopeAccountGroup, [], grp), (axis, ScopeGlobal, [], [])}"
    by blast
  then show ?thesis
  proof cases
    case own
    then have l: "Pnl_Scope l = ScopeAccount" "Pnl_Axis l = axis" "Pnl_Account l = acc" by (simp_all add: pnl_key_def)
    let ?rest = "or_else (if grp = [] then None else applicable currency ?grp) (applicable currency ?all)"
    have "inherited_bound X axis (A acc) = ?rest" by (simp add: inherited_bound_def A or_else_def Let_def)
    then have "Pnl_NoLooserThan ?D l r = None" if "?rest = Some r" for r
      using assms(5) that by (simp add: pnl_guarded_def l)
    then have "admitted_by ?D (Some l) \<subseteq> admitted_by ?D ?rest" by (rule below)
    moreover have "bound_in_force X A axis acc = ?rest"
      using fresh[OF own[symmetric]] by (simp add: place none or_else_def)
    moreover have "bound_in_force (put_pnl l X) A axis acc = or_else (applicable currency (Some l)) ?rest"
      by (simp add: place put own)
    ultimately show ?thesis using taken by (auto simp: adm or_else_def[of "Some l"] or_else_def[of None])
  next
    case grp
    then have l: "Pnl_Scope l = ScopeAccountGroup" "Pnl_Axis l = axis" by (simp_all add: pnl_key_def)
    have guard: "Pnl_NoLooserThan ?D l r = None" if "applicable currency ?all = Some r" for r
      using assms(5) that by (auto simp: pnl_guarded_def l applicable_def split: option.splits if_splits)
    then have "admitted_by ?D (Some l) \<subseteq> admitted_by ?D (applicable currency ?all)" by (rule below)
    then show ?thesis
      using taken fresh[OF grp[symmetric]]
      by (cases "applicable currency ?own") (auto simp: adm place put grp none or_else_def)
  next
    case all
    show ?thesis
      using fresh[OF all[symmetric]]
      by (auto simp: adm place put all none or_else_def admitted_by_def split: option.splits)
  next
    case other
    then show ?thesis by (auto simp: adm place put)
  qed
qed

lemma put_pnl_tightens:
  assumes "pnl_put_ok L c A l X" and "TightenOnly c" and "view_ok L X" and "decimal_pkg_ok (Lib_Decimals L)"
  shows "no_looser_view (Lib_Decimals L) A (put_pnl l X) X"
proof -
  let ?D = "Lib_Decimals L" and ?Y = "put_pnl l X"
  have v: "LimitPnl_Validate (Lib_Print L) ?D l = None" using assms(1) by (simp add: pnl_put_ok_def)
  have "pnl_admitted ?D ?Y A axis acc \<subseteq> pnl_admitted ?D X A axis acc" for axis acc
  proof (cases "List.find (\<lambda>r. pnl_key r = pnl_key l) (Vw_Pnls X)")
    case None
    then show ?thesis using put_pnl_adds[OF assms(3) v assms(4)] assms(1,2) by (simp add: pnl_put_ok_def)
  next
    case (Some p)
    then have "Pnl_NoLooserThan ?D l p = None" using assms(1,2) by (simp add: pnl_put_ok_def pnl_guarded_def)
    then show ?thesis by (rule put_pnl_replaces[OF assms(3) v assms(4) Some])
  qed
  moreover have "rates_kept ?Y X" by (auto simp: rates_kept_def put_pnl_def)
  moreover have "sizes_admitted ?D ?Y = sizes_admitted ?D X" by (rule sizes_frame) (simp add: put_pnl_def)
  moreover have "track_only ?Y = track_only X" by (simp add: put_pnl_def track_only_def)
  ultimately show ?thesis by (simp add: no_looser_view_def)
qed

lemma mode_tightens:
  assumes "mode_put_ok c m X" and "TightenOnly c"
  shows "track_only (set_mode (Some (limit_mode_text m)) X) \<Longrightarrow> track_only X"
proof -
  obtain prev where prev: "mode_in_force X = Some prev" "Mode_NoLooserThan m prev = None"
    using assms by (auto simp: mode_put_ok_def)
  assume t: "track_only (set_mode (Some (limit_mode_text m)) X)"
  have "m = SpotFundsLimitModeTrackOnly"
    using t assms(1) by (cases m) (simp_all add: track_only_def set_mode_def mode_put_ok_def ValidateSpotFundsLimitMode_def)
  then have "prev = SpotFundsLimitModeTrackOnly"
    using prev(2) by (cases prev) (simp_all add: Mode_NoLooserThan_def ValidateSpotFundsLimitMode_def)
  then show "track_only X" using track_only_in_force[OF prev(1)] by simp
qed

lemma set_mode_tightens:
  "(track_only (set_mode m X) \<Longrightarrow> track_only X) \<Longrightarrow> no_looser_view D A (set_mode m X) X"
proof -
  assume "track_only (set_mode m X) \<Longrightarrow> track_only X"
  moreover have "sizes_admitted D (set_mode m X) = sizes_admitted D X" "pnl_admitted D (set_mode m X) = pnl_admitted D X"
    by (intro sizes_frame pnl_frame; simp add: set_mode_def)+
  moreover have "rates_kept (set_mode m X) X" by (auto simp: rates_kept_def set_mode_def)
  ultimately show ?thesis by (simp add: no_looser_view_def)
qed

lemma request_tightens:
  assumes "request_ok L c A req X" and "TightenOnly c" and "view_ok L X" and "decimal_pkg_ok (Lib_Decimals L)"
  shows "no_looser_view (Lib_Decimals L) A (requested req X) X"
proof (cases req)
  case (Delete t)
  have "\<not> track_only (set_mode None X)" by (simp add: track_only_def set_mode_def)
  then have "no_looser_view (Lib_Decimals L) A (set_mode None X) X" by (intro set_mode_tightens) simp
  then show ?thesis using assms(1,2) by (simp add: Delete delete_ok_def delete_view_def)
qed (use assms in \<open>simp_all add: put_rate_tightens put_size_tightens put_pnl_tightens set_mode_tightens mode_tightens\<close>)

subsection \<open>The promise to those who set limits\<close>

definition no_looser_node ::
  "('acc, 'grp, 'ast, 'v, 'd) engine_libs \<Rightarrow> ('acc, 'grp, 'ast, 'v) limit_node
     \<Rightarrow> ('acc, 'grp, 'ast, 'v) limit_node \<Rightarrow> bool" where
  "no_looser_node L t s \<longleftrightarrow> account_place (N_Db t) = account_place (N_Db s)
     \<and> no_looser_view (Lib_Decimals L) (account_place (N_Db s)) (view_of (N_Db t)) (view_of (N_Db s))"

lemma tightening_step:
  assumes "limit_step L TightenOnly s t" and "in_step L s" and "decimal_pkg_ok (Lib_Decimals L)"
  shows "no_looser_node L t s"
  using assms(1)
proof cases
  case (1 c req faults answers)
  let ?A = "account_place (N_Db s)" and ?X = "view_of (N_Db s)"
  have b: "becomes L c ?A ?X (requested req ?X) (request_ok L c ?A req ?X) t"
    unfolding 1(1) by (rule serve_becomes[OF assms(2)])
  have "db_at L c ?A ?X (N_Db s)" using assms(2) by (simp add: in_step_def db_at_def)
  then have "view_ok L ?X" by (rule db_at_view_ok)
  then have n: "no_looser_view (Lib_Decimals L) ?A (requested req ?X) ?X" if "request_ok L c ?A req ?X"
    using request_tightens[OF that 1(2)] assms(3) by simp
  then show ?thesis
    using b 1(2) no_looser_refl by (auto simp: becomes_def holding_def db_at_def no_looser_node_def)
qed

lemma tightening_steps:
  assumes "(limit_step L TightenOnly)\<^sup>*\<^sup>* s t" and "in_step L s" and "decimal_pkg_ok (Lib_Decimals L)"
  shows "no_looser_node L t s"
  using assms(1)
proof (induction rule: rtranclp_induct)
  case base
  then show ?case by (simp add: no_looser_node_def no_looser_refl)
next
  case (step t u)
  have "in_step L t" by (rule limit_steps_in_step[OF step.hyps(1) assms(2)])
  then have "no_looser_node L u t" by (rule tightening_step[OF step.hyps(2) _ assms(3)])
  then show ?case using step.IH no_looser_trans by (auto simp: no_looser_node_def)
qed

end
