(* ===== verification/LimitSamples.thy ===== *)
theory LimitSamples
  imports LimitPromise Samples
begin

section \<open>A node with limits\<close>

text \<open>Concrete values for the theorems on limit operations: a store with one rate barrier, an
  engine library that takes every text, and an agent that may only tighten.\<close>

definition text_values :: "string sdk_values" where
  "text_values = \<lparr> NewQuantityFromString = Inr, NewVolumeFromString = Inr, NewPnlFromString = Inr \<rparr>"

definition desk_libs :: "(64 word, 32 word, string, string, int \<times> int) engine_libs" where
  "desk_libs = \<lparr> Lib_Ids = plain_ids, Lib_Values = text_values, Lib_Decimals = pair_pkg,
     Lib_Print = (\<lambda>_. True), Lib_Left = (\<lambda>before after. after) \<rparr>"

definition desk_rate :: "64 word \<Rightarrow> limit_rate" where
  "desk_rate n = \<lparr> Rate_Scope = ScopeBroker, Rate_Account = [], Rate_Asset = [],
     Rate_Window = second, Rate_MaxOrders = n \<rparr>"

definition desk_db :: limit_db where
  "desk_db = \<lparr> Ld_Rates = [desk_rate 10], Ld_Sizes = [], Ld_Pnls = [], Ld_Settings = Map.empty,
     Ld_Accounts = [desk_account], Ld_Groups = [], Ld_Assets = [usd_asset], Ld_Classes = [],
     Ld_NextAccount = 8, Ld_NextAsset = 3, Ld_FeeAccounts = [], Ld_Used = (\<lambda>_. []) \<rparr>"

definition idle_engine :: "(64 word, 32 word, string, string) live_engine" where
  "idle_engine = \<lparr> Eng_res = None, Eng_running = False, Eng_Rate = None, Eng_Size = None,
     Eng_Pnl = (\<lambda>_. no_pnl_axes), Eng_TrackOnly = False, Eng_seedBlocks = [], Eng_Build = 0, Eng_Landed = [] \<rparr>"

definition desk_start :: "(64 word, 32 word, string, string) limit_node" where
  "desk_start = \<lparr> N_Db = desk_db, N_Engine = idle_engine, N_Audit = [], N_Fatal = [],
     N_restarting = False, N_Builds = 0, N_Faults = [], N_Lost = 0, N_Answers = [] \<rparr>"

definition desk_node :: "(64 word, 32 word, string, string) limit_node" where
  "desk_node = snd (rebuildEngineFromStore desk_libs desk_start)"

definition agent_caller :: caller where
  "agent_caller = \<lparr> Caller_Source = SourceMCP, Caller_Principal = ''agent'', Caller_Role = [] \<rparr>"

definition halved :: limit_request where
  "halved = PutRate (desk_rate 5) MissingAccountReject"

lemma desk_rebuilt: "rebuildEngineFromStore desk_libs desk_start = (Inr (), desk_node)"
proof -
  have "fst (rebuildEngineFromStore desk_libs desk_start) = Inr ()" by code_simp
  then show ?thesis unfolding desk_node_def by (metis prod.collapse)
qed

lemma desk_tables: "tables_ok desk_libs (N_Db desk_start)"
proof -
  have "LimitRate_Validate (\<lambda>_. True) (desk_rate 10) = None" by code_simp
  then show ?thesis
    by (simp add: tables_ok_def rate_table.table_ok_def size_table.table_ok_def pnl_table.table_ok_def
        desk_start_def desk_db_def desk_libs_def)
qed

definition halved_node :: "(64 word, 32 word, string, string) limit_node" where
  "halved_node = snd (serve desk_libs agent_caller halved (desk_node\<lparr>N_Faults := [], N_Answers := []\<rparr>))"

lemma halved_served: "map Rate_MaxOrders (Ld_Rates (N_Db halved_node)) = [5]"
  by code_simp

lemma halved_fatal: "N_Fatal halved_node = []"
  by code_simp

lemma halved_lost: "N_Lost halved_node = 0"
  by code_simp

lemma halved_landed: "Eng_Landed (N_Engine halved_node) = []"
  by code_simp

lemma halved_once: "may agent_caller \<Longrightarrow> (limit_step desk_libs may)\<^sup>*\<^sup>* desk_node halved_node"
  unfolding halved_node_def by (intro r_into_rtranclp limit_step.intros)

lemma halved_step: "(limit_step desk_libs TightenOnly)\<^sup>*\<^sup>* desk_node halved_node"
  by (rule halved_once) code_simp

lemma halved_step_any: "(limit_step desk_libs (\<lambda>_. True))\<^sup>*\<^sup>* desk_node halved_node"
  by (rule halved_once) simp

subsection \<open>A refused bound resets the rate windows\<close>

text \<open>A caller that may only tighten puts a P\&L bound that the engine library refuses to
  configure. The bound is taken back, but the node rebuilds the engine, and the rate limiter of
  the new build counts from zero although a rate barrier is configured. The deletions that
  rebuild refuse such a caller for just that reason (\<open>guardTightenOnlyRebuild\<close>).\<close>

definition desk_bound :: limit_pnl_bounds where
  "desk_bound = \<lparr> Pnl_Axis = SpotFundsPnlAxisRealized, Pnl_Scope = ScopeGlobal, Pnl_Account = [],
     Pnl_AccountGroup = [], Pnl_Currency = ''USD'', Pnl_LowerBound = ''-5'', Pnl_UpperBound = [] \<rparr>"

lemma refused_bound_resets_rate_windows:
  "let t = snd (PutSpotFundsPnlBoundsLimit desk_libs desk_bound MissingAccountReject agent_caller
       (desk_node\<lparr>N_Faults := [], N_Answers := [Refuses ''bound'']\<rparr>))
   in TightenOnly agent_caller \<and> Ld_Pnls (N_Db t) = [] \<and> Ld_Rates (N_Db t) = Ld_Rates (N_Db desk_node)
      \<and> Ld_Rates (N_Db t) \<noteq> [] \<and> N_Fatal t = []
      \<and> Eng_Build (N_Engine desk_node) < Eng_Build (N_Engine t)"
  by code_simp

subsection \<open>A broken change of a rate stays on the engine\<close>

text \<open>The engine library installs a new rate and then reports a failure. The node takes the barrier
  back, but the live engine keeps the new rate: only a failed P\&L change is followed by a rebuild,
  and neither the caller nor the fatal hook learns of the difference.\<close>

definition broken_rate :: "(64 word, 32 word, string, string) limit_node" where
  "broken_rate = snd (PutRateLimit desk_libs (desk_rate 20) MissingAccountReject (agent_caller\<lparr>Caller_Source := SourcePanel\<rparr>)
     (desk_node\<lparr>N_Faults := [], N_Answers := [BreaksOff ''rate'']\<rparr>))"

lemma broken_rate_stays:
  "Ld_Rates (N_Db broken_rate) = [desk_rate 10] \<and> N_Fatal broken_rate = [] \<and> N_Lost broken_rate = 0
   \<and> map_option Rx_Broker (Eng_Rate (N_Engine broken_rate))
       = Some (Some \<lparr> Rv_MaxOrders = 20, Rv_Window = second \<rparr>)
   \<and> Eng_Landed (N_Engine broken_rate) = [PolicyRateLimit]"
  by code_simp

text \<open>The same failure of a P\&L change ends with a new engine.\<close>

definition bound_back :: "(64 word, 32 word, string, string) limit_node" where
  "bound_back = snd (serve desk_libs agent_caller (PutPnl desk_bound MissingAccountReject)
     (desk_node\<lparr>N_Faults := [], N_Answers := [BreaksOff ''bound'']\<rparr>))"

lemma bound_back_step: "(limit_step desk_libs (\<lambda>_. True))\<^sup>*\<^sup>* desk_node bound_back"
  unfolding bound_back_def by (intro r_into_rtranclp limit_step.intros TrueI)

lemma bound_back_kept:
  "N_Fatal bound_back = []" "N_Lost bound_back = 0" "Eng_Landed (N_Engine bound_back) = []"
  "Ld_Pnls (N_Db bound_back) = []"
  by code_simp+

end
