(* ===== verification/Spec2Isabelle.thy ===== *)
theory Spec2Isabelle
  imports Base64Url GoJson Accounts Adjustments Strictness OrderSamples AccessSamples AccountMode IdResolverSafety LimitSamples
begin

text \<open>
  A verification development for Officer (\<^verbatim>\<open>openpitkit/officer\<close>), a control plane around a
  pre-trade risk engine: it keeps accounts, limits and orders in a realm store, passes reports
  and adjustments through the engine, and trades held orders at venues through connectors.
  Names of definitions are those of the Go code; record fields carry the struct's name as a
  prefix.

  \<^bold>\<open>Theories and code.\<close>
  \<^item> \<open>Prelude\<close>: validators as chains of early returns, operations that thread a state and may
    fail, triples and kept invariants with their rules.
  \<^item> \<open>GoText\<close>, \<open>GoErrors\<close>, \<open>GoJson\<close>, \<open>Base64Url\<close>, \<open>DecimalPkg\<close>: what the code uses of Go's
    library: UTF-8 strings as byte lists, \<open>errors.Is\<close> and \<open>errors.As\<close>, the JSON scanner, base64.
    The decimal package is third-party code: a record of operations that every definition takes
    as its argument, with the laws \<open>decimal_pkg_ok\<close> as a named hypothesis and \<open>pair_pkg\<close> as an
    instance that satisfies them.
  \<^item> \<open>Identity\<close>, \<open>Accounts\<close>, \<open>EngineDecimals\<close>, \<open>LimitRules\<close>, \<open>Adjustments\<close>, \<open>Orders\<close>, \<open>AuditTrail\<close>,
    \<open>TradingDomain\<close>: \<^verbatim>\<open>framework/domain\<close>, one definition per function.
  \<^item> \<open>Strictness\<close>: the tighten-only rule as the interface \<open>strictness\<close> (a barrier that is no looser
    admits nothing more), interpreted for the four kinds of barrier.
  \<^item> \<open>VenueFills\<close>, \<open>WorkerState\<close>, \<open>VenueFees\<close>, \<open>TradingRuntime\<close>: one worker of
    \<^verbatim>\<open>framework/trading\<close>: venue decimals, fills and snapshots, fee intake, the durable send
    sequence, reconciliation and venue events. The connector's answers are lists of results.
  \<^item> \<open>RealmStore\<close>, \<open>Settlement\<close>, \<open>ReportPipeline\<close>: the statements of \<^verbatim>\<open>internal/store/sqlite\<close> that
    the worker and the report operation use, the settlement transaction of \<^verbatim>\<open>orders.go\<close> with
    the report id, P\&L, balances, blocks, trade, attested events and the order row, and
    \<^verbatim>\<open>framework/node/local_execution.go\<close> with the event and trade assembly of
    \<^verbatim>\<open>engine/mapping.go\<close>. What the engine makes of a report is a parameter.
  \<^item> \<open>SettlementFrame\<close>: the interfaces \<open>row_blind\<close> and \<open>settlement_blind\<close> of the invariants that a
    registration or a whole report cannot break, interpreted for the books of orders
    (\<open>SettlementSafety\<close>) and for the venue links (\<open>RuntimeSafety\<close>).
  \<^item> \<open>SettlementSafety\<close>, \<open>RuntimeSafety\<close>, \<open>SendSafety\<close>, \<open>ReportSafety\<close>, \<open>ReconcileSafety\<close>: the effect of
    a settlement on its order, what operations leave alone, the send guard, the reachable worlds,
    the effect of a report, the outcome of a reconciliation.
  \<^item> \<open>FillReports\<close>: what \<open>applyFill\<close> stores for a fill, and that the report operation answers
    \<open>ErrAlreadyExists\<close> for a known report id only.
  \<^item> \<open>EngineOutcomes\<close>, \<open>OrderStore\<close>, \<open>OrderDesk\<close>: the order desk of
    \<^verbatim>\<open>framework/node/local_orders.go\<close> with \<^verbatim>\<open>engine/reservation.go\<close> and the submission
    transaction of \<^verbatim>\<open>orders.go\<close>: submission with a hold, immediate submission, confirmation and
    cancellation. The submission transaction stays open while the engine decides: \<open>peek\<close> shows the
    order it will insert without storing it. What the engine decides is the parameter
    \<open>order_engine\<close>. A confirmation is its reads (\<open>confirm_read\<close>) and its write (\<open>confirm_write\<close>).
  \<^item> \<open>Commissions\<close>: the commission subtotals of one order and of a page, and the rows they count.
  \<^item> \<open>OutcomeRules\<close>: the merge of balance outcomes by asset.
  \<^item> \<open>OrderSafety\<close>, \<open>OrderSubmission\<close>, \<open>OrderChanges\<close>: how a submission, a confirmation and a
    cancellation can end, success and error, with what each has stored by then.
  \<^item> \<open>OrderWorld\<close>, \<open>HeldSafety\<close>, \<open>ClosedOrders\<close>: the interfaces \<open>desk_blind\<close> (what the desk leaves
    alone) and \<open>order_facts\<close> (invariants over orders and holds, which the worker changes through
    reports alone), the runs \<open>desk_step\<close> of desk and worker with the invariant that the venue gets
    held orders only, and the runs \<open>unforced_step\<close> that leave a closed order as it is.
  \<^item> \<open>Backoff\<close>, \<open>AccessSecrets\<close>, \<open>AccessStore\<close>, \<open>AccessService\<close>: \<^verbatim>\<open>internal/backoff\<close> and
    \<^verbatim>\<open>internal/access\<close> with its tables: tokens, sessions, passwords, recovery codes, sign-in delays
    and the resolution of the caller of a request. The random source is a list of draws and the
    hash functions a record of operations with the laws \<open>crypto_ok\<close>.
  \<^item> \<open>AccessSafety\<close>, \<open>AccessResults\<close>: the service as a step relation and its invariants. An
    invariant is an interpretation of \<open>access_invariant\<close> or of one of its extensions, which say
    what the invariant does not look at (\<open>burn_blind\<close>, \<open>recovery_blind\<close>, \<open>signin_blind\<close>,
    \<open>environment_blind\<close>) and so which calls keep it at no cost.
  \<^item> \<open>AccountScope\<close>, \<open>AccountMode\<close>: \<^verbatim>\<open>framework/backend/account_scope.go\<close> and
    \<^verbatim>\<open>internal/accountmode\<close>; the contract \<open>account_scope_contract\<close> and its two instances.
  \<^item> \<open>IdResolver\<close>, \<open>IdResolverSafety\<close>: the id dictionaries of \<^verbatim>\<open>engine/mapping.go\<close>, three
    interpretations of \<open>id_dictionary\<close> and two of \<open>removable_dictionary\<close>.
  \<^item> \<open>EngineLimits\<close>, \<open>LimitStore\<close>, \<open>LimitNode\<close>, \<open>LimitOps\<close>: limits from request to engine: the
    axes \<^verbatim>\<open>engine/mapping.go\<close> derives from stored barriers, the build and the configuration
    of an engine, the barrier tables of \<^verbatim>\<open>internal/store/sqlite/limits.go\<close>, and the operations of
    \<^verbatim>\<open>framework/node/local_limits.go\<close> with their guards, reverts and rebuilds.
  \<^item> \<open>LimitTables\<close>, \<open>LimitTriples\<close>, \<open>LimitRuns\<close>, \<open>LimitSafety\<close>, \<open>LimitSteps\<close>, \<open>LimitPromise\<close>: the
    contract \<open>barrier_table\<close> of the three tables, \<open>limit_view\<close> as the abstract state (the rows and
    the mode that reads show), one triple per store method, node helper and operation, and the
    two promises over runs of \<open>limit_step\<close>. \<open>stored_table\<close> proves the put of a barrier once for
    the three tables.
  \<^item> \<open>Samples\<close>, \<open>OrderSamples\<close>, \<open>AccessSamples\<close>, \<open>LimitSamples\<close>: concrete inputs of the witnesses.

  \<^bold>\<open>State and steps.\<close> A \<open>realm\<close> is the durable state, a \<open>world\<close> adds the worker's memory and
  the venue. Every store statement consults a schedule of faults: it runs, fails without an
  effect, or fails after its effect became durable; a crash is a run whose later statements all
  fail. \<open>wstep\<close> lets whole operations of the worker, of other callers and of the environment
  follow each other in any order; \<open>reached\<close> is what they reach from a world without links.

  The access service holds its mutex over each call, so a call is one step (\<open>access_step\<close>), with
  one reading of the clock; a fault makes a call of the store fail without an effect.
  \<open>access_reached\<close> is what the calls and the environment reach from a fresh store. A node serves
  one limit request at a time under its mutation lock: \<open>limit_step\<close> serves one, with a fresh
  schedule of store faults and of answers of the engine library; what the fatal hook was called
  with is in \<open>N_Fatal\<close>. A call of the store serves, fails without an effect, or fails although its
  effect is durable (\<open>store_fault\<close>); the history field \<open>N_Lost\<close> counts the last kind. A configuration
  of the live engine succeeds, is refused without an effect, or breaks off (\<open>sdk_answer\<close>), and then
  leaves whatever \<open>Lib_Left\<close> says; the history field \<open>Eng_Landed\<close> of a live engine names the
  policies for which this happened. The engine library is the parameter \<open>engine_libs\<close>: its id
  functions, its value constructors, \<open>Lib_Left\<close> and the decimal package.

  \<^bold>\<open>Termination.\<close> All definitions are total. The decimal loops terminate by their digits, the
  UTF-8 scan by the length of the text; no fuel is used.

  \<^bold>\<open>Not modelled.\<close> Goroutine scheduling below whole operations; the engine library;
  connectors' vendor protocols; SQL text beyond the effect of a statement on the modelled rows;
  the service layer, HTTP and MCP surfaces, market-data manager, backup and the
  web panel.
\<close>

section \<open>Properties\<close>

subsection \<open>Sending orders to a venue\<close>

text \<open>C1: In every reachable world each order was handed to its venue at most once, and an
  order that was handed over has a link whose send mark is durable. The worlds are reached by
  any interleaving of sends, venue events, reconciliations, reports of other callers, restarts,
  clock changes and store faults.\<close>

theorem venue_at_most_once:
  assumes "reached D E s"
  shows "distinct (map fst (V_Requests s))
    \<and> (\<forall>r\<in>set (V_Requests s). \<exists>l\<in>set (R_Links s). VO_Order l = fst r \<and> VO_SendAttempted l)"
  using reached_guarded[OF assms] by (fastforce simp: guarded_def attempted_def)

theorem venue_at_most_once_witness:
  "\<exists>s m. reached pair_pkg no_engine s \<and> V_Requests s = [(''o1'', m)]
     \<and> (\<exists>l\<in>set (R_Links s). VO_Order l = ''o1'' \<and> VO_SendAttempted l)"
proof -
  obtain l t m where s: "send pair_pkg no_engine ''o1'' sample_destination sample_world = (Inr l, t)"
    and r: "V_Requests t = [(''o1'', m)]"
    using sample_sent by blast
  have "reached pair_pkg no_engine sample_world"
    by (rule reached_init) (simp_all add: sample_world_def)
  from reached_step[OF this step_send[of _ _ _ "''o1''" sample_destination]]
  have "reached pair_pkg no_engine t" using s by simp
  with venue_at_most_once[OF this] r show ?thesis by auto
qed

text \<open>C2: A send that ends with \<open>ErrNotSent\<close> did not hand anything to the venue, as long as
  neither the store nor the connector answers with that error itself.\<close>

theorem not_sent_left_venue_alone:
  assumes "reached D E s" and "honest s"
    and "send D E oid dest s = (Inl e, t)" and "errors_is e ErrNotSent"
  shows "V_Requests t = V_Requests s"
  using not_sent_untouched[OF reached_guarded[OF assms(1)] assms(2-4)] guarded_requests by blast

theorem not_sent_left_venue_alone_witness:
  "\<exists>e t. send pair_pkg no_engine ''o2'' sample_destination sample_world = (Inl e, t)
     \<and> errors_is e ErrNotSent \<and> V_Requests t = V_Requests sample_world"
proof -
  have r: "reached pair_pkg no_engine sample_world"
    by (rule reached_init) (simp_all add: sample_world_def)
  have h: "honest sample_world" by (simp add: honest_def sample_world_def)
  have "GetOrder ''o2'' sample_world = (Inl (err_not_found ''order''), sample_world)"
    by (simp add: GetOrder_def store_call_def sample_world_def)
  then have s: "send pair_pkg no_engine ''o2'' sample_destination sample_world
      = (Inl (not_sent_error (err_not_found ''order'')), sample_world)"
    by (simp add: send_unfold send_link_def andthen_def)
  show ?thesis
    using not_sent_left_venue_alone[OF r h s not_sent_refl] s not_sent_refl by blast
qed

text \<open>C3: A reconciliation that got a snapshot and ends without an error leaves exactly the
  quantity booked that the venue reports as filled, and the snapshot was complete.\<close>

theorem reconciled_order_matches_venue:
  assumes "decimal_pkg_ok D" and "reconcile D E l s = (Inr (), t)" and "VO_SendAttempted l"
    and "R_Orders s (VO_Order l) = Some d" and "\<not> OrderStatusTerminal (Order_Status (Det_Order d))"
    and "V_LookupResults s = Inr (Some snap) # rest"
  shows "\<exists>ts filled. trades_of t (VO_Order l) = Some ts
     \<and> NewFromString D (Snap_FilledQuantity snap) = Some filled \<and> booked D ts = dval D filled
     \<and> snapshot_complete D snap"
  using reconcile_books[OF assms] by (auto simp: settled_with_venue_def trades_at_def)

theorem reconciled_order_matches_venue_witness:
  "\<exists>ts filled. trades_of (filled_world\<lparr>V_LookupResults := []\<rparr>) (VO_Order sent_link) = Some ts
     \<and> NewFromString pair_pkg (Snap_FilledQuantity sample_snapshot) = Some filled
     \<and> booked pair_pkg ts = dval pair_pkg filled \<and> snapshot_complete pair_pkg sample_snapshot"
proof (rule reconciled_order_matches_venue[OF pair_pkg_ok sample_reconcile])
  show "R_Orders filled_world (VO_Order sent_link) = Some (sample_detail\<lparr>Det_Trades := [sample_trade]\<rparr>)"
    by (simp add: filled_world_def sent_link_def sample_link_def)
qed (simp_all add: filled_world_def sent_link_def sample_detail_def sample_order_def)

text \<open>C4: Once the engine has settled a report, the node either stores the settlement and
  succeeds or fails and raises the fatal hook; a report that fails otherwise never reached the
  engine and left orders, report ids and links alone.\<close>

theorem engine_settlement_stored_or_fatal:
  assumes "settleExecutionReport D E c i s = (r, t)"
  shows "(R_Engine t = R_Engine s \<and> r \<noteq> Inr () \<and> books_of s t)
    \<or> (\<exists>j. R_Engine t = R_Engine s @ [j] \<and> In_ExternalID j = In_ExternalID i
         \<and> (if r = Inr () then report_effect c i (engine_ran j s) t else R_Fatal t))"
proof -
  have "settle_result c i s r t" using assms runsD[OF settleExecutionReport_runs] by blast
  then show ?thesis
    unfolding settle_result_def stored_def
    by (elim disjE exE conjE) (fastforce simp: books_def dest: report_effect_engine)+
qed

theorem engine_settlement_stored_or_fatal_witness:
  "\<exists>t j. settleExecutionReport pair_pkg quiet_engine system_caller fill_input sample_world
       = (Inr (), t)
     \<and> R_Engine t = [j] \<and> report_effect system_caller fill_input (engine_ran j sample_world) t"
proof -
  obtain t where t: "settleExecutionReport pair_pkg quiet_engine system_caller fill_input sample_world
      = (Inr (), t)"
    using fill_input_settles by blast
  from engine_settlement_stored_or_fatal[OF this] t show ?thesis
    by (auto simp: sample_world_def)
qed

text \<open>C5: No report id is stored twice, whoever reports and whatever the store does.\<close>

theorem report_ids_stay_distinct:
  assumes "distinct (R_Reports s)"
  shows "distinct (R_Reports (snd (applyExecutionReport D E c i s)))"
  using keepsD[OF reports_once assms] .

theorem report_ids_stay_distinct_witness:
  "\<exists>t. applyExecutionReport pair_pkg quiet_engine system_caller fill_input sample_world = (Inr (), t)
     \<and> ''r1'' \<in> set (R_Reports t) \<and> distinct (R_Reports t)
     \<and> distinct (R_Reports (snd (applyExecutionReport pair_pkg quiet_engine system_caller fill_input t)))"
proof -
  obtain t where t: "applyExecutionReport pair_pkg quiet_engine system_caller fill_input sample_world
      = (Inr (), t)"
    using fill_input_applies by blast
  have "distinct (R_Reports sample_world)" by (simp add: sample_world_def)
  then have d: "distinct (R_Reports t)"
    using report_ids_stay_distinct[of sample_world pair_pkg quiet_engine system_caller fill_input] t by simp
  obtain u where "report_effect system_caller fill_input u t"
    using applyExecutionReport_effect[OF t] by blast
  then have "''r1'' \<in> set (R_Reports t)"
    using report_effect_reports[of system_caller fill_input u t]
    by (auto simp: fill_input_def fill_as_def empty_report_def)
  then show ?thesis using t d report_ids_stay_distinct[OF d] by blast
qed

text \<open>C6: A report that succeeds was allowed: its order exists, is not terminal unless the
  report is forced, and has no venue link unless the system itself reports.\<close>

theorem successful_report_was_allowed:
  assumes "applyExecutionReport D E c i s = (Inr (), t)"
  shows "may_report c i s"
  using assms by (rule applyExecutionReport_guards)

theorem successful_report_was_allowed_witness:
  "\<exists>i t. applyExecutionReport pair_pkg no_engine system_caller i
      (sample_world\<lparr>R_Links := [sample_link], W_Random := []\<rparr>) = (Inr (), t)
    \<and> may_report system_caller i (sample_world\<lparr>R_Links := [sample_link], W_Random := []\<rparr>)"
proof -
  let ?s = "sample_world\<lparr>R_Links := [sample_link], W_Random := []\<rparr>"
  let ?i = "empty_report \<lparr> In_ExternalID := reportID (VO_ClientOrderID sample_link) ''claim'',
    In_Order := ''o1'', In_OrderStatus := OrderStatusCommitted \<rparr>"
  obtain t where t: "applyExecutionReport pair_pkg no_engine system_caller ?i ?s = (Inr (), t)"
    using sample_claim_report by blast
  from successful_report_was_allowed[OF this] t show ?thesis by blast
qed

text \<open>C7: The trades of all orders change only by the fill that a report carries: one trade with
  its quantity and price is appended to its order, and a report without a fill changes none.\<close>

theorem report_books_its_fill_once:
  assumes "applyExecutionReport D E c i s = (Inr (), t)"
  shows "if has_fill i
     then \<exists>ts tr. trades_of s (In_Order i) = Some ts
        \<and> trades_of t = (trades_of s)(In_Order i \<mapsto> ts @ [tr])
        \<and> Trade_Quantity tr = In_FillQuantity i \<and> Trade_Price tr = In_FillPrice i
     else trades_of t = trades_of s"
proof -
  obtain u where u: "report_effect c i u t" and us: "u = s \<or> (\<exists>j. u = engine_ran j s)"
    using applyExecutionReport_effect[OF assms] by blast
  have "trades_of u = trades_of s" using us by (auto simp: trades_of_def fun_eq_iff)
  from report_effect_trades[OF u, unfolded this] show ?thesis .
qed

theorem report_books_its_fill_once_witness:
  "\<exists>t tr. applyExecutionReport pair_pkg quiet_engine system_caller fill_input sample_world
      = (Inr (), t) \<and> trades_of t ''o1'' = Some [tr] \<and> Trade_Quantity tr = ''2''"
proof -
  obtain t where t: "applyExecutionReport pair_pkg quiet_engine system_caller fill_input sample_world
      = (Inr (), t)"
    using fill_input_applies by blast
  have "has_fill fill_input" "In_Order fill_input = ''o1''" "In_FillQuantity fill_input = ''2''"
    by (simp_all add: fill_input_def fill_as_def has_fill_def empty_report_def)
  then obtain ts tr where "trades_of sample_world ''o1'' = Some ts"
    "trades_of t = (trades_of sample_world)(''o1'' \<mapsto> ts @ [tr])" "Trade_Quantity tr = ''2''"
    using report_books_its_fill_once[OF t] by auto
  moreover have "trades_of sample_world ''o1'' = Some []"
    by (simp add: trades_of_def sample_world_def sample_detail_def)
  ultimately have "trades_of t ''o1'' = Some [tr]" by simp
  with t \<open>Trade_Quantity tr = ''2''\<close> show ?thesis by blast
qed

text \<open>C8: A fill that the venue delivers again changes nothing: when its cumulative quantity is
  already booked, handling it succeeds and the world stays as it was.\<close>

theorem redelivered_fill_changes_nothing:
  assumes "decimal_pkg_ok D" and "R_Faults s = []" and "R_Orders s (VO_Order l) = Some d"
    and "trades_ok D (Det_Trades d)" and "fillQuantities D f = Inr (q, c)"
    and "fill_cum D f \<le> booked D (Det_Trades d)"
  shows "handleFill D E l f s = (Inr (), s)"
  using assms by (rule handleFill_again)

theorem redelivered_fill_changes_nothing_witness:
  "handleFill pair_pkg no_engine sent_link sample_fill filled_world = (Inr (), filled_world)"
proof (rule redelivered_fill_changes_nothing)
  show "R_Orders filled_world (VO_Order sent_link) = Some (sample_detail\<lparr>Det_Trades := [sample_trade]\<rparr>)"
    by (simp add: filled_world_def sent_link_def sample_link_def)
  show "fillQuantities pair_pkg sample_fill = Inr ((2, 0), (2, 0))"
    by (rule sample_fill_quantities)
  show "trades_ok pair_pkg (Det_Trades (sample_detail\<lparr>Det_Trades := [sample_trade]\<rparr>))"
    "fill_cum pair_pkg sample_fill \<le> booked pair_pkg (Det_Trades (sample_detail\<lparr>Det_Trades := [sample_trade]\<rparr>))"
    using sample_numbers
    by (simp_all add: trades_ok_def booked_def trade_qty_def fill_cum_def sample_trade_def
        sample_fill_def dval_def)
qed (simp_all add: pair_pkg_ok filled_world_def sample_world_def)

text \<open>C9: A fill that continues the booked quantity is booked once, with its own quantity, and
  brings the booked quantity to the cumulative quantity of the venue. Whatever booking it returns
  and whatever the store and the engine answer, either no trade and no report id was stored, or the
  fill's trade alone was appended to its order and the fill's report id to the known ones, and the
  booked quantity is the venue's cumulative. With success and an unknown report id it is the
  latter, as long as neither the store nor the engine answers that something exists already.\<close>

theorem next_fill_advances_to_venue_cumulative:
  assumes "decimal_pkg_ok D" and "applyFill D E l oi f s = (r, t)"
    and "fillQuantities D f = Inr (q, c)"
    and "trades_of s (VO_Order l) = Some ts" and "trades_ok D ts"
    and "fill_cum D f = booked D ts + fill_qty D f" and "0 < fill_qty D f"
  shows "(trades_of t = trades_of s \<and> R_Reports t = R_Reports s
      \<or> (\<exists>tr. Trade_Quantity tr = Fill_Quantity f \<and> Trade_Price tr = Fill_Price f
          \<and> trades_of t = (trades_of s)(VO_Order l \<mapsto> ts @ [tr])
          \<and> R_Reports t = R_Reports s @ [reportID (VO_ClientOrderID l) (''fill:'' @ DecString D c)]
          \<and> trades_ok D (ts @ [tr]) \<and> booked D (ts @ [tr]) = fill_cum D f))
    \<and> (r = Inr () \<and> unreported E (reportID (VO_ClientOrderID l) (''fill:'' @ DecString D c)) s
        \<longrightarrow> trades_of t \<noteq> trades_of s)"
  using applyFill_books[OF assms] by blast

theorem next_fill_advances_to_venue_cumulative_witness:
  "\<exists>t tr. applyFill pair_pkg quiet_engine sample_link sample_order sample_fill sample_world = (Inr (), t)
     \<and> trades_of t (VO_Order sample_link) = Some [tr] \<and> Trade_Quantity tr = ''2''
     \<and> booked pair_pkg [tr] = 2"
proof -
  obtain t where t: "applyFill pair_pkg quiet_engine sample_link sample_order sample_fill sample_world
      = (Inr (), t)"
    using fill_event_applies by blast
  have f: "fill_qty pair_pkg sample_fill = 2" "fill_cum pair_pkg sample_fill = 2"
    "Fill_Quantity sample_fill = ''2''"
    using sample_numbers by (simp_all add: fill_qty_def fill_cum_def sample_fill_def dval_def)
  have ts: "trades_of sample_world (VO_Order sample_link) = Some []"
    by (simp add: trades_of_def sample_world_def sample_detail_def sample_link_def)
  have n: "unreported quiet_engine x sample_world" for x
    by (simp add: unreported_def sample_world_def quiet_engine_def)
  note h = next_fill_advances_to_venue_cumulative[OF pair_pkg_ok t sample_fill_quantities ts]
  have "trades_of t \<noteq> trades_of sample_world" using h n f by (simp add: trades_ok_def booked_def)
  then show ?thesis using h t f by (auto simp: trades_ok_def booked_def)
qed

subsection \<open>The order desk\<close>

text \<open>C10: Only orders that the engine holds reach a venue, each at most once. The runs are any
  sequences of submissions, immediate submissions, confirmations, cancellations, reports of any
  caller, sends, venue events, reconciliations, retries and changes of the environment, whatever
  the store, the engine and the venue answer, from a world in which every accepted order is held
  and the venue was handed nothing.\<close>

theorem venue_is_handed_held_orders:
  assumes "(desk_step D E G)\<^sup>*\<^sup>* s t" and "all_held s" and "R_Links s = []" and "V_Requests s = []"
  shows "distinct (map fst (V_Requests t)) \<and> set (map fst (V_Requests t)) \<subseteq> set (R_Reserved t)
    \<and> (\<forall>oid d. R_Orders t oid = Some d \<longrightarrow> accepted_order d \<longrightarrow> oid \<in> set (R_Reserved t))"
proof -
  have "venue_held s" using assms(2-4) by (simp add: venue_held_def guarded_def)
  then have "venue_held t" by (rule desk_steps_venue_held[OF assms(1)])
  then show ?thesis by (simp add: venue_held_def guarded_def held_def)
qed

theorem venue_is_handed_held_orders_witness:
  "\<exists>t m. (desk_step pair_pkg no_engine desk_engine)\<^sup>*\<^sup>* sample_world t \<and> V_Requests t = [(''o1'', m)]
     \<and> ''o1'' \<in> set (R_Reserved t)"
proof -
  obtain l t m where s: "send pair_pkg no_engine ''o1'' sample_destination sample_world = (Inr l, t)"
    and r: "V_Requests t = [(''o1'', m)]"
    using sample_sent by blast
  have st: "(desk_step pair_pkg no_engine desk_engine)\<^sup>*\<^sup>* sample_world t"
    using desk_send[of pair_pkg no_engine desk_engine sample_world "''o1''" sample_destination] s
    by (metis r_into_rtranclp snd_conv)
  have "all_held sample_world" by (simp add: held_def sample_world_def)
  from venue_is_handed_held_orders[OF st this] r st show ?thesis
    by (auto simp: sample_world_def)
qed

text \<open>C11: A submission follows the engine. With success the store has one new order: committed, with
  the lock and exactly the leaves and the hold of the engine's answer, and the engine holds it;
  or rejected, with nothing open and the engine's rejects, and the holds are as before. An error
  leaves orders, reports, links and holds alone, or the node has stopped.\<close>

theorem submission_follows_the_engine:
  assumes "submitOrder D G attestFor oi missing c s = (r, t)"
  shows "case r of Inr (placed, result) \<Rightarrow> submission_stored G oi placed result s t
    | Inl e \<Rightarrow> R_Fatal t \<or> books_of s t"
proof (cases r)
  case (Inl e)
  then show ?thesis using submitOrder_error[OF assms[unfolded Inl]] by simp
next
  case (Inr p)
  then show ?thesis using submitOrder_stored[of D] assms by (cases p) simp
qed

theorem submission_follows_the_engine_witness:
  "\<exists>placed result t. submitOrder pair_pkg desk_engine None desk_draft MissingAccountCreate desk_caller desk_world
       = (Inr (placed, result), t)
     \<and> OR_Accepted result \<and> submission_stored desk_engine desk_draft placed result desk_world t"
proof -
  obtain placed result t where s: "submitOrder pair_pkg desk_engine None desk_draft MissingAccountCreate
      desk_caller desk_world = (Inr (placed, result), t)" and a: "OR_Accepted result"
    using desk_submitted by blast
  from submission_follows_the_engine[OF s] s a show ?thesis by auto
qed

text \<open>C12: An immediate submission is filled or refused as a whole. With success the store has one
  new order: filled, with no leaves, by the single report that the engine was given after it
  committed the hold, at the order's own price and under a report id that was free; or rejected,
  without a trade. An error leaves orders, report ids and links alone, or the node has stopped;
  when it left a hold or a fill in the engine it says that the engine needs a reconciliation.\<close>

theorem immediate_submission_is_all_or_nothing:
  assumes "submitImmediate D G attestFor oi missing c s = (r, t)"
  shows "case r of Inr (placed, result) \<Rightarrow> immediate_stored oi placed result s t
    | Inl e \<Rightarrow> R_Fatal t \<or> books_of s t \<or> (\<exists>hold action. e = immediateReconciliationError hold action)
        \<and> R_Orders t = R_Orders s \<and> R_Reports t = R_Reports s \<and> R_Links t = R_Links s"
proof (cases r)
  case (Inl e)
  then show ?thesis using submitImmediate_error[OF assms[unfolded Inl]] by simp
next
  case (Inr p)
  then show ?thesis using submitImmediate_stored[of D] assms by (cases p) simp
qed

theorem immediate_submission_is_all_or_nothing_witness:
  "\<exists>placed result t. submitImmediate pair_pkg desk_engine None desk_draft MissingAccountCreate desk_caller
       desk_world = (Inr (placed, result), t)
     \<and> IR_FillQuantity result = ''2'' \<and> immediate_stored desk_draft placed result desk_world t"
proof -
  obtain placed result t where s: "submitImmediate pair_pkg desk_engine None desk_draft MissingAccountCreate
      desk_caller desk_world = (Inr (placed, result), t)" and a: "IR_FillQuantity result = ''2''"
    using desk_filled by blast
  from immediate_submission_is_all_or_nothing[OF s] s a show ?thesis by auto
qed

text \<open>C13: A confirmation changes nothing but the history, even when the store moved between its
  reads and its write. It goes on only with an order that is open, has no venue link and no report.
  Whatever the state at the write and whatever the write returns, every order keeps the values and
  trades it has by then; with success the history gets one confirmation event if the confirmation
  had read none and the order still has the status it read, and stays as it is otherwise. Without
  anything between them reads and write are the whole operation.\<close>

theorem confirmation_keeps_values:
  assumes "confirm_read oid s = (Inr (d, evs), u)"
    and "confirm_write D pr attest oid c d evs v = (r, t)"
  shows "untouched oid s d \<and> evs = Det_Events d \<and> books_of s u
    \<and> values_of t = values_of v
    \<and> (\<forall>oi. r = Inr oi \<longrightarrow> oi = Det_Order d
        \<and> (if orderEventExists (Det_Events d) OrderEventConfirmed then t = v
           else \<exists>e e'. R_Orders v oid = Some e \<and> R_Orders t = (R_Orders v)(oid \<mapsto> e')
             \<and> Order_Status (Det_Order e) = Order_Status (Det_Order d)
             \<and> map Event_Type (Det_Events e') = map Event_Type (Det_Events e) @ [OrderEventConfirmed]))
    \<and> (v = u \<longrightarrow> confirmOrder D pr attest oid c s = (r, t))"
proof -
  have read: "untouched oid s d" "evs = Det_Events d" "books_of s u"
    using confirm_read_Inr[OF assms(1)] by blast+
  have "values_of t = values_of v"
    using keepsD[OF confirm_write_values[of "values_of v"], of v] assms(2) by (metis snd_conv)
  moreover have "oi = Det_Order d \<and> t = v"
    if "r = Inr oi" "orderEventExists (Det_Events d) OrderEventConfirmed" for oi
    using assms(2) that read(2) by (simp add: confirm_write_def ret_def)
  moreover have "confirmOrder D pr attest oid c s = (r, t)" if "v = u"
    using assms that by (simp add: confirmOrder_def andthen_def)
  moreover have "oi = Det_Order d \<and> (\<exists>e e'. R_Orders v oid = Some e \<and> R_Orders t = (R_Orders v)(oid \<mapsto> e')
       \<and> Order_Status (Det_Order e) = Order_Status (Det_Order d)
       \<and> map Event_Type (Det_Events e') = map Event_Type (Det_Events e) @ [OrderEventConfirmed])"
    if "r = Inr oi" "\<not> orderEventExists (Det_Events d) OrderEventConfirmed" for oi
    using confirm_write_stored[of D pr attest oid c d evs v oi t] assms(2) that read(2) by simp
  ultimately show ?thesis
    using read by (cases "orderEventExists (Det_Events d) OrderEventConfirmed") auto
qed

theorem confirmation_keeps_values_witness:
  "\<exists>d evs u t. confirm_read ''o1'' sample_world = (Inr (d, evs), u)
     \<and> confirm_write pair_pkg (\<lambda>_. True) None ''o1'' desk_caller d evs u = (Inr sample_order, t)
     \<and> untouched ''o1'' sample_world d \<and> values_of t = values_of u
     \<and> (\<forall>v :: world. values_of (snd (confirm_write pair_pkg (\<lambda>_. True) None ''o1'' desk_caller d evs v)) = values_of v)"
proof -
  obtain d evs u t where r: "confirm_read ''o1'' sample_world = (Inr (d, evs), u)"
    and w: "confirm_write pair_pkg (\<lambda>_. True) None ''o1'' desk_caller d evs u = (Inr sample_order, t)"
    using desk_confirmed by (auto simp: confirmOrder_def andthen_Inr)
  have v: "values_of (snd (confirm_write pair_pkg (\<lambda>_. True) None ''o1'' desk_caller d evs v)) = values_of v" for v :: world
  proof -
    obtain p q where e: "confirm_write pair_pkg (\<lambda>_. True) None ''o1'' desk_caller d evs v = (p, q)"
      by fastforce
    have "values_of q = values_of v" using confirmation_keeps_values[OF r e] by (elim conjE)
    then show ?thesis using e by simp
  qed
  have "untouched ''o1'' sample_world d" by (rule confirmation_keeps_values[OF r w, THEN conjunct1])
  moreover have "values_of t = values_of u" using v[of u] w by simp
  ultimately show ?thesis
    using r w v by (intro exI[of _ d] exI[of _ evs] exI[of _ u] exI[of _ t]) simp
qed

text \<open>C14: A manual cancellation goes through the engine once and closes the order. With success the
  order was open, without a venue link and without a report; the engine was given the one
  cancellation of it, and the order is cancelled with the given leaves, its trades and the report
  ids as before. An error left the books alone or stopped the node.\<close>

theorem cancellation_settles_once:
  assumes "cancelWorkflowOrder D E attest oid leaves c s = (r, t)"
  shows "case r of Inr x \<Rightarrow> \<exists>d. cancelled oid leaves d s t | Inl e \<Rightarrow> books_of s t \<or> R_Fatal t"
proof (cases r)
  case (Inl e)
  then show ?thesis using cancelWorkflowOrder_error[OF assms[unfolded Inl]] by simp
next
  case (Inr x)
  then show ?thesis using cancelWorkflowOrder_stored[OF assms[unfolded Inr]] by simp
qed

theorem cancellation_settles_once_witness:
  "\<exists>x t d. cancelWorkflowOrder pair_pkg quiet_engine None ''o1'' ''0'' desk_caller sample_world = (Inr x, t)
     \<and> cancelled ''o1'' ''0'' d sample_world t"
proof -
  obtain x t where t: "cancelWorkflowOrder pair_pkg quiet_engine None ''o1'' ''0'' desk_caller sample_world = (Inr x, t)"
    using desk_cancelled by blast
  from cancellation_settles_once[OF t] t show ?thesis by auto
qed

text \<open>C15: The balance outcomes of the phases of an order are merged by asset: the result has one
  outcome per asset, in the order in which the assets first appear, and it is the merge of that
  asset's outcomes one after the other.\<close>

theorem outcomes_merge_by_asset:
  assumes "mergeBalanceOutcomes D phases = Inr ms"
  shows "distinct (map BO_Asset ms) \<and> map BO_Asset ms = seen_assets (concat phases)
    \<and> (\<forall>m\<in>set ms. merged_asset D (asset_outcomes (BO_Asset m) (concat phases)) = Inr (BO_Outcome m))"
  using mergeBalanceOutcomes_merges[OF assms] by (simp add: merges_def seen_assets_def)

theorem outcomes_merge_by_asset_witness:
  "\<exists>ms. mergeBalanceOutcomes pair_pkg [[\<lparr> BO_Asset = ''BTC'', BO_Outcome = desk_outcome \<rparr>],
       [\<lparr> BO_Asset = ''BTC'', BO_Outcome = desk_outcome\<lparr>Out_IncomingDelta := []\<rparr> \<rparr>]] = Inr ms
     \<and> map BO_Asset ms = [''BTC'']"
proof -
  obtain ms where m: "mergeBalanceOutcomes pair_pkg [[\<lparr> BO_Asset = ''BTC'', BO_Outcome = desk_outcome \<rparr>],
       [\<lparr> BO_Asset = ''BTC'', BO_Outcome = desk_outcome\<lparr>Out_IncomingDelta := []\<rparr> \<rparr>]] = Inr ms"
    by (simp add: mergeBalanceOutcomes_def merge_outcome_def mergeAcceptedOutcomes_def mergeOutcomeDelta_def
        desk_outcome_def res_bind_def)
  from outcomes_merge_by_asset[OF m] m show ?thesis by (simp add: seen_assets_def)
qed

subsection \<open>Commissions\<close>

text \<open>C16: A commission counts once. A report that succeeds adds the commission it carries exactly
  once to the fees of its order, whether it came with a fill, with a fee of its own or with a
  change of status, and no fee when it carries none.\<close>

theorem report_commission_counts_once:
  assumes "applyExecutionReport D E c i s = (Inr (), t)" and "R_Orders s (In_Order i) = Some d"
  shows "\<exists>e. R_Orders t (In_Order i) = Some e
    \<and> mset (order_fees e) = mset (order_fees d) + mset (case In_Commission i of None \<Rightarrow> [] | Some x \<Rightarrow> [x])"
  using assms by (rule report_commission_effect)

theorem report_commission_counts_once_witness:
  "\<exists>t e. applyExecutionReport pair_pkg quiet_engine system_caller fee_input sample_world = (Inr (), t)
     \<and> R_Orders t ''o1'' = Some e \<and> mset (order_fees e) = {#sample_fee#}"
proof -
  obtain t where t: "applyExecutionReport pair_pkg quiet_engine system_caller fee_input sample_world = (Inr (), t)"
    using fee_input_applies by blast
  have "R_Orders sample_world (In_Order fee_input) = Some sample_detail" "In_Order fee_input = ''o1''"
    "In_Commission fee_input = Some sample_fee" "order_fees sample_detail = []"
    by (simp_all add: sample_world_def fee_input_def fill_input_def fill_as_def sample_no_fees)
  with report_commission_counts_once[OF t, of sample_detail] t show ?thesis by auto
qed

text \<open>C17: The commission subtotals of an order are the exact totals of its fees by currency, sorted,
  one entry per currency; and a page of orders shows for each the subtotals that its detail
  shows, however the page is read in batches.\<close>

theorem subtotals_are_exact_totals:
  assumes "decimal_pkg_ok D" and "commissionSubtotalsByOrder D orders os = Inr page" and "distinct orders"
    and "oid \<in> set orders" and "os oid = Some d"
  shows "\<exists>cs. page oid = Some cs \<and> commissionSubtotals D oid (Det_Trades d) (Det_Events d) = Inr cs
    \<and> sorted (map Commission_Currency cs) \<and> distinct (map Commission_Currency cs)
    \<and> set (map Commission_Currency cs) = Commission_Currency ` set (order_fees d)
    \<and> (\<forall>x\<in>set cs. \<exists>v. Commission_Amount x = DecString D v
         \<and> dval D v = fee_total D (order_fees d) (Commission_Currency x))"
proof -
  have p: "commissionSubtotals D oid (Det_Trades d) (Det_Events d) = Inr (the (page oid))"
    by (rule page_agrees_with_detail[OF assms(2-5)])
  have "\<exists>cs. page oid = Some cs"
    using assms(2,4) by (auto simp: commissionSubtotalsByOrder_def res_bind_Inr)
  with p commissionSubtotals_totals[OF assms(1) p] show ?thesis by auto
qed

theorem subtotals_are_exact_totals_witness:
  "\<exists>page cs. commissionSubtotalsByOrder pair_pkg [''o1''] [''o1'' \<mapsto> charged_detail] = Inr page
     \<and> page ''o1'' = Some cs \<and> map Commission_Currency cs = [''USD'']"
proof -
  obtain page where p: "commissionSubtotalsByOrder pair_pkg [''o1''] [''o1'' \<mapsto> charged_detail] = Inr page"
    using charged_page by blast
  obtain cs where cs: "page ''o1'' = Some cs" "distinct (map Commission_Currency cs)"
    "set (map Commission_Currency cs) = Commission_Currency ` set (order_fees charged_detail)"
    using subtotals_are_exact_totals[OF pair_pkg_ok p, of "''o1''" charged_detail] by auto
  have "set (map Commission_Currency cs) = {''USD''}" using cs(3) by (simp add: charged_fees sample_fee_def)
  moreover have "[] \<noteq> xs \<Longrightarrow> distinct xs \<Longrightarrow> set xs = {x} \<Longrightarrow> xs = [x]" for xs and x :: string
    by (cases xs; cases "tl xs") auto
  ultimately have "map Commission_Currency cs = [''USD'']" using cs(2) by (metis empty_iff insert_not_empty list.set(1))
  with p cs(1) show ?thesis by (intro exI conjI)
qed

subsection \<open>Snapshots, fees and the form of reports\<close>

text \<open>A snapshot is accepted only when it is complete: each cumulative quantity is the sum of
  the fill quantities up to it, the last one is the filled quantity, and only the last fill of a
  filled order is final.\<close>

lemma accepted_snapshot_is_complete:
  assumes "decimal_pkg_ok D" and "validateSnapshot D s = Inr filled"
  shows "snapshot_complete D s \<and> NewFromString D (Snap_FilledQuantity s) = Some filled"
  using assms by (rule validateSnapshot_complete)

lemma accepted_snapshot_is_complete_instance: "snapshot_complete pair_pkg sample_snapshot"
  using accepted_snapshot_is_complete[OF pair_pkg_ok sample_snapshot_ok] by simp

text \<open>The fee intake never stores two adjustments with the same id.\<close>

lemma fees_booked_once:
  assumes "adjustments_once s"
  shows "adjustments_once (snd (intakeFees s))"
  by (rule keepsD[OF keeps_intakeFees assms])

lemma fees_booked_once_instance: "adjustments_once (snd (intakeFees sample_world))"
  by (rule fees_booked_once) (simp add: adjustments_once_def sample_world_def)

text \<open>C18: A closed order is final: once its status is terminal, its row, its history and its
  trades stay as they are through any sequence of sends, venue events, reconciliations, retries,
  submissions, confirmations, cancellations and reports of any caller that are not forced, whatever
  the store, the engine and the venue answer and whether the steps succeed or fail.\<close>

theorem closed_orders_are_final:
  assumes "(unforced_step D E G)\<^sup>*\<^sup>* s t" and "R_Orders s oid = Some d"
    and "OrderStatusTerminal (Order_Status (Det_Order d))"
  shows "R_Orders t oid = Some d"
  using unforced_steps_closed[OF assms(1), of oid d] assms(2,3) by (simp add: closed_order_def)

theorem closed_orders_are_final_witness:
  "let d = sample_detail\<lparr>Det_Order := sample_order\<lparr>Order_Status := OrderStatusFilled\<rparr>\<rparr>;
       s = sample_world\<lparr>R_Orders := [''o1'' \<mapsto> d]\<rparr>;
       u = snd (applyExecutionReport pair_pkg quiet_engine system_caller fill_input s);
       t = snd (cancelWorkflowOrder pair_pkg quiet_engine None ''o1'' ''0'' desk_caller u)
   in R_Orders t ''o1'' = Some d"
proof -
  let ?d = "sample_detail\<lparr>Det_Order := sample_order\<lparr>Order_Status := OrderStatusFilled\<rparr>\<rparr>"
  let ?s = "sample_world\<lparr>R_Orders := [''o1'' \<mapsto> ?d]\<rparr>"
  let ?u = "snd (applyExecutionReport pair_pkg quiet_engine system_caller fill_input ?s)"
  have "\<not> In_Force fill_input" by (simp add: fill_input_def fill_as_def empty_report_def)
  then have "unforced_step pair_pkg quiet_engine desk_engine ?s ?u" by (rule unforced_step.unforced_report)
  moreover have "unforced_step pair_pkg quiet_engine desk_engine ?u
      (snd (cancelWorkflowOrder pair_pkg quiet_engine None ''o1'' ''0'' desk_caller ?u))"
    by (rule unforced_step.unforced_cancel)
  ultimately have r: "(unforced_step pair_pkg quiet_engine desk_engine)\<^sup>*\<^sup>* ?s
      (snd (cancelWorkflowOrder pair_pkg quiet_engine None ''o1'' ''0'' desk_caller ?u))"
    by (meson converse_rtranclp_into_rtranclp r_into_rtranclp)
  show ?thesis unfolding Let_def by (rule closed_orders_are_final[OF r]) simp_all
qed

subsection \<open>Limits\<close>

text \<open>C19: However many tighten-only replacements of a rate barrier are accepted or refused in a
  row, the barrier never admits an order stream that the first one refused.\<close>

theorem rate_tightening_never_loosens:
  assumes "rate_valid c"
  shows "rate_admits (foldl (strictness.tighten rate_valid rate_same Rate_NoLooserThan) c rs)
    \<subseteq> rate_admits c"
  using assms by (rule rate_strict.tighten_all_admits)

theorem rate_tightening_never_loosens_witness:
  "\<forall>rs. rate_admits (foldl (strictness.tighten rate_valid rate_same Rate_NoLooserThan)
     \<lparr> Rate_Scope = ScopeBroker, Rate_Account = [], Rate_Asset = [], Rate_Window = second,
       Rate_MaxOrders = 5 \<rparr> rs)
   \<subseteq> rate_admits \<lparr> Rate_Scope = ScopeBroker, Rate_Account = [], Rate_Asset = [],
       Rate_Window = second, Rate_MaxOrders = 5 \<rparr>"
  by (rule allI, rule rate_tightening_never_loosens) (simp add: rate_valid_def)

text \<open>C20: The order-size guard is exact: a cap is no looser than another exactly when every
  order it admits is admitted by the other one.\<close>

theorem size_guard_exact:
  assumes "size_comparable D l" and "size_comparable D r"
  shows "Size_NoLooserThan D l r = None \<longleftrightarrow> size_admits D l \<subseteq> size_admits D r"
  using assms by (rule Size_NoLooserThan_iff)

theorem size_guard_exact_witness:
  "Size_NoLooserThan pair_pkg
     \<lparr> Size_Scope = ScopeBroker, Size_Account = [], Size_Asset = [], Size_MaxQuantity = ''5'',
       Size_MaxNotional = [] \<rparr>
     \<lparr> Size_Scope = ScopeBroker, Size_Account = [], Size_Asset = [], Size_MaxQuantity = [],
       Size_MaxNotional = [] \<rparr> = None"
proof -
  have "ParseEngineDecimal pair_pkg ''5'' = Inr (5, 0)" by code_simp
  then have "size_comparable pair_pkg
     \<lparr> Size_Scope = ScopeBroker, Size_Account = [], Size_Asset = [], Size_MaxQuantity = ''5'',
       Size_MaxNotional = [] \<rparr>"
    "size_comparable pair_pkg
     \<lparr> Size_Scope = ScopeBroker, Size_Account = [], Size_Asset = [], Size_MaxQuantity = [],
       Size_MaxNotional = [] \<rparr>"
    by (simp_all add: size_comparable_def engine_text_def pair_pkg_ok)
  from size_guard_exact[OF this] show ?thesis by (auto simp: size_admits_def bound_range_def)
qed

text \<open>C21: The P\&L guard accepts exactly the bounds in the same currency whose lower and upper
  range are both inside the stored ones.\<close>

theorem pnl_guard_exact:
  assumes "pnl_comparable D l" and "pnl_comparable D r"
  shows "Pnl_NoLooserThan D l r = None \<longleftrightarrow>
    Pnl_Currency l = Pnl_Currency r
    \<and> bound_range D (Pnl_LowerBound l) True \<subseteq> bound_range D (Pnl_LowerBound r) True
    \<and> bound_range D (Pnl_UpperBound l) False \<subseteq> bound_range D (Pnl_UpperBound r) False"
  using assms by (rule Pnl_NoLooserThan_iff)

theorem pnl_guard_exact_witness:
  "Pnl_NoLooserThan pair_pkg
     \<lparr> Pnl_Axis = SpotFundsPnlAxisTotal, Pnl_Scope = ScopeBroker, Pnl_Account = [],
       Pnl_AccountGroup = [], Pnl_Currency = ''USD'', Pnl_LowerBound = ''-5'', Pnl_UpperBound = [] \<rparr>
     \<lparr> Pnl_Axis = SpotFundsPnlAxisTotal, Pnl_Scope = ScopeBroker, Pnl_Account = [],
       Pnl_AccountGroup = [], Pnl_Currency = ''EUR'', Pnl_LowerBound = ''-5'', Pnl_UpperBound = [] \<rparr>
   \<noteq> None"
proof -
  have "ParseEngineDecimal pair_pkg ''-5'' = Inr (- 5, 0)" by code_simp
  then have "pnl_comparable pair_pkg
     \<lparr> Pnl_Axis = SpotFundsPnlAxisTotal, Pnl_Scope = ScopeBroker, Pnl_Account = [],
       Pnl_AccountGroup = [], Pnl_Currency = c, Pnl_LowerBound = ''-5'', Pnl_UpperBound = [] \<rparr>" for c
    by (simp add: pnl_comparable_def engine_text_def pair_pkg_ok)
  from pnl_guard_exact[OF this this] show ?thesis by simp
qed

text \<open>C22: An accepted engine decimal has the value that was written, within 64 code points, a
  scale of at most 28 and a 96-bit mantissa.\<close>

theorem engine_decimal_sound:
  assumes "decimal_pkg_ok D" and "ParseEngineDecimal D v = Inr d"
  shows "\<exists>x. NewFromString D v = Some x \<and> dval D d = dval D x \<and> rune_count v \<le> 64
    \<and> - 28 \<le> Exponent D d \<and> Exponent D d \<le> 0 \<and> \<bar>Coefficient D d\<bar> < 2 ^ 96"
  using assms by (rule ParseEngineDecimal_sound)

theorem engine_decimal_sound_witness:
  "\<exists>x. NewFromString pair_pkg ''-5.50'' = Some x \<and> dval pair_pkg (- 55, - 1) = dval pair_pkg x"
proof -
  have "ParseEngineDecimal pair_pkg ''-5.50'' = Inr (- 55, - 1)" by code_simp
  from engine_decimal_sound[OF pair_pkg_ok this] show ?thesis by blast
qed

text \<open>C23: Every text of at most 64 code points whose value is a non-zero number with a 96-bit
  mantissa and a scale of at most 28 is accepted, however it is written.\<close>

theorem engine_decimal_complete:
  assumes "decimal_pkg_ok D" and "rune_count v \<le> 64" and "NewFromString D v = Some x"
    and "dval D x \<noteq> 0" and "engine_decimal (dval D x)"
  shows "\<exists>d. ParseEngineDecimal D v = Inr d"
  using assms by (rule ParseEngineDecimal_complete)

theorem engine_decimal_complete_witness: "\<exists>d. ParseEngineDecimal pair_pkg ''2'' = Inr d"
proof (rule engine_decimal_complete[OF pair_pkg_ok _ sample_numbers(1)])
  show "rune_count ''2'' \<le> 64"
    by (simp add: rune_count_runes go_runes_ascii)
  have "engine_decimal 2"
    unfolding engine_decimal_def by (intro exI[of _ 2] exI[of _ 0]) simp
  then show "engine_decimal (dval pair_pkg (2, 0))" by (simp add: dval_def)
qed (simp add: dval_def)

text \<open>A bound is accepted exactly when it is an engine decimal written as an optional sign,
  digits and at most one point, with at most 28 digits after it.\<close>

lemma engine_bound_text:
  "parseEngineBound D v = Inr d \<longleftrightarrow> ParseEngineDecimal D v = Inr d \<and> plain_engine_text v"
  by (rule parseEngineBound_Inr)

text \<open>C24: An adjustment that the tighten-only guard accepts lowers or keeps the available, held
  and incoming amounts, stays in the account currency and does not touch the books.\<close>

theorem accepted_adjustment_only_lowers:
  assumes "decimal_pkg_ok D" and "Adjustment_NoLooserThan D r currency current = None"
  shows "currency \<noteq> [] \<and> Adj_Asset r = currency
    \<and> field_after D (Adj_Balance r) (Bal_Available current) \<le> field_now D (Bal_Available current)
    \<and> field_after D (Adj_Held r) (Bal_Held current) \<le> field_now D (Bal_Held current)
    \<and> field_after D (Adj_Incoming r) (Bal_Incoming current) \<le> field_now D (Bal_Incoming current)
    \<and> Adj_RealizedPnlHaltReason r = NoPnlHalt
    \<and> (Bal_RealizedPnlHaltReason current \<noteq> NoPnlHalt \<longrightarrow> Adj_RealizedPnl r = [])
    \<and> same_number D (Adj_AverageEntryPrice r) (Bal_AverageEntryPrice current)
    \<and> same_number D (Adj_RealizedPnl r) (Bal_RealizedPnl current)"
  using assms by (rule Adjustment_NoLooserThan_lowers)

theorem accepted_adjustment_only_lowers_witness:
  "\<exists>r current. Adjustment_NoLooserThan pair_pkg r ''USD'' current = None
     \<and> Adj_Balance r = Some \<lparr> Amount_Mode = AdjustmentModeDelta, Amount_Value = ''-5'' \<rparr>
     \<and> Adj_Held r = Some \<lparr> Amount_Mode = AdjustmentModeAbsolute, Amount_Value = ''2'' \<rparr>
     \<and> field_now pair_pkg (Bal_Available current) = 10
     \<and> field_after pair_pkg (Adj_Balance r) (Bal_Available current) = 5
     \<and> field_after pair_pkg (Adj_Held r) (Bal_Held current) = 2
     \<and> field_after pair_pkg (Adj_Held r) (Bal_Held current) \<le> field_now pair_pkg (Bal_Held current)"
proof -
  let ?r = "\<lparr> Adj_Type = AdjustmentTypeCorrection, Adj_Asset = ''USD'', Adj_AverageEntryPrice = [],
     Adj_RealizedPnl = [], Adj_RealizedPnlHaltReason = NoPnlHalt,
     Adj_Balance = Some \<lparr> Amount_Mode = AdjustmentModeDelta, Amount_Value = ''-5'' \<rparr>,
     Adj_BalanceBounds = None,
     Adj_Held = Some \<lparr> Amount_Mode = AdjustmentModeAbsolute, Amount_Value = ''2'' \<rparr>,
     Adj_HeldBounds = None, Adj_Incoming = None, Adj_IncomingBounds = None \<rparr>"
  let ?c = "empty_balance\<lparr> Bal_Available := ''10'', Bal_Held := ''5'', Bal_Asset := ''USD'' \<rparr>"
  have n: "ParseEngineDecimal pair_pkg ''-5'' = Inr (- 5, 0)" "ParseEngineDecimal pair_pkg ''10'' = Inr (10, 0)"
    "ParseEngineDecimal pair_pkg ''2'' = Inr (2, 0)" "ParseEngineDecimal pair_pkg ''5'' = Inr (5, 0)"
    by code_simp+
  have ok: "Adjustment_NoLooserThan pair_pkg ?r ''USD'' ?c = None"
    using n by (simp add: Adjustment_NoLooserThan_def InAccountCurrency_def adjust_field_def books_field_def
        boundNoLooserThan_def empty_balance_def dec_positive_val dec_gt_val[OF pair_pkg_ok]
        dval_def Let_def check_def)
  have "field_now pair_pkg (Bal_Available ?c) = 10"
    "field_after pair_pkg (Adj_Balance ?r) (Bal_Available ?c) = 5"
    "field_after pair_pkg (Adj_Held ?r) (Bal_Held ?c) = 2"
    using n by (simp_all add: field_now_def field_after_def bound_value_def dval_def empty_balance_def)
  then show ?thesis
    using ok accepted_adjustment_only_lowers[OF pair_pkg_ok ok]
    by (intro exI[of _ ?r] exI[of _ ?c]) simp
qed

subsection \<open>Accounts and dictionary entries\<close>

text \<open>The block state shown for an account through the group index is the refusal the
  engine gives: its own block first, else that of the group it belongs to.\<close>

lemma shown_block_is_engine_refusal:
  assumes "distinct (map Group_Code gs)"
  shows "shown_refusal (ResolveIndexed (NewGroupBlockIndex gs) a) = engine_refuses gs a"
  using assms by (rule shown_refusal_resolve)

lemma shown_block_is_engine_refusal_instance:
  "\<forall>a. shown_refusal (ResolveIndexed (NewGroupBlockIndex
      [zero_group\<lparr>Group_Code := ''g'', Group_Blocked := True, Group_BlockReason := ''halt''\<rparr>]) a)
   = engine_refuses
      [zero_group\<lparr>Group_Code := ''g'', Group_Blocked := True, Group_BlockReason := ''halt''\<rparr>] a"
  by (rule allI, rule shown_block_is_engine_refusal) simp

text \<open>A normalised reason is always accepted, and an accepted reason is left as it is.\<close>

lemma normalized_reason_is_accepted:
  "ValidateReason pr (NormalizeReason pr s) = None
   \<and> (ValidateReason pr s = None \<longrightarrow> NormalizeReason pr s = s)"
  using NormalizeReason_accepted NormalizeReason_id by blast

lemma normalized_reason_is_accepted_instance:
  "\<forall>s. NormalizeReason ascii_print (NormalizeReason ascii_print s) = NormalizeReason ascii_print s"
  using normalized_reason_is_accepted by blast

text \<open>A generated external id has 22 characters of the URL alphabet, is valid and gives its
  random bytes back.\<close>

lemma generated_id_roundtrip:
  assumes "GeneratedExternalIDFromBytes b = Inr x"
  shows "length x = 22 \<and> set x \<subseteq> set b64_alphabet \<and> ParseExternalID x = Inr x
    \<and> b64_decode x = Some b"
proof -
  have "length b = 16" and "x = b64_encode b"
    using assms
    by (auto simp: GeneratedExternalIDFromBytes_def ExternalIDByteLen_def split: if_splits)
  moreover from this have "length x = 22" by (simp add: length_b64_encode)
  ultimately show ?thesis
    using b64_encode_alphabet[of b] by (auto simp: b64_roundtrip ParseExternalID_def)
qed

lemma generated_id_roundtrip_instance:
  "b64_decode ''QUFBQUFBQUFBQUFBQUFBQQ'' = Some (replicate 16 CHR ''A'')"
  using generated_id_roundtrip[of "replicate 16 CHR ''A''" "''QUFBQUFBQUFBQUFBQUFBQQ''"] sample_b64
  by (simp add: GeneratedExternalIDFromBytes_def ExternalIDByteLen_def)

text \<open>C25: An accepted asset code is a code of the shared contract with at most 32 runes.\<close>

theorem asset_code_contract:
  assumes "ValidateAsset pr s = None"
  shows "code_text pr s \<and> rune_count s \<le> 32"
  using assms unfolding ValidateAsset_def by (rule validateAsset_code_text)

theorem asset_code_contract_witness: "code_text ascii_print ''BTC''"
proof -
  have "ValidateAsset ascii_print ''BTC'' = None"
    by (simp add: ValidateAsset_def validateAsset_iff valid_utf8_ascii go_runes_ascii
        isPathDotSegment_def ascii_print_def is_space_def)
  from asset_code_contract[OF this] show ?thesis by simp
qed

text \<open>Accepting trading grants one after the other without a fee account keeps at most one
  grant, and it names an account.\<close>

lemma grants_without_fee_account:
  "one_account_subject (foldl grant_without_fee [] as)"
  by (rule grants_without_fee_one)

subsection \<open>Access control of the panel\<close>

text \<open>C26: In every reachable state of the access service the published mode and tokens are those
  of the database; token mode holds a password and both tokens, none empty; setup and open mode
  hold no credential and no session; setup is the mode before its completion was recorded; and a
  session id has one row.\<close>

theorem access_state_is_consistent:
  assumes "access_reached C s"
  shows "A_Snapshot s = snapshot_of (A_Db s)
    \<and> (Db_Mode (A_Db s) = ModeToken \<longrightarrow> (\<forall>k. credential (A_Db s) k \<noteq> []))
    \<and> (Db_Mode (A_Db s) \<noteq> ModeToken \<longrightarrow> Db_Credentials (A_Db s) = Map.empty \<and> Db_Sessions (A_Db s) = [])
    \<and> (Db_Mode (A_Db s) = ModeSetup \<longleftrightarrow> Db_CompletedAt (A_Db s) = None)
    \<and> Db_Mode (A_Db s) \<in> {ModeSetup, ModeOpen, ModeToken}
    \<and> distinct (map Ses_IDHash (Db_Sessions (A_Db s)))"
proof -
  have "wf_access (A_Db s)" and "A_Snapshot s = snapshot_of (A_Db s)"
    using reached_ok[OF assms] by (simp_all add: store_ok_def)
  then show ?thesis using consistent_facts by blast
qed

theorem access_state_is_consistent_witness:
  "\<exists>t. access_reached sample_crypto t \<and> Db_Mode (A_Db t) = ModeToken
     \<and> credential (A_Db t) apiTokenKind \<noteq> [] \<and> A_Snapshot t = snapshot_of (A_Db t)"
  using access_state_is_consistent[OF sample_reached] sample_reached sample_mode(2) by blast

text \<open>C27: Setup completes once: after its completion was recorded no call returns to setup or
  changes the recorded time, and every setup operation of the access service, the reads of the
  progress, the steps, the refusal of encryption, the completion and whatever other components run
  during setup, is refused before it does anything.\<close>

theorem setup_completes_once:
  assumes "access_reached C s" and "Db_CompletedAt (A_Db s) = Some x"
    and "(access_step C)\<^sup>*\<^sup>* s t"
  shows "Db_CompletedAt (A_Db t) = Some x \<and> Snap_Mode (A_Snapshot t) \<in> {ModeOpen, ModeToken}
    \<and> WhileInSetup f t = (Inl (Sentinel ErrSetupComplete), t)
    \<and> SetupState t = (Inl (Sentinel ErrSetupComplete), t)
    \<and> SetSetupStep st t = (Inl (Sentinel ErrSetupComplete), t)
    \<and> DeclineEncryption acknowledged t = (Inl (Sentinel ErrSetupComplete), t)
    \<and> CompleteSetup C ctx mode pw acknowledged t = (Inl (Sentinel ErrSetupComplete), t)"
  using completed_steps[OF reached_ok[OF assms(1)] assms(2,3)] .

theorem setup_completes_once_witness:
  "let s = snd (RegenerateToken (Some publicCaller) TokenAPI sample_service)
   in SetupState s = (Inl (Sentinel ErrSetupComplete), s)
     \<and> CompleteSetup sample_crypto (Some publicCaller) ModeOpen [] True s
        = (Inl (Sentinel ErrSetupComplete), s)"
proof -
  have "Db_CompletedAt (A_Db sample_service) = Some 0" by (simp add: sample_service_def sample_db_def)
  moreover have "(access_step sample_crypto)\<^sup>*\<^sup>* sample_service
      (snd (RegenerateToken (Some publicCaller) TokenAPI sample_service))"
    by (intro r_into_rtranclp access_step.quiet quiet_step.regenerate)
  ultimately show ?thesis using setup_completes_once[OF sample_reached] unfolding Let_def by blast
qed

text \<open>C28: A request is admitted exactly with the credential of its surface: in open mode any
  request, during setup the panel's setup routes, in token mode the REST API with the API token,
  MCP with the agent token and the panel with a live session. The admitted caller is the
  operator. A store failure can only refuse.\<close>

theorem requests_admitted_exactly:
  assumes "access_reached C s"
  shows "(fst (ResolveCaller C r s) = Inr c \<longrightarrow> c = operator_caller \<and> admitted C (A_Db s) (A_Now s) r)
    \<and> (A_Faults s = [] \<and> admitted C (A_Db s) (A_Now s) r
         \<longrightarrow> fst (ResolveCaller C r s) = Inr operator_caller)"
  using ResolveCaller_sound[OF reached_ok[OF assms]] ResolveCaller_complete[OF reached_ok[OF assms]]
  by blast

theorem requests_admitted_exactly_witness:
  "fst (ResolveCaller sample_crypto \<lparr> Req_Surface = Some SourcePanel, Req_DuringSetup = False,
      Req_Authorization = [], Req_Cookie = Some sample_cookie, Req_Host = [] \<rparr> sample_service)
   = Inr operator_caller"
proof -
  have "session_live sample_session 0"
    by (simp add: session_live_def sample_session_def sessionLifetime_def sessionIdleTimeout_def
        one_second_def)
  then have "admitted sample_crypto (A_Db sample_service) (A_Now sample_service)
      \<lparr> Req_Surface = Some SourcePanel, Req_DuringSetup = False,
        Req_Authorization = [], Req_Cookie = Some sample_cookie, Req_Host = [] \<rparr>"
    by (simp add: admitted_def sessionCookieValue_def sample_cookie_hash sample_service_def sample_db_def)
       (simp add: sample_session_def)
  then show ?thesis
    using requests_admitted_exactly[OF sample_reached] by (simp add: sample_service_def)
qed

text \<open>C29: A password change needs the current password, stores a hash that accepts the new one,
  ends every session but the one of the request, keeps both tokens and forgets the recovery
  code.\<close>

theorem password_change_ends_other_sessions:
  assumes "crypto_ok C" and "ChangePassword C ctx cookie cur pw s = (Inr (), t)"
  shows "\<exists>keep old hash at'. sessionIDHash C cookie = Some keep
    \<and> Db_Sessions (A_Db t) = filter (\<lambda>x. Ses_IDHash x = keep) (Db_Sessions (A_Db s))
    \<and> Db_Credentials (A_Db s) panelPasswordKind = Some old \<and> verifyPassword C (fst old) cur = Inr True
    \<and> Db_Credentials (A_Db t) = (Db_Credentials (A_Db s))(panelPasswordKind \<mapsto> (hash, at'))
    \<and> verifyPassword C hash pw = Inr True \<and> Rc_Code (Svc_Recovery t) = []"
  using change_password_result[OF assms] by (fastforce simp: password_replaced_def)

theorem password_change_ends_other_sessions_witness:
  "\<exists>t. ChangePassword sample_crypto (Some publicCaller) sample_cookie ''password'' ''correct-horse''
     sample_service = (Inr (), t) \<and> Rc_Code (Svc_Recovery t) = []"
  using sample_change password_change_ends_other_sessions[OF sample_crypto_ok] by metis

text \<open>C30: A recovery code is good for one use: a reset succeeds only with the live code, leaves
  the new session as the only one and a hash that accepts the new password, and afterwards, through
  any calls, faults and times, every reset is refused as long as no new code is printed.\<close>

theorem recovery_code_is_single_use:
  assumes "crypto_ok C" and "ResetWithRecoveryCode C code pw s = (Inr i, t)"
    and "(access_step C)\<^sup>*\<^sup>* t u" and "Svc_Printed u = Svc_Printed t"
  shows "recovery_live (Svc_Recovery s) (A_Now s) \<and> normalizeRecoveryCode C code = Rc_Code (Svc_Recovery s)
    \<and> (\<exists>x. Db_Sessions (A_Db t) = [x] \<and> sessionIDHash C i = Some (Ses_IDHash x))
    \<and> (\<exists>hash at'. Db_Credentials (A_Db t) panelPasswordKind = Some (hash, at')
        \<and> verifyPassword C hash pw = Inr True)
    \<and> (\<exists>e. fst (ResetWithRecoveryCode C code' pw' u) = Inl e
        \<and> (Snap_Mode (A_Snapshot u) = ModeToken \<and> validatePassword pw' = None \<longrightarrow> e = errNoRecoveryCode))"
proof -
  note r = reset_password_result[OF assms(1,2)]
  have "\<exists>e. fst (ResetWithRecoveryCode C code' pw' u) = Inl e
        \<and> (Snap_Mode (A_Snapshot u) = ModeToken \<and> validatePassword pw' = None \<longrightarrow> e = errNoRecoveryCode)"
    by (rule used_code_refused[OF assms])
  then show ?thesis using r by (fastforce simp: password_replaced_def)
qed

theorem recovery_code_is_single_use_witness:
  "\<exists>s i t. ResetWithRecoveryCode sample_crypto (snd (last (Svc_Printed s))) ''correct-horse'' s = (Inr i, t)
     \<and> (\<forall>code' later. A_Now t \<le> later \<longrightarrow>
          (\<exists>e. fst (ResetWithRecoveryCode sample_crypto code' ''correct-horse'' (t\<lparr>A_Now := later\<rparr>)) = Inl e))"
proof -
  obtain u i v where u: "RequestRecovery sample_service = (Inr (True, recoveryCodeTTL), u)"
    and r: "ResetWithRecoveryCode sample_crypto (snd (last (Svc_Printed u))) ''correct-horse''
          (u\<lparr>A_Now := one_second\<rparr>) = (Inr i, v)"
    using sample_printed by blast
  have "(access_step sample_crypto)\<^sup>*\<^sup>* v (v\<lparr>A_Now := later\<rparr>)" if "A_Now v \<le> later" for later
    using that by (intro r_into_rtranclp access_step.quiet quiet_step.tick)
  then have "\<exists>e. fst (ResetWithRecoveryCode sample_crypto code' ''correct-horse'' (v\<lparr>A_Now := later\<rparr>)) = Inl e"
    if "A_Now v \<le> later" for code' later
    using that recovery_code_is_single_use[OF sample_crypto_ok r, of "v\<lparr>A_Now := later\<rparr>" code' "''correct-horse''"]
    by auto
  then show ?thesis using r by (intro exI[of _ "u\<lparr>A_Now := one_second\<rparr>"] exI[of _ i] exI[of _ v]) simp
qed

text \<open>C31: Five wrong codes burn the live recovery code: after any five or more wrong guesses, at
  whatever times, no code resets the password.\<close>

theorem five_wrong_guesses_burn_the_code:
  assumes "Snap_Mode (A_Snapshot s) = ModeToken" and "Rc_Code (Svc_Recovery s) \<noteq> []"
    and "Rc_Failures (Svc_Recovery s) < 5"
    and "\<forall>g\<in>set guesses. guess_of C (Rc_Code (Svc_Recovery s)) g" and "5 \<le> length guesses"
    and "validatePassword pw = None"
  shows "fst (ResetWithRecoveryCode C code pw ((attempts C guesses s)\<lparr>A_Now := later\<rparr>))
    = Inl errNoRecoveryCode"
proof -
  have "Rc_Code (Svc_Recovery (attempts C guesses s)) = []
      \<and> Snap_Mode (A_Snapshot (attempts C guesses s)) = ModeToken"
    using assms by (intro attempts_wrong) simp_all
  then show ?thesis using assms(6) by (subst dead_code_attempt) simp_all
qed

theorem five_wrong_guesses_burn_the_code_witness:
  "\<exists>u. RequestRecovery sample_service = (Inr (True, recoveryCodeTTL), u)
     \<and> fst (ResetWithRecoveryCode sample_crypto (snd (last (Svc_Printed u))) ''correct-horse''
         ((attempts sample_crypto (replicate 5 (one_second, [], ''correct-horse'')) u)\<lparr>A_Now := one_second\<rparr>))
       = Inl errNoRecoveryCode"
proof -
  obtain u where u: "RequestRecovery sample_service = (Inr (True, recoveryCodeTTL), u)"
    and f: "Snap_Mode (A_Snapshot u) = ModeToken" "Rc_Code (Svc_Recovery u) \<noteq> []"
      "Rc_Failures (Svc_Recovery u) = 0"
    using sample_issued by blast
  have g: "\<forall>g\<in>set (replicate 5 (one_second, [], ''correct-horse'')).
      guess_of sample_crypto (Rc_Code (Svc_Recovery u)) g"
    using f(2) sample_password(2) by (auto simp: guess_of_def sample_no_code)
  have "fst (ResetWithRecoveryCode sample_crypto (snd (last (Svc_Printed u))) ''correct-horse''
         ((attempts sample_crypto (replicate 5 (one_second, [], ''correct-horse'')) u)\<lparr>A_Now := one_second\<rparr>))
       = Inl errNoRecoveryCode"
    by (rule five_wrong_guesses_burn_the_code[OF f(1,2) _ g _ sample_password(2)]) (simp_all add: f(3))
  with u show ?thesis by blast
qed

text \<open>C32: Recovery codes are printed at least a minute apart, counted from the issue of the last
  one before, over any run in which token mode is not entered anew.\<close>

theorem recovery_codes_are_spaced:
  assumes "(quiet_step C)\<^sup>*\<^sup>* s t"
  shows "\<exists>new. Svc_Printed t = Svc_Printed s @ new
    \<and> spaced (Rc_IssuedAt (Svc_Recovery s) # map fst new)"
  using quiet_codes[OF assms codes_spaced_init] by (auto simp: codes_spaced_def)

theorem recovery_codes_are_spaced_witness:
  "\<exists>u. (quiet_step sample_crypto)\<^sup>*\<^sup>* sample_service u \<and> length (Svc_Printed u) = 1
     \<and> (\<exists>new. Svc_Printed u = new \<and> spaced (zero_time # map fst new))"
proof -
  obtain u where u: "(quiet_step sample_crypto)\<^sup>*\<^sup>* sample_service u" "length (Svc_Printed u) = 1"
    using sample_issued_quiet by blast
  show ?thesis
    using recovery_codes_are_spaced[OF u(1)] u
    by (auto simp: sample_service_def no_recovery_def)
qed

text \<open>C33: After a wrong password every sign-in is refused unread until the delay is over: the
  delay doubles from one second with each failure up to thirty, and no other call shortens
  it.\<close>

theorem failed_sign_in_waits:
  assumes "SignIn C pw s = (Inl (RetryAfterError (Sentinel ErrInvalidPassword) d), t)"
    and "(access_step C)\<^sup>*\<^sup>* t u" and "A_Now u < A_Now s + d"
    and "Snap_Mode (A_Snapshot u) = ModeToken"
  shows "SignIn C q u = (Inl (RetryAfterError (Sentinel ErrTooManyAttempts) (A_Now s + d - A_Now u)), u)
    \<and> Svc_SignInFailures t = Svc_SignInFailures s + 1
    \<and> d = documented_delay (Svc_SignInFailures t) one_second (30 * one_second)
    \<and> one_second \<le> d \<and> d \<le> 30 * one_second"
proof -
  note w = wrong_password[OF assms(1)]
  have n: "Svc_NextSignIn u = A_Now s + d" using waiting_steps[OF assms(2) _ assms(3)] w by simp
  have "SignIn C q u = (Inl (RetryAfterError (Sentinel ErrTooManyAttempts) (A_Now s + d - A_Now u)), u)"
    using SignIn_early[of u C q] n assms(3,4) by simp
  then show ?thesis using w by blast
qed

theorem failed_sign_in_waits_witness:
  "SignIn sample_crypto ''password'' (sample_service\<lparr>Svc_SignInFailures := 1, Svc_NextSignIn := one_second\<rparr>)
   = (Inl (RetryAfterError (Sentinel ErrTooManyAttempts) one_second),
      sample_service\<lparr>Svc_SignInFailures := 1, Svc_NextSignIn := one_second\<rparr>)"
proof -
  let ?t = "sample_service\<lparr>Svc_SignInFailures := 1, Svc_NextSignIn := one_second\<rparr>"
  have a: "A_Now ?t < A_Now sample_service + one_second" "Snap_Mode (A_Snapshot ?t) = ModeToken"
    using sample_mode by (simp_all add: one_second_def)
  from failed_sign_in_waits[OF sample_wrong_sign_in rtranclp.rtrancl_refl a] show ?thesis by simp
qed

text \<open>C34: A forgotten password can be reset: when a code is due and neither the store nor the
  random source fails, a request prints a code, and that code, typed as printed within fifteen
  minutes, stores a hash that accepts the new password and issues a session that is accepted.\<close>

theorem printed_code_resets_password:
  assumes "crypto_ok C" and "access_reached C s" and "code_due s" and "A_Faults s = []"
    and "Svc_Draws s = Inr b1 # Inr b2 # Inr b3 # ds" and "validatePassword pw = None"
    and "A_Now s \<le> later" and "later < A_Now s + recoveryCodeTTL"
  shows "\<exists>u i v. RequestRecovery s = (Inr (True, A_Now s + recoveryCodeTTL), u)
    \<and> ResetWithRecoveryCode C (snd (last (Svc_Printed u))) pw (u\<lparr>A_Now := later\<rparr>) = (Inr i, v)
    \<and> CheckSession C i v = (Inr (), v)
    \<and> (\<exists>hash at'. Db_Credentials (A_Db v) panelPasswordKind = Some (hash, at')
        \<and> verifyPassword C hash pw = Inr True)"
proof -
  have ok: "store_ok s" by (rule reached_ok[OF assms(2)])
  then have "Db_Mode (A_Db s) = ModeToken"
    using assms(3) by (simp add: store_ok_def snapshot_of_def code_due_def)
  then show ?thesis using printed_code_resets[OF assms(1) ok _ assms(4,3,5-8)] by blast
qed

theorem printed_code_resets_password_witness:
  "\<exists>u i v. RequestRecovery sample_service = (Inr (True, A_Now sample_service + recoveryCodeTTL), u)
     \<and> ResetWithRecoveryCode sample_crypto (snd (last (Svc_Printed u))) ''correct-horse''
          (u\<lparr>A_Now := one_second\<rparr>) = (Inr i, v)
     \<and> CheckSession sample_crypto i v = (Inr (), v)
     \<and> (\<exists>hash at'. Db_Credentials (A_Db v) panelPasswordKind = Some (hash, at')
        \<and> verifyPassword sample_crypto hash ''correct-horse'' = Inr True)"
  by (rule printed_code_resets_password[OF sample_crypto_ok sample_reached sample_due])
     (simp_all add: sample_service_def sample_password one_second_def recoveryCodeTTL_def)

text \<open>C35: A stored password hash accepts the password it was made of, and any other password only
  when the key derivation gives both the same key.\<close>

theorem password_hash_roundtrip:
  assumes "crypto_ok C" and "hashPassword C randomBytes pw s = (Inr hash, t)"
  shows "verifyPassword C hash pw = Inr True
    \<and> (\<exists>salt. verifyPassword C hash q = Inr (C_IDKey C q salt = C_IDKey C pw salt))"
proof -
  obtain salt where "length salt = 16" "hash = hash_text C pw salt"
    using assms(2) by (rule hashPassword_Inr)
  then show ?thesis using verify_hash_text[OF assms(1)] by auto
qed

theorem password_hash_roundtrip_witness:
  "\<exists>hash t. hashPassword sample_crypto randomBytes ''password'' sample_service = (Inr hash, t)
     \<and> verifyPassword sample_crypto hash ''password'' = Inr True"
proof -
  obtain hash t where h: "hashPassword sample_crypto randomBytes ''password'' sample_service = (Inr hash, t)"
    using sample_hash by blast
  from password_hash_roundtrip[OF sample_crypto_ok h] h show ?thesis by blast
qed

subsection \<open>Account mode\<close>

text \<open>C36: A process that starts with a single account stored confines its clients to it for its
  whole life: after setup no later choice of a mode, change of the account set or access call
  changes this. The account exists after the start; a client's request is put on it or refused, a
  list is narrowed to its rows and the rows of no account, a group list to its own group, what
  belongs to anyone else is refused as not found, no group is accepted and the account set cannot
  be changed.\<close>

theorem single_mode_confines_clients:
  assumes "Load pr s = (Inr (), u)" and "MW_Setting s = Some (singlePrefix @ acc)"
    and "Snap_Mode (A_Snapshot u) \<noteq> ModeSetup" and "(mode_step pr)\<^sup>*\<^sup>* u t" and "\<not> isSystem c"
  shows "acc \<in> set (MW_Accounts u)
    \<and> (Scope_Account (MW_Scope t) c r = Inr a \<longrightarrow> a = acc)
    \<and> (listRestriction (MW_Scope t) (Some c) r = Inr res
        \<longrightarrow> (\<forall>owner. restriction_shows res owner \<longleftrightarrow> owner = [] \<or> owner = acc))
    \<and> (visibleGroups (MW_Scope t) group_of c = Inr shown
        \<longrightarrow> (shown g \<longleftrightarrow> g \<noteq> [] \<and> group_of acc = Inr (Some g)))
    \<and> Scope_Visible (MW_Scope t) c owner
        = (if owner = [] \<or> owner = acc then None else Some (Sentinel ErrNotFound))
    \<and> (Scope_Group (MW_Scope t) c g = None \<longleftrightarrow> g = [])
    \<and> (\<exists>e. Scope_ManageAccounts (MW_Scope t) c = Some e \<and> wraps e ErrAccountsNotManaged)"
proof -
  have u: "MW_Scope u = singleAccount acc" "acc \<noteq> []" "acc \<in> set (MW_Accounts u)"
    using Load_single[OF assms(1,2)] by (simp_all add: scopeOf_def features_Accounts_def)
  then have t: "MW_Scope t = singleAccount acc"
    using mode_steps_fixed[OF assms(4)] assms(3) by (simp add: set_up_def)
  have groups: "shown g \<longleftrightarrow> g \<noteq> [] \<and> group_of acc = Inr (Some g)"
    if "visibleGroups (singleAccount acc) group_of c = Inr shown"
    using that assms(5) u(2)
    by (cases "group_of acc")
      (auto simp: visibleGroups_def singleAccount_def scope_accepts_def res_bind_def Let_def split: option.splits)
  show ?thesis
    unfolding t using single_mode_confines[OF assms(5), of "\<lparr> Features_Account = acc \<rparr>" acc r a res owner g]
      u(2,3) groups assms(5)
    by (auto simp: scopeOf_def features_Accounts_def listRestriction_def CallerFromContext_def res_bind_def
        singleAccount_def)
qed

theorem single_mode_confines_clients_witness:
  "let u = snd (Load ascii_print (sample_mode_world\<lparr>MW_Setting := Some ''single:desk''\<rparr>));
       t = snd (ApplyDuringSetup ascii_print \<lparr> ModeReq_Mode = ''multi'', ModeReq_Account = [] \<rparr> u)
   in Scope_Visible (MW_Scope t) publicCaller ''other'' = Some (Sentinel ErrNotFound)
     \<and> Scope_Visible (MW_Scope t) publicCaller ''desk'' = None"
proof -
  let ?s = "sample_mode_world\<lparr>MW_Setting := Some ''single:desk''\<rparr>"
  have p: "parse_mode ascii_print (Some ''single:desk'')
      = Inr (zero_mode_state\<lparr>AM_Mode := Some mode_single, AM_Account := ''desk''\<rparr>, \<lparr> Features_Account = ''desk'' \<rparr>)"
    using parse_single[OF ValidateAccountID_plain, of "''desk''"] by (simp add: mode_texts isPathDotSegment_def)
  then have l: "Load ascii_print ?s
      = (Inr (), ?s\<lparr>MW_Scope := scopeOf \<lparr> Features_Account = ''desk'' \<rparr>\<rparr>)"
    by (simp add: Load_def readStored_def handle_def cp_Setting_def gets_def lift_res_def andthen_def
        ensureDefaultAccount_def cp_GetAccountState_def features_Accounts_def modify_def ret_def
        sample_mode_world_def)
  let ?u = "?s\<lparr>MW_Scope := scopeOf \<lparr> Features_Account = ''desk'' \<rparr>\<rparr>"
  have m: "MW_Setting ?s = Some (singlePrefix @ ''desk'')" "Snap_Mode (A_Snapshot ?u) \<noteq> ModeSetup"
    by (simp_all add: mode_texts sample_mode_world_def)
  have "(mode_step ascii_print)\<^sup>*\<^sup>* ?u
      (snd (ApplyDuringSetup ascii_print \<lparr> ModeReq_Mode = ''multi'', ModeReq_Account = [] \<rparr> ?u))"
    by (rule r_into_rtranclp, rule mode_step.apply_setup)
  moreover have "\<not> isSystem publicCaller" by (simp add: isSystem_def publicCaller_def)
  ultimately show ?thesis using single_mode_confines_clients[OF l m] l by (simp add: Let_def)
qed

text \<open>Once setup is complete the running process keeps its account scope: no mode change,
  read, change of the account set or access call switches it.\<close>

lemma running_mode_is_fixed:
  assumes "Snap_Mode (A_Snapshot s) \<noteq> ModeSetup" and "(mode_step pr)\<^sup>*\<^sup>* s t"
  shows "MW_Scope t = MW_Scope s \<and> Snap_Mode (A_Snapshot t) \<noteq> ModeSetup"
  using mode_steps_fixed[OF assms(2)] assms(1) by (simp add: set_up_def)

lemma running_mode_is_fixed_instance:
  "\<exists>t. t = snd (ApplyDuringSetup ascii_print \<lparr> ModeReq_Mode = ''single'', ModeReq_Account = [] \<rparr>
       sample_mode_world) \<and> MW_Scope t = EveryAccount"
proof -
  let ?t = "snd (ApplyDuringSetup ascii_print \<lparr> ModeReq_Mode = ''single'', ModeReq_Account = [] \<rparr>
       sample_mode_world)"
  have "Snap_Mode (A_Snapshot sample_mode_world) \<noteq> ModeSetup" "MW_Scope sample_mode_world = EveryAccount"
    by (simp_all add: sample_mode_world_def)
  moreover have "(mode_step ascii_print)\<^sup>*\<^sup>* sample_mode_world ?t"
    by (rule r_into_rtranclp, rule mode_step.apply_setup)
  ultimately show ?thesis using running_mode_is_fixed by metis
qed

text \<open>C37: A stored mode choice is the one the next start enforces: multi-account mode gives every
  account, single-account mode the scope of one account, which exists after the start.\<close>

theorem chosen_mode_takes_effect:
  assumes "store_mode req s = (Inr f, t)" and "valid_accounts pr s"
    and "MW_Setting u = MW_Setting t" and "A_Faults u = []"
  shows "\<exists>v. Load pr u = (Inr (), v) \<and> MW_Scope v = scopeOf f
    \<and> (ModeReq_Mode req = mode_multi \<longrightarrow> MW_Scope v = EveryAccount)
    \<and> (ModeReq_Mode req = mode_single \<longrightarrow> Features_Account f \<noteq> []
        \<and> Features_Account f \<in> set (MW_Accounts v))"
  using choice_at_next_start[OF assms] .

theorem chosen_mode_takes_effect_witness:
  "\<exists>v. Load ascii_print (sample_mode_world\<lparr>MW_Setting := Some ''single:desk''\<rparr>) = (Inr (), v)
     \<and> MW_Scope v = scopeOf \<lparr> Features_Account = ''desk'' \<rparr>"
  using chosen_mode_takes_effect[OF sample_store_mode sample_valid,
      of "sample_mode_world\<lparr>MW_Setting := Some ''single:desk''\<rparr>"]
  by (auto simp: sample_mode_world_def)

subsection \<open>The engine adapter\<close>

text \<open>C38: The dictionary of the engine adapter stays one to one. Whatever entries are added,
  renamed or removed after a build, a code that resolves to an engine id is the code the id
  translates back to, for accounts and for assets, no two group codes share a group id, the
  asset index by id holds the resolved assets under the ids they are named by, and an account
  id the engine was built with stays resolvable.\<close>

theorem engine_ids_and_codes_are_inverse:
  assumes "sdk_ids_ok K" and "newIDResolver K accounts groups assets = Inr r"
    and "(resolver_step K)\<^sup>*\<^sup>* r r'"
  shows "(resolve_account r' c = Inr i \<longrightarrow> accountAlias K r' i = Inr c)
    \<and> (accountAlias K r' i = Inr c
        \<longrightarrow> (\<exists>j. resolve_account r' c = Inr j \<and> AccountHandle K j = AccountHandle K i))
    \<and> (resolve_asset r' s = Inr a \<longrightarrow> assetAlias K r' a = Inr s)
    \<and> (assetAlias K r' a = Inr s
        \<longrightarrow> (\<exists>b. resolve_asset r' s = Inr b \<and> AssetSafe K b = AssetSafe K a))
    \<and> (resolve_group r' g = Inr x \<and> resolve_group r' h = Inr y
        \<and> GroupHandle K x = GroupHandle K y \<longrightarrow> g = h)
    \<and> (assetByID r' n = Inr a \<longrightarrow> AssetSafe K a = FormatUint n \<and> (\<exists>s. resolve_asset r' s = Inr a))
    \<and> account_ids r \<subseteq> account_ids r'"
proof -
  have ok: "resolver_ok K r'"
    by (rule resolver_steps_ok[OF assms(3,1) newIDResolver_ok[OF assms(1,2)]])
  show ?thesis
    using account_code_inverse[OF ok] asset_code_inverse[OF ok] group_code_inverse[OF ok]
      asset_id_index[OF ok] account_ids_kept[OF assms(3)] by metis
qed

theorem engine_ids_and_codes_are_inverse_witness:
  "accountAlias plain_ids desk_resolver 7 = Inr ''desk''"
  using engine_ids_and_codes_are_inverse[OF plain_ids_ok desk_resolver_new rtranclp.rtrancl_refl,
      of "''desk''" 7]
  by (simp add: lookup_defs desk_resolver_def)

subsection \<open>Limits\<close>

text \<open>C39: Callers that may only tighten never loosen a limit. From a built node, whatever they
  put, delete or set, and whatever the store and the engine library answer: each stored rate
  barrier keeps its key and admits no more, no order of any account on any instrument is newly
  admitted by the order-size caps in force, no P\&L value of any account by the bound in force,
  the engine does not begin to track without limiting, and accounts stay where they are.\<close>

theorem tighten_only_limits_never_loosen:
  assumes "decimal_pkg_ok (Lib_Decimals L)" and "tables_ok L (N_Db s0)"
    and "rebuildEngineFromStore L s0 = (Inr u, s)" and "(limit_step L TightenOnly)\<^sup>*\<^sup>* s t"
  shows "(\<forall>r\<in>set (Ld_Rates (N_Db s)). \<exists>r'\<in>set (Ld_Rates (N_Db t)).
        rate_key r' = rate_key r \<and> rate_admits r' \<subseteq> rate_admits r)
    \<and> sizes_admitted (Lib_Decimals L) (view_of (N_Db t)) acc base quot
        \<subseteq> sizes_admitted (Lib_Decimals L) (view_of (N_Db s)) acc base quot
    \<and> pnl_admitted (Lib_Decimals L) (view_of (N_Db t)) (account_place (N_Db t)) axis acc
        \<subseteq> pnl_admitted (Lib_Decimals L) (view_of (N_Db s)) (account_place (N_Db s)) axis acc
    \<and> (track_only (view_of (N_Db t)) \<longrightarrow> track_only (view_of (N_Db s)))
    \<and> account_place (N_Db t) = account_place (N_Db s)"
proof -
  have "in_step L s" by (rule started_in_step[OF assms(2,3)])
  then have "no_looser_node L t s" by (rule tightening_steps[OF assms(4) _ assms(1)])
  then show ?thesis by (simp add: no_looser_node_def no_looser_view_def rates_kept_def view_of_def)
qed

theorem tighten_only_limits_never_loosen_witness:
  "sizes_admitted pair_pkg (view_of (N_Db halved_node)) ''desk'' ''SPX'' ''USD''
     \<subseteq> sizes_admitted pair_pkg (view_of (N_Db desk_node)) ''desk'' ''SPX'' ''USD''
   \<and> map Rate_MaxOrders (Ld_Rates (N_Db halved_node)) = [5]"
  using tighten_only_limits_never_loosen[OF _ desk_tables desk_rebuilt halved_step, of "''desk''" "''SPX''" "''USD''"]
  by (simp add: desk_libs_def pair_pkg_ok halved_served)

text \<open>C40: The live engine enforces what the store holds. From a built node, after any sequence of
  limit requests of any callers, with the store failing calls and the engine library refusing,
  cancelling or breaking off its calls at will, the engine runs with exactly the rate, order-size
  and P\&L settings of the stored barriers and the stored mode. The exceptions are: the fatal hook
  was called; a store call took effect and reported a failure; or a change of a rate, of an order
  size or of the mode broke off on the running engine. A P\&L change that broke off never leaves
  its settings on the running engine.\<close>

theorem live_limits_follow_the_store:
  assumes "tables_ok L (N_Db s0)" and "rebuildEngineFromStore L s0 = (Inr u, s)"
    and "(limit_step L (\<lambda>_. True))\<^sup>*\<^sup>* s t" and "N_Fatal t = []" and "N_Lost t = 0"
  shows "(\<forall>p\<in>set (Eng_Landed (N_Engine t)). SpotFundsPnlAxisOf p = None)
    \<and> (Eng_Landed (N_Engine t) = [] \<longrightarrow> enforces L (view_of (N_Db t)) (N_Engine t))"
  using limit_steps_in_step[OF assms(3) started_in_step[OF assms(1,2)]] assms(4,5)
  by (simp add: in_step_def in_force_def)

theorem live_limits_follow_the_store_witness:
  "enforces desk_libs (view_of (N_Db halved_node)) (N_Engine halved_node)
   \<and> enforces desk_libs (view_of (N_Db bound_back)) (N_Engine bound_back)"
  using live_limits_follow_the_store[OF desk_tables desk_rebuilt halved_step_any halved_fatal halved_lost] halved_landed
    live_limits_follow_the_store[OF desk_tables desk_rebuilt bound_back_step bound_back_kept(1,2)] bound_back_kept(3)
  by blast

end
